(* ===== verification/Orion_Prelude.thy ===== *)
theory Orion_Prelude
  imports Main "HOL-Library.Signed_Division"
begin

text \<open>
  Shared vocabulary of the development: C++ results that may be undefined behaviour, the
  character and number functions of the C library that the broker calls, machine-integer
  wrap-around, and the two contracts (\<open>checked_vector\<close>, \<open>codec\<close>) that many components of the
  broker implement. Strings are lists of bytes; \<open>std::string\<close> may hold a zero byte, a C string
  ends at the first one (\<open>c_str\<close>).
\<close>

named_theorems orion_defs \<open>definitions unfolded by the component proofs\<close>

section \<open>Results of C++ code\<close>

text \<open>
  \<open>UB\<close> stands for undefined behaviour: an access outside a vector or a buffer.
\<close>

datatype 'a cpp = Ret 'a | UB

fun cpp_bind :: "'a cpp \<Rightarrow> ('a \<Rightarrow> 'b cpp) \<Rightarrow> 'b cpp" where
  "cpp_bind UB f = UB"
| "cpp_bind (Ret x) f = f x"

lemma cpp_bind_Ret_iff: "cpp_bind m f = Ret y \<longleftrightarrow> (\<exists>x. m = Ret x \<and> f x = Ret y)"
  by (cases m) auto

definition vec_at :: "'a list \<Rightarrow> nat \<Rightarrow> 'a cpp" where
  "vec_at xs i = (if i < length xs then Ret (xs ! i) else UB)"

lemma vec_at_simps [simp]:
  "vec_at [] i = UB"
  "vec_at (x # xs) 0 = Ret x"
  "vec_at (x # xs) (Suc i) = vec_at xs i"
  by (simp_all add: vec_at_def)

section \<open>Characters and C strings\<close>

abbreviation NUL :: char where
  "NUL \<equiv> CHR 0x00"

definition c_str :: "string \<Rightarrow> string" where
  "c_str s = takeWhile (\<lambda>c. c \<noteq> NUL) s"

lemma c_str_no_nul [simp]: "NUL \<notin> set (c_str s)"
  by (auto simp: c_str_def dest: set_takeWhileD)

lemma c_str_id: "NUL \<notin> set s \<Longrightarrow> c_str s = s"
  by (auto simp: c_str_def takeWhile_eq_all_conv)

lemma c_str_append_nul: "NUL \<notin> set a \<Longrightarrow> c_str (a @ NUL # r) = a"
  by (induction a) (auto simp: c_str_def)

lemma c_str_idem [simp]: "c_str (c_str s) = c_str s"
  by (simp add: c_str_id)

definition in_range :: "char \<Rightarrow> char \<Rightarrow> char \<Rightarrow> bool" where
  "in_range lo hi c \<longleftrightarrow> (of_char lo :: nat) \<le> of_char c \<and> (of_char c :: nat) \<le> of_char hi"

definition is_digit :: "char \<Rightarrow> bool" where
  "is_digit c \<longleftrightarrow> in_range (CHR ''0'') (CHR ''9'') c"

definition is_upper :: "char \<Rightarrow> bool" where
  "is_upper c \<longleftrightarrow> in_range (CHR ''A'') (CHR ''Z'') c"

definition is_lower :: "char \<Rightarrow> bool" where
  "is_lower c \<longleftrightarrow> in_range (CHR ''a'') (CHR ''z'') c"

definition is_xdigit :: "char \<Rightarrow> bool" where
  "is_xdigit c \<longleftrightarrow> is_digit c \<or> in_range (CHR ''a'') (CHR ''f'') c \<or> in_range (CHR ''A'') (CHR ''F'') c"

definition is_space :: "char \<Rightarrow> bool" where
  "is_space c \<longleftrightarrow> c \<in> set [CHR '' '', CHR 0x09, CHR 0x0A, CHR 0x0B, CHR 0x0C, CHR 0x0D]"

lemmas char_class_defs = in_range_def is_digit_def is_upper_def is_lower_def is_xdigit_def is_space_def

definition to_lower :: "char \<Rightarrow> char" where
  "to_lower c = (if is_upper c then char_of (of_char c + 32 :: nat) else c)"

text \<open>\<open>strcasecmp (a, b) == 0\<close>\<close>

definition strcaseeq :: "string \<Rightarrow> string \<Rightarrow> bool" where
  "strcaseeq a b \<longleftrightarrow> map to_lower (c_str a) = map to_lower (c_str b)"

text \<open>\<open>strncmp (a, b, n) == 0\<close>: both agree on the first \<open>n\<close> bytes, or end before at the same place.\<close>

definition strneq :: "string \<Rightarrow> string \<Rightarrow> nat \<Rightarrow> bool" where
  "strneq a b n \<longleftrightarrow> take n (c_str a) = take n (c_str b)"

text \<open>\<open>std::string::find (c)\<close> and \<open>strchr\<close>: the position of the first occurrence.\<close>

fun str_find :: "char \<Rightarrow> string \<Rightarrow> nat option" where
  "str_find c [] = None"
| "str_find c (x # xs) = (if x = c then Some 0 else map_option Suc (str_find c xs))"

lemma str_find_Some: "str_find c s = Some p \<Longrightarrow> p < length s \<and> s ! p = c \<and> c \<notin> set (take p s)"
  by (induction s arbitrary: p) (auto split: if_splits)

lemma str_find_None: "str_find c s = None \<longleftrightarrow> c \<notin> set s"
  by (induction s) auto

lemma str_find_split:
  assumes "str_find c s = Some p"
  shows "s = take p s @ c # drop (Suc p) s"
  using str_find_Some [OF assms] by (metis id_take_nth_drop)

lemma str_find_append: "c \<notin> set a \<Longrightarrow> str_find c (a @ c # b) = Some (length a)"
  by (induction a) auto

section \<open>Machine integers\<close>

definition wrap32 :: "int \<Rightarrow> int" where
  "wrap32 x = (x + 2 ^ 31) mod 2 ^ 32 - 2 ^ 31"

definition wrap64 :: "int \<Rightarrow> int" where
  "wrap64 x = (x + 2 ^ 63) mod 2 ^ 64 - 2 ^ 63"

lemma wrap32_id: "- (2 ^ 31) \<le> x \<Longrightarrow> x < 2 ^ 31 \<Longrightarrow> wrap32 x = x"
  by (simp add: wrap32_def)

lemma wrap64_id: "- (2 ^ 63) \<le> x \<Longrightarrow> x < 2 ^ 63 \<Longrightarrow> wrap64 x = x"
  by (simp add: wrap64_def)

lemma wrap32_range: "- (2 ^ 31) \<le> wrap32 x \<and> wrap32 x < 2 ^ 31"
proof -
  have "0 \<le> (x + 2 ^ 31) mod 2 ^ 32" "(x + 2 ^ 31) mod 2 ^ 32 < (2::int) ^ 32"
    by (rule pos_mod_sign, simp) (rule pos_mod_bound, simp)
  then show ?thesis by (simp add: wrap32_def)
qed

section \<open>Decimal numbers\<close>

definition digit_char :: "nat \<Rightarrow> char" where
  "digit_char d = char_of (48 + d)"

definition digit_val :: "char \<Rightarrow> nat" where
  "digit_val c = of_char c - 48"

text \<open>Printing with \<open>%d\<close>.\<close>

fun nat_str :: "nat \<Rightarrow> string" where
  "nat_str n = (if n < 10 then [digit_char n] else nat_str (n div 10) @ [digit_char (n mod 10)])"

declare nat_str.simps [simp del]

definition int_str :: "int \<Rightarrow> string" where
  "int_str i = (if i < 0 then ''-'' @ nat_str (nat (- i)) else nat_str (nat i))"

text \<open>The value of a string of digits.\<close>

definition digits_val :: "string \<Rightarrow> nat" where
  "digits_val s = foldl (\<lambda>a c. 10 * a + digit_val c) 0 s"

text \<open>
  \<open>atoi\<close> of the C library: leading white space, an optional sign, digits; the value is
  that of \<open>strtol\<close>, which stops at the bounds of a 64-bit \<open>long\<close>, converted to a 32-bit \<open>int\<close>.
\<close>

definition strtol_val :: "string \<Rightarrow> int" where
  "strtol_val s =
     (let t = dropWhile is_space (c_str s);
          neg = (t \<noteq> [] \<and> hd t = CHR ''-'');
          u = (if t \<noteq> [] \<and> (hd t = CHR ''-'' \<or> hd t = CHR ''+'') then tl t else t);
          v = int (digits_val (takeWhile is_digit u))
      in max (- (2 ^ 63)) (min (2 ^ 63 - 1) (if neg then - v else v)))"

definition atoi :: "string \<Rightarrow> int" where
  "atoi s = wrap32 (strtol_val s)"

lemma of_char_digit_char: "d < 10 \<Longrightarrow> (of_char (digit_char d) :: nat) = 48 + d"
  by (simp add: digit_char_def)

lemma digit_val_digit_char [simp]: "d < 10 \<Longrightarrow> digit_val (digit_char d) = d"
  by (simp add: digit_val_def of_char_digit_char)

lemma is_digit_digit_char [simp]: "d < 10 \<Longrightarrow> is_digit (digit_char d)"
  by (simp add: char_class_defs of_char_digit_char)

lemma nat_str_digits: "list_all is_digit (nat_str n)"
proof (induction n rule: nat_str.induct)
  case (1 n)
  then show ?case by (cases "n < 10") (simp_all add: nat_str.simps [of n])
qed

lemma nat_str_nonempty [simp]: "nat_str n \<noteq> []"
  by (subst nat_str.simps) simp

lemma digits_val_snoc: "digits_val (s @ [c]) = 10 * digits_val s + digit_val c"
  by (simp add: digits_val_def)

lemma digits_val_nat_str [simp]: "digits_val (nat_str n) = n"
proof (induction n rule: nat_str.induct)
  case (1 n)
  show ?case
  proof (cases "n < 10")
    case True
    then show ?thesis by (simp add: nat_str.simps [of n] digits_val_def)
  next
    case False
    with 1 show ?thesis by (simp add: nat_str.simps [of n] digits_val_snoc)
  qed
qed

lemma is_digit_not_nul: "is_digit c \<Longrightarrow> c \<noteq> NUL"
  by (auto simp: char_class_defs)

lemma is_digit_not_space: "is_digit c \<Longrightarrow> \<not> is_space c"
  by (auto simp: char_class_defs)

lemma is_digit_not_sign: "is_digit c \<Longrightarrow> c \<noteq> CHR ''-'' \<and> c \<noteq> CHR ''+''"
  by (auto simp: char_class_defs)

lemma strtol_val_digits:
  assumes "list_all is_digit s"
  shows "strtol_val s = min (2 ^ 63 - 1) (int (digits_val s))"
proof -
  have nul: "c_str s = s"
    using assms is_digit_not_nul by (intro c_str_id) (auto simp: list_all_iff)
  have sp: "dropWhile is_space s = s"
    using assms is_digit_not_space by (cases s) auto
  have tw: "takeWhile is_digit s = s"
    using assms by (simp add: list_all_iff takeWhile_eq_all_conv)
  have sg: "s \<noteq> [] \<Longrightarrow> hd s \<noteq> CHR ''-'' \<and> hd s \<noteq> CHR ''+''"
    using assms is_digit_not_sign by (cases s) auto
  show ?thesis
    using sg by (auto simp: strtol_val_def nul sp tw Let_def)
qed

lemma atoi_nat_str: "n < 2 ^ 31 \<Longrightarrow> atoi (nat_str n) = int n"
  by (simp add: atoi_def strtol_val_digits nat_str_digits wrap32_id)

section \<open>Vectors that are checked element by element\<close>

text \<open>
  Every vector of the NGSI library has a \<open>check\<close> that runs the element check in order and
  returns the first result that is not "OK". The contract of those functions, and what a
  client may conclude from it.
\<close>

locale checked_vector =
  fixes check1 :: "'a \<Rightarrow> string" and checkV :: "'a list \<Rightarrow> string"
  assumes checkV_Nil: "checkV [] = ''OK''"
    and checkV_Cons: "checkV (x # xs) = (if check1 x = ''OK'' then checkV xs else check1 x)"
begin

lemma ok_iff: "checkV xs = ''OK'' \<longleftrightarrow> (\<forall>x\<in>set xs. check1 x = ''OK'')"
  by (induction xs) (auto simp: checkV_Nil checkV_Cons)

lemma append_check: "checkV (xs @ ys) = (if checkV xs = ''OK'' then checkV ys else checkV xs)"
  by (induction xs) (auto simp: checkV_Nil checkV_Cons)

lemma first_error:
  assumes "checkV xs \<noteq> ''OK''"
  shows "\<exists>us x vs. xs = us @ x # vs \<and> (\<forall>u\<in>set us. check1 u = ''OK'') \<and>
    check1 x \<noteq> ''OK'' \<and> checkV xs = check1 x"
  using assms
proof (induction xs)
  case Nil
  then show ?case by (simp add: checkV_Nil)
next
  case (Cons x xs)
  show ?case
  proof (cases "check1 x = ''OK''")
    case True
    with Cons obtain us y vs where "xs = us @ y # vs" "\<forall>u\<in>set us. check1 u = ''OK''"
      "check1 y \<noteq> ''OK''" "checkV xs = check1 y"
      by (auto simp: checkV_Cons)
    with True show ?thesis
      by (intro exI [of _ "x # us"] exI [of _ y] exI [of _ vs]) (simp add: checkV_Cons)
  next
    case False
    then show ?thesis
      by (intro exI [of _ "[]"] exI [of _ x] exI [of _ xs]) (simp add: checkV_Cons)
  qed
qed

end

section \<open>Encodings\<close>

text \<open>
  An encoding with its inverse on the values it is meant for; clients store encoded values
  and read them back.
\<close>

locale codec =
  fixes enc :: "'a \<Rightarrow> 'b" and dec :: "'b \<Rightarrow> 'a" and valid :: "'a \<Rightarrow> bool"
  assumes dec_enc: "valid x \<Longrightarrow> dec (enc x) = x"
begin

lemma enc_inj: "valid x \<Longrightarrow> valid y \<Longrightarrow> enc x = enc y \<Longrightarrow> x = y"
  by (metis dec_enc)

lemma enc_inj_on: "inj_on enc (Collect valid)"
  by (auto intro!: inj_onI enc_inj)

lemma map_dec_enc: "\<forall>x\<in>set xs. valid x \<Longrightarrow> map dec (map enc xs) = xs"
  by (induction xs) (auto simp: dec_enc)

lemma distinct_enc: "\<forall>x\<in>set xs. valid x \<Longrightarrow> distinct (map enc xs) = distinct xs"
  by (metis distinct_map enc_inj inj_onI)

lemma enc_mem: "valid x \<Longrightarrow> \<forall>y\<in>set xs. valid y \<Longrightarrow> enc x \<in> set (map enc xs) \<longleftrightarrow> x \<in> set xs"
  using enc_inj by auto

end

section \<open>Counting over the threads of a program\<close>

lemma sum_list_update_add:
  fixes xs :: "'a::comm_monoid_add list"
  shows "i < length xs \<Longrightarrow> sum_list (xs[i := y]) + xs ! i = sum_list xs + y"
  by (induction xs arbitrary: i) (auto simp: nth_Cons add_ac split: nat.splits)

lemma sum_list_map_update_add:
  fixes f :: "'a \<Rightarrow> 'b::comm_monoid_add"
  assumes "i < length xs"
  shows "sum_list (map f (xs[i := y])) + f (xs ! i) = sum_list (map f xs) + f y"
  using sum_list_update_add[of i "map f xs" "f y"] assms by (simp add: map_update)

lemma sum_list_two_le:
  fixes f :: "'a \<Rightarrow> nat"
  assumes "i < length xs" "j < length xs" "i \<noteq> j"
  shows "f (xs ! i) + f (xs ! j) \<le> sum_list (map f xs)"
  using assms
proof (induction xs arbitrary: i j)
  case (Cons x xs)
  show ?case
  proof (cases i)
    case 0
    then obtain k where "j = Suc k" "k < length xs" using Cons.prems by (cases j) auto
    then show ?thesis using 0 member_le_sum_list[of "f (xs ! k)" "map f xs"] by simp
  next
    case (Suc k)
    show ?thesis
    proof (cases j)
      case 0
      then show ?thesis using Suc Cons.prems member_le_sum_list[of "f (xs ! k)" "map f xs"] by simp
    next
      case (Suc l)
      then show ?thesis using \<open>i = Suc k\<close> Cons.prems Cons.IH[of k l] by simp
    qed
  qed
qed simp

end
