(* ===== verification/Common_Globals.thy ===== *)
theory Common_Globals
  imports Orion_Prelude
begin

text \<open>
  The global helpers of \<^verbatim>\<open>src/src/lib/common/globals.cpp\<close> (booleans, the clock, ISO 8601
  durations, transaction identifiers) and the two NGSI fields that hold a duration,
  \<^verbatim>\<open>ngsi/Duration.cpp\<close> and \<^verbatim>\<open>ngsi/Throttling.cpp\<close>. The 64-bit sums of
  \<open>parse8601\<close> and the 32-bit transaction counter wrap around.
\<close>

section \<open>Booleans and the clock\<close>

definition isTrue :: "string \<Rightarrow> bool" where
  "isTrue s = (if s = ''true'' \<or> s = ''1'' then True else False)"

definition isFalse :: "string \<Rightarrow> bool" where
  "isFalse s = (if s = ''false'' \<or> s = ''0'' then True else False)"

text \<open>The timer object is \<open>None\<close> before it is set; the exit function is called then.\<close>

definition getCurrentTime :: "int option \<Rightarrow> int \<times> bool" where
  "getCurrentTime timer = (case timer of None \<Rightarrow> (- 1, True) | Some t \<Rightarrow> (t, False))"

section \<open>Durations\<close>

definition toSeconds :: "int \<Rightarrow> char \<Rightarrow> bool \<Rightarrow> int" where
  "toSeconds val what dayPart =
     (if dayPart then
        (if what = CHR ''Y'' then 365 * 24 * 3600 * val
         else if what = CHR ''M'' then 30 * 24 * 3600 * val
         else if what = CHR ''W'' then 7 * 24 * 3600 * val
         else if what = CHR ''D'' then 24 * 3600 * val
         else - 1)
      else
        (if what = CHR ''H'' then 3600 * val
         else if what = CHR ''M'' then 60 * val
         else if what = CHR ''S'' then val
         else - 1))"

text \<open>
  The characters from \<open>start\<close> up to the position of the scan are the argument \<open>tok\<close>: digits only.
\<close>

fun parse8601_loop :: "string \<Rightarrow> string \<Rightarrow> bool \<Rightarrow> int \<Rightarrow> bool \<Rightarrow> int" where
  "parse8601_loop [] tok dayPart acc digitsPending = (if digitsPending then - 1 else acc)"
| "parse8601_loop (c # s) tok dayPart acc digitsPending =
     (if is_digit c then parse8601_loop s (tok @ [c]) dayPart acc True
      else if dayPart \<and> (c = CHR ''Y'' \<or> c = CHR ''M'' \<or> c = CHR ''D'' \<or> c = CHR ''W'') then
        (let v = atoi tok
         in if v = 0 \<and> (tok = [] \<or> hd tok \<noteq> CHR ''0'') then - 1
            else parse8601_loop s [] dayPart (wrap64 (acc + toSeconds v c dayPart)) False)
      else if dayPart \<and> c = CHR ''T'' then parse8601_loop s [] False acc False
      else if \<not> dayPart \<and> (c = CHR ''H'' \<or> c = CHR ''M'' \<or> c = CHR ''S'') then
        parse8601_loop s [] dayPart (wrap64 (acc + toSeconds (atoi tok) c dayPart)) False
      else - 1)"

definition parse8601 :: "string \<Rightarrow> int" where
  "parse8601 s =
     (if s = [] then - 1
      else case c_str s of
             [] \<Rightarrow> - 1
           | p # d \<Rightarrow> if p \<noteq> CHR ''P'' then - 1
                      else if d = [] then - 1
                      else parse8601_loop d [] True 0 False)"

record Duration =
  dur_string :: string
  dur_seconds :: int
  dur_used :: bool
  dur_valid :: bool

definition Duration_new :: Duration where
  "Duration_new = \<lparr>dur_string = [], dur_seconds = 0, dur_used = False, dur_valid = False\<rparr>"

definition Duration_parse :: "Duration \<Rightarrow> int \<times> Duration" where
  "Duration_parse d =
     (let sec = parse8601 (dur_string d)
      in (sec, d\<lparr>dur_seconds := sec, dur_valid := (if sec = - 1 then False else True)\<rparr>))"

definition Duration_set :: "Duration \<Rightarrow> string \<Rightarrow> Duration" where
  "Duration_set d v = snd (Duration_parse (d\<lparr>dur_string := v\<rparr>))"

definition Duration_isEmpty :: "Duration \<Rightarrow> bool" where
  "Duration_isEmpty d = (if dur_string d = [] then True else False)"

definition Duration_check :: "Duration \<Rightarrow> string \<times> Duration" where
  "Duration_check d =
     (if dur_string d = [] then (''OK'', d)
      else let (r, d') = Duration_parse d
           in if r = - 1 then (''syntax error in duration string'', d'\<lparr>dur_valid := False\<rparr>)
              else (''OK'', d'\<lparr>dur_valid := True\<rparr>))"

record Throttling =
  thr_string :: string
  thr_seconds :: int

definition Throttling_new :: Throttling where
  "Throttling_new = \<lparr>thr_string = [], thr_seconds = 0\<rparr>"

definition Throttling_parse :: "Throttling \<Rightarrow> int \<times> Throttling" where
  "Throttling_parse t = (let sec = parse8601 (thr_string t) in (sec, t\<lparr>thr_seconds := sec\<rparr>))"

definition Throttling_set :: "Throttling \<Rightarrow> string \<Rightarrow> Throttling" where
  "Throttling_set t v = t\<lparr>thr_string := v\<rparr>"

definition Throttling_isEmpty :: "Throttling \<Rightarrow> bool" where
  "Throttling_isEmpty t = (if thr_string t = [] then True else False)"

definition Throttling_check :: "Throttling \<Rightarrow> string \<times> Throttling" where
  "Throttling_check t =
     (if thr_string t = [] then (''OK'', t)
      else let (r, t') = Throttling_parse t
           in if r = - 1 then (''syntax error in throttling string'', t') else (''OK'', t'))"

section \<open>Transaction identifiers\<close>

record trans_state =
  tv_sec :: nat
  tv_usec :: nat
  transaction :: int

definition pad0 :: "nat \<Rightarrow> nat \<Rightarrow> string" where
  "pad0 w n = replicate (w - length (nat_str n)) (CHR ''0'') @ nat_str n"

text \<open>
  The identifier \<open>%lu-%03d-%011d\<close> and the new state. The counter is positive when printed.
\<close>

definition transactionIdSet :: "trans_state \<Rightarrow> string \<times> trans_state" where
  "transactionIdSet st =
     (let st1 = st\<lparr>transaction := wrap32 (transaction st + 1)\<rparr>;
          st2 = (if transaction st1 < 0
                 then st1\<lparr>tv_usec := tv_usec st1 + 1, transaction := 1\<rparr> else st1)
      in (nat_str (tv_sec st2) @ ''-'' @ pad0 3 (tv_usec st2 div 1000) @ ''-'' @
          pad0 11 (nat (transaction st2)), st2))"

text \<open>The identifiers of \<open>n\<close> calls in a row.\<close>

fun transactionIds :: "nat \<Rightarrow> trans_state \<Rightarrow> string list" where
  "transactionIds 0 st = []"
| "transactionIds (Suc n) st = fst (transactionIdSet st) # transactionIds n (snd (transactionIdSet st))"

section \<open>Scanning a duration\<close>

lemma parse8601_loop_digits:
  "list_all is_digit ds \<Longrightarrow>
     parse8601_loop (ds @ s) tok day acc p = parse8601_loop s (tok @ ds) day acc (p \<or> ds \<noteq> [])"
  by (induction ds arbitrary: tok p) auto

definition day_unit :: "char \<Rightarrow> bool" where
  "day_unit c \<longleftrightarrow> c \<in> set ''YMWD''"

definition time_unit :: "char \<Rightarrow> bool" where
  "time_unit c \<longleftrightarrow> c \<in> set ''HMS''"

lemma unit_not_digit: "day_unit c \<or> time_unit c \<Longrightarrow> \<not> is_digit c"
  by (auto simp: day_unit_def time_unit_def char_class_defs)

lemma nat_str_hd0: "nat_str 0 = ''0''"
  by (simp add: nat_str.simps digit_char_def char_of_def bit_simps)

lemma toSeconds_nonneg:
  "(if day then day_unit c else time_unit c) \<Longrightarrow> 0 \<le> v \<Longrightarrow> 0 \<le> toSeconds v c day"
  by (auto simp: toSeconds_def day_unit_def time_unit_def split: if_splits)

lemma parse8601_loop_item:
  assumes u: "if day then day_unit c else time_unit c" and n: "n < 2 ^ 31"
  shows "parse8601_loop (nat_str n @ c # s) [] day acc p =
    parse8601_loop s [] day (wrap64 (acc + toSeconds (int n) c day)) False"
proof -
  have nd: "\<not> is_digit c" using u unit_not_digit by (cases day) auto
  have nz: "atoi (nat_str n) = 0 \<Longrightarrow> hd (nat_str n) = CHR ''0''"
    using n by (simp add: atoi_nat_str nat_str_hd0)
  show ?thesis
    using u nd nz n
    by (cases day)
      (auto simp: parse8601_loop_digits nat_str_digits atoi_nat_str day_unit_def time_unit_def Let_def)
qed

definition render_items :: "(nat \<times> char) list \<Rightarrow> string" where
  "render_items its = concat (map (\<lambda>(n, c). nat_str n @ [c]) its)"

definition items_seconds :: "bool \<Rightarrow> (nat \<times> char) list \<Rightarrow> int" where
  "items_seconds day its = (\<Sum>(n, c)\<leftarrow>its. toSeconds (int n) c day)"

definition items_ok :: "bool \<Rightarrow> (nat \<times> char) list \<Rightarrow> bool" where
  "items_ok day its \<longleftrightarrow> list_all (\<lambda>(n, c). n < 2 ^ 31 \<and> (if day then day_unit c else time_unit c)) its"

lemma items_seconds_nonneg: "items_ok day its \<Longrightarrow> 0 \<le> items_seconds day its"
  unfolding items_seconds_def items_ok_def list_all_iff
  by (intro sum_list_nonneg) (auto intro!: toSeconds_nonneg)

lemma parse8601_loop_items:
  assumes "items_ok day its" and "0 \<le> acc" and "acc + items_seconds day its < 2 ^ 63"
  shows "parse8601_loop (render_items its @ s) [] day acc p =
    parse8601_loop s [] day (acc + items_seconds day its) (p \<and> its = [])"
  using assms
proof (induction its arbitrary: acc p)
  case Nil
  then show ?case by (simp add: render_items_def items_seconds_def)
next
  case (Cons it its)
  obtain n c where it: "it = (n, c)" by fastforce
  have u: "if day then day_unit c else time_unit c" and n: "n < 2 ^ 31" and ok: "items_ok day its"
    using Cons.prems(1) by (auto simp: it items_ok_def)
  have t: "0 \<le> toSeconds (int n) c day" using toSeconds_nonneg [OF u] by simp
  have sum: "items_seconds day (it # its) = toSeconds (int n) c day + items_seconds day its"
    by (simp add: it items_seconds_def)
  have w: "wrap64 (acc + toSeconds (int n) c day) = acc + toSeconds (int n) c day"
    using Cons.prems(2,3) t items_seconds_nonneg [OF ok] by (intro wrap64_id) (auto simp: sum)
  have "parse8601_loop (render_items (it # its) @ s) [] day acc p =
      parse8601_loop (render_items its @ s) [] day (acc + toSeconds (int n) c day) False"
    using parse8601_loop_item [OF u n, of "render_items its @ s" acc p]
    by (simp add: render_items_def it w)
  also have "\<dots> = parse8601_loop s [] day (acc + items_seconds day (it # its)) False"
    using Cons.IH [OF ok, of "acc + toSeconds (int n) c day" False] Cons.prems(2,3) t
    by (simp add: sum add.assoc)
  finally show ?case by simp
qed

section \<open>Identifiers\<close>

lemma digits_val_zeros: "digits_val (replicate k (CHR ''0'') @ s) = digits_val s"
  by (induction k) (simp_all add: digits_val_def digit_val_def)

lemma pad0_inj: "pad0 w m = pad0 w n \<Longrightarrow> m = n"
  using digits_val_zeros digits_val_nat_str unfolding pad0_def by metis

lemma pad0_digits: "list_all is_digit (pad0 w n)"
  using nat_str_digits [of n] by (auto simp: pad0_def list_all_iff char_class_defs)

lemma split_dash_inj:
  assumes "a @ CHR ''-'' # b = a' @ CHR ''-'' # b'" and "CHR ''-'' \<notin> set a" and "CHR ''-'' \<notin> set a'"
  shows "a = a' \<and> b = b'"
  using assms
proof (induction a arbitrary: a')
  case Nil
  then show ?case by (cases a') auto
next
  case (Cons c a)
  then show ?case by (cases a') auto
qed

lemma digits_no_dash: "list_all is_digit s \<Longrightarrow> CHR ''-'' \<notin> set s"
  by (auto simp: list_all_iff char_class_defs)

lemma transactionIdSet_step:
  assumes "0 \<le> transaction st" and "transaction st < 2 ^ 31 - 1"
  shows "snd (transactionIdSet st) = st\<lparr>transaction := transaction st + 1\<rparr>"
    and "fst (transactionIdSet st) = nat_str (tv_sec st) @ ''-'' @ pad0 3 (tv_usec st div 1000) @ ''-'' @
      pad0 11 (nat (transaction st + 1))"
  using assms by (simp_all add: transactionIdSet_def Let_def wrap32_id)

lemma transactionIds_eq:
  assumes "0 \<le> transaction st" and "transaction st + int n < 2 ^ 31"
  shows "transactionIds n st = map (\<lambda>k. nat_str (tv_sec st) @ ''-'' @ pad0 3 (tv_usec st div 1000) @ ''-'' @
      pad0 11 (nat (transaction st) + Suc k)) [0..<n]"
  using assms
proof (induction n arbitrary: st)
  case 0
  then show ?case by simp
next
  case (Suc n)
  have st: "transaction st < 2 ^ 31 - 1" using Suc.prems by simp
  note step = transactionIdSet_step [OF Suc.prems(1) st]
  have "[0..<Suc n] = 0 # map Suc [0..<n]" by (simp add: upt_conv_Cons map_Suc_upt del: upt_Suc)
  moreover have "transactionIds n (st\<lparr>transaction := transaction st + 1\<rparr>) =
      map (\<lambda>k. nat_str (tv_sec st) @ ''-'' @ pad0 3 (tv_usec st div 1000) @ ''-'' @
        pad0 11 (nat (transaction st) + Suc (Suc k))) [0..<n]"
    using Suc.prems by (subst Suc.IH) (simp_all add: nat_add_distrib)
  ultimately show ?case
    using Suc.prems(1) by (simp add: step nat_add_distrib comp_def del: upt_Suc)
qed

section \<open>Claims\<close>

text \<open>The ISO 8601 duration \<open>P[nY][nM][nW][nD]...[T[nH][nM][nS]...]\<close> composed of any items of the date
  part and any items of the time part, each number below \<open>2 ^ 31\<close>, is the sum of its items in seconds
  (a year of 365 days, a month of 30 days) as long as the sum fits in 64 bits.\<close>

theorem parse8601_value:
  assumes "items_ok True ds" and "items_ok False ts" and "ds \<noteq> [] \<or> ts \<noteq> []"
    and "items_seconds True ds + items_seconds False ts < 2 ^ 63"
  shows "parse8601 (''P'' @ render_items ds @ (if ts = [] then [] else ''T'' @ render_items ts)) =
    items_seconds True ds + items_seconds False ts"
proof -
  let ?t = "if ts = [] then [] else ''T'' @ render_items ts"
  let ?s = "render_items ds @ ?t"
  have chars: "NUL \<notin> set (render_items its)" if "items_ok b its" for b its
    using that nat_str_digits is_digit_not_nul
    by (fastforce simp: render_items_def items_ok_def list_all_iff day_unit_def time_unit_def split: if_splits)
  have nul: "c_str (''P'' @ ?s) = ''P'' @ ?s"
    using chars [OF assms(1)] chars [OF assms(2)] by (intro c_str_id) auto
  have ne: "?s \<noteq> []" using assms(3) by (cases ds) (auto simp: render_items_def split: prod.splits)
  have b: "items_seconds True ds < 2 ^ 63" and nn: "0 \<le> items_seconds True ds"
    using assms(4) items_seconds_nonneg [OF assms(2)] items_seconds_nonneg [OF assms(1)] by auto
  have "parse8601 (''P'' @ ?s) = parse8601_loop ?s [] True 0 False"
    using ne nul by (auto simp: parse8601_def)
  also have "\<dots> = parse8601_loop ?t [] True (items_seconds True ds) False"
    using b parse8601_loop_items [OF assms(1), of 0 ?t False] by simp
  also have "\<dots> = items_seconds True ds + items_seconds False ts"
  proof (cases "ts = []")
    case True
    then show ?thesis by (simp add: items_seconds_def)
  next
    case False
    then have "parse8601_loop ?t [] True (items_seconds True ds) False =
        parse8601_loop (render_items ts) [] False (items_seconds True ds) False"
      by (simp add: char_class_defs)
    then show ?thesis
      using parse8601_loop_items [OF assms(2) nn assms(4), of "[]" False] by simp
  qed
  finally show ?thesis by simp
qed

theorem parse8601_value_witness:
  "parse8601 (''P'' @ render_items [(1, CHR ''Y''), (2, CHR ''M'')] @ ''T'' @ render_items [(3, CHR ''H'')]) =
     365 * 86400 + 2 * 30 * 86400 + 3 * 3600"
  using parse8601_value [of "[(1, CHR ''Y''), (2, CHR ''M'')]" "[(3, CHR ''H'')]"]
  by (simp add: items_ok_def items_seconds_def toSeconds_def day_unit_def time_unit_def)

text \<open>A number of 32 bits or more wraps around, so a duration that \<open>Duration::check\<close> and
  \<open>Throttling::check\<close> accept can be negative.\<close>

theorem negative_duration_accepted:
  "fst (Duration_check (Duration_set Duration_new ''PT4294967294S'')) = ''OK'' \<and>
   dur_seconds (snd (Duration_check (Duration_set Duration_new ''PT4294967294S''))) = - 2 \<and>
   fst (Throttling_check (Throttling_set Throttling_new ''PT4294967294S'')) = ''OK'' \<and>
   thr_seconds (snd (Throttling_check (Throttling_set Throttling_new ''PT4294967294S''))) = - 2"
proof -
  have "list_all is_digit ''4294967294''" by (simp add: char_class_defs)
  then have a: "atoi ''4294967294'' = - 2"
    by (simp add: atoi_def strtol_val_digits digits_val_def digit_val_def wrap32_def)
  have "parse8601 ''PT4294967294S'' = parse8601_loop (''4294967294'' @ ''S'') [] False 0 False"
    by (simp add: parse8601_def c_str_def char_class_defs)
  also have "\<dots> = - 2"
    using a by (subst parse8601_loop_digits) (simp_all add: char_class_defs toSeconds_def wrap64_def)
  finally show ?thesis
    by (simp add: Duration_check_def Duration_set_def Duration_parse_def Duration_new_def Throttling_check_def
        Throttling_set_def Throttling_parse_def Throttling_new_def)
qed

text \<open>As long as the 32-bit counter does not overflow, all transaction identifiers of a broker are
  different.\<close>

theorem transactionIds_distinct:
  assumes "0 \<le> transaction st" and "transaction st + int n < 2 ^ 31"
  shows "distinct (transactionIds n st)"
proof -
  have "inj_on (\<lambda>k. nat_str (tv_sec st) @ ''-'' @ pad0 3 (tv_usec st div 1000) @ ''-'' @
      pad0 11 (nat (transaction st) + Suc k)) (set [0..<n])"
    by (rule inj_onI) (auto dest!: pad0_inj)
  then show ?thesis
    using assms by (simp add: transactionIds_eq distinct_map)
qed

theorem transactionIds_distinct_witness:
  "distinct (transactionIds 3 \<lparr>tv_sec = 1433000000, tv_usec = 5000, transaction = 0\<rparr>)"
  by (rule transactionIds_distinct) simp_all

text \<open>When the counter overflows, one microsecond is added to the start time, of which the identifier
  shows the milliseconds only: a broker whose start time ends in less than 999 microseconds issues its
  first identifier again.\<close>

theorem transactionId_repeats:
  assumes "tv_usec st mod 1000 < 999"
  shows "fst (transactionIdSet (st\<lparr>transaction := 2 ^ 31 - 1\<rparr>)) = fst (transactionIdSet (st\<lparr>transaction := 0\<rparr>))"
proof -
  have "Suc (tv_usec st) div 1000 = tv_usec st div 1000"
    using assms by (simp add: div_Suc mod_Suc)
  then show ?thesis
    by (simp add: transactionIdSet_def Let_def wrap32_def)
qed

theorem transactionId_repeats_witness:
  "fst (transactionIdSet \<lparr>tv_sec = 1433000000, tv_usec = 5000, transaction = 2 ^ 31 - 1\<rparr>) =
   fst (transactionIdSet \<lparr>tv_sec = 1433000000, tv_usec = 5000, transaction = 0\<rparr>)"
  using transactionId_repeats [of "\<lparr>tv_sec = 1433000000, tv_usec = 5000, transaction = 0\<rparr>"] by simp

end
