(* ===== verification/Clock_Sem.thy ===== *)
theory Clock_Sem
  imports Common_Globals
begin

text \<open>
  Clock arithmetic (\<open>common/clockFunctions.cpp\<close>) and the process-wide semaphores
  (\<open>common/sem.cpp\<close>): the request semaphore with its policy, the semaphore of the transaction
  id, the accumulated waiting times and the table of curl contexts. A semaphore is its value; an
  operation that would wait has no result (\<open>None\<close>), and threads are interleaved by a step relation.
\<close>

section \<open>Clock\<close>

record timespec =
  tv_sec :: int
  tv_nsec :: int

definition clock_difftime :: "timespec \<Rightarrow> timespec \<Rightarrow> timespec" where
  "clock_difftime endTime startTime =
     (let nsec = tv_nsec endTime - tv_nsec startTime;
          sec = tv_sec endTime - tv_sec startTime
      in if nsec < 0 then \<lparr>tv_sec = sec - 1, tv_nsec = nsec + 1000000000\<rparr>
         else \<lparr>tv_sec = sec, tv_nsec = nsec\<rparr>)"

definition clock_addtime :: "timespec \<Rightarrow> timespec \<Rightarrow> timespec" where
  "clock_addtime accTime diffTime =
     (let nsec = tv_nsec accTime + tv_nsec diffTime;
          sec = tv_sec accTime + tv_sec diffTime
      in if nsec \<ge> 1000000000 then \<lparr>tv_sec = sec + 1, tv_nsec = nsec - 1000000000\<rparr>
         else \<lparr>tv_sec = sec, tv_nsec = nsec\<rparr>)"

definition time_zero :: timespec where
  "time_zero = \<lparr>tv_sec = 0, tv_nsec = 0\<rparr>"

text \<open>The format \<open>%lu.%09d\<close> of \<open>snprintf\<close> into a buffer of \<open>bufLen\<close> bytes.\<close>

definition timespec_str :: "timespec \<Rightarrow> string" where
  "timespec_str t =
     nat_str (nat (tv_sec t mod 2 ^ 64)) @ ''.'' @
     (let n = wrap32 (tv_nsec t)
      in if 0 \<le> n then pad0 9 (nat n) else CHR ''-'' # pad0 8 (nat (- n)))"

definition snprintf_buf :: "nat \<Rightarrow> string \<Rightarrow> string" where
  "snprintf_buf bufLen s = take (bufLen - 1) s"

section \<open>The request semaphore and the semaphore of the transaction id\<close>

datatype SemRequestType = SemReadOp | SemWriteOp | SemReadWriteOp | SemNoneOp

record sem_state =
  reqSem :: nat
  transSem :: nat
  reqPolicy :: SemRequestType
  semTimeStatistics :: bool
  accReqSemTime :: timespec
  accTransSemTime :: timespec

text \<open>The arguments \<open>r1\<close> and \<open>r2\<close> are the results of the two calls of \<open>sem_init\<close>.\<close>

definition semInit :: "int \<Rightarrow> int \<Rightarrow> SemRequestType \<Rightarrow> bool \<Rightarrow> nat \<Rightarrow> sem_state \<Rightarrow> int \<times> sem_state" where
  "semInit r1 r2 policy semTimeStat takenInitially s =
     (if r1 = - 1 then (- 1, s)
      else let s1 = s\<lparr>reqSem := takenInitially\<rparr>
           in if r2 = - 1 then (- 1, s1)
              else (0, s1\<lparr>transSem := takenInitially, reqPolicy := policy, semTimeStatistics := semTimeStat\<rparr>))"

text \<open>
  \<open>sem_wait\<close>: the calling thread waits while the value is zero; a call that a signal interrupts
  returns -1 and leaves the value as it is.
\<close>

definition sem_wait :: "bool \<Rightarrow> nat \<Rightarrow> (int \<times> nat) option" where
  "sem_wait interrupted v =
     (if interrupted then Some (- 1, v) else if v = 0 then None else Some (0, v - 1))"

definition reqSemTake ::
  "bool \<Rightarrow> timespec \<Rightarrow> timespec \<Rightarrow> SemRequestType \<Rightarrow> sem_state \<Rightarrow> (int \<times> bool \<times> sem_state) option" where
  "reqSemTake interrupted startTime endTime reqType s =
     (if reqPolicy s = SemNoneOp then Some (- 1, False, s)
      else if reqPolicy s = SemWriteOp \<and> reqType = SemReadOp then Some (- 1, False, s)
      else if reqPolicy s = SemReadOp \<and> reqType = SemWriteOp then Some (- 1, False, s)
      else case sem_wait interrupted (reqSem s) of
             None \<Rightarrow> None
           | Some (r, v) \<Rightarrow>
               let s1 = s\<lparr>reqSem := v\<rparr>
               in Some (r, True,
                    if semTimeStatistics s
                    then s1\<lparr>accReqSemTime := clock_addtime (accReqSemTime s) (clock_difftime endTime startTime)\<rparr>
                    else s1))"

definition reqSemGive :: "bool \<Rightarrow> sem_state \<Rightarrow> int \<times> sem_state" where
  "reqSemGive semTaken s = (if semTaken = False then (0, s) else (0, s\<lparr>reqSem := reqSem s + 1\<rparr>))"

definition transSemTake :: "bool \<Rightarrow> timespec \<Rightarrow> timespec \<Rightarrow> sem_state \<Rightarrow> (int \<times> sem_state) option" where
  "transSemTake interrupted startTime endTime s =
     (case sem_wait interrupted (transSem s) of
        None \<Rightarrow> None
      | Some (r, v) \<Rightarrow>
          let s1 = s\<lparr>transSem := v\<rparr>
          in Some (r, if semTimeStatistics s
                      then s1\<lparr>accTransSemTime := clock_addtime (accTransSemTime s) (clock_difftime endTime startTime)\<rparr>
                      else s1))"

definition transSemGive :: "sem_state \<Rightarrow> int \<times> sem_state" where
  "transSemGive s = (0, s\<lparr>transSem := transSem s + 1\<rparr>)"

definition semTimeReqGet :: "sem_state \<Rightarrow> nat \<Rightarrow> string" where
  "semTimeReqGet s bufLen =
     (if semTimeStatistics s then snprintf_buf bufLen (timespec_str (accReqSemTime s))
      else snprintf_buf bufLen ''Disabled'')"

definition semTimeTransGet :: "sem_state \<Rightarrow> nat \<Rightarrow> string" where
  "semTimeTransGet s bufLen =
     (if semTimeStatistics s then snprintf_buf bufLen (timespec_str (accTransSemTime s))
      else snprintf_buf bufLen ''Disabled'')"

definition semTimeReqReset :: "sem_state \<Rightarrow> sem_state" where
  "semTimeReqReset s = s\<lparr>accReqSemTime := time_zero\<rparr>"

definition semTimeTransReset :: "sem_state \<Rightarrow> sem_state" where
  "semTimeTransReset s = s\<lparr>accTransSemTime := time_zero\<rparr>"

section \<open>Curl contexts\<close>

record curl_context =
  cc_curl :: "nat option"
  cc_pmutex :: "nat option"

record curl_state =
  contexts :: "string \<rightharpoonup> curl_context"
  contexts_mutex :: bool
  held :: "nat list"
  accCCMutexTime :: timespec

text \<open>
  The results of the library calls of one run of \<open>get_curl_context\<close>: a pointer or NULL, or the
  error code of the call on a mutex (0 when it succeeds).
\<close>

record curl_calls =
  k_curl_easy_init :: "nat option"
  k_malloc :: "nat option"
  k_mutex_init :: int
  k_lock :: int
  k_unlock :: int
  k_lock_context :: int
  k_lock_stat :: int
  k_unlock_stat :: int

definition mutex_lock :: "int \<Rightarrow> bool \<Rightarrow> (int \<times> bool) option" where
  "mutex_lock err locked =
     (if err \<noteq> 0 then Some (err, locked) else if locked then None else Some (0, True))"

definition NULL_context :: curl_context where
  "NULL_context = \<lparr>cc_curl = None, cc_pmutex = None\<rparr>"

text \<open>
  The part of \<open>get_curl_context\<close> under \<open>contexts_mutex\<close>: \<open>Inl\<close> is an early return with an error
  code, \<open>Inr\<close> the context found or created.
\<close>

definition find_curl_context ::
  "curl_calls \<Rightarrow> string \<Rightarrow> curl_state \<Rightarrow> ((int + unit) \<times> curl_context \<times> curl_state) option" where
  "find_curl_context k key s =
     (case mutex_lock (k_lock k) (contexts_mutex s) of
        None \<Rightarrow> None
      | Some (r, locked) \<Rightarrow>
          if r \<noteq> 0 then Some (Inl r, NULL_context, s)
          else
            let s1 = s\<lparr>contexts_mutex := locked\<rparr>;
                unlocked = (\<lambda>cc s2. if k_unlock k \<noteq> 0 then Some (Inl (k_unlock k), cc, s2)
                                    else Some (Inr (), cc, s2\<lparr>contexts_mutex := False\<rparr>))
            in case contexts s1 key of
                 None \<Rightarrow>
                   (case k_curl_easy_init k of
                      None \<Rightarrow> unlocked NULL_context s1
                    | Some c \<Rightarrow>
                        let cc = NULL_context\<lparr>cc_curl := Some c\<rparr>
                        in case k_malloc k of
                             None \<Rightarrow> Some (Inl (- 1), cc, s1)
                           | Some m \<Rightarrow>
                               if k_mutex_init k \<noteq> 0 then Some (Inl (k_mutex_init k), cc, s1)
                               else let cc' = cc\<lparr>cc_pmutex := Some m\<rparr>
                                    in unlocked cc' (s1\<lparr>contexts := (contexts s1)(key \<mapsto> cc')\<rparr>))
               | Some cc \<Rightarrow> unlocked cc s1)"

definition lock_curl_context ::
  "curl_calls \<Rightarrow> bool \<Rightarrow> timespec \<Rightarrow> timespec \<Rightarrow> curl_context \<Rightarrow> curl_state \<Rightarrow> (int \<times> curl_state) option" where
  "lock_curl_context k stat startTime endTime cc s =
     (case cc_pmutex cc of
        None \<Rightarrow> Some (0, s)
      | Some m \<Rightarrow>
          (case mutex_lock (k_lock_context k) (m \<in> set (held s)) of
             None \<Rightarrow> None
           | Some (r, _) \<Rightarrow>
               if r \<noteq> 0 then Some (r, s)
               else
                 let s1 = s\<lparr>held := m # held s\<rparr>
                 in if \<not> stat then Some (0, s1)
                    else case mutex_lock (k_lock_stat k) (contexts_mutex s1) of
                           None \<Rightarrow> None
                         | Some (r2, locked) \<Rightarrow>
                             if r2 \<noteq> 0 then Some (r2, s1)
                             else let s2 = s1\<lparr>contexts_mutex := locked,
                                              accCCMutexTime := clock_addtime (accCCMutexTime s1)
                                                (clock_difftime endTime startTime)\<rparr>
                                  in if k_unlock_stat k \<noteq> 0 then Some (k_unlock_stat k, s2)
                                     else Some (0, s2\<lparr>contexts_mutex := False\<rparr>)))"

definition get_curl_context ::
  "curl_calls \<Rightarrow> bool \<Rightarrow> timespec \<Rightarrow> timespec \<Rightarrow> string \<Rightarrow> curl_state \<Rightarrow> (int \<times> curl_context \<times> curl_state) option" where
  "get_curl_context k stat startTime endTime key s =
     (case find_curl_context k key s of
        None \<Rightarrow> None
      | Some (Inl r, cc, s1) \<Rightarrow> Some (r, cc, s1)
      | Some (Inr _, cc, s1) \<Rightarrow>
          (case lock_curl_context k stat startTime endTime cc s1 of
             None \<Rightarrow> None
           | Some (r, s2) \<Rightarrow> Some (r, cc, s2)))"

text \<open>The argument \<open>err\<close> is the result of \<open>pthread_mutex_unlock\<close>.\<close>

definition release_curl_context :: "int \<Rightarrow> curl_context \<Rightarrow> curl_state \<Rightarrow> int \<times> curl_context \<times> curl_state" where
  "release_curl_context err cc s =
     (let cc1 = (if cc_curl cc \<noteq> None then cc\<lparr>cc_curl := None\<rparr> else cc)
      in case cc_pmutex cc1 of
           None \<Rightarrow> (0, cc1, s)
         | Some m \<Rightarrow> if err \<noteq> 0 then (err, cc1, s)
                     else (0, cc1\<lparr>cc_pmutex := None\<rparr>, s\<lparr>held := removeAll m (held s)\<rparr>))"

definition mutexTimeCCReset :: "curl_state \<Rightarrow> curl_state" where
  "mutexTimeCCReset s = s\<lparr>accCCMutexTime := time_zero\<rparr>"

definition mutexTimeCCGet :: "bool \<Rightarrow> curl_state \<Rightarrow> nat \<Rightarrow> string" where
  "mutexTimeCCGet stat s bufLen =
     (if stat then snprintf_buf bufLen (timespec_str (accCCMutexTime s))
      else snprintf_buf bufLen ''Disabled'')"

section \<open>Clock arithmetic\<close>

definition nsecs :: "timespec \<Rightarrow> int" where
  "nsecs t = tv_sec t * 1000000000 + tv_nsec t"

definition normal_time :: "timespec \<Rightarrow> bool" where
  "normal_time t \<longleftrightarrow> 0 \<le> tv_nsec t \<and> tv_nsec t < 1000000000"

lemma clock_difftime_exact:
  "nsecs (clock_difftime e s) = nsecs e - nsecs s"
  "normal_time e \<Longrightarrow> normal_time s \<Longrightarrow> normal_time (clock_difftime e s)"
  by (auto simp: nsecs_def normal_time_def clock_difftime_def Let_def)

lemma clock_addtime_exact:
  "nsecs (clock_addtime a d) = nsecs a + nsecs d"
  "normal_time a \<Longrightarrow> normal_time d \<Longrightarrow> normal_time (clock_addtime a d)"
  by (auto simp: nsecs_def normal_time_def clock_addtime_def Let_def)

lemma normal_time_zero [simp]: "normal_time time_zero" "nsecs time_zero = 0"
  by (simp_all add: normal_time_def nsecs_def time_zero_def)

lemmas clock_exact = clock_difftime_exact clock_addtime_exact

section \<open>Requests under the request semaphore\<close>

text \<open>
  The handlers of the backend bracket their work with \<open>reqSemTake\<close> and \<open>reqSemGive\<close>. A thread is
  outside (\<open>None\<close>) or inside with its request type and the flag \<open>taken\<close> it was given. What threads do:
  one enters, its wait interrupted by a signal or not (\<open>reqSemTake\<close> reports the semaphore as taken in
  both cases); it gives back with its own flag, as all handlers do but for two exits:
  \<open>mongoDiscoverContextAvailability\<close>, a read, gives back without the flag when the scope asks for
  associations, and the default of the parameter is true; \<open>mongoUnsubscribeContext\<close>, a write, returns
  without giving back when the subscription id is empty.
\<close>

type_synonym req_threads = "(SemRequestType \<times> bool) option list"

datatype req_event =
    Enters nat SemRequestType bool
  | Gives nat
  | GivesAlways nat
  | Leaves nat

inductive req_step :: "sem_state \<times> req_threads \<Rightarrow> req_event \<Rightarrow> sem_state \<times> req_threads \<Rightarrow> bool" where
  enters: "i < length ts \<Longrightarrow> ts ! i = None \<Longrightarrow> reqSemTake interrupted t0 t1 reqType s = Some (r, taken, s')
         \<Longrightarrow> req_step (s, ts) (Enters i reqType interrupted) (s', ts[i := Some (reqType, taken)])"
| gives: "i < length ts \<Longrightarrow> ts ! i = Some (reqType, taken) \<Longrightarrow> reqSemGive taken s = (r, s')
         \<Longrightarrow> req_step (s, ts) (Gives i) (s', ts[i := None])"
| gives_always: "i < length ts \<Longrightarrow> ts ! i = Some (SemReadOp, taken) \<Longrightarrow> reqSemGive True s = (r, s')
         \<Longrightarrow> req_step (s, ts) (GivesAlways i) (s', ts[i := None])"
| leaves: "i < length ts \<Longrightarrow> ts ! i = Some (SemWriteOp, taken)
         \<Longrightarrow> req_step (s, ts) (Leaves i) (s, ts[i := None])"

inductive req_run :: "sem_state \<times> req_threads \<Rightarrow> req_event list \<Rightarrow> sem_state \<times> req_threads \<Rightarrow> bool" where
  run_Nil: "req_run x [] x"
| run_snoc: "req_run x es y \<Longrightarrow> req_step y e z \<Longrightarrow> req_run x (es @ [e]) z"

definition serialised :: "SemRequestType \<Rightarrow> SemRequestType \<Rightarrow> bool" where
  "serialised policy reqType \<longleftrightarrow>
     policy = SemReadWriteOp \<or> policy = SemWriteOp \<and> reqType \<noteq> SemReadOp
     \<or> policy = SemReadOp \<and> reqType \<noteq> SemWriteOp"

text \<open>No two requests that the policy serialises are inside together.\<close>

definition exclusive :: "SemRequestType \<Rightarrow> req_threads \<Rightarrow> bool" where
  "exclusive policy ts \<longleftrightarrow>
     (\<forall>i < length ts. \<forall>j < length ts. \<forall>a b x y. i \<noteq> j \<and> ts ! i = Some (a, x) \<and> ts ! j = Some (b, y)
        \<longrightarrow> \<not> (serialised policy a \<and> serialised policy b))"

text \<open>The events that add to the value of the semaphore without having taken from it.\<close>

fun surplus :: "SemRequestType \<Rightarrow> req_event \<Rightarrow> bool" where
  "surplus policy (Enters _ _ interrupted) = interrupted"
| "surplus policy (GivesAlways _) = (policy = SemWriteOp)"
| "surplus policy _ = False"

fun holds_req :: "(SemRequestType \<times> bool) option \<Rightarrow> nat" where
  "holds_req (Some (_, True)) = 1"
| "holds_req _ = 0"

definition req_inv :: "SemRequestType \<Rightarrow> sem_state \<times> req_threads \<Rightarrow> bool" where
  "req_inv policy x \<longleftrightarrow> (case x of (s, ts) \<Rightarrow>
     reqPolicy s = policy \<and> reqSem s + sum_list (map holds_req ts) \<le> 1 \<and>
     (\<forall>reqType taken. Some (reqType, taken) \<in> set ts \<longrightarrow> taken = serialised policy reqType))"

lemma reqSemTake_cases:
  assumes "reqSemTake i t0 t1 reqType s = Some (r, taken, s')"
  shows "reqPolicy s' = reqPolicy s" "taken = serialised (reqPolicy s) reqType"
    "\<not> i \<Longrightarrow> reqSem s' + (if taken then 1 else 0) = reqSem s"
  using assms
  by (cases "reqPolicy s"; cases reqType;
      auto simp: reqSemTake_def serialised_def sem_wait_def Let_def split: if_splits)+

lemma reqSemTake_exempt:
  "\<not> serialised (reqPolicy s) q \<Longrightarrow> reqSemTake i t0 t1 q s = Some (- 1, False, s)"
  by (cases "reqPolicy s"; cases q) (auto simp: serialised_def reqSemTake_def)

lemma req_step_policy: "req_step x e y \<Longrightarrow> reqPolicy (fst y) = reqPolicy (fst x)"
  by (induction rule: req_step.induct) (auto simp: reqSemGive_def reqSemTake_cases split: if_splits)

lemma req_run_policy: "req_run x es y \<Longrightarrow> reqPolicy (fst y) = reqPolicy (fst x)"
  by (induction rule: req_run.induct) (auto dest: req_step_policy)

lemma held_update:
  assumes "i < length ts"
  shows "ts ! i = None \<Longrightarrow> sum_list (map holds_req (ts[i := Some (q, t)])) = sum_list (map holds_req ts) + (if t then 1 else 0)"
    and "ts ! i = Some (q, t) \<Longrightarrow> sum_list (map holds_req (ts[i := None])) + (if t then 1 else 0) = sum_list (map holds_req ts)"
  using sum_list_map_update_add[OF assms, of holds_req "Some (q, t)"] sum_list_map_update_add[OF assms, of holds_req None]
  by (cases t; auto)+

lemma leaving_keeps_others: "Some x \<in> set (ts[i := None]) \<Longrightarrow> Some x \<in> set ts"
  using set_update_subset_insert by fastforce

lemma req_inv_leave:
  assumes "req_inv policy (s, ts)" "i < length ts" "ts ! i = Some (q, taken)"
    and "reqPolicy s' = reqPolicy s" "reqSem s' \<le> reqSem s + (if taken then 1 else 0)"
  shows "req_inv policy (s', ts[i := None])"
proof -
  have "reqSem s' + sum_list (map holds_req (ts[i := None])) \<le> 1"
    using held_update(2)[OF assms(2,3)] assms(1,5) by (simp add: req_inv_def)
  then show ?thesis using assms(1,4) by (auto simp: req_inv_def dest: leaving_keeps_others)
qed

lemma req_inv_step:
  "req_step x e y \<Longrightarrow> policy \<noteq> SemNoneOp \<Longrightarrow> \<not> surplus policy e \<Longrightarrow> req_inv policy x \<Longrightarrow> req_inv policy y"
proof (induction rule: req_step.induct)
  case (enters i ts interrupted t0 t1 reqType s r taken s')
  note c = reqSemTake_cases[OF enters(3)]
  have "\<not> interrupted" using enters(5) by simp
  then have "reqSem s' + sum_list (map holds_req (ts[i := Some (reqType, taken)])) \<le> 1"
    using enters(6) c(3) held_update(1)[OF enters(1,2), of reqType taken] by (simp add: req_inv_def)
  moreover have "x = Some (reqType, taken) \<or> x \<in> set ts" if "x \<in> set (ts[i := Some (reqType, taken)])" for x
    using that set_update_subset_insert by fastforce
  ultimately show ?case using enters(6) c(1,2) unfolding req_inv_def by force
next
  case (gives i ts reqType taken s r s')
  show ?case by (rule req_inv_leave[OF gives(6,1,2)]) (use gives(3) in \<open>auto simp: reqSemGive_def split: if_splits\<close>)
next
  case (gives_always i ts taken s r s')
  have "ts ! i \<in> set ts" using gives_always(1) by simp
  then have "taken" using gives_always(2,4-6) by (cases policy) (auto simp: req_inv_def serialised_def)
  then show ?case
    by (intro req_inv_leave[OF gives_always(6,1,2)]) (use gives_always(3) in \<open>auto simp: reqSemGive_def\<close>)
next
  case (leaves i ts taken s)
  show ?case by (rule req_inv_leave[OF leaves(5,1,2)]) auto
qed

lemma req_inv_run:
  "req_run x es y \<Longrightarrow> policy \<noteq> SemNoneOp \<Longrightarrow> \<forall>e \<in> set es. \<not> surplus policy e \<Longrightarrow> req_inv policy x \<Longrightarrow> req_inv policy y"
  by (induction rule: req_run.induct) (auto intro: req_inv_step)

lemma semInit_ok:
  "semInit r1 r2 policy stat 1 s0 = (0, s) \<Longrightarrow> reqPolicy s = policy \<and> reqSem s = 1"
  by (auto simp: semInit_def Let_def split: if_splits)

lemma req_inv_init:
  "semInit r1 r2 policy stat 1 s0 = (0, s) \<Longrightarrow> req_inv policy (s, replicate n None)"
  by (drule semInit_ok) (auto simp: req_inv_def sum_list_replicate)

lemma req_inv_exclusive: "req_inv policy (s, ts) \<Longrightarrow> exclusive policy ts"
proof -
  assume inv': "req_inv policy (s, ts)"
  have "False" if "i < length ts" "j < length ts" "i \<noteq> j" "ts ! i = Some (a, x)" "ts ! j = Some (b, y)"
    "serialised policy a" "serialised policy b" for i j a b x y
  proof -
    have "ts ! i \<in> set ts" "ts ! j \<in> set ts" using that(1,2) by simp_all
    then have "x" "y" using that inv' by (auto simp: req_inv_def)
    then show False using sum_list_two_le[OF that(1-3), of holds_req] that inv' by (simp add: req_inv_def)
  qed
  then show ?thesis unfolding exclusive_def by blast
qed

text \<open>A thread enters uninterrupted when the value allows it, and interrupted whatever the value.\<close>

lemma reqSemTake_enters:
  "serialised (reqPolicy s) q \<Longrightarrow> reqSem s = Suc v \<Longrightarrow> \<exists>s'. reqSemTake False t0 t1 q s = Some (0, True, s')
     \<and> reqPolicy s' = reqPolicy s \<and> reqSem s' = v"
  "serialised (reqPolicy s) q \<Longrightarrow> \<exists>s'. reqSemTake True t0 t1 q s = Some (- 1, True, s')"
  by (cases "reqPolicy s"; cases q; auto simp: serialised_def reqSemTake_def sem_wait_def Let_def)+

lemma req_run_step: "req_run x es y \<Longrightarrow> req_step y e z \<Longrightarrow> fs = es @ [e] \<Longrightarrow> req_run x fs z"
  by (simp add: req_run.run_snoc)

lemma interrupted_run:
  assumes "reqPolicy s = policy" "reqSem s = 1" "serialised policy q"
  shows "\<exists>s'. req_run (s, [None, None]) [Enters 0 q False, Enters 1 q True] (s', [Some (q, True), Some (q, True)])"
proof -
  obtain s1 where s1: "reqSemTake False time_zero time_zero q s = Some (0, True, s1)" "reqPolicy s1 = policy"
    using reqSemTake_enters(1)[of s q 0] assms by auto
  obtain s2 where s2: "reqSemTake True time_zero time_zero q s1 = Some (- 1, True, s2)"
    using reqSemTake_enters(2)[of s1 q] s1(2) assms(3) by auto
  have "req_run (s, [None, None]) [Enters 0 q False] (s1, [None, None][0 := Some (q, True)])"
    using req_step.enters[OF _ _ s1(1), of 0 "[None, None]"] by (intro req_run_step[OF req_run.run_Nil]) auto
  moreover have "req_step (s1, [Some (q, True), None]) (Enters 1 q True) (s2, [Some (q, True), None][1 := Some (q, True)])"
    using req_step.enters[OF _ _ s2, of 1 "[Some (q, True), None]"] by auto
  ultimately have "req_run (s, [None, None]) [Enters 0 q False, Enters 1 q True] (s2, [Some (q, True), Some (q, True)])"
    using req_run.run_snoc by fastforce
  then show ?thesis by blast
qed

lemma two_enter:
  assumes "reqPolicy s = policy" "reqSem s = 2" "serialised policy q" "req_run x es (s, [None, None])"
  shows "\<exists>s'. req_run x (es @ [Enters 0 q False, Enters 1 q False]) (s', [Some (q, True), Some (q, True)])"
proof -
  obtain s1 where s1: "reqSemTake False time_zero time_zero q s = Some (0, True, s1)" "reqPolicy s1 = policy" "reqSem s1 = 1"
    using reqSemTake_enters(1)[of s q 1] assms by auto
  obtain s2 where s2: "reqSemTake False time_zero time_zero q s1 = Some (0, True, s2)"
    using reqSemTake_enters(1)[of s1 q 0] s1 assms(3) by auto
  have "req_step (s, [None, None]) (Enters 0 q False) (s1, [None, None][0 := Some (q, True)])"
    using req_step.enters[OF _ _ s1(1), of 0 "[None, None]"] by auto
  then have "req_run x (es @ [Enters 0 q False]) (s1, [Some (q, True), None])"
    using req_run.run_snoc[OF assms(4)] by simp
  moreover have "req_step (s1, [Some (q, True), None]) (Enters 1 q False) (s2, [Some (q, True), None][1 := Some (q, True)])"
    using req_step.enters[OF _ _ s2, of 1 "[Some (q, True), None]"] by auto
  ultimately have "req_run x (es @ [Enters 0 q False, Enters 1 q False]) (s2, [Some (q, True), Some (q, True)])"
    using req_run.run_snoc by fastforce
  then show ?thesis by blast
qed

lemma association_run:
  assumes "reqPolicy s = SemWriteOp" "reqSem s = 1"
  shows "\<exists>s'. req_run (s, [None, None]) [Enters 0 SemReadOp False, GivesAlways 0, Enters 0 SemWriteOp False, Enters 1 SemWriteOp False]
    (s', [Some (SemWriteOp, True), Some (SemWriteOp, True)])"
proof -
  define s1 where "s1 = s\<lparr>reqSem := 2\<rparr>"
  have t: "reqSemTake False time_zero time_zero SemReadOp s = Some (- 1, False, s)"
    using assms(1) by (simp add: reqSemTake_def)
  have "req_step (s, [None, None]) (Enters 0 SemReadOp False) (s, [None, None][0 := Some (SemReadOp, False)])"
    using req_step.enters[OF _ _ t, of 0 "[None, None]"] by auto
  moreover have "req_step (s, [Some (SemReadOp, False), None]) (GivesAlways 0) (s1, [Some (SemReadOp, False), None][0 := None])"
    using assms(2) by (intro req_step.gives_always[where taken = False and r = 0]) (auto simp: reqSemGive_def s1_def)
  ultimately have "req_run (s, [None, None]) [Enters 0 SemReadOp False, GivesAlways 0] (s1, [None, None])"
    using req_run.run_snoc[OF req_run.run_snoc[OF req_run.run_Nil]] by fastforce
  from two_enter[OF _ _ _ this, of SemWriteOp SemWriteOp] show ?thesis
    using assms(1) by (simp add: s1_def serialised_def)
qed

text \<open>C32: the request semaphore after \<open>semInit\<close> with a policy, in any interleaving of any number of
  threads. As long as no wait is interrupted by a signal and, under the policy that serialises writes only,
  no discovery of associations gives back what it did not take, no two requests that the policy serialises
  are inside together, even if unsubscriptions leave without giving back. A request that the policy exempts
  enters whatever the others do. Both conditions are needed: for every request type that the policy
  serialises there is a run in which an interrupted wait lets a second request in, and under the policy
  for writes there is one in which a discovery of associations lets two writes in, without any interruption.\<close>

theorem reqSem_exclusion:
  assumes "semInit r1 r2 policy stat 1 s0 = (0, s)"
    and "req_run (s, replicate n None) es (s', ts)"
  shows "((\<forall>e \<in> set es. \<not> surplus policy e) \<longrightarrow> exclusive policy ts)
    \<and> (\<forall>i t0 t1 q. \<not> serialised policy q \<longrightarrow> reqSemTake i t0 t1 q s' = Some (- 1, False, s'))
    \<and> (\<forall>q. serialised policy q \<longrightarrow>
         (\<exists>s1. req_run (s, [None, None]) [Enters 0 q False, Enters 1 q True] (s1, [Some (q, True), Some (q, True)])))
    \<and> (policy = SemWriteOp \<longrightarrow>
         (\<exists>s2. req_run (s, [None, None])
            [Enters 0 SemReadOp False, GivesAlways 0, Enters 0 SemWriteOp False, Enters 1 SemWriteOp False]
            (s2, [Some (SemWriteOp, True), Some (SemWriteOp, True)])))"
proof -
  note i = semInit_ok[OF assms(1)]
  have "exclusive policy ts" if "\<forall>e \<in> set es. \<not> surplus policy e"
  proof (cases "policy = SemNoneOp")
    case True
    then show ?thesis by (simp add: exclusive_def serialised_def)
  next
    case False
    then show ?thesis
      using req_inv_run[OF assms(2) _ that req_inv_init[OF assms(1)]] req_inv_exclusive by blast
  qed
  moreover have "reqPolicy s' = policy" using req_run_policy[OF assms(2)] i by simp
  ultimately show ?thesis using reqSemTake_exempt interrupted_run association_run i by blast
qed

definition sem_start :: sem_state where
  "sem_start = \<lparr>reqSem = 0, transSem = 0, reqPolicy = SemNoneOp, semTimeStatistics = False,
                accReqSemTime = time_zero, accTransSemTime = time_zero\<rparr>"

definition sem_running :: sem_state where
  "sem_running = sem_start\<lparr>reqSem := 1, transSem := 1, reqPolicy := SemWriteOp\<rparr>"

lemma req_run_witness:
  "req_run (sem_running, replicate 2 None) [Enters 0 SemWriteOp False, Enters 1 SemReadOp False]
     (sem_running\<lparr>reqSem := 0\<rparr>, [Some (SemWriteOp, True), Some (SemReadOp, False)])"
proof -
  have "req_step (sem_running, [None, None]) (Enters 0 SemWriteOp False) (sem_running\<lparr>reqSem := 0\<rparr>, [None, None][0 := Some (SemWriteOp, True)])"
    by (rule req_step.enters[of _ _ _ time_zero time_zero _ _ 0])
       (simp_all add: reqSemTake_def sem_running_def sem_start_def sem_wait_def)
  moreover have "req_step (sem_running\<lparr>reqSem := 0\<rparr>, [Some (SemWriteOp, True), None]) (Enters 1 SemReadOp False)
      (sem_running\<lparr>reqSem := 0\<rparr>, [Some (SemWriteOp, True), None][1 := Some (SemReadOp, False)])"
    by (rule req_step.enters[of _ _ _ time_zero time_zero _ _ "- 1"])
       (simp_all add: reqSemTake_def sem_running_def sem_start_def sem_wait_def)
  ultimately show ?thesis
    using req_run.run_snoc[OF req_run.run_snoc[OF req_run.run_Nil]] by (fastforce simp: numeral_2_eq_2)
qed

theorem reqSem_exclusion_witness:
  "semInit 0 0 SemWriteOp False 1 sem_start = (0, sem_running) \<and>
   exclusive SemWriteOp [Some (SemWriteOp, True), Some (SemReadOp, False)] \<and>
   reqSemTake False time_zero time_zero SemReadOp (sem_running\<lparr>reqSem := 0\<rparr>) = Some (- 1, False, sem_running\<lparr>reqSem := 0\<rparr>)"
proof -
  have "semInit 0 0 SemWriteOp False 1 sem_start = (0, sem_running)"
    by (simp add: semInit_def sem_running_def sem_start_def)
  moreover have "\<not> serialised SemWriteOp SemReadOp" by (simp add: serialised_def)
  ultimately show ?thesis using reqSem_exclusion[OF _ req_run_witness, of 0 0 SemWriteOp False sem_start] by simp
qed

text \<open>An interrupted wait reports the semaphore as taken, so that giving it back raises its value.\<close>

lemma reqSem_interrupted:
  assumes "reqPolicy s = SemReadWriteOp"
  shows "\<exists>s'. reqSemTake True t0 t1 q s = Some (- 1, True, s') \<and> reqSem (snd (reqSemGive True s')) = reqSem s + 1"
  using assms by (simp add: reqSemTake_def sem_wait_def reqSemGive_def Let_def)

section \<open>Curl contexts\<close>

lemma mutex_lock_free [simp]: "mutex_lock 0 False = Some (0, True)"
  by (simp add: mutex_lock_def)

lemma mutex_lock_taken [simp]: "mutex_lock 0 True = None"
  by (simp add: mutex_lock_def)

definition calls_ok :: "curl_calls \<Rightarrow> bool" where
  "calls_ok k \<longleftrightarrow> k_lock k = 0 \<and> k_unlock k = 0 \<and> k_lock_context k = 0 \<and> k_lock_stat k = 0 \<and> k_unlock_stat k = 0"

lemma find_curl_context_found:
  assumes "calls_ok k" "contexts_mutex s = False" "contexts s key = Some cc"
  shows "find_curl_context k key s = Some (Inr (), cc, s)"
  using assms by (simp add: find_curl_context_def calls_ok_def)

lemma find_curl_context_Inr:
  assumes "calls_ok k" "contexts_mutex s = False" "find_curl_context k key s = Some (Inr u, cc, s1)"
    "cc_pmutex cc \<noteq> None"
  shows "contexts s1 key = Some cc" "contexts_mutex s1 = False" "held s1 = held s"
  using assms
  by (cases "contexts s key"; cases "k_curl_easy_init k"; cases "k_malloc k";
      auto simp: find_curl_context_def calls_ok_def NULL_context_def Let_def split: if_splits)+

lemma find_curl_context_Inl:
  assumes "calls_ok k" "find_curl_context k key s = Some (Inl r, cc, s1)"
  shows "r \<noteq> 0"
  using assms
  by (cases "contexts s key"; cases "k_curl_easy_init k"; cases "k_malloc k"; cases "contexts_mutex s";
      auto simp: find_curl_context_def calls_ok_def Let_def split: if_splits)

lemma lock_curl_context_ok:
  assumes "calls_ok k" "contexts_mutex s = False" "cc_pmutex cc = Some m"
  shows "m \<in> set (held s) \<Longrightarrow> lock_curl_context k stat t0 t1 cc s = None"
    "m \<notin> set (held s) \<Longrightarrow> \<exists>s1. lock_curl_context k stat t0 t1 cc s = Some (0, s1)
       \<and> contexts s1 = contexts s \<and> contexts_mutex s1 = False \<and> held s1 = m # held s"
  using assms by (simp_all add: lock_curl_context_def calls_ok_def Let_def)

lemma get_curl_context_ok:
  assumes "calls_ok k" "contexts_mutex s = False" "cc_pmutex cc = Some m"
    and "get_curl_context k stat t0 t1 key s = Some (0, cc, s1)"
  shows "contexts s1 key = Some cc" "contexts_mutex s1 = False" "held s1 = m # held s" "m \<notin> set (held s)"
proof -
  obtain s0 where f: "find_curl_context k key s = Some (Inr (), cc, s0)"
    and l: "lock_curl_context k stat t0 t1 cc s0 = Some (0, s1)"
    using assms(4) find_curl_context_Inl[OF assms(1)]
    by (auto simp: get_curl_context_def split: option.splits sum.splits)
  note i = find_curl_context_Inr[OF assms(1,2) f]
  have i': "contexts s0 key = Some cc" "contexts_mutex s0 = False" "held s0 = held s"
    using i assms(3) by simp_all
  show m: "m \<notin> set (held s)"
    using lock_curl_context_ok(1)[OF assms(1) i'(2) assms(3), of stat t0 t1] l i'(3) by auto
  show "contexts s1 key = Some cc" "contexts_mutex s1 = False" "held s1 = m # held s"
    using lock_curl_context_ok(2)[OF assms(1) i'(2) assms(3), of stat t0 t1] l i' m by auto
qed

text \<open>A context is handed to one caller at a time: while a caller holds the context of a key,
  another call for that key waits; once it is released, the next call gets the same curl handle
  and the same mutex, without creating a new one.\<close>

theorem curl_context_exclusive:
  assumes "calls_ok k" "calls_ok k'"
    and "get_curl_context k stat t0 t1 key s = Some (0, cc, s1)"
    and "contexts_mutex s = False" "cc_pmutex cc = Some m" "cc_curl cc \<noteq> None"
  shows "get_curl_context k' stat' u0 u1 key s1 = None
    \<and> (\<exists>s2 s3. release_curl_context 0 cc s1 = (0, NULL_context, s2)
         \<and> get_curl_context k' stat' u0 u1 key s2 = Some (0, cc, s3) \<and> contexts s3 = contexts s1)"
proof -
  note g = get_curl_context_ok[OF assms(1,4,5,3)]
  define s2 where "s2 = s1\<lparr>held := removeAll m (held s1)\<rparr>"
  have "get_curl_context k' stat' u0 u1 key s1 = None"
    using find_curl_context_found[OF assms(2) g(2) g(1)] lock_curl_context_ok(1)[OF assms(2) g(2) assms(5)] g(3)
    by (simp add: get_curl_context_def)
  moreover have "release_curl_context 0 cc s1 = (0, NULL_context, s2)"
    using assms(5,6) by (simp add: release_curl_context_def s2_def NULL_context_def)
  moreover have "\<exists>s3. get_curl_context k' stat' u0 u1 key s2 = Some (0, cc, s3) \<and> contexts s3 = contexts s1"
    using find_curl_context_found[OF assms(2), of s2 key cc] g
      lock_curl_context_ok(2)[OF assms(2) _ assms(5), of s2 stat' u0 u1]
    by (auto simp: get_curl_context_def s2_def)
  ultimately show ?thesis by blast
qed

definition curl_calls0 :: curl_calls where
  "curl_calls0 = \<lparr>k_curl_easy_init = Some 7, k_malloc = Some 8, k_mutex_init = 0, k_lock = 0, k_unlock = 0,
                  k_lock_context = 0, k_lock_stat = 0, k_unlock_stat = 0\<rparr>"

definition curl_state0 :: curl_state where
  "curl_state0 = \<lparr>contexts = Map.empty, contexts_mutex = False, held = [], accCCMutexTime = time_zero\<rparr>"

definition curl_state1 :: curl_state where
  "curl_state1 = curl_state0\<lparr>contexts := [''host:80'' \<mapsto> \<lparr>cc_curl = Some 7, cc_pmutex = Some 8\<rparr>], held := [8]\<rparr>"

theorem curl_context_exclusive_witness:
  "get_curl_context curl_calls0 False time_zero time_zero ''host:80'' curl_state0
     = Some (0, \<lparr>cc_curl = Some 7, cc_pmutex = Some 8\<rparr>, curl_state1)
   \<and> get_curl_context curl_calls0 False time_zero time_zero ''host:80'' curl_state1 = None"
proof -
  have g: "get_curl_context curl_calls0 False time_zero time_zero ''host:80'' curl_state0
     = Some (0, \<lparr>cc_curl = Some 7, cc_pmutex = Some 8\<rparr>, curl_state1)"
    by (simp add: get_curl_context_def find_curl_context_def lock_curl_context_def NULL_context_def
        curl_calls0_def curl_state0_def curl_state1_def Let_def)
  have "calls_ok curl_calls0" "contexts_mutex curl_state0 = False"
    by (simp_all add: calls_ok_def curl_calls0_def curl_state0_def)
  then show ?thesis using g curl_context_exclusive[OF _ _ g, of curl_calls0 8 False time_zero time_zero] by simp
qed

text \<open>When the memory for a new mutex is missing, \<open>get_curl_context\<close> returns with the mutex of
  the table still locked: from then on every call, for any key, waits for ever.\<close>

theorem curl_contexts_deadlock:
  assumes "k_lock k = 0" "k_malloc k = None \<or> k_mutex_init k \<noteq> 0" "k_curl_easy_init k = Some c"
    and "contexts s key = None" "contexts_mutex s = False"
  shows "\<exists>r cc s1. get_curl_context k stat t0 t1 key s = Some (r, cc, s1) \<and> r \<noteq> 0
    \<and> (\<forall>k' key'. k_lock k' = 0 \<longrightarrow> get_curl_context k' stat t0 t1 key' s1 = None)"
  using assms
  by (cases "k_malloc k") (auto simp: get_curl_context_def find_curl_context_def Let_def)

theorem curl_contexts_deadlock_witness:
  "\<exists>r cc s1. get_curl_context (curl_calls0\<lparr>k_malloc := None\<rparr>) False time_zero time_zero ''h'' curl_state0 = Some (r, cc, s1)
    \<and> get_curl_context curl_calls0 False time_zero time_zero ''other'' s1 = None"
  using curl_contexts_deadlock[of "curl_calls0\<lparr>k_malloc := None\<rparr>" 7 curl_state0 "''h''" False time_zero time_zero]
  by (auto simp: curl_calls0_def curl_state0_def)

end
