(* ===== verification/Common_String.thy ===== *)
theory Common_String
  imports Complex_Main Orion_Prelude
begin

text \<open>
  The string library of the broker: \<^verbatim>\<open>src/src/lib/common/string.cpp\<close>,
  \<^verbatim>\<open>common/wsStrip.cpp\<close> and \<^verbatim>\<open>parse/forbiddenChars.cpp\<close>. Output arguments
  passed by reference are threaded through as arguments and results; buffers are lists whose length
  is the size of the buffer, and a write outside one is \<open>UB\<close>. A \<open>double\<close> is a rational number;
  the rounding of \<open>atof\<close> to a double is the argument \<open>rnd\<close> of the functions that convert.
\<close>

section \<open>White space and forbidden characters\<close>

definition ws_char :: "char \<Rightarrow> bool" where
  "ws_char c \<longleftrightarrow> c = CHR '' '' \<or> c = CHR 0x09 \<or> c = CHR 0x0A"

text \<open>
  The loop at the end never removes the first character of what is left: it is not white
  space.
\<close>

definition wsStrip :: "string \<Rightarrow> string" where
  "wsStrip s = (let t = dropWhile ws_char (c_str s) in rev (dropWhile ws_char (rev t)))"

fun onlyWs :: "string \<Rightarrow> bool" where
  "onlyWs [] = True"
| "onlyWs (c # s) = (if c = NUL then True
     else if c \<noteq> CHR '' '' \<and> c \<noteq> CHR 0x09 \<and> c \<noteq> CHR 0x0A then False else onlyWs s)"

text \<open>The null pointer is \<open>None\<close>.\<close>

fun forbiddenChars_loop :: "string \<Rightarrow> bool" where
  "forbiddenChars_loop [] = False"
| "forbiddenChars_loop (c # s) =
     (if c = NUL then False
      else if c = CHR ''<'' \<or> c = CHR ''>'' \<or> c = CHR 0x22 \<or> c = CHR 0x27 \<or> c = CHR ''='' \<or>
              c = CHR '';'' \<or> c = CHR ''('' \<or> c = CHR '')'' then True
      else forbiddenChars_loop s)"

definition forbiddenChars :: "string option \<Rightarrow> bool" where
  "forbiddenChars s = (case s of None \<Rightarrow> False | Some t \<Rightarrow> forbiddenChars_loop t)"

section \<open>Splitting\<close>

text \<open>
  \<open>stringSplit\<close> overwrites each delimiter in a copy of the string by a zero byte, counting
  the components, and then walks over the copy component by component.
\<close>

fun stringSplit_zero :: "char \<Rightarrow> string \<Rightarrow> nat \<Rightarrow> string \<times> nat" where
  "stringSplit_zero d [] n = ([], n)"
| "stringSplit_zero d (c # s) n =
     (if c = d then (let (t, m) = stringSplit_zero d s (Suc n) in (NUL # t, m))
      else (let (t, m) = stringSplit_zero d s n in (c # t, m)))"

fun stringSplit_pick :: "nat \<Rightarrow> string \<Rightarrow> string list" where
  "stringSplit_pick 0 start = []"
| "stringSplit_pick (Suc n) start =
     takeWhile (\<lambda>c. c \<noteq> NUL) start #
     stringSplit_pick n (drop (Suc (length (takeWhile (\<lambda>c. c \<noteq> NUL) start))) start)"

definition stringSplit :: "string \<Rightarrow> char \<Rightarrow> string list \<Rightarrow> nat \<times> string list" where
  "stringSplit inp delimiter outV =
     (let s = dropWhile (\<lambda>c. c = delimiter) (c_str inp)
      in if s = [] then (0, outV)
         else let (buf, components) = stringSplit_zero delimiter s 1
              in (components, outV @ stringSplit_pick components buf))"

text \<open>What the function is meant to compute: the pieces between the delimiters.\<close>

fun split_on :: "char \<Rightarrow> string \<Rightarrow> string list" where
  "split_on d [] = [[]]"
| "split_on d (c # s) = (if c = d then [] # split_on d s
     else (case split_on d s of [] \<Rightarrow> [[c]] | p # ps \<Rightarrow> (c # p) # ps))"

section \<open>IPv6 addresses and URLs\<close>

definition checkGroupIPv6 :: "string \<Rightarrow> bool" where
  "checkGroupIPv6 inp =
     (if inp = [] then False
      else if inp = '':'' then True
      else if length inp > 5 then False
      else list_all is_xdigit (butlast inp))"

function isIPv6_loop :: "string \<Rightarrow> nat \<Rightarrow> nat option" where
  "isIPv6_loop staux cont =
     (case str_find (CHR '':'') staux of
        None \<Rightarrow> Some cont
      | Some pos \<Rightarrow>
          if \<not> checkGroupIPv6 (take (pos + 1) staux) then None
          else isIPv6_loop (drop (pos + 1) staux) (cont + 1))"
  by pat_completeness auto
termination
  by (relation "measure (\<lambda>(s, _). length s)") (auto dest: str_find_Some)

declare isIPv6_loop.simps [simp del]

definition isIPv6 :: "string \<Rightarrow> bool" where
  "isIPv6 inp = (case isIPv6_loop inp 0 of None \<Rightarrow> False | Some cont \<Rightarrow> cont > 1 \<and> cont < 8)"

function getIPv6Port_loop :: "string \<Rightarrow> string \<Rightarrow> string \<times> string" where
  "getIPv6Port_loop res staux =
     (case str_find (CHR '':'') staux of
        None \<Rightarrow> (res, staux)
      | Some pos \<Rightarrow> getIPv6Port_loop (res @ take (pos + 1) staux) (drop (pos + 1) staux))"
  by pat_completeness auto
termination
  by (relation "measure (\<lambda>(_, s). length s)") (auto dest: str_find_Some)

declare getIPv6Port_loop.simps [simp del]

definition getIPv6Port :: "string \<Rightarrow> string \<times> string \<Rightarrow> bool \<times> string \<times> string" where
  "getIPv6Port inp out =
     (let (res, staux) = getIPv6Port_loop [] inp
      in if res = [] then (False, out)
         else (isIPv6 res, take (length res - 1) res, staux))"

record url =
  u_host :: string
  u_port :: int
  u_path :: string
  u_protocol :: string

definition parseUrl_host :: "string list \<Rightarrow> url \<Rightarrow> (bool \<times> url) cpp" where
  "parseUrl_host urlTokens out =
     cpp_bind (vec_at urlTokens 2) (\<lambda>tok2.
       case getIPv6Port tok2 ([], []) of
         (True, auxIp, auxPort) \<Rightarrow> Ret (True, out\<lparr>u_host := auxIp, u_port := atoi auxPort\<rparr>)
       | (False, _) \<Rightarrow>
           (let (components, hostTokens) = stringSplit tok2 (CHR '':'') []
            in if components > 2 then Ret (False, out)
               else cpp_bind (vec_at hostTokens 0) (\<lambda>host.
                 if components = 2
                 then cpp_bind (vec_at hostTokens 1) (\<lambda>p.
                   Ret (True, out\<lparr>u_host := host, u_port := atoi p\<rparr>))
                 else cpp_bind (vec_at urlTokens 0) (\<lambda>t0.
                   Ret (True, out\<lparr>u_host := host,
                     u_port := (if t0 = ''https:'' then 443 else 80)\<rparr>)))))"

definition parseUrl :: "string \<Rightarrow> url \<Rightarrow> (bool \<times> url) cpp" where
  "parseUrl u out =
     (if u = [] then Ret (False, out)
      else let (components, urlTokens) = stringSplit u (CHR ''/'') []
        in cpp_bind (vec_at urlTokens 0) (\<lambda>proto.
          let out1 = out\<lparr>u_protocol := proto\<rparr>
          in if components < 3 \<or> (components = 3 \<and> length (urlTokens ! 2) = 0)
             then Ret (False, out1)
             else let path = concat (map (\<lambda>t. ''/'' @ t) (drop 3 urlTokens));
                      path' = (if path = [] then ''/'' else path)
                  in parseUrl_host urlTokens (out1\<lparr>u_path := path'\<rparr>)))"

section \<open>Uptime\<close>

definition parsedUptime :: "int \<Rightarrow> string" where
  "parsedUptime uptime =
     (let minutes = uptime sdiv 60; seconds = uptime smod 60;
          hours = minutes sdiv 60; minutes' = minutes smod 60;
          days = hours sdiv 24; hours' = hours smod 24
      in int_str days @ '' d, '' @ int_str hours' @ '' h, '' @ int_str minutes' @ '' m, '' @
         int_str seconds @ '' s'')"

section \<open>Numbers and coordinates\<close>

text \<open>The exact value of \<open>[sign] digits [. digits]\<close>, which \<open>atof\<close> rounds to a double.\<close>

definition dec_val :: "string \<Rightarrow> rat" where
  "dec_val s =
     (let neg = (s \<noteq> [] \<and> hd s = CHR ''-'');
          u = (if s \<noteq> [] \<and> (hd s = CHR ''-'' \<or> hd s = CHR ''+'') then tl s else s);
          ip = takeWhile is_digit u;
          r = dropWhile is_digit u;
          fp = (if r \<noteq> [] \<and> hd r = CHR ''.'' then takeWhile is_digit (tl r) else []);
          v = of_nat (digits_val ip) + of_nat (digits_val fp) / 10 ^ length fp
      in if neg then - v else v)"

definition atoF :: "(rat \<Rightarrow> rat) \<Rightarrow> string \<Rightarrow> string + rat" where
  "atoF rnd s =
     (if s = [] then Inl ''empty string''
      else
        let signed = (hd s = CHR ''-'' \<or> hd s = CHR ''+'');
            cP = (if signed then tl s else s)
        in if signed \<and> (cP = [] \<or> (\<not> is_digit (hd cP) \<and> hd cP \<noteq> CHR ''.''))
           then Inl ''non-digit after unary minus/plus''
           else if cP \<noteq> [] \<and> last cP = CHR ''.''
           then Inl ''last character in a double cannot be a dot''
           else if count_list cP (CHR ''.'') > 1 then Inl ''more than one dot''
           else if \<not> list_all (\<lambda>c. c = CHR ''.'' \<or> is_digit c) cP
           then Inl ''invalid characters in string to convert''
           else Inr (rnd (dec_val s)))"

definition string2coords :: "(rat \<Rightarrow> rat) \<Rightarrow> string \<Rightarrow> rat \<Rightarrow> rat \<Rightarrow> bool \<times> rat \<times> rat" where
  "string2coords rnd s latitude longitude =
     (let cP = wsStrip s in
      case str_find (CHR '','') cP of
        None \<Rightarrow> (False, latitude, longitude)
      | Some p \<Rightarrow>
          let number1 = wsStrip (take p cP); number2 = wsStrip (drop (Suc p) cP);
              (ret, lat, lon) =
                (case atoF rnd number1 of
                   Inl _ \<Rightarrow> (False, latitude, longitude)
                 | Inr la \<Rightarrow> (case atoF rnd number2 of
                      Inl _ \<Rightarrow> (False, latitude, longitude)
                    | Inr lo \<Rightarrow> (True, la, lo)))
          in if lat > 90 \<or> lat < - 90 then (False, lat, lon)
             else if lon > 180 \<or> lon < - 180 then (False, lat, lon)
             else (ret, lat, lon))"

section \<open>Versions\<close>

definition versionParse :: "string \<Rightarrow> int \<times> int \<times> string \<Rightarrow> bool \<times> int \<times> int \<times> string" where
  "versionParse version out =
     (let (mayor, minor, bugFix) = out; s = wsStrip version in
      case str_find (CHR ''.'') s of
        None \<Rightarrow> (False, mayor, minor, bugFix)
      | Some p \<Rightarrow>
          let m = wsStrip (take p s); mayor' = atoi m; r = drop (Suc p) s
          in if \<not> list_all is_digit m then (False, mayor', minor, bugFix)
             else (case str_find (CHR ''.'') r of
                 None \<Rightarrow> let n = wsStrip r
                         in (list_all is_digit n, mayor', atoi n, '''')
               | Some q \<Rightarrow> let n = wsStrip (take q r)
                           in if \<not> list_all is_digit n then (False, mayor', atoi n, bugFix)
                              else (True, mayor', atoi n, wsStrip (drop (Suc q) r))))"

section \<open>Copies into buffers\<close>

definition buf_set :: "char list \<Rightarrow> nat \<Rightarrow> char \<Rightarrow> char list cpp" where
  "buf_set buf i c = (if i < length buf then Ret (buf[i := c]) else UB)"

fun strToLower_loop :: "char list \<Rightarrow> nat \<Rightarrow> string \<Rightarrow> char list cpp" where
  "strToLower_loop to ix [] = buf_set to ix NUL"
| "strToLower_loop to ix (c # cs) =
     cpp_bind (buf_set to ix (to_lower c)) (\<lambda>to'. strToLower_loop to' (Suc ix) cs)"

definition strToLower :: "char list \<Rightarrow> string \<Rightarrow> char list cpp" where
  "strToLower to frm =
     (let f = c_str frm; toSize = length to;
          fromSize = (if toSize < length f + 1 then toSize else length f)
      in strToLower_loop to 0 (take fromSize f))"

definition snprintf_s :: "char list \<Rightarrow> nat \<Rightarrow> string \<Rightarrow> char list cpp" where
  "snprintf_s to toLen s =
     (if toLen = 0 then Ret to
      else let w = take (toLen - 1) (c_str s) @ [NUL]
           in if length w \<le> length to then Ret (w @ drop (length w) to) else UB)"

text \<open>\<open>None\<close> is the endless loop on an empty \<open>oldString\<close>.\<close>

function strReplace_loop ::
  "char list \<Rightarrow> nat \<Rightarrow> nat \<Rightarrow> string \<Rightarrow> string \<Rightarrow> string \<Rightarrow> char list cpp option" where
  "strReplace_loop to toLen toIx frm old new =
     (if frm = [] then Some (buf_set to toIx NUL)
      else if take (length old) frm = old then
        (if old = [] then None
         else case snprintf_s to toLen new of
             UB \<Rightarrow> Some UB
           | Ret to' \<Rightarrow> strReplace_loop to' toLen (toIx + length new) (drop (length old) frm) old new)
      else case buf_set to toIx (hd frm) of
             UB \<Rightarrow> Some UB
           | Ret to' \<Rightarrow> strReplace_loop to' toLen (toIx + 1) (tl frm) old new)"
  by pat_completeness auto
termination
  by (relation "measure (\<lambda>(_, _, _, f, _, _). length f)") (auto simp: neq_Nil_conv)

declare strReplace_loop.simps [simp del]

definition strReplace ::
  "char list \<Rightarrow> nat \<Rightarrow> string \<Rightarrow> string \<Rightarrow> string \<Rightarrow> char list cpp option" where
  "strReplace to toLen frm oldString newString =
     strReplace_loop to toLen 0 (c_str frm) (c_str oldString) (c_str newString)"

section \<open>Service path characters\<close>

fun servicePathCheck_loop :: "string \<Rightarrow> string" where
  "servicePathCheck_loop [] = ''OK''"
| "servicePathCheck_loop (c # s) =
     (if is_upper c then servicePathCheck_loop s
      else if is_lower c then servicePathCheck_loop s
      else if is_digit c then servicePathCheck_loop s
      else if c = CHR ''_'' then servicePathCheck_loop s
      else if c = CHR ''/'' then servicePathCheck_loop s
      else ''Bad Character in Service-Path'')"

definition servicePathCheck :: "string option \<Rightarrow> string" where
  "servicePathCheck p =
     (case p of None \<Rightarrow> ''No Service Path''
      | Some s \<Rightarrow> if c_str s = [] then ''Empty Service Path'' else servicePathCheck_loop (c_str s))"

section \<open>Properties of the scanners\<close>

lemma stringSplit_zero_eq:
  "stringSplit_zero d s n = (map (\<lambda>c. if c = d then NUL else c) s, n + count_list s d)"
  by (induction s arbitrary: n) auto

lemma split_on_nonempty [simp]: "split_on d s \<noteq> []"
  by (induction s) (auto split: list.splits)

lemma length_split_on: "length (split_on d s) = Suc (count_list s d)"
  by (induction s) (auto split: list.splits)

lemma stringSplit_pick_eq:
  assumes "NUL \<notin> set s"
  shows "stringSplit_pick (Suc (count_list s d)) (map (\<lambda>c. if c = d then NUL else c) s) = split_on d s"
  using assms
proof (induction s)
  case Nil
  then show ?case by simp
next
  case (Cons c s)
  then have IH: "stringSplit_pick (Suc (count_list s d)) (map (\<lambda>c. if c = d then NUL else c) s) = split_on d s"
    by simp
  show ?case
  proof (cases "c = d")
    case True
    with IH show ?thesis by simp
  next
    case False
    with Cons.prems IH show ?thesis by (auto split: list.splits)
  qed
qed

lemma stringSplit_eq:
  "stringSplit s d out =
     (let t = dropWhile (\<lambda>c. c = d) (c_str s)
      in if t = [] then (0, out) else (length (split_on d t), out @ split_on d t))"
proof -
  have "NUL \<notin> set (dropWhile (\<lambda>c. c = d) (c_str s))"
    using c_str_no_nul set_dropWhileD by metis
  then show ?thesis
    using stringSplit_pick_eq [of "dropWhile (\<lambda>c. c = d) (c_str s)" d]
    by (simp add: stringSplit_def stringSplit_zero_eq Let_def length_split_on del: stringSplit_pick.simps)
qed

fun join_with :: "char \<Rightarrow> string list \<Rightarrow> string" where
  "join_with d [] = []"
| "join_with d [p] = p"
| "join_with d (p # q # ps) = p @ d # join_with d (q # ps)"

lemma join_with_Cons: "ps \<noteq> [] \<Longrightarrow> join_with d (p # ps) = p @ d # join_with d ps"
  by (cases ps) auto

lemma join_with_head: "join_with d ((c # p) # ps) = c # join_with d (p # ps)"
  by (cases ps) auto

lemma join_split_on: "join_with d (split_on d s) = s"
  by (induction s) (auto split: list.splits simp: join_with_Cons join_with_head)

lemma split_on_pieces: "p \<in> set (split_on d s) \<Longrightarrow> d \<notin> set p \<and> set p \<subseteq> set s"
proof (induction s arbitrary: p)
  case Nil
  then show ?case by simp
next
  case (Cons c s)
  then show ?case
    by (cases "split_on d s") (force split: if_splits)+
qed

lemma split_on_none: "d \<notin> set s \<Longrightarrow> split_on d s = [s]"
  by (induction s) auto

lemma split_on_append: "d \<notin> set a \<Longrightarrow> split_on d (a @ d # b) = a # split_on d b"
  by (induction a) auto

lemma split_on_join: "ps \<noteq> [] \<Longrightarrow> \<forall>p\<in>set ps. d \<notin> set p \<Longrightarrow> split_on d (join_with d ps) = ps"
proof (induction ps rule: join_with.induct)
  case (2 d p)
  then show ?case by (simp add: split_on_none)
next
  case (3 d p q ps)
  then show ?case by (simp add: split_on_append)
qed simp

lemma forbiddenChars_loop_iff:
  "forbiddenChars_loop s \<longleftrightarrow> (\<exists>c\<in>set (c_str s). c \<in> set [CHR ''<'', CHR ''>'', CHR 0x22, CHR 0x27,
     CHR ''='', CHR '';'', CHR ''('', CHR '')''])"
  by (induction s) (auto simp: c_str_def)

lemma servicePathCheck_loop_OK:
  "servicePathCheck_loop s = ''OK'' \<longleftrightarrow>
     list_all (\<lambda>c. is_upper c \<or> is_lower c \<or> is_digit c \<or> c = CHR ''_'' \<or> c = CHR ''/'') s"
  by (induction s) auto

lemma onlyWs_iff: "onlyWs s \<longleftrightarrow> list_all ws_char (c_str s)"
  by (induction s) (auto simp: c_str_def ws_char_def)

section \<open>Stripping\<close>

lemma set_wsStrip: "set (wsStrip s) \<subseteq> set (c_str s)"
  by (auto simp: wsStrip_def Let_def dest!: set_dropWhileD)

lemma wsStrip_no_nul: "NUL \<notin> set (wsStrip s)"
  using set_wsStrip [of s] c_str_no_nul [of s] by blast

lemma wsStrip_id:
  assumes "NUL \<notin> set s" and "s \<noteq> [] \<Longrightarrow> \<not> ws_char (hd s)" and "s \<noteq> [] \<Longrightarrow> \<not> ws_char (last s)"
  shows "wsStrip s = s"
proof (cases "s = []")
  case True
  then show ?thesis by (simp add: wsStrip_def c_str_def)
next
  case False
  then have "dropWhile ws_char s = s" using assms(2) by (cases s) auto
  moreover have "dropWhile ws_char (rev s) = rev s"
    using False assms(3) by (cases s rule: rev_cases) auto
  ultimately show ?thesis by (simp add: wsStrip_def c_str_id assms(1))
qed

lemma wsStrip_digits: "list_all is_digit s \<Longrightarrow> wsStrip s = s"
proof -
  assume d: "list_all is_digit s"
  have nw: "is_digit c \<Longrightarrow> \<not> ws_char c" for c by (auto simp: ws_char_def char_class_defs)
  show "wsStrip s = s"
  proof (rule wsStrip_id)
    show "NUL \<notin> set s" using d is_digit_not_nul by (auto simp: list_all_iff)
    show "s \<noteq> [] \<Longrightarrow> \<not> ws_char (hd s)" using d nw by (cases s) auto
    show "s \<noteq> [] \<Longrightarrow> \<not> ws_char (last s)" using d nw by (simp add: list_all_iff)
  qed
qed

section \<open>Addresses and URLs\<close>

lemma isIPv6_loop_count: "isIPv6_loop s n = Some m \<Longrightarrow> m = n + count_list s (CHR '':'')"
proof (induction s n rule: isIPv6_loop.induct)
  case (1 s n)
  show ?case
  proof (cases "str_find (CHR '':'') s")
    case None
    with 1 show ?thesis by (simp add: isIPv6_loop.simps [of s] str_find_None count_list_0_iff)
  next
    case (Some p)
    have "count_list s (CHR '':'') = Suc (count_list (drop (Suc p) s) (CHR '':''))"
      using str_find_Some [OF Some] by (subst str_find_split [OF Some]) (simp add: count_list_0_iff)
    with 1 Some show ?thesis by (auto simp: isIPv6_loop.simps [of s] split: if_splits)
  qed
qed

lemma isIPv6_colons: "isIPv6 s \<Longrightarrow> 2 \<le> count_list s (CHR '':'') \<and> count_list s (CHR '':'') \<le> 7"
  by (auto simp: isIPv6_def dest!: isIPv6_loop_count split: option.splits)

lemma getIPv6Port_loop_spec:
  "getIPv6Port_loop res s = (r, t) \<Longrightarrow>
     r @ t = res @ s \<and> CHR '':'' \<notin> set t \<and> (r = res \<or> (r \<noteq> [] \<and> last r = CHR '':''))"
proof (induction res s rule: getIPv6Port_loop.induct)
  case (1 res s)
  show ?case
  proof (cases "str_find (CHR '':'') s")
    case None
    with 1 show ?thesis by (simp add: getIPv6Port_loop.simps [of res s] str_find_None)
  next
    case (Some p)
    from str_find_Some [OF Some] have p: "p < length s" "s ! p = CHR '':''" by auto
    with Some 1 have "r @ t = (res @ take (p + 1) s) @ drop (p + 1) s \<and> CHR '':'' \<notin> set t \<and>
        (r = res @ take (p + 1) s \<or> (r \<noteq> [] \<and> last r = CHR '':''))"
      by (simp add: getIPv6Port_loop.simps [of res s])
    moreover have "last (take (p + 1) s) = CHR '':''"
      using p by (simp add: take_Suc_conv_app_nth)
    ultimately show ?thesis using p by auto
  qed
qed

text \<open>A host with at most one colon is not taken for an IPv6 address.\<close>

lemma getIPv6Port_few_colons:
  assumes "count_list h (CHR '':'') < 2"
  shows "\<not> fst (getIPv6Port h out)"
proof -
  obtain r t where rt: "getIPv6Port_loop [] h = (r, t)" by fastforce
  have h: "h = r @ t" using getIPv6Port_loop_spec [OF rt] by simp
  have "\<not> isIPv6 r" using assms isIPv6_colons [of r] by (auto simp: h)
  then show ?thesis by (simp add: getIPv6Port_def rt Let_def)
qed

lemma third_elem [simp]: "(a # b # c # r) ! 2 = c" "vec_at (a # b # c # r) 2 = Ret c"
    "vec_at (a # b # r) 1 = Ret b"
  by (simp_all add: vec_at_def)

lemma length_ge3_cases: "3 \<le> length xs \<Longrightarrow> \<exists>a b c r. xs = a # b # c # r"
  by (cases xs; cases "tl xs"; cases "tl (tl xs)") auto

lemma parseUrl_host_UB:
  assumes "3 \<le> length toks"
  shows "parseUrl_host toks out = UB \<longleftrightarrow>
     \<not> fst (getIPv6Port (toks ! 2) ([], [])) \<and> dropWhile (\<lambda>c. c = CHR '':'') (c_str (toks ! 2)) = []"
proof -
  obtain a b c r where toks: "toks = a # b # c # r" using length_ge3_cases [OF assms] by blast
  let ?t = "dropWhile (\<lambda>c. c = CHR '':'') (c_str c)"
  obtain ok ip po where g: "getIPv6Port c ([], []) = (ok, ip, po)" by (cases "getIPv6Port c ([], [])") auto
  show ?thesis
  proof (cases "ok \<or> ?t = []")
    case True
    then show ?thesis
      by (auto simp: parseUrl_host_def toks g stringSplit_eq Let_def split: bool.splits)
  next
    case False
    obtain p ps where sp: "split_on (CHR '':'') ?t = p # ps"
      using split_on_nonempty by (cases "split_on (CHR '':'') ?t") auto
    with False show ?thesis
      by (cases ps) (auto simp: parseUrl_host_def toks g stringSplit_eq Let_def)
  qed
qed

lemma parseUrl_host_plain:
  assumes "h \<noteq> []" "NUL \<notin> set h" "CHR '':'' \<notin> set h"
  shows "parseUrl_host (t0 # t1 # h # r) out =
    Ret (True, out\<lparr>u_host := h, u_port := (if t0 = ''https:'' then 443 else 80)\<rparr>)"
proof -
  have "\<not> fst (getIPv6Port h ([], []))"
    using assms by (intro getIPv6Port_few_colons) (simp add: count_list_0_iff)
  then obtain q where g: "getIPv6Port h ([], []) = (False, q)" by (cases "getIPv6Port h ([], [])") auto
  have "dropWhile (\<lambda>c. c = CHR '':'') (c_str h) = h"
    using assms by (cases h) (auto simp: c_str_id)
  then show ?thesis using assms
    by (simp add: parseUrl_host_def g stringSplit_eq split_on_none Let_def)
qed

lemma parseUrl_host_port:
  assumes "h \<noteq> []" "NUL \<notin> set h" "CHR '':'' \<notin> set h" "n < 2 ^ 31"
  shows "parseUrl_host (t0 # t1 # (h @ '':'' @ nat_str n) # r) out =
    Ret (True, out\<lparr>u_host := h, u_port := int n\<rparr>)"
proof -
  let ?c = "h @ '':'' @ nat_str n"
  have dg: "\<And>c. c \<in> set (nat_str n) \<Longrightarrow> is_digit c"
    using nat_str_digits [of n] by (simp add: list_all_iff)
  then have nc: "CHR '':'' \<notin> set (nat_str n)" and nn: "NUL \<notin> set (nat_str n)"
    using is_digit_not_nul by (auto simp: char_class_defs dest!: dg)
  have "\<not> fst (getIPv6Port ?c ([], []))"
    using assms(3) nc by (intro getIPv6Port_few_colons) (simp add: count_list_0_iff [THEN iffD2])
  then obtain q where g: "getIPv6Port ?c ([], []) = (False, q)" by (cases "getIPv6Port ?c ([], [])") auto
  have d: "dropWhile (\<lambda>c. c = CHR '':'') (c_str ?c) = ?c"
    using assms nn by (subst c_str_id) (auto simp: neq_Nil_conv)
  show ?thesis using assms nc g d
    by (simp add: parseUrl_host_def stringSplit_eq split_on_none split_on_append Let_def
        atoi_nat_str del: One_nat_def)
qed

section \<open>Buffers\<close>

lemma to_lower_nul: "c \<noteq> NUL \<Longrightarrow> to_lower c \<noteq> NUL"
proof -
  assume "c \<noteq> NUL"
  show "to_lower c \<noteq> NUL"
  proof
    assume eq: "to_lower c = NUL"
    with \<open>c \<noteq> NUL\<close> have "is_upper c" by (auto simp: to_lower_def split: if_splits)
    then have "(of_char (to_lower c) :: nat) = of_char c + 32"
      by (simp add: to_lower_def char_class_defs)
    with eq show False by simp
  qed
qed

lemma strToLower_loop_eq:
  "strToLower_loop to ix cs =
     (if ix + length cs < length to
      then Ret (take ix to @ map to_lower cs @ NUL # drop (ix + length cs + 1) to) else UB)"
proof (induction cs arbitrary: to ix)
  case Nil
  then show ?case by (auto simp: buf_set_def upd_conv_take_nth_drop)
next
  case (Cons c cs)
  then show ?case
    by (auto simp: buf_set_def take_Suc_conv_app_nth)
qed

lemma strReplace_loop_copy:
  assumes "\<forall>k < length f. take (length old) (drop k f) \<noteq> old" and "ix + length f < length to"
  shows "strReplace_loop to n ix f old new =
    Some (Ret (take ix to @ f @ NUL # drop (ix + length f + 1) to))"
  using assms
proof (induction f arbitrary: to ix)
  case Nil
  then show ?case
    by (auto simp: strReplace_loop.simps [of _ _ _ "[]"] buf_set_def upd_conv_take_nth_drop)
next
  case (Cons c f)
  from Cons.prems(1) have no: "take (length old) (c # f) \<noteq> old" by force
  have rest: "\<forall>k < length f. take (length old) (drop k f) \<noteq> old"
    using Cons.prems(1) by (metis Suc_less_eq drop_Suc_Cons length_Cons)
  show ?case
    using no Cons.IH [OF rest, of "Suc ix" "to[ix := c]"] Cons.prems(2)
    by (simp add: strReplace_loop.simps [of _ _ _ "c # f"] buf_set_def take_Suc_conv_app_nth)
qed

lemma char_no_occurrence: "q \<notin> set f \<Longrightarrow> \<forall>k < length f. take (length [q]) (drop k f) \<noteq> [q]"
  by (auto simp: take_Suc_conv_app_nth Cons_nth_drop_Suc [symmetric] nth_mem)

lemma strReplace_loop_prefix:
  assumes "q \<notin> set a" and "ix + length a \<le> length to"
  shows "strReplace_loop to n ix (a @ q # b) [q] new =
    strReplace_loop (take ix to @ a @ drop (ix + length a) to) n (ix + length a) (q # b) [q] new"
  using assms
proof (induction a arbitrary: to ix)
  case Nil
  then show ?case by simp
next
  case (Cons c a)
  then show ?case
    using Cons.IH [of "Suc ix" "to[ix := c]"]
    by (auto simp: strReplace_loop.simps [of _ _ _ "c # a @ q # b"] buf_set_def take_Suc_conv_app_nth)
qed

section \<open>Claims\<close>

text \<open>C37: \<open>stringSplit\<close> yields no component for a string of delimiters only; otherwise it appends
  exactly the pieces of the string (less its leading delimiters) between the delimiters: their
  number is the result, none holds a delimiter, and joining them gives the string back.\<close>

theorem stringSplit_correct:
  "let t = dropWhile (\<lambda>c. c = d) (c_str s) in
     if t = [] then stringSplit s d outV = (0, outV)
     else \<exists>ps. stringSplit s d outV = (length ps, outV @ ps) \<and> ps \<noteq> [] \<and>
            join_with d ps = t \<and> list_all (\<lambda>p. d \<notin> set p) ps"
proof -
  let ?t = "dropWhile (\<lambda>c. c = d) (c_str s)"
  have "list_all (\<lambda>p. d \<notin> set p) (split_on d ?t)"
    using split_on_pieces by (simp add: list_all_iff)
  moreover have "?t \<noteq> [] \<Longrightarrow> stringSplit s d outV = (length (split_on d ?t), outV @ split_on d ?t)"
    by (simp only: stringSplit_eq Let_def if_False)
  moreover have "?t = [] \<Longrightarrow> stringSplit s d outV = (0, outV)"
    by (simp add: stringSplit_eq Let_def)
  ultimately show ?thesis
    unfolding Let_def using join_split_on split_on_nonempty by metis
qed

text \<open>\<open>parseUrl\<close> reads outside a vector (undefined behaviour) exactly when the URL is non-empty
  and either has slashes only, or has at least three components of which the third, the host, is not
  an IPv6 address and holds colons only (it may be empty when a path follows).\<close>

theorem parseUrl_undefined_iff:
  "parseUrl u out = UB \<longleftrightarrow>
     u \<noteq> [] \<and>
     (let t = dropWhile (\<lambda>c. c = CHR ''/'') (c_str u); toks = split_on (CHR ''/'') t
      in t = [] \<or>
         (3 \<le> length toks \<and> \<not> (length toks = 3 \<and> toks ! 2 = []) \<and>
          \<not> fst (getIPv6Port (toks ! 2) ([], [])) \<and>
          dropWhile (\<lambda>c. c = CHR '':'') (c_str (toks ! 2)) = []))"
proof -
  let ?t = "dropWhile (\<lambda>c. c = CHR ''/'') (c_str u)"
  obtain p ps where sp: "split_on (CHR ''/'') ?t = p # ps"
    using split_on_nonempty by (cases "split_on (CHR ''/'') ?t") auto
  show ?thesis
  proof (cases "u = [] \<or> ?t = []")
    case True
    then show ?thesis by (auto simp: parseUrl_def stringSplit_eq Let_def)
  next
    case False
    show ?thesis
    proof (cases "3 \<le> length (p # ps)")
      case True
      with False show ?thesis
        using parseUrl_host_UB [of "p # ps"]
        by (auto simp: parseUrl_def stringSplit_eq Let_def sp simp del: dropWhile_eq_Nil_conv)
    next
      case few: False
      with False show ?thesis
        by (simp add: parseUrl_def stringSplit_eq Let_def sp)
    qed
  qed
qed

text \<open>A URL \<open>http://host:port/path\<close> composed of a host without slash or colon, a port and a path
  is taken apart into exactly these pieces.\<close>

theorem parseUrl_roundtrip:
  assumes "h \<noteq> []" and "\<forall>c\<in>set h. c \<noteq> NUL \<and> c \<noteq> CHR ''/'' \<and> c \<noteq> CHR '':''"
    and "n < 2 ^ 31" and "NUL \<notin> set q"
  shows "parseUrl (''http://'' @ h @ '':'' @ nat_str n @ ''/'' @ q) out =
    Ret (True, out\<lparr>u_host := h, u_port := int n, u_path := ''/'' @ q, u_protocol := ''http:''\<rparr>)"
proof -
  let ?hp = "h @ '':'' @ nat_str n"
  let ?u = "''http://'' @ ?hp @ ''/'' @ q"
  let ?toks = "''http:'' # [] # ?hp # split_on (CHR ''/'') q"
  have dg: "\<And>c. c \<in> set (nat_str n) \<Longrightarrow> is_digit c"
    using nat_str_digits [of n] by (simp add: list_all_iff)
  have ns: "CHR ''/'' \<notin> set (nat_str n)" "NUL \<notin> set (nat_str n)"
    using is_digit_not_nul by (auto simp: char_class_defs dest!: dg)
  have cu: "c_str ?u = ?u" using assms ns by (intro c_str_id) auto
  have sl: "CHR ''/'' \<notin> set ?hp" using assms ns by auto
  have sp: "split_on (CHR ''/'') ?u = ?toks"
    using split_on_append [OF sl, of q] by simp
  have path: "concat (map (\<lambda>t. ''/'' @ t) (split_on (CHR ''/'') q)) = ''/'' @ q"
    by (induction q) (auto split: list.splits)
  have host: "parseUrl_host ?toks o' = Ret (True, o'\<lparr>u_host := h, u_port := int n\<rparr>)" for o'
    using assms by (intro parseUrl_host_port) auto
  have dw: "dropWhile (\<lambda>c. c = CHR ''/'') ?u = ?u" by simp
  have "stringSplit ?u (CHR ''/'') [] = (length ?toks, ?toks)"
    unfolding stringSplit_eq cu dw Let_def sp by simp
  then have "parseUrl ?u out = parseUrl_host ?toks (out\<lparr>u_protocol := ''http:'', u_path := ''/'' @ q\<rparr>)"
    unfolding parseUrl_def Let_def using path by (simp del: append.simps)
  then show ?thesis unfolding host by simp
qed

theorem parseUrl_roundtrip_witness:
  "parseUrl (''http://'' @ ''h1'' @ '':'' @ nat_str 1026 @ ''/'' @ ''v1'')
     \<lparr>u_host = [], u_port = 0, u_path = [], u_protocol = []\<rparr> =
   Ret (True, \<lparr>u_host = ''h1'', u_port = 1026, u_path = ''/v1'', u_protocol = ''http:''\<rparr>)"
  using parseUrl_roundtrip [of "''h1''" 1026 "''v1''" "\<lparr>u_host = [], u_port = 0, u_path = [], u_protocol = []\<rparr>"]
  by simp

text \<open>Coordinates that \<open>string2coords\<close> accepts are a latitude within 90 degrees and a longitude
  within 180 degrees, the two numbers around the first comma, whatever the rounding of the conversion; a
  string it refuses leaves both coordinates as they were unless they are out of range.\<close>

theorem string2coords_spec:
  "case string2coords rnd s lat0 lon0 of (ok, lat, lon) \<Rightarrow>
     if ok then - 90 \<le> lat \<and> lat \<le> 90 \<and> - 180 \<le> lon \<and> lon \<le> 180 \<and>
       (\<exists>a b. wsStrip s = a @ CHR '','' # b \<and>
          atoF rnd (wsStrip a) = Inr lat \<and> atoF rnd (wsStrip b) = Inr lon)
     else (lat, lon) = (lat0, lon0) \<or> lat > 90 \<or> lat < - 90 \<or> lon > 180 \<or> lon < - 180"
proof -
  obtain ret lat lon where r: "string2coords rnd s lat0 lon0 = (ret, lat, lon)"
    by (metis prod_cases3)
  show ?thesis
  proof (cases "str_find (CHR '','') (wsStrip s)")
    case None
    with r show ?thesis by (simp add: string2coords_def)
  next
    case (Some p)
    let ?a = "take p (wsStrip s)" and ?b = "drop (Suc p) (wsStrip s)"
    show ?thesis
    proof (cases "\<exists>la lo. atoF rnd (wsStrip ?a) = Inr la \<and> atoF rnd (wsStrip ?b) = Inr lo")
      case True
      then obtain la lo where n: "atoF rnd (wsStrip ?a) = Inr la" "atoF rnd (wsStrip ?b) = Inr lo"
        by blast
      with Some r str_find_split [OF Some] show ?thesis
        by (fastforce simp: string2coords_def split: if_splits)
    next
      case False
      then have "\<not> (\<exists>la. atoF rnd (wsStrip ?a) = Inr la) \<or> \<not> (\<exists>lo. atoF rnd (wsStrip ?b) = Inr lo)"
        by blast
      with Some r show ?thesis
        by (cases "atoF rnd (wsStrip ?a)"; cases "atoF rnd (wsStrip ?b)")
          (auto simp: string2coords_def split: if_splits)
    qed
  qed
qed

text \<open>\<open>strToLower\<close> writes outside its buffer exactly when the string with its final zero does not
  fit; otherwise the buffer holds the string in lower case.\<close>

theorem strToLower_spec:
  "case strToLower to frm of
     UB \<Rightarrow> length to < length (c_str frm) + 1
   | Ret to' \<Rightarrow> length (c_str frm) + 1 \<le> length to \<and> c_str to' = map to_lower (c_str frm)"
proof -
  have nn: "NUL \<notin> set (map to_lower (c_str frm))"
    unfolding set_map using to_lower_nul c_str_no_nul [of frm] by (metis imageE)
  show ?thesis
  proof (cases "length to < length (c_str frm) + 1")
    case True
    then show ?thesis by (simp add: strToLower_def strToLower_loop_eq Let_def)
  next
    case False
    then have "strToLower to frm =
        Ret (map to_lower (c_str frm) @ NUL # drop (length (c_str frm) + 1) to)"
      by (simp add: strToLower_def strToLower_loop_eq Let_def)
    with False nn show ?thesis by (simp add: c_str_append_nul)
  qed
qed

text \<open>When the character to replace occurs once, and not at the start, \<open>strReplace\<close> loses all of the
  text: it writes the replacement at the start of the buffer, followed by a zero, and the result is the
  replacement alone.\<close>

theorem strReplace_clobbers:
  assumes "a \<noteq> []" and "q \<notin> set a" and "q \<notin> set b"
    and nul: "NUL \<notin> set a" "NUL \<notin> set b" "NUL \<notin> set new" "q \<noteq> NUL"
    and "length new < n" and "n \<le> length to" and "length a + length new + length b < length to"
  shows "\<exists>to'. strReplace to n (a @ q # b) [q] new = Some (Ret to') \<and> c_str to' = new"
proof -
  let ?t1 = "a @ drop (length a) to"
  let ?t2 = "new @ NUL # drop (length new + 1) ?t1"
  let ?r = "take (length a + length new) ?t2 @ b @ NUL # drop (length a + length new + length b + 1) ?t2"
  have c: "c_str (a @ q # b) = a @ q # b" "c_str [q] = [q]" "c_str new = new"
    using nul by (auto intro!: c_str_id)
  have len: "length ?t1 = length to" "length ?t2 = length to"
    using assms(8-10) by auto
  have pr: "snprintf_s ?t1 n new = Ret ?t2"
    using assms(8-10) c(3) by (auto simp: snprintf_s_def Let_def)
  have "strReplace_loop to n 0 (a @ q # b) [q] new = strReplace_loop ?t1 n (length a) (q # b) [q] new"
    using strReplace_loop_prefix [of q a 0 to n b new] assms(2,10) by simp
  also have "\<dots> = strReplace_loop ?t2 n (length a + length new) b [q] new"
    by (subst strReplace_loop.simps) (simp add: pr)
  also have "\<dots> = Some (Ret ?r)"
    using assms(3,10) len by (intro strReplace_loop_copy char_no_occurrence) auto
  finally have "strReplace to n (a @ q # b) [q] new = Some (Ret ?r)"
    by (simp add: strReplace_def c)
  moreover have "c_str ?r = new"
    using assms(1) nul(3) by (auto simp: c_str_append_nul take_Cons' Suc_diff_Suc)
  ultimately show ?thesis by blast
qed

theorem strReplace_clobbers_witness:
  "\<exists>to'. strReplace (replicate 7 NUL) 6 (''a'' @ CHR 0x22 # ''b'') [CHR 0x22] [CHR 0x5C, CHR 0x22] =
       Some (Ret to') \<and> c_str to' = [CHR 0x5C, CHR 0x22]"
  using strReplace_clobbers [of "''a''" "CHR 0x22" "''b''" "[CHR 0x5C, CHR 0x22]" 6 "replicate 7 NUL"]
  by auto

end
