(* ===== verification/Conn_Pool.thy ===== *)
theory Conn_Pool
  imports Clock_Sem Common_String "HOL-Library.Multiset"
begin

text \<open>
  The pool of connections to the database (\<open>mongoBackend/mongoConnectionPool.cpp\<close>): connecting
  with retries, filling the pool, and the two operations that hand out and take back a connection.
  Any number of threads run these operations: each thread has a program counter, a step is one
  semaphore operation, one round of a loop or one update, and a thread that would wait has no step.
\<close>

section \<open>Connecting\<close>

text \<open>
  The MongoDB driver, for one connection: the object it creates, the result of each call of
  \<open>connect\<close>, the number of nodes of a write concern (given, and as read back), the result of an
  authentication and the version in the answer to the command \<open>buildinfo\<close>.
\<close>

record driver =
  drv_single :: nat
  drv_replica :: "string \<Rightarrow> string list \<Rightarrow> nat"
  drv_connect :: "nat \<Rightarrow> bool"
  drv_nodes :: "bool \<Rightarrow> int"
  drv_nodes_set :: "bool \<Rightarrow> int"
  drv_auth :: "string \<Rightarrow> string \<Rightarrow> string \<Rightarrow> bool"
  drv_version :: string

definition RECONNECT_RETRIES :: nat where
  "RECONNECT_RETRIES = 100"

text \<open>The loop of retries; the second component of the result counts the calls of \<open>connect\<close>.\<close>

function connect_loop :: "(nat \<Rightarrow> bool) \<Rightarrow> nat \<Rightarrow> nat \<Rightarrow> bool \<times> nat" where
  "connect_loop connect retries tryNo =
     (if tryNo < retries then
        if connect tryNo then (True, tryNo + 1)
        else connect_loop connect retries (tryNo + 1)
      else (False, tryNo))"
  by pat_completeness auto

termination
  by (relation "measure (\<lambda>(connect, retries, tryNo). retries - tryNo)") auto

declare connect_loop.simps [simp del]

text \<open>
  \<open>mongoConnect\<close>: the connection (\<open>None\<close> is NULL) and the version of the server, which an
  attempt that gets so far writes to the globals \<open>mongoVersionMayor\<close> and \<open>mongoVersionMinor\<close>.
\<close>

definition mongoConnect ::
  "driver \<Rightarrow> string \<Rightarrow> string \<Rightarrow> string \<Rightarrow> string \<Rightarrow> string \<Rightarrow> bool \<Rightarrow> int \<Rightarrow> int \<times> int \<Rightarrow> nat option \<times> int \<times> int" where
  "mongoConnect d host db rplSet username passwd multitenant writeConcern version =
     (let connection = (if rplSet = [] then drv_single d
                        else drv_replica d rplSet (snd (stringSplit host (CHR '','') [])));
          (connected, _) = connect_loop (drv_connect d) RECONNECT_RETRIES 0
      in if \<not> connected then (None, version)
         else
           let wc = (writeConcern = 1)
           in if drv_nodes_set d wc \<noteq> drv_nodes d wc then (None, version)
              else if multitenant \<and> username \<noteq> [] \<and> passwd \<noteq> [] \<and> \<not> drv_auth d ''admin'' username passwd
              then (None, version)
              else if \<not> multitenant \<and> db \<noteq> [] \<and> username \<noteq> [] \<and> passwd \<noteq> [] \<and> \<not> drv_auth d db username passwd
              then (None, version)
              else
                let (ok, mayor, minor, _) = versionParse (drv_version d) (fst version, snd version, [])
                in if \<not> ok then (None, mayor, minor) else (Some connection, mayor, minor))"

section \<open>The pool\<close>

record MongoConnection =
  connection :: "nat option"
  free :: bool

record pool =
  connectionPool :: "MongoConnection list"
  connectionPoolSize :: nat
  connectionPoolSem :: nat
  connectionSem :: nat
  semWaitingTime :: timespec
  semStatistics :: bool
  mongoVersion :: "int \<times> int"

definition mongoVersionGet :: "pool \<Rightarrow> int \<times> int" where
  "mongoVersionGet s = mongoVersion s"

text \<open>The loop that connects the pool: one driver per connection.\<close>

fun connect_pool ::
  "(driver \<Rightarrow> int \<times> int \<Rightarrow> nat option \<times> int \<times> int) \<Rightarrow> driver list \<Rightarrow> int \<times> int \<Rightarrow> MongoConnection list \<times> int \<times> int" where
  "connect_pool conn [] version = ([], version)"
| "connect_pool conn (d # ds) version =
     (let (c, v1) = conn d version;
          (cs, v2) = connect_pool conn ds v1
      in (\<lparr>connection = c, free = True\<rparr> # cs, v2))"

text \<open>
  \<open>mem\<close> tells whether \<open>calloc\<close> succeeds, \<open>r1\<close> and \<open>r2\<close> are the results of \<open>sem_init\<close>; the pool
  size is the number of drivers given.
\<close>

definition mongoConnectionPoolInit ::
  "bool \<Rightarrow> int \<Rightarrow> int \<Rightarrow> driver list \<Rightarrow> string \<Rightarrow> string \<Rightarrow> string \<Rightarrow> string \<Rightarrow> string \<Rightarrow> bool \<Rightarrow> int \<Rightarrow> bool
   \<Rightarrow> pool \<Rightarrow> int \<times> pool" where
  "mongoConnectionPoolInit mem r1 r2 ds host db rplSet username passwd multitenant writeConcern semTimeStat s =
     (if \<not> mem then (- 1, s\<lparr>connectionPool := []\<rparr>)
      else
        let (cs, v) = connect_pool (\<lambda>d. mongoConnect d host db rplSet username passwd multitenant writeConcern)
                        ds (mongoVersion s);
            s1 = s\<lparr>connectionPool := cs, connectionPoolSize := length ds, mongoVersion := v\<rparr>
        in if r1 \<noteq> 0 then (- 1, s1)
           else let s2 = s1\<lparr>connectionPoolSem := 1\<rparr>
                in if r2 \<noteq> 0 then (- 1, s2)
                   else (0, s2\<lparr>connectionSem := connectionPoolSize s1, semStatistics := semTimeStat\<rparr>))"

datatype pc =
    Idle
  | GetStart
  | GetWaitConn timespec
  | GetWaitPool timespec
  | GetStat timespec
  | GetLoop nat
  | GetPost "nat option"
  | InUse "nat option"
  | RelWaitPool "nat option"
  | RelLoop "nat option" nat
  | RelPostConn
  | RelPostPool

text \<open>
  One step of \<open>mongoPoolConnectionGet\<close>, from its call (\<open>GetStart\<close>) to its return (\<open>InUse\<close>).
  \<open>now\<close> is the time the clock shows.
\<close>

fun mongoPoolConnectionGet :: "timespec \<Rightarrow> pool \<Rightarrow> pc \<Rightarrow> (pool \<times> pc) option" where
  "mongoPoolConnectionGet now s GetStart =
     Some (s, GetWaitConn (if semStatistics s then now else time_zero))"
| "mongoPoolConnectionGet now s (GetWaitConn startTime) =
     (if connectionSem s = 0 then None
      else Some (s\<lparr>connectionSem := connectionSem s - 1\<rparr>, GetWaitPool startTime))"
| "mongoPoolConnectionGet now s (GetWaitPool startTime) =
     (if connectionPoolSem s = 0 then None
      else Some (s\<lparr>connectionPoolSem := connectionPoolSem s - 1\<rparr>, GetStat startTime))"
| "mongoPoolConnectionGet now s (GetStat startTime) =
     Some (if semStatistics s
           then s\<lparr>semWaitingTime := clock_addtime (semWaitingTime s) (clock_difftime now startTime)\<rparr>
           else s, GetLoop 0)"
| "mongoPoolConnectionGet now s (GetLoop ix) =
     (if ix < connectionPoolSize s then
        let slot = connectionPool s ! ix
        in if free slot = True
           then Some (s\<lparr>connectionPool := (connectionPool s)[ix := slot\<lparr>free := False\<rparr>]\<rparr>, GetPost (connection slot))
           else Some (s, GetLoop (ix + 1))
      else Some (s, GetPost None))"
| "mongoPoolConnectionGet now s (GetPost c) =
     Some (s\<lparr>connectionPoolSem := connectionPoolSem s + 1\<rparr>, InUse c)"
| "mongoPoolConnectionGet now s _ = None"

text \<open>One step of \<open>mongoPoolConnectionRelease\<close>, from its call (\<open>RelWaitPool\<close>) to its return (\<open>Idle\<close>).\<close>

fun mongoPoolConnectionRelease :: "pool \<Rightarrow> pc \<Rightarrow> (pool \<times> pc) option" where
  "mongoPoolConnectionRelease s (RelWaitPool c) =
     (if connectionPoolSem s = 0 then None
      else Some (s\<lparr>connectionPoolSem := connectionPoolSem s - 1\<rparr>, RelLoop c 0))"
| "mongoPoolConnectionRelease s (RelLoop c ix) =
     (if ix < connectionPoolSize s then
        let slot = connectionPool s ! ix
        in if connection slot = c
           then Some (s\<lparr>connectionPool := (connectionPool s)[ix := slot\<lparr>free := True\<rparr>]\<rparr>, RelPostConn)
           else Some (s, RelLoop c (ix + 1))
      else Some (s, RelPostPool))"
| "mongoPoolConnectionRelease s RelPostConn =
     Some (s\<lparr>connectionSem := connectionSem s + 1\<rparr>, RelPostPool)"
| "mongoPoolConnectionRelease s RelPostPool =
     Some (s\<lparr>connectionPoolSem := connectionPoolSem s + 1\<rparr>, Idle)"
| "mongoPoolConnectionRelease s _ = None"

definition mongoPoolConnectionSemWaitingTimeGet :: "pool \<Rightarrow> nat \<Rightarrow> string" where
  "mongoPoolConnectionSemWaitingTimeGet s bufLen =
     (if semStatistics s then snprintf_buf bufLen (timespec_str (semWaitingTime s))
      else snprintf_buf bufLen ''Disabled'')"

definition mongoPoolConnectionSemWaitingTimeReset :: "pool \<Rightarrow> pool" where
  "mongoPoolConnectionSemWaitingTimeReset s = s\<lparr>semWaitingTime := time_zero\<rparr>"

section \<open>Threads\<close>

text \<open>
  The backend calls \<open>getMongoConnection\<close>, uses the connection and gives it back. \<open>pool_work\<close> are
  the steps of calls under way and of threads that give back what they hold; \<open>pool_step\<close> also lets
  an idle thread ask for a connection, and a thread reset the statistics.
\<close>

inductive pool_work :: "pool \<times> pc list \<Rightarrow> pool \<times> pc list \<Rightarrow> bool" where
  get: "i < length pcs \<Longrightarrow> mongoPoolConnectionGet now s (pcs ! i) = Some (s', p)
        \<Longrightarrow> pool_work (s, pcs) (s', pcs[i := p])"
| give_back: "i < length pcs \<Longrightarrow> pcs ! i = InUse c \<Longrightarrow> pool_work (s, pcs) (s, pcs[i := RelWaitPool c])"
| release: "i < length pcs \<Longrightarrow> mongoPoolConnectionRelease s (pcs ! i) = Some (s', p)
        \<Longrightarrow> pool_work (s, pcs) (s', pcs[i := p])"

inductive pool_step :: "pool \<times> pc list \<Rightarrow> pool \<times> pc list \<Rightarrow> bool" where
  work: "pool_work x y \<Longrightarrow> pool_step x y"
| ask: "i < length pcs \<Longrightarrow> pcs ! i = Idle \<Longrightarrow> pool_step (s, pcs) (s, pcs[i := GetStart])"
| reset: "pool_step (s, pcs) (mongoPoolConnectionSemWaitingTimeReset s, pcs)"

section \<open>The invariant\<close>

fun in_pool_section :: "pc \<Rightarrow> nat" where
  "in_pool_section (GetStat _) = 1"
| "in_pool_section (GetLoop _) = 1"
| "in_pool_section (GetPost _) = 1"
| "in_pool_section (RelLoop _ _) = 1"
| "in_pool_section RelPostConn = 1"
| "in_pool_section RelPostPool = 1"
| "in_pool_section _ = 0"

fun permits :: "pc \<Rightarrow> nat" where
  "permits (GetWaitPool _) = 1"
| "permits (GetStat _) = 1"
| "permits (GetLoop _) = 1"
| "permits (GetPost _) = 1"
| "permits (InUse _) = 1"
| "permits (RelWaitPool _) = 1"
| "permits (RelLoop _ _) = 1"
| "permits RelPostConn = 1"
| "permits _ = 0"

fun owned :: "pc \<Rightarrow> nat option multiset" where
  "owned (GetPost c) = {#c#}"
| "owned (InUse c) = {#c#}"
| "owned (RelWaitPool c) = {#c#}"
| "owned (RelLoop c _) = {#c#}"
| "owned _ = {#}"

definition busy1 :: "MongoConnection \<Rightarrow> nat option multiset" where
  "busy1 slot = (if free slot then {#} else {#connection slot#})"

definition busy :: "MongoConnection list \<Rightarrow> nat option multiset" where
  "busy slots = sum_list (map busy1 slots)"

fun loop_ok :: "MongoConnection list \<Rightarrow> pc \<Rightarrow> bool" where
  "loop_ok slots (GetLoop ix) \<longleftrightarrow> ix \<le> length slots \<and> list_all (Not \<circ> free) (take ix slots)"
| "loop_ok slots (RelLoop c ix) \<longleftrightarrow> ix \<le> length slots \<and> list_all (\<lambda>x. connection x \<noteq> c) (take ix slots)"
| "loop_ok slots _ \<longleftrightarrow> True"

definition pool_inv :: "pool \<times> pc list \<Rightarrow> bool" where
  "pool_inv x \<longleftrightarrow> (case x of (s, pcs) \<Rightarrow>
     connectionPoolSize s = length (connectionPool s)
     \<and> distinct (map connection (connectionPool s))
     \<and> connectionPoolSem s + sum_list (map in_pool_section pcs) = 1
     \<and> connectionSem s + sum_list (map permits pcs) = connectionPoolSize s
     \<and> sum_list (map owned pcs) = busy (connectionPool s)
     \<and> list_all (loop_ok (connectionPool s)) pcs)"

lemma loop_ok_outside: "in_pool_section p = 0 \<Longrightarrow> loop_ok slots p"
  by (cases p) auto

lemma pool_inv_sems:
  assumes "pool_inv (s, pcs)"
  shows "connectionPoolSem s + sum_list (map in_pool_section pcs) = 1"
    "connectionSem s + sum_list (map permits pcs) = connectionPoolSize s"
    "busy (connectionPool s) = sum_list (map owned pcs)"
  using assms by (simp_all add: pool_inv_def)

lemma sum_list_empty_mset [simp]: "sum_list (replicate n {#}) = {#}"
  by (induction n) auto

lemma pool_inv_loop: "pool_inv (s, pcs) \<Longrightarrow> i < length pcs \<Longrightarrow> loop_ok (connectionPool s) (pcs ! i)"
  by (simp add: pool_inv_def list_all_length)

lemma pool_inv_update:
  assumes "pool_inv (s, pcs)" "i < length pcs"
    and "connectionPoolSize s' = connectionPoolSize s"
    and "map connection (connectionPool s') = map connection (connectionPool s)"
    and "connectionPoolSem s' + in_pool_section p = connectionPoolSem s + in_pool_section (pcs ! i)"
    and "connectionSem s' + permits p = connectionSem s + permits (pcs ! i)"
    and "busy (connectionPool s') + owned (pcs ! i) = busy (connectionPool s) + owned p"
    and "loop_ok (connectionPool s') p"
    and "connectionPool s' = connectionPool s \<or> in_pool_section (pcs ! i) = 1"
  shows "pool_inv (s', pcs[i := p])"
proof -
  note u = sum_list_map_update_add[OF assms(2), of _ p]
  have len: "length (connectionPool s') = length (connectionPool s)"
    using assms(4) by (metis length_map)
  have others: "loop_ok (connectionPool s') (pcs ! j)" if "j < length pcs" "j \<noteq> i" for j
  proof (cases "connectionPool s' = connectionPool s")
    case False
    then have "in_pool_section (pcs ! i) + in_pool_section (pcs ! j) \<le> 1"
      using sum_list_two_le[OF assms(2) that(1), of in_pool_section] that(2) assms(1) by (simp add: pool_inv_def)
    then show ?thesis using False assms(9) loop_ok_outside by simp
  qed (use assms(1) that in \<open>simp add: pool_inv_def list_all_length\<close>)
  have "sum_list (map owned (pcs[i := p])) + owned (pcs ! i) = busy (connectionPool s') + owned (pcs ! i)"
    using u[of owned] assms(1,7) by (simp add: pool_inv_def)
  then have "sum_list (map owned (pcs[i := p])) = busy (connectionPool s')" by simp
  moreover have "connectionPoolSem s' + sum_list (map in_pool_section (pcs[i := p])) = 1"
    using u[of in_pool_section] assms(1,5) unfolding pool_inv_def by (simp del: One_nat_def)
  moreover have "connectionSem s' + sum_list (map permits (pcs[i := p])) = connectionPoolSize s'"
    using u[of permits] assms(1,3,6) unfolding pool_inv_def by simp
  moreover have "list_all (loop_ok (connectionPool s')) (pcs[i := p])"
    using others assms(8) unfolding list_all_length length_list_update
    by (metis nth_list_update_eq nth_list_update_neq)
  ultimately show ?thesis using assms(1,3,4) len by (simp add: pool_inv_def)
qed

lemma busy_update:
  assumes "ix < length slots"
  shows "busy (slots[ix := x]) + busy1 (slots ! ix) = busy slots + busy1 x"
  using sum_list_map_update_add[OF assms, of busy1 x] by (simp add: busy_def)

lemma size_busy: "size (busy slots) = sum_list (map (\<lambda>x. if free x then 0 else 1) slots)"
  by (induction slots) (auto simp: busy_def busy1_def)

lemma busy_all: "list_all (Not \<circ> free) slots \<Longrightarrow> size (busy slots) = length slots"
  by (induction slots) (auto simp: busy_def busy1_def)

lemma busy_mem: "c \<in># busy slots \<longleftrightarrow> (\<exists>x\<in>set slots. connection x = c \<and> \<not> free x)"
  by (induction slots) (auto simp: busy_def busy1_def)

lemma owned_le_permits: "size (owned p) \<le> permits p"
  by (cases p) auto

lemma size_owned: "size (sum_list (map owned pcs)) \<le> sum_list (map permits pcs)"
  by (induction pcs) (auto intro: add_mono owned_le_permits)

lemma size_owned_less:
  assumes "i < length pcs" "owned (pcs ! i) = {#}" "permits (pcs ! i) = 1"
  shows "size (sum_list (map owned pcs)) < sum_list (map permits pcs)"
  using assms
proof (induction pcs arbitrary: i)
  case (Cons p pcs)
  show ?case
  proof (cases i)
    case 0
    then show ?thesis using Cons.prems size_owned[of pcs] by simp
  next
    case (Suc k)
    then show ?thesis using Cons.prems Cons.IH[of k] owned_le_permits[of p] by simp
  qed
qed simp

text \<open>A thread that scans the pool for a free connection has not reached its end.\<close>

lemma get_loop_finds:
  assumes "pool_inv (s, pcs)" "i < length pcs" "pcs ! i = GetLoop ix"
  shows "ix < connectionPoolSize s"
proof (rule ccontr)
  assume "\<not> ix < connectionPoolSize s"
  then have "list_all (Not \<circ> free) (connectionPool s)"
    using assms by (auto simp: pool_inv_def list_all_length[of "loop_ok _"])
  then have "size (busy (connectionPool s)) = connectionPoolSize s"
    using busy_all assms(1) by (simp add: pool_inv_def)
  moreover have "size (busy (connectionPool s)) < connectionPoolSize s"
    using size_owned_less[of i pcs] assms by (simp add: pool_inv_def)
  ultimately show False by simp
qed

lemma in_sum_list_mset: "i < length xs \<Longrightarrow> c \<in># f (xs ! i) \<Longrightarrow> c \<in># sum_list (map f xs)"
  by (induction xs arbitrary: i) (auto simp: nth_Cons split: nat.splits)

lemma owned_in_busy:
  assumes "pool_inv (s, pcs)" "i < length pcs" "c \<in># owned (pcs ! i)"
  shows "c \<in># busy (connectionPool s)"
  using assms in_sum_list_mset[of i pcs c owned] by (simp add: pool_inv_def)

text \<open>A thread that gives back a connection finds it, and finds it taken.\<close>

lemma release_loop_finds:
  assumes "pool_inv (s, pcs)" "i < length pcs" "pcs ! i = RelLoop c ix"
  shows "ix < connectionPoolSize s"
    and "connection (connectionPool s ! ix) = c \<Longrightarrow> \<not> free (connectionPool s ! ix)"
proof -
  have "c \<in># busy (connectionPool s)" using owned_in_busy[OF assms(1,2)] assms(3) by simp
  then obtain j where j: "j < length (connectionPool s)" "connection (connectionPool s ! j) = c" "\<not> free (connectionPool s ! j)"
    by (auto simp: busy_mem in_set_conv_nth)
  have l: "connectionPoolSize s = length (connectionPool s)" "ix \<le> length (connectionPool s)"
    "\<forall>k < ix. connection (connectionPool s ! k) \<noteq> c" "distinct (map connection (connectionPool s))"
    using assms(1) pool_inv_loop[OF assms(1,2)] assms(3)
    by (simp_all add: pool_inv_def list_all_length[of "\<lambda>x. connection x \<noteq> c"])
  show "ix < connectionPoolSize s" using j l by (metis le_neq_implies_less not_less)
  then show "connection (connectionPool s ! ix) = c \<Longrightarrow> \<not> free (connectionPool s ! ix)"
    using j l by (metis length_map nth_eq_iff_index_eq nth_map)
qed

lemma list_all_take_Suc:
  "ix < length xs \<Longrightarrow> list_all P (take (Suc ix) xs) \<longleftrightarrow> list_all P (take ix xs) \<and> P (xs ! ix)"
  by (simp add: take_Suc_conv_app_nth)

lemma map_connection_update:
  "map connection (slots[ix := (slots ! ix)\<lparr>free := b\<rparr>]) = map connection slots"
  by (cases "ix < length slots") (simp_all add: map_update list_update_same_conv list_update_beyond)

lemma pool_inv_get:
  assumes "pool_inv (s, pcs)" "i < length pcs" "mongoPoolConnectionGet now s (pcs ! i) = Some (s', p)"
  shows "pool_inv (s', pcs[i := p])"
proof (cases "pcs ! i")
  case (GetLoop ix)
  let ?slots = "connectionPool s"
  have ix: "ix < connectionPoolSize s" "connectionPoolSize s = length ?slots"
    using get_loop_finds[OF assms(1,2) GetLoop] assms(1) by (auto simp: pool_inv_def)
  have "list_all (Not \<circ> free) (take ix ?slots)"
    using assms(1,2) GetLoop by (auto simp: pool_inv_def list_all_length[of "loop_ok _"])
  then show ?thesis
    using assms GetLoop ix busy_update[of ix ?slots "(?slots ! ix)\<lparr>free := False\<rparr>"]
    by (intro pool_inv_update[OF assms(1,2)])
       (auto simp: Let_def list_all_take_Suc map_connection_update busy1_def split: if_splits)
qed (use assms in \<open>intro pool_inv_update[OF assms(1,2)]; auto split: if_splits\<close>)+

lemma pool_inv_release:
  assumes "pool_inv (s, pcs)" "i < length pcs" "mongoPoolConnectionRelease s (pcs ! i) = Some (s', p)"
  shows "pool_inv (s', pcs[i := p])"
proof (cases "pcs ! i")
  case (RelLoop c ix)
  let ?slots = "connectionPool s"
  note f = release_loop_finds[OF assms(1,2) RelLoop]
  have ix: "connectionPoolSize s = length ?slots" using assms(1) by (auto simp: pool_inv_def)
  have "list_all (\<lambda>x. connection x \<noteq> c) (take ix ?slots)"
    using assms(1,2) RelLoop by (auto simp: pool_inv_def list_all_length[of "loop_ok _"])
  then show ?thesis
    using assms RelLoop ix f busy_update[of ix ?slots "(?slots ! ix)\<lparr>free := True\<rparr>"]
    by (intro pool_inv_update[OF assms(1,2)])
       (auto simp: Let_def list_all_take_Suc map_connection_update busy1_def split: if_splits)
qed (use assms in \<open>intro pool_inv_update[OF assms(1,2)]; auto split: if_splits\<close>)+

lemma pool_inv_work: "pool_work x y \<Longrightarrow> pool_inv x \<Longrightarrow> pool_inv y"
proof (induction rule: pool_work.induct)
  case (give_back i pcs c s)
  then show ?case by (intro pool_inv_update) auto
qed (auto intro: pool_inv_get pool_inv_release)

lemma pool_inv_step: "pool_step x y \<Longrightarrow> pool_inv x \<Longrightarrow> pool_inv y"
proof (induction rule: pool_step.induct)
  case (ask i pcs s)
  then show ?case by (intro pool_inv_update) auto
next
  case (reset s pcs)
  then show ?case by (simp add: pool_inv_def mongoPoolConnectionSemWaitingTimeReset_def)
qed (rule pool_inv_work)

lemma pool_inv_reachable: "pool_step\<^sup>*\<^sup>* x y \<Longrightarrow> pool_inv x \<Longrightarrow> pool_inv y"
  by (induction rule: rtranclp_induct) (auto intro: pool_inv_step)


section \<open>No connection is given to two threads\<close>

lemma connect_pool_spec: "connect_pool conn ds v = (cs, v') \<Longrightarrow> length cs = length ds \<and> list_all free cs"
proof (induction ds arbitrary: v cs)
  case (Cons d ds)
  obtain c v1 cs' where "conn d v = (c, v1)" "connect_pool conn ds v1 = (cs', v')" "cs = \<lparr>connection = c, free = True\<rparr> # cs'"
    using Cons.prems by (auto split: prod.splits)
  then show ?case using Cons.IH by simp
qed simp

lemma pool_init_inv:
  assumes "mongoConnectionPoolInit mem r1 r2 ds host db rplSet user passwd mt wc stat s0 = (0, s)"
    and "distinct (map connection (connectionPool s))"
  shows "pool_inv (s, replicate n Idle)"
proof -
  have "busy cs = {#}" if "list_all free cs" for cs
    using that by (induction cs) (auto simp: busy_def busy1_def)
  then show ?thesis using assms
    by (auto simp: mongoConnectionPoolInit_def pool_inv_def sum_list_replicate Let_def list_all_length[of "loop_ok _"]
        split: if_splits prod.splits dest!: connect_pool_spec)
qed

definition in_use :: "nat option \<Rightarrow> pc \<Rightarrow> bool" where
  "in_use c p \<longleftrightarrow> p = InUse c"

lemma owned_twice:
  assumes "pool_inv (s, pcs)" "i < length pcs" "j < length pcs" "i \<noteq> j" "c \<in># owned (pcs ! i)" "c \<in># owned (pcs ! j)"
  shows False
proof -
  have count: "count (sum_list (map f xs)) c = sum_list (map (\<lambda>x. count (f x) c) xs)" for f xs
    by (induction xs) auto
  have "count (busy slots) c \<le> count (mset (map connection slots)) c" for slots
    by (induction slots) (auto simp: busy_def busy1_def)
  moreover have "count (mset (map connection (connectionPool s))) c \<le> 1"
  proof -
    have "distinct (map connection (connectionPool s))" using assms(1) by (simp add: pool_inv_def)
    then show ?thesis by (metis distinct_count_atmost_1 linorder_le_cases zero_le_one order_refl)
  qed
  moreover have "2 \<le> count (sum_list (map owned pcs)) c"
    using sum_list_two_le[OF assms(2-4), of "\<lambda>p. count (owned p) c"] assms(5,6)
    by (simp add: count flip: count_greater_zero_iff)
  moreover have "sum_list (map owned pcs) = busy (connectionPool s)" using assms(1) by (simp add: pool_inv_def)
  ultimately have "(2::nat) \<le> 1" by (metis order_trans)
  then show False by simp
qed

section \<open>Progress\<close>

text \<open>The number of steps a thread has to go until it is idle, in a pool of size \<open>n\<close>.\<close>

fun distance :: "nat \<Rightarrow> pc \<Rightarrow> nat" where
  "distance n Idle = 0"
| "distance n RelPostPool = 1"
| "distance n RelPostConn = 2"
| "distance n (RelLoop c ix) = 3 + (n - ix)"
| "distance n (RelWaitPool c) = 4 + n"
| "distance n (InUse c) = 5 + n"
| "distance n (GetPost c) = 6 + n"
| "distance n (GetLoop ix) = 7 + n + (n - ix)"
| "distance n (GetStat t) = 8 + 2 * n"
| "distance n (GetWaitPool t) = 9 + 2 * n"
| "distance n (GetWaitConn t) = 10 + 2 * n"
| "distance n GetStart = 11 + 2 * n"

definition remaining :: "pool \<times> pc list \<Rightarrow> nat" where
  "remaining x = sum_list (map (distance (connectionPoolSize (fst x))) (snd x))"

lemma get_distance:
  "mongoPoolConnectionGet now s p = Some (s', q) \<Longrightarrow>
     distance (connectionPoolSize s) q < distance (connectionPoolSize s) p \<and> connectionPoolSize s' = connectionPoolSize s"
  by (cases p) (auto simp: Let_def split: if_splits)

lemma release_distance:
  "mongoPoolConnectionRelease s p = Some (s', q) \<Longrightarrow>
     distance (connectionPoolSize s) q < distance (connectionPoolSize s) p \<and> connectionPoolSize s' = connectionPoolSize s"
  by (cases p) (auto simp: Let_def split: if_splits)

lemma remaining_update:
  assumes "i < length pcs" "distance n q < distance n (pcs ! i)"
  shows "sum_list (map (distance n) (pcs[i := q])) < sum_list (map (distance n) pcs)"
  using sum_list_map_update_add[OF assms(1), of "distance n" q] assms(2) by simp

lemma work_remaining: "pool_work x y \<Longrightarrow> remaining y < remaining x"
proof (induction rule: pool_work.induct)
  case (give_back i pcs c s)
  then show ?case by (auto simp: remaining_def intro!: remaining_update)
qed (auto simp: remaining_def intro!: remaining_update dest: get_distance release_distance)

lemma work_steps_remaining: "(pool_work ^^ n) x y \<Longrightarrow> n + remaining y \<le> remaining x"
proof (induction n arbitrary: y)
  case (Suc n)
  then obtain z where "(pool_work ^^ n) x z" "pool_work z y" by auto
  then show ?case using Suc.IH work_remaining by fastforce
qed simp

lemma section_can_step:
  assumes "in_pool_section p = 1"
  shows "\<exists>s' q. mongoPoolConnectionGet now s p = Some (s', q) \<or> mongoPoolConnectionRelease s p = Some (s', q)"
  using assms by (cases p) (auto simp: Let_def)

lemma outside_can_step:
  assumes "in_pool_section p = 0" "p \<noteq> Idle" "connectionPoolSem s \<noteq> 0" "permits p = 1 \<or> p = GetStart \<or> connectionSem s \<noteq> 0"
  shows "(\<exists>s' q. mongoPoolConnectionGet now s p = Some (s', q) \<or> mongoPoolConnectionRelease s p = Some (s', q))
    \<or> (\<exists>c. p = InUse c)"
  using assms by (cases p) auto

lemma pool_progress:
  assumes "pool_inv (s, pcs)" "0 < connectionPoolSize s" "\<exists>p\<in>set pcs. p \<noteq> Idle"
  shows "\<exists>y. pool_work (s, pcs) y"
proof -
  have one: "in_pool_section p \<le> 1" "permits p \<le> 1" for p by (cases p; simp)+
  have step: "\<exists>y. pool_work (s, pcs) y"
    if "i < length pcs" "(\<exists>s' q. mongoPoolConnectionGet time_zero s (pcs ! i) = Some (s', q)
        \<or> mongoPoolConnectionRelease s (pcs ! i) = Some (s', q)) \<or> (\<exists>c. pcs ! i = InUse c)" for i
    using that by (auto intro: pool_work.intros)
  show ?thesis
  proof (cases "\<exists>i < length pcs. in_pool_section (pcs ! i) = 1")
    case True
    then show ?thesis using step section_can_step by blast
  next
    case False
    then have out: "\<forall>p\<in>set pcs. in_pool_section p = 0"
      using one(1) by (metis One_nat_def in_set_conv_nth le_Suc_eq le_zero_eq)
    then have "sum_list (map in_pool_section pcs) = 0" by simp
    then have sem: "connectionPoolSem s \<noteq> 0" using pool_inv_sems(1)[OF assms(1)] by linarith
    have "\<exists>i < length pcs. pcs ! i \<noteq> Idle \<and> (permits (pcs ! i) = 1 \<or> connectionSem s \<noteq> 0)"
    proof (cases "\<exists>p\<in>set pcs. permits p = 1")
      case True
      then obtain i where i: "i < length pcs" "permits (pcs ! i) = 1" by (auto simp: in_set_conv_nth)
      then have "pcs ! i \<noteq> Idle" by auto
      then show ?thesis using i by blast
    next
      case False
      then have "\<forall>p\<in>set pcs. permits p = 0" using one(2) by (metis One_nat_def le_Suc_eq le_zero_eq)
      then have "sum_list (map permits pcs) = 0" by simp
      then have "connectionSem s \<noteq> 0" using pool_inv_sems(2)[OF assms(1)] assms(2) by linarith
      then show ?thesis using assms(3) by (auto simp: in_set_conv_nth)
    qed
    then obtain i where i: "i < length pcs" "pcs ! i \<noteq> Idle" "permits (pcs ! i) = 1 \<or> connectionSem s \<noteq> 0" by blast
    then show ?thesis using step[OF i(1)] outside_can_step[of "pcs ! i" s] out sem by fastforce
  qed
qed


section \<open>Connections and the size of the pool do not change\<close>

definition same_pool :: "pool \<Rightarrow> pool \<Rightarrow> bool" where
  "same_pool s s' \<longleftrightarrow> connectionPoolSize s' = connectionPoolSize s
     \<and> map connection (connectionPool s') = map connection (connectionPool s)"


lemma same_pool_get: "mongoPoolConnectionGet now s p = Some (s', q) \<Longrightarrow> same_pool s s'"
proof (cases p)
  case (GetLoop ix)
  assume "mongoPoolConnectionGet now s p = Some (s', q)"
  then show ?thesis using GetLoop
    by (auto simp: same_pool_def Let_def map_connection_update split: if_splits)
qed (auto simp: same_pool_def split: if_splits)

lemma same_pool_release: "mongoPoolConnectionRelease s p = Some (s', q) \<Longrightarrow> same_pool s s'"
proof (cases p)
  case (RelLoop c ix)
  assume "mongoPoolConnectionRelease s p = Some (s', q)"
  then show ?thesis using RelLoop
    by (auto simp: same_pool_def Let_def map_connection_update split: if_splits)
qed (auto simp: same_pool_def split: if_splits)

lemma same_pool_step:
  "pool_step x y \<Longrightarrow> same_pool (fst x) (fst y) \<and> length (snd y) = length (snd x)"
proof (induction rule: pool_step.induct)
  case (work x y)
  then show ?case
    by (induction rule: pool_work.induct) (auto dest: same_pool_get same_pool_release simp: same_pool_def)
qed (auto simp: same_pool_def mongoPoolConnectionSemWaitingTimeReset_def)

lemma same_pool_reachable:
  "pool_step\<^sup>*\<^sup>* x y \<Longrightarrow> same_pool (fst x) (fst y) \<and> length (snd y) = length (snd x)"
  by (induction rule: rtranclp_induct) (auto dest!: same_pool_step simp: same_pool_def)

section \<open>What the pool guarantees\<close>

text \<open>C10: Once the pool is initialised with distinct connections, in every interleaving of any
  number of threads: no connection is in use by two threads, what a thread uses is a connection of
  the pool, and a thread that looks for a free connection always finds one before the end of the
  pool (so \<open>mongoPoolConnectionGet\<close> never falls through its loop).\<close>

theorem pool_exclusive:
  assumes "mongoConnectionPoolInit mem r1 r2 ds host db rplSet user passwd mt wc stat s0 = (0, s)"
    and "distinct (map connection (connectionPool s))"
    and "pool_step\<^sup>*\<^sup>* (s, replicate n Idle) (s', pcs)"
  shows "(\<forall>i < length pcs. \<forall>j < length pcs. \<forall>c. i \<noteq> j \<and> pcs ! i = InUse c \<longrightarrow> pcs ! j \<noteq> InUse c)
    \<and> (\<forall>c. InUse c \<in> set pcs \<longrightarrow> c \<in> connection ` set (connectionPool s))
    \<and> (\<forall>ix. GetLoop ix \<in> set pcs \<longrightarrow> ix < connectionPoolSize s)"
proof -
  have inv': "pool_inv (s', pcs)"
    using pool_inv_reachable[OF assms(3) pool_init_inv[OF assms(1,2)]] .
  have same: "same_pool s s'" using same_pool_reachable[OF assms(3)] by simp
  have "c \<in> connection ` set (connectionPool s)" if "InUse c \<in> set pcs" for c
  proof -
    obtain i where "i < length pcs" "pcs ! i = InUse c" using \<open>InUse c \<in> set pcs\<close> by (auto simp: in_set_conv_nth)
    then have "c \<in># busy (connectionPool s')" using owned_in_busy[OF inv'] by simp
    then have "c \<in> set (map connection (connectionPool s'))" by (auto simp: busy_mem)
    then show ?thesis using same unfolding same_pool_def by (metis set_map)
  qed
  moreover have "ix < connectionPoolSize s" if "GetLoop ix \<in> set pcs" for ix
    using that get_loop_finds[OF inv'] same by (auto simp: in_set_conv_nth same_pool_def)
  ultimately show ?thesis using owned_twice[OF inv'] by fastforce
qed

text \<open>C11: Threads do not deadlock, and what they wait for comes: when no thread asks for a new
  connection, every run of the threads, in whatever order, ends within \<open>11 + 2 * size\<close> steps per
  thread, and where it ends every thread has got and given back its connection, the whole pool is
  free and both semaphores have their initial values.\<close>

theorem pool_drains:
  assumes "mongoConnectionPoolInit mem r1 r2 ds host db rplSet user passwd mt wc stat s0 = (0, s)"
    and "distinct (map connection (connectionPool s))" "0 < connectionPoolSize s"
    and "pool_step\<^sup>*\<^sup>* (s, replicate n Idle) x"
  shows "(\<forall>k y. (pool_work ^^ k) x y \<longrightarrow> k \<le> n * (11 + 2 * connectionPoolSize s))
    \<and> (\<forall>s' pcs. pool_work\<^sup>*\<^sup>* x (s', pcs) \<and> (\<nexists>z. pool_work (s', pcs) z) \<longrightarrow>
         pcs = replicate n Idle \<and> list_all free (connectionPool s')
         \<and> connectionPoolSem s' = 1 \<and> connectionSem s' = connectionPoolSize s)"
proof -
  have len: "length (snd x) = n" "connectionPoolSize (fst x) = connectionPoolSize s"
    using same_pool_reachable[OF assms(4)] by (auto simp: same_pool_def)
  have d: "distance m p \<le> 11 + 2 * m" for m p by (cases p) auto
  have "remaining x \<le> n * (11 + 2 * connectionPoolSize s)"
    using sum_list_mono[of "snd x" "distance (connectionPoolSize s)" "\<lambda>_. 11 + 2 * connectionPoolSize s"] d len
    by (simp add: remaining_def sum_list_triv)
  then have "k \<le> n * (11 + 2 * connectionPoolSize s)" if "(pool_work ^^ k) x y" for k y
    using work_steps_remaining[OF that] by linarith
  moreover have "pcs = replicate n Idle \<and> list_all free (connectionPool s')
         \<and> connectionPoolSem s' = 1 \<and> connectionSem s' = connectionPoolSize s"
    if "pool_work\<^sup>*\<^sup>* x (s', pcs)" "\<nexists>z. pool_work (s', pcs) z" for s' pcs
  proof -
    have "pool_step\<^sup>*\<^sup>* x (s', pcs)" using that(1) mono_rtranclp[of pool_work pool_step] pool_step.work by blast
    then have r: "pool_step\<^sup>*\<^sup>* (s, replicate n Idle) (s', pcs)" using assms(4) by simp
    have inv': "pool_inv (s', pcs)" using pool_inv_reachable[OF r pool_init_inv[OF assms(1,2)]] .
    have same: "connectionPoolSize s' = connectionPoolSize s" "length pcs = n"
      using same_pool_reachable[OF r] by (auto simp: same_pool_def)
    have idle: "pcs = replicate n Idle"
      using pool_progress[OF inv'] that(2) assms(3) same by (metis replicate_eqI)
    then have "busy (connectionPool s') = {#}"
      using pool_inv_sems(3)[OF inv'] by simp
    then have "list_all free (connectionPool s')"
      by (metis (mono_tags, lifting) Ball_set busy_mem empty_iff set_mset_empty)
    then show ?thesis using idle inv' same by (simp add: pool_inv_def sum_list_replicate)
  qed
  ultimately show ?thesis by blast
qed


section \<open>The pool as a set of resources\<close>

text \<open>
  What the users of the pool see: a multiset of available connections and, per thread, the
  connection it has. A thread with none acquires an available connection; a thread that has one
  gives it back.
\<close>

type_synonym resources = "nat option multiset \<times> nat option option list"

inductive resource_step :: "resources \<Rightarrow> resources \<Rightarrow> bool" where
  acquire: "i < length has \<Longrightarrow> has ! i = None \<Longrightarrow> c \<in># avail \<Longrightarrow> resource_step (avail, has) (avail - {#c#}, has[i := Some c])"
| give: "i < length has \<Longrightarrow> has ! i = Some c \<Longrightarrow> resource_step (avail, has) (add_mset c avail, has[i := None])"

fun holder :: "pc \<Rightarrow> nat option option" where
  "holder (GetPost c) = Some c"
| "holder (InUse c) = Some c"
| "holder (RelWaitPool c) = Some c"
| "holder (RelLoop c _) = Some c"
| "holder _ = None"

definition avail1 :: "MongoConnection \<Rightarrow> nat option multiset" where
  "avail1 slot = (if free slot then {#connection slot#} else {#})"

definition resources_of :: "pool \<times> pc list \<Rightarrow> resources" where
  "resources_of x = (sum_list (map avail1 (connectionPool (fst x))), map holder (snd x))"

lemma avail_update:
  assumes "ix < length slots"
  shows "sum_list (map avail1 (slots[ix := x])) + avail1 (slots ! ix) = sum_list (map avail1 slots) + avail1 x"
  using sum_list_map_update_add[OF assms] .

lemma holder_same: "holder p = holder (pcs ! i) \<Longrightarrow> map holder (pcs[i := p]) = map holder pcs"
  by (cases "i < length pcs") (simp_all add: map_update list_update_same_conv list_update_beyond)

lemma resources_same:
  "connectionPool s' = connectionPool s \<Longrightarrow> holder p = holder (pcs ! i) \<Longrightarrow> resources_of (s', pcs[i := p]) = resources_of (s, pcs)"
  by (simp add: resources_of_def holder_same)

lemma get_refines:
  assumes "pool_inv (s, pcs)" "i < length pcs" "mongoPoolConnectionGet now s (pcs ! i) = Some (s', p)"
  shows "resource_step\<^sup>=\<^sup>= (resources_of (s, pcs)) (resources_of (s', pcs[i := p]))"
proof (cases "pcs ! i")
  case (GetLoop ix)
  let ?slots = "connectionPool s" and ?slot = "connectionPool s ! ix"
  have ix: "ix < length ?slots" "ix < connectionPoolSize s"
    using get_loop_finds[OF assms(1,2) GetLoop] assms(1) by (auto simp: pool_inv_def)
  show ?thesis
  proof (cases "free ?slot")
    case True
    have "sum_list (map avail1 ?slots) = add_mset (connection ?slot) (sum_list (map avail1 (?slots[ix := ?slot\<lparr>free := False\<rparr>])))"
      using avail_update[OF ix(1), of "?slot\<lparr>free := False\<rparr>"] True by (simp add: avail1_def)
    then show ?thesis
      using resource_step.acquire[of i "map holder pcs" "connection ?slot" "sum_list (map avail1 ?slots)"]
        assms(2,3) GetLoop True ix by (auto simp: resources_of_def map_update Let_def)
  next
    case False
    then show ?thesis using assms(3) GetLoop ix resources_same[of s s' p pcs i] by auto
  qed
qed (use assms(3) in \<open>auto intro!: resources_same[symmetric] split: if_splits\<close>)

lemma release_refines:
  assumes "pool_inv (s, pcs)" "i < length pcs" "mongoPoolConnectionRelease s (pcs ! i) = Some (s', p)"
  shows "resource_step\<^sup>=\<^sup>= (resources_of (s, pcs)) (resources_of (s', pcs[i := p]))"
proof (cases "pcs ! i")
  case (RelLoop c ix)
  let ?slots = "connectionPool s" and ?slot = "connectionPool s ! ix"
  note f = release_loop_finds[OF assms(1,2) RelLoop]
  have ix: "ix < length ?slots" using f assms(1) by (auto simp: pool_inv_def)
  show ?thesis
  proof (cases "connection ?slot = c")
    case True
    have "sum_list (map avail1 (?slots[ix := ?slot\<lparr>free := True\<rparr>])) = add_mset c (sum_list (map avail1 ?slots))"
      using avail_update[OF ix, of "?slot\<lparr>free := True\<rparr>"] True f by (simp add: avail1_def)
    then show ?thesis
      using resource_step.give[of i "map holder pcs" c "sum_list (map avail1 ?slots)"]
        assms(2,3) RelLoop True f by (auto simp: resources_of_def map_update Let_def)
  next
    case False
    then show ?thesis using assms(3) RelLoop f(1) resources_same[of s s' p pcs i] by auto
  qed
qed (use assms(3) in \<open>auto intro!: resources_same[symmetric] split: if_splits\<close>)

lemma step_refines:
  "pool_step x y \<Longrightarrow> pool_inv x \<Longrightarrow> resource_step\<^sup>=\<^sup>= (resources_of x) (resources_of y)"
proof (induction rule: pool_step.induct)
  case (work x y)
  then show ?case
  proof (induction rule: pool_work.induct)
    case (give_back i pcs c s)
    then show ?case using resources_same[of s s "RelWaitPool c" pcs i] by simp
  next
    case (get i pcs now s s' p)
    then show ?case using get_refines by blast
  next
    case (release i pcs s s' p)
    then show ?case using release_refines by blast
  qed
next
  case (ask i pcs s)
  then show ?case using resources_same[of s s GetStart pcs i] by simp
qed (simp add: resources_of_def mongoPoolConnectionSemWaitingTimeReset_def)


text \<open>C12: The pool with its two semaphores and its scans implements the abstract resources: every
  run of the threads, seen through \<open>resources_of\<close>, is a run in which threads acquire available
  connections and give them back, starting with all connections available and no thread having one.\<close>

theorem pool_refines_resources:
  assumes "mongoConnectionPoolInit mem r1 r2 ds host db rplSet user passwd mt wc stat s0 = (0, s)"
    and "distinct (map connection (connectionPool s))"
    and "pool_step\<^sup>*\<^sup>* (s, replicate n Idle) x"
  shows "resource_step\<^sup>*\<^sup>* (mset (map connection (connectionPool s)), replicate n None) (resources_of x)"
proof -
  have free: "list_all free (connectionPool s)"
    using assms(1) by (auto simp: mongoConnectionPoolInit_def Let_def split: if_splits prod.splits dest!: connect_pool_spec)
  have "sum_list (map avail1 slots) = mset (map connection slots)" if "list_all free slots" for slots
    using that by (induction slots) (auto simp: avail1_def)
  then have start: "resources_of (s, replicate n Idle) = (mset (map connection (connectionPool s)), replicate n None)"
    using free by (simp add: resources_of_def)
  have "pool_inv y \<and> resource_step\<^sup>*\<^sup>* (resources_of (s, replicate n Idle)) (resources_of y)"
    if "pool_step\<^sup>*\<^sup>* (s, replicate n Idle) y" for y
    using that
  proof (induction rule: rtranclp_induct)
    case base
    then show ?case using pool_init_inv[OF assms(1,2)] by simp
  next
    case (step y z)
    then show ?case using pool_inv_step step_refines[of y z] by (auto intro: rtranclp.rtrancl_into_rtrancl)
  qed
  then show ?thesis using assms(3) start by simp
qed

section \<open>Runs by a schedule\<close>

text \<open>Executes one step of thread \<open>i\<close>; a thread that waits stays where it is.\<close>

definition thread_step :: "nat \<Rightarrow> pool \<times> pc list \<Rightarrow> pool \<times> pc list" where
  "thread_step i x =
     (case x of (s, pcs) \<Rightarrow>
        if i < length pcs then
          (case mongoPoolConnectionGet time_zero s (pcs ! i) of
             Some (s', q) \<Rightarrow> (s', pcs[i := q])
           | None \<Rightarrow>
               (case mongoPoolConnectionRelease s (pcs ! i) of
                  Some (s', q) \<Rightarrow> (s', pcs[i := q])
                | None \<Rightarrow>
                    (case pcs ! i of
                       Idle \<Rightarrow> (s, pcs[i := GetStart])
                     | InUse c \<Rightarrow> (s, pcs[i := RelWaitPool c])
                     | _ \<Rightarrow> x)))
        else x)"

lemma thread_step_reachable: "pool_step\<^sup>*\<^sup>* x (thread_step i x)"
proof (cases "i < length (snd x)")
  case True
  obtain s pcs where x: "x = (s, pcs)" by (cases x)
  show ?thesis
  proof (cases "mongoPoolConnectionGet time_zero s (pcs ! i)")
    case get: None
    show ?thesis
    proof (cases "mongoPoolConnectionRelease s (pcs ! i)")
      case None
      then show ?thesis using True x get
        by (cases "pcs ! i")
           (auto simp: thread_step_def intro: pool_step.ask pool_step.work pool_work.give_back)
    next
      case (Some r)
      then obtain s' q where "mongoPoolConnectionRelease s (pcs ! i) = Some (s', q)" by (cases r) simp
      then show ?thesis using True x get pool_work.release[of i pcs s s' q] pool_step.work by (auto simp: thread_step_def)
    qed
  next
    case (Some r)
    then obtain s' q where "mongoPoolConnectionGet time_zero s (pcs ! i) = Some (s', q)" by (cases r) simp
    then show ?thesis using True x pool_work.get[of i pcs time_zero s s' q] pool_step.work by (auto simp: thread_step_def)
  qed
qed (auto simp: thread_step_def split: prod.splits)

lemma schedule_reachable: "pool_step\<^sup>*\<^sup>* x (fold thread_step sched x)"
proof (induction sched arbitrary: x)
  case (Cons i sched)
  show ?case using rtranclp_trans[OF thread_step_reachable[of x i] Cons.IH[of "thread_step i x"]] by simp
qed simp

definition driver0 :: "nat \<Rightarrow> driver" where
  "driver0 c = \<lparr>drv_single = c, drv_replica = (\<lambda>_ _. c), drv_connect = (\<lambda>t. 2 \<le> t), drv_nodes = of_bool,
                drv_nodes_set = of_bool, drv_auth = (\<lambda>_ _ _. True), drv_version = ''2.6''\<rparr>"

definition pool0 :: pool where
  "pool0 = \<lparr>connectionPool = [], connectionPoolSize = 0, connectionPoolSem = 0, connectionSem = 0,
            semWaitingTime = time_zero, semStatistics = False, mongoVersion = (- 1, - 1)\<rparr>"

definition pool2 :: pool where
  "pool2 = pool0\<lparr>connectionPool := [\<lparr>connection = Some 5, free = True\<rparr>, \<lparr>connection = Some 6, free = True\<rparr>],
                 connectionPoolSize := 2, connectionPoolSem := 1, connectionSem := 2, mongoVersion := (2, 6)\<rparr>"

lemma connect_loop_driver0: "connect_loop (\<lambda>t. 2 \<le> t) RECONNECT_RETRIES 0 = (True, 3)"
  by (simp add: connect_loop.simps RECONNECT_RETRIES_def)

lemma versionParse_26: "versionParse ''2.6'' (a, b, []) = (True, 2, 6, [])"
  by code_simp

lemma pool2_init:
  "mongoConnectionPoolInit True 0 0 [driver0 5, driver0 6] ''h'' ''orion'' [] [] [] False 1 False pool0 = (0, pool2)"
  by (simp add: mongoConnectionPoolInit_def mongoConnect_def driver0_def pool0_def pool2_def Let_def
      connect_loop_driver0 versionParse_26)


definition pool2_used :: pool where
  "pool2_used = pool2\<lparr>connectionPool := [\<lparr>connection = Some 5, free = False\<rparr>, \<lparr>connection = Some 6, free = False\<rparr>],
                      connectionSem := 0\<rparr>"

lemma pool2_run: "pool_step\<^sup>*\<^sup>* (pool2, replicate 2 Idle) (pool2_used, [InUse (Some 5), InUse (Some 6)])"
proof -
  have "fold thread_step (replicate 7 0 @ replicate 8 1) (pool2, replicate 2 Idle) = (pool2_used, [InUse (Some 5), InUse (Some 6)])"
    by code_simp
  then show ?thesis using schedule_reachable[of "(pool2, replicate 2 Idle)" "replicate 7 0 @ replicate 8 1"] by simp
qed

lemma pool2_distinct: "distinct (map connection (connectionPool pool2))" "0 < connectionPoolSize pool2"
  by (simp_all add: pool2_def)

theorem pool_exclusive_witness:
  "pool_step\<^sup>*\<^sup>* (pool2, replicate 2 Idle) (pool2_used, [InUse (Some 5), InUse (Some 6)])
   \<and> Some 6 \<in> connection ` set (connectionPool pool2)"
  using pool_exclusive[OF pool2_init pool2_distinct(1) pool2_run] pool2_run by simp

theorem pool_drains_witness:
  "\<nexists>y. (pool_work ^^ 31) (pool2_used, [InUse (Some 5), InUse (Some 6)]) y"
proof -
  have "k \<le> 30" if "(pool_work ^^ k) (pool2_used, [InUse (Some 5), InUse (Some 6)]) y" for k y
    using conjunct1[OF pool_drains[OF pool2_init pool2_distinct pool2_run], rule_format, OF that] by (simp add: pool2_def)
  then show ?thesis by fastforce
qed

theorem pool_refines_resources_witness:
  "resource_step\<^sup>*\<^sup>* ({#Some 5, Some 6#}, [None, None]) ({#}, [Some (Some 5), Some (Some 6)])"
  using pool_refines_resources[OF pool2_init pool2_distinct(1) pool2_run]
  by (simp add: pool2_def pool2_used_def resources_of_def avail1_def numeral_2_eq_2)

section \<open>Connecting and initialising\<close>

lemma connect_loop_spec:
  "connect_loop connect retries tryNo =
     (case find connect [tryNo..<retries] of Some t \<Rightarrow> (True, t + 1) | None \<Rightarrow> (False, max tryNo retries))"
proof (induction connect retries tryNo rule: connect_loop.induct)
  case (1 connect retries tryNo)
  then show ?case
    by (subst connect_loop.simps) (auto simp: upt_conv_Cons split: option.splits)
qed

lemma connect_loop_100:
  "connect_loop connect RECONNECT_RETRIES 0 = (False, 100) \<longleftrightarrow> (\<forall>t < 100. \<not> connect t)"
  "connect_loop connect RECONNECT_RETRIES 0 = (True, Suc t) \<longleftrightarrow> t < 100 \<and> connect t \<and> (\<forall>j < t. \<not> connect j)"
proof -
  have "connect_loop connect RECONNECT_RETRIES 0 =
      (case find connect [0..<100] of Some t \<Rightarrow> (True, Suc t) | None \<Rightarrow> (False, 100))"
    by (simp add: connect_loop_spec RECONNECT_RETRIES_def split: option.splits)
  moreover have "find connect [0..<100] = None \<longleftrightarrow> (\<forall>t < 100. \<not> connect t)"
    by (auto simp: find_None_iff)
  moreover have "find connect [0..<100] = Some t \<longleftrightarrow> t < 100 \<and> connect t \<and> (\<forall>j < t. \<not> connect j)"
    by (auto simp: find_Some_iff)
  ultimately show "connect_loop connect RECONNECT_RETRIES 0 = (False, 100) \<longleftrightarrow> (\<forall>t < 100. \<not> connect t)"
    "connect_loop connect RECONNECT_RETRIES 0 = (True, Suc t) \<longleftrightarrow> t < 100 \<and> connect t \<and> (\<forall>j < t. \<not> connect j)"
    by (cases "find connect [0..<100]"; auto)+
qed

text \<open>C38: the loop of retries ends. It gives up, after exactly 100 calls of \<open>connect\<close>, just when these
  100 calls fail, and then \<open>mongoConnect\<close> returns NULL; otherwise it stops with success at the first call
  that succeeds, which is one of the first 100.\<close>

theorem connect_loop_ends:
  "(connect_loop connect RECONNECT_RETRIES 0 = (False, 100) \<longleftrightarrow> (\<forall>t < 100. \<not> connect t)) \<and>
   (\<forall>t. connect_loop connect RECONNECT_RETRIES 0 = (True, Suc t) \<longleftrightarrow>
      t < 100 \<and> connect t \<and> (\<forall>j < t. \<not> connect j)) \<and>
   (connect_loop connect RECONNECT_RETRIES 0 = (False, 100) \<or>
      (\<exists>t. connect_loop connect RECONNECT_RETRIES 0 = (True, Suc t))) \<and>
   ((\<forall>t < 100. \<not> drv_connect d t) \<longrightarrow> fst (mongoConnect d host db rplSet user passwd mt wc v) = None)"
proof (intro conjI allI impI)
  show "connect_loop connect RECONNECT_RETRIES 0 = (False, 100) \<or>
      (\<exists>t. connect_loop connect RECONNECT_RETRIES 0 = (True, Suc t))"
    by (cases "find connect [0..<100]") (simp_all add: connect_loop_spec RECONNECT_RETRIES_def)
next
  assume "\<forall>t < 100. \<not> drv_connect d t"
  then have "connect_loop (drv_connect d) RECONNECT_RETRIES 0 = (False, 100)" by (simp add: connect_loop_100)
  then show "fst (mongoConnect d host db rplSet user passwd mt wc v) = None" by (simp add: mongoConnect_def)
qed (simp_all only: connect_loop_100)

theorem connect_loop_ends_witness:
  "connect_loop (\<lambda>t. 2 \<le> t) RECONNECT_RETRIES 0 = (True, 3) \<and>
   fst (mongoConnect ((driver0 7)\<lparr>drv_connect := \<lambda>t. 100 \<le> t\<rparr>) ''localhost'' ''orion'' [] [] [] False 1 (0, 0)) = None"
proof -
  let ?d = "(driver0 7)\<lparr>drv_connect := \<lambda>t. 100 \<le> t\<rparr>"
  note e = connect_loop_ends[of "\<lambda>t. 2 \<le> t" ?d "''localhost''" "''orion''" "[]" "[]" "[]" False 1 "(0, 0)"]
  have "connect_loop (\<lambda>t. 2 \<le> t) RECONNECT_RETRIES 0 = (True, Suc 2)"
    using e[THEN conjunct2, THEN conjunct1, rule_format, of 2] by auto
  moreover have "fst (mongoConnect ?d ''localhost'' ''orion'' [] [] [] False 1 (0, 0)) = None"
    using e by simp
  ultimately show ?thesis by simp
qed

text \<open>The connections of the pool are the results of \<open>mongoConnect\<close>, NULL included.\<close>

lemma connect_pool_failed:
  assumes "\<forall>d\<in>set ds. \<forall>v. fst (conn d v) = None"
  shows "map connection (fst (connect_pool conn ds v)) = map (\<lambda>_. None) ds"
  using assms
proof (induction ds arbitrary: v)
  case (Cons d ds)
  obtain c v1 where c: "conn d v = (c, v1)" by (cases "conn d v")
  then have "c = None" using Cons.prems by (metis fst_conv list.set_intros(1))
  moreover obtain cs v2 where "connect_pool conn ds v1 = (cs, v2)" by (cases "connect_pool conn ds v1")
  ultimately show ?case using c Cons.IH[of v1] Cons.prems by simp
qed simp

lemma mongoConnect_unreachable:
  assumes "\<forall>t. \<not> drv_connect d t"
  shows "fst (mongoConnect d host db rplSet user passwd mt wc v) = None"
proof -
  have "find (drv_connect d) [0..<RECONNECT_RETRIES] = None" using assms by (simp add: find_None_iff)
  then show ?thesis by (simp add: mongoConnect_def connect_loop_spec)
qed

text \<open>\<open>mongoConnectionPoolInit\<close> reports success whether or not there is a database: its result
  depends on the memory and the semaphores only. With no server the pool is full of NULL pointers,
  and a thread that asks for a connection gets NULL.\<close>

theorem pool_init_ignores_failure:
  assumes "\<forall>d\<in>set ds. \<forall>t. \<not> drv_connect d t" "ds \<noteq> []"
  shows "\<exists>s. mongoConnectionPoolInit True 0 0 ds host db rplSet user passwd mt wc False s0 = (0, s)
    \<and> map connection (connectionPool s) = map (\<lambda>_. None) ds
    \<and> pool_step\<^sup>*\<^sup>* (s, [Idle]) (fold thread_step (replicate 7 0) (s, [Idle]))
    \<and> snd (fold thread_step (replicate 7 0) (s, [Idle])) = [InUse None]"
proof -
  let ?conn = "\<lambda>d. mongoConnect d host db rplSet user passwd mt wc"
  obtain cs v where cs: "connect_pool ?conn ds (mongoVersion s0) = (cs, v)"
    by (cases "connect_pool ?conn ds (mongoVersion s0)")
  have "map connection cs = map (\<lambda>_. None) ds"
    using connect_pool_failed[of ds ?conn "mongoVersion s0"] mongoConnect_unreachable assms(1) cs by simp
  moreover have l: "length cs = length ds" "list_all free cs" using connect_pool_spec[OF cs] by auto
  moreover define s where "s = s0\<lparr>connectionPool := cs, connectionPoolSize := length ds, mongoVersion := v,
    connectionPoolSem := 1, connectionSem := length ds, semStatistics := False\<rparr>"
  have "cs ! 0 = \<lparr>connection = None, free = True\<rparr>"
    using assms(2) l \<open>map connection cs = _\<close> by (cases ds; cases cs) auto
  then have "snd (fold thread_step (replicate 7 0) (s, [Idle])) = [InUse None]"
    using assms(2) by (simp add: s_def thread_step_def numeral_eq_Suc)
  moreover have "mongoConnectionPoolInit True 0 0 ds host db rplSet user passwd mt wc False s0 = (0, s)"
    using cs by (simp add: mongoConnectionPoolInit_def s_def)
  moreover have "connectionPool s = cs" by (simp add: s_def)
  ultimately show ?thesis using schedule_reachable[of "(s, [Idle])" "replicate 7 0"] by blast
qed

theorem pool_init_ignores_failure_witness:
  "\<exists>s. mongoConnectionPoolInit True 0 0 [(driver0 5)\<lparr>drv_connect := \<lambda>_. False\<rparr>] ''h'' ''orion'' [] [] [] False 1 False pool0 = (0, s)
     \<and> map connection (connectionPool s) = [None]"
  using pool_init_ignores_failure[of "[(driver0 5)\<lparr>drv_connect := \<lambda>_. False\<rparr>]" "''h''" "''orion''" "[]" "[]" "[]" False 1 pool0]
  by auto

end
