(* ===== verification/Compound_Value.thy ===== *)
theory Compound_Value
  imports Orion_Prelude
begin

text \<open>
  Compound attribute values: the tree of \<^verbatim>\<open>src/src/lib/parse/CompoundValueNode.cpp\<close>, its
  translation to BSON when an attribute is stored (\<open>compoundValueBson\<close>, \<open>valueBson\<close> of
  \<^verbatim>\<open>mongoBackend/MongoCommonUpdate.cpp\<close>) and back when it is read
  (\<open>addCompoundNode\<close>, \<open>compoundObjectResponse\<close>, \<open>compoundVectorResponse\<close> of
  \<^verbatim>\<open>mongoBackend/MongoGlobal.cpp\<close>). The pointers \<open>container\<close> and \<open>rootP\<close> and the fields
  \<open>level\<close> and \<open>siblingNo\<close> of a node say where it is in the tree and have no field of their own here;
  the \<open>error\<close> of the root is threaded through the check.
\<close>

section \<open>The tree\<close>

datatype cv_type = CvString | CvObject | CvVector | CvUnknown

datatype cvnode = CvNode (cv_type: cv_type) (cv_name: string) (cv_value: string) (cv_path: string)
    (cv_childV: "cvnode list")

definition CompoundValueNode_top :: "cv_type \<Rightarrow> cvnode" where
  "CompoundValueNode_top t = CvNode t ''toplevel'' [] ''/'' []"

definition typeName :: "cv_type \<Rightarrow> string" where
  "typeName t = (case t of CvString \<Rightarrow> ''String'' | CvObject \<Rightarrow> ''Object''
     | CvVector \<Rightarrow> ''Vector'' | CvUnknown \<Rightarrow> ''Unknown'')"

fun cv_add_node :: "cvnode \<Rightarrow> cvnode \<Rightarrow> cvnode" where
  "cv_add_node (CvNode t n v p cs) node = CvNode t n v p (cs @ [node])"

definition cv_add :: "cvnode \<Rightarrow> cv_type \<Rightarrow> string \<Rightarrow> string \<Rightarrow> cvnode" where
  "cv_add nd t nm v =
     (let newPath = (if cv_path nd = ''/'' then cv_path nd @ nm else cv_path nd @ ''/'' @ nm)
      in cv_add_node nd (CvNode t nm v newPath []))"

section \<open>Well-formedness check\<close>

text \<open>The first name that occurs again later, in the order of the double loop.\<close>

fun first_dup :: "string list \<Rightarrow> string option" where
  "first_dup [] = None"
| "first_dup (x # xs) = (if x \<in> set xs then Some x else first_dup xs)"

fun cv_check :: "cvnode \<Rightarrow> string \<Rightarrow> string"
  and cv_check_list :: "cvnode list \<Rightarrow> string \<Rightarrow> string" where
  "cv_check (CvNode t n v p cs) err =
     (if t = CvVector then
        (if cs = [] then err
         else case find (\<lambda>c. cv_name c \<noteq> cv_name (hd cs)) (tl cs) of
                Some c \<Rightarrow> ''bad tag-name of vector item: /'' @ cv_name c @ ''/, should be /'' @ cv_name (hd cs) @ ''/''
              | None \<Rightarrow> cv_check_list cs err)
      else if t = CvObject then
        (if cs = [] then err
         else case first_dup (map cv_name cs) of
                Some m \<Rightarrow> ''duplicated tag-name: /'' @ m @ ''/ in path: '' @ p
              | None \<Rightarrow> cv_check_list cs err)
      else err)"
| "cv_check_list [] err = err"
| "cv_check_list (c # cs) err = cv_check_list cs (cv_check c err)"

definition cv_finish :: "cvnode \<Rightarrow> string" where
  "cv_finish nd = cv_check nd ''OK''"

text \<open>
  The contract: all items of a vector have the same name, no two fields of an object do,
  at every level.
\<close>

fun cv_wf :: "cvnode \<Rightarrow> bool" where
  "cv_wf (CvNode t n v p cs) \<longleftrightarrow>
     (t = CvVector \<longrightarrow> (\<forall>c\<in>set cs. cv_name c = cv_name (hd cs)) \<and> (\<forall>c\<in>set cs. cv_wf c)) \<and>
     (t = CvObject \<longrightarrow> distinct (map cv_name cs) \<and> (\<forall>c\<in>set cs. cv_wf c))"

text \<open>A copy; the root is created anew from its type only.\<close>

fun cv_clone_inner :: "cvnode \<Rightarrow> cvnode" where
  "cv_clone_inner (CvNode t n v p cs) = CvNode t n v p (map cv_clone_inner cs)"

fun cv_clone :: "cvnode \<Rightarrow> cvnode" where
  "cv_clone (CvNode t n v p cs) = foldl cv_add_node (CompoundValueNode_top t) (map cv_clone_inner cs)"

section \<open>BSON values\<close>

text \<open>The BSON values an attribute may have; \<open>BOther\<close> is any type the broker does not write.\<close>

datatype bson = BString string | BObject "(string \<times> bson) list" | BArray "bson list" | BOther

fun compoundValueBson_arr :: "cvnode list \<Rightarrow> bson list"
  and compoundValueBson_obj :: "cvnode list \<Rightarrow> (string \<times> bson) list" where
  "compoundValueBson_arr [] = []"
| "compoundValueBson_arr (CvNode t n v p cs # r) =
     (case t of CvString \<Rightarrow> [BString v] | CvVector \<Rightarrow> [BArray (compoundValueBson_arr cs)]
      | CvObject \<Rightarrow> [BObject (compoundValueBson_obj cs)] | CvUnknown \<Rightarrow> []) @ compoundValueBson_arr r"
| "compoundValueBson_obj [] = []"
| "compoundValueBson_obj (CvNode t n v p cs # r) =
     (case t of CvString \<Rightarrow> [(n, BString v)] | CvVector \<Rightarrow> [(n, BArray (compoundValueBson_arr cs))]
      | CvObject \<Rightarrow> [(n, BObject (compoundValueBson_obj cs))] | CvUnknown \<Rightarrow> []) @ compoundValueBson_obj r"

text \<open>
  The value field of a stored attribute: \<open>None\<close> when no field is appended (an unknown node
  type).
\<close>

definition valueBson :: "cvnode option \<Rightarrow> string \<Rightarrow> bson option" where
  "valueBson compoundValueP v =
     (case compoundValueP of
        None \<Rightarrow> Some (BString v)
      | Some nd \<Rightarrow> (case cv_type nd of
            CvVector \<Rightarrow> Some (BArray (compoundValueBson_arr (cv_childV nd)))
          | CvObject \<Rightarrow> Some (BObject (compoundValueBson_obj (cv_childV nd)))
          | CvString \<Rightarrow> Some (BString (cv_value nd))
          | CvUnknown \<Rightarrow> None))"

text \<open>
  Reading back. The elements of a BSON array are named by their position; every node of the
  result was created as a root, with the path of a root.
\<close>

fun addCompoundNode :: "string \<Rightarrow> bson \<Rightarrow> cvnode list"
  and compoundObjectResponse :: "(string \<times> bson) list \<Rightarrow> cvnode list"
  and compoundVectorResponse :: "nat \<Rightarrow> bson list \<Rightarrow> cvnode list" where
  "addCompoundNode nm (BString v) = [CvNode CvString nm v ''/'' []]"
| "addCompoundNode nm (BObject fs) = [CvNode CvObject nm [] ''/'' (compoundObjectResponse fs)]"
| "addCompoundNode nm (BArray bs) = [CvNode CvVector nm [] ''/'' (compoundVectorResponse 0 bs)]"
| "addCompoundNode nm BOther = []"
| "compoundObjectResponse [] = []"
| "compoundObjectResponse ((n, b) # fs) = addCompoundNode n b @ compoundObjectResponse fs"
| "compoundVectorResponse i [] = []"
| "compoundVectorResponse i (b # bs) = addCompoundNode (nat_str i) b @ compoundVectorResponse (Suc i) bs"

text \<open>The value of a read attribute, as \<open>entitiesQuery\<close> sets it.\<close>

definition value_response :: "bson \<Rightarrow> (string + cvnode) option" where
  "value_response b =
     (case b of
        BString v \<Rightarrow> Some (Inl v)
      | BObject fs \<Rightarrow> Some (Inr (CvNode CvObject ''toplevel'' [] ''/'' (compoundObjectResponse fs)))
      | BArray bs \<Rightarrow> Some (Inr (CvNode CvVector ''toplevel'' [] ''/'' (compoundVectorResponse 0 bs)))
      | BOther \<Rightarrow> None)"

fun bson_known :: "bson \<Rightarrow> bool" where
  "bson_known (BString v) = True"
| "bson_known (BObject fs) = list_all (\<lambda>(_, b). bson_known b) fs"
| "bson_known (BArray bs) = list_all bson_known bs"
| "bson_known BOther = False"

section \<open>The check is complete\<close>

lemma first_dup_None: "first_dup xs = None \<longleftrightarrow> distinct xs"
  by (induction xs) auto

lemma find_other_name:
  "cs \<noteq> [] \<Longrightarrow> find (\<lambda>c. cv_name c \<noteq> cv_name (hd cs)) (tl cs) = None \<longleftrightarrow> (\<forall>c\<in>set cs. cv_name c = cv_name (hd cs))"
  by (cases cs) (auto simp: find_None_iff)

lemma cv_check_msgs: "''bad tag-name of vector item: /'' @ a \<noteq> ''OK''" "''duplicated tag-name: /'' @ b \<noteq> ''OK''"
  by simp_all

lemma cv_check_iff:
  "cv_check nd err = ''OK'' \<longleftrightarrow> err = ''OK'' \<and> cv_wf nd"
  "cv_check_list cs err = ''OK'' \<longleftrightarrow> err = ''OK'' \<and> (\<forall>c\<in>set cs. cv_wf c)"
proof (induction nd err and cs err rule: cv_check_cv_check_list.induct)
  case (1 t n v p cs err)
  show ?case
  proof (cases "cs = [] \<or> (t \<noteq> CvVector \<and> t \<noteq> CvObject)")
    case True
    then show ?thesis by (cases t) simp_all
  next
    case False
    then have ne: "cs \<noteq> []" by simp
    show ?thesis
    proof (cases "t = CvVector")
      case True
      show ?thesis
      proof (cases "find (\<lambda>c. cv_name c \<noteq> cv_name (hd cs)) (tl cs)")
        case None
        with 1(1) True ne show ?thesis by (simp add: find_other_name [OF ne, symmetric])
      next
        case (Some c)
        then have "\<not> (\<forall>c\<in>set cs. cv_name c = cv_name (hd cs))"
          using find_other_name [OF ne] by simp
        with True ne Some show ?thesis by (simp only: cv_check.simps cv_wf.simps if_True if_False option.case cv_check_msgs) simp
      qed
    next
      case obj: False
      with False have t: "t = CvObject" by simp
      show ?thesis
      proof (cases "first_dup (map cv_name cs)")
        case None
        with 1(2) t ne show ?thesis by (simp add: first_dup_None [symmetric])
      next
        case (Some m)
        then have "\<not> distinct (map cv_name cs)" using first_dup_None by (metis option.distinct(1))
        with t ne Some show ?thesis by (simp del: append.simps add: cv_check_msgs)
      qed
    qed
  qed
next
  case (2 err)
  then show ?case by simp
next
  case (3 c cs err)
  then show ?case by auto
qed

section \<open>Stored values are read back\<close>

lemma compoundValueBson_append:
  "compoundValueBson_arr (a @ b) = compoundValueBson_arr a @ compoundValueBson_arr b"
  "compoundValueBson_obj (a @ b) = compoundValueBson_obj a @ compoundValueBson_obj b"
proof (induction a)
  case Nil
  { case 1 show ?case by simp next case 2 show ?case by simp }
next
  case (Cons c a)
  obtain t n v p cs where c: "c = CvNode t n v p cs" by (cases c)
  { case 1 show ?case using Cons by (simp add: c) next case 2 show ?case using Cons by (simp add: c) }
qed

lemma compound_bson_response:
  "bson_known b \<Longrightarrow>
     compoundValueBson_arr (addCompoundNode nm b) = [b] \<and> compoundValueBson_obj (addCompoundNode nm b) = [(nm, b)]"
  "list_all (\<lambda>(_, b). bson_known b) fs \<Longrightarrow> compoundValueBson_obj (compoundObjectResponse fs) = fs"
  "list_all bson_known bs \<Longrightarrow> compoundValueBson_arr (compoundVectorResponse i bs) = bs"
  by (induction nm b and fs and i bs
      rule: addCompoundNode_compoundObjectResponse_compoundVectorResponse.induct)
    (simp_all add: compoundValueBson_append)

text \<open>Writing back the value that was read: the stored value, for every value the broker writes.\<close>

definition value_store :: "(string + cvnode) option \<Rightarrow> bson" where
  "value_store r = (case r of None \<Rightarrow> BOther | Some (Inl v) \<Rightarrow> BString v
     | Some (Inr nd) \<Rightarrow> (case valueBson (Some nd) [] of None \<Rightarrow> BOther | Some b \<Rightarrow> b))"

interpretation stored_value: codec value_response value_store bson_known
proof
  fix b :: bson
  assume "bson_known b"
  then show "value_store (value_response b) = b"
    by (cases b) (simp_all add: value_store_def value_response_def valueBson_def compound_bson_response)
qed

fun cv_known :: "cvnode \<Rightarrow> bool" where
  "cv_known (CvNode t n v p cs) \<longleftrightarrow> t \<noteq> CvUnknown \<and> list_all cv_known cs"

lemma compoundValueBson_known:
  "list_all bson_known (compoundValueBson_arr cs)"
  "list_all (\<lambda>(_, b). bson_known b) (compoundValueBson_obj cs)"
  by (induction cs and cs rule: compoundValueBson_arr_compoundValueBson_obj.induct)
    (simp_all split: cv_type.splits)

lemma valueBson_known: "valueBson c v = Some b \<Longrightarrow> bson_known b"
  by (auto simp: valueBson_def compoundValueBson_known split: option.splits cv_type.splits)

text \<open>
  The same compound value: the same type at every node, the same text of a string, the same fields
  in the same order of an object, the same items in the same order of a vector. The names of vector items
  and the paths of nodes are not part of the value.
\<close>

fun cv_same :: "cvnode \<Rightarrow> cvnode \<Rightarrow> bool" where
  "cv_same (CvNode t n v p cs) (CvNode t' n' v' p' ds) \<longleftrightarrow>
     t = t' \<and> (t = CvString \<longrightarrow> v = v') \<and> (t = CvObject \<longrightarrow> map cv_name cs = map cv_name ds) \<and>
     (t = CvObject \<or> t = CvVector \<longrightarrow> list_all2 cv_same cs ds)"

lemma compound_same:
  "list_all cv_known cs \<Longrightarrow> list_all2 cv_same cs (compoundVectorResponse i (compoundValueBson_arr cs))"
  "list_all cv_known cs \<Longrightarrow> list_all2 cv_same cs (compoundObjectResponse (compoundValueBson_obj cs))
     \<and> map cv_name cs = map cv_name (compoundObjectResponse (compoundValueBson_obj cs))"
  by (induction cs and cs arbitrary: i rule: compoundValueBson_arr_compoundValueBson_obj.induct)
    (auto split: cv_type.splits)

section \<open>Copies\<close>

lemma foldl_add_node: "foldl cv_add_node (CvNode t n v p cs) ds = CvNode t n v p (cs @ ds)"
  by (induction ds arbitrary: cs) simp_all

lemma cv_clone_inner_id: "cv_clone_inner nd = nd"
  by (induction nd rule: cv_clone_inner.induct) (simp add: map_idI)

section \<open>Claims\<close>

text \<open>\<open>CompoundValueNode::finish\<close> reports "OK" exactly for the trees in which, at every level, all
  items of a vector have the same name and no two fields of an object do.\<close>

theorem cv_finish_OK: "cv_finish nd = ''OK'' \<longleftrightarrow> cv_wf nd"
  by (simp add: cv_finish_def cv_check_iff)

text \<open>C36: the value read back is the value stored. A plain value and the text of a compound value that
  is a string are read back as that text. An object or vector none of whose nodes has an unknown type is
  read back as a tree with the same types, texts, field names and items in the same order at every level
  (only the names of vector items and the paths of the nodes are made anew), and storing it again gives the
  same BSON; reading distinguishes any two stored values.\<close>

theorem stored_value_roundtrip:
  assumes "valueBson c v = Some b" and "\<forall>nd. c = Some nd \<longrightarrow> cv_known nd"
  shows "(case c of
            None \<Rightarrow> value_response b = Some (Inl v)
          | Some nd \<Rightarrow>
              if cv_type nd = CvString then value_response b = Some (Inl (cv_value nd))
              else \<exists>nd'. value_response b = Some (Inr nd') \<and> cv_same nd nd' \<and> valueBson (Some nd') [] = Some b)
    \<and> (valueBson c' v' = Some b' \<and> value_response b' = value_response b \<longrightarrow> b' = b)"
proof (intro conjI impI)
  assume "valueBson c' v' = Some b' \<and> value_response b' = value_response b"
  then show "b' = b" using assms(1) valueBson_known stored_value.enc_inj by metis
next
  show "case c of
            None \<Rightarrow> value_response b = Some (Inl v)
          | Some nd \<Rightarrow>
              if cv_type nd = CvString then value_response b = Some (Inl (cv_value nd))
              else \<exists>nd'. value_response b = Some (Inr nd') \<and> cv_same nd nd' \<and> valueBson (Some nd') [] = Some b"
  proof (cases c)
    case None
    then show ?thesis using assms(1) by (auto simp: valueBson_def value_response_def)
  next
    case (Some nd)
    obtain t n w p cs where nd: "nd = CvNode t n w p cs" by (cases nd)
    have "list_all cv_known cs" using assms(2) Some nd by simp
    note same = compound_same(1) [OF this, of 0] compound_same(2) [OF this] compound_bson_response(2,3) compoundValueBson_known
    show ?thesis using assms(1) Some nd same
      by (cases t) (auto simp: valueBson_def value_response_def)
  qed
qed

definition room_value :: cvnode where
  "room_value = CvNode CvObject ''toplevel'' [] ''/''
     [CvNode CvString ''unit'' ''C'' ''/unit'' [],
      CvNode CvVector ''readings'' [] ''/readings''
        [CvNode CvString ''item'' ''21'' ''/readings/item'' [], CvNode CvString ''item'' ''22'' ''/readings/item'' []]]"

theorem stored_value_roundtrip_witness:
  "\<exists>b nd'. valueBson (Some room_value) [] = Some b \<and> value_response b = Some (Inr nd') \<and> cv_same room_value nd'"
proof -
  have b: "valueBson (Some room_value) [] =
      Some (BObject [(''unit'', BString ''C''), (''readings'', BArray [BString ''21'', BString ''22''])])"
    by (simp add: valueBson_def room_value_def)
  have "cv_known room_value" "cv_type room_value = CvObject" by (simp_all add: room_value_def)
  then show ?thesis using stored_value_roundtrip [OF b, of None "[]" BOther] b by auto
qed

text \<open>\<open>clone\<close> copies a compound value, except that the value of a root that is a string is lost (and a
  root gets the name and path of a root).\<close>

theorem cv_clone_spec:
  "cv_clone (CvNode t n v p cs) = CvNode t ''toplevel'' [] ''/'' cs"
  by (simp add: CompoundValueNode_top_def foldl_add_node cv_clone_inner_id map_idI)

end
