(* ===== verification/Ngsi_Types.thy ===== *)
theory Ngsi_Types
  imports Common_Globals Compound_Value
begin

text \<open>
  The NGSI data types of \<^verbatim>\<open>src/src/lib/ngsi/\<close>: entity ids, metadata, attributes, context
  elements, registrations and status codes, with their \<open>check\<close>, \<open>fill\<close>, \<open>lookup\<close> and constructor
  functions. A vector of pointers is the list of what they point to; a copy constructor is a function.
  The fields used for rendering only (\<open>tag\<close>, \<open>typeFromXmlAttribute\<close>) are left out.
\<close>

section \<open>Contract of vectors without duplicates\<close>

locale unique_vector =
  fixes key :: "'a \<Rightarrow> 'k" and push :: "'a list \<Rightarrow> 'a \<Rightarrow> 'a list"
  assumes push_absent: "key x \<notin> key ` set xs \<Longrightarrow> push xs x = xs @ [x]"
    and push_present: "key x \<in> key ` set xs \<Longrightarrow> push xs x = xs"
begin

lemma push_keys: "key ` set (push xs x) = insert (key x) (key ` set xs)"
  by (cases "key x \<in> key ` set xs") (auto simp: push_absent push_present)

lemma push_distinct: "distinct (map key xs) \<Longrightarrow> distinct (map key (push xs x))"
  by (cases "key x \<in> key ` set xs") (auto simp: push_absent push_present)

lemma push_idem: "push (push xs x) x = push xs x"
  by (simp add: push_present push_keys)

lemma fold_push_distinct: "distinct (map key xs) \<Longrightarrow> distinct (map key (foldl push xs ys))"
  by (induction ys arbitrary: xs) (auto intro: push_distinct)

lemma fold_push_keys: "key ` set (foldl push xs ys) = key ` set xs \<union> key ` set ys"
  by (induction ys arbitrary: xs) (auto simp: push_keys)

end

section \<open>Enumerations and status codes\<close>

datatype Format = XML | JSON | TEXT | HTML | NOFORMAT

text \<open>The request types the checks distinguish; every other one is \<open>OtherRequest\<close>.\<close>

datatype RequestType = RegisterContext | DiscoverContextAvailability | SubscribeContextAvailability
  | UpdateContextAvailabilitySubscription | QueryContext | SubscribeContext | UpdateContext | OtherRequest nat

datatype HttpStatusCode = SccNone | SccOk | SccBadRequest | SccForbidden | SccContextElementNotFound
  | SccBadVerb | SccNotAcceptable | SccConflict | SccLengthRequired | SccRequestEntityTooLarge
  | SccUnsupportedMediaType | SccSubscriptionIdNotFound | SccMissingParameter | SccInvalidParameter
  | SccErrorInMetadata | SccEntityIdReNotAllowed | SccEntityTypeRequired | SccAttributeListRequired
  | SccReceiverInternalError | SccNotImplemented

definition httpStatusCodeString :: "HttpStatusCode \<Rightarrow> string" where
  "httpStatusCodeString code =
     (case code of
        SccOk \<Rightarrow> ''OK''
      | SccBadRequest \<Rightarrow> ''Bad Request''
      | SccForbidden \<Rightarrow> ''Forbidden''
      | SccContextElementNotFound \<Rightarrow> ''No context element found''
      | SccBadVerb \<Rightarrow> ''Method Not Allowed''
      | SccNotAcceptable \<Rightarrow> ''Not Acceptable''
      | SccLengthRequired \<Rightarrow> ''Length Required''
      | SccRequestEntityTooLarge \<Rightarrow> ''Request Entity Too Large''
      | SccUnsupportedMediaType \<Rightarrow> ''Unsupported Media Type''
      | SccSubscriptionIdNotFound \<Rightarrow> ''subscriptionId does not correspond to an active subscription''
      | SccMissingParameter \<Rightarrow> ''parameter missing in the request''
      | SccInvalidParameter \<Rightarrow> ''request parameter is invalid/not allowed''
      | SccErrorInMetadata \<Rightarrow> ''Generic error in metadata''
      | SccEntityIdReNotAllowed \<Rightarrow> ''Regular Expression for EntityId is not allowed by receiver''
      | SccEntityTypeRequired \<Rightarrow> ''EntityType required by the receiver''
      | SccAttributeListRequired \<Rightarrow> ''Attribute List required by the receiver''
      | SccReceiverInternalError \<Rightarrow> ''Internal Server Error''
      | SccNotImplemented \<Rightarrow> ''Not Implemented''
      | _ \<Rightarrow> ''Undefined'')"

record StatusCode =
  sc_code :: HttpStatusCode
  sc_reasonPhrase :: string
  sc_details :: string

definition StatusCode_new :: StatusCode where
  "StatusCode_new = \<lparr>sc_code = SccNone, sc_reasonPhrase = [], sc_details = []\<rparr>"

definition StatusCode_fill :: "HttpStatusCode \<Rightarrow> string \<Rightarrow> StatusCode" where
  "StatusCode_fill c d = \<lparr>sc_code = c, sc_reasonPhrase = httpStatusCodeString c, sc_details = d\<rparr>"

section \<open>Entity ids\<close>

record EntityId =
  en_id :: string
  en_type :: string
  en_isPattern :: string
  en_servicePath :: string

definition EntityId_new :: "string \<Rightarrow> string \<Rightarrow> string \<Rightarrow> EntityId" where
  "EntityId_new i t p = \<lparr>en_id = i, en_type = t, en_isPattern = p, en_servicePath = []\<rparr>"

definition EntityId_fill :: "EntityId \<Rightarrow> string \<Rightarrow> string \<Rightarrow> string \<Rightarrow> EntityId" where
  "EntityId_fill e i t p = e\<lparr>en_id := i, en_type := t, en_isPattern := p\<rparr>"

definition EntityId_check :: "RequestType \<Rightarrow> EntityId \<Rightarrow> string" where
  "EntityId_check requestType e =
     (if en_id e = [] then ''empty entityId:id''
      else if \<not> isTrue (en_isPattern e) \<and> \<not> isFalse (en_isPattern e) \<and> en_isPattern e \<noteq> []
      then ''invalid isPattern value for entity: /'' @ en_isPattern e @ ''/''
      else if requestType = RegisterContext \<and> isTrue (en_isPattern e)
      then ''isPattern set to true for a registration''
      else ''OK'')"

definition EntityId_toString :: "EntityId \<Rightarrow> bool \<Rightarrow> string \<Rightarrow> string" where
  "EntityId_toString e useIsPattern delimiter =
     (let s = en_id e @ delimiter @ en_type e
      in if useIsPattern then s @ delimiter @ en_isPattern e else s)"

definition EntityId_equal :: "EntityId \<Rightarrow> EntityId \<Rightarrow> bool" where
  "EntityId_equal e eP =
     (if en_id eP \<noteq> en_id e then False
      else if en_type eP \<noteq> en_type e then False
      else if isTrue (en_isPattern eP) = isTrue (en_isPattern e) then True
      else False)"

fun EntityIdVector_check_loop :: "RequestType \<Rightarrow> EntityId list \<Rightarrow> string" where
  "EntityIdVector_check_loop rt [] = ''OK''"
| "EntityIdVector_check_loop rt (e # es) =
     (let res = EntityId_check rt e
      in if res \<noteq> ''OK'' then res else EntityIdVector_check_loop rt es)"

definition EntityIdVector_check :: "RequestType \<Rightarrow> EntityId list \<Rightarrow> string" where
  "EntityIdVector_check rt es =
     (if (rt = DiscoverContextAvailability \<or> rt = SubscribeContextAvailability \<or>
          rt = UpdateContextAvailabilitySubscription \<or> rt = QueryContext \<or> rt = SubscribeContext) \<and> es = []
      then ''No entities''
      else EntityIdVector_check_loop rt es)"

definition isPattern_norm :: "string \<Rightarrow> string" where
  "isPattern_norm p = (if p = [] then ''false'' else p)"

fun EntityIdVector_lookup :: "EntityId list \<Rightarrow> string \<Rightarrow> string \<Rightarrow> string \<Rightarrow> EntityId option" where
  "EntityIdVector_lookup [] i t p = None"
| "EntityIdVector_lookup (e # es) i t p =
     (if en_id e = i \<and> en_type e = t \<and> isPattern_norm (en_isPattern e) = isPattern_norm p then Some e
      else EntityIdVector_lookup es i t p)"

definition EntityIdVector_push_back_if_absent :: "EntityId list \<Rightarrow> EntityId \<Rightarrow> EntityId list" where
  "EntityIdVector_push_back_if_absent es e =
     (if EntityIdVector_lookup es (en_id e) (en_type e) (en_isPattern e) = None then es @ [e] else es)"

section \<open>Attribute lists\<close>

fun AttributeList_check :: "string list \<Rightarrow> string" where
  "AttributeList_check [] = ''OK''"
| "AttributeList_check (a # as) = (if a = [] then ''empty attribute name'' else AttributeList_check as)"

fun AttributeList_lookup :: "string list \<Rightarrow> string \<Rightarrow> bool" where
  "AttributeList_lookup [] n = False"
| "AttributeList_lookup (a # as) n = (if a = n then True else AttributeList_lookup as n)"

definition AttributeList_push_back_if_absent :: "string list \<Rightarrow> string \<Rightarrow> string list" where
  "AttributeList_push_back_if_absent as n = (if AttributeList_lookup as n = False then as @ [n] else as)"

section \<open>Associations and metadata\<close>

record AttributeAssociation =
  aa_source :: string
  aa_target :: string

record EntityAssociation =
  ea_source :: EntityId
  ea_target :: EntityId

record Association =
  as_entityAssociation :: EntityAssociation
  as_attributeAssociationList :: "AttributeAssociation list"

definition AttributeAssociation_check :: "AttributeAssociation \<Rightarrow> string" where
  "AttributeAssociation_check a =
     (if aa_source a = [] then ''empty source'' else if aa_target a = [] then ''empty target'' else ''OK'')"

fun AttributeAssociationList_check :: "AttributeAssociation list \<Rightarrow> string" where
  "AttributeAssociationList_check [] = ''OK''"
| "AttributeAssociationList_check (a # as) =
     (let res = AttributeAssociation_check a
      in if res \<noteq> ''OK'' then res else AttributeAssociationList_check as)"

definition EntityAssociation_check :: "RequestType \<Rightarrow> EntityAssociation \<Rightarrow> string" where
  "EntityAssociation_check rt ea =
     (if EntityId_check rt (ea_source ea) \<noteq> ''OK'' then EntityId_check rt (ea_source ea)
      else if EntityId_check rt (ea_target ea) \<noteq> ''OK'' then EntityId_check rt (ea_target ea)
      else ''OK'')"

text \<open>The results of the two checks are compared but never assigned to the returned string.\<close>

definition Association_check :: "RequestType \<Rightarrow> Association \<Rightarrow> string" where
  "Association_check rt a =
     (if EntityAssociation_check rt (as_entityAssociation a) \<noteq> ''OK'' then []
      else if AttributeAssociationList_check (as_attributeAssociationList a) \<noteq> ''OK'' then []
      else ''OK'')"

definition Association_new :: Association where
  "Association_new = \<lparr>as_entityAssociation = \<lparr>ea_source = EntityId_new [] [] [], ea_target = EntityId_new [] [] []\<rparr>,
     as_attributeAssociationList = []\<rparr>"

record Metadata =
  md_name :: string
  md_type :: string
  md_value :: string
  md_association :: Association

definition Metadata_new :: "string \<Rightarrow> string \<Rightarrow> string \<Rightarrow> Metadata" where
  "Metadata_new n t v = \<lparr>md_name = n, md_type = t, md_value = v, md_association = Association_new\<rparr>"

text \<open>The copy constructor does not copy the association.\<close>

definition Metadata_copy :: "Metadata \<Rightarrow> Metadata" where
  "Metadata_copy m = Metadata_new (md_name m) (md_type m) (md_value m)"

definition Metadata_check :: "RequestType \<Rightarrow> Metadata \<Rightarrow> string" where
  "Metadata_check rt m =
     (if md_name m = [] then ''missing metadata name''
      else if md_value m = [] \<and> md_type m \<noteq> ''Association'' then ''missing metadata value''
      else if md_type m = ''Association'' then Association_check rt (md_association m)
      else ''OK'')"

fun MetadataVector_check :: "RequestType \<Rightarrow> Metadata list \<Rightarrow> string" where
  "MetadataVector_check rt [] = ''OK''"
| "MetadataVector_check rt (m # ms) =
     (let res = Metadata_check rt m in if res \<noteq> ''OK'' then res else MetadataVector_check rt ms)"

fun MetadataVector_lookupByName :: "Metadata list \<Rightarrow> string \<Rightarrow> Metadata option" where
  "MetadataVector_lookupByName [] n = None"
| "MetadataVector_lookupByName (m # ms) n =
     (if md_name m = n then Some m else MetadataVector_lookupByName ms n)"

definition MetadataVector_fill :: "Metadata list \<Rightarrow> Metadata list \<Rightarrow> Metadata list" where
  "MetadataVector_fill ms src = ms @ map Metadata_copy src"

abbreviation NGSI_MD_ID :: string where "NGSI_MD_ID \<equiv> ''ID''"
abbreviation NGSI_MD_LOCATION :: string where "NGSI_MD_LOCATION \<equiv> ''location''"
abbreviation NGSI_MD_CREDATE :: string where "NGSI_MD_CREDATE \<equiv> ''creDate''"
abbreviation NGSI_MD_MODDATE :: string where "NGSI_MD_MODDATE \<equiv> ''modDate''"

section \<open>Attributes\<close>

record ProvidingApplication =
  pa_string :: string
  pa_format :: Format

definition ProvidingApplication_new :: ProvidingApplication where
  "ProvidingApplication_new = \<lparr>pa_string = [], pa_format = NOFORMAT\<rparr>"

definition ProvidingApplication_check :: "ProvidingApplication \<Rightarrow> string" where
  "ProvidingApplication_check pa = (if pa_string pa = [] then ''no providing application'' else ''OK'')"

record ContextAttribute =
  ca_name :: string
  ca_type :: string
  ca_value :: string
  ca_compoundValueP :: "cvnode option"
  ca_found :: bool
  ca_metadataVector :: "Metadata list"
  ca_providingApplication :: ProvidingApplication

definition ContextAttribute_new :: "string \<Rightarrow> string \<Rightarrow> string \<Rightarrow> bool \<Rightarrow> ContextAttribute" where
  "ContextAttribute_new n t v f =
     \<lparr>ca_name = n, ca_type = t, ca_value = v, ca_compoundValueP = None, ca_found = f,
      ca_metadataVector = [], ca_providingApplication = ProvidingApplication_new\<rparr>"

definition ContextAttribute_copy :: "ContextAttribute \<Rightarrow> ContextAttribute" where
  "ContextAttribute_copy ca =
     \<lparr>ca_name = ca_name ca, ca_type = ca_type ca, ca_value = ca_value ca,
      ca_compoundValueP = map_option cv_clone (ca_compoundValueP ca), ca_found = ca_found ca,
      ca_metadataVector = map Metadata_copy (ca_metadataVector ca),
      ca_providingApplication = ca_providingApplication ca\<rparr>"

fun md_first_value :: "string \<Rightarrow> Metadata list \<Rightarrow> string" where
  "md_first_value n [] = []"
| "md_first_value n (m # ms) = (if md_name m = n then md_value m else md_first_value n ms)"

definition getId :: "ContextAttribute \<Rightarrow> string" where
  "getId ca = md_first_value NGSI_MD_ID (ca_metadataVector ca)"

definition getLocation :: "ContextAttribute \<Rightarrow> string" where
  "getLocation ca = md_first_value NGSI_MD_LOCATION (ca_metadataVector ca)"

definition ContextAttribute_check :: "ContextAttribute \<Rightarrow> string" where
  "ContextAttribute_check ca =
     (if ca_name ca = [] then ''missing attribute name''
      else if (case ca_compoundValueP ca of None \<Rightarrow> False | Some nd \<Rightarrow> cv_childV nd \<noteq> []) then ''OK''
      else ''OK'')"

fun ContextAttributeVector_check :: "ContextAttribute list \<Rightarrow> string" where
  "ContextAttributeVector_check [] = ''OK''"
| "ContextAttributeVector_check (ca # cas) =
     (let res = ContextAttribute_check ca
      in if res \<noteq> ''OK'' then res else ContextAttributeVector_check cas)"

definition ContextAttributeVector_fill :: "ContextAttribute list \<Rightarrow> ContextAttribute list \<Rightarrow> ContextAttribute list" where
  "ContextAttributeVector_fill cas src = cas @ map ContextAttribute_copy src"

section \<open>Context elements\<close>

record ContextElement =
  ce_entityId :: EntityId
  ce_attributeDomainName :: string
  ce_contextAttributeVector :: "ContextAttribute list"
  ce_domainMetadataVector :: "Metadata list"
  ce_providingApplicationList :: "ProvidingApplication list"

definition ContextElement_new :: ContextElement where
  "ContextElement_new = \<lparr>ce_entityId = EntityId_new [] [] ''false'', ce_attributeDomainName = [],
     ce_contextAttributeVector = [], ce_domainMetadataVector = [], ce_providingApplicationList = []\<rparr>"

text \<open>\<open>AttributeDomainName::check\<close> is always "OK".\<close>

definition ContextElement_check :: "RequestType \<Rightarrow> ContextElement \<Rightarrow> string" where
  "ContextElement_check rt ce =
     (let res = EntityId_check rt (ce_entityId ce) in
      if res \<noteq> ''OK'' then res
      else let res2 = ContextAttributeVector_check (ce_contextAttributeVector ce) in
      if res2 \<noteq> ''OK'' then res2
      else let res3 = MetadataVector_check rt (ce_domainMetadataVector ce) in
      if res3 \<noteq> ''OK'' then res3
      else ''OK'')"

fun ContextElementVector_check_loop :: "RequestType \<Rightarrow> ContextElement list \<Rightarrow> string" where
  "ContextElementVector_check_loop rt [] = ''OK''"
| "ContextElementVector_check_loop rt (ce # ces) =
     (let res = ContextElement_check rt ce
      in if res \<noteq> ''OK'' then res else ContextElementVector_check_loop rt ces)"

definition ContextElementVector_check :: "RequestType \<Rightarrow> ContextElement list \<Rightarrow> string" where
  "ContextElementVector_check rt ces =
     (if rt = UpdateContext \<and> ces = [] then ''No context elements'' else ContextElementVector_check_loop rt ces)"

record ContextElementResponse =
  cer_contextElement :: ContextElement
  cer_statusCode :: StatusCode
  cer_prune :: bool

definition ContextElementResponse_new :: ContextElementResponse where
  "ContextElementResponse_new = \<lparr>cer_contextElement = ContextElement_new, cer_statusCode = StatusCode_new, cer_prune = False\<rparr>"

record ContextRegistrationAttribute =
  cra_name :: string
  cra_type :: string
  cra_isDomain :: string

record ContextRegistration =
  cr_entityIdVector :: "EntityId list"
  cr_attributeVector :: "ContextRegistrationAttribute list"
  cr_providingApplication :: ProvidingApplication

section \<open>The vectors meet their contracts\<close>

interpretation EntityIds: checked_vector "EntityId_check rt" "EntityIdVector_check_loop rt" for rt
  by unfold_locales (simp_all add: Let_def)

interpretation AssociationAttrs: checked_vector AttributeAssociation_check AttributeAssociationList_check
  by unfold_locales (simp_all add: Let_def)

interpretation Metadatas: checked_vector "Metadata_check rt" "MetadataVector_check rt" for rt
  by unfold_locales (simp_all add: Let_def)

interpretation Attributes: checked_vector ContextAttribute_check ContextAttributeVector_check
  by unfold_locales (simp_all add: Let_def)

interpretation Elements: checked_vector "ContextElement_check rt" "ContextElementVector_check_loop rt" for rt
  by unfold_locales (simp_all add: Let_def)

interpretation AttrNames: checked_vector "\<lambda>a. if a = [] then ''empty attribute name'' else ''OK''" AttributeList_check
  by unfold_locales simp_all

lemma AttributeList_lookup_iff: "AttributeList_lookup as n \<longleftrightarrow> n \<in> set as"
  by (induction as) auto

interpretation AttrList: unique_vector id AttributeList_push_back_if_absent
  by unfold_locales (simp_all add: AttributeList_push_back_if_absent_def AttributeList_lookup_iff)

definition EntityId_key :: "EntityId \<Rightarrow> string \<times> string \<times> string" where
  "EntityId_key e = (en_id e, en_type e, isPattern_norm (en_isPattern e))"

lemma EntityIdVector_lookup_None:
  "EntityIdVector_lookup es i t p = None \<longleftrightarrow> (i, t, isPattern_norm p) \<notin> EntityId_key ` set es"
  by (induction es) (auto simp: EntityId_key_def)

interpretation EntityIdUnique: unique_vector EntityId_key EntityIdVector_push_back_if_absent
  by unfold_locales
    (simp_all add: EntityIdVector_push_back_if_absent_def EntityIdVector_lookup_None EntityId_key_def)

lemma md_first_value_lookup:
  "md_first_value n ms = (case MetadataVector_lookupByName ms n of None \<Rightarrow> [] | Some m \<Rightarrow> md_value m)"
  by (induction ms) auto

section \<open>Claims\<close>

text \<open>The check of an update request's context elements passes exactly when there is at least one
  element (for an update), every entity has an id and a legal \<open>isPattern\<close> (not a pattern in a
  registration), every attribute has a name, and every domain metadata passes its own check.\<close>

theorem ContextElementVector_check_OK:
  "ContextElementVector_check rt ces = ''OK'' \<longleftrightarrow>
     (if rt = UpdateContext then ces \<noteq> [] else True) \<and>
     list_all (\<lambda>ce. en_id (ce_entityId ce) \<noteq> [] \<and>
        en_isPattern (ce_entityId ce) \<in> {[], ''true'', ''1'', ''false'', ''0''} \<and>
        (if rt = RegisterContext then \<not> isTrue (en_isPattern (ce_entityId ce)) else True) \<and>
        list_all (\<lambda>ca. ca_name ca \<noteq> []) (ce_contextAttributeVector ce) \<and>
        list_all (\<lambda>m. Metadata_check rt m = ''OK'') (ce_domainMetadataVector ce)) ces"
proof -
  have en: "EntityId_check rt e = ''OK'' \<longleftrightarrow> en_id e \<noteq> [] \<and>
      en_isPattern e \<in> {[], ''true'', ''1'', ''false'', ''0''} \<and>
      (if rt = RegisterContext then \<not> isTrue (en_isPattern e) else True)" for e
    by (auto simp: EntityId_check_def isTrue_def isFalse_def)
  have ca: "ContextAttribute_check a = ''OK'' \<longleftrightarrow> ca_name a \<noteq> []" for a
    by (simp add: ContextAttribute_check_def split: option.splits)
  have ce: "ContextElement_check rt c = ''OK'' \<longleftrightarrow> EntityId_check rt (ce_entityId c) = ''OK'' \<and>
      list_all (\<lambda>ca. ca_name ca \<noteq> []) (ce_contextAttributeVector c) \<and>
      list_all (\<lambda>m. Metadata_check rt m = ''OK'') (ce_domainMetadataVector c)" for c
    by (auto simp: ContextElement_check_def Let_def Attributes.ok_iff Metadatas.ok_iff ca list_all_iff)
  have "ContextElementVector_check rt ces = ''OK'' \<longleftrightarrow>
      (if rt = UpdateContext then ces \<noteq> [] else True) \<and> (\<forall>c\<in>set ces. ContextElement_check rt c = ''OK'')"
    by (auto simp: ContextElementVector_check_def Elements.ok_iff)
  then show ?thesis
    unfolding ce en by (simp add: list_all_iff)
qed

text \<open>When the check of a vector of context elements fails on an element, the message is that of the
  first element that fails, all before it being correct.\<close>

theorem ContextElementVector_check_first_error:
  assumes "ContextElementVector_check_loop rt ces \<noteq> ''OK''"
  shows "\<exists>us x vs. ces = us @ x # vs \<and> list_all (\<lambda>u. ContextElement_check rt u = ''OK'') us \<and>
    ContextElement_check rt x \<noteq> ''OK'' \<and> ContextElementVector_check_loop rt ces = ContextElement_check rt x"
  using Elements.first_error [OF assms] by (auto simp: list_all_iff)

theorem ContextElementVector_check_first_error_witness:
  "\<exists>us x vs. [ContextElement_new] = us @ x # vs \<and> list_all (\<lambda>u. ContextElement_check UpdateContext u = ''OK'') us \<and>
    ContextElement_check UpdateContext x \<noteq> ''OK'' \<and>
    ContextElementVector_check_loop UpdateContext [ContextElement_new] = ContextElement_check UpdateContext x"
  by (rule ContextElementVector_check_first_error)
    (simp add: ContextElement_new_def ContextElement_check_def EntityId_check_def EntityId_new_def)

text \<open>Building an entity vector with \<open>push_back_if_absent\<close> never produces two entries with the same
  id, type and pattern flag (an empty flag counts as "false"), and holds every entity given.\<close>

theorem EntityIdVector_unique:
  "distinct (map EntityId_key (foldl EntityIdVector_push_back_if_absent [] es)) \<and>
   EntityId_key ` set (foldl EntityIdVector_push_back_if_absent [] es) = EntityId_key ` set es"
  using EntityIdUnique.fold_push_distinct [of "[]" es] EntityIdUnique.fold_push_keys [of "[]" es] by simp

text \<open>A metadata of type "Association" whose association is refused is refused with an empty message:
  \<open>Association::check\<close> never assigns the result it returns.\<close>

theorem Association_error_message_lost:
  assumes "md_name m \<noteq> []" and "md_type m = ''Association''" and "Metadata_check rt m \<noteq> ''OK''"
  shows "Metadata_check rt m = []"
  using assms by (auto simp: Metadata_check_def Association_check_def split: if_splits)

theorem Association_error_message_lost_witness:
  "Metadata_check UpdateContext \<lparr>md_name = ''m'', md_type = ''Association'', md_value = [], md_association = Association_new\<rparr> = []"
  by (rule Association_error_message_lost)
    (simp_all add: Metadata_check_def Association_check_def EntityAssociation_check_def Association_new_def
      EntityId_check_def EntityId_new_def)

end
