(* ===== verification/Rest_Types.thy ===== *)
theory Rest_Types
  imports Ngsi_Types
begin

text \<open>
  The data of a connection: \<^verbatim>\<open>src/src/lib/rest/Verb.h\<close>, \<^verbatim>\<open>rest/HttpHeaders.h\<close>,
  \<^verbatim>\<open>rest/ConnectionInfo.h\<close> and \<^verbatim>\<open>rest/uriParamNames.h\<close>. The \<open>std::map\<close> of the URI
  parameters is a map; \<open>uriParam\<close> is its \<open>operator[]\<close>, which yields the empty string for a missing
  key. \<open>ci_replies\<close> stands for the HTTP connection itself: the responses queued on it with
  \<open>MHD_queue_response\<close>, the first one first. The payload is \<open>None\<close> for the null pointer; the pointers to
  the parse data and to the compound value under construction belong to the parsers and have no field.
\<close>

section \<open>Requests and verbs\<close>

text \<open>The numbers of the request types (\<^verbatim>\<open>ngsi/Request.h\<close>) that the checks do not tell apart.\<close>

abbreviation RtSubscribeContextAvailabilityResponse :: RequestType where
  "RtSubscribeContextAvailabilityResponse \<equiv> OtherRequest 4"
abbreviation RtUpdateContextAvailabilitySubscriptionResponse :: RequestType where
  "RtUpdateContextAvailabilitySubscriptionResponse \<equiv> OtherRequest 6"
abbreviation UnsubscribeContextAvailability :: RequestType where
  "UnsubscribeContextAvailability \<equiv> OtherRequest 7"
abbreviation RtUnsubscribeContextAvailabilityResponse :: RequestType where
  "RtUnsubscribeContextAvailabilityResponse \<equiv> OtherRequest 8"
abbreviation NotifyContextAvailability :: RequestType where
  "NotifyContextAvailability \<equiv> OtherRequest 9"
abbreviation UpdateContextSubscription :: RequestType where
  "UpdateContextSubscription \<equiv> OtherRequest 14"
abbreviation UnsubscribeContext :: RequestType where
  "UnsubscribeContext \<equiv> OtherRequest 15"
abbreviation RtUnsubscribeContextResponse :: RequestType where
  "RtUnsubscribeContextResponse \<equiv> OtherRequest 16"
abbreviation NotifyContext :: RequestType where
  "NotifyContext \<equiv> OtherRequest 17"
abbreviation RtUpdateContextResponse :: RequestType where
  "RtUpdateContextResponse \<equiv> OtherRequest 19"
abbreviation IndividualContextEntityAttributes :: RequestType where
  "IndividualContextEntityAttributes \<equiv> OtherRequest 32"
abbreviation IndividualContextEntityAttribute :: RequestType where
  "IndividualContextEntityAttribute \<equiv> OtherRequest 33"
abbreviation AttributeValueInstance :: RequestType where
  "AttributeValueInstance \<equiv> OtherRequest 35"
abbreviation RegisterResponse :: RequestType where
  "RegisterResponse \<equiv> OtherRequest 56"
abbreviation RtSubscribeResponse :: RequestType where
  "RtSubscribeResponse \<equiv> OtherRequest 57"
abbreviation RtSubscribeError :: RequestType where
  "RtSubscribeError \<equiv> OtherRequest 58"
abbreviation EntityTypes :: RequestType where
  "EntityTypes \<equiv> OtherRequest 61"
abbreviation AllContextEntities :: RequestType where
  "AllContextEntities \<equiv> OtherRequest 65"
abbreviation RtQueryContextResponse :: RequestType where
  "RtQueryContextResponse \<equiv> OtherRequest 12"
abbreviation ContextEntitiesByEntityId :: RequestType where
  "ContextEntitiesByEntityId \<equiv> OtherRequest 21"
abbreviation ContextEntityAttributes :: RequestType where
  "ContextEntityAttributes \<equiv> OtherRequest 22"
abbreviation EntityByIdAttributeByName :: RequestType where
  "EntityByIdAttributeByName \<equiv> OtherRequest 23"
abbreviation ContextEntityTypes :: RequestType where
  "ContextEntityTypes \<equiv> OtherRequest 24"
abbreviation ContextEntityTypeAttributeContainer :: RequestType where
  "ContextEntityTypeAttributeContainer \<equiv> OtherRequest 25"
abbreviation ContextEntityTypeAttribute :: RequestType where
  "ContextEntityTypeAttribute \<equiv> OtherRequest 26"
abbreviation Ngsi9SubscriptionsConvOp :: RequestType where
  "Ngsi9SubscriptionsConvOp \<equiv> OtherRequest 27"
abbreviation IndividualContextEntity :: RequestType where
  "IndividualContextEntity \<equiv> OtherRequest 31"
abbreviation IndividualContextEntityAttributeWithTypeAndId :: RequestType where
  "IndividualContextEntityAttributeWithTypeAndId \<equiv> OtherRequest 34"
abbreviation AttributeValueInstanceWithTypeAndId :: RequestType where
  "AttributeValueInstanceWithTypeAndId \<equiv> OtherRequest 36"
abbreviation Ngsi10ContextEntityTypes :: RequestType where
  "Ngsi10ContextEntityTypes \<equiv> OtherRequest 37"
abbreviation Ngsi10ContextEntityTypesAttributeContainer :: RequestType where
  "Ngsi10ContextEntityTypesAttributeContainer \<equiv> OtherRequest 38"
abbreviation Ngsi10ContextEntityTypesAttribute :: RequestType where
  "Ngsi10ContextEntityTypesAttribute \<equiv> OtherRequest 39"
abbreviation Ngsi10SubscriptionsConvOp :: RequestType where
  "Ngsi10SubscriptionsConvOp \<equiv> OtherRequest 40"
abbreviation UpdateContextElement :: RequestType where
  "UpdateContextElement \<equiv> OtherRequest 41"
abbreviation AppendContextElement :: RequestType where
  "AppendContextElement \<equiv> OtherRequest 42"
abbreviation UpdateContextAttribute :: RequestType where
  "UpdateContextAttribute \<equiv> OtherRequest 43"
abbreviation LogRequest :: RequestType where
  "LogRequest \<equiv> OtherRequest 51"
abbreviation VersionRequest :: RequestType where
  "VersionRequest \<equiv> OtherRequest 52"
abbreviation ExitRequest :: RequestType where
  "ExitRequest \<equiv> OtherRequest 53"
abbreviation LeakRequest :: RequestType where
  "LeakRequest \<equiv> OtherRequest 54"
abbreviation StatisticsRequest :: RequestType where
  "StatisticsRequest \<equiv> OtherRequest 55"
abbreviation RtContextElementResponse :: RequestType where
  "RtContextElementResponse \<equiv> OtherRequest 59"
abbreviation RtContextAttributeResponse :: RequestType where
  "RtContextAttributeResponse \<equiv> OtherRequest 60"
abbreviation AttributesForEntityType :: RequestType where
  "AttributesForEntityType \<equiv> OtherRequest 62"
abbreviation RtEntityTypesResponse :: RequestType where
  "RtEntityTypesResponse \<equiv> OtherRequest 63"
abbreviation RtAttributesForEntityTypeResponse :: RequestType where
  "RtAttributesForEntityTypeResponse \<equiv> OtherRequest 64"
abbreviation AllEntitiesWithTypeAndId :: RequestType where
  "AllEntitiesWithTypeAndId \<equiv> OtherRequest 66"
abbreviation ContextEntitiesByEntityIdAndType :: RequestType where
  "ContextEntitiesByEntityIdAndType \<equiv> OtherRequest 67"
abbreviation EntityByIdAttributeByNameIdAndType :: RequestType where
  "EntityByIdAttributeByNameIdAndType \<equiv> OtherRequest 68"
abbreviation EntitiesRequest :: RequestType where
  "EntitiesRequest \<equiv> OtherRequest 70"
abbreviation EntitiesResponse :: RequestType where
  "EntitiesResponse \<equiv> OtherRequest 71"
abbreviation EntryPointsRequest :: RequestType where
  "EntryPointsRequest \<equiv> OtherRequest 72"
abbreviation EntryPointsResponse :: RequestType where
  "EntryPointsResponse \<equiv> OtherRequest 73"
abbreviation EntityRequest :: RequestType where
  "EntityRequest \<equiv> OtherRequest 74"
abbreviation EntityResponse :: RequestType where
  "EntityResponse \<equiv> OtherRequest 75"
abbreviation EntityAttributeRequest :: RequestType where
  "EntityAttributeRequest \<equiv> OtherRequest 76"
abbreviation EntityAttributeResponse :: RequestType where
  "EntityAttributeResponse \<equiv> OtherRequest 77"
abbreviation InvalidRequest :: RequestType where
  "InvalidRequest \<equiv> OtherRequest 100"

datatype Verb = GET | PUT | POST | DELETE | PATCH | HEAD | OPTIONS | TRACE | CONNECT | NOVERB

definition verbName :: "Verb \<Rightarrow> string" where
  "verbName v = (case v of GET \<Rightarrow> ''GET'' | PUT \<Rightarrow> ''PUT'' | POST \<Rightarrow> ''POST'' | DELETE \<Rightarrow> ''DELETE''
     | PATCH \<Rightarrow> ''PATCH'' | HEAD \<Rightarrow> ''HEAD'' | OPTIONS \<Rightarrow> ''OPTIONS'' | TRACE \<Rightarrow> ''TRACE''
     | CONNECT \<Rightarrow> ''CONNECT'' | NOVERB \<Rightarrow> ''NOVERB'')"

text \<open>The numbers of the status codes, as they are sent.\<close>

definition scc_num :: "HttpStatusCode \<Rightarrow> int" where
  "scc_num code =
     (case code of SccNone \<Rightarrow> 0 | SccOk \<Rightarrow> 200 | SccBadRequest \<Rightarrow> 400 | SccForbidden \<Rightarrow> 403
      | SccContextElementNotFound \<Rightarrow> 404 | SccBadVerb \<Rightarrow> 405 | SccNotAcceptable \<Rightarrow> 406 | SccConflict \<Rightarrow> 409
      | SccLengthRequired \<Rightarrow> 411 | SccRequestEntityTooLarge \<Rightarrow> 413 | SccUnsupportedMediaType \<Rightarrow> 415
      | SccSubscriptionIdNotFound \<Rightarrow> 470 | SccMissingParameter \<Rightarrow> 471 | SccInvalidParameter \<Rightarrow> 472
      | SccErrorInMetadata \<Rightarrow> 473 | SccEntityIdReNotAllowed \<Rightarrow> 480 | SccEntityTypeRequired \<Rightarrow> 481
      | SccAttributeListRequired \<Rightarrow> 482 | SccReceiverInternalError \<Rightarrow> 500 | SccNotImplemented \<Rightarrow> 501)"

section \<open>Headers and URI parameters\<close>

record HttpHeaders =
  hh_gotHeaders :: bool
  hh_userAgent :: string
  hh_host :: string
  hh_accept :: string
  hh_expect :: string
  hh_contentType :: string
  hh_origin :: string
  hh_tenant :: string
  hh_servicePath :: string
  hh_xauthToken :: string
  hh_servicePathReceived :: bool
  hh_contentLength :: nat
  hh_connection :: string

definition HttpHeaders_new :: HttpHeaders where
  "HttpHeaders_new =
     \<lparr>hh_gotHeaders = False, hh_userAgent = [], hh_host = [], hh_accept = [], hh_expect = [],
      hh_contentType = [], hh_origin = [], hh_tenant = [], hh_servicePath = [], hh_xauthToken = [],
      hh_servicePathReceived = False, hh_contentLength = 0, hh_connection = []\<rparr>"

abbreviation URI_PARAM_NOTIFY_FORMAT :: string where "URI_PARAM_NOTIFY_FORMAT \<equiv> ''notifyFormat''"
abbreviation URI_PARAM_PAGINATION_OFFSET :: string where "URI_PARAM_PAGINATION_OFFSET \<equiv> ''offset''"
abbreviation URI_PARAM_PAGINATION_LIMIT :: string where "URI_PARAM_PAGINATION_LIMIT \<equiv> ''limit''"
abbreviation URI_PARAM_PAGINATION_DETAILS :: string where "URI_PARAM_PAGINATION_DETAILS \<equiv> ''details''"
abbreviation URI_PARAM_NOT_EXIST :: string where "URI_PARAM_NOT_EXIST \<equiv> ''!exist''"
abbreviation URI_PARAM_EXIST :: string where "URI_PARAM_EXIST \<equiv> ''exist''"
abbreviation URI_PARAM_ATTRIBUTES_FORMAT :: string where "URI_PARAM_ATTRIBUTES_FORMAT \<equiv> ''attributesFormat''"
abbreviation URI_PARAM_ATTRIBUTE_FORMAT :: string where "URI_PARAM_ATTRIBUTE_FORMAT \<equiv> ''attributeFormat''"
abbreviation URI_PARAM_COLLAPSE :: string where "URI_PARAM_COLLAPSE \<equiv> ''collapse''"

section \<open>The connection\<close>

text \<open>A response handed to the HTTP library: status, headers, body.\<close>

record http_reply =
  hr_status :: HttpStatusCode
  hr_headers :: "(string \<times> string) list"
  hr_body :: string

record ConnectionInfo =
  ci_verb :: Verb
  ci_inFormat :: Format
  ci_outFormat :: Format
  ci_url :: string
  ci_method :: string
  ci_version :: string
  ci_charset :: string
  ci_tenantFromHttpHeader :: string
  ci_tenant :: string
  ci_servicePath :: string
  ci_servicePathV :: "string list"
  ci_httpHeaders :: HttpHeaders
  ci_payload :: "string option"
  ci_payloadSize :: int
  ci_payloadWord :: string
  ci_answer :: string
  ci_port :: nat
  ci_ip :: string
  ci_apiVersion :: string
  ci_uriParam :: "string \<rightharpoonup> string"
  ci_httpStatusCode :: HttpStatusCode
  ci_httpHeader :: "(string \<times> string) list"
  ci_replies :: "http_reply list"

definition ConnectionInfo_new :: "string \<Rightarrow> string \<Rightarrow> string \<Rightarrow> ConnectionInfo" where
  "ConnectionInfo_new url method version =
     \<lparr>ci_verb = (if method = ''POST'' then POST else if method = ''PUT'' then PUT
                 else if method = ''GET'' then GET else if method = ''DELETE'' then DELETE else NOVERB),
      ci_inFormat = XML, ci_outFormat = XML, ci_url = url, ci_method = method, ci_version = version,
      ci_charset = [], ci_tenantFromHttpHeader = [], ci_tenant = [], ci_servicePath = [], ci_servicePathV = [],
      ci_httpHeaders = HttpHeaders_new, ci_payload = None, ci_payloadSize = 0, ci_payloadWord = [],
      ci_answer = [], ci_port = 0, ci_ip = [], ci_apiVersion = [], ci_uriParam = Map.empty,
      ci_httpStatusCode = SccOk, ci_httpHeader = [], ci_replies = []\<rparr>"

definition uriParam :: "ConnectionInfo \<Rightarrow> string \<Rightarrow> string" where
  "uriParam ci key = (case ci_uriParam ci key of None \<Rightarrow> [] | Some v \<Rightarrow> v)"

lemma scc_num_inj: "scc_num a = scc_num b \<longleftrightarrow> a = b"
  by (cases a; cases b) (simp_all add: scc_num_def)

end
