(* ===== verification/Common_Tag.thy ===== *)
theory Common_Tag
  imports Common_String Rest_Types
begin

text \<open>
  The output helpers of \<^verbatim>\<open>src/src/lib/common/tag.cpp\<close>, with which every reply and every
  forwarded request is written: escaping (\<open>htmlEscape\<close>) and the tags of an object, a vector and a value,
  in XML and in JSON. Two overloaded functions \<open>startTag\<close> and three overloaded functions \<open>valueTag\<close> of the
  code have names of their own here. The escaping is modelled twice: with its buffer, whose size is an
  \<open>int\<close> that wraps and whose allocation may fail (\<open>htmlEscape_buf\<close>), and as the text it leaves there
  (\<open>htmlEscape\<close>), which the tags and renderers use; the theorem at the end says when the two agree.

  The second part is what the JSON output has to satisfy: a recogniser of JSON documents built of
  objects, arrays and strings, as a deterministic pushdown automaton over the characters, and the
  lemmas (collection \<open>json\<close>) that carry a fragment written with the helpers through it. The renderers
  of the NGSI types are proved against it in the theories that follow.
\<close>

named_theorems json \<open>rendered fragments that are pieces of well-formed JSON\<close>

abbreviation QUOT :: string where
  "QUOT \<equiv> [CHR 0x22]"

abbreviation BACKSLASH :: char where
  "BACKSLASH \<equiv> CHR 0x5C"

abbreviation NL :: string where
  "NL \<equiv> [CHR 0x0A]"

section \<open>Escaping\<close>

text \<open>The characters written for one character of the input.\<close>

definition escape_char :: "char \<Rightarrow> string" where
  "escape_char c =
     (if c = CHR ''<'' then ''&lt;''
      else if c = CHR ''>'' then ''&gt;''
      else if c = CHR ''('' then ''&#40;''
      else if c = CHR '')'' then ''&#41;''
      else if c = CHR ''='' then ''&#61;''
      else if c = CHR 0x27 then ''&#39;''
      else if c = CHR 0x22 then ''&quot;''
      else if c = CHR '';'' then ''&#59;''
      else [c])"

text \<open>
  \<open>out[outIx++] = c\<close> for each of these characters in turn; an index outside the buffer is undefined.
\<close>

fun out_write :: "string \<Rightarrow> string \<Rightarrow> nat \<Rightarrow> (string \<times> nat) cpp" where
  "out_write [] out outIx = Ret (out, outIx)"
| "out_write (c # cs) out outIx = cpp_bind (buf_set out outIx c) (\<lambda>out'. out_write cs out' (Suc outIx))"

fun htmlEscape_copy :: "string \<Rightarrow> string \<Rightarrow> nat \<Rightarrow> string cpp" where
  "htmlEscape_copy [] out outIx = Ret out"
| "htmlEscape_copy (c # s) out outIx =
     cpp_bind (out_write (escape_char c) out outIx) (\<lambda>(out', outIx'). htmlEscape_copy s out' outIx')"

text \<open>
  The size of the new buffer is \<open>strlen (s) * 6 + 1\<close> as an \<open>int\<close>; \<open>calloc\<close> gives zero bytes or NULL
  (\<open>mem\<close> says which sizes it can provide). A negative size is converted to a size beyond any object,
  which is not provided.
\<close>

definition htmlEscape_buf :: "(nat \<Rightarrow> bool) \<Rightarrow> string \<Rightarrow> string option cpp" where
  "htmlEscape_buf mem s =
     (let newLen = wrap32 (int (length (c_str s)) * 6 + 1)
      in if newLen < 0 \<or> \<not> mem (nat newLen) then Ret None
         else cpp_bind (htmlEscape_copy (c_str s) (replicate (nat newLen) NUL) 0) (\<lambda>out. Ret (Some out)))"

text \<open>The text written.\<close>

fun htmlEscape_loop :: "string \<Rightarrow> string" where
  "htmlEscape_loop [] = []"
| "htmlEscape_loop (c # s) = escape_char c @ htmlEscape_loop s"

definition htmlEscape :: "string \<Rightarrow> string" where
  "htmlEscape s = htmlEscape_loop (c_str s)"

section \<open>Tags\<close>

definition startTag1 :: "string \<Rightarrow> string \<Rightarrow> Format \<Rightarrow> bool \<Rightarrow> bool \<Rightarrow> string" where
  "startTag1 indent tagName format showTag isToplevel =
     (if format = XML then indent @ ''<'' @ tagName @ ''>'' @ NL
      else if format = JSON then
        (if isToplevel then
           (if \<not> showTag then indent @ ''{'' @ NL @ indent @ ''  {'' @ NL
            else indent @ ''{'' @ NL @ indent @ ''  '' @ QUOT @ tagName @ QUOT @ '' : {'' @ NL)
         else
           (if \<not> showTag then indent @ ''{'' @ NL
            else indent @ QUOT @ tagName @ QUOT @ '' : {'' @ NL))
      else ''Format not supported'')"

definition startTag2 :: "string \<Rightarrow> string \<Rightarrow> string \<Rightarrow> Format \<Rightarrow> bool \<Rightarrow> bool \<Rightarrow> bool \<Rightarrow> string" where
  "startTag2 indent xmlTag jsonTag format isVector showTag isCompoundVector =
     (if format = XML then
        (if isCompoundVector then indent @ ''<'' @ xmlTag @ '' type='' @ QUOT @ ''vector'' @ QUOT @ ''>'' @ NL
         else indent @ ''<'' @ xmlTag @ ''>'' @ NL)
      else if format = JSON then
        (if isVector \<and> showTag then indent @ QUOT @ jsonTag @ QUOT @ '' : ['' @ NL
         else if isVector \<and> \<not> showTag then indent @ ''['' @ NL
         else if \<not> isVector \<and> showTag then indent @ QUOT @ jsonTag @ QUOT @ '' : {'' @ NL
         else indent @ ''{'' @ NL)
      else ''Format not supported'')"

definition endTag :: "string \<Rightarrow> string \<Rightarrow> Format \<Rightarrow> bool \<Rightarrow> bool \<Rightarrow> bool \<Rightarrow> bool \<Rightarrow> string" where
  "endTag indent tagName format comma isVector nl isToplevel =
     (if format = XML then indent @ ''</'' @ tagName @ ''>'' @ NL
      else if isToplevel then indent @ ''}'' @ NL @ ''}'' @ NL
      else indent @ (if isVector then '']'' else ''}'') @ (if comma then '','' else []) @
           (if nl then NL else []) @ (if isToplevel then ''}'' else []))"

definition valueTag :: "string \<Rightarrow> string \<Rightarrow> string \<Rightarrow> Format \<Rightarrow> bool \<Rightarrow> bool \<Rightarrow> bool \<Rightarrow> string" where
  "valueTag indent tagName unescapedValue format showComma isAssociation isVectorElement =
     (let v = (if unescapedValue = [] then []
               else if \<not> isAssociation then htmlEscape unescapedValue
               else c_str unescapedValue)
      in if format = XML then indent @ ''<'' @ tagName @ ''>'' @ v @ ''</'' @ tagName @ ''>'' @ NL
         else if showComma then
           (if isAssociation then indent @ QUOT @ tagName @ QUOT @ '' : '' @ v @ '','' @ NL
            else if isVectorElement then indent @ QUOT @ v @ QUOT @ '','' @ NL
            else indent @ QUOT @ tagName @ QUOT @ '' : '' @ QUOT @ v @ QUOT @ '','' @ NL)
         else
           (if isAssociation then indent @ QUOT @ tagName @ QUOT @ '' : '' @ v @ NL
            else if isVectorElement then indent @ QUOT @ v @ QUOT @ NL
            else indent @ QUOT @ tagName @ QUOT @ '' : '' @ QUOT @ v @ QUOT @ NL))"

definition valueTag_int :: "string \<Rightarrow> string \<Rightarrow> int \<Rightarrow> Format \<Rightarrow> bool \<Rightarrow> bool \<Rightarrow> string" where
  "valueTag_int indent tagName v format showComma isAssociation =
     (let val = int_str v
      in if format = XML then indent @ ''<'' @ tagName @ ''>'' @ val @ ''</'' @ tagName @ ''>'' @ NL
         else if showComma then indent @ QUOT @ tagName @ QUOT @ '' : '' @ QUOT @ val @ QUOT @ '','' @ NL
         else indent @ QUOT @ tagName @ QUOT @ '' : '' @ QUOT @ val @ QUOT @ NL)"

definition valueTag2 :: "string \<Rightarrow> string \<Rightarrow> string \<Rightarrow> string \<Rightarrow> Format \<Rightarrow> bool \<Rightarrow> bool \<Rightarrow> string" where
  "valueTag2 indent xmlTag jsonTag v format showComma isAssociation =
     (if format = XML then indent @ ''<'' @ xmlTag @ ''>'' @ v @ ''</'' @ xmlTag @ ''>'' @ NL
      else if jsonTag = [] then
        (if showComma then indent @ QUOT @ v @ QUOT @ '','' @ NL else indent @ QUOT @ v @ QUOT @ NL)
      else if showComma then indent @ QUOT @ jsonTag @ QUOT @ '' : '' @ QUOT @ v @ QUOT @ '','' @ NL
      else indent @ QUOT @ jsonTag @ QUOT @ '' : '' @ QUOT @ v @ QUOT @ NL)"

text \<open>
  The loop of every vector: each item is rendered with a comma, except the last
  (\<open>ix != vec.size () - 1\<close>).
\<close>

fun render_seq :: "(bool \<Rightarrow> 'a \<Rightarrow> string) \<Rightarrow> 'a list \<Rightarrow> string" where
  "render_seq f [] = []"
| "render_seq f [x] = f False x"
| "render_seq f (x # y # r) = f True x @ render_seq f (y # r)"

section \<open>The escaped text\<close>

text \<open>To show that the escaping is injective: read from the right, every semicolon of an escaped text ends an
  escape.\<close>

function unescape_rev :: "string \<Rightarrow> string" where
  "unescape_rev s =
     (case s of [] \<Rightarrow> []
      | c # r \<Rightarrow>
          if c \<noteq> CHR '';'' then c # unescape_rev r
          else if take 3 r = ''tl&'' then CHR ''<'' # unescape_rev (drop 3 r)
          else if take 3 r = ''tg&'' then CHR ''>'' # unescape_rev (drop 3 r)
          else if take 4 r = ''04#&'' then CHR ''('' # unescape_rev (drop 4 r)
          else if take 4 r = ''14#&'' then CHR '')'' # unescape_rev (drop 4 r)
          else if take 4 r = ''16#&'' then CHR ''='' # unescape_rev (drop 4 r)
          else if take 4 r = ''93#&'' then CHR 0x27 # unescape_rev (drop 4 r)
          else if take 5 r = ''touq&'' then CHR 0x22 # unescape_rev (drop 5 r)
          else if take 4 r = ''95#&'' then CHR '';'' # unescape_rev (drop 4 r)
          else [])"
  by pat_completeness auto
termination
  by (relation "measure length") auto

declare unescape_rev.simps [simp del]

lemma htmlEscape_loop_append: "htmlEscape_loop (a @ b) = htmlEscape_loop a @ htmlEscape_loop b"
  by (induction a) simp_all

lemma unescape_escape: "unescape_rev (rev (htmlEscape_loop s)) = rev s"
proof (induction s rule: rev_induct)
  case Nil
  then show ?case by (simp add: unescape_rev.simps)
next
  case (snoc c s)
  then show ?case
    by (simp add: htmlEscape_loop_append escape_char_def, intro conjI impI) (subst unescape_rev.simps, simp)+
qed

definition json_safe :: "string \<Rightarrow> bool" where
  "json_safe s \<longleftrightarrow> list_all (\<lambda>c. c \<noteq> BACKSLASH \<and> 32 \<le> (of_char c :: nat)) s"

text \<open>The text may stand between double quotes.\<close>

definition json_clean :: "string \<Rightarrow> bool" where
  "json_clean s \<longleftrightarrow> list_all (\<lambda>c. c \<noteq> CHR 0x22 \<and> c \<noteq> BACKSLASH \<and> 32 \<le> (of_char c :: nat)) s"

lemma json_clean_append [simp]: "json_clean (a @ b) \<longleftrightarrow> json_clean a \<and> json_clean b"
  by (simp add: json_clean_def)

lemma json_clean_Nil [simp]: "json_clean []" "json_safe []"
  by (simp_all add: json_clean_def json_safe_def)

lemma json_clean_Cons:
  "json_clean (c # s) \<longleftrightarrow> c \<noteq> CHR 0x22 \<and> c \<noteq> BACKSLASH \<and> 32 \<le> (of_char c :: nat) \<and> json_clean s"
  by (auto simp: json_clean_def)

lemma json_clean_escape_loop: "json_safe s \<Longrightarrow> json_clean (htmlEscape_loop s)"
  by (induction s) (auto simp: json_clean_def json_safe_def escape_char_def)

lemma json_safe_c_str: "json_safe s \<Longrightarrow> json_safe (c_str s)"
  by (auto simp: json_safe_def c_str_def list_all_iff dest: set_takeWhileD)

lemma json_clean_htmlEscape: "json_safe s \<Longrightarrow> json_clean (htmlEscape s)"
  by (simp add: htmlEscape_def json_clean_escape_loop json_safe_c_str)

lemma json_clean_digits: "list_all is_digit s \<Longrightarrow> json_clean s"
  by (induction s) (auto simp: json_clean_def char_class_defs)

lemma json_clean_int_str: "json_clean (int_str i)"
  by (auto simp: int_str_def json_clean_Cons intro: json_clean_digits nat_str_digits)


section \<open>A recogniser of JSON documents\<close>

text \<open>
  What may come next: a value; a value or the end of an array just opened; a key or the end of an
  object just opened; a key; a colon; a comma or the end of the enclosing array or object; the rest of
  a string (\<open>True\<close> for a key), or the character after a backslash in it. The stack holds the open objects
  (\<open>True\<close>) and arrays (\<open>False\<close>).
\<close>

datatype json_mode = JVal | JArr0 | JObj0 | JKey | JColon | JAfter | JStr bool | JEsc bool | JFail

type_synonym json_state = "json_mode \<times> bool list"

definition json_ws :: "char \<Rightarrow> bool" where
  "json_ws c \<longleftrightarrow> c = CHR '' '' \<or> c = CHR 0x09 \<or> c = CHR 0x0A \<or> c = CHR 0x0D"

definition json_value_start :: "bool list \<Rightarrow> char \<Rightarrow> json_state" where
  "json_value_start st c =
     (if c = CHR 0x22 then (JStr False, st)
      else if c = CHR ''{'' then (JObj0, True # st)
      else if c = CHR ''['' then (JArr0, False # st)
      else (JFail, st))"

fun json_step :: "json_state \<Rightarrow> char \<Rightarrow> json_state" where
  "json_step (JStr k, st) c =
     (if c = CHR 0x22 then (if k then JColon else JAfter, st)
      else if c = BACKSLASH then (JEsc k, st)
      else if (of_char c :: nat) < 32 then (JFail, st)
      else (JStr k, st))"
| "json_step (JEsc k, st) c =
     (if c = CHR 0x22 \<or> c = BACKSLASH \<or> c \<in> set ''/bfnrtu'' then (JStr k, st) else (JFail, st))"
| "json_step (JFail, st) c = (JFail, st)"
| "json_step (JVal, st) c = (if json_ws c then (JVal, st) else json_value_start st c)"
| "json_step (JArr0, st) c =
     (if json_ws c then (JArr0, st)
      else if c = CHR '']'' then (JAfter, tl st)
      else json_value_start st c)"
| "json_step (JObj0, st) c =
     (if json_ws c then (JObj0, st)
      else if c = CHR 0x22 then (JStr True, st)
      else if c = CHR ''}'' then (JAfter, tl st)
      else (JFail, st))"
| "json_step (JKey, st) c =
     (if json_ws c then (JKey, st) else if c = CHR 0x22 then (JStr True, st) else (JFail, st))"
| "json_step (JColon, st) c =
     (if json_ws c then (JColon, st) else if c = CHR '':'' then (JVal, st) else (JFail, st))"
| "json_step (JAfter, st) c =
     (if json_ws c then (JAfter, st)
      else case st of
          [] \<Rightarrow> (JFail, st)
        | True # r \<Rightarrow> (if c = CHR '','' then (JKey, st) else if c = CHR ''}'' then (JAfter, r) else (JFail, st))
        | False # r \<Rightarrow> (if c = CHR '','' then (JVal, st) else if c = CHR '']'' then (JAfter, r) else (JFail, st)))"

definition json_run :: "json_state \<Rightarrow> string \<Rightarrow> json_state" where
  "json_run q s = foldl json_step q s"

definition json_doc :: "string \<Rightarrow> bool" where
  "json_doc s \<longleftrightarrow> json_run (JVal, []) s = (JAfter, [])"

lemma json_run_append [simp]: "json_run q (a @ b) = json_run (json_run q a) b"
  by (simp add: json_run_def)

lemma json_run_Nil [simp]: "json_run q [] = q"
  by (simp add: json_run_def)

lemma json_run_Cons [simp]: "json_run q (c # s) = json_run (json_step q c) s"
  by (simp add: json_run_def)

text \<open>Indentation.\<close>

definition blank :: "string \<Rightarrow> bool" where
  "blank s \<longleftrightarrow> list_all (\<lambda>c. c = CHR '' '') s"

lemma blank_simps [simp]: "blank []" "blank (a @ b) \<longleftrightarrow> blank a \<and> blank b"
    "blank (c # s) \<longleftrightarrow> c = CHR '' '' \<and> blank s"
  by (auto simp: blank_def)

definition json_outside :: "json_mode \<Rightarrow> bool" where
  "json_outside m \<longleftrightarrow> m \<in> {JVal, JArr0, JObj0, JKey, JColon, JAfter}"

lemma json_step_ws: "json_outside m \<Longrightarrow> json_ws c \<Longrightarrow> json_step (m, st) c = (m, st)"
  by (auto simp: json_outside_def)

lemma json_run_blank: "json_outside m \<Longrightarrow> blank s \<Longrightarrow> json_run (m, st) s = (m, st)"
  by (induction s) (auto simp: json_step_ws json_ws_def)

lemma json_run_clean: "json_clean s \<Longrightarrow> json_run (JStr k, st) s = (JStr k, st)"
  by (induction s) (auto simp: json_clean_Cons)

section \<open>Fragments of objects and arrays\<close>

text \<open>
  The text of one or more members of an object, or of one or more elements of an array, with a
  comma at the end or not.
\<close>

definition json_member :: "bool \<Rightarrow> string \<Rightarrow> bool" where
  "json_member comma s \<longleftrightarrow>
     (\<forall>m st. m = JObj0 \<or> m = JKey \<longrightarrow>
        json_run (m, True # st) s = (if comma then JKey else JAfter, True # st))"

definition json_elem :: "bool \<Rightarrow> string \<Rightarrow> bool" where
  "json_elem comma s \<longleftrightarrow>
     (\<forall>m st. m = JArr0 \<or> m = JVal \<longrightarrow>
        json_run (m, False # st) s = (if comma then JVal else JAfter, False # st))"

lemma json_memberD:
  "json_member comma s \<Longrightarrow> m = JObj0 \<or> m = JKey \<Longrightarrow>
     json_run (m, True # st) s = (if comma then JKey else JAfter, True # st)"
  unfolding json_member_def by blast

lemma json_elemD:
  "json_elem comma s \<Longrightarrow> m = JArr0 \<or> m = JVal \<Longrightarrow>
     json_run (m, False # st) s = (if comma then JVal else JAfter, False # st)"
  unfolding json_elem_def by blast

lemma json_member_append [json]: "json_member True a \<Longrightarrow> json_member c b \<Longrightarrow> json_member c (a @ b)"
  by (simp add: json_member_def)

lemma json_elem_append [json]: "json_elem True a \<Longrightarrow> json_elem c b \<Longrightarrow> json_elem c (a @ b)"
  by (simp add: json_elem_def)

text \<open>An optional last member: the comma before it is written exactly when it is there.\<close>

lemma json_member_opt:
  assumes "json_member r a" and "r \<Longrightarrow> json_member c b" and "\<not> r \<Longrightarrow> b = [] \<and> \<not> c"
  shows "json_member c (a @ b)"
  using assms by (cases r) (auto intro: json_member_append)

text \<open>An optional member in the middle.\<close>

lemma json_member_opt_or:
  assumes "json_member (r \<or> c) a" and "r \<Longrightarrow> json_member c b" and "\<not> r \<Longrightarrow> b = []"
  shows "json_member c (a @ b)"
  using assms by (cases r) (auto intro: json_member_append)

lemma json_elem_seq [json]:
  assumes "\<And>comma x. x \<in> set xs \<Longrightarrow> json_elem comma (f comma x)" and "xs \<noteq> []"
  shows "json_elem False (render_seq f xs)"
  using assms by (induction f xs rule: render_seq.induct) (auto intro: json_elem_append)

lemma json_member_seq [json]:
  assumes "\<And>comma x. x \<in> set xs \<Longrightarrow> json_member comma (f comma x)" and "xs \<noteq> []"
  shows "json_member False (render_seq f xs)"
  using assms by (induction f xs rule: render_seq.induct) (auto intro: json_member_append)

lemmas json_text = json_run_blank json_run_clean json_outside_def json_ws_def json_value_start_def

lemma json_member_valueTag [json]:
  "blank i \<Longrightarrow> json_clean t \<Longrightarrow> json_safe v \<Longrightarrow> json_member c (valueTag i t v JSON c False False)"
  by (auto simp: json_member_def valueTag_def Let_def json_text json_clean_htmlEscape)

lemma json_elem_valueTag [json]:
  "blank i \<Longrightarrow> json_safe v \<Longrightarrow> json_elem c (valueTag i t v JSON c False True)"
  by (auto simp: json_elem_def valueTag_def Let_def json_text json_clean_htmlEscape)

lemma json_member_valueTag_int [json]:
  "blank i \<Longrightarrow> json_clean t \<Longrightarrow> json_member c (valueTag_int i t v JSON c a)"
  by (auto simp: json_member_def valueTag_int_def Let_def json_text json_clean_int_str)

lemma json_elem_valueTag2 [json]:
  "blank i \<Longrightarrow> json_clean v \<Longrightarrow> json_elem c (valueTag2 i x [] v JSON c a)"
  by (auto simp: json_elem_def valueTag2_def json_text)

text \<open>An object or an array as a member of an object.\<close>

lemma json_member_object [json]:
  assumes "blank i" and "json_clean t" and "body = [] \<or> json_member False body"
  shows "json_member c (startTag2 i x t JSON False True v @ body @ endTag i y JSON c False nl False)"
    and "json_member c (startTag1 i t JSON True False @ body @ endTag i y JSON c False nl False)"
  using assms(3)
  by (auto simp: json_member_def startTag1_def startTag2_def endTag_def json_text assms(1,2))

lemma json_member_array [json]:
  assumes "blank i" and "json_clean t" and "body = [] \<or> json_elem False body"
  shows "json_member c (startTag2 i x t JSON True True v @ body @ endTag i y JSON c True nl False)"
  using assms(3)
  by (auto simp: json_member_def json_elem_def startTag2_def endTag_def json_text assms(1,2))

text \<open>An object or an array as an element of an array.\<close>

lemma json_elem_object [json]:
  assumes "blank i" and "body = [] \<or> json_member False body"
  shows "json_elem c (startTag2 i x t JSON False False v @ body @ endTag i y JSON c False nl False)"
    and "json_elem c (startTag1 i t JSON False False @ body @ endTag i y JSON c False nl False)"
  using assms(2)
  by (auto simp: json_member_def json_elem_def startTag1_def startTag2_def endTag_def json_text assms(1))

lemma json_elem_array [json]:
  assumes "blank i" and "body = [] \<or> json_elem False body"
  shows "json_elem c (startTag2 i x t JSON True False v @ body @ endTag i y JSON c True nl False)"
  using assms(2)
  by (auto simp: json_elem_def startTag2_def endTag_def json_text assms(1))

text \<open>A whole document.\<close>

lemma json_doc_object [json]:
  assumes "blank i" and "body = [] \<or> json_member False body"
  shows "json_doc (startTag1 i t JSON False False @ body @ endTag i y JSON False False nl False)"
    and "json_doc (startTag2 i x t JSON False False v @ body @ endTag i y JSON False False nl False)"
  using assms(2)
  by (auto simp: json_doc_def json_member_def startTag1_def startTag2_def endTag_def json_text assms(1))


section \<open>The escaped copy and its buffer\<close>

lemma escape_char_length: "length (escape_char c) \<le> 6" "1 \<le> length (escape_char c)"
  by (auto simp: escape_char_def)

lemma escape_char_nul: "NUL \<noteq> c \<Longrightarrow> NUL \<notin> set (escape_char c)"
  by (auto simp: escape_char_def)

lemma htmlEscape_loop_length: "length (htmlEscape_loop s) \<le> 6 * length s \<and> length s \<le> length (htmlEscape_loop s)"
proof (induction s)
  case (Cons c s)
  then show ?case using escape_char_length [of c] by auto
qed simp

lemma htmlEscape_loop_nul: "NUL \<notin> set s \<Longrightarrow> NUL \<notin> set (htmlEscape_loop s)"
  by (induction s) (auto dest: escape_char_nul)

lemma escape_char_no_markup:
  "set (escape_char c) \<inter> set [CHR ''<'', CHR ''>'', CHR ''('', CHR '')'', CHR ''='', CHR 0x27, CHR 0x22] = {}"
  by (simp add: escape_char_def)

lemma htmlEscape_loop_no_markup:
  "set (htmlEscape_loop s) \<inter> set [CHR ''<'', CHR ''>'', CHR ''('', CHR '')'', CHR ''='', CHR 0x27, CHR 0x22] = {}"
  by (induction s) (simp_all only: htmlEscape_loop.simps set_append Int_Un_distrib2 escape_char_no_markup Un_empty_right
      list.set(1) Int_empty_left)

lemma htmlEscape_loop_inj: "htmlEscape_loop s = htmlEscape_loop t \<Longrightarrow> s = t"
  by (metis rev_rev_ident unescape_escape)

text \<open>Writing after what is already there.\<close>

lemma out_write_spec:
  "cs \<noteq> [] \<Longrightarrow> out_write cs (pre @ rest) (length pre) =
     (if length cs \<le> length rest then Ret (pre @ cs @ drop (length cs) rest, length pre + length cs) else UB)"
proof (induction cs arbitrary: pre rest)
  case (Cons c cs)
  show ?case
  proof (cases rest)
    case (Cons r rs)
    then show ?thesis using Cons.IH [of "pre @ [c]" rs] by (cases "cs = []") (auto simp: buf_set_def)
  qed (simp add: buf_set_def)
qed simp

lemma htmlEscape_copy_spec:
  "htmlEscape_copy s (pre @ rest) (length pre) =
     (if length (htmlEscape_loop s) \<le> length rest
      then Ret (pre @ htmlEscape_loop s @ drop (length (htmlEscape_loop s)) rest)
      else UB)"
proof (induction s arbitrary: pre rest)
  case (Cons c s)
  have "escape_char c \<noteq> []" using escape_char_length(2) [of c] by auto
  then show ?case
    using Cons.IH [of "pre @ escape_char c" "drop (length (escape_char c)) rest"]
    by (auto simp: out_write_spec add.commute)
qed simp

lemmas htmlEscape_copy_start = htmlEscape_copy_spec [of _ "[]", simplified]

lemma c_str_zeros: "NUL \<notin> set s \<Longrightarrow> 0 < n \<Longrightarrow> c_str (s @ replicate n NUL) = s"
  by (cases n) (auto simp: c_str_append_nul)

text \<open>C31: the escaping in its buffer. A text whose worst case \<open>6 * strlen (s) + 1\<close> is below \<open>2 ^ 31\<close>
  is copied without leaving the buffer when the memory is there: the buffer has that size, holds the escaped
  text and ends it with a zero byte. Different texts are escaped differently, although the
  ampersand is not escaped, and no angle bracket, parenthesis, equals sign or quote is left. Without memory
  the result is NULL. Beyond that size the \<open>int\<close> wraps: from 357913942 to 715827882 characters it is
  negative and the result is NULL, and a text of 715827883 characters gets a buffer of 3 bytes and is
  written past its end.\<close>

theorem htmlEscape_buffer:
  "(6 * length (c_str s) + 1 < 2 ^ 31 \<and> mem (6 * length (c_str s) + 1) \<longrightarrow>
      (\<exists>out. htmlEscape_buf mem s = Ret (Some out) \<and> length out = 6 * length (c_str s) + 1 \<and>
             out = htmlEscape s @ replicate (length out - length (htmlEscape s)) NUL \<and>
             c_str out = htmlEscape s \<and> length (htmlEscape s) < length out)) \<and>
   (htmlEscape s = htmlEscape t \<longrightarrow> c_str s = c_str t) \<and>
   set (htmlEscape s) \<inter> set [CHR ''<'', CHR ''>'', CHR ''('', CHR '')'', CHR ''='', CHR 0x27, CHR 0x22] = {} \<and>
   (6 * length (c_str s) + 1 < 2 ^ 31 \<and> \<not> mem (6 * length (c_str s) + 1) \<longrightarrow> htmlEscape_buf mem s = Ret None) \<and>
   (length (c_str s) \<in> {357913942..715827882} \<longrightarrow> htmlEscape_buf mem s = Ret None) \<and>
   (length (c_str s) = 715827883 \<and> mem 3 \<longrightarrow> htmlEscape_buf mem s = UB)"
proof (intro conjI impI)
  let ?n = "length (c_str s)"
  note len = htmlEscape_loop_length [of "c_str s"]
  {
    assume b: "6 * ?n + 1 < 2 ^ 31 \<and> mem (6 * ?n + 1)"
    then have w: "nat (wrap32 (int ?n * 6 + 1)) = 6 * ?n + 1" "\<not> wrap32 (int ?n * 6 + 1) < 0"
      by (simp_all add: wrap32_id)
    show "\<exists>out. htmlEscape_buf mem s = Ret (Some out) \<and> length out = 6 * ?n + 1 \<and>
             out = htmlEscape s @ replicate (length out - length (htmlEscape s)) NUL \<and>
             c_str out = htmlEscape s \<and> length (htmlEscape s) < length out"
      using len b w htmlEscape_loop_nul [of "c_str s"]
      by (auto simp: htmlEscape_buf_def htmlEscape_copy_start htmlEscape_def c_str_zeros simp del: replicate_Suc)
  next
    assume "6 * ?n + 1 < 2 ^ 31 \<and> \<not> mem (6 * ?n + 1)"
    then show "htmlEscape_buf mem s = Ret None"
      by (auto simp: htmlEscape_buf_def wrap32_id Let_def nat_add_distrib nat_mult_distrib mult.commute)
  next
    assume "?n \<in> {357913942..715827882}"
    then have "wrap32 (int ?n * 6 + 1) < 0"
      using minus_mod_self2 [of "int ?n * 6 + 1 + 2 ^ 31" "2 ^ 32"] by (simp add: wrap32_def)
    then show "htmlEscape_buf mem s = Ret None" by (simp add: htmlEscape_buf_def)
  next
    assume "?n = 715827883 \<and> mem 3"
    then show "htmlEscape_buf mem s = UB"
      using len by (simp add: htmlEscape_buf_def wrap32_def htmlEscape_copy_start)
  next
    assume "htmlEscape s = htmlEscape t"
    then show "c_str s = c_str t" by (auto simp: htmlEscape_def dest: htmlEscape_loop_inj)
  }
qed (use htmlEscape_loop_no_markup [of "c_str s"] in \<open>simp add: htmlEscape_def\<close>)

theorem htmlEscape_buffer_witness:
  "htmlEscape_buf (\<lambda>n. n \<le> 1000) ''a<b'' = Ret (Some (''a&lt;b'' @ replicate 13 NUL)) \<and>
   c_str (''a&lt;b'' @ replicate 13 NUL) = ''a&lt;b'' \<and>
   htmlEscape_buf (\<lambda>n. False) ''a<b'' = Ret None"
proof -
  have l: "length (c_str ''a<b'') = 3" "htmlEscape ''a<b'' = ''a&lt;b''"
    by (simp_all add: c_str_def htmlEscape_def escape_char_def)
  show ?thesis
    using htmlEscape_buffer [of "''a<b''" "\<lambda>n. n \<le> 1000" "''a<b''"] htmlEscape_buffer [of "''a<b''" "\<lambda>n. False" "''a<b''"]
    unfolding l by auto
qed

end
