(* ===== verification/Mongo_Names.thy ===== *)
theory Mongo_Names
  imports Common_String "HOL-Library.Sublist"
begin

text \<open>
  How the database backend spells names: attribute names in documents (\<open>dbDotEncode\<close>,
  \<open>basePart\<close>, \<open>idPart\<close>), database and collection names of a tenant, and the regular expressions
  that select service paths (\<open>slashEscape\<close>, \<open>fillQueryServicePath\<close>,
  \<open>servicePathSubscriptionRegex\<close>): \<^verbatim>\<open>src/src/lib/mongoBackend/MongoGlobal.{h,cpp}\<close> and
  \<^verbatim>\<open>MongoCommonUpdate.cpp\<close>. The regular expression engine of the database is the
  argument \<open>re\<close> of what depends on it: \<open>re r x\<close> says that the expression \<open>r\<close> matches \<open>x\<close>.
\<close>

section \<open>Attribute names\<close>

definition dbDotEncode :: "string \<Rightarrow> string" where
  "dbDotEncode s = map (\<lambda>c. if c = CHR ''.'' then CHR ''='' else c) s"

definition dbDotDecode :: "string \<Rightarrow> string" where
  "dbDotDecode s = map (\<lambda>c. if c = CHR ''='' then CHR ''.'' else c) s"

text \<open>\<open>name.find ("__")\<close>\<close>

fun find_uu :: "string \<Rightarrow> nat option" where
  "find_uu (a # b # s) = (if a = CHR ''_'' \<and> b = CHR ''_'' then Some 0 else map_option Suc (find_uu (b # s)))"
| "find_uu s = None"

definition basePart :: "string \<Rightarrow> string" where
  "basePart name = (case find_uu name of None \<Rightarrow> name | Some pos \<Rightarrow> take pos name)"

definition idPart :: "string \<Rightarrow> string" where
  "idPart name = (case find_uu name of None \<Rightarrow> [] | Some pos \<Rightarrow> drop (pos + 2) name)"

section \<open>Tenants\<close>

definition composeDatabaseName :: "bool \<Rightarrow> string \<Rightarrow> string \<Rightarrow> string" where
  "composeDatabaseName multitenant dbPrefix tenant =
     (let result = (if \<not> multitenant \<or> tenant = [] then dbPrefix else dbPrefix @ ''-'' @ tenant)
      in result)"

definition composeCollectionName :: "bool \<Rightarrow> string \<Rightarrow> string \<Rightarrow> string \<Rightarrow> string" where
  "composeCollectionName multitenant dbPrefix tenant colName =
     composeDatabaseName multitenant dbPrefix tenant @ ''.'' @ colName"

section \<open>Service paths in queries\<close>

text \<open>
  The copy loop of \<open>slashEscape\<close>; \<open>out\<close> is what is in the buffer so far, its length the
  index \<open>ix\<close>.
\<close>

fun slashEscape_loop :: "nat \<Rightarrow> string \<Rightarrow> string \<Rightarrow> string" where
  "slashEscape_loop toLen out [] = out"
| "slashEscape_loop toLen out (c # f) =
     (if length out \<ge> toLen - 2 then out
      else slashEscape_loop toLen (out @ (if c = CHR ''/'' then [CHR 0x5C, c] else [c])) f)"

text \<open>\<open>to0\<close> is what the buffer held before: an empty string leaves it untouched.\<close>

definition slashEscape :: "string \<Rightarrow> string \<Rightarrow> nat \<Rightarrow> string" where
  "slashEscape frm to0 toLen =
     (let f = c_str frm; slashes = count_list f (CHR ''/'')
      in if length f + slashes + 1 > toLen then take toLen ''ERROR''
         else if f = [] then to0
         else slashEscape_loop toLen [] f)"

definition MAX_SERVICE_NAME_LEN :: nat where
  "MAX_SERVICE_NAME_LEN = 1024"

datatype sp_elem = SpNull | SpRegex string

text \<open>
  The elements of the \<open>$in\<close> list, for one service path. \<open>p0\<close> is the initial content of the
  local buffer.
\<close>

definition fillQueryServicePath_one :: "string \<Rightarrow> string \<Rightarrow> sp_elem list cpp" where
  "fillQueryServicePath_one p0 sp =
     (let path = slashEscape sp p0 MAX_SERVICE_NAME_LEN
      in if path = [] then UB
         else if last path = CHR ''#'' then
           (if length path < 3 then UB
            else let p = take (length path - 3) path
                 in Ret [SpRegex (''^'' @ p @ ''$''), SpRegex (''^'' @ p @ [CHR 0x5C] @ ''/.*'')])
         else Ret [SpRegex (''^'' @ path @ ''$'')])"

fun fillQueryServicePath_loop :: "string \<Rightarrow> bool \<Rightarrow> string list \<Rightarrow> sp_elem list cpp" where
  "fillQueryServicePath_loop p0 nullAdded [] = Ret []"
| "fillQueryServicePath_loop p0 nullAdded (sp # sps) =
     (let addNull = (\<not> nullAdded \<and> (sp = ''/'' \<or> sp = ''/#''))
      in cpp_bind (fillQueryServicePath_one p0 sp) (\<lambda>es.
         cpp_bind (fillQueryServicePath_loop p0 (nullAdded \<or> addNull) sps) (\<lambda>r.
         Ret ((if addNull then [SpNull] else []) @ es @ r))))"

definition fillQueryServicePath :: "string \<Rightarrow> string list \<Rightarrow> sp_elem list cpp" where
  "fillQueryServicePath p0 servicePath =
     (if servicePath \<noteq> [] then fillQueryServicePath_loop p0 False servicePath
      else Ret [SpRegex (''^'' @ [CHR 0x5C] @ ''/.*''), SpNull])"

text \<open>What the database selects with \<open>{$in: [...]}\<close>; \<open>None\<close> is a document without the field.\<close>

definition sp_in :: "(string \<Rightarrow> string \<Rightarrow> bool) \<Rightarrow> sp_elem list \<Rightarrow> string option \<Rightarrow> bool" where
  "sp_in re es x \<longleftrightarrow> (case x of None \<Rightarrow> SpNull \<in> set es | Some p \<Rightarrow> (\<exists>r. SpRegex r \<in> set es \<and> re r p))"

text \<open>
  The subscriptions that a request on a service path can trigger: the alternatives of the
  regular expression, joined by bars.
\<close>

definition spath_comps :: "string list \<Rightarrow> string" where
  "spath_comps cs = concat (map (\<lambda>c. [CHR 0x5C] @ ''/'' @ c) cs)"

definition servicePathSubscriptionRegex_alts :: "string \<Rightarrow> string list" where
  "servicePathSubscriptionRegex_alts servicePath =
     (let (n, spathV) = (if servicePath \<noteq> [] then stringSplit servicePath (CHR ''/'') [] else (0, []))
      in if n = 0 then [''^$'', ''^'' @ [CHR 0x5C] @ ''/#$'', ''^'' @ [CHR 0x5C] @ ''/$'']
         else [''^$'', ''^'' @ [CHR 0x5C] @ ''/#$''] @
           map (\<lambda>ix. ''^'' @ spath_comps (take (Suc ix) spathV) @ [CHR 0x5C] @ ''/#$'') [0..<n] @
           [''^'' @ spath_comps spathV @ ''$''])"

definition servicePathSubscriptionRegex :: "string \<Rightarrow> string" where
  "servicePathSubscriptionRegex servicePath =
     join_with (CHR ''|'') (servicePathSubscriptionRegex_alts servicePath)"

section \<open>Properties of names\<close>

interpretation dotted: codec dbDotEncode dbDotDecode "\<lambda>s. CHR ''='' \<notin> set s"
  by unfold_locales (auto simp: dbDotEncode_def dbDotDecode_def intro!: map_idI)

lemma find_uu_Some: "find_uu s = Some p \<Longrightarrow> s = take p s @ ''__'' @ drop (p + 2) s"
proof (induction s arbitrary: p rule: find_uu.induct)
  case (1 a b s)
  then show ?case by (cases "a = CHR ''_'' \<and> b = CHR ''_''") auto
qed auto

lemma find_uu_append:
  assumes "find_uu (a @ ''_'') = None"
  shows "find_uu (a @ ''__'' @ b) = Some (length a)"
  using assms
proof (induction a rule: find_uu.induct)
  case (1 x y s)
  then show ?case by (auto split: if_splits)
qed (auto split: if_splits)

lemma find_uu_prefix: "find_uu (a @ ''_'') = None \<Longrightarrow> find_uu a = None"
  by (induction a rule: find_uu.induct) (auto split: if_splits)

text \<open>
  Names without two underscores in a row, and not ending in one: those for which the name
  and the ID can be told apart again.
\<close>

definition plain_name :: "string \<Rightarrow> bool" where
  "plain_name a \<longleftrightarrow> find_uu (a @ ''_'') = None"

lemma basePart_plain [simp]: "plain_name a \<Longrightarrow> basePart a = a"
  by (simp add: plain_name_def basePart_def find_uu_prefix)

lemma idPart_plain [simp]: "plain_name a \<Longrightarrow> idPart a = []"
  by (simp add: plain_name_def idPart_def find_uu_prefix)

lemma basePart_compose [simp]: "plain_name a \<Longrightarrow> basePart (a @ ''__'' @ i) = a"
  using find_uu_append [of a i] by (simp add: plain_name_def basePart_def)

lemma idPart_compose [simp]: "plain_name a \<Longrightarrow> idPart (a @ ''__'' @ i) = i"
  using find_uu_append [of a i] by (simp add: plain_name_def idPart_def)

lemma find_uu_dbDotEncode: "find_uu (dbDotEncode a) = find_uu a"
  by (induction a rule: find_uu.induct) (auto simp: dbDotEncode_def)

lemma plain_name_dbDotEncode [simp]: "plain_name (dbDotEncode a) = plain_name a"
proof -
  have "dbDotEncode a @ ''_'' = dbDotEncode (a @ ''_'')" by (simp add: dbDotEncode_def)
  then show ?thesis by (simp add: plain_name_def find_uu_dbDotEncode)
qed

section \<open>Escaping\<close>

definition esc :: "string \<Rightarrow> string" where
  "esc s = concat (map (\<lambda>c. if c = CHR ''/'' then [CHR 0x5C, c] else [c]) s)"

lemma esc_simps [simp]: "esc [] = []" "esc (c # s) = (if c = CHR ''/'' then [CHR 0x5C, c] else [c]) @ esc s"
  "esc (a @ b) = esc a @ esc b"
  by (simp_all add: esc_def)

lemma length_esc: "length (esc s) = length s + count_list s (CHR ''/'')"
  by (induction s) auto

lemma esc_nonempty: "s \<noteq> [] \<Longrightarrow> esc s \<noteq> []"
  by (cases s) auto

lemma slashEscape_loop_eq:
  assumes "length out + length (esc f) + 2 \<le> toLen"
  shows "slashEscape_loop toLen out f = out @ esc f"
  using assms by (induction f arbitrary: out) (auto split: if_splits)

lemma slashEscape_eq:
  assumes "s \<noteq> []" and "NUL \<notin> set s" and "length (esc s) + 2 \<le> n"
  shows "slashEscape s to0 n = esc s"
  using assms slashEscape_loop_eq [of "[]" s n]
  by (auto simp: slashEscape_def c_str_id Let_def length_esc)

lemma last_esc: "s \<noteq> [] \<Longrightarrow> last (esc s) = last s"
  by (induction s) (auto simp: esc_nonempty)

lemma spath_comps_esc: "\<forall>c\<in>set cs. CHR ''/'' \<notin> set c \<Longrightarrow> spath_comps cs = esc (concat (map (\<lambda>c. ''/'' @ c) cs))"
proof (induction cs)
  case (Cons c cs)
  have "CHR ''/'' \<notin> set c \<Longrightarrow> esc c = c" by (induction c) auto
  with Cons show ?case by (simp add: spath_comps_def)
qed (simp add: spath_comps_def)

section \<open>A matcher for the expressions that occur\<close>

text \<open>
  Literal characters, escaped characters, the end of the text and \<open>.*\<close> at the end: the
  expressions the broker builds (without alternatives) use nothing else.
\<close>

fun lit_match_body :: "string \<Rightarrow> string \<Rightarrow> bool" where
  "lit_match_body [] x = True"
| "lit_match_body (c # r) x =
     (if c = CHR ''$'' \<and> r = [] then x = []
      else if c = CHR ''.'' \<and> r = ''*'' then True
      else if c = CHR 0x5C then (case r of [] \<Rightarrow> False | d # r' \<Rightarrow> (case x of [] \<Rightarrow> False | y # ys \<Rightarrow> d = y \<and> lit_match_body r' ys))
      else (case x of [] \<Rightarrow> False | y # ys \<Rightarrow> c = y \<and> lit_match_body r ys))"

definition lit_match :: "string \<Rightarrow> string \<Rightarrow> bool" where
  "lit_match r x = (case r of [] \<Rightarrow> False | c # b \<Rightarrow> c = CHR ''^'' \<and> lit_match_body b x)"

definition sp_char :: "char \<Rightarrow> bool" where
  "sp_char c \<longleftrightarrow> is_upper c \<or> is_lower c \<or> is_digit c \<or> c = CHR ''_'' \<or> c = CHR ''/''"

definition lit_char :: "char \<Rightarrow> bool" where
  "lit_char c \<longleftrightarrow> sp_char c \<or> c = CHR ''#''"

lemma lit_char_plain: "lit_char c \<Longrightarrow> c \<noteq> CHR ''$'' \<and> c \<noteq> CHR ''.'' \<and> c \<noteq> CHR 0x5C \<and> c \<noteq> NUL \<and> c \<noteq> CHR ''^''"
  by (auto simp: lit_char_def sp_char_def char_class_defs)

lemma sp_char_not_hash: "sp_char c \<Longrightarrow> c \<noteq> CHR ''#''"
  by (auto simp: sp_char_def char_class_defs)

lemma sp_char_lit: "list_all sp_char s \<Longrightarrow> list_all lit_char s"
  by (auto simp: list_all_iff lit_char_def)

text \<open>
  What is relied upon of the expression engine: anchored literals, with the slash escaped,
  followed by the end or by a slash and anything.
\<close>

definition re_spec :: "(string \<Rightarrow> string \<Rightarrow> bool) \<Rightarrow> bool" where
  "re_spec re \<longleftrightarrow>
     (\<forall>p x. list_all lit_char p \<longrightarrow> (re (''^'' @ esc p @ ''$'') x \<longleftrightarrow> x = p)) \<and>
     (\<forall>p x. list_all lit_char p \<longrightarrow> (re (''^'' @ esc p @ [CHR 0x5C] @ ''/.*'') x \<longleftrightarrow> prefix (p @ ''/'') x))"

lemma lit_match_body_esc:
  "list_all lit_char p \<Longrightarrow> lit_match_body (esc p @ r) x \<longleftrightarrow> prefix p x \<and> lit_match_body r (drop (length p) x)"
proof (induction p arbitrary: x)
  case (Cons c p)
  then show ?case using lit_char_plain [of c] by (cases x) auto
qed simp

lemma lit_match_spec: "re_spec lit_match"
proof -
  have "lit_match (''^'' @ esc p @ ''$'') x \<longleftrightarrow> x = p" if "list_all lit_char p" for p x
    using lit_match_body_esc [OF that, of "''$''" x] by (auto simp: lit_match_def prefix_def)
  moreover have "lit_match (''^'' @ esc p @ [CHR 0x5C] @ ''/.*'') x \<longleftrightarrow> prefix (p @ ''/'') x"
    if "list_all lit_char p" for p x
  proof -
    have "list_all lit_char (p @ ''/'')" using that by (simp add: sp_char_def lit_char_def)
    from lit_match_body_esc [OF this, of "''.*''" x] show ?thesis by (simp add: lit_match_def)
  qed
  ultimately show ?thesis by (simp add: re_spec_def)
qed

section \<open>What a service path selects\<close>

text \<open>
  A service path of a request: either plain, or with a final \<open>/#\<close>, and within the size of
  the buffer.
\<close>

definition sp_query :: "string \<Rightarrow> bool" where
  "sp_query sp \<longleftrightarrow> sp \<noteq> [] \<and> length (esc sp) + 2 \<le> MAX_SERVICE_NAME_LEN \<and>
     (list_all sp_char sp \<or> (\<exists>q. list_all sp_char q \<and> sp = q @ ''/#''))"

definition sp_covers :: "string \<Rightarrow> string \<Rightarrow> bool" where
  "sp_covers sp p \<longleftrightarrow>
     (if last sp = CHR ''#'' then p = take (length sp - 2) sp \<or> prefix (take (length sp - 2) sp @ ''/'') p
      else p = sp)"

lemma sp_query_lit:
  assumes "sp_query sp"
  shows "list_all lit_char sp"
proof -
  have "list_all lit_char ''/#''" by (simp add: lit_char_def sp_char_def)
  with assms show ?thesis
    unfolding sp_query_def using sp_char_lit list_all_append by metis
qed

lemma fillQueryServicePath_one_eq:
  assumes "sp_query sp" and "re_spec re"
  shows "\<exists>es. fillQueryServicePath_one p0 sp = Ret es \<and> SpNull \<notin> set es \<and>
    (\<forall>p. (\<exists>r. SpRegex r \<in> set es \<and> re r p) \<longleftrightarrow> sp_covers sp p)"
proof -
  note re = assms(2) [unfolded re_spec_def]
  have ne: "sp \<noteq> []" and len: "length (esc sp) + 2 \<le> MAX_SERVICE_NAME_LEN"
    using assms(1) by (auto simp: sp_query_def)
  have nn: "NUL \<notin> set sp"
    using sp_query_lit [OF assms(1)] lit_char_plain unfolding list_all_iff by blast
  have e: "slashEscape sp p0 MAX_SERVICE_NAME_LEN = esc sp"
    using slashEscape_eq [OF ne nn len] .
  show ?thesis
  proof (cases "list_all sp_char sp")
    case True
    then have "last sp \<noteq> CHR ''#''"
      using ne sp_char_not_hash last_in_set by (fastforce simp: list_all_iff)
    then have "fillQueryServicePath_one p0 sp = Ret [SpRegex (''^'' @ esc sp @ ''$'')]"
      unfolding fillQueryServicePath_one_def e Let_def by (simp add: ne last_esc esc_nonempty)
    moreover have "re (''^'' @ esc sp @ ''$'') p \<longleftrightarrow> p = sp" for p
      using re sp_char_lit [OF True] by blast
    moreover have "sp_covers sp p \<longleftrightarrow> p = sp" for p
      using \<open>last sp \<noteq> CHR ''#''\<close> by (simp add: sp_covers_def)
    ultimately show ?thesis
      by (intro exI [of _ "[SpRegex (''^'' @ esc sp @ ''$'')]"]) (simp del: append.simps)
  next
    case False
    then obtain q where q: "list_all sp_char q" "sp = q @ ''/#''"
      using assms(1) by (auto simp: sp_query_def)
    let ?es = "[SpRegex (''^'' @ esc q @ ''$''), SpRegex (''^'' @ esc q @ [CHR 0x5C] @ ''/.*'')]"
    have "slashEscape sp p0 MAX_SERVICE_NAME_LEN = esc q @ [CHR 0x5C] @ ''/#''"
      unfolding e by (simp add: q(2))
    then have "fillQueryServicePath_one p0 sp = Ret ?es"
      unfolding fillQueryServicePath_one_def Let_def by simp
    moreover have "re (''^'' @ esc q @ ''$'') p \<longleftrightarrow> p = q"
        "re (''^'' @ esc q @ [CHR 0x5C] @ ''/.*'') p \<longleftrightarrow> prefix (q @ ''/'') p" for p
      using re sp_char_lit [OF q(1)] by blast+
    moreover have "sp_covers sp p \<longleftrightarrow> p = q \<or> prefix (q @ ''/'') p" for p
      by (simp add: sp_covers_def q(2))
    ultimately show ?thesis
      by (intro exI [of _ ?es]) (simp del: append.simps, blast)
  qed
qed

lemma fillQueryServicePath_loop_eq:
  assumes "\<forall>sp\<in>set sps. sp_query sp" and re: "re_spec re"
  shows "\<exists>es. fillQueryServicePath_loop p0 nullAdded sps = Ret es \<and>
    (SpNull \<in> set es \<longleftrightarrow> \<not> nullAdded \<and> (''/'' \<in> set sps \<or> ''/#'' \<in> set sps)) \<and>
    (\<forall>p. (\<exists>r. SpRegex r \<in> set es \<and> re r p) \<longleftrightarrow> (\<exists>sp\<in>set sps. sp_covers sp p))"
  using assms(1)
proof (induction sps arbitrary: nullAdded)
  case Nil
  then show ?case by simp
next
  case (Cons sp sps)
  let ?add = "\<not> nullAdded \<and> (sp = ''/'' \<or> sp = ''/#'')"
  obtain es where es: "fillQueryServicePath_one p0 sp = Ret es" "SpNull \<notin> set es"
      "\<forall>p. (\<exists>r. SpRegex r \<in> set es \<and> re r p) \<longleftrightarrow> sp_covers sp p"
    using fillQueryServicePath_one_eq [OF _ re] Cons.prems by (metis list.set_intros(1))
  obtain rs where rs: "fillQueryServicePath_loop p0 (nullAdded \<or> ?add) sps = Ret rs"
      "SpNull \<in> set rs \<longleftrightarrow> \<not> (nullAdded \<or> ?add) \<and> (''/'' \<in> set sps \<or> ''/#'' \<in> set sps)"
      "\<forall>p. (\<exists>r. SpRegex r \<in> set rs \<and> re r p) \<longleftrightarrow> (\<exists>sp\<in>set sps. sp_covers sp p)"
    using Cons.IH [of "nullAdded \<or> ?add"] Cons.prems by auto
  let ?es = "(if ?add then [SpNull] else []) @ es @ rs"
  have "fillQueryServicePath_loop p0 nullAdded (sp # sps) = Ret ?es"
    using es(1) rs(1) by (simp only: fillQueryServicePath_loop.simps Let_def cpp_bind.simps)
  moreover have "SpNull \<in> set ?es \<longleftrightarrow> \<not> nullAdded \<and> (''/'' \<in> set (sp # sps) \<or> ''/#'' \<in> set (sp # sps))"
    using es(2) rs(2) by auto
  moreover have "(\<exists>r. SpRegex r \<in> set ?es \<and> re r p) \<longleftrightarrow> (\<exists>sp\<in>set (sp # sps). sp_covers sp p)" for p
    using es(3) rs(3) by auto
  ultimately show ?case by blast
qed

section \<open>Claims\<close>

text \<open>With an expression engine that matches anchored literals, the service paths of a request
  (each plain, or ending in \<open>/#\<close>) select exactly the documents whose service path is one of them or, for a
  path ending in \<open>/#\<close>, that path or one below it; documents without a service path are selected exactly by
  \<open>/\<close> and \<open>/#\<close>.\<close>

theorem fillQueryServicePath_scope:
  assumes "re_spec re" and "sps \<noteq> []" and "\<forall>sp\<in>set sps. sp_query sp"
  shows "\<exists>es. fillQueryServicePath p0 sps = Ret es \<and>
    (\<forall>x. sp_in re es x \<longleftrightarrow>
       (case x of None \<Rightarrow> ''/'' \<in> set sps \<or> ''/#'' \<in> set sps | Some p \<Rightarrow> \<exists>sp\<in>set sps. sp_covers sp p))"
proof -
  obtain es where es: "fillQueryServicePath_loop p0 False sps = Ret es"
      "SpNull \<in> set es \<longleftrightarrow> ''/'' \<in> set sps \<or> ''/#'' \<in> set sps"
      "\<forall>p. (\<exists>r. SpRegex r \<in> set es \<and> re r p) \<longleftrightarrow> (\<exists>sp\<in>set sps. sp_covers sp p)"
    using fillQueryServicePath_loop_eq [OF assms(3,1), of p0 False] by auto
  then show ?thesis
    using assms(2) by (auto simp: fillQueryServicePath_def sp_in_def split: option.split)
qed

theorem fillQueryServicePath_scope_witness:
  "\<exists>es. fillQueryServicePath [] [''/a'', ''/b/#''] = Ret es \<and>
    (\<forall>x. sp_in lit_match es x \<longleftrightarrow>
       (case x of None \<Rightarrow> ''/'' \<in> set [''/a'', ''/b/#''] \<or> ''/#'' \<in> set [''/a'', ''/b/#'']
        | Some p \<Rightarrow> \<exists>sp\<in>set [''/a'', ''/b/#'']. sp_covers sp p))"
proof (rule fillQueryServicePath_scope [OF lit_match_spec])
  have "sp_query ''/a''"
    by (simp add: sp_query_def MAX_SERVICE_NAME_LEN_def sp_char_def char_class_defs)
  moreover have "sp_query ''/b/#''"
    by (simp add: sp_query_def MAX_SERVICE_NAME_LEN_def sp_char_def char_class_defs exI [of _ "''/b''"])
  ultimately show "\<forall>sp\<in>set [''/a'', ''/b/#'']. sp_query sp" by simp
qed simp

text \<open>\<open>slashEscape\<close> escapes every slash of a non-empty string if two bytes of the buffer remain; it
  gives \<open>ERROR\<close> when the escaped string does not fit; but when it fits exactly, with its final zero, the
  last character is lost unless it is a slash.\<close>

theorem slashEscape_spec:
  assumes "s \<noteq> []" and "NUL \<notin> set s" and "6 \<le> n"
  shows "slashEscape s to0 n =
    (if length (esc s) + 1 > n then ''ERROR''
     else if length (esc s) + 1 = n \<and> last s \<noteq> CHR ''/'' then butlast (esc s)
     else esc s)"
proof -
  have loop: "slashEscape_loop n out (f @ [c]) =
      (if c = CHR ''/'' then out @ esc (f @ [c]) else out @ esc f)"
    if "length out + length (esc (f @ [c])) + 1 = n" for out f c
    using that
  proof (induction f arbitrary: out)
    case Nil
    then show ?case by (auto split: if_splits)
  next
    case (Cons d f)
    then show ?case by (auto split: if_splits)
  qed
  obtain f c where s: "s = f @ [c]" using assms(1) by (cases s rule: rev_cases) auto
  consider "length (esc s) + 1 > n" | "length (esc s) + 1 = n" | "length (esc s) + 2 \<le> n" by linarith
  then show ?thesis
  proof cases
    case 1
    then show ?thesis using assms by (simp add: slashEscape_def c_str_id length_esc)
  next
    case 2
    then have "slashEscape s to0 n = slashEscape_loop n [] s"
      using assms by (simp add: slashEscape_def c_str_id length_esc)
    then show ?thesis using 2 loop [of "[]" f c] by (simp add: s)
  next
    case 3
    then show ?thesis using assms slashEscape_eq [of s n to0] by simp
  qed
qed

theorem slashEscape_spec_witness:
  "slashEscape ''/abcd'' [] 7 = butlast (esc ''/abcd'')"
  using slashEscape_spec [of "''/abcd''" 7 "[]"] by simp

end
