(* ===== verification/Mongo_Docs.thy ===== *)
theory Mongo_Docs
  imports Ngsi_Types Mongo_Names "HOL-Library.Char_ord" "HOL-Library.List_Lexorder"
begin

text \<open>
  What the backend reads from and writes to the database: the documents of the collections
  \<open>entities\<close>, \<open>registrations\<close> and \<open>csubs\<close> (the field names are those of
  \<^verbatim>\<open>src/src/lib/mongoBackend/MongoGlobal.h\<close>), the queries and updates it builds as values, and
  the environment a request runs in. The MongoDB driver, the clock, the notifier and the POSIX
  expressions are not part of the program: they are the functions of the record \<open>env\<close>,
  over a state \<open>'w\<close> of the world that is passed along. An exception of the driver is an error value that
  carries its text.
\<close>

section \<open>Documents\<close>

record md_doc =
  mdd_name :: string
  mdd_type :: "string option"
  mdd_value :: string

record attr_doc =
  ad_value :: "bson option"
  ad_type :: "string option"
  ad_md :: "md_doc list option"
  ad_creDate :: "int option"
  ad_modDate :: "int option"

record loc_doc =
  ld_attrName :: string
  ld_long :: rat
  ld_lat :: rat

record ent_doc =
  ed_id :: string
  ed_type :: "string option"
  ed_servicePath :: "string option"
  ed_attrNames :: "string list"
  ed_attrs :: "(string \<times> attr_doc) list option"
  ed_creDate :: "int option"
  ed_modDate :: "int option"
  ed_location :: "loc_doc option"

text \<open>A row of a query result: a document, or one with a non-empty \<open>$err\<close> field.\<close>

datatype ent_row = RowErr string | RowDoc ent_doc

record cr_doc =
  crd_entities :: "(string \<times> string) list"
  crd_attrs :: "(string \<times> string \<times> string) list option"
  crd_providingApplication :: string

record reg_doc =
  rd_format :: "string option"
  rd_contextRegistration :: "cr_doc list"

record sub_doc =
  sd_id :: "string option"
  sd_throttling :: "int option"
  sd_lastNotification :: "int option"
  sd_format :: "string option"
  sd_reference :: string
  sd_entities :: "(string \<times> string \<times> string) list"
  sd_attrs :: "string list"

text \<open>\<open>STR_FIELD\<close> of a field that may be missing.\<close>

definition STR_FIELD :: "string option \<Rightarrow> string" where
  "STR_FIELD f = (case f of None \<Rightarrow> [] | Some s \<Rightarrow> s)"

text \<open>The fields of an embedded document, and their names as a \<open>std::set\<close> holds them.\<close>

definition getFieldNames :: "(string \<times> 'a) list \<Rightarrow> string list" where
  "getFieldNames fs = sort (remdups (map fst fs))"

definition hasField :: "(string \<times> 'a) list \<Rightarrow> string \<Rightarrow> bool" where
  "hasField fs n \<longleftrightarrow> map_of fs n \<noteq> None"

lemma set_getFieldNames [simp]: "set (getFieldNames fs) = fst ` set fs"
  by (auto simp: getFieldNames_def)

lemma distinct_getFieldNames [simp]: "distinct (getFieldNames fs)"
  by (simp add: getFieldNames_def)

lemma hasField_iff: "hasField fs n \<longleftrightarrow> n \<in> fst ` set fs"
  by (auto simp: hasField_def map_of_eq_None_iff)

section \<open>Queries and updates\<close>

datatype id_cond = IdIs string | IdRegex string

datatype type_cond = TypeAny | TypeIs string | TypeAbsent

datatype sp_cond = SpAbsent | SpIs string | SpRe string

record ent_token =
  et_id :: id_cond
  et_type :: type_cond

datatype geo_within = CenterSphere rat rat rat | GeoPolygon "(rat \<times> rat) list"

record area_query =
  aq_not :: bool
  aq_within :: geo_within

record ent_query =
  eq_or :: "ent_token list"
  eq_servicePath :: "sp_elem list"
  eq_attrNames :: "string list option"
  eq_area :: "area_query option"
  eq_typeExists :: "bool list"

text \<open>A query for one entity by id, used when updating; \<open>se_noType\<close> is the filter \<open>!exist=entity::type\<close>.\<close>

record ent_sel =
  se_id :: string
  se_type :: type_cond
  se_servicePath :: sp_cond
  se_noType :: bool

text \<open>The fields of an update: \<open>$set\<close> and \<open>$unset\<close> of \<open>attrs.<name>\<close>, of the modification date and
  of the location, \<open>$addToSet\<close> and \<open>$pullAll\<close> of \<open>attrNames\<close>.\<close>

datatype loc_update = LocSet loc_doc | LocUnset

record ent_update =
  up_set :: "(string \<times> attr_doc) list"
  up_unset :: "string list"
  up_addToSet :: "string list"
  up_pullAll :: "string list"
  up_modDate :: int
  up_location :: loc_update

record reg_query =
  rq_patterns :: "(string \<times> type_cond) list"
  rq_withType :: "(string \<times> string) list"
  rq_withoutType :: "string list"
  rq_expirationGt :: int
  rq_attrNames :: "string list option"
  rq_servicePath :: "sp_elem list"

record sub_query =
  sq_entityId :: string
  sq_entityType :: string
  sq_where :: string
  sq_attr :: string
  sq_expirationGt :: int
  sq_servicePath :: "sp_elem list"

section \<open>The environment\<close>

text \<open>The driver throws, returns a NULL cursor, or returns the documents.\<close>

datatype 'a db_cursor = DbThrow string | DbNull | DbDocs 'a

record notification =
  nt_subId :: string
  nt_originator :: string
  nt_cerV :: "ContextElementResponse list"
  nt_url :: string
  nt_tenant :: string
  nt_xauthToken :: string
  nt_format :: Format

record 'w env =
  env_multitenant :: bool
  env_dbPrefix :: string
  env_entitiesCol :: string
  env_registrationsCol :: string
  env_csubsCol :: string
  env_mongoVersion :: "int \<times> int"
  env_buf0 :: string
  env_rnd :: "rat \<Rightarrow> rat"
  env_regex :: "string \<Rightarrow> (string \<Rightarrow> bool) option"
  env_now :: "'w \<Rightarrow> int"
  env_queryEntities :: "'w \<Rightarrow> string \<Rightarrow> ent_query \<Rightarrow> int \<Rightarrow> int \<Rightarrow> ent_row list db_cursor"
  env_findEntities :: "'w \<Rightarrow> string \<Rightarrow> ent_sel \<Rightarrow> ent_doc option list db_cursor"
  env_queryRegistrations :: "'w \<Rightarrow> string \<Rightarrow> reg_query \<Rightarrow> int \<Rightarrow> int \<Rightarrow> reg_doc list db_cursor"
  env_querySubs :: "'w \<Rightarrow> string \<Rightarrow> sub_query \<Rightarrow> sub_doc list db_cursor"
  env_insertEntity :: "string \<Rightarrow> ent_doc \<Rightarrow> 'w \<Rightarrow> string option \<times> 'w"
  env_updateEntity :: "string \<Rightarrow> ent_sel \<Rightarrow> ent_update \<Rightarrow> 'w \<Rightarrow> string option \<times> 'w"
  env_removeEntity :: "string \<Rightarrow> ent_sel \<Rightarrow> 'w \<Rightarrow> string option \<times> 'w"
  env_updateSub :: "string \<Rightarrow> string \<Rightarrow> int \<Rightarrow> 'w \<Rightarrow> string option \<times> 'w"
  env_ensureIndex :: "string \<Rightarrow> 'w \<Rightarrow> 'w"
  env_sendNotify :: "notification \<Rightarrow> 'w \<Rightarrow> 'w"
  env_createIntervalThread :: "string \<Rightarrow> int \<Rightarrow> string \<Rightarrow> 'w \<Rightarrow> 'w"
  env_show_ent_query :: "ent_query \<Rightarrow> string"
  env_show_ent_sel :: "ent_sel \<Rightarrow> string"
  env_show_ent_update :: "ent_update \<Rightarrow> string"
  env_show_ent_doc :: "ent_doc \<Rightarrow> string"
  env_show_reg_query :: "reg_query \<Rightarrow> string"
  env_show_sub_query :: "sub_query \<Rightarrow> string"
  env_show_sub_update :: "string \<Rightarrow> int \<Rightarrow> string"

definition getEntitiesCollectionName :: "'w env \<Rightarrow> string \<Rightarrow> string" where
  "getEntitiesCollectionName e tenant =
     composeCollectionName (env_multitenant e) (env_dbPrefix e) tenant (env_entitiesCol e)"

definition getRegistrationsCollectionName :: "'w env \<Rightarrow> string \<Rightarrow> string" where
  "getRegistrationsCollectionName e tenant =
     composeCollectionName (env_multitenant e) (env_dbPrefix e) tenant (env_registrationsCol e)"

definition getSubscribeContextCollectionName :: "'w env \<Rightarrow> string \<Rightarrow> string" where
  "getSubscribeContextCollectionName e tenant =
     composeCollectionName (env_multitenant e) (env_dbPrefix e) tenant (env_csubsCol e)"

definition mongoLocationCapable :: "'w env \<Rightarrow> bool" where
  "mongoLocationCapable e =
     (case env_mongoVersion e of (mayor, minor) \<Rightarrow> (mayor = 2 \<and> minor \<ge> 4) \<or> mayor > 2)"

definition ensureLocationIndex :: "'w env \<Rightarrow> string \<Rightarrow> 'w \<Rightarrow> 'w" where
  "ensureLocationIndex e tenant w =
     (if mongoLocationCapable e then env_ensureIndex e (getEntitiesCollectionName e tenant) w else w)"

definition null_cursor_text :: string where
  "null_cursor_text = ''Null cursor from mongo (details on this is found in the source code)''"

text \<open>A NULL cursor is turned into an exception by the callers that test for it.\<close>

definition checked_cursor :: "'a db_cursor \<Rightarrow> string + 'a" where
  "checked_cursor c = (case c of DbThrow what \<Rightarrow> Inl what | DbNull \<Rightarrow> Inl null_cursor_text | DbDocs x \<Rightarrow> Inr x)"

definition stringToFormat :: "string \<Rightarrow> Format" where
  "stringToFormat s = (if s = ''XML'' then XML else if s = ''JSON'' then JSON else NOFORMAT)"

section \<open>An environment in memory\<close>

text \<open>
  A world that holds its documents in lists: the instance on which the hypotheses about the
  environment are shown to be satisfiable. Queries return what the world holds, writes are recorded.
\<close>

record mem_world =
  mw_now :: int
  mw_rows :: "ent_doc list"
  mw_regs :: "reg_doc list"
  mw_subs :: "sub_doc list"
  mw_sent :: "notification list"
  mw_touched :: "(string \<times> int) list"
  mw_updates :: "(ent_sel \<times> ent_update) list"

definition mem_env :: "mem_world env" where
  "mem_env =
     \<lparr>env_multitenant = False, env_dbPrefix = ''orion'', env_entitiesCol = ''entities'',
      env_registrationsCol = ''registrations'', env_csubsCol = ''csubs'', env_mongoVersion = (2, 6),
      env_buf0 = [], env_rnd = id, env_regex = (\<lambda>r. Some (\<lambda>x. x = r)),
      env_now = mw_now,
      env_queryEntities = (\<lambda>w col q limit offset. DbDocs (map RowDoc (mw_rows w))),
      env_findEntities = (\<lambda>w col q. DbDocs (map Some (filter (\<lambda>d. ed_id d = se_id q) (mw_rows w)))),
      env_queryRegistrations = (\<lambda>w col q limit offset. DbDocs (mw_regs w)),
      env_querySubs = (\<lambda>w col q. DbDocs (mw_subs w)),
      env_insertEntity = (\<lambda>col d w. (None, w\<lparr>mw_rows := mw_rows w @ [d]\<rparr>)),
      env_updateEntity = (\<lambda>col q u w. (None, w\<lparr>mw_updates := mw_updates w @ [(q, u)]\<rparr>)),
      env_removeEntity = (\<lambda>col q w. (None, w\<lparr>mw_rows := filter (\<lambda>d. ed_id d \<noteq> se_id q) (mw_rows w)\<rparr>)),
      env_updateSub = (\<lambda>col i t w. (None, w\<lparr>mw_touched := mw_touched w @ [(i, t)]\<rparr>)),
      env_ensureIndex = (\<lambda>col w. w),
      env_sendNotify = (\<lambda>n w. w\<lparr>mw_sent := mw_sent w @ [n]\<rparr>),
      env_createIntervalThread = (\<lambda>i t tenant w. w),
      env_show_ent_query = (\<lambda>q. []), env_show_ent_sel = (\<lambda>q. []), env_show_ent_update = (\<lambda>q. []),
      env_show_ent_doc = (\<lambda>q. []), env_show_reg_query = (\<lambda>q. []), env_show_sub_query = (\<lambda>q. []),
      env_show_sub_update = (\<lambda>i t. [])\<rparr>"

text \<open>An environment for a part of a larger world.\<close>

definition lift_env :: "('v \<Rightarrow> 'w) \<Rightarrow> ('w \<Rightarrow> 'v \<Rightarrow> 'v) \<Rightarrow> 'w env \<Rightarrow> 'v env" where
  "lift_env get put e =
     \<lparr>env_multitenant = env_multitenant e, env_dbPrefix = env_dbPrefix e, env_entitiesCol = env_entitiesCol e,
      env_registrationsCol = env_registrationsCol e, env_csubsCol = env_csubsCol e, env_mongoVersion = env_mongoVersion e,
      env_buf0 = env_buf0 e, env_rnd = env_rnd e, env_regex = env_regex e,
      env_now = (\<lambda>v. env_now e (get v)),
      env_queryEntities = (\<lambda>v. env_queryEntities e (get v)),
      env_findEntities = (\<lambda>v. env_findEntities e (get v)),
      env_queryRegistrations = (\<lambda>v. env_queryRegistrations e (get v)),
      env_querySubs = (\<lambda>v. env_querySubs e (get v)),
      env_insertEntity = (\<lambda>col d v. case env_insertEntity e col d (get v) of (r, w) \<Rightarrow> (r, put w v)),
      env_updateEntity = (\<lambda>col q u v. case env_updateEntity e col q u (get v) of (r, w) \<Rightarrow> (r, put w v)),
      env_removeEntity = (\<lambda>col q v. case env_removeEntity e col q (get v) of (r, w) \<Rightarrow> (r, put w v)),
      env_updateSub = (\<lambda>col i t v. case env_updateSub e col i t (get v) of (r, w) \<Rightarrow> (r, put w v)),
      env_ensureIndex = (\<lambda>col v. put (env_ensureIndex e col (get v)) v),
      env_sendNotify = (\<lambda>n v. put (env_sendNotify e n (get v)) v),
      env_createIntervalThread = (\<lambda>i t tenant v. put (env_createIntervalThread e i t tenant (get v)) v),
      env_show_ent_query = env_show_ent_query e, env_show_ent_sel = env_show_ent_sel e,
      env_show_ent_update = env_show_ent_update e, env_show_ent_doc = env_show_ent_doc e,
      env_show_reg_query = env_show_reg_query e, env_show_sub_query = env_show_sub_query e,
      env_show_sub_update = env_show_sub_update e\<rparr>"

definition mem_world0 :: mem_world where
  "mem_world0 = \<lparr>mw_now = 1000, mw_rows = [], mw_regs = [], mw_subs = [], mw_sent = [], mw_touched = [], mw_updates = []\<rparr>"

end
