(* ===== verification/Mongo_Query.thy ===== *)
theory Mongo_Query
  imports Mongo_Docs
begin

text \<open>
  Reading context: \<open>entitiesQuery\<close>, \<open>registrationsQuery\<close>, the pruning of what was not found, the
  lookup of context providers and the notification of a change, of
  \<^verbatim>\<open>src/src/lib/mongoBackend/MongoGlobal.cpp\<close>. The database, the clock and the notifier are the
  functions of the environment \<open>e\<close>.
\<close>

section \<open>Matching\<close>

definition matchEntity :: "'w env \<Rightarrow> EntityId \<Rightarrow> EntityId \<Rightarrow> bool" where
  "matchEntity e en1 en2 =
     (let idMatch =
        (if isTrue (en_isPattern en2) then
           (case env_regex e (en_id en2) of None \<Rightarrow> False | Some regexec \<Rightarrow> regexec (en_id en1))
         else en_id en2 = en_id en1)
      in idMatch \<and> (en_type en1 = [] \<or> en_type en2 = [] \<or> en_type en2 = en_type en1))"

fun includedEntity :: "'w env \<Rightarrow> EntityId \<Rightarrow> EntityId list \<Rightarrow> bool" where
  "includedEntity e en [] = False"
| "includedEntity e en (x # xs) = (if matchEntity e en x then True else includedEntity e en xs)"

text \<open>The two functions \<open>includedAttribute\<close> compare the name only.\<close>

definition includedAttribute :: "string \<Rightarrow> string list \<Rightarrow> bool" where
  "includedAttribute name attrsV = (if attrsV = [] then True else AttributeList_lookup attrsV name)"

section \<open>Building the query\<close>

definition fillQueryEntity :: "EntityId \<Rightarrow> ent_token" where
  "fillQueryEntity en =
     \<lparr>et_id = (if en_isPattern en = ''true'' then IdRegex (en_id en) else IdIs (en_id en)),
      et_type = (if en_type en \<noteq> [] then TypeIs (en_type en) else TypeAny)\<rparr>"

text \<open>A point is its latitude and longitude; the flag \<open>inverted\<close> keeps its text.\<close>

datatype scope_area = NoArea | CircleArea "rat \<times> rat" rat string | PolygonArea "(rat \<times> rat) list" string

record Scope =
  sco_type :: string
  sco_value :: string
  sco_oper :: string
  sco_area :: scope_area

definition EARTH_RADIUS_METERS :: rat where
  "EARTH_RADIUS_METERS = 6371000"

definition area_inverted :: "string \<Rightarrow> bool" where
  "area_inverted flag \<longleftrightarrow> flag = ''true'' \<or> flag = ''1''"

definition processAreaScope :: "'w env \<Rightarrow> Scope \<Rightarrow> area_query option" where
  "processAreaScope e sco =
     (if \<not> mongoLocationCapable e then None
      else case sco_area sco of
        CircleArea center radius inverted \<Rightarrow>
          (let radians = env_rnd e (radius / EARTH_RADIUS_METERS)
           in Some \<lparr>aq_not = area_inverted inverted, aq_within = CenterSphere (snd center) (fst center) radians\<rparr>)
      | PolygonArea vertexList inverted \<Rightarrow>
          (let vertex = map (\<lambda>(lat, lon). (lon, lat)) vertexList;
               p0 = (case vertexList of [] \<Rightarrow> (0, 0) | (lat0, lon0) # _ \<Rightarrow> (lon0, lat0))
           in Some \<lparr>aq_not = area_inverted inverted, aq_within = GeoPolygon (vertex @ [p0])\<rparr>)
      | NoArea \<Rightarrow> None)"

definition addFilterScope :: "Scope \<Rightarrow> bool list \<Rightarrow> bool list" where
  "addFilterScope sco filters =
     (if sco_type sco = ''FIWARE::Filter::Existence'' then
        (if sco_value sco = ''entity::type'' then filters @ [sco_oper sco \<noteq> ''Not''] else filters)
      else filters)"

fun scopes_loop :: "'w env \<Rightarrow> Scope list \<Rightarrow> nat \<Rightarrow> bool list \<Rightarrow> area_query option \<Rightarrow> bool list \<times> area_query option" where
  "scopes_loop e [] geoScopes filters area = (filters, area)"
| "scopes_loop e (sco # scos) geoScopes filters area =
     (if prefix ''FIWARE::Filter'' (sco_type sco) then
        scopes_loop e scos geoScopes (addFilterScope sco filters) area
      else if sco_type sco = ''FIWARE::Location'' \<or> sco_type sco = ''FIWARE_Location'' then
        (if geoScopes + 1 > 1 then scopes_loop e scos (geoScopes + 1) filters area
         else scopes_loop e scos (geoScopes + 1) filters
                (case processAreaScope e sco of None \<Rightarrow> area | Some q \<Rightarrow> Some q))
      else scopes_loop e scos geoScopes filters area)"

definition entities_query :: "'w env \<Rightarrow> EntityId list \<Rightarrow> string list \<Rightarrow> Scope list \<Rightarrow> sp_elem list \<Rightarrow> ent_query" where
  "entities_query e enV attrL scopes sp =
     (case scopes_loop e scopes 0 [] None of (filters, area) \<Rightarrow>
        \<lparr>eq_or = map fillQueryEntity enV, eq_servicePath = sp,
         eq_attrNames = (if attrL = [] then None else Some attrL), eq_area = area, eq_typeExists = filters\<rparr>)"

section \<open>Processing the result\<close>

definition custom_md_response :: "md_doc list option \<Rightarrow> Metadata list" where
  "custom_md_response mdV =
     (case mdV of None \<Rightarrow> []
      | Some ms \<Rightarrow> map (\<lambda>m. Metadata_new (mdd_name m) (STR_FIELD (mdd_type m)) (mdd_value m)) ms)"

definition attr_response :: "string list \<Rightarrow> bool \<Rightarrow> string \<Rightarrow> string \<Rightarrow> attr_doc \<Rightarrow> ContextAttribute option" where
  "attr_response attrL includeEmpty locAttr attrName queryAttr =
     (let name = dbDotDecode (basePart attrName);
          mdId = idPart attrName;
          type = STR_FIELD (ad_type queryAttr);
          mds = (if mdId \<noteq> [] then [Metadata_new NGSI_MD_ID ''string'' mdId] else [])
              @ (if locAttr = name then [Metadata_new NGSI_MD_LOCATION ''string'' ''WGS84''] else [])
              @ custom_md_response (ad_md queryAttr)
      in if \<not> includedAttribute name attrL then None
         else case ad_value queryAttr of
            None \<Rightarrow> None
          | Some b \<Rightarrow> (case value_response b of
                None \<Rightarrow> None
              | Some (Inl v) \<Rightarrow>
                  (if \<not> includeEmpty \<and> v = [] then None
                   else Some ((ContextAttribute_new name type v True)\<lparr>ca_metadataVector := mds\<rparr>))
              | Some (Inr nd) \<Rightarrow>
                  Some ((ContextAttribute_new name type [] True)
                          \<lparr>ca_compoundValueP := Some nd, ca_metadataVector := mds\<rparr>)))"

definition attrs_response :: "string list \<Rightarrow> bool \<Rightarrow> string \<Rightarrow> (string \<times> attr_doc) list \<Rightarrow> ContextAttribute list" where
  "attrs_response attrL includeEmpty locAttr queryAttrs =
     List.map_filter (\<lambda>attrName. case map_of queryAttrs attrName of None \<Rightarrow> None
        | Some queryAttr \<Rightarrow> attr_response attrL includeEmpty locAttr attrName queryAttr) (getFieldNames queryAttrs)"

fun add_not_found :: "ContextAttribute list \<Rightarrow> string list \<Rightarrow> ContextAttribute list" where
  "add_not_found caV [] = caV"
| "add_not_found caV (attrName # attrL) =
     (if list_ex (\<lambda>ca. attrName = ca_name ca) caV then add_not_found caV attrL
      else add_not_found (caV @ [ContextAttribute_new attrName [] [] False]) attrL)"

definition invalidPolygon :: string where
  "invalidPolygon = ''Exterior shell of polygon is invalid''"

definition err_response :: "EntityId list \<Rightarrow> string \<Rightarrow> ContextElementResponse" where
  "err_response enV err =
     (let err' = (if strneq err invalidPolygon (length invalidPolygon) then invalidPolygon
                  else ''Error at querying MongoDB'');
          en = (case enV of [en] \<Rightarrow> en | _ \<Rightarrow> EntityId_fill (EntityId_new [] [] []) [] [] [])
      in ContextElementResponse_new
           \<lparr>cer_contextElement := ContextElement_new\<lparr>ce_entityId := en\<rparr>,
            cer_statusCode := StatusCode_fill SccReceiverInternalError err'\<rparr>)"

text \<open>A row, and whether the function returns at once after it.\<close>

definition row_response :: "EntityId list \<Rightarrow> string list \<Rightarrow> bool \<Rightarrow> ent_row \<Rightarrow> ContextElementResponse \<times> bool" where
  "row_response enV attrL includeEmpty row =
     (case row of
        RowErr err \<Rightarrow> (err_response enV err, True)
      | RowDoc r \<Rightarrow>
          (let en = \<lparr>en_id = ed_id r, en_type = STR_FIELD (ed_type r), en_isPattern = ''false'',
                     en_servicePath = STR_FIELD (ed_servicePath r)\<rparr>;
               locAttr = (case ed_location r of None \<Rightarrow> [] | Some l \<Rightarrow> ld_attrName l)
           in case ed_attrs r of
                None \<Rightarrow>
                  (ContextElementResponse_new
                     \<lparr>cer_contextElement := ContextElement_new\<lparr>ce_entityId := en\<rparr>,
                      cer_statusCode := StatusCode_fill SccReceiverInternalError ''attrs field missing in entity document''\<rparr>,
                   True)
              | Some queryAttrs \<Rightarrow>
                  (ContextElementResponse_new
                     \<lparr>cer_contextElement := ContextElement_new\<lparr>ce_entityId := en,
                        ce_contextAttributeVector :=
                          add_not_found (attrs_response attrL includeEmpty locAttr queryAttrs) attrL\<rparr>,
                      cer_statusCode := StatusCode_fill SccOk []\<rparr>,
                   False)))"

fun rows_loop :: "EntityId list \<Rightarrow> string list \<Rightarrow> bool \<Rightarrow> ContextElementResponse list \<Rightarrow> ent_row list \<Rightarrow> ContextElementResponse list \<times> bool" where
  "rows_loop enV attrL includeEmpty cerV [] = (cerV, False)"
| "rows_loop enV attrL includeEmpty cerV (row # rows) =
     (case row_response enV attrL includeEmpty row of (cer, stop) \<Rightarrow>
        if stop then (cerV @ [cer], True) else rows_loop enV attrL includeEmpty (cerV @ [cer]) rows)"

definition cer_of_entity :: "EntityId \<Rightarrow> ContextElementResponse \<Rightarrow> bool" where
  "cer_of_entity en cer \<longleftrightarrow>
     en_id (ce_entityId (cer_contextElement cer)) = en_id en \<and>
     en_type (ce_entityId (cer_contextElement cer)) = en_type en"

definition absent_entity :: "string list \<Rightarrow> EntityId \<Rightarrow> ContextElementResponse" where
  "absent_entity attrL en =
     ContextElementResponse_new
       \<lparr>cer_contextElement := ContextElement_new
          \<lparr>ce_entityId := EntityId_new (en_id en) (en_type en) ''false'',
           ce_contextAttributeVector := map (\<lambda>a. ContextAttribute_new a [] [] False) attrL\<rparr>,
        cer_statusCode := StatusCode_fill SccOk [],
        cer_prune := True\<rparr>"

fun add_absent :: "string list \<Rightarrow> ContextElementResponse list \<Rightarrow> EntityId list \<Rightarrow> ContextElementResponse list" where
  "add_absent attrL cerV [] = cerV"
| "add_absent attrL cerV (en # enV) =
     (if en_isPattern en \<noteq> ''true'' then
        (if list_ex (cer_of_entity en) cerV then add_absent attrL cerV enV
         else add_absent attrL (cerV @ [absent_entity attrL en]) enV)
      else add_absent attrL cerV enV)"

definition process_rows :: "EntityId list \<Rightarrow> string list \<Rightarrow> bool \<Rightarrow> ent_row list \<Rightarrow> ContextElementResponse list" where
  "process_rows enV attrL includeEmpty rows =
     (case rows_loop enV attrL includeEmpty [] rows of (cerV, stop) \<Rightarrow>
        if stop then cerV else add_absent attrL cerV enV)"

text \<open>The error text, or the responses; the count of a paginated query is left out.\<close>

definition entitiesQuery :: "'w env \<Rightarrow> EntityId list \<Rightarrow> string list \<Rightarrow> Scope list \<Rightarrow> bool \<Rightarrow> string \<Rightarrow> string list \<Rightarrow> int \<Rightarrow> int \<Rightarrow> 'w
    \<Rightarrow> (string + ContextElementResponse list) cpp" where
  "entitiesQuery e enV attrL scopes includeEmpty tenant servicePath offset limit w =
     cpp_bind (fillQueryServicePath (env_buf0 e) servicePath) (\<lambda>sp.
       let query = entities_query e enV attrL scopes sp;
           col = getEntitiesCollectionName e tenant
       in case checked_cursor (env_queryEntities e w col query limit offset) of
            Inl what \<Rightarrow> Ret (Inl (''collection: '' @ col @ '' - query(): '' @ env_show_ent_query e query @ '' - exception: '' @ what))
          | Inr rows \<Rightarrow> Ret (Inr (process_rows enV attrL includeEmpty rows)))"

section \<open>Pruning\<close>

definition prune_one :: "ContextElementResponse \<Rightarrow> ContextElementResponse option" where
  "prune_one cer =
     (let ce = cer_contextElement cer;
          sc = cer_statusCode cer;
          caV = map ContextAttribute_copy (filter ca_found (ce_contextAttributeVector ce));
          new = ContextElementResponse_new
             \<lparr>cer_contextElement := ContextElement_new
                \<lparr>ce_entityId := ce_entityId ce, ce_providingApplicationList := ce_providingApplicationList ce,
                 ce_contextAttributeVector := caV\<rparr>,
              cer_statusCode := StatusCode_fill (sc_code sc) (sc_details sc)\<rparr>
      in if cer_prune cer \<and> caV = [] \<and> ce_providingApplicationList ce = [] then None else Some new)"

fun pruneContextElements :: "ContextElementResponse list \<Rightarrow> ContextElementResponse list \<Rightarrow> ContextElementResponse list" where
  "pruneContextElements [] newCerV = newCerV"
| "pruneContextElements (cer # oldCerV) newCerV =
     (case prune_one cer of None \<Rightarrow> pruneContextElements oldCerV newCerV
      | Some new \<Rightarrow> pruneContextElements oldCerV (newCerV @ [new]))"

section \<open>Registrations\<close>

definition processEntity :: "'w env \<Rightarrow> EntityId list \<Rightarrow> EntityId list \<Rightarrow> string \<times> string \<Rightarrow> EntityId list" where
  "processEntity e enV crrEntities entity =
     (let en = EntityId_new (fst entity) (snd entity) ''false''
      in if includedEntity e en enV then crrEntities @ [en] else crrEntities)"

definition processAttribute :: "string list \<Rightarrow> ContextRegistrationAttribute list \<Rightarrow> string \<times> string \<times> string \<Rightarrow> ContextRegistrationAttribute list" where
  "processAttribute attrL crrAttrs attribute =
     (case attribute of (n, t, d) \<Rightarrow>
        if includedAttribute n attrL then crrAttrs @ [\<lparr>cra_name = n, cra_type = t, cra_isDomain = d\<rparr>] else crrAttrs)"

definition processContextRegistrationElement :: "'w env \<Rightarrow> EntityId list \<Rightarrow> string list \<Rightarrow> Format \<Rightarrow> ContextRegistration list \<Rightarrow> cr_doc \<Rightarrow> ContextRegistration list" where
  "processContextRegistrationElement e enV attrL format crrV cr =
     (let ens = foldl (processEntity e enV) [] (crd_entities cr);
          attrs = (if ens \<noteq> [] then
                     (case crd_attrs cr of None \<Rightarrow> [] | Some as \<Rightarrow> foldl (processAttribute attrL) [] as)
                   else [])
      in if ens = [] then crrV
         else if attrs \<noteq> [] \<or> (attrs = [] \<and> attrL = []) then
           crrV @ [\<lparr>cr_entityIdVector = ens, cr_attributeVector = attrs,
                    cr_providingApplication = \<lparr>pa_string = crd_providingApplication cr, pa_format = format\<rparr>\<rparr>]
         else crrV)"

definition registrations_query :: "'w env \<Rightarrow> EntityId list \<Rightarrow> string list \<Rightarrow> sp_elem list \<Rightarrow> int \<Rightarrow> reg_query" where
  "registrations_query e enV attrL sp now =
     \<lparr>rq_patterns = map (\<lambda>en. (en_id en, if en_type en \<noteq> [] then TypeIs (en_type en) else TypeAny))
        (filter (\<lambda>en. isTrue (en_isPattern en)) enV),
      rq_withType = map (\<lambda>en. (en_id en, en_type en)) (filter (\<lambda>en. \<not> isTrue (en_isPattern en) \<and> en_type en \<noteq> []) enV),
      rq_withoutType = map en_id (filter (\<lambda>en. \<not> isTrue (en_isPattern en) \<and> en_type en = []) enV),
      rq_expirationGt = now,
      rq_attrNames = (if attrL = [] then None else Some attrL),
      rq_servicePath = sp\<rparr>"

definition process_reg_doc :: "'w env \<Rightarrow> EntityId list \<Rightarrow> string list \<Rightarrow> ContextRegistration list \<Rightarrow> reg_doc \<Rightarrow> ContextRegistration list" where
  "process_reg_doc e enV attrL crrV r =
     (let format = (case rd_format r of None \<Rightarrow> XML | Some f \<Rightarrow> stringToFormat f)
      in foldl (processContextRegistrationElement e enV attrL format) crrV (rd_contextRegistration r))"

text \<open>Unlike the other queries, this one does not test for a NULL cursor before it uses it.\<close>

definition registrationsQuery :: "'w env \<Rightarrow> EntityId list \<Rightarrow> string list \<Rightarrow> string \<Rightarrow> string list \<Rightarrow> int \<Rightarrow> int \<Rightarrow> 'w
    \<Rightarrow> (string + ContextRegistration list) cpp" where
  "registrationsQuery e enV attrL tenant servicePathV offset limit w =
     cpp_bind (fillQueryServicePath (env_buf0 e) servicePathV) (\<lambda>sp.
       let query = registrations_query e enV attrL sp (env_now e w);
           col = getRegistrationsCollectionName e tenant
       in case env_queryRegistrations e w col query limit offset of
            DbThrow what \<Rightarrow> Ret (Inl (''collection: '' @ col @ '' - query(): '' @ env_show_reg_query e query @ '' - exception: '' @ what))
          | DbNull \<Rightarrow> UB
          | DbDocs docs \<Rightarrow> Ret (Inr (foldl (process_reg_doc e enV attrL) [] docs)))"

section \<open>Context providers\<close>

text \<open>The entities of one registration: \<open>Inl\<close> the provider at entity level so far, \<open>Inr\<close> that of the attribute.\<close>

fun cpr_entities :: "EntityId \<Rightarrow> string \<Rightarrow> ContextRegistration \<Rightarrow> ProvidingApplication \<Rightarrow> EntityId list \<Rightarrow> ProvidingApplication + ProvidingApplication" where
  "cpr_entities en attrName cr perEnt [] = Inl perEnt"
| "cpr_entities en attrName cr perEnt (regEn # regEns) =
     (if en_id regEn \<noteq> en_id en \<or> (en_type regEn \<noteq> en_type en \<and> en_type regEn \<noteq> []) then
        cpr_entities en attrName cr perEnt regEns
      else if cr_attributeVector cr = [] then Inl (cr_providingApplication cr)
      else if list_ex (\<lambda>a. cra_name a = attrName) (cr_attributeVector cr) then Inr (cr_providingApplication cr)
      else cpr_entities en attrName cr perEnt regEns)"

fun cprLookupByAttribute :: "EntityId \<Rightarrow> string \<Rightarrow> ProvidingApplication \<Rightarrow> ContextRegistration list \<Rightarrow> ProvidingApplication \<times> ProvidingApplication" where
  "cprLookupByAttribute en attrName perEnt [] = (perEnt, ProvidingApplication_new)"
| "cprLookupByAttribute en attrName perEnt (crr # crrV) =
     (case cpr_entities en attrName crr perEnt (cr_entityIdVector crr) of
        Inl perEnt' \<Rightarrow> cprLookupByAttribute en attrName perEnt' crrV
      | Inr perAttr \<Rightarrow> (perEnt, perAttr))"

definition fill_provider :: "EntityId \<Rightarrow> ContextRegistration list \<Rightarrow> ContextAttribute \<Rightarrow> ContextAttribute" where
  "fill_provider en crrV ca =
     (if ca_found ca then ca
      else case cprLookupByAttribute en (ca_name ca) ProvidingApplication_new crrV of (perEnt, perAttr) \<Rightarrow>
        (let pa = (if pa_string perAttr = [] then perEnt else perAttr)
         in ca\<lparr>ca_providingApplication := pa, ca_found := pa_string pa \<noteq> []\<rparr>))"

definition fillContextProviders :: "ContextElementResponse \<Rightarrow> ContextRegistration list \<Rightarrow> ContextElementResponse" where
  "fillContextProviders cer crrV =
     (let ce = cer_contextElement cer
      in cer\<lparr>cer_contextElement := ce\<lparr>ce_contextAttributeVector :=
           map (fill_provider (ce_entityId ce) crrV) (ce_contextAttributeVector ce)\<rparr>\<rparr>)"

fun someContextElementNotFound_loop :: "ContextAttribute list \<Rightarrow> bool" where
  "someContextElementNotFound_loop [] = False"
| "someContextElementNotFound_loop (ca # caV) = (if \<not> ca_found ca then True else someContextElementNotFound_loop caV)"

definition someContextElementNotFound :: "ContextElementResponse \<Rightarrow> bool" where
  "someContextElementNotFound cer =
     someContextElementNotFound_loop (ce_contextAttributeVector (cer_contextElement cer))"

section \<open>Change notifications\<close>

abbreviation DEFAULT_PAGINATION_OFFSET_INT :: int where "DEFAULT_PAGINATION_OFFSET_INT \<equiv> 0"
abbreviation DEFAULT_PAGINATION_LIMIT_INT :: int where "DEFAULT_PAGINATION_LIMIT_INT \<equiv> 20"

definition isCondValueInContextElementResponse :: "string list \<Rightarrow> ContextElementResponse list \<Rightarrow> bool" where
  "isCondValueInContextElementResponse condValues cerV =
     list_ex (\<lambda>cv. list_ex (\<lambda>cer.
       list_ex (\<lambda>ca. ca_name ca = cv) (ce_contextAttributeVector (cer_contextElement cer))) cerV) condValues"

definition subToEntityIdVector :: "sub_doc \<Rightarrow> EntityId list" where
  "subToEntityIdVector sub = map (\<lambda>(i, t, p). EntityId_new i t p) (sd_entities sub)"

definition subToAttributeList :: "sub_doc \<Rightarrow> string list" where
  "subToAttributeList sub = sd_attrs sub"

text \<open>Whether a notification was sent, and the world after.\<close>

definition processOnChangeCondition :: "'w env \<Rightarrow> EntityId list \<Rightarrow> string list \<Rightarrow> string list option \<Rightarrow> string \<Rightarrow> string
    \<Rightarrow> Format \<Rightarrow> string \<Rightarrow> string \<Rightarrow> string list \<Rightarrow> 'w \<Rightarrow> (bool \<times> 'w) cpp" where
  "processOnChangeCondition e enV attrL condValues subId notifyUrl format tenant xauthToken servicePathV w =
     cpp_bind (entitiesQuery e enV attrL [] False tenant servicePathV DEFAULT_PAGINATION_OFFSET_INT DEFAULT_PAGINATION_LIMIT_INT w) (\<lambda>r.
       case r of Inl err \<Rightarrow> Ret (False, w)
       | Inr rawCerV \<Rightarrow>
         (let cerV = pruneContextElements rawCerV [];
              ncr = \<lparr>nt_subId = subId, nt_originator = ''localhost'', nt_cerV = cerV, nt_url = notifyUrl,
                     nt_tenant = tenant, nt_xauthToken = xauthToken, nt_format = format\<rparr>
          in if cerV = [] then Ret (False, w)
             else case condValues of
               None \<Rightarrow> Ret (True, env_sendNotify e ncr w)
             | Some cvs \<Rightarrow>
                 cpp_bind (entitiesQuery e enV [] [] False tenant servicePathV DEFAULT_PAGINATION_OFFSET_INT DEFAULT_PAGINATION_LIMIT_INT w) (\<lambda>r2.
                   case r2 of Inl err \<Rightarrow> Ret (False, w)
                   | Inr raw2 \<Rightarrow>
                       (if isCondValueInContextElementResponse cvs (pruneContextElements raw2 [])
                        then Ret (True, env_sendNotify e ncr w) else Ret (False, w)))))"

record NotifyCondition =
  nc_type :: string
  nc_condValueList :: "string list"

datatype cond_doc = CondInterval int | CondChange "string list"

text \<open>An empty list of values has no first element: \<open>get (0)\<close> is undefined then.\<close>

fun processConditionVector :: "'w env \<Rightarrow> NotifyCondition list \<Rightarrow> EntityId list \<Rightarrow> string list \<Rightarrow> string \<Rightarrow> string
    \<Rightarrow> Format \<Rightarrow> string \<Rightarrow> string \<Rightarrow> string list \<Rightarrow> bool \<Rightarrow> 'w \<Rightarrow> (cond_doc list \<times> bool \<times> 'w) cpp" where
  "processConditionVector e [] enV attrL subId url format tenant xauthToken servicePathV done w = Ret ([], done, w)"
| "processConditionVector e (nc # ncv) enV attrL subId url format tenant xauthToken servicePathV done w =
     (if nc_type nc = ''ONTIMEINTERVAL'' then
        cpp_bind (vec_at (nc_condValueList nc) 0) (\<lambda>v.
          let interval = dur_seconds (snd (Duration_parse (Duration_set Duration_new v)))
          in cpp_bind (processConditionVector e ncv enV attrL subId url format tenant xauthToken servicePathV done
                 (env_createIntervalThread e subId interval tenant w)) (\<lambda>(conds, d, w').
               Ret (CondInterval interval # conds, d, w')))
      else if nc_type nc = ''ONCHANGE'' then
        cpp_bind (processOnChangeCondition e enV attrL (Some (nc_condValueList nc)) subId url format tenant xauthToken servicePathV w)
          (\<lambda>(sent, w1). cpp_bind (processConditionVector e ncv enV attrL subId url format tenant xauthToken servicePathV (sent \<or> done) w1)
            (\<lambda>(conds, d, w'). Ret (CondChange (nc_condValueList nc) # conds, d, w')))
      else processConditionVector e ncv enV attrL subId url format tenant xauthToken servicePathV done w)"

section \<open>What a query returns\<close>

lemma includedAttribute_iff: "includedAttribute n as \<longleftrightarrow> as = [] \<or> n \<in> set as"
  by (simp add: includedAttribute_def AttributeList_lookup_iff)

lemma includedEntity_iff: "includedEntity e en xs \<longleftrightarrow> (\<exists>x\<in>set xs. matchEntity e en x)"
  by (induction xs) auto

lemma add_not_found_names: "set attrL \<subseteq> ca_name ` set (add_not_found caV attrL)"
  and add_not_found_mono: "set caV \<subseteq> set (add_not_found caV attrL)"
proof -
  have mono: "set caV \<subseteq> set (add_not_found caV attrL)" for caV attrL
    by (induction caV attrL rule: add_not_found.induct) auto
  show "set caV \<subseteq> set (add_not_found caV attrL)" by (rule mono)
  show "set attrL \<subseteq> ca_name ` set (add_not_found caV attrL)"
  proof (induction caV attrL rule: add_not_found.induct)
    case (2 caV n attrL)
    show ?case
    proof (cases "list_ex (\<lambda>ca. n = ca_name ca) caV")
      case True
      then have "n \<in> ca_name ` set caV" by (auto simp: list_ex_iff)
      then have "n \<in> ca_name ` set (add_not_found caV attrL)" using mono [of caV attrL] by blast
      with 2(1) [OF True] True show ?thesis by simp
    next
      case False
      let ?caV = "caV @ [ContextAttribute_new n [] [] False]"
      have "n \<in> ca_name ` set ?caV" by (simp add: ContextAttribute_new_def)
      then have "n \<in> ca_name ` set (add_not_found ?caV attrL)" using mono [of ?caV attrL] by blast
      with 2(2) [OF False] False show ?thesis by simp
    qed
  qed simp
qed

lemma add_not_found_found: "filter ca_found (add_not_found caV attrL) = filter ca_found caV"
  by (induction caV attrL rule: add_not_found.induct) (simp_all add: ContextAttribute_new_def)

lemma attr_response_found: "attr_response attrL inc loc n q = Some ca \<Longrightarrow> ca_found ca"
  by (auto simp: attr_response_def ContextAttribute_new_def Let_def split: if_splits option.splits sum.splits)

lemma attrs_response_found: "list_all ca_found (attrs_response attrL inc loc qs)"
  by (auto simp: attrs_response_def list_all_iff List.map_filter_def attr_response_found split: option.splits)

lemma filter_attrs_response: "filter ca_found (attrs_response attrL inc loc qs) = attrs_response attrL inc loc qs"
  using attrs_response_found [of attrL inc loc qs] by (simp add: filter_id_conv list_all_iff)

text \<open>A document that has its \<open>attrs\<close>, and the response it gives.\<close>

definition doc_ok :: "ent_row \<Rightarrow> bool" where
  "doc_ok row = (case row of RowErr _ \<Rightarrow> False | RowDoc r \<Rightarrow> ed_attrs r \<noteq> None)"

lemma rows_loop_docs:
  "list_all doc_ok rows \<Longrightarrow> rows_loop enV attrL inc cerV rows = (cerV @ map (fst \<circ> row_response enV attrL inc) rows, False)"
proof (induction rows arbitrary: cerV)
  case (Cons row rows)
  then have "\<not> snd (row_response enV attrL inc row)"
    by (auto simp: doc_ok_def row_response_def Let_def split: ent_row.splits option.splits)
  with Cons show ?case by (cases "row_response enV attrL inc row") simp
qed simp

lemma add_absent_mono: "set cerV \<subseteq> set (add_absent attrL cerV enV)"
  by (induction attrL cerV enV rule: add_absent.induct) auto

lemma add_absent_shape:
  "\<exists>ens. set ens \<subseteq> set enV \<and> add_absent attrL cerV enV = cerV @ map (absent_entity attrL) ens"
proof (induction attrL cerV enV rule: add_absent.induct)
  case (1 attrL cerV)
  then show ?case by simp
next
  case (2 attrL cerV en enV)
  show ?case
  proof (cases "en_isPattern en \<noteq> ''true'' \<and> \<not> list_ex (cer_of_entity en) cerV")
    case True
    with 2(2) obtain ens where "set ens \<subseteq> set enV"
        "add_absent attrL (cerV @ [absent_entity attrL en]) enV = (cerV @ [absent_entity attrL en]) @ map (absent_entity attrL) ens"
      by blast
    with True show ?thesis by (intro exI [of _ "en # ens"]) auto
  next
    case False
    then have "add_absent attrL cerV (en # enV) = add_absent attrL cerV enV" by auto
    moreover have "\<exists>ens. set ens \<subseteq> set enV \<and> add_absent attrL cerV enV = cerV @ map (absent_entity attrL) ens"
      using False 2(1,3) by blast
    ultimately show ?thesis by (metis set_subset_Cons subset_trans)
  qed
qed

lemma add_absent_covers:
  "en \<in> set enV \<Longrightarrow> en_isPattern en \<noteq> ''true'' \<Longrightarrow> list_ex (cer_of_entity en) (add_absent attrL cerV enV)"
proof (induction attrL cerV enV rule: add_absent.induct)
  case (2 attrL cerV x enV)
  have here: "list_ex (cer_of_entity x) (add_absent attrL cerV (x # enV))" if "en_isPattern x \<noteq> ''true''"
  proof (cases "list_ex (cer_of_entity x) cerV")
    case True
    with add_absent_mono [of cerV attrL enV] that show ?thesis by (auto simp: list_ex_iff)
  next
    case False
    have "cer_of_entity x (absent_entity attrL x)"
      by (simp add: cer_of_entity_def absent_entity_def EntityId_new_def)
    with add_absent_mono [of "cerV @ [absent_entity attrL x]" attrL enV] False that show ?thesis
      by (auto simp: list_ex_iff)
  qed
  show ?case using 2 here by (cases "en = x") auto
qed simp

lemma prune_absent: "prune_one (absent_entity attrL en) = None"
  by (simp add: prune_one_def absent_entity_def ContextElement_new_def ContextElementResponse_new_def
      ContextAttribute_new_def Let_def filter_empty_conv)

lemma pruneContextElements_eq: "pruneContextElements old new = new @ List.map_filter prune_one old"
  by (induction old new rule: pruneContextElements.induct) (simp_all add: map_filter_simps split: option.splits)

lemma map_filter_append: "List.map_filter f (xs @ ys) = List.map_filter f xs @ List.map_filter f ys"
  by (simp add: List.map_filter_def)

definition doc_response :: "string list \<Rightarrow> bool \<Rightarrow> ent_doc \<Rightarrow> ContextElementResponse" where
  "doc_response attrL includeEmpty r =
     ContextElementResponse_new
       \<lparr>cer_contextElement := ContextElement_new
          \<lparr>ce_entityId := \<lparr>en_id = ed_id r, en_type = STR_FIELD (ed_type r), en_isPattern = ''false'',
                           en_servicePath = STR_FIELD (ed_servicePath r)\<rparr>,
           ce_contextAttributeVector := map ContextAttribute_copy
             (attrs_response attrL includeEmpty (case ed_location r of None \<Rightarrow> [] | Some l \<Rightarrow> ld_attrName l)
                (the (ed_attrs r)))\<rparr>,
        cer_statusCode := StatusCode_fill SccOk []\<rparr>"

lemma prune_doc:
  "ed_attrs r \<noteq> None \<Longrightarrow> prune_one (fst (row_response enV attrL inc (RowDoc r))) = Some (doc_response attrL inc r)"
  by (auto simp: row_response_def prune_one_def doc_response_def Let_def ContextElementResponse_new_def
      ContextElement_new_def StatusCode_fill_def add_not_found_found filter_attrs_response)

text \<open>Reading entities. When the rows of a query are entity documents, the result holds one response per document,
  in their order, and after it an entry marked for pruning for each entity of the request that is not a
  pattern and has no response; every attribute asked for has an entry in every response, marked as not found
  where the document has none.\<close>

theorem process_rows_complete:
  assumes "list_all doc_ok rows"
  shows "(\<exists>ens. set ens \<subseteq> set enV \<and>
      process_rows enV attrL inc rows = map (fst \<circ> row_response enV attrL inc) rows @ map (absent_entity attrL) ens) \<and>
    list_all (\<lambda>en. en_isPattern en = ''true'' \<or> list_ex (cer_of_entity en) (process_rows enV attrL inc rows)) enV \<and>
    list_all (\<lambda>cer. set attrL \<subseteq> ca_name ` set (ce_contextAttributeVector (cer_contextElement cer)))
      (process_rows enV attrL inc rows)"
proof (intro conjI)
  have eq: "process_rows enV attrL inc rows = add_absent attrL (map (fst \<circ> row_response enV attrL inc) rows) enV"
    by (simp add: process_rows_def rows_loop_docs [OF assms])
  show shape: "\<exists>ens. set ens \<subseteq> set enV \<and>
      process_rows enV attrL inc rows = map (fst \<circ> row_response enV attrL inc) rows @ map (absent_entity attrL) ens"
    unfolding eq by (rule add_absent_shape)
  show "list_all (\<lambda>en. en_isPattern en = ''true'' \<or> list_ex (cer_of_entity en) (process_rows enV attrL inc rows)) enV"
    unfolding eq list_all_iff using add_absent_covers by blast
  have doc: "set attrL \<subseteq> ca_name ` set (ce_contextAttributeVector (cer_contextElement (fst (row_response enV attrL inc row))))"
    if "doc_ok row" for row
    using that by (auto simp: doc_ok_def row_response_def Let_def subsetD [OF add_not_found_names] split: ent_row.splits)
  have absent: "set attrL \<subseteq> ca_name ` set (ce_contextAttributeVector (cer_contextElement (absent_entity attrL en)))" for en
    by (auto simp: absent_entity_def ContextAttribute_new_def image_image)
  show "list_all (\<lambda>cer. set attrL \<subseteq> ca_name ` set (ce_contextAttributeVector (cer_contextElement cer)))
      (process_rows enV attrL inc rows)"
    using shape assms by (auto simp: list_all_iff subsetD [OF doc] subsetD [OF absent])
qed

lemma pruned_rows:
  assumes "list_all (\<lambda>r. ed_attrs r \<noteq> None) docs"
  shows "pruneContextElements (process_rows enV attrL inc (map RowDoc docs)) [] = map (doc_response attrL inc) docs"
proof -
  have ok: "list_all doc_ok (map RowDoc docs)" using assms by (auto simp: list_all_iff doc_ok_def)
  obtain ens where
      "process_rows enV attrL inc (map RowDoc docs) =
         add_absent attrL (map (fst \<circ> row_response enV attrL inc) (map RowDoc docs)) enV"
      "add_absent attrL (map (fst \<circ> row_response enV attrL inc) (map RowDoc docs)) enV =
         map (fst \<circ> row_response enV attrL inc) (map RowDoc docs) @ map (absent_entity attrL) ens"
    using add_absent_shape rows_loop_docs [OF ok, of enV attrL inc "[]"] by (fastforce simp: process_rows_def)
  moreover have "List.map_filter prune_one (map (fst \<circ> row_response enV attrL inc) (map RowDoc docs)) = map (doc_response attrL inc) docs"
    using assms by (induction docs) (auto simp: map_filter_simps prune_doc)
  moreover have "List.map_filter prune_one (map (absent_entity attrL) ens) = []"
    by (induction ens) (simp_all add: map_filter_simps prune_absent)
  ultimately show ?thesis by (simp add: pruneContextElements_eq map_filter_append)
qed

text \<open>Pruning after a query leaves exactly the responses of the documents found, in their order, each with
  the attributes the document has and the request asked for: entries for absent entities and attributes
  that were not found never reach a notification.\<close>

theorem prune_process_rows:
  assumes "list_all (\<lambda>r. ed_attrs r \<noteq> None) docs"
  shows "pruneContextElements (process_rows enV attrL inc (map RowDoc docs)) [] = map (doc_response attrL inc) docs"
  by (rule pruned_rows [OF assms])

definition sample_doc :: ent_doc where
  "sample_doc = \<lparr>ed_id = ''E1'', ed_type = Some ''T'', ed_servicePath = Some ''/a'', ed_attrNames = [''A''],
     ed_attrs = Some [(''A'', \<lparr>ad_value = Some (BString ''1''), ad_type = Some ''t'', ad_md = None,
       ad_creDate = None, ad_modDate = None\<rparr>)], ed_creDate = None, ed_modDate = None, ed_location = None\<rparr>"

theorem process_rows_complete_witness:
  "list_all (\<lambda>cer. set [''B''] \<subseteq> ca_name ` set (ce_contextAttributeVector (cer_contextElement cer)))
     (process_rows [EntityId_new ''E2'' ''T'' ''false''] [''B''] True [RowDoc sample_doc])"
  using process_rows_complete [of "[RowDoc sample_doc]" "[EntityId_new ''E2'' ''T'' ''false'']" "[''B'']" True]
  by (simp add: doc_ok_def sample_doc_def)

theorem prune_process_rows_witness:
  "pruneContextElements (process_rows [EntityId_new ''E2'' ''T'' ''false''] [''B''] True (map RowDoc [sample_doc])) []
     = map (doc_response [''B''] True) [sample_doc]"
  by (rule prune_process_rows) (simp add: sample_doc_def)

section \<open>Which provider an attribute gets\<close>

definition reg_covers :: "EntityId \<Rightarrow> ContextRegistration \<Rightarrow> bool" where
  "reg_covers en cr \<longleftrightarrow> list_ex (\<lambda>r. en_id r = en_id en \<and> (en_type r = en_type en \<or> en_type r = [])) (cr_entityIdVector cr)"

definition provides_entity :: "EntityId \<Rightarrow> ContextRegistration \<Rightarrow> bool" where
  "provides_entity en cr \<longleftrightarrow> reg_covers en cr \<and> cr_attributeVector cr = []"

definition provides_attr :: "EntityId \<Rightarrow> string \<Rightarrow> ContextRegistration \<Rightarrow> bool" where
  "provides_attr en a cr \<longleftrightarrow> reg_covers en cr \<and> a \<in> cra_name ` set (cr_attributeVector cr)"

lemma cpr_entities_eq:
  "cpr_entities en a cr perEnt (cr_entityIdVector cr) =
     (if provides_attr en a cr then Inr (cr_providingApplication cr)
      else if provides_entity en cr then Inl (cr_providingApplication cr) else Inl perEnt)"
proof -
  have "cpr_entities en a cr perEnt rs =
     (if list_ex (\<lambda>r. en_id r = en_id en \<and> (en_type r = en_type en \<or> en_type r = [])) rs then
        (if a \<in> cra_name ` set (cr_attributeVector cr) then Inr (cr_providingApplication cr)
         else if cr_attributeVector cr = [] then Inl (cr_providingApplication cr) else Inl perEnt)
      else Inl perEnt)" for rs
    by (induction rs) (auto simp: list_ex_iff)
  then show ?thesis by (auto simp: provides_attr_def provides_entity_def reg_covers_def)
qed

definition last_or :: "'a \<Rightarrow> 'a list \<Rightarrow> 'a" where
  "last_or d xs = (if xs = [] then d else last xs)"

lemma last_or_Cons: "last_or d (x # xs) = last_or x xs"
  by (simp add: last_or_def)

text \<open>The lookup of context providers returns as provider of the attribute that of the first registration that
  names the entity and the attribute, and as provider of the entity that of the last registration before
  it that names the entity and no attribute at all (an empty registered type covers every type).\<close>

theorem cprLookupByAttribute_spec:
  "cprLookupByAttribute en a perEnt crrV =
     (last_or perEnt (map cr_providingApplication
        (filter (provides_entity en) (takeWhile (\<lambda>cr. \<not> provides_attr en a cr) crrV))),
      case find (provides_attr en a) crrV of None \<Rightarrow> ProvidingApplication_new | Some cr \<Rightarrow> cr_providingApplication cr)"
proof (induction crrV arbitrary: perEnt)
  case (Cons cr crrV)
  then show ?case
    by (simp add: cpr_entities_eq last_or_Cons) (simp add: last_or_def)
qed (simp add: last_or_def)

text \<open>Filling in providers keeps every attribute that was found as it is, keeps name, type and value of the others, and
  marks one as found exactly when a registration gives it a non-empty provider; the provider of the
  attribute is preferred to that of the entity.\<close>

theorem fillContextProviders_spec:
  "list_all2 (\<lambda>ca ca'.
       if ca_found ca then ca' = ca
       else case cprLookupByAttribute (ce_entityId (cer_contextElement cer)) (ca_name ca) ProvidingApplication_new crrV of
         (perEnt, perAttr) \<Rightarrow>
           ca_name ca' = ca_name ca \<and> ca_type ca' = ca_type ca \<and> ca_value ca' = ca_value ca \<and>
           ca_metadataVector ca' = ca_metadataVector ca \<and>
           ca_providingApplication ca' = (if pa_string perAttr \<noteq> [] then perAttr else perEnt) \<and>
           ca_found ca' = (\<not> (pa_string perAttr = [] \<and> pa_string perEnt = [])))
     (ce_contextAttributeVector (cer_contextElement cer))
     (ce_contextAttributeVector (cer_contextElement (fillContextProviders cer crrV)))"
  by (auto simp: fillContextProviders_def Let_def list_all2_conv_all_nth fill_provider_def split: prod.splits)

lemma someContextElementNotFound_iff:
  "someContextElementNotFound cer \<longleftrightarrow> (\<exists>ca\<in>set (ce_contextAttributeVector (cer_contextElement cer)). \<not> ca_found ca)"
proof -
  have "someContextElementNotFound_loop xs \<longleftrightarrow> (\<exists>ca\<in>set xs. \<not> ca_found ca)" for xs
    by (induction xs) auto
  then show ?thesis by (simp add: someContextElementNotFound_def)
qed

section \<open>Registrations found\<close>

lemma foldl_processEntity:
  "foldl (processEntity e enV) acc ens =
     acc @ filter (\<lambda>en. includedEntity e en enV) (map (\<lambda>(i, t). EntityId_new i t ''false'') ens)"
  by (induction ens arbitrary: acc) (auto simp: processEntity_def Let_def)

lemma foldl_processAttribute:
  "foldl (processAttribute attrL) acc as =
     acc @ map (\<lambda>(n, t, d). \<lparr>cra_name = n, cra_type = t, cra_isDomain = d\<rparr>)
       (filter (\<lambda>(n, t, d). includedAttribute n attrL) as)"
  by (induction as arbitrary: acc) (auto simp: processAttribute_def)

definition reg_ok :: "'w env \<Rightarrow> EntityId list \<Rightarrow> string list \<Rightarrow> ContextRegistration \<Rightarrow> bool" where
  "reg_ok e enV attrL cr \<longleftrightarrow> cr_entityIdVector cr \<noteq> [] \<and>
     (\<forall>en\<in>set (cr_entityIdVector cr). \<exists>x\<in>set enV. matchEntity e en x) \<and>
     (attrL \<noteq> [] \<longrightarrow> cr_attributeVector cr \<noteq> [] \<and> cra_name ` set (cr_attributeVector cr) \<subseteq> set attrL)"

lemma processContextRegistrationElement_ok:
  "\<exists>new. processContextRegistrationElement e enV attrL f crrV cr = crrV @ new \<and> (\<forall>x\<in>set new. reg_ok e enV attrL x)"
proof -
  let ?ens = "filter (\<lambda>en. includedEntity e en enV) (map (\<lambda>(i, t). EntityId_new i t ''false'') (crd_entities cr))"
  let ?as = "case crd_attrs cr of None \<Rightarrow> [] | Some as \<Rightarrow> foldl (processAttribute attrL) [] as"
  let ?new = "\<lparr>cr_entityIdVector = ?ens, cr_attributeVector = ?as,
     cr_providingApplication = \<lparr>pa_string = crd_providingApplication cr, pa_format = f\<rparr>\<rparr>"
  have eq: "processContextRegistrationElement e enV attrL f crrV cr =
      (if ?ens \<noteq> [] \<and> (?as \<noteq> [] \<or> attrL = []) then crrV @ [?new] else crrV)"
    unfolding processContextRegistrationElement_def Let_def foldl_processEntity append_Nil by presburger
  have "cra_name ` set ?as \<subseteq> set attrL" if "attrL \<noteq> []"
    using that by (auto simp: foldl_processAttribute includedAttribute_iff split: option.splits)
  then have "reg_ok e enV attrL ?new" if "?ens \<noteq> [] \<and> (?as \<noteq> [] \<or> attrL = [])"
    using that unfolding reg_ok_def by (simp add: includedEntity_iff, blast)
  with eq show ?thesis
    by (cases "?ens \<noteq> [] \<and> (?as \<noteq> [] \<or> attrL = [])") (auto intro: exI [of _ "[?new]"])
qed

lemma foldl_reg_ok:
  assumes "\<And>acc x. \<exists>new. f acc x = acc @ new \<and> (\<forall>y\<in>set new. P y)"
  shows "\<exists>new. foldl f acc xs = acc @ new \<and> (\<forall>y\<in>set new. P y)"
proof (induction xs arbitrary: acc)
  case (Cons x xs)
  obtain n1 where "f acc x = acc @ n1" "\<forall>y\<in>set n1. P y" using assms by blast
  moreover obtain n2 where "foldl f (acc @ n1) xs = (acc @ n1) @ n2" "\<forall>y\<in>set n2. P y" using Cons by blast
  ultimately show ?case by (intro exI [of _ "n1 @ n2"]) auto
qed simp

lemma registrationsQuery_ok:
  assumes "registrationsQuery e enV attrL tenant sp offset limit w = Ret (Inr crrV)"
  shows "list_all (reg_ok e enV attrL) crrV"
proof -
  obtain docs where "crrV = foldl (process_reg_doc e enV attrL) [] docs"
    using assms unfolding registrationsQuery_def
    by (cases "fillQueryServicePath (env_buf0 e) sp") (auto simp: Let_def split: db_cursor.splits)
  moreover have "\<exists>new. process_reg_doc e enV attrL acc d = acc @ new \<and> (\<forall>y\<in>set new. reg_ok e enV attrL y)" for acc d
    unfolding process_reg_doc_def Let_def by (rule foldl_reg_ok) (rule processContextRegistrationElement_ok)
  ultimately show ?thesis
    using foldl_reg_ok [of "process_reg_doc e enV attrL" "reg_ok e enV attrL" "[]" docs] by (auto simp: list_all_iff)
qed

text \<open>C35: every context registration that \<open>registrationsQuery\<close> returns has at least one entity, each of which matches one
  of the request (id or pattern, an empty type being a wildcard), and, when the request asks for
  attributes, at least one attribute, all of them among those asked for.\<close>

theorem registrationsQuery_sound:
  assumes "registrationsQuery e enV attrL tenant sp offset limit w = Ret (Inr crrV)"
  shows "list_all (reg_ok e enV attrL) crrV"
  by (rule registrationsQuery_ok [OF assms])

definition sample_reg :: reg_doc where
  "sample_reg = \<lparr>rd_format = None, rd_contextRegistration =
     [\<lparr>crd_entities = [(''E1'', ''T'')], crd_attrs = Some [(''A'', ''t'', ''false'')], crd_providingApplication = ''http://p''\<rparr>]\<rparr>"

lemma sample_registrationsQuery:
  "registrationsQuery mem_env [EntityId_new ''E1'' ''T'' ''false''] [''A''] [] [] 0 0 (mem_world0\<lparr>mw_regs := [sample_reg]\<rparr>) =
     Ret (Inr [\<lparr>cr_entityIdVector = [EntityId_new ''E1'' ''T'' ''false''],
       cr_attributeVector = [\<lparr>cra_name = ''A'', cra_type = ''t'', cra_isDomain = ''false''\<rparr>],
       cr_providingApplication = \<lparr>pa_string = ''http://p'', pa_format = XML\<rparr>\<rparr>])"
  by (simp add: registrationsQuery_def fillQueryServicePath_def mem_env_def mem_world0_def sample_reg_def
      process_reg_doc_def processContextRegistrationElement_def processEntity_def processAttribute_def
      includedAttribute_def matchEntity_def EntityId_new_def isTrue_def Let_def)

theorem registrationsQuery_sound_witness:
  "list_all (reg_ok mem_env [EntityId_new ''E1'' ''T'' ''false''] [''A''])
     [\<lparr>cr_entityIdVector = [EntityId_new ''E1'' ''T'' ''false''],
       cr_attributeVector = [\<lparr>cra_name = ''A'', cra_type = ''t'', cra_isDomain = ''false''\<rparr>],
       cr_providingApplication = \<lparr>pa_string = ''http://p'', pa_format = XML\<rparr>\<rparr>]"
  by (rule registrationsQuery_sound) (rule sample_registrationsQuery)

section \<open>Notifications\<close>

lemma cpp_bind_Ret: "cpp_bind m f = Ret y \<longleftrightarrow> (\<exists>x. m = Ret x \<and> f x = Ret y)"
  by (cases m) auto

lemma prune_one_found:
  "prune_one cer = Some c \<Longrightarrow> list_all ca_found (ce_contextAttributeVector (cer_contextElement c))"
  by (auto simp: prune_one_def Let_def list_all_iff ContextElementResponse_new_def ContextElement_new_def
      ContextAttribute_copy_def split: if_splits)

lemma pruned_found:
  "c \<in> set (pruneContextElements cerV []) \<Longrightarrow> list_all ca_found (ce_contextAttributeVector (cer_contextElement c))"
  by (auto simp: pruneContextElements_eq List.map_filter_def intro: prune_one_found)

lemma processOnChangeCondition_sent:
  assumes "processOnChangeCondition e enV attrL conds subId url format tenant token sp w = Ret (sent, w')"
  shows "if sent then \<exists>n. w' = env_sendNotify e n w \<and> nt_subId n = subId \<and> nt_url n = url \<and> nt_format n = format \<and>
           nt_tenant n = tenant \<and> nt_xauthToken n = token \<and> nt_cerV n \<noteq> [] \<and>
           list_all (\<lambda>c. list_all ca_found (ce_contextAttributeVector (cer_contextElement c))) (nt_cerV n)
         else w' = w"
proof -
  obtain r where r: "entitiesQuery e enV attrL [] False tenant sp DEFAULT_PAGINATION_OFFSET_INT DEFAULT_PAGINATION_LIMIT_INT w = Ret r"
    using assms unfolding processOnChangeCondition_def cpp_bind_Ret by blast
  show ?thesis
  proof (cases r)
    case (Inl err)
    with assms r show ?thesis by (simp add: processOnChangeCondition_def)
  next
    case (Inr raw)
    let ?cerV = "pruneContextElements raw []"
    let ?n = "\<lparr>nt_subId = subId, nt_originator = ''localhost'', nt_cerV = ?cerV, nt_url = url,
                     nt_tenant = tenant, nt_xauthToken = token, nt_format = format\<rparr>"
    have "(\<not> sent \<and> w' = w) \<or> (sent \<and> w' = env_sendNotify e ?n w \<and> ?cerV \<noteq> [])"
      using assms r Inr unfolding processOnChangeCondition_def
      by (cases conds; cases "entitiesQuery e enV [] [] False tenant sp DEFAULT_PAGINATION_OFFSET_INT DEFAULT_PAGINATION_LIMIT_INT w")
        (auto simp: Let_def split: if_splits sum.splits)
    moreover have "list_all (\<lambda>c. list_all ca_found (ce_contextAttributeVector (cer_contextElement c))) (nt_cerV ?n)"
      using pruned_found by (simp add: list_all_iff)
    ultimately show ?thesis by (cases sent) (auto intro: exI [of _ ?n])
  qed
qed

text \<open>A change notification. Either nothing is sent and the world is unchanged, or exactly one notification is sent,
  to the URL of the subscription, for its id, in its format; it holds at least one context element and
  only attributes that were found.\<close>

theorem processOnChangeCondition_spec:
  assumes "processOnChangeCondition e enV attrL conds subId url format tenant token sp w = Ret (sent, w')"
  shows "if sent then \<exists>n. w' = env_sendNotify e n w \<and> nt_subId n = subId \<and> nt_url n = url \<and> nt_format n = format \<and>
           nt_tenant n = tenant \<and> nt_xauthToken n = token \<and> nt_cerV n \<noteq> [] \<and>
           list_all (\<lambda>c. list_all ca_found (ce_contextAttributeVector (cer_contextElement c))) (nt_cerV n)
         else w' = w"
  using processOnChangeCondition_sent [OF assms] .

lemma sample_notified:
  "\<exists>w'. processOnChangeCondition mem_env [EntityId_new ''E1'' ''T'' ''false''] [] None ''s1'' ''http://u'' JSON [] [] []
     (mem_world0\<lparr>mw_rows := [sample_doc]\<rparr>) = Ret (True, w')"
proof -
  have "entitiesQuery mem_env [EntityId_new ''E1'' ''T'' ''false''] [] [] False [] [] 0 20 (mem_world0\<lparr>mw_rows := [sample_doc]\<rparr>) =
      Ret (Inr (process_rows [EntityId_new ''E1'' ''T'' ''false''] [] False (map RowDoc [sample_doc])))"
    by (simp add: entitiesQuery_def fillQueryServicePath_def mem_env_def checked_cursor_def Let_def)
  moreover have "pruneContextElements (process_rows [EntityId_new ''E1'' ''T'' ''false''] [] False (map RowDoc [sample_doc])) []
      = [doc_response [] False sample_doc]"
    using pruned_rows [of "[sample_doc]"] by (simp add: sample_doc_def)
  ultimately show ?thesis by (simp add: processOnChangeCondition_def Let_def)
qed

theorem processOnChangeCondition_spec_witness:
  "\<exists>w' (n :: notification). processOnChangeCondition mem_env [EntityId_new ''E1'' ''T'' ''false''] [] None ''s1'' ''http://u'' JSON [] [] []
     (mem_world0\<lparr>mw_rows := [sample_doc]\<rparr>) = Ret (True, w') \<and> nt_subId n = ''s1'' \<and> nt_cerV n \<noteq> []"
proof -
  obtain w' where h: "processOnChangeCondition mem_env [EntityId_new ''E1'' ''T'' ''false''] [] None ''s1'' ''http://u'' JSON [] [] []
     (mem_world0\<lparr>mw_rows := [sample_doc]\<rparr>) = Ret (True, w')" using sample_notified by blast
  obtain n :: notification where "nt_subId n = ''s1''" and "nt_cerV n \<noteq> []"
    using processOnChangeCondition_spec [OF h] unfolding if_True by blast
  with h show ?thesis by blast
qed

text \<open>A NULL cursor, which the driver returns when the database is down, makes \<open>entitiesQuery\<close> report an error but
  is used without a test in \<open>registrationsQuery\<close>, which has no defined behaviour then.\<close>

theorem registrationsQuery_null_cursor:
  assumes "env_queryEntities e = (\<lambda>w col q l ofs. DbNull)" and "env_queryRegistrations e = (\<lambda>w col q l ofs. DbNull)"
  shows "(\<exists>err. entitiesQuery e enV attrL scopes inc tenant [] offset limit w = Ret (Inl err)) \<and>
    registrationsQuery e enV attrL tenant [] offset limit w = UB"
  by (simp add: entitiesQuery_def registrationsQuery_def fillQueryServicePath_def assms checked_cursor_def Let_def)

theorem registrationsQuery_null_cursor_witness:
  "registrationsQuery (mem_env\<lparr>env_queryEntities := (\<lambda>w col q l ofs. DbNull), env_queryRegistrations := (\<lambda>w col q l ofs. DbNull)\<rparr>)
     [] [] [] [] 0 0 mem_world0 = UB"
  using registrationsQuery_null_cursor [of "mem_env\<lparr>env_queryEntities := (\<lambda>w col q l ofs. DbNull), env_queryRegistrations := (\<lambda>w col q l ofs. DbNull)\<rparr>"]
  by simp

end
