(* ===== verification/Mongo_Attrs.thy ===== *)
theory Mongo_Attrs
  imports Mongo_Docs
begin

text \<open>
  How one attribute of an update request changes an entity document: the first half of
  \<^verbatim>\<open>src/src/lib/mongoBackend/MongoCommonUpdate.cpp\<close> (\<open>mergeAttrInfo\<close>, \<open>updateAttribute\<close>,
  \<open>appendAttribute\<close>, \<open>deleteAttribute\<close>, \<open>legalIdUsage\<close>, \<open>processLocation\<close>, \<open>setResponseMetadata\<close>,
  \<open>howManyAttrs\<close>). \<open>now\<close> is the value of \<open>getCurrentTime ()\<close>.
\<close>

section \<open>Metadata\<close>

definition isNotCustomMetadata :: "string \<Rightarrow> bool" where
  "isNotCustomMetadata md =
     (if md \<noteq> NGSI_MD_ID \<and> md \<noteq> NGSI_MD_LOCATION \<and> md \<noteq> NGSI_MD_CREDATE \<and> md \<noteq> NGSI_MD_MODDATE
      then False else True)"

fun hasMetadata_loop :: "string \<Rightarrow> string \<Rightarrow> Metadata list \<Rightarrow> bool" where
  "hasMetadata_loop name type [] = False"
| "hasMetadata_loop name type (md # mds) =
     (if md_name md = name \<and> md_type md = type then True else hasMetadata_loop name type mds)"

definition hasMetadata :: "string \<Rightarrow> string \<Rightarrow> ContextAttribute \<Rightarrow> bool" where
  "hasMetadata name type ca = hasMetadata_loop name type (ca_metadataVector ca)"

definition matchMetadata :: "md_doc \<Rightarrow> md_doc \<Rightarrow> bool" where
  "matchMetadata md1 md2 =
     (if mdd_type md1 \<noteq> None then
        mdd_type md2 \<noteq> None \<and> STR_FIELD (mdd_type md1) = STR_FIELD (mdd_type md2) \<and> mdd_name md1 = mdd_name md2
      else mdd_type md2 = None \<and> mdd_name md1 = mdd_name md2)"

fun equalMetadataVectors :: "md_doc list \<Rightarrow> md_doc list \<Rightarrow> bool" where
  "equalMetadataVectors [] mdV2 = True"
| "equalMetadataVectors (md1 # mdV1) mdV2 =
     (case find (matchMetadata md1) mdV2 of
        Some md2 \<Rightarrow> if mdd_value md1 \<noteq> mdd_value md2 then False else equalMetadataVectors mdV1 mdV2
      | None \<Rightarrow> equalMetadataVectors mdV1 mdV2)"

text \<open>\<open>getStringField\<close> of a value that may be missing or not a string.\<close>

definition bson_str :: "bson option \<Rightarrow> string" where
  "bson_str v = (case v of Some (BString s) \<Rightarrow> s | _ \<Rightarrow> [])"

section \<open>Merging an attribute with what is stored\<close>

definition request_md :: "Metadata list \<Rightarrow> md_doc list" where
  "request_md mds = map (\<lambda>md. \<lparr>mdd_name = md_name md,
       mdd_type = (if md_type md = [] then None else Some (md_type md)), mdd_value = md_value md\<rparr>)
     (filter (\<lambda>md. \<not> isNotCustomMetadata (md_name md)) mds)"

definition kept_md :: "ContextAttribute \<Rightarrow> md_doc list \<Rightarrow> md_doc list" where
  "kept_md ca mdV = filter (\<lambda>md. \<not> hasMetadata (mdd_name md) (STR_FIELD (mdd_type md)) ca) mdV"

definition mergeAttrInfo :: "int \<Rightarrow> attr_doc \<Rightarrow> ContextAttribute \<Rightarrow> bool \<times> attr_doc" where
  "mergeAttrInfo now attr ca =
     (let mdV = (case ad_md attr of None \<Rightarrow> [] | Some ms \<Rightarrow> ms);
          mdNewV = request_md (ca_metadataVector ca) @ kept_md ca mdV;
          actualUpdate =
            (if ca_compoundValueP ca = None then
               ad_value attr = None \<or> bson_str (ad_value attr) \<noteq> ca_value ca \<or>
               (ca_type ca \<noteq> [] \<and> (ad_type attr = None \<or> STR_FIELD (ad_type attr) \<noteq> ca_type ca)) \<or>
               length mdNewV \<noteq> length mdV \<or> \<not> equalMetadataVectors mdV mdNewV
             else True)
      in (actualUpdate,
          \<lparr>ad_value = valueBson (ca_compoundValueP ca) (ca_value ca),
           ad_type = (if ca_type ca \<noteq> [] then Some (ca_type ca) else ad_type attr),
           ad_md = (if mdNewV = [] then None else Some mdNewV),
           ad_creDate = ad_creDate attr,
           ad_modDate = (if actualUpdate then Some now else ad_modDate attr)\<rparr>))"

definition effectiveName :: "ContextAttribute \<Rightarrow> string" where
  "effectiveName ca = dbDotEncode (ca_name ca) @ (if getId ca \<noteq> [] then ''__'' @ getId ca else [])"

text \<open>Whether the attribute was found, whether it really changed, and the fields to set.\<close>

definition updateAttribute :: "int \<Rightarrow> (string \<times> attr_doc) list \<Rightarrow> (string \<times> attr_doc) list \<Rightarrow> ContextAttribute
    \<Rightarrow> bool \<times> bool \<times> (string \<times> attr_doc) list" where
  "updateAttribute now attrs toSet ca =
     (case map_of attrs (effectiveName ca) of
        None \<Rightarrow> (False, False, toSet)
      | Some attr \<Rightarrow>
          (case mergeAttrInfo now attr ca of (actualUpdate, newAttr) \<Rightarrow>
             (True, actualUpdate, if actualUpdate then toSet @ [(effectiveName ca, newAttr)] else toSet)))"

text \<open>Here the type of a metadata is always written, also when it is empty.\<close>

definition contextAttributeCustomMetadataToBson :: "ContextAttribute \<Rightarrow> md_doc list option" where
  "contextAttributeCustomMetadataToBson ca =
     (let mdToAdd = map (\<lambda>md. \<lparr>mdd_name = md_name md, mdd_type = Some (md_type md), mdd_value = md_value md\<rparr>)
            (filter (\<lambda>md. \<not> isNotCustomMetadata (md_name md)) (ca_metadataVector ca))
      in if length mdToAdd > 0 then Some mdToAdd else None)"

definition new_attr_doc :: "int \<Rightarrow> ContextAttribute \<Rightarrow> attr_doc" where
  "new_attr_doc now ca =
     \<lparr>ad_value = valueBson (ca_compoundValueP ca) (ca_value ca), ad_type = Some (ca_type ca),
      ad_md = contextAttributeCustomMetadataToBson ca, ad_creDate = Some now, ad_modDate = Some now\<rparr>"

text \<open>Whether there was a change, the fields to set and the names to push.\<close>

definition appendAttribute :: "int \<Rightarrow> (string \<times> attr_doc) list \<Rightarrow> (string \<times> attr_doc) list \<Rightarrow> string list \<Rightarrow> ContextAttribute
    \<Rightarrow> bool \<times> (string \<times> attr_doc) list \<times> string list" where
  "appendAttribute now attrs toSet toPush ca =
     (if hasField attrs (effectiveName ca) then
        (case updateAttribute now attrs toSet ca of (found, actualUpdate, toSet') \<Rightarrow> (actualUpdate, toSet', toPush))
      else (True, toSet @ [(effectiveName ca, new_attr_doc now ca)], toPush @ [ca_name ca]))"

section \<open>Attributes with and without an ID\<close>

definition legalIdUsage :: "(string \<times> attr_doc) list \<Rightarrow> ContextAttribute \<Rightarrow> bool" where
  "legalIdUsage attrs ca =
     (let prefix = ca_name ca @ ''__'' in
      if getId ca = [] then
        \<not> list_ex (\<lambda>attrName. strneq (ca_name ca) attrName (length (ca_name ca)) \<and>
                     strneq prefix attrName (length (c_str prefix))) (getFieldNames attrs)
      else
        \<not> list_ex (\<lambda>attrName. strneq (ca_name ca) attrName (length (c_str (ca_name ca))) \<and>
                     \<not> strneq prefix attrName (length (c_str prefix))) (getFieldNames attrs))"

text \<open>The same check within the attributes of a new entity.\<close>

definition legalIdUsage_vector :: "ContextAttribute list \<Rightarrow> bool" where
  "legalIdUsage_vector caV =
     (\<not> list_ex (\<lambda>a. getId a = [] \<and>
        list_ex (\<lambda>ca. ca_name a = ca_name ca \<and> ca_type a = ca_type ca \<and> getId ca \<noteq> []) caV) caV)"

section \<open>Location\<close>

type_synonym loc_state = "string \<times> rat \<times> rat"

fun processLocation_md :: "(rat \<Rightarrow> rat) \<Rightarrow> ContextAttribute \<Rightarrow> Metadata list \<Rightarrow> loc_state \<Rightarrow> string + loc_state" where
  "processLocation_md rnd ca [] st = Inr st"
| "processLocation_md rnd ca (md # mds) (locAttr, lat, long) =
     (if md_name md = NGSI_MD_LOCATION then
        (if length locAttr > 0 then
           Inl ''You cannot use more than one location attribute when creating an entity [see Orion user manual]''
         else if md_value md \<noteq> ''WGS84'' \<and> md_value md \<noteq> ''WSG84'' then
           Inl (''only WGS84 are supported, found: '' @ md_value md)
         else case string2coords rnd (ca_value ca) lat long of (ok, lat', long') \<Rightarrow>
           if \<not> ok then Inl (''coordinate format error [see Orion user manual]: '' @ ca_value ca)
           else processLocation_md rnd ca mds (ca_name ca, lat', long'))
      else processLocation_md rnd ca mds (locAttr, lat, long))"

fun processLocation_loop :: "(rat \<Rightarrow> rat) \<Rightarrow> ContextAttribute list \<Rightarrow> loc_state \<Rightarrow> string + loc_state" where
  "processLocation_loop rnd [] st = Inr st"
| "processLocation_loop rnd (ca # caV) st =
     (case processLocation_md rnd ca (ca_metadataVector ca) st of
        Inl err \<Rightarrow> Inl err
      | Inr st' \<Rightarrow> processLocation_loop rnd caV st')"

text \<open>The coordinates have no value before; they are read only when an attribute was found.\<close>

definition processLocation :: "(rat \<Rightarrow> rat) \<Rightarrow> ContextAttribute list \<Rightarrow> string + loc_state" where
  "processLocation rnd caV = processLocation_loop rnd caV ([], 0, 0)"

section \<open>Deleting, and the response\<close>

fun count_deleted :: "(string \<times> nat) list \<Rightarrow> string \<Rightarrow> (string \<times> nat) list" where
  "count_deleted [] name = [(name, 1)]"
| "count_deleted ((n, k) # del) name = (if n = name then (n, k + 1) # del else (n, k) # count_deleted del name)"

definition deleteAttribute :: "(string \<times> attr_doc) list \<Rightarrow> string list \<Rightarrow> (string \<times> nat) list \<Rightarrow> ContextAttribute
    \<Rightarrow> bool \<times> string list \<times> (string \<times> nat) list" where
  "deleteAttribute attrs toUnset del ca =
     (if \<not> hasField attrs (effectiveName ca) then (False, toUnset, del)
      else (True, toUnset @ [effectiveName ca], count_deleted del (ca_name ca)))"

definition howManyAttrs :: "(string \<times> attr_doc) list \<Rightarrow> string \<Rightarrow> nat" where
  "howManyAttrs attrs attrName = length (filter (\<lambda>n. basePart n = attrName) (getFieldNames attrs))"

definition setResponseMetadata :: "ContextAttribute \<Rightarrow> ContextAttribute \<Rightarrow> ContextAttribute" where
  "setResponseMetadata caReq caRes =
     caRes\<lparr>ca_metadataVector := ca_metadataVector caRes
       @ (if length (getId caReq) > 0 then [Metadata_new NGSI_MD_ID ''string'' (getId caReq)] else [])
       @ (if length (getLocation caReq) > 0 then [Metadata_new NGSI_MD_LOCATION ''string'' (getLocation caReq)] else [])
       @ map Metadata_copy (filter (\<lambda>md. \<not> isNotCustomMetadata (md_name md)) (ca_metadataVector caReq))\<rparr>"

section \<open>Stored names\<close>

lemma effectiveName_parts:
  assumes "plain_name (ca_name ca)" and "CHR ''='' \<notin> set (ca_name ca)"
  shows "dbDotDecode (basePart (effectiveName ca)) = ca_name ca" and "idPart (effectiveName ca) = getId ca"
  using assms dotted.dec_enc [of "ca_name ca"]
    basePart_compose [of "dbDotEncode (ca_name ca)" "getId ca"] idPart_compose [of "dbDotEncode (ca_name ca)" "getId ca"]
  by (auto simp: effectiveName_def)

text \<open>The name under which an attribute is stored determines its name and its ID, for names without \<open>=\<close>, without
  two underscores in a row and not ending in an underscore: different attributes never share a field.\<close>

theorem effectiveName_inj:
  assumes "plain_name (ca_name a)" and "CHR ''='' \<notin> set (ca_name a)"
    and "plain_name (ca_name b)" and "CHR ''='' \<notin> set (ca_name b)"
  shows "effectiveName a = effectiveName b \<longleftrightarrow> ca_name a = ca_name b \<and> getId a = getId b"
proof
  assume "effectiveName a = effectiveName b"
  then show "ca_name a = ca_name b \<and> getId a = getId b"
    using effectiveName_parts [OF assms(1,2)] effectiveName_parts [OF assms(3,4)] by simp
qed (simp add: effectiveName_def)

definition attr_with_md :: "string \<Rightarrow> string \<Rightarrow> string \<Rightarrow> Metadata list \<Rightarrow> ContextAttribute" where
  "attr_with_md n t v mds = (ContextAttribute_new n t v True)\<lparr>ca_metadataVector := mds\<rparr>"

theorem effectiveName_inj_witness:
  "effectiveName (attr_with_md ''a.b'' [] ''1'' []) \<noteq> effectiveName (attr_with_md ''a'' [] ''1'' [Metadata_new ''ID'' [] ''b''])"
  using effectiveName_inj [of "attr_with_md ''a.b'' [] ''1'' []" "attr_with_md ''a'' [] ''1'' [Metadata_new ''ID'' [] ''b'']"]
  by (simp add: attr_with_md_def ContextAttribute_new_def plain_name_def)

section \<open>Merging\<close>

lemma hasMetadata_iff: "hasMetadata n t ca \<longleftrightarrow> (\<exists>md\<in>set (ca_metadataVector ca). md_name md = n \<and> md_type md = t)"
proof -
  have "hasMetadata_loop n t mds \<longleftrightarrow> (\<exists>md\<in>set mds. md_name md = n \<and> md_type md = t)" for mds
    by (induction mds) auto
  then show ?thesis by (simp add: hasMetadata_def)
qed

definition md_key :: "md_doc \<Rightarrow> string \<times> string option" where
  "md_key m = (mdd_name m, mdd_type m)"

lemma matchMetadata_iff: "matchMetadata a b \<longleftrightarrow> md_key a = md_key b"
  by (auto simp: matchMetadata_def md_key_def STR_FIELD_def split: option.splits)

lemma md_doc_eqI: "md_key a = md_key b \<Longrightarrow> mdd_value a = mdd_value b \<Longrightarrow> (a :: md_doc) = b"
  by (simp add: md_key_def)

lemma equalMetadataVectors_iff:
  "equalMetadataVectors V1 V2 \<longleftrightarrow>
     (\<forall>m\<in>set V1. \<forall>m2. find (matchMetadata m) V2 = Some m2 \<longrightarrow> mdd_value m = mdd_value m2)"
  by (induction V1) (auto split: option.splits)

lemma find_distinct_key:
  assumes "distinct (map f xs)" and "x \<in> set xs"
  shows "find (\<lambda>y. f x = f y) xs = Some x"
  using assms by (induction xs) (auto simp: image_iff)

lemma find_SomeD: "find P xs = Some x \<Longrightarrow> x \<in> set xs \<and> P x"
  by (induction xs) (auto split: if_splits)

lemma equalMetadataVectors_self:
  assumes "distinct (map md_key V)"
  shows "equalMetadataVectors V V"
proof -
  have "matchMetadata m = (\<lambda>y. md_key m = md_key y)" for m by (simp add: fun_eq_iff matchMetadata_iff)
  then show ?thesis using find_distinct_key [OF assms] by (simp add: equalMetadataVectors_iff)
qed

definition stored_md :: "attr_doc \<Rightarrow> md_doc list" where
  "stored_md attr = (case ad_md attr of None \<Rightarrow> [] | Some ms \<Rightarrow> ms)"

text \<open>Metadata as \<open>mergeAttrInfo\<close> itself stores it: custom, without repetition, no empty type.\<close>

definition md_normal :: "md_doc list \<Rightarrow> bool" where
  "md_normal V \<longleftrightarrow> distinct (map md_key V) \<and> list_all (\<lambda>m. mdd_type m \<noteq> Some [] \<and> \<not> isNotCustomMetadata (mdd_name m)) V"

lemma stored_md_merge:
  "stored_md (snd (mergeAttrInfo now attr ca)) = request_md (ca_metadataVector ca) @ kept_md ca (stored_md attr)"
  by (simp add: mergeAttrInfo_def Let_def stored_md_def)

lemma request_md_key:
  assumes "m \<in> set (request_md (ca_metadataVector ca))"
  shows "hasMetadata (mdd_name m) (STR_FIELD (mdd_type m)) ca"
    and "mdd_type m \<noteq> Some []" and "\<not> isNotCustomMetadata (mdd_name m)"
  using assms by (auto simp: request_md_def hasMetadata_iff STR_FIELD_def split: if_splits)

lemma kept_or_requested:
  assumes "m \<in> set V" and m: "mdd_type m \<noteq> Some []" "\<not> isNotCustomMetadata (mdd_name m)"
  shows "m \<in> set (kept_md ca V) \<or> (\<exists>n\<in>set (request_md (ca_metadataVector ca)). md_key n = md_key m)"
proof (cases "hasMetadata (mdd_name m) (STR_FIELD (mdd_type m)) ca")
  case False
  with assms show ?thesis by (simp add: kept_md_def)
next
  case True
  then obtain md where md: "md \<in> set (ca_metadataVector ca)" "md_name md = mdd_name m" "md_type md = STR_FIELD (mdd_type m)"
    by (auto simp: hasMetadata_iff)
  let ?n = "\<lparr>mdd_name = md_name md, mdd_type = (if md_type md = [] then None else Some (md_type md)), mdd_value = md_value md\<rparr>"
  have "?n \<in> set (request_md (ca_metadataVector ca))"
    unfolding request_md_def set_map using md m by (intro imageI) simp
  moreover have "md_key ?n = md_key m" using md m by (cases "mdd_type m") (auto simp: md_key_def STR_FIELD_def)
  ultimately show ?thesis by blast
qed

text \<open>C3: when an update with a simple value is taken as no actual update, value, type and dates of the
  merged attribute are the stored ones, and every stored custom metadata that has no empty type
  is in it unchanged; if all stored metadata are so and no name and type occurs twice, the merged metadata are
  exactly the stored ones, so nothing of the request is lost by not writing them. The restriction to metadata
  without an empty type is needed: attribute creation stores an empty type where the merge stores none,
  and a change of such a metadata is lost (\<open>untyped_metadata_change_lost\<close> below).\<close>

theorem mergeAttrInfo_no_update:
  assumes "ca_compoundValueP ca = None" and "ca_value ca \<noteq> []"
    and "mergeAttrInfo now attr ca = (False, new)"
  shows "ad_value new = ad_value attr \<and> ad_type new = ad_type attr \<and>
    ad_creDate new = ad_creDate attr \<and> ad_modDate new = ad_modDate attr \<and>
    (\<forall>m \<in> set (stored_md attr). mdd_type m \<noteq> Some [] \<and> \<not> isNotCustomMetadata (mdd_name m) \<longrightarrow> m \<in> set (stored_md new)) \<and>
    (md_normal (stored_md attr) \<longrightarrow> set (stored_md new) = set (stored_md attr))"
proof -
  let ?V = "stored_md attr" and ?N = "request_md (ca_metadataVector ca) @ kept_md ca (stored_md attr)"
  have N: "stored_md new = ?N" using stored_md_merge [of now attr ca] assms(3) by simp
  have no: "bson_str (ad_value attr) = ca_value ca" "ca_type ca = [] \<or> ad_type attr = Some (ca_type ca)"
      "length ?N = length ?V" "equalMetadataVectors ?V ?N"
    using assms(1,3) by (auto simp: mergeAttrInfo_def Let_def stored_md_def STR_FIELD_def split: option.splits)
  have keep: "m \<in> set ?N" if m: "m \<in> set ?V" "mdd_type m \<noteq> Some []" "\<not> isNotCustomMetadata (mdd_name m)" for m
  proof (cases "m \<in> set (kept_md ca ?V)")
    case False
    with kept_or_requested [OF m, of ca] obtain n where "n \<in> set ?N" "matchMetadata m n"
      unfolding matchMetadata_iff by (metis Un_iff set_append)
    then have "find (matchMetadata m) ?N \<noteq> None" by (auto simp: find_None_iff)
    then obtain k where k: "find (matchMetadata m) ?N = Some k" by blast
    then have "mdd_value m = mdd_value k" using no(4) m(1) by (auto simp: equalMetadataVectors_iff)
    moreover have "k \<in> set ?N" "matchMetadata m k" using find_SomeD [OF k] by blast+
    ultimately show ?thesis using md_doc_eqI [of m k] by (simp add: matchMetadata_iff)
  qed simp
  have same: "set ?N = set ?V" if n: "md_normal ?V"
  proof -
    have sub: "set ?V \<subseteq> set ?N" using keep n by (auto simp: md_normal_def list_all_iff)
    have "card (set ?N) \<le> card (set ?V)"
      using card_length [of ?N] no(3) n by (simp add: md_normal_def distinct_map distinct_card)
    then show ?thesis using sub by (metis card_seteq finite_set)
  qed
  have "ad_value attr = Some (BString (ca_value ca))"
    using no(1) assms(2) by (auto simp: bson_str_def split: option.splits bson.splits)
  then have "ad_value new = ad_value attr" "ad_type new = ad_type attr"
      "ad_creDate new = ad_creDate attr" "ad_modDate new = ad_modDate attr"
    using assms(1,3) no(2) by (auto simp: mergeAttrInfo_def Let_def valueBson_def)
  then show ?thesis unfolding N using keep same by blast
qed

theorem mergeAttrInfo_no_update_witness:
  "\<exists>attr new. mergeAttrInfo 7 attr (attr_with_md ''A'' ''t'' ''1'' [Metadata_new ''m'' ''u'' ''x'']) = (False, new) \<and>
     ad_value new = ad_value attr \<and> set (stored_md new) = set (stored_md attr) \<and> stored_md attr \<noteq> []"
proof -
  let ?ca = "attr_with_md ''A'' ''t'' ''1'' [Metadata_new ''m'' ''u'' ''x'']"
  let ?a = "\<lparr>ad_value = Some (BString ''1''), ad_type = Some ''t'',
     ad_md = Some [\<lparr>mdd_name = ''m'', mdd_type = Some ''u'', mdd_value = ''x''\<rparr>], ad_creDate = Some 3, ad_modDate = Some 3\<rparr>"
  have m: "mergeAttrInfo 7 ?a ?ca = (False, snd (mergeAttrInfo 7 ?a ?ca))"
    by (simp add: mergeAttrInfo_def attr_with_md_def ContextAttribute_new_def Metadata_new_def request_md_def kept_md_def
        bson_str_def STR_FIELD_def isNotCustomMetadata_def hasMetadata_def matchMetadata_def)
  have "md_normal (stored_md ?a)" by (simp add: stored_md_def md_normal_def isNotCustomMetadata_def)
  then have "ad_value (snd (mergeAttrInfo 7 ?a ?ca)) = ad_value ?a \<and> set (stored_md (snd (mergeAttrInfo 7 ?a ?ca))) = set (stored_md ?a)"
    using mergeAttrInfo_no_update [OF _ _ m] by (simp add: attr_with_md_def ContextAttribute_new_def)
  moreover have "stored_md ?a \<noteq> []" by (simp add: stored_md_def)
  ultimately show ?thesis using m by blast
qed

lemma md_normal_merge:
  assumes "distinct (map md_key (request_md (ca_metadataVector ca)))" and "md_normal (stored_md attr)"
  shows "md_normal (stored_md (snd (mergeAttrInfo now attr ca)))"
proof -
  let ?R = "request_md (ca_metadataVector ca)" and ?K = "kept_md ca (stored_md attr)"
  have "distinct (map md_key ?K)" using assms(2) by (auto simp: md_normal_def kept_md_def distinct_map inj_on_def)
  moreover have "md_key r \<noteq> md_key k" if "r \<in> set ?R" "k \<in> set ?K" for r k
    using that request_md_key(1) [of r ca] by (auto simp: md_key_def kept_md_def)
  ultimately have "distinct (map md_key (?R @ ?K))"
    using assms(1) unfolding map_append distinct_append set_map by blast
  moreover have "mdd_type m \<noteq> Some [] \<and> \<not> isNotCustomMetadata (mdd_name m)" if "m \<in> set (?R @ ?K)" for m
    using that assms(2) request_md_key(2,3) [of m ca] by (auto simp: md_normal_def list_all_iff kept_md_def)
  ultimately show ?thesis unfolding stored_md_merge md_normal_def list_all_iff by blast
qed

text \<open>C2: updating is idempotent: repeating an update with a simple value is recognised as no actual
  update and leaves the merged attribute as it is, so a repeated request writes nothing and notifies nobody.\<close>

theorem mergeAttrInfo_idem:
  assumes "ca_compoundValueP ca = None" and "md_normal (stored_md attr)"
    and "distinct (map md_key (request_md (ca_metadataVector ca)))"
  shows "mergeAttrInfo now' (snd (mergeAttrInfo now attr ca)) ca = (False, snd (mergeAttrInfo now attr ca))"
proof -
  let ?m = "snd (mergeAttrInfo now attr ca)"
  let ?R = "request_md (ca_metadataVector ca)" and ?K = "kept_md ca (stored_md attr)"
  have st: "stored_md ?m = ?R @ ?K" by (rule stored_md_merge)
  have "kept_md ca ?R = []" using request_md_key(1) by (auto simp: kept_md_def filter_empty_conv)
  then have again: "?R @ kept_md ca (stored_md ?m) = stored_md ?m" by (simp add: st kept_md_def)
  have eq: "equalMetadataVectors (stored_md ?m) (stored_md ?m)"
    using md_normal_merge [OF assms(3,2)] by (intro equalMetadataVectors_self) (simp add: md_normal_def)
  have v: "ad_value ?m = Some (BString (ca_value ca))" using assms(1) by (simp add: mergeAttrInfo_def Let_def valueBson_def)
  have t: "ca_type ca \<noteq> [] \<Longrightarrow> ad_type ?m = Some (ca_type ca)" by (simp add: mergeAttrInfo_def Let_def)
  have md: "ad_md ?m = (if stored_md ?m = [] then None else Some (stored_md ?m))"
    unfolding st by (simp add: mergeAttrInfo_def Let_def stored_md_def)
  have no: "(ad_value ?m = None \<or> bson_str (ad_value ?m) \<noteq> ca_value ca \<or>
      (ca_type ca \<noteq> [] \<and> (ad_type ?m = None \<or> STR_FIELD (ad_type ?m) \<noteq> ca_type ca)) \<or>
      length (stored_md ?m) \<noteq> length (stored_md ?m) \<or> \<not> equalMetadataVectors (stored_md ?m) (stored_md ?m)) = False"
    using v t eq by (auto simp: bson_str_def STR_FIELD_def)
  have "mergeAttrInfo now' ?m ca = (False,
      \<lparr>ad_value = valueBson None (ca_value ca), ad_type = (if ca_type ca \<noteq> [] then Some (ca_type ca) else ad_type ?m),
       ad_md = (if stored_md ?m = [] then None else Some (stored_md ?m)),
       ad_creDate = ad_creDate ?m, ad_modDate = ad_modDate ?m\<rparr>)"
    unfolding mergeAttrInfo_def [of now'] Let_def stored_md_def [symmetric] again assms(1) no by simp
  also have "\<dots> = (False, ?m)"
    using v t md by (cases ?m) (simp add: valueBson_def)
  finally show ?thesis .
qed

theorem mergeAttrInfo_idem_witness:
  "\<exists>attr. mergeAttrInfo 8 (snd (mergeAttrInfo 7 attr (attr_with_md ''A'' ''t'' ''2'' [Metadata_new ''m'' [] ''x'']))) (attr_with_md ''A'' ''t'' ''2'' [Metadata_new ''m'' [] ''x'']) =
     (False, snd (mergeAttrInfo 7 attr (attr_with_md ''A'' ''t'' ''2'' [Metadata_new ''m'' [] ''x''])))"
proof (rule exI [of _ "\<lparr>ad_value = Some (BString ''1''), ad_type = None, ad_md = None, ad_creDate = None, ad_modDate = None\<rparr>"],
    rule mergeAttrInfo_idem)
  show "ca_compoundValueP (attr_with_md ''A'' ''t'' ''2'' [Metadata_new ''m'' [] ''x'']) = None"
    by (simp add: attr_with_md_def ContextAttribute_new_def)
  show "distinct (map md_key (request_md (ca_metadataVector (attr_with_md ''A'' ''t'' ''2'' [Metadata_new ''m'' [] ''x'']))))"
    by (simp add: attr_with_md_def request_md_def isNotCustomMetadata_def Metadata_new_def)
qed (simp add: stored_md_def md_normal_def)

text \<open>C4: merging metadata: a stored metadata whose name and type the request does not mention is kept, one that it
  mentions is replaced, and every custom metadata of the request is stored; \<open>ID\<close>, \<open>location\<close>, \<open>creDate\<close> and
  \<open>modDate\<close> of the request never are.\<close>

theorem mergeAttrInfo_metadata:
  "set (stored_md (snd (mergeAttrInfo now attr ca))) =
     {m \<in> set (stored_md attr). \<not> (\<exists>md. md \<in> set (ca_metadataVector ca) \<and> md_name md = mdd_name m \<and> md_type md = STR_FIELD (mdd_type m))} \<union>
     {m. \<exists>md. md \<in> set (ca_metadataVector ca) \<and> md_name md \<notin> {''ID'', ''location'', ''creDate'', ''modDate''} \<and>
        m = \<lparr>mdd_name = md_name md, mdd_type = (if md_type md = [] then None else Some (md_type md)), mdd_value = md_value md\<rparr>}"
proof -
  have "set (request_md mds) = {m. \<exists>md. md \<in> set mds \<and> md_name md \<notin> {''ID'', ''location'', ''creDate'', ''modDate''} \<and>
        m = \<lparr>mdd_name = md_name md, mdd_type = (if md_type md = [] then None else Some (md_type md)), mdd_value = md_value md\<rparr>}" for mds
    by (auto simp: request_md_def isNotCustomMetadata_def)
  moreover have "set (kept_md ca V) = {m \<in> set V. \<not> (\<exists>md. md \<in> set (ca_metadataVector ca) \<and> md_name md = mdd_name m \<and> md_type md = STR_FIELD (mdd_type m))}" for V
    by (auto simp: kept_md_def hasMetadata_iff)
  ultimately show ?thesis unfolding stored_md_merge set_append by (simp only: Un_commute)
qed

text \<open>A change of a metadata without type is lost when the attribute was created with that metadata:
  creation stores the empty type, the merge drops it, the two no longer match in the comparison, and the update
  counts as no actual update although the metadata has a new value.\<close>

theorem untyped_metadata_change_lost:
  assumes "\<not> isNotCustomMetadata m" and "v1 \<noteq> v2"
  shows "fst (mergeAttrInfo now (new_attr_doc now0 (attr_with_md n t v [Metadata_new m [] v1])) (attr_with_md n t v [Metadata_new m [] v2])) = False"
  using assms(1)
  by (simp add: mergeAttrInfo_def new_attr_doc_def contextAttributeCustomMetadataToBson_def attr_with_md_def Let_def
      ContextAttribute_new_def Metadata_new_def request_md_def kept_md_def hasMetadata_def valueBson_def bson_str_def
      STR_FIELD_def matchMetadata_def)

theorem untyped_metadata_change_lost_witness:
  "fst (mergeAttrInfo 9 (new_attr_doc 3 (attr_with_md ''A'' ''t'' ''1'' [Metadata_new ''acc'' [] ''0.1'']))
     (attr_with_md ''A'' ''t'' ''1'' [Metadata_new ''acc'' [] ''0.9''])) = False"
  by (rule untyped_metadata_change_lost) (simp_all add: isNotCustomMetadata_def)

section \<open>Attribute IDs\<close>

lemma strneq_prefix:
  assumes "NUL \<notin> set p" and "NUL \<notin> set s"
  shows "strneq p s (length p) \<longleftrightarrow> prefix p s"
  using assms by (auto simp: strneq_def c_str_id prefix_def) (metis append_take_drop_id)

text \<open>An attribute without ID may be appended unless a stored field starts with its name and two underscores; one with
  an ID may be appended unless a stored field starts with its name but not with its name and two underscores.
  The second condition also refuses it because of a different attribute whose name merely starts with
  the same letters.\<close>

theorem legalIdUsage_iff:
  assumes "NUL \<notin> set (ca_name ca)" and "list_all (\<lambda>(n, _). NUL \<notin> set n) attrs"
  shows "legalIdUsage attrs ca \<longleftrightarrow>
    (if getId ca = [] then list_all (\<lambda>(n, _). \<not> prefix (ca_name ca @ ''__'') n) attrs
     else list_all (\<lambda>(n, _). if prefix (ca_name ca) n then prefix (ca_name ca @ ''__'') n else True) attrs)"
proof -
  have p: "NUL \<notin> set (ca_name ca @ ''__'')" using assms(1) by simp
  have nn: "NUL \<notin> set n" if "n \<in> fst ` set attrs" for n using assms(2) that by (auto simp: list_all_iff)
  have pre: "prefix (ca_name ca @ ''__'') n \<Longrightarrow> prefix (ca_name ca) n" for n by (auto simp: prefix_def)
  show ?thesis
    unfolding legalIdUsage_def Let_def list_ex_iff list_all_iff set_getFieldNames c_str_id [OF assms(1)] c_str_id [OF p]
    using strneq_prefix [OF assms(1) nn] strneq_prefix [OF p nn] pre by (auto; fastforce)
qed

theorem legalIdUsage_iff_witness:
  "\<not> legalIdUsage [(''temperature'', new_attr_doc 0 (attr_with_md ''temperature'' [] ''1'' []))]
     (attr_with_md ''temp'' [] ''2'' [Metadata_new ''ID'' [] ''x''])"
  using legalIdUsage_iff [of "attr_with_md ''temp'' [] ''2'' [Metadata_new ''ID'' [] ''x'']"
      "[(''temperature'', new_attr_doc 0 (attr_with_md ''temperature'' [] ''1'' []))]"]
  by (simp add: attr_with_md_def ContextAttribute_new_def getId_def Metadata_new_def)

end
