(* ===== verification/Mongo_Update.thy ===== *)
theory Mongo_Update
  imports Mongo_Query Mongo_Attrs
begin

text \<open>
  Processing one context element of an update request: the second half of
  \<^verbatim>\<open>src/src/lib/mongoBackend/MongoCommonUpdate.cpp\<close>, from \<open>addTriggeredSubscriptions\<close> to
  \<open>processContextElement\<close>. The state of the world \<open>w\<close> is passed along; the database, the clock and the
  notifier are the functions of the environment \<open>e\<close>. The stack buffers that \<open>slashEscape\<close> may leave
  as they were hold \<open>env_buf0 e\<close>. An exception no caller catches is \<open>UB\<close>.
\<close>

section \<open>Triggered subscriptions\<close>

record TriggeredSubscription =
  ts_throttling :: int
  ts_lastNotification :: int
  ts_format :: Format
  ts_reference :: string
  ts_attrL :: "string list"

text \<open>A \<open>std::map\<close> from subscription ids; it is walked in the order of the ids.\<close>

type_synonym trig_map = "(string \<times> TriggeredSubscription) list"

text \<open>The JavaScript text sent with the query.\<close>

definition where_function :: "string \<Rightarrow> string \<Rightarrow> string" where
  "where_function entityId entityType =
     ''function(){for (var i=0; i < this.entities.length; i++) {if (this.entities[i].isPattern == \"true\" && (this.entities[i].type == \"''
     @ entityType @ ''\" || this.entities[i].type == \"\" || !(\"type\" in this.entities[i])) && \"''
     @ entityId @ ''\".match(this.entities[i].id)) {return true; }}return false; }''"

definition triggered_query :: "'w env \<Rightarrow> string \<Rightarrow> string \<Rightarrow> string \<Rightarrow> string list \<Rightarrow> int \<Rightarrow> sub_query" where
  "triggered_query e entityId entityType attr servicePathV now =
     (let servicePath = (case servicePathV of [] \<Rightarrow> [] | p # _ \<Rightarrow> p)
      in \<lparr>sq_entityId = entityId, sq_entityType = entityType, sq_where = where_function entityId entityType,
          sq_attr = attr, sq_expirationGt = now,
          sq_servicePath = [SpRegex (servicePathSubscriptionRegex servicePath), SpNull]\<rparr>)"

definition TriggeredSubscription_of :: "sub_doc \<Rightarrow> TriggeredSubscription" where
  "TriggeredSubscription_of sub =
     \<lparr>ts_throttling = (case sd_throttling sub of None \<Rightarrow> - 1 | Some t \<Rightarrow> t),
      ts_lastNotification = (case sd_lastNotification sub of None \<Rightarrow> - 1 | Some t \<Rightarrow> t),
      ts_format = (case sd_format sub of None \<Rightarrow> XML | Some f \<Rightarrow> stringToFormat f),
      ts_reference = sd_reference sub,
      ts_attrL = subToAttributeList sub\<rparr>"

fun add_triggered :: "trig_map \<Rightarrow> sub_doc list \<Rightarrow> trig_map" where
  "add_triggered subs [] = subs"
| "add_triggered subs (sub # ss) =
     (case sd_id sub of
        None \<Rightarrow> add_triggered subs ss
      | Some subId \<Rightarrow>
          (if map_of subs subId = None then add_triggered (subs @ [(subId, TriggeredSubscription_of sub)]) ss
           else add_triggered subs ss))"

definition addTriggeredSubscriptions :: "'w env \<Rightarrow> string \<Rightarrow> string \<Rightarrow> string \<Rightarrow> trig_map \<Rightarrow> string \<Rightarrow> string list \<Rightarrow> 'w \<Rightarrow> string + trig_map" where
  "addTriggeredSubscriptions e entityId entityType attr subs tenant servicePathV w =
     (let query = triggered_query e entityId entityType attr servicePathV (env_now e w);
          col = getSubscribeContextCollectionName e tenant
      in case checked_cursor (env_querySubs e w col query) of
           Inl what \<Rightarrow> Inl (''collection: '' @ col @ '' - query(): '' @ env_show_sub_query e query @ '' - exception: '' @ what)
         | Inr docs \<Rightarrow> Inr (add_triggered subs docs))"

definition throttled :: "int \<Rightarrow> TriggeredSubscription \<Rightarrow> bool" where
  "throttled current trigs \<longleftrightarrow>
     ts_throttling trigs \<noteq> 1 \<and> ts_lastNotification trigs \<noteq> 1 \<and>
     ts_throttling trigs > current - ts_lastNotification trigs"

text \<open>The texts of the errors so far, whether all updates succeeded, and the world.\<close>

fun processSubscriptions_loop :: "'w env \<Rightarrow> EntityId \<Rightarrow> string \<Rightarrow> string \<Rightarrow> string list \<Rightarrow> trig_map \<Rightarrow> bool \<Rightarrow> string \<Rightarrow> 'w
    \<Rightarrow> (bool \<times> string \<times> 'w) cpp" where
  "processSubscriptions_loop e en tenant xauthToken servicePathV [] ret err w = Ret (ret, err, w)"
| "processSubscriptions_loop e en tenant xauthToken servicePathV ((mapSubId, trigs) # subs) ret err w =
     (if throttled (env_now e w) trigs then
        processSubscriptions_loop e en tenant xauthToken servicePathV subs ret err w
      else cpp_bind (processOnChangeCondition e [EntityId_new (en_id en) (en_type en) (en_isPattern en)] (ts_attrL trigs)
             None mapSubId (ts_reference trigs) (ts_format trigs) tenant xauthToken servicePathV w) (\<lambda>(sent, w1).
        if \<not> sent then processSubscriptions_loop e en tenant xauthToken servicePathV subs ret err w1
        else case env_updateSub e (getSubscribeContextCollectionName e tenant) mapSubId (env_now e w1) w1 of
            (None, w2) \<Rightarrow> processSubscriptions_loop e en tenant xauthToken servicePathV subs ret err w2
          | (Some what, w2) \<Rightarrow>
              processSubscriptions_loop e en tenant xauthToken servicePathV subs False
                (err @ ''collection: '' @ getEntitiesCollectionName e tenant @
                 env_show_sub_update e mapSubId (env_now e w1) @ '' - exception: '' @ what) w2))"

definition processSubscriptions :: "'w env \<Rightarrow> EntityId \<Rightarrow> trig_map \<Rightarrow> string \<Rightarrow> string \<Rightarrow> string list \<Rightarrow> 'w \<Rightarrow> (bool \<times> string \<times> 'w) cpp" where
  "processSubscriptions e en subs tenant xauthToken servicePathV w =
     processSubscriptions_loop e en tenant xauthToken servicePathV (sort_key fst subs) True [] w"

section \<open>The attributes of the element\<close>

definition buildGeneralErrorResponse :: "ContextElement \<Rightarrow> ContextAttribute option \<Rightarrow> HttpStatusCode \<Rightarrow> string \<Rightarrow> ContextElementResponse" where
  "buildGeneralErrorResponse ce ca code details =
     ContextElementResponse_new
       \<lparr>cer_contextElement := ContextElement_new\<lparr>ce_entityId := ce_entityId ce,
          ce_contextAttributeVector := (case ca of None \<Rightarrow> [] | Some a \<Rightarrow> [a])\<rparr>,
        cer_statusCode := StatusCode_fill code details\<rparr>"

record upd =
  u_toSet :: "(string \<times> attr_doc) list"
  u_toUnset :: "string list"
  u_toPush :: "string list"
  u_toPull :: "string list"
  u_statusCode :: StatusCode
  u_caV :: "ContextAttribute list"
  u_locAttr :: string
  u_lat :: rat
  u_long :: rat
  u_subs :: trig_map
  u_modified :: bool
  u_deleted :: "(string \<times> nat) list"

text \<open>
  One attribute: the state, the attribute of the response, whether there was an actual
  change, and whether the processing goes on.
\<close>

type_synonym attr_step = "upd \<times> ContextAttribute \<times> bool \<times> bool"

definition offending :: "string \<Rightarrow> EntityId \<Rightarrow> ContextAttribute \<Rightarrow> string \<Rightarrow> StatusCode" where
  "offending action en ca details =
     StatusCode_fill SccInvalidParameter
       (''action: '' @ action @ '' - entity: ['' @ EntityId_toString en False '', '' @ '']'' @
        '' - offending attribute: '' @ ca_name ca @ details)"

definition attr_update :: "'w env \<Rightarrow> int \<Rightarrow> (string \<times> attr_doc) list \<Rightarrow> EntityId \<Rightarrow> ContextAttribute \<Rightarrow> ContextAttribute \<Rightarrow> upd \<Rightarrow> attr_step" where
  "attr_update e now attrs en targetAttr ca u =
     (case updateAttribute now attrs (u_toSet u) targetAttr of (found, actualUpdate, toSet) \<Rightarrow>
        let u1 = (if found then u\<lparr>u_toSet := toSet, u_modified := actualUpdate \<or> u_modified u\<rparr>
                  else u\<lparr>u_statusCode := offending ''UPDATE'' en targetAttr []\<rparr>);
            ca1 = (if found then ca else ca\<lparr>ca_found := False\<rparr>)
        in if length (getLocation targetAttr) > 0 \<and> ca_name targetAttr \<noteq> u_locAttr u1 then
             (u1\<lparr>u_statusCode := offending ''UPDATE'' en targetAttr
                '' - location nature of an attribute has to be defined at creation time, with APPEND''\<rparr>,
              ca1, actualUpdate, False)
           else if u_locAttr u1 = ca_name targetAttr then
             (case string2coords (env_rnd e) (ca_value targetAttr) (u_lat u1) (u_long u1) of (ok, lat, long) \<Rightarrow>
                if \<not> ok then
                  (u1\<lparr>u_lat := lat, u_long := long, u_statusCode := offending ''UPDATE'' en targetAttr
                     ('' - error parsing location attribute, value: <'' @ ca_value targetAttr @ ''>'')\<rparr>,
                   ca1, actualUpdate, False)
                else (u1\<lparr>u_lat := lat, u_long := long\<rparr>, ca1, actualUpdate, True))
           else (u1, ca1, actualUpdate, True))"

definition attr_append :: "'w env \<Rightarrow> int \<Rightarrow> (string \<times> attr_doc) list \<Rightarrow> EntityId \<Rightarrow> ContextAttribute \<Rightarrow> ContextAttribute \<Rightarrow> upd \<Rightarrow> attr_step" where
  "attr_append e now attrs en targetAttr ca u =
     (if legalIdUsage attrs targetAttr then
        (case appendAttribute now attrs (u_toSet u) (u_toPush u) targetAttr of (actualUpdate, toSet, toPush) \<Rightarrow>
           let u1 = u\<lparr>u_toSet := toSet, u_toPush := toPush, u_modified := actualUpdate \<or> u_modified u\<rparr>;
               loc = getLocation targetAttr
           in if length loc > 0 then
                (if length (u_locAttr u1) > 0 \<and> ca_name targetAttr \<noteq> u_locAttr u1 then
                   (u1\<lparr>u_statusCode := offending ''APPEND'' en targetAttr
                      ('' - attempt to define a location attribute ['' @ ca_name targetAttr @ '']'' @
                       '' when another one has been previously defined ['' @ u_locAttr u1 @ '']'')\<rparr>,
                    ca, actualUpdate, False)
                 else if loc \<noteq> ''WGS84'' \<and> loc \<noteq> ''WSG84'' then
                   (u1\<lparr>u_statusCode := offending ''APPEND'' en targetAttr
                      ('' - only WGS84 is supported for location, found: ['' @ loc @ '']'')\<rparr>,
                    ca, actualUpdate, False)
                 else case string2coords (env_rnd e) (ca_value targetAttr) (u_lat u1) (u_long u1) of (ok, lat, long) \<Rightarrow>
                   if \<not> ok then
                     (u1\<lparr>u_lat := lat, u_long := long, u_statusCode := offending ''APPEND'' en targetAttr
                        ('' - error parsing location attribute, value: ['' @ ca_value targetAttr @ '']'')\<rparr>,
                      ca, actualUpdate, False)
                   else (u1\<lparr>u_lat := lat, u_long := long, u_locAttr := ca_name targetAttr\<rparr>, ca, actualUpdate, True))
              else (u1, ca, actualUpdate, True))
      else (u\<lparr>u_statusCode := offending ''APPEND'' en targetAttr '' - attribute can not be appended''\<rparr>, ca, True, False))"

definition attr_delete :: "(string \<times> attr_doc) list \<Rightarrow> EntityId \<Rightarrow> ContextAttribute \<Rightarrow> ContextAttribute \<Rightarrow> upd \<Rightarrow> attr_step" where
  "attr_delete attrs en targetAttr ca u =
     (case deleteAttribute attrs (u_toUnset u) (u_deleted u) targetAttr of (found, toUnset, del) \<Rightarrow>
        if found then
          let u1 = u\<lparr>u_toUnset := toUnset, u_deleted := del, u_modified := True\<rparr>
          in if length (getLocation targetAttr) > 0 then
               (u1\<lparr>u_statusCode := offending ''DELETE'' en targetAttr
                  '' - location attribute has to be defined at creation time, with APPEND''\<rparr>, ca, True, False)
             else (if u_locAttr u1 = ca_name targetAttr then u1\<lparr>u_locAttr := []\<rparr> else u1, ca\<lparr>ca_found := True\<rparr>, True, True)
        else (u\<lparr>u_statusCode := offending ''DELETE'' en targetAttr '' - attribute not found''\<rparr>,
              ca\<lparr>ca_found := False\<rparr>, True, False))"

definition attr_step :: "'w env \<Rightarrow> string \<Rightarrow> int \<Rightarrow> (string \<times> attr_doc) list \<Rightarrow> EntityId \<Rightarrow> ContextAttribute \<Rightarrow> upd \<Rightarrow> attr_step" where
  "attr_step e action now attrs en targetAttr u =
     (let ca = setResponseMetadata targetAttr (ContextAttribute_new (ca_name targetAttr) (ca_type targetAttr) [] True) in
      if strcaseeq action ''update'' then attr_update e now attrs en targetAttr ca u
      else if strcaseeq action ''append'' then attr_append e now attrs en targetAttr ca u
      else if strcaseeq action ''delete'' then attr_delete attrs en targetAttr ca u
      else (u\<lparr>u_statusCode := StatusCode_fill SccInvalidParameter (''unknown actionType: '' @ [CHR 0x27] @ action @ [CHR 0x27])\<rparr>,
            ca, True, False))"

fun attrs_loop :: "'w env \<Rightarrow> string \<Rightarrow> (string \<times> attr_doc) list \<Rightarrow> EntityId \<Rightarrow> string \<Rightarrow> string list \<Rightarrow> 'w
    \<Rightarrow> ContextAttribute list \<Rightarrow> upd \<Rightarrow> bool \<times> upd" where
  "attrs_loop e action attrs en tenant servicePathV w [] u = (True, u)"
| "attrs_loop e action attrs en tenant servicePathV w (targetAttr # caV) u =
     (case attr_step e action (env_now e w) attrs en targetAttr u of (u1, ca, actualUpdate, ok) \<Rightarrow>
        let u2 = u1\<lparr>u_caV := u_caV u1 @ [ca]\<rparr>
        in if \<not> ok then (False, u2)
           else if actualUpdate then
             (case addTriggeredSubscriptions e (en_id en) (en_type en) (ca_name ca) (u_subs u2) tenant servicePathV w of
                Inl err \<Rightarrow> (False, u2\<lparr>u_statusCode := StatusCode_fill SccReceiverInternalError err\<rparr>)
              | Inr subs \<Rightarrow> attrs_loop e action attrs en tenant servicePathV w caV (u2\<lparr>u_subs := subs\<rparr>))
           else attrs_loop e action attrs en tenant servicePathV w caV u2)"

definition pulled :: "(string \<times> attr_doc) list \<Rightarrow> (string \<times> nat) list \<Rightarrow> string list" where
  "pulled attrs del = map fst (filter (\<lambda>(attrName, deletedTimes). howManyAttrs attrs attrName \<le> deletedTimes) (sort_key fst del))"

text \<open>Whether the entity was modified, and the state.\<close>

definition processContextAttributeVector :: "'w env \<Rightarrow> ContextAttribute list \<Rightarrow> string \<Rightarrow> (string \<times> attr_doc) list \<Rightarrow> EntityId
    \<Rightarrow> string \<Rightarrow> string list \<Rightarrow> 'w \<Rightarrow> upd \<Rightarrow> bool \<times> upd" where
  "processContextAttributeVector e caV action attrs en tenant servicePathV w u0 =
     (case attrs_loop e action attrs en tenant servicePathV w caV u0 of (ok, u) \<Rightarrow>
        if \<not> ok then (False, u)
        else let u1 = (if strcaseeq action ''delete'' then u\<lparr>u_toPull := u_toPull u @ pulled attrs (u_deleted u)\<rparr> else u);
                 u2 = (if sc_code (u_statusCode u1) = SccNone then u1\<lparr>u_statusCode := StatusCode_fill SccOk []\<rparr> else u1)
             in (u_modified u2, u2))"

section \<open>Creating and removing entities\<close>

definition new_ent_doc :: "int \<Rightarrow> EntityId \<Rightarrow> ContextAttribute list \<Rightarrow> string list \<Rightarrow> loc_state \<Rightarrow> ent_doc" where
  "new_ent_doc now en attrsV servicePathV loc =
     (case loc of (locAttr, coordLat, coordLong) \<Rightarrow>
        \<lparr>ed_id = en_id en,
         ed_type = (if en_type en = [] then None else Some (en_type en)),
         ed_servicePath = (case servicePathV of [] \<Rightarrow> None | p # _ \<Rightarrow> Some p),
         ed_attrNames = map ca_name attrsV,
         ed_attrs = Some (map (\<lambda>ca. (effectiveName ca, new_attr_doc now ca)) attrsV),
         ed_creDate = Some now, ed_modDate = Some now,
         ed_location = (if length locAttr > 0
            then Some \<lparr>ld_attrName = locAttr, ld_long = coordLong, ld_lat = coordLat\<rparr> else None)\<rparr>)"

definition createEntity :: "'w env \<Rightarrow> EntityId \<Rightarrow> ContextAttribute list \<Rightarrow> string \<Rightarrow> string list \<Rightarrow> 'w \<Rightarrow> string option \<times> 'w" where
  "createEntity e en attrsV tenant servicePathV w0 =
     (let w = ensureLocationIndex e tenant w0 in
      if \<not> legalIdUsage_vector attrsV then
        (Some (''Attributes with same name with ID and not ID at the same time in the same entity are forbidden: entity: [''
           @ EntityId_toString en False '', '' @ '']''), w)
      else case processLocation (env_rnd e) attrsV of
        Inl errDetail \<Rightarrow> (Some errDetail, w)
      | Inr loc \<Rightarrow>
          (let insertedDoc = new_ent_doc (env_now e w) en attrsV servicePathV loc;
               col = getEntitiesCollectionName e tenant
           in case env_insertEntity e col insertedDoc w of
                (None, w1) \<Rightarrow> (None, w1)
              | (Some what, w1) \<Rightarrow>
                  (Some (''Database Error: collection: '' @ col @ '' - insert(): '' @ env_show_ent_doc e insertedDoc @
                         '' - exception: '' @ what), w1)))"

definition entity_type_cond :: "string \<Rightarrow> type_cond" where
  "entity_type_cond t = (if t = [] then TypeAbsent else TypeIs t)"

definition removeEntity :: "'w env \<Rightarrow> string \<Rightarrow> string \<Rightarrow> string \<Rightarrow> string \<Rightarrow> 'w \<Rightarrow> bool \<times> StatusCode \<times> 'w" where
  "removeEntity e entityId entityType tenant servicePath w =
     (let query = \<lparr>se_id = entityId, se_type = entity_type_cond entityType,
                   se_servicePath = (if servicePath = [] then SpAbsent else SpIs servicePath), se_noType = False\<rparr>;
          col = getEntitiesCollectionName e tenant
      in case env_removeEntity e col query w of
           (None, w1) \<Rightarrow> (True, StatusCode_fill SccOk [], w1)
         | (Some what, w1) \<Rightarrow>
             (False, StatusCode_fill SccReceiverInternalError
                (''collection: '' @ col @ '' - remove() query: '' @ env_show_ent_sel e query @ '' - exception: '' @ what), w1))"

section \<open>Context providers of what was not found\<close>

definition provider_lookup :: "'w env \<Rightarrow> string \<Rightarrow> string list \<Rightarrow> EntityId \<Rightarrow> string list \<Rightarrow> ContextElementResponse \<Rightarrow> 'w \<Rightarrow> ContextElementResponse cpp" where
  "provider_lookup e tenant servicePathV en attrL cer w =
     (if someContextElementNotFound cer then
        cpp_bind (registrationsQuery e [en] attrL tenant servicePathV 0 0 w) (\<lambda>r.
          case r of Inl err \<Rightarrow> Ret cer
          | Inr crrV \<Rightarrow> Ret (if length crrV > 0 then fillContextProviders cer crrV else cer))
      else Ret cer)"

definition searchContextProviders :: "'w env \<Rightarrow> string \<Rightarrow> string list \<Rightarrow> EntityId \<Rightarrow> ContextAttribute list \<Rightarrow> ContextElementResponse \<Rightarrow> 'w \<Rightarrow> ContextElementResponse cpp" where
  "searchContextProviders e tenant servicePathV en caV cer w =
     cpp_bind (provider_lookup e tenant servicePathV en (map ca_name caV) cer w)
       (\<lambda>cer1. provider_lookup e tenant servicePathV en [] cer1 w)"

section \<open>One context element\<close>

fun first_empty_attr :: "ContextAttribute list \<Rightarrow> ContextAttribute option" where
  "first_empty_attr [] = None"
| "first_empty_attr (a # caV) =
     (if length (ca_value a) = 0 \<and> ca_compoundValueP a = None then Some a else first_empty_attr caV)"

definition element_query :: "'w env \<Rightarrow> EntityId \<Rightarrow> string list \<Rightarrow> string \<Rightarrow> ent_sel" where
  "element_query e en servicePathV notExist =
     \<lparr>se_id = en_id en,
      se_type = (if en_type en \<noteq> [] then TypeIs (en_type en) else TypeAny),
      se_servicePath = (case servicePathV of [] \<Rightarrow> SpAbsent
         | p # _ \<Rightarrow> SpRe (''^'' @ slashEscape p (env_buf0 e) MAX_SERVICE_NAME_LEN @ ''$'')),
      se_noType = (notExist = ''entity::type'')\<rparr>"

definition entity_query :: "'w env \<Rightarrow> string \<Rightarrow> string \<Rightarrow> string \<Rightarrow> string list \<Rightarrow> ent_sel" where
  "entity_query e entityId entityType entitySPath servicePathV =
     \<lparr>se_id = entityId, se_type = entity_type_cond entityType,
      se_servicePath = (if servicePathV = [] then SpAbsent
         else SpRe (slashEscape entitySPath (env_buf0 e) MAX_SERVICE_NAME_LEN)),
      se_noType = False\<rparr>"

definition compose_update :: "int \<Rightarrow> upd \<Rightarrow> ent_update" where
  "compose_update now u =
     \<lparr>up_set = u_toSet u, up_unset = u_toUnset u, up_addToSet = u_toPush u, up_pullAll = u_toPull u,
      up_modDate = now,
      up_location = (if length (u_locAttr u) > 0
         then LocSet \<lparr>ld_attrName = u_locAttr u, ld_long = u_long u, ld_lat = u_lat u\<rparr> else LocUnset)\<rparr>"

definition start_upd :: "loc_doc option \<Rightarrow> upd" where
  "start_upd loc =
     \<lparr>u_toSet = [], u_toUnset = [], u_toPush = [], u_toPull = [], u_statusCode = StatusCode_new, u_caV = [],
      u_locAttr = (case loc of None \<Rightarrow> [] | Some l \<Rightarrow> ld_attrName l),
      u_lat = (case loc of None \<Rightarrow> 0 | Some l \<Rightarrow> ld_lat l),
      u_long = (case loc of None \<Rightarrow> 0 | Some l \<Rightarrow> ld_long l),
      u_subs = [], u_modified = False, u_deleted = []\<rparr>"

definition cer_of :: "EntityId \<Rightarrow> ContextAttribute list \<Rightarrow> StatusCode \<Rightarrow> ContextElementResponse" where
  "cer_of en caV sc =
     ContextElementResponse_new
       \<lparr>cer_contextElement := ContextElement_new\<lparr>ce_entityId := en, ce_contextAttributeVector := caV\<rparr>,
        cer_statusCode := sc\<rparr>"

text \<open>One entity document found: the response for it and the world after.\<close>

definition processEntityDoc :: "'w env \<Rightarrow> ContextElement \<Rightarrow> string \<Rightarrow> string \<Rightarrow> string list \<Rightarrow> string \<Rightarrow> ent_doc \<Rightarrow> 'w
    \<Rightarrow> (ContextElementResponse \<times> 'w) cpp" where
  "processEntityDoc e ce action tenant servicePathV xauthToken r w =
     (let enP = ce_entityId ce;
          caV = ce_contextAttributeVector ce;
          entityId = ed_id r;
          entityType = STR_FIELD (ed_type r);
          entitySPath = STR_FIELD (ed_servicePath r);
          en = EntityId_new entityId entityType ''false'' in
      if strcaseeq action ''delete'' \<and> length caV = 0 then
        (case removeEntity e entityId entityType tenant entitySPath w of (ok, sc, w1) \<Rightarrow> Ret (cer_of en [] sc, w1))
      else case ed_attrs r of
        None \<Rightarrow> UB
      | Some attrs \<Rightarrow>
          (case processContextAttributeVector e caV action attrs en tenant servicePathV w (start_upd (ed_location r)) of
             (modified, u) \<Rightarrow>
               let cer = cer_of en (u_caV u) (u_statusCode u) in
               if \<not> modified then
                 cpp_bind (searchContextProviders e tenant servicePathV enP caV cer w) (\<lambda>cer1. Ret (cer1, w))
               else
                 let update = compose_update (env_now e w) u;
                     query = entity_query e entityId entityType entitySPath servicePathV;
                     col = getEntitiesCollectionName e tenant
                 in case env_updateEntity e col query update w of
                      (Some what, w1) \<Rightarrow>
                        Ret (cer\<lparr>cer_statusCode := StatusCode_fill SccReceiverInternalError
                               (''collection: '' @ col @ '' - update() query: '' @ env_show_ent_sel e query @
                                '' - update() doc: '' @ env_show_ent_update e update @ '' - exception: '' @ what)\<rparr>, w1)
                    | (None, w1) \<Rightarrow>
                        cpp_bind (processSubscriptions e enP (u_subs u) tenant xauthToken servicePathV w1) (\<lambda>(ret, err, w2).
                        cpp_bind (searchContextProviders e tenant servicePathV enP caV cer w2) (\<lambda>cer1.
                          Ret (if sc_code (cer_statusCode cer1) = SccNone
                               then cer1\<lparr>cer_statusCode := StatusCode_fill SccOk []\<rparr> else cer1, w2)))))"

text \<open>A document without \<open>_id\<close> is skipped, but counts as found.\<close>

fun docs_loop :: "'w env \<Rightarrow> ContextElement \<Rightarrow> string \<Rightarrow> string \<Rightarrow> string list \<Rightarrow> string \<Rightarrow> ent_doc option list \<Rightarrow> 'w
    \<Rightarrow> (ContextElementResponse list \<times> 'w) cpp" where
  "docs_loop e ce action tenant servicePathV xauthToken [] w = Ret ([], w)"
| "docs_loop e ce action tenant servicePathV xauthToken (None # rs) w =
     docs_loop e ce action tenant servicePathV xauthToken rs w"
| "docs_loop e ce action tenant servicePathV xauthToken (Some r # rs) w =
     cpp_bind (processEntityDoc e ce action tenant servicePathV xauthToken r w) (\<lambda>(cer, w1).
     cpp_bind (docs_loop e ce action tenant servicePathV xauthToken rs w1) (\<lambda>(cers, w2). Ret (cer # cers, w2)))"

fun add_all_triggered :: "'w env \<Rightarrow> EntityId \<Rightarrow> string \<Rightarrow> string list \<Rightarrow> 'w \<Rightarrow> ContextAttribute list \<Rightarrow> trig_map \<Rightarrow> string + trig_map" where
  "add_all_triggered e en tenant servicePathV w [] subs = Inr subs"
| "add_all_triggered e en tenant servicePathV w (ca # caV) subs =
     (case addTriggeredSubscriptions e (en_id en) (en_type en) (ca_name ca) subs tenant servicePathV w of
        Inl err \<Rightarrow> Inl err
      | Inr subs' \<Rightarrow> add_all_triggered e en tenant servicePathV w caV subs')"

text \<open>No document found.\<close>

definition processMissingEntity :: "'w env \<Rightarrow> ContextElement \<Rightarrow> string \<Rightarrow> string \<Rightarrow> string list \<Rightarrow> string \<Rightarrow> 'w
    \<Rightarrow> (ContextElementResponse \<times> 'w) cpp" where
  "processMissingEntity e ce action tenant servicePathV xauthToken w =
     (let enP = ce_entityId ce;
          caV = ce_contextAttributeVector ce;
          foundValue = strcaseeq action ''append'';
          en = EntityId_new (en_id enP) (en_type enP) ''false'';
          cer = cer_of en (map (\<lambda>ca. setResponseMetadata ca (ContextAttribute_new (ca_name ca) (ca_type ca) [] foundValue)) caV)
                  StatusCode_new in
      if strcaseeq action ''update'' then
        cpp_bind (searchContextProviders e tenant servicePathV enP caV cer w) (\<lambda>cer1.
          Ret (cer1\<lparr>cer_statusCode := StatusCode_fill SccOk []\<rparr>, w))
      else if strcaseeq action ''delete'' then
        Ret (cer\<lparr>cer_statusCode := StatusCode_fill SccContextElementNotFound []\<rparr>, w)
      else case createEntity e enP caV tenant servicePathV w of
        (Some errDetail, w1) \<Rightarrow> Ret (cer\<lparr>cer_statusCode := StatusCode_fill SccInvalidParameter errDetail\<rparr>, w1)
      | (None, w1) \<Rightarrow>
          (case add_all_triggered e enP tenant servicePathV w1 caV [] of
             Inl err \<Rightarrow> Ret (cer\<lparr>cer_statusCode := StatusCode_fill SccReceiverInternalError err\<rparr>, w1)
           | Inr subs \<Rightarrow>
               cpp_bind (processSubscriptions e enP subs tenant xauthToken servicePathV w1) (\<lambda>(ret, err, w2).
                 Ret (cer\<lparr>cer_statusCode := StatusCode_fill SccOk []\<rparr>, w2))))"

text \<open>The responses added to the vector of the update response, and the world after.\<close>

definition processContextElement :: "'w env \<Rightarrow> ContextElement \<Rightarrow> string \<Rightarrow> string \<Rightarrow> string list \<Rightarrow> string \<Rightarrow> string \<Rightarrow> 'w
    \<Rightarrow> (ContextElementResponse list \<times> 'w) cpp" where
  "processContextElement e ce action tenant servicePathV notExist xauthToken w =
     (let enP = ce_entityId ce;
          emptyAttr = (if strcaseeq action ''update'' \<or> strcaseeq action ''append''
                       then first_empty_attr (ce_contextAttributeVector ce) else None) in
      if isTrue (en_isPattern enP) then Ret ([buildGeneralErrorResponse ce None SccNotImplemented []], w)
      else case emptyAttr of
        Some a \<Rightarrow>
          Ret ([buildGeneralErrorResponse ce (Some (ContextAttribute_copy a)) SccInvalidParameter
                  (''action: '' @ action @ '' - entity: ['' @ EntityId_toString enP True '', '' @ '']'' @
                   '' - offending attribute: '' @ ca_name a @ '' - empty attribute not allowed in APPEND or UPDATE'')], w)
      | None \<Rightarrow>
          (let query = element_query e enP servicePathV notExist;
               col = getEntitiesCollectionName e tenant
           in case checked_cursor (env_findEntities e w col query) of
                Inl what \<Rightarrow>
                  Ret ([buildGeneralErrorResponse ce None SccReceiverInternalError
                          (''collection: '' @ col @ '' - query(): '' @ env_show_ent_sel e query @ '' - exception: '' @ what)], w)
              | Inr rs \<Rightarrow>
                  cpp_bind (docs_loop e ce action tenant servicePathV xauthToken rs w) (\<lambda>(cers, w1).
                    if length rs = 0 then
                      cpp_bind (processMissingEntity e ce action tenant servicePathV xauthToken w1) (\<lambda>(cer, w2).
                        Ret (cers @ [cer], w2))
                    else Ret (cers, w1))))"

section \<open>Actions\<close>

lemma strcaseeq_trans: "strcaseeq a b \<Longrightarrow> strcaseeq a c \<Longrightarrow> strcaseeq b c"
  by (simp add: strcaseeq_def)

lemma action_cases:
  shows "strcaseeq a ''update'' \<Longrightarrow> \<not> strcaseeq a ''append'' \<and> \<not> strcaseeq a ''delete''"
    and "strcaseeq a ''append'' \<Longrightarrow> \<not> strcaseeq a ''update'' \<and> \<not> strcaseeq a ''delete''"
    and "strcaseeq a ''delete'' \<Longrightarrow> \<not> strcaseeq a ''update'' \<and> \<not> strcaseeq a ''append''"
proof -
  have d: "\<not> strcaseeq ''update'' ''append''" "\<not> strcaseeq ''update'' ''delete''" "\<not> strcaseeq ''append'' ''delete''"
      "\<not> strcaseeq ''append'' ''update''" "\<not> strcaseeq ''delete'' ''update''" "\<not> strcaseeq ''delete'' ''append''"
    by (simp_all add: strcaseeq_def c_str_def to_lower_def char_class_defs)
  show "strcaseeq a ''update'' \<Longrightarrow> \<not> strcaseeq a ''append'' \<and> \<not> strcaseeq a ''delete''"
    "strcaseeq a ''append'' \<Longrightarrow> \<not> strcaseeq a ''update'' \<and> \<not> strcaseeq a ''delete''"
    "strcaseeq a ''delete'' \<Longrightarrow> \<not> strcaseeq a ''update'' \<and> \<not> strcaseeq a ''append''"
    using strcaseeq_trans d by blast+
qed

section \<open>Invariants of the attribute loop\<close>

text \<open>
  A property of the collected changes that every successful step keeps, and that does not
  look at the response or the subscriptions, holds after a successful loop.
\<close>

lemma attrs_loop_inv:
  assumes step: "\<And>ca u u1 rca act. P u \<Longrightarrow> attr_step e action (env_now e w) attrs en ca u = (u1, rca, act, True) \<Longrightarrow> P u1"
    and frame: "\<And>u x. P u \<Longrightarrow> P (u\<lparr>u_caV := x\<rparr>)" "\<And>u x. P u \<Longrightarrow> P (u\<lparr>u_subs := x\<rparr>)"
    and "attrs_loop e action attrs en tenant sp w caV u = (True, u')" and "P u"
  shows "P u'"
  using assms(4,5)
proof (induction caV arbitrary: u)
  case (Cons ca caV)
  obtain u1 rca act ok where s: "attr_step e action (env_now e w) attrs en ca u = (u1, rca, act, ok)"
    by (metis prod_cases4)
  let ?u2 = "u1\<lparr>u_caV := u_caV u1 @ [rca]\<rparr>"
  have ok: "ok" using Cons.prems(1) s by (simp add: Let_def split: if_splits)
  then have "P u1" using step [OF Cons.prems(2), of ca u1 rca act] s by simp
  then have "P ?u2" by (rule frame(1))
  show ?case
  proof (cases act)
    case True
    then obtain subs where "attrs_loop e action attrs en tenant sp w caV (?u2\<lparr>u_subs := subs\<rparr>) = (True, u')"
      using Cons.prems(1) s ok by (auto simp: Let_def split: sum.splits)
    then show ?thesis using Cons.IH frame(2) [OF \<open>P ?u2\<close>] by blast
  next
    case False
    then show ?thesis using Cons.IH [OF _ \<open>P ?u2\<close>] Cons.prems(1) s ok by (simp add: Let_def)
  qed
qed simp

lemma updateAttribute_keys:
  "updateAttribute now attrs toSet ca = (f, act, toSet') \<Longrightarrow> fst ` set toSet' \<subseteq> fst ` set toSet \<union> fst ` set attrs"
  by (auto simp: updateAttribute_def split: option.splits prod.splits if_splits dest!: map_of_SomeD) force+

lemma attr_update_inv:
  assumes "attr_update e now attrs en ca rca u = (u1, rca', act, ok)"
  shows "u_toUnset u1 = u_toUnset u" and "u_toPush u1 = u_toPush u" and "u_toPull u1 = u_toPull u"
    and "u_deleted u1 = u_deleted u"
    and "fst ` set (u_toSet u1) \<subseteq> fst ` set (u_toSet u) \<union> fst ` set attrs"
proof -
  obtain f a ts where ua: "updateAttribute now attrs (u_toSet u) ca = (f, a, ts)" by (metis prod_cases3)
  show "u_toUnset u1 = u_toUnset u" "u_toPush u1 = u_toPush u" "u_toPull u1 = u_toPull u" "u_deleted u1 = u_deleted u"
    using assms ua by (auto simp: attr_update_def Let_def split: if_splits prod.splits)
  have "u_toSet u1 = u_toSet u \<or> u_toSet u1 = ts"
    using assms ua by (auto simp: attr_update_def Let_def split: if_splits prod.splits)
  then show "fst ` set (u_toSet u1) \<subseteq> fst ` set (u_toSet u) \<union> fst ` set attrs"
    using updateAttribute_keys [OF ua] by (elim disjE) simp_all
qed

lemma attr_append_inv:
  assumes "attr_append e now attrs en ca rca u = (u1, rca', act, True)"
  shows "u_toUnset u1 = u_toUnset u" and "u_toPull u1 = u_toPull u" and "u_deleted u1 = u_deleted u"
    and "set (u_toPush u1) \<subseteq> set (u_toPush u) \<union> (if hasField attrs (effectiveName ca) then {} else {ca_name ca})"
  using assms
  by (auto simp: attr_append_def appendAttribute_def Let_def split: if_splits prod.splits)

lemma attr_delete_inv:
  assumes "attr_delete attrs en ca rca u = (u1, rca', act, True)"
  shows "u_toSet u1 = u_toSet u" and "u_toPush u1 = u_toPush u" and "u_toPull u1 = u_toPull u"
    and "set (u_toUnset u1) \<subseteq> set (u_toUnset u) \<union> fst ` set attrs"
proof -
  have "hasField attrs (effectiveName ca)" and "u_toUnset u1 = u_toUnset u @ [effectiveName ca]"
      and frame: "u_toSet u1 = u_toSet u \<and> u_toPush u1 = u_toPush u \<and> u_toPull u1 = u_toPull u"
    using assms by (auto simp: attr_delete_def deleteAttribute_def Let_def split: if_splits prod.splits)
  then show "set (u_toUnset u1) \<subseteq> set (u_toUnset u) \<union> fst ` set attrs" by (simp add: hasField_iff)
  show "u_toSet u1 = u_toSet u" "u_toPush u1 = u_toPush u" "u_toPull u1 = u_toPull u" using frame by simp_all
qed

text \<open>What an update, an append and a delete may collect.\<close>

definition upd_frame :: "string \<Rightarrow> (string \<times> attr_doc) list \<Rightarrow> upd \<Rightarrow> bool" where
  "upd_frame action attrs u =
     (if strcaseeq action ''update'' then
        u_toUnset u = [] \<and> u_toPush u = [] \<and> u_toPull u = [] \<and> fst ` set (u_toSet u) \<subseteq> fst ` set attrs
      else if strcaseeq action ''append'' then u_toUnset u = [] \<and> u_toPull u = []
      else u_toSet u = [] \<and> u_toPush u = [] \<and> set (u_toUnset u) \<subseteq> fst ` set attrs)"

lemma upd_frame_step:
  assumes "upd_frame action attrs u" and "attr_step e action now attrs en ca u = (u1, rca, act, True)"
  shows "upd_frame action attrs u1"
proof -
  let ?ca = "setResponseMetadata ca (ContextAttribute_new (ca_name ca) (ca_type ca) [] True)"
  consider "strcaseeq action ''update''" | "strcaseeq action ''append''" | "strcaseeq action ''delete''"
    using assms(2) by (auto simp: attr_step_def Let_def split: if_splits)
  then show ?thesis
  proof cases
    case 1
    then have "attr_update e now attrs en ca ?ca u = (u1, rca, act, True)" using assms(2) by (simp add: attr_step_def Let_def)
    from attr_update_inv [OF this] show ?thesis using 1 assms(1) by (auto simp: upd_frame_def)
  next
    case 2
    then have "attr_append e now attrs en ca ?ca u = (u1, rca, act, True)"
      using assms(2) action_cases(2) by (simp add: attr_step_def Let_def)
    from attr_append_inv [OF this] show ?thesis using 2 assms(1) action_cases(2) [OF 2] by (auto simp: upd_frame_def)
  next
    case 3
    then have "attr_delete attrs en ca ?ca u = (u1, rca, act, True)"
      using assms(2) action_cases(3) by (simp add: attr_step_def Let_def)
    from attr_delete_inv [OF this] show ?thesis using 3 assms(1) action_cases(3) [OF 3] by (auto simp: upd_frame_def)
  qed
qed

text \<open>The invariant of the location: coordinates to be written are on the globe.\<close>

definition loc_ok :: "upd \<Rightarrow> bool" where
  "loc_ok u \<longleftrightarrow> (u_locAttr u \<noteq> [] \<longrightarrow> - 90 \<le> u_lat u \<and> u_lat u \<le> 90 \<and> - 180 \<le> u_long u \<and> u_long u \<le> 180)"

lemma string2coords_bounds:
  assumes "string2coords rnd s lat0 lon0 = (True, lat, lon)"
  shows "- 90 \<le> lat \<and> lat \<le> 90 \<and> - 180 \<le> lon \<and> lon \<le> 180"
  using assms by (auto simp: string2coords_def Let_def split: option.splits prod.splits if_splits sum.splits)

lemma loc_ok_step:
  assumes "loc_ok u" and "attr_step e action now attrs en ca u = (u1, rca, act, True)"
  shows "loc_ok u1"
proof -
  have "attr_update e now attrs en ca c u = (u1, rca, act, True) \<Longrightarrow> loc_ok u1" for c
    using assms(1) by (auto simp: attr_update_def loc_ok_def Let_def split: prod.splits if_splits dest: string2coords_bounds)
  moreover have "attr_append e now attrs en ca c u = (u1, rca, act, True) \<Longrightarrow> loc_ok u1" for c
    using assms(1) by (auto simp: attr_append_def loc_ok_def Let_def split: prod.splits if_splits dest: string2coords_bounds)
  moreover have "attr_delete attrs en ca c u = (u1, rca, act, True) \<Longrightarrow> loc_ok u1" for c
    using assms(1) by (auto simp: attr_delete_def loc_ok_def Let_def split: prod.splits if_splits)
  ultimately show ?thesis
    using assms(2) by (auto simp: attr_step_def Let_def split: if_splits)
qed

lemma processContextAttributeVector_ok:
  assumes "processContextAttributeVector e caV action attrs en tenant sp w u0 = (True, u)"
  obtains v where "attrs_loop e action attrs en tenant sp w caV u0 = (True, v)"
    and "u_toSet u = u_toSet v" and "u_toUnset u = u_toUnset v" and "u_toPush u = u_toPush v"
    and "u_toPull u = u_toPull v @ (if strcaseeq action ''delete'' then pulled attrs (u_deleted v) else [])"
    and "u_locAttr u = u_locAttr v" and "u_lat u = u_lat v" and "u_long u = u_long v" and "u_subs u = u_subs v"
    and "u_modified v"
proof -
  obtain ok v where v: "attrs_loop e action attrs en tenant sp w caV u0 = (ok, v)" by fastforce
  show ?thesis
    by (rule that [of v]) (use assms v in \<open>auto simp: processContextAttributeVector_def Let_def split: if_splits\<close>)
qed

text \<open>C6: what an update request may do to a stored entity. An update only sets attributes the
  document already has and leaves the list of names alone; an append never removes anything; a delete sets
  nothing and only removes attributes the document has.\<close>

theorem processContextAttributeVector_frame:
  assumes "processContextAttributeVector e caV action attrs en tenant sp w (start_upd loc) = (True, u)"
  shows "if strcaseeq action ''update'' then
      u_toUnset u = [] \<and> u_toPush u = [] \<and> u_toPull u = [] \<and> fst ` set (u_toSet u) \<subseteq> fst ` set attrs
    else if strcaseeq action ''append'' then u_toUnset u = [] \<and> u_toPull u = []
    else u_toSet u = [] \<and> u_toPush u = [] \<and> set (u_toUnset u) \<subseteq> fst ` set attrs"
proof -
  obtain v where v: "attrs_loop e action attrs en tenant sp w caV (start_upd loc) = (True, v)"
      "u_toSet u = u_toSet v" "u_toUnset u = u_toUnset v" "u_toPush u = u_toPush v"
      "u_toPull u = u_toPull v @ (if strcaseeq action ''delete'' then pulled attrs (u_deleted v) else [])"
    using processContextAttributeVector_ok [OF assms] by metis
  have "upd_frame action attrs v"
  proof (rule attrs_loop_inv [where P = "upd_frame action attrs", OF _ _ _ v(1)])
    show "upd_frame action attrs u1"
      if "upd_frame action attrs x" "attr_step e action (env_now e w) attrs en ca x = (u1, rca, act, True)" for ca x u1 rca act
      using that by (rule upd_frame_step)
  qed (simp_all add: upd_frame_def start_upd_def)
  moreover have "u_toPull u = u_toPull v" if "strcaseeq action ''update'' \<or> strcaseeq action ''append''"
    using that v(5) action_cases(1) [of action] action_cases(2) [of action] by auto
  ultimately show ?thesis unfolding upd_frame_def v(2-4) by presburger
qed

text \<open>C7: coordinates written to an entity document are always on the globe, provided those stored before were.\<close>

theorem processContextAttributeVector_location:
  assumes "processContextAttributeVector e caV action attrs en tenant sp w (start_upd loc) = (True, u)"
    and "case loc of None \<Rightarrow> True | Some l \<Rightarrow> - 90 \<le> ld_lat l \<and> ld_lat l \<le> 90 \<and> - 180 \<le> ld_long l \<and> ld_long l \<le> 180"
  shows "case up_location (compose_update now u) of LocUnset \<Rightarrow> u_locAttr u = []
    | LocSet l \<Rightarrow> ld_attrName l = u_locAttr u \<and> - 90 \<le> ld_lat l \<and> ld_lat l \<le> 90 \<and> - 180 \<le> ld_long l \<and> ld_long l \<le> 180"
proof -
  obtain v where v: "attrs_loop e action attrs en tenant sp w caV (start_upd loc) = (True, v)"
      "u_locAttr u = u_locAttr v" "u_lat u = u_lat v" "u_long u = u_long v"
    using processContextAttributeVector_ok [OF assms(1)] by metis
  have "loc_ok v"
  proof (rule attrs_loop_inv [where P = loc_ok, OF _ _ _ v(1)])
    show "loc_ok u1" if "loc_ok x" "attr_step e action (env_now e w) attrs en ca x = (u1, rca, act, True)" for ca x u1 rca act
      using that by (rule loc_ok_step)
    show "loc_ok (start_upd loc)" using assms(2) by (simp add: loc_ok_def start_upd_def split: option.splits)
  qed (simp_all add: loc_ok_def)
  then show ?thesis using v(2-4) by (simp add: compose_update_def loc_ok_def)
qed

section \<open>Subscriptions\<close>

lemma add_triggered_distinct: "distinct (map fst subs) \<Longrightarrow> distinct (map fst (add_triggered subs docs))"
  by (induction subs docs rule: add_triggered.induct) (auto simp: map_of_eq_None_iff split: option.splits)

lemma add_triggered_keeps: "map_of subs i = Some t \<Longrightarrow> map_of (add_triggered subs docs) i = Some t"
  by (induction subs docs rule: add_triggered.induct) (auto simp: map_add_Some_iff split: option.splits)

lemma addTriggeredSubscriptions_distinct:
  "addTriggeredSubscriptions e i t a subs tenant sp w = Inr subs' \<Longrightarrow> distinct (map fst subs) \<Longrightarrow> distinct (map fst subs')"
  by (auto simp: addTriggeredSubscriptions_def Let_def add_triggered_distinct split: sum.splits)

lemma attr_step_subs: "attr_step e action now attrs en ca u = (u1, rca, act, ok) \<Longrightarrow> u_subs u1 = u_subs u"
  by (auto simp: attr_step_def attr_update_def attr_append_def attr_delete_def Let_def split: if_splits prod.splits)

lemma attrs_loop_subs_distinct:
  "attrs_loop e action attrs en tenant sp w caV u = (ok, u') \<Longrightarrow> distinct (map fst (u_subs u)) \<Longrightarrow> distinct (map fst (u_subs u'))"
proof (induction caV arbitrary: u)
  case (Cons ca caV)
  obtain u1 rca act ok1 where s: "attr_step e action (env_now e w) attrs en ca u = (u1, rca, act, ok1)"
    by (metis prod_cases4)
  have d: "distinct (map fst (u_subs u1))" using attr_step_subs [OF s] Cons.prems(2) by simp
  show ?case
    using Cons.prems(1) s d Cons.IH addTriggeredSubscriptions_distinct [of e "en_id en" "en_type en" "ca_name rca" "u_subs u1" tenant sp w]
    by (auto simp: Let_def split: if_splits sum.splits)
qed simp

text \<open>However many attributes of an entity a request changes, each subscription is triggered at most once
  for it.\<close>

theorem triggered_once:
  "distinct (map fst (u_subs (snd (processContextAttributeVector e caV action attrs en tenant sp w (start_upd loc)))))"
proof -
  obtain ok v where v: "attrs_loop e action attrs en tenant sp w caV (start_upd loc) = (ok, v)" by fastforce
  have "distinct (map fst (u_subs v))" using attrs_loop_subs_distinct [OF v] by (simp add: start_upd_def)
  then show ?thesis using v by (simp add: processContextAttributeVector_def Let_def)
qed

text \<open>Subscriptions blocked by throttling are neither notified nor updated: if all are, the world is unchanged.\<close>

theorem processSubscriptions_throttled:
  assumes "list_all (\<lambda>(_, t). throttled (env_now e w) t) subs"
  shows "processSubscriptions e en subs tenant token sp w = Ret (True, [], w)"
proof -
  have "processSubscriptions_loop e en tenant token sp xs True [] w = Ret (True, [], w)"
    if "list_all (\<lambda>(_, t). throttled (env_now e w) t) xs" for xs
    using that by (induction xs) auto
  then show ?thesis using assms by (simp add: processSubscriptions_def list_all_iff)
qed

theorem processSubscriptions_throttled_witness:
  "processSubscriptions mem_env (EntityId_new ''E'' [] []) [(''s'', \<lparr>ts_throttling = 60, ts_lastNotification = 990,
     ts_format = JSON, ts_reference = ''u'', ts_attrL = []\<rparr>)] [] [] [] mem_world0 = Ret (True, [], mem_world0)"
  by (rule processSubscriptions_throttled) (simp add: throttled_def mem_env_def mem_world0_def)

text \<open>A throttling of one second is ignored: the tests for an unset value compare with 1 instead of -1, so a
  subscription with throttling 1 is notified again in the second of its last notification.\<close>

theorem throttling_of_one_second_ignored:
  assumes "ts_throttling t = 1"
    and "processOnChangeCondition e [EntityId_new (en_id en) (en_type en) (en_isPattern en)] (ts_attrL t) None i
      (ts_reference t) (ts_format t) tenant token sp w = Ret (True, w1)"
    and "env_updateSub e (getSubscribeContextCollectionName e tenant) i (env_now e w1) w1 = (None, w2)"
  shows "ts_lastNotification t = env_now e w \<Longrightarrow>
    processSubscriptions e en [(i, t)] tenant token sp w = Ret (True, [], w2)"
  using assms by (simp add: processSubscriptions_def throttled_def)

section \<open>Examples\<close>

definition sample_attrs :: "(string \<times> attr_doc) list" where
  "sample_attrs = [(''A'', \<lparr>ad_value = Some (BString ''1''), ad_type = Some ''t'', ad_md = None, ad_creDate = None, ad_modDate = None\<rparr>)]"

definition sample_loc :: loc_doc where
  "sample_loc = \<lparr>ld_attrName = ''pos'', ld_long = 10, ld_lat = 20\<rparr>"

lemmas update_defs = processContextAttributeVector_def attr_step_def attr_update_def updateAttribute_def mergeAttrInfo_def
  effectiveName_def getId_def getLocation_def request_md_def kept_md_def hasMetadata_def bson_str_def valueBson_def
  addTriggeredSubscriptions_def checked_cursor_def start_upd_def setResponseMetadata_def StatusCode_new_def
  StatusCode_fill_def STR_FIELD_def Let_def

lemma strcaseeq_refl [simp]: "strcaseeq a a"
  by (simp add: strcaseeq_def)

lemma sample_update:
  "\<exists>u. processContextAttributeVector mem_env [attr_with_md ''A'' ''t'' ''2'' []] ''update'' sample_attrs
     (EntityId_new ''E1'' [] []) [] [] mem_world0 (start_upd (Some sample_loc)) = (True, u)"
  using action_cases(1) [of "''update''"]
  by (simp add: update_defs attr_with_md_def ContextAttribute_new_def sample_attrs_def dbDotEncode_def mem_env_def
      mem_world0_def sample_loc_def)

theorem processContextAttributeVector_frame_witness:
  "\<exists>u. processContextAttributeVector mem_env [attr_with_md ''A'' ''t'' ''2'' []] ''update'' sample_attrs
     (EntityId_new ''E1'' [] []) [] [] mem_world0 (start_upd (Some sample_loc)) = (True, u) \<and> u_toUnset u = []"
proof -
  obtain u where u: "processContextAttributeVector mem_env [attr_with_md ''A'' ''t'' ''2'' []] ''update'' sample_attrs
     (EntityId_new ''E1'' [] []) [] [] mem_world0 (start_upd (Some sample_loc)) = (True, u)"
    using sample_update by blast
  then show ?thesis using processContextAttributeVector_frame [OF u] by simp
qed

theorem processContextAttributeVector_location_witness:
  "\<exists>u. processContextAttributeVector mem_env [attr_with_md ''A'' ''t'' ''2'' []] ''update'' sample_attrs
     (EntityId_new ''E1'' [] []) [] [] mem_world0 (start_upd (Some sample_loc)) = (True, u) \<and>
     (case up_location (compose_update 5 u) of LocUnset \<Rightarrow> u_locAttr u = [] | LocSet l \<Rightarrow> ld_lat l \<le> 90)"
proof -
  obtain u where u: "processContextAttributeVector mem_env [attr_with_md ''A'' ''t'' ''2'' []] ''update'' sample_attrs
     (EntityId_new ''E1'' [] []) [] [] mem_world0 (start_upd (Some sample_loc)) = (True, u)"
    using sample_update by blast
  have "case Some sample_loc of None \<Rightarrow> True
      | Some l \<Rightarrow> - 90 \<le> ld_lat l \<and> ld_lat l \<le> 90 \<and> - 180 \<le> ld_long l \<and> ld_long l \<le> 180"
    by (simp add: sample_loc_def)
  from u processContextAttributeVector_location [OF u this, of 5] show ?thesis
    by (cases "up_location (compose_update 5 u)") auto
qed

theorem throttling_of_one_second_ignored_witness:
  "\<exists>w2. processSubscriptions mem_env (EntityId_new ''E1'' ''T'' ''false'') [(''s1'', \<lparr>ts_throttling = 1, ts_lastNotification = 1000,
     ts_format = JSON, ts_reference = ''http://u'', ts_attrL = []\<rparr>)] [] [] [] (mem_world0\<lparr>mw_rows := [sample_doc]\<rparr>) = Ret (True, [], w2)"
proof -
  let ?t = "\<lparr>ts_throttling = 1, ts_lastNotification = 1000, ts_format = JSON, ts_reference = ''http://u'', ts_attrL = []\<rparr>"
  obtain w1 where w1: "processOnChangeCondition mem_env [EntityId_new ''E1'' ''T'' ''false''] [] None ''s1'' ''http://u'' JSON [] [] []
     (mem_world0\<lparr>mw_rows := [sample_doc]\<rparr>) = Ret (True, w1)" using sample_notified by blast
  show ?thesis
    by (rule exI, rule throttling_of_one_second_ignored [of ?t mem_env "EntityId_new ''E1'' ''T'' ''false''" "''s1''" "[]" "[]" "[]" _ w1
          "w1\<lparr>mw_touched := mw_touched w1 @ [(''s1'', mw_now w1)]\<rparr>"])
      (use w1 in \<open>simp_all add: EntityId_new_def mem_env_def mem_world0_def\<close>)
qed

section \<open>Requests that change nothing\<close>

lemma first_empty_attr_Some:
  "list_ex (\<lambda>a. ca_value a = [] \<and> ca_compoundValueP a = None) caV \<Longrightarrow> \<exists>a. first_empty_attr caV = Some a"
  by (induction caV) auto

text \<open>C9: a request that names an entity by a pattern, or that updates or appends an attribute with an empty value, is
  answered with one error response and has no effect at all.\<close>

theorem processContextElement_rejects:
  assumes "isTrue (en_isPattern (ce_entityId ce)) \<or>
    (strcaseeq action ''update'' \<or> strcaseeq action ''append'') \<and>
    list_ex (\<lambda>a. ca_value a = [] \<and> ca_compoundValueP a = None) (ce_contextAttributeVector ce)"
  shows "\<exists>cer. processContextElement e ce action tenant sp notExist token w = Ret ([cer], w) \<and>
    sc_code (cer_statusCode cer) =
      (if isTrue (en_isPattern (ce_entityId ce)) then SccNotImplemented else SccInvalidParameter) \<and>
    ce_entityId (cer_contextElement cer) = ce_entityId ce"
proof (cases "isTrue (en_isPattern (ce_entityId ce))")
  case True
  then show ?thesis
    by (simp add: processContextElement_def Let_def buildGeneralErrorResponse_def StatusCode_fill_def)
next
  case False
  then obtain a where "first_empty_attr (ce_contextAttributeVector ce) = Some a"
    using assms first_empty_attr_Some by blast
  with False assms show ?thesis
    by (auto simp: processContextElement_def Let_def buildGeneralErrorResponse_def StatusCode_fill_def)
qed

theorem processContextElement_rejects_witness:
  "\<exists>cer. processContextElement mem_env (ContextElement_new\<lparr>ce_entityId := EntityId_new ''E.*'' ''T'' ''true''\<rparr>) ''APPEND'' [] [] [] [] mem_world0
     = Ret ([cer], mem_world0) \<and> sc_code (cer_statusCode cer) = SccNotImplemented"
  using processContextElement_rejects [of "ContextElement_new\<lparr>ce_entityId := EntityId_new ''E.*'' ''T'' ''true''\<rparr>" "''APPEND''" mem_env "[]" "[]" "[]" "[]" mem_world0]
  by (auto simp: EntityId_new_def isTrue_def)

lemma provider_lookup_status:
  assumes "provider_lookup e tenant sp en attrL cer w = Ret cer'"
  shows "cer_statusCode cer' = cer_statusCode cer \<and>
     ce_entityId (cer_contextElement cer') = ce_entityId (cer_contextElement cer)"
  using assms unfolding provider_lookup_def
  by (cases "registrationsQuery e [en] attrL tenant sp 0 0 w")
    (auto simp: fillContextProviders_def Let_def split: if_splits sum.splits)

lemma searchContextProviders_status:
  "searchContextProviders e tenant sp en caV cer w = Ret cer' \<Longrightarrow>
     cer_statusCode cer' = cer_statusCode cer \<and>
     ce_entityId (cer_contextElement cer') = ce_entityId (cer_contextElement cer)"
  unfolding searchContextProviders_def by (auto simp: cpp_bind_Ret dest!: provider_lookup_status)

text \<open>A request to update or delete an entity that is not stored writes nothing: a delete is answered
  with "No context element found", an update with OK and the providers of its attributes.\<close>

theorem processMissingEntity_no_write:
  assumes "processMissingEntity e ce action tenant sp token w = Ret (cer, w')"
    and "strcaseeq action ''update'' \<or> strcaseeq action ''delete''"
  shows "w' = w \<and> sc_code (cer_statusCode cer) = (if strcaseeq action ''update'' then SccOk else SccContextElementNotFound)"
  using assms by (auto simp: processMissingEntity_def Let_def cpp_bind_Ret StatusCode_fill_def split: if_splits)

theorem processMissingEntity_no_write_witness:
  "\<exists>cer. processMissingEntity mem_env ContextElement_new ''delete'' [] [] [] mem_world0 = Ret (cer, mem_world0) \<and>
     sc_code (cer_statusCode cer) = SccContextElementNotFound"
proof -
  have d: "strcaseeq ''delete'' ''delete''" by simp
  note nu = action_cases(3) [OF d]
  obtain cer w' where c: "processMissingEntity mem_env ContextElement_new ''delete'' [] [] [] mem_world0 = Ret (cer, w')"
    using d nu by (simp add: processMissingEntity_def Let_def)
  from c processMissingEntity_no_write [OF c] d nu show ?thesis by auto
qed

section \<open>Updates without a change\<close>

text \<open>An attribute of a request that the stored entity already has as it is.\<close>

definition no_change :: "int \<Rightarrow> (string \<times> attr_doc) list \<Rightarrow> ContextAttribute \<Rightarrow> bool" where
  "no_change now attrs ca \<longleftrightarrow>
     (case map_of attrs (effectiveName ca) of None \<Rightarrow> False | Some a \<Rightarrow> \<not> fst (mergeAttrInfo now a ca))"

lemma attr_step_no_change:
  assumes "strcaseeq action ''update''" and "no_change now attrs ca" and "\<not> u_modified u"
    and "attr_step e action now attrs en ca u = (u1, rca, act, ok)"
  shows "\<not> u_modified u1" and "\<not> act"
proof -
  have "updateAttribute now attrs (u_toSet u) ca = (True, False, u_toSet u)"
    using assms(2) by (auto simp: no_change_def updateAttribute_def case_prod_unfold split: option.splits)
  with assms show "\<not> u_modified u1" "\<not> act"
    by (auto simp: attr_step_def attr_update_def Let_def split: if_splits prod.splits)
qed

lemma attrs_loop_no_change:
  assumes "strcaseeq action ''update''"
  shows "list_all (no_change (env_now e w) attrs) caV \<Longrightarrow> \<not> u_modified u \<Longrightarrow>
    attrs_loop e action attrs en tenant sp w caV u = (ok, u') \<Longrightarrow> \<not> u_modified u'"
proof (induction caV arbitrary: u)
  case (Cons ca caV)
  obtain u1 rca act ok1 where s: "attr_step e action (env_now e w) attrs en ca u = (u1, rca, act, ok1)"
    by (metis prod_cases4)
  have "\<not> u_modified u1" "\<not> act"
    using attr_step_no_change [OF assms _ Cons.prems(2) s] Cons.prems(1) by auto
  then show ?case
    using Cons.prems(1,3) s Cons.IH [of "u1\<lparr>u_caV := u_caV u1 @ [rca]\<rparr>"] by (auto simp: Let_def split: if_splits)
qed simp

lemma processEntityDoc_unmodified:
  assumes "\<not> (strcaseeq action ''delete'' \<and> ce_contextAttributeVector ce = [])" and "ed_attrs r = Some attrs"
    and "\<not> fst (processContextAttributeVector e (ce_contextAttributeVector ce) action attrs
      (EntityId_new (ed_id r) (STR_FIELD (ed_type r)) ''false'') tenant sp w (start_upd (ed_location r)))"
    and "processEntityDoc e ce action tenant sp token r w = Ret (cer, w')"
  shows "w' = w"
  using assms by (auto simp: processEntityDoc_def Let_def cpp_bind_Ret split: prod.splits)

text \<open>C5: an update whose attributes the stored entity already has, with the same values, types and metadata, writes
  nothing to the database and notifies nobody.\<close>

theorem update_without_change_is_silent:
  assumes "strcaseeq action ''update''" and "ed_attrs r = Some attrs"
    and "list_all (no_change (env_now e w) attrs) (ce_contextAttributeVector ce)"
    and "processEntityDoc e ce action tenant sp token r w = Ret (cer, w')"
  shows "w' = w"
proof (rule processEntityDoc_unmodified [OF _ assms(2) _ assms(4)])
  show "\<not> (strcaseeq action ''delete'' \<and> ce_contextAttributeVector ce = [])" using action_cases(1) [OF assms(1)] by simp
  let ?en = "EntityId_new (ed_id r) (STR_FIELD (ed_type r)) ''false''"
  obtain ok u where u: "attrs_loop e action attrs ?en tenant sp w (ce_contextAttributeVector ce) (start_upd (ed_location r)) = (ok, u)"
    by fastforce
  have "\<not> u_modified u"
    using attrs_loop_no_change [OF assms(1,3) _ u] by (simp add: start_upd_def)
  then show "\<not> fst (processContextAttributeVector e (ce_contextAttributeVector ce) action attrs ?en tenant sp w (start_upd (ed_location r)))"
    using u by (simp add: processContextAttributeVector_def Let_def)
qed

theorem update_without_change_is_silent_witness:
  "\<exists>cer. processEntityDoc mem_env (ContextElement_new\<lparr>ce_contextAttributeVector := [attr_with_md ''A'' ''t'' ''1'' []]\<rparr>) ''update'' [] [] []
     sample_doc mem_world0 = Ret (cer, mem_world0)"
proof -
  let ?ce = "ContextElement_new\<lparr>ce_contextAttributeVector := [attr_with_md ''A'' ''t'' ''1'' []]\<rparr>"
  have a: "ed_attrs sample_doc = Some sample_attrs" by (simp add: sample_doc_def sample_attrs_def)
  have n: "list_all (no_change (env_now mem_env mem_world0) sample_attrs) (ce_contextAttributeVector ?ce)"
    by (simp add: no_change_def sample_attrs_def update_defs attr_with_md_def ContextAttribute_new_def dbDotEncode_def)
  obtain cer w' where c: "processEntityDoc mem_env ?ce ''update'' [] [] [] sample_doc mem_world0 = Ret (cer, w')"
    using action_cases(1) [of "''update''"]
    by (simp add: processEntityDoc_def a sample_attrs_def update_defs attr_with_md_def ContextAttribute_new_def
        dbDotEncode_def mem_env_def mem_world0_def sample_doc_def searchContextProviders_def provider_lookup_def
        someContextElementNotFound_def cer_of_def)
  then show ?thesis using update_without_change_is_silent [OF _ a n c] by simp
qed

section \<open>One response per entity\<close>

lemma docs_loop_length:
  "docs_loop e ce action tenant sp token rs w = Ret (cers, w') \<Longrightarrow> length cers = length (filter (\<lambda>r. r \<noteq> None) rs)"
  by (induction e ce action tenant sp token rs w arbitrary: cers w' rule: docs_loop.induct)
    (auto simp: cpp_bind_Ret)

text \<open>C8: an accepted request gets exactly one response for every entity document found that has an id, or a single
  one when there is no document at all.\<close>

theorem processContextElement_responses:
  assumes "processContextElement e ce action tenant sp notExist token w = Ret (cers, w')"
    and "\<not> isTrue (en_isPattern (ce_entityId ce))"
    and "\<not> list_ex (\<lambda>a. ca_value a = [] \<and> ca_compoundValueP a = None) (ce_contextAttributeVector ce)"
    and "env_findEntities e w (getEntitiesCollectionName e tenant) (element_query e (ce_entityId ce) sp notExist) = DbDocs rs"
  shows "length cers = (if rs = [] then 1 else length (filter (\<lambda>r. r \<noteq> None) rs))"
proof -
  have "first_empty_attr caV = None" if "\<not> list_ex (\<lambda>a. ca_value a = [] \<and> ca_compoundValueP a = None) caV" for caV
    using that by (induction caV) auto
  then have "(if strcaseeq action ''update'' \<or> strcaseeq action ''append''
      then first_empty_attr (ce_contextAttributeVector ce) else None) = None"
    using assms(3) by simp
  then show ?thesis
    using assms(1,2,4) docs_loop_length
    by (auto simp: processContextElement_def Let_def checked_cursor_def cpp_bind_Ret split: if_splits)
qed

theorem processContextElement_responses_witness:
  "\<exists>cers w'. processContextElement mem_env (ContextElement_new\<lparr>ce_entityId := EntityId_new ''E9'' [] []\<rparr>) ''delete'' [] [] [] [] mem_world0 =
     Ret (cers, w') \<and> length cers = 1"
proof -
  let ?ce = "ContextElement_new\<lparr>ce_entityId := EntityId_new ''E9'' [] []\<rparr>"
  have f: "env_findEntities mem_env mem_world0 (getEntitiesCollectionName mem_env []) (element_query mem_env (ce_entityId ?ce) [] []) = DbDocs []"
    by (simp add: mem_env_def mem_world0_def)
  have p: "\<not> isTrue (en_isPattern (ce_entityId ?ce))" by (simp add: EntityId_new_def isTrue_def)
  have em: "\<not> list_ex (\<lambda>a. ca_value a = [] \<and> ca_compoundValueP a = None) (ce_contextAttributeVector ?ce)"
    by (simp add: ContextElement_new_def)
  obtain cers w' where c: "processContextElement mem_env ?ce ''delete'' [] [] [] [] mem_world0 = Ret (cers, w')"
    using action_cases(3) [of "''delete''"] p f
    by (simp add: processContextElement_def checked_cursor_def processMissingEntity_def Let_def)
  then show ?thesis using processContextElement_responses [OF c p em f] by auto
qed

section \<open>What is stored is read back\<close>

text \<open>What a client reads of an attribute with a simple value.\<close>

definition read_back :: "string \<Rightarrow> ContextAttribute \<Rightarrow> ContextAttribute" where
  "read_back locAttr ca =
     (ContextAttribute_new (ca_name ca) (ca_type ca) (ca_value ca) True)\<lparr>ca_metadataVector :=
        (if getId ca \<noteq> [] then [Metadata_new NGSI_MD_ID ''string'' (getId ca)] else [])
      @ (if locAttr = ca_name ca then [Metadata_new NGSI_MD_LOCATION ''string'' ''WGS84''] else [])
      @ map Metadata_copy (filter (\<lambda>md. md_name md \<notin> {''ID'', ''location'', ''creDate'', ''modDate''}) (ca_metadataVector ca))\<rparr>"

definition storable :: "ContextAttribute \<Rightarrow> bool" where
  "storable ca \<longleftrightarrow> plain_name (ca_name ca) \<and> CHR ''='' \<notin> set (ca_name ca) \<and> ca_compoundValueP ca = None"

lemma custom_md_read_back:
  "custom_md_response (contextAttributeCustomMetadataToBson ca) =
     map Metadata_copy (filter (\<lambda>md. md_name md \<notin> {''ID'', ''location'', ''creDate'', ''modDate''}) (ca_metadataVector ca))"
proof -
  have c: "(\<lambda>md. md_name md \<notin> {''ID'', ''location'', ''creDate'', ''modDate''}) = (\<lambda>md. \<not> isNotCustomMetadata (md_name md))"
    by (auto simp: isNotCustomMetadata_def fun_eq_iff)
  show ?thesis unfolding c
    by (simp add: custom_md_response_def contextAttributeCustomMetadataToBson_def Let_def STR_FIELD_def Metadata_copy_def)
qed

lemma attr_read_back:
  assumes "storable ca" and "inc \<or> ca_value ca \<noteq> []"
  shows "attr_response attrL inc locAttr (effectiveName ca) (new_attr_doc now ca) =
    (if includedAttribute (ca_name ca) attrL then Some (read_back locAttr ca) else None)"
proof -
  have n: "dbDotDecode (basePart (effectiveName ca)) = ca_name ca" "idPart (effectiveName ca) = getId ca"
    using assms(1) effectiveName_parts by (auto simp: storable_def)
  have d: "ad_type (new_attr_doc now ca) = Some (ca_type ca)" "ad_value (new_attr_doc now ca) = Some (BString (ca_value ca))"
      "ad_md (new_attr_doc now ca) = contextAttributeCustomMetadataToBson ca"
    using assms(1) by (simp_all add: new_attr_doc_def valueBson_def storable_def)
  show ?thesis
    unfolding attr_response_def n d Let_def custom_md_read_back
    using assms(2) by (auto simp: value_response_def STR_FIELD_def read_back_def)
qed

lemma set_map_filter: "set (List.map_filter f xs) = {y. \<exists>x\<in>set xs. f x = Some y}"
  by (force simp: List.map_filter_def)

lemma attrs_read_back:
  assumes "list_all (\<lambda>ca. storable ca \<and> ca_value ca \<noteq> []) attrsV" and "distinct (map effectiveName attrsV)"
  shows "set (attrs_response [] inc locAttr (the (ed_attrs (new_ent_doc now en attrsV sp loc)))) = read_back locAttr ` set attrsV"
proof -
  let ?attrs = "map (\<lambda>ca. (effectiveName ca, new_attr_doc now ca)) attrsV"
  have dist: "distinct (map fst ?attrs)" using assms(2) by (simp add: comp_def)
  have m: "map_of ?attrs (effectiveName ca) = Some (new_attr_doc now ca)" if "ca \<in> set attrsV" for ca
    using that by (intro map_of_is_SomeI [OF dist]) auto
  have r: "attr_response [] inc locAttr (effectiveName ca) (new_attr_doc now ca) = Some (read_back locAttr ca)" if "ca \<in> set attrsV" for ca
    using that assms(1) attr_read_back [of ca inc "[]" locAttr now] by (auto simp: list_all_iff includedAttribute_def)
  have "the (ed_attrs (new_ent_doc now en attrsV sp loc)) = ?attrs" by (simp add: new_ent_doc_def split: prod.splits)
  then show ?thesis
    using m r by (force simp: attrs_response_def set_map_filter image_image)
qed

section \<open>Names pulled by a delete\<close>

text \<open>After a delete, the name of an attribute is removed from the list of names exactly when the request removed at
  least as many fields of that name as the document has.\<close>

theorem pulled_iff:
  "n \<in> set (pulled attrs del) \<longleftrightarrow>
     (\<exists>k. (n, k) \<in> set del \<and> card {f \<in> fst ` set attrs. basePart f = n} \<le> k)"
proof -
  have "howManyAttrs attrs n = card {f \<in> fst ` set attrs. basePart f = n}" for n
    unfolding howManyAttrs_def using distinct_card [of "filter (\<lambda>f. basePart f = n) (getFieldNames attrs)"] by simp
  then show ?thesis by (force simp: pulled_def)
qed

lemma set_basePart: "set (basePart s) \<subseteq> set s"
  by (auto simp: basePart_def dest: in_set_takeD split: option.splits)

text \<open>For an attribute whose name has a dot the count fails, because stored fields have the dot encoded: deleting one
  of several attributes that share the name by ID always removes the name, although others remain, so that
  queries by that name no longer find the entity.\<close>

theorem dotted_name_always_pulled:
  assumes "CHR ''.'' \<in> set n" and "list_all (\<lambda>(f, _). CHR ''.'' \<notin> set f) attrs" and "(n, k) \<in> set del"
  shows "n \<in> set (pulled attrs del)"
proof -
  have "basePart f \<noteq> n" if "f \<in> fst ` set attrs" for f
    using that assms(1,2) set_basePart [of f] by (fastforce simp: list_all_iff)
  then have "howManyAttrs attrs n = 0" by (auto simp: howManyAttrs_def filter_empty_conv)
  with assms(3) show ?thesis by (force simp: pulled_def)
qed

theorem dotted_name_always_pulled_witness:
  "''a.b'' \<in> set (pulled [(''a=b__1'', new_attr_doc 0 (attr_with_md ''a.b'' [] ''x'' [])), (''a=b__2'', new_attr_doc 0 (attr_with_md ''a.b'' [] ''y'' []))]
     [(''a.b'', 1)])"
  by (rule dotted_name_always_pulled [where k = 1]) simp_all

section \<open>Which document an update reaches\<close>

text \<open>How the database reads a selection, for an expression engine \<open>re\<close>.\<close>

definition sel_match :: "(string \<Rightarrow> string \<Rightarrow> bool) \<Rightarrow> ent_sel \<Rightarrow> ent_doc \<Rightarrow> bool" where
  "sel_match re q d \<longleftrightarrow> ed_id d = se_id q \<and>
     (case se_type q of TypeAny \<Rightarrow> True | TypeIs t \<Rightarrow> ed_type d = Some t | TypeAbsent \<Rightarrow> ed_type d = None) \<and>
     (case se_servicePath q of SpAbsent \<Rightarrow> ed_servicePath d = None | SpIs p \<Rightarrow> ed_servicePath d = Some p
      | SpRe r \<Rightarrow> (case ed_servicePath d of None \<Rightarrow> False | Some p \<Rightarrow> re r p)) \<and>
     (if se_noType q then ed_type d = None else True)"

text \<open>An expression without anchors matches every text that contains it.\<close>

definition re_search_spec :: "(string \<Rightarrow> string \<Rightarrow> bool) \<Rightarrow> bool" where
  "re_search_spec re \<longleftrightarrow> (\<forall>p x. list_all sp_char p \<longrightarrow> (re (esc p) x \<longleftrightarrow> sublist p x))"

definition lit_find :: "string \<Rightarrow> string \<Rightarrow> bool" where
  "lit_find r x = (case r of [] \<Rightarrow> True | c # b \<Rightarrow>
     if c = CHR ''^'' then lit_match_body b x else list_ex (lit_match_body r) (suffixes x))"

lemma lit_find_specs: "re_spec lit_find \<and> re_search_spec lit_find"
proof
  have "lit_find (CHR ''^'' # b) = lit_match (CHR ''^'' # b)" for b
    by (simp add: lit_find_def lit_match_def fun_eq_iff)
  then show "re_spec lit_find" using lit_match_spec by (simp add: re_spec_def)
  have "lit_find (esc p) x \<longleftrightarrow> sublist p x" if p: "list_all sp_char p" for p x
  proof (cases p)
    case (Cons c q)
    have lit: "list_all lit_char p" using p by (rule sp_char_lit)
    then have "c \<noteq> CHR ''^''" using lit_char_plain [of c] Cons by simp
    then have "lit_find (esc p) x \<longleftrightarrow> list_ex (lit_match_body (esc p)) (suffixes x)"
      using Cons by (simp add: lit_find_def)
    also have "\<dots> \<longleftrightarrow> (\<exists>s. suffix s x \<and> prefix p s)"
      using lit_match_body_esc [OF lit, of "[]"] by (auto simp: list_ex_iff)
    also have "\<dots> \<longleftrightarrow> sublist p x" by (auto simp: sublist_def prefix_def suffix_def)
    finally show ?thesis .
  qed (simp add: lit_find_def)
  then show "re_search_spec lit_find" by (simp add: re_search_spec_def)
qed

text \<open>The query that finds the entities of a request selects exactly those of its service path, but the query of the
  update that follows is not anchored: it also selects an entity with the same id and type in any path that
  contains that of the entity, such as a sub-path, so the update may go to the wrong document.\<close>

theorem update_query_not_anchored:
  assumes "re_spec re" and "re_search_spec re"
    and "p \<noteq> []" and "list_all sp_char p" and "length (esc p) + 2 \<le> MAX_SERVICE_NAME_LEN" and "en_type en \<noteq> []"
  shows "(sel_match re (element_query e en [p] []) d \<longleftrightarrow>
       ed_id d = en_id en \<and> ed_type d = Some (en_type en) \<and> ed_servicePath d = Some p) \<and>
    (sel_match re (entity_query e (en_id en) (en_type en) p [p]) d \<longleftrightarrow>
       ed_id d = en_id en \<and> ed_type d = Some (en_type en) \<and>
       (case ed_servicePath d of None \<Rightarrow> False | Some x \<Rightarrow> sublist p x))"
proof -
  have lit: "list_all lit_char p" using assms(4) by (rule sp_char_lit)
  then have "NUL \<notin> set p" using lit_char_plain unfolding list_all_iff by blast
  then have e: "slashEscape p (env_buf0 e) MAX_SERVICE_NAME_LEN = esc p" using slashEscape_eq assms(3,5) by blast
  have "re (''^'' @ esc p @ ''$'') x \<longleftrightarrow> x = p" for x using assms(1) lit unfolding re_spec_def by blast
  moreover have "re (esc p) x \<longleftrightarrow> sublist p x" for x using assms(2,4) unfolding re_search_spec_def by blast
  ultimately show ?thesis
    using assms(6) by (auto simp: element_query_def entity_query_def sel_match_def e entity_type_cond_def split: option.splits)
qed

theorem update_query_not_anchored_witness:
  "sel_match lit_find (entity_query mem_env ''E1'' ''T'' ''/a'' [''/a'']) (sample_doc\<lparr>ed_servicePath := Some ''/a/b''\<rparr>)"
proof -
  have p: "list_all sp_char ''/a''" by (simp add: sp_char_def char_class_defs)
  have "length (esc ''/a'') + 2 \<le> MAX_SERVICE_NAME_LEN" by (simp add: MAX_SERVICE_NAME_LEN_def)
  from update_query_not_anchored [OF conjunct1 [OF lit_find_specs] conjunct2 [OF lit_find_specs] _ p this,
      of "EntityId_new ''E1'' ''T'' []" mem_env "sample_doc\<lparr>ed_servicePath := Some ''/a/b''\<rparr>"]
  show ?thesis by (simp add: EntityId_new_def sample_doc_def)
qed

end
