(* ===== verification/Mongo_Subs.thy ===== *)
theory Mongo_Subs
  imports Mongo_Query Clock_Sem
begin

text \<open>
  Context subscriptions: \<open>mongoSubscribeContext.cpp\<close>, \<open>mongoUpdateContextSubscription.cpp\<close>,
  \<open>mongoUnsubscribeContext.cpp\<close>, \<open>mongoOntimeintervalOperations.cpp\<close> and the recovery of interval
  threads at start-up (\<open>MongoGlobal.cpp\<close>). Each handler takes the request semaphore and gives it
  back on its way out; what it does in between is its body, which also says whether it gave the
  semaphore back. The collection \<open>csubs\<close> is reached through the operations \<open>csub_ops\<close> of the driver.
\<close>

section \<open>Documents, requests and responses\<close>

record csub_doc =
  cs_expiration :: int
  cs_reference :: string
  cs_throttling :: "int option"
  cs_servicePath :: "string option"
  cs_entities :: "(string \<times> string option \<times> string) list"
  cs_attrs :: "string list"
  cs_conditions :: "cond_doc list"
  cs_lastNotification :: "int option"
  cs_count :: "int option"
  cs_format :: "string option"

text \<open>The fields of the document that other parts of the backend read.\<close>

definition csub_view :: "string \<Rightarrow> csub_doc \<Rightarrow> sub_doc" where
  "csub_view i d = \<lparr>sd_id = Some i, sd_throttling = cs_throttling d, sd_lastNotification = cs_lastNotification d,
     sd_format = cs_format d, sd_reference = cs_reference d,
     sd_entities = map (\<lambda>(i, t, p). (i, STR_FIELD t, p)) (cs_entities d), sd_attrs = cs_attrs d\<rparr>"

record SubscribeContextRequest =
  scq_entityIdVector :: "EntityId list"
  scq_attributeList :: "string list"
  scq_reference :: string
  scq_duration :: Duration
  scq_notifyConditionVector :: "NotifyCondition list"
  scq_throttling :: Throttling

record UpdateContextSubscriptionRequest =
  ucs_duration :: Duration
  ucs_subscriptionId :: string
  ucs_notifyConditionVector :: "NotifyCondition list"
  ucs_throttling :: Throttling

record SubscribeResponse =
  sr_subscriptionId :: string
  sr_duration :: Duration
  sr_throttling :: Throttling

record SubscribeContextResponse =
  scr_subscribeResponse :: SubscribeResponse
  scr_errorCode :: StatusCode

definition SubscribeContextResponse_new :: SubscribeContextResponse where
  "SubscribeContextResponse_new =
     \<lparr>scr_subscribeResponse = \<lparr>sr_subscriptionId = [], sr_duration = Duration_new, sr_throttling = Throttling_new\<rparr>,
      scr_errorCode = StatusCode_new\<rparr>"

record ContextSubscriptionInfo =
  csi_entityIdVector :: "EntityId list"
  csi_attributeList :: "string list"
  csi_url :: string
  csi_format :: Format
  csi_lastNotification :: int
  csi_expiration :: int
  csi_throttling :: int

section \<open>The collection of subscriptions\<close>

datatype csub_found = CsThrow string | CsNone | CsDoc csub_doc

text \<open>
  \<open>co_badOid\<close>: the text of the exception that a malformed id raises in the driver. Exceptions of the
  other operations carry their text. \<open>co_queryIntervals\<close> returns, for the subscriptions with a
  condition of type \<open>ONTIMEINTERVAL\<close>, their \<open>_id\<close> and \<open>conditions\<close> fields.
\<close>

record 'w csub_ops =
  co_newOid :: "'w \<Rightarrow> string \<times> 'w"
  co_badOid :: "string \<Rightarrow> string option"
  co_findOne :: "'w \<Rightarrow> string \<Rightarrow> string \<Rightarrow> csub_found"
  co_insert :: "string \<Rightarrow> string \<Rightarrow> csub_doc \<Rightarrow> 'w \<Rightarrow> string option \<times> 'w"
  co_update :: "string \<Rightarrow> string \<Rightarrow> csub_doc \<Rightarrow> 'w \<Rightarrow> string option \<times> 'w"
  co_remove :: "string \<Rightarrow> string \<Rightarrow> 'w \<Rightarrow> string option \<times> 'w"
  co_queryIntervals :: "'w \<Rightarrow> string \<Rightarrow> (string option \<times> cond_doc list option) list db_cursor"
  co_destroyThreads :: "string \<Rightarrow> 'w \<Rightarrow> 'w"
  co_show :: "csub_doc \<Rightarrow> string"

section \<open>Handlers under the request semaphore\<close>

text \<open>\<open>None\<close>: the thread waits for the semaphore. \<open>clk\<close> holds the readings of the clock around the wait.\<close>

definition with_reqSem ::
  "timespec \<times> timespec \<Rightarrow> SemRequestType \<Rightarrow> ('w \<Rightarrow> ('r \<times> bool \<times> 'w) cpp) \<Rightarrow> sem_state \<Rightarrow> 'w \<Rightarrow> ('r \<times> sem_state \<times> 'w) cpp option" where
  "with_reqSem clk reqType body s w =
     (case reqSemTake False (fst clk) (snd clk) reqType s of
        None \<Rightarrow> None
      | Some (_, taken, s1) \<Rightarrow>
          Some (cpp_bind (body w) (\<lambda>(r, gives, w').
            Ret (r, if gives then snd (reqSemGive taken s1) else s1, w'))))"

section \<open>Subscribing\<close>

definition DEFAULT_DURATION :: string where
  "DEFAULT_DURATION = ''PT24H''"

definition subscribe_doc ::
  "SubscribeContextRequest \<Rightarrow> int \<Rightarrow> int \<Rightarrow> string \<Rightarrow> string \<Rightarrow> cond_doc list \<Rightarrow> bool \<Rightarrow> int \<Rightarrow> csub_doc" where
  "subscribe_doc req expiration throttling servicePath notifyFormatAsString conds notificationDone now =
     \<lparr>cs_expiration = expiration,
      cs_reference = scq_reference req,
      cs_throttling = (if \<not> Throttling_isEmpty (scq_throttling req) then Some throttling else None),
      cs_servicePath = (if servicePath \<noteq> [] then Some servicePath else None),
      cs_entities = map (\<lambda>en. if en_type en = [] then (en_id en, None, en_isPattern en)
                              else (en_id en, Some (en_type en), en_isPattern en)) (scq_entityIdVector req),
      cs_attrs = scq_attributeList req,
      cs_conditions = conds,
      cs_lastNotification = (if notificationDone then Some now else None),
      cs_count = (if notificationDone then Some 1 else None),
      cs_format = Some notifyFormatAsString\<rparr>"

definition subscribe_body ::
  "'w env \<Rightarrow> 'w csub_ops \<Rightarrow> SubscribeContextRequest \<Rightarrow> string \<Rightarrow> string \<Rightarrow> string \<Rightarrow> string list
   \<Rightarrow> 'w \<Rightarrow> (SubscribeContextResponse \<times> bool \<times> 'w) cpp" where
  "subscribe_body e ops req tenant notifyFormatAsString xauthToken servicePathV w =
     (let notifyFormat = stringToFormat notifyFormatAsString;
          servicePath = (case servicePathV of [] \<Rightarrow> [] | p # _ \<Rightarrow> p);
          duration1 = (if Duration_isEmpty (scq_duration req) then Duration_set (scq_duration req) DEFAULT_DURATION
                       else scq_duration req);
          (secs, duration2) = Duration_parse duration1;
          expiration = env_now e w + secs;
          (oid, w1) = co_newOid ops w;
          (throttling, throttling2) =
            (if \<not> Throttling_isEmpty (scq_throttling req) then Throttling_parse (scq_throttling req)
             else (0, scq_throttling req));
          col = getSubscribeContextCollectionName e tenant
      in cpp_bind (processConditionVector e (scq_notifyConditionVector req) (scq_entityIdVector req)
             (scq_attributeList req) oid (scq_reference req) notifyFormat tenant xauthToken servicePathV False w1)
           (\<lambda>(conds, notificationDone, w2).
              let subDoc = subscribe_doc req expiration throttling servicePath notifyFormatAsString conds
                             notificationDone (env_now e w2)
              in case co_insert ops col oid subDoc w2 of
                   (Some what, w3) \<Rightarrow>
                     Ret (SubscribeContextResponse_new\<lparr>scr_errorCode := StatusCode_fill SccReceiverInternalError
                            (''collection: '' @ col @ '' - insert(): '' @ co_show ops subDoc @ '' - exception: '' @ what)\<rparr>,
                          True, w3)
                 | (None, w3) \<Rightarrow>
                     Ret (SubscribeContextResponse_new\<lparr>scr_subscribeResponse :=
                            \<lparr>sr_subscriptionId = oid, sr_duration = duration2, sr_throttling = throttling2\<rparr>\<rparr>,
                          True, w3)))"

definition mongoSubscribeContext ::
  "'w env \<Rightarrow> 'w csub_ops \<Rightarrow> timespec \<times> timespec \<Rightarrow> SubscribeContextRequest \<Rightarrow> string \<Rightarrow> string \<Rightarrow> string \<Rightarrow> string list
   \<Rightarrow> sem_state \<Rightarrow> 'w \<Rightarrow> (SubscribeContextResponse \<times> sem_state \<times> 'w) cpp option" where
  "mongoSubscribeContext e ops clk req tenant notifyFormatAsString xauthToken servicePathV =
     with_reqSem clk SemWriteOp (subscribe_body e ops req tenant notifyFormatAsString xauthToken servicePathV)"

section \<open>Updating a subscription\<close>

definition formatToString :: "Format \<Rightarrow> string" where
  "formatToString format = (case format of XML \<Rightarrow> ''XML'' | JSON \<Rightarrow> ''JSON'' | TEXT \<Rightarrow> ''TEXT'' | HTML \<Rightarrow> ''HTML'' | NOFORMAT \<Rightarrow> ''NOFORMAT'')"

text \<open>The document that replaces \<open>sub\<close>; \<open>conds\<close> are the new conditions, if the request has any.\<close>

definition updated_sub ::
  "UpdateContextSubscriptionRequest \<Rightarrow> Format \<Rightarrow> csub_doc \<Rightarrow> int \<Rightarrow> cond_doc list option \<Rightarrow> bool \<Rightarrow> int \<Rightarrow> csub_doc" where
  "updated_sub req notifyFormat sub now conds notificationDone now2 =
     (let count = (case cs_count sub of Some c \<Rightarrow> c | None \<Rightarrow> 0)
      in \<lparr>cs_expiration = (if Duration_isEmpty (ucs_duration req) then cs_expiration sub
                           else now + fst (Duration_parse (ucs_duration req))),
          cs_reference = cs_reference sub,
          cs_throttling =
            (if \<not> Throttling_isEmpty (ucs_throttling req)
             then let throttling = fst (Throttling_parse (ucs_throttling req))
                  in if throttling \<noteq> 0 then Some throttling else None
             else cs_throttling sub),
          cs_servicePath = None,
          cs_entities = cs_entities sub,
          cs_attrs = cs_attrs sub,
          cs_conditions = (case conds of None \<Rightarrow> cs_conditions sub | Some cs \<Rightarrow> cs),
          cs_lastNotification = (if notificationDone then Some now2 else cs_lastNotification sub),
          cs_count = (if notificationDone then Some (count + 1)
                      else case cs_count sub of Some _ \<Rightarrow> Some count | None \<Rightarrow> None),
          cs_format = Some (formatToString notifyFormat)\<rparr>)"

definition update_response :: "UpdateContextSubscriptionRequest \<Rightarrow> SubscribeContextResponse" where
  "update_response req =
     (let r0 = scr_subscribeResponse SubscribeContextResponse_new;
          r1 = (if \<not> Duration_isEmpty (ucs_duration req)
                then r0\<lparr>sr_duration := snd (Duration_parse (ucs_duration req))\<rparr> else r0);
          r2 = (if \<not> Throttling_isEmpty (ucs_throttling req)
                then r1\<lparr>sr_throttling := snd (Throttling_parse (ucs_throttling req))\<rparr> else r1)
      in SubscribeContextResponse_new\<lparr>scr_subscribeResponse := r2\<lparr>sr_subscriptionId := ucs_subscriptionId req\<rparr>\<rparr>)"

definition sub_error :: "HttpStatusCode \<Rightarrow> string \<Rightarrow> SubscribeContextResponse" where
  "sub_error code details = SubscribeContextResponse_new\<lparr>scr_errorCode := StatusCode_fill code details\<rparr>"

definition update_conditions ::
  "'w env \<Rightarrow> 'w csub_ops \<Rightarrow> UpdateContextSubscriptionRequest \<Rightarrow> Format \<Rightarrow> string \<Rightarrow> string \<Rightarrow> string list \<Rightarrow> csub_doc
   \<Rightarrow> 'w \<Rightarrow> (cond_doc list option \<times> bool \<times> 'w) cpp" where
  "update_conditions e ops req notifyFormat tenant xauthToken servicePathV sub w =
     (let subId = ucs_subscriptionId req
      in if ucs_notifyConditionVector req = [] then Ret (None, False, w)
         else cpp_bind
                (processConditionVector e (ucs_notifyConditionVector req)
                   (subToEntityIdVector (csub_view subId sub)) (subToAttributeList (csub_view subId sub))
                   subId (c_str (cs_reference sub)) notifyFormat tenant xauthToken servicePathV False
                   (co_destroyThreads ops subId w))
                (\<lambda>(conds, notificationDone, w1). Ret (Some conds, notificationDone, w1)))"

definition update_sub_body ::
  "'w env \<Rightarrow> 'w csub_ops \<Rightarrow> UpdateContextSubscriptionRequest \<Rightarrow> Format \<Rightarrow> string \<Rightarrow> string \<Rightarrow> string list
   \<Rightarrow> 'w \<Rightarrow> (SubscribeContextResponse \<times> bool \<times> 'w) cpp" where
  "update_sub_body e ops req notifyFormat tenant xauthToken servicePathV w =
     (let subId = ucs_subscriptionId req;
          col = getSubscribeContextCollectionName e tenant
      in if co_badOid ops subId \<noteq> None then Ret (sub_error SccContextElementNotFound [], True, w)
         else case co_findOne ops w col subId of
           CsThrow what \<Rightarrow>
             Ret (sub_error SccReceiverInternalError
                    (''collection: '' @ col @ '' - findOne() _id: '' @ subId @ '' - exception: '' @ what), True, w)
         | CsNone \<Rightarrow> Ret (sub_error SccContextElementNotFound [], True, w)
         | CsDoc sub \<Rightarrow>
             cpp_bind (update_conditions e ops req notifyFormat tenant xauthToken servicePathV sub w)
               (\<lambda>(conds, notificationDone, w1).
                  let update = updated_sub req notifyFormat sub (env_now e w) conds notificationDone (env_now e w1)
                  in case co_update ops col subId update w1 of
                       (Some what, w2) \<Rightarrow>
                         Ret (sub_error SccReceiverInternalError
                                (''collection: '' @ col @ '' - update() _id: '' @ c_str subId @ '' - update() doc: ''
                                 @ co_show ops update @ '' - exception: '' @ what), True, w2)
                     | (None, w2) \<Rightarrow> Ret (update_response req, True, w2)))"

definition mongoUpdateContextSubscription ::
  "'w env \<Rightarrow> 'w csub_ops \<Rightarrow> timespec \<times> timespec \<Rightarrow> UpdateContextSubscriptionRequest \<Rightarrow> Format \<Rightarrow> string \<Rightarrow> string \<Rightarrow> string list
   \<Rightarrow> sem_state \<Rightarrow> 'w \<Rightarrow> (SubscribeContextResponse \<times> sem_state \<times> 'w) cpp option" where
  "mongoUpdateContextSubscription e ops clk req notifyFormat tenant xauthToken servicePathV =
     with_reqSem clk SemWriteOp (update_sub_body e ops req notifyFormat tenant xauthToken servicePathV)"

section \<open>Unsubscribing\<close>

record UnsubscribeContextResponse =
  unr_statusCode :: StatusCode
  unr_subscriptionId :: string

text \<open>The return for an empty id is the one that leaves the semaphore taken.\<close>

definition unsubscribe_body ::
  "'w env \<Rightarrow> 'w csub_ops \<Rightarrow> string \<Rightarrow> string \<Rightarrow> 'w \<Rightarrow> (UnsubscribeContextResponse \<times> bool \<times> 'w) cpp" where
  "unsubscribe_body e ops subId tenant w =
     (let col = getSubscribeContextCollectionName e tenant;
          answer = (\<lambda>code details. \<lparr>unr_statusCode = StatusCode_fill code details, unr_subscriptionId = subId\<rparr>)
      in if subId = [] then Ret (answer SccContextElementNotFound [], False, w)
         else if co_badOid ops subId \<noteq> None then Ret (answer SccContextElementNotFound [], True, w)
         else case co_findOne ops w col subId of
           CsThrow what \<Rightarrow>
             Ret (answer SccReceiverInternalError
                    (''collection: '' @ col @ '' - findOne() _id: '' @ subId @ '' - exception: '' @ what), True, w)
         | CsNone \<Rightarrow> Ret (answer SccContextElementNotFound (''subscriptionId: /'' @ subId @ ''/''), True, w)
         | CsDoc sub \<Rightarrow>
             (case co_remove ops col subId w of
                (Some what, w1) \<Rightarrow>
                  Ret (answer SccReceiverInternalError
                         (''collection: '' @ col @ '' - remove() _id: '' @ c_str subId @ '' - exception: '' @ what), True, w1)
              | (None, w1) \<Rightarrow> Ret (answer SccOk [], True, co_destroyThreads ops subId w1)))"

definition mongoUnsubscribeContext ::
  "'w env \<Rightarrow> 'w csub_ops \<Rightarrow> timespec \<times> timespec \<Rightarrow> string \<Rightarrow> string \<Rightarrow> sem_state \<Rightarrow> 'w
   \<Rightarrow> (UnsubscribeContextResponse \<times> sem_state \<times> 'w) cpp option" where
  "mongoUnsubscribeContext e ops clk subId tenant =
     with_reqSem clk SemWriteOp (unsubscribe_body e ops subId tenant)"

section \<open>Interval subscriptions\<close>

text \<open>
  \<open>getIntField\<close> narrows the time of the last notification to an \<open>int\<close>. The texts of a stored document
  are taken as free of zero bytes, at which \<open>STR_FIELD\<close> would cut them: they come from the C strings of the
  request parsers.
\<close>

definition info_of :: "csub_doc \<Rightarrow> ContextSubscriptionInfo" where
  "info_of sub =
     \<lparr>csi_entityIdVector = map (\<lambda>(i, t, p). EntityId_new i (STR_FIELD t) p) (cs_entities sub),
      csi_attributeList = cs_attrs sub,
      csi_url = cs_reference sub,
      csi_format = (case cs_format sub of Some f \<Rightarrow> stringToFormat f | None \<Rightarrow> XML),
      csi_lastNotification = (case cs_lastNotification sub of Some t \<Rightarrow> wrap32 t | None \<Rightarrow> - 1),
      csi_expiration = cs_expiration sub,
      csi_throttling = (case cs_throttling sub of Some t \<Rightarrow> t | None \<Rightarrow> - 1)\<rparr>"

text \<open>The result is the information found, if any, and the text written to \<open>*err\<close>, if any.\<close>

definition info_body ::
  "'w env \<Rightarrow> 'w csub_ops \<Rightarrow> string \<Rightarrow> string \<Rightarrow> 'w \<Rightarrow> ((ContextSubscriptionInfo option \<times> string option) \<times> bool \<times> 'w) cpp" where
  "info_body e ops subId tenant w =
     (case co_badOid ops subId of
        Some what \<Rightarrow> Ret ((None, Some what), True, w)
      | None \<Rightarrow>
          (case co_findOne ops w (getSubscribeContextCollectionName e tenant) subId of
             CsThrow what \<Rightarrow> Ret ((None, Some what), True, w)
           | CsNone \<Rightarrow> Ret ((None, None), True, w)
           | CsDoc sub \<Rightarrow> Ret ((Some (info_of sub), None), True, w)))"

definition mongoGetContextSubscriptionInfo ::
  "'w env \<Rightarrow> 'w csub_ops \<Rightarrow> timespec \<times> timespec \<Rightarrow> string \<Rightarrow> string \<Rightarrow> sem_state \<Rightarrow> 'w
   \<Rightarrow> ((ContextSubscriptionInfo option \<times> string option) \<times> sem_state \<times> 'w) cpp option" where
  "mongoGetContextSubscriptionInfo e ops clk subId tenant =
     with_reqSem clk SemReadOp (info_body e ops subId tenant)"

text \<open>A query that fails leaves its text in \<open>*err\<close> (\<open>Inl\<close>).\<close>

definition element_responses_body ::
  "'w env \<Rightarrow> EntityId list \<Rightarrow> string list \<Rightarrow> string \<Rightarrow> 'w \<Rightarrow> ((string + ContextElementResponse list) \<times> bool \<times> 'w) cpp" where
  "element_responses_body e enV attrL tenant w =
     cpp_bind (entitiesQuery e enV attrL [] True tenant [] DEFAULT_PAGINATION_OFFSET_INT DEFAULT_PAGINATION_LIMIT_INT w)
       (\<lambda>r. case r of
          Inl err \<Rightarrow> Ret (Inl err, True, w)
        | Inr rawCerV \<Rightarrow> Ret (Inr (pruneContextElements rawCerV []), True, w))"

definition mongoGetContextElementResponses ::
  "'w env \<Rightarrow> timespec \<times> timespec \<Rightarrow> EntityId list \<Rightarrow> string list \<Rightarrow> string \<Rightarrow> sem_state \<Rightarrow> 'w
   \<Rightarrow> ((string + ContextElementResponse list) \<times> sem_state \<times> 'w) cpp option" where
  "mongoGetContextElementResponses e clk enV attrL tenant =
     with_reqSem clk SemReadOp (element_responses_body e enV attrL tenant)"

text \<open>\<open>Inl\<close>: the exception of a malformed id, which is raised outside of the \<open>try\<close> block and leaves
  the function without giving the semaphore back.\<close>

definition new_notification_body ::
  "'w env \<Rightarrow> 'w csub_ops \<Rightarrow> string \<Rightarrow> string \<Rightarrow> 'w \<Rightarrow> ((string + HttpStatusCode \<times> string) \<times> bool \<times> 'w) cpp" where
  "new_notification_body e ops subId tenant w =
     (case co_badOid ops subId of
        Some what \<Rightarrow> Ret (Inl what, False, w)
      | None \<Rightarrow>
          (case env_updateSub e (getSubscribeContextCollectionName e tenant) subId (env_now e w) w of
             (Some what, w1) \<Rightarrow> Ret (Inr (SccReceiverInternalError, what), True, w1)
           | (None, w1) \<Rightarrow> Ret (Inr (SccOk, []), True, w1)))"

definition mongoUpdateCsubNewNotification ::
  "'w env \<Rightarrow> 'w csub_ops \<Rightarrow> timespec \<times> timespec \<Rightarrow> string \<Rightarrow> string \<Rightarrow> sem_state \<Rightarrow> 'w
   \<Rightarrow> ((string + HttpStatusCode \<times> string) \<times> sem_state \<times> 'w) cpp option" where
  "mongoUpdateCsubNewNotification e ops clk subId tenant =
     with_reqSem clk SemWriteOp (new_notification_body e ops subId tenant)"

section \<open>Interval threads at start-up\<close>

definition treatOnTimeIntervalSubscriptions ::
  "'w env \<Rightarrow> 'w csub_ops \<Rightarrow> string \<Rightarrow> (string option \<times> cond_doc list option \<Rightarrow> 'w \<Rightarrow> 'w) \<Rightarrow> 'w \<Rightarrow> 'w" where
  "treatOnTimeIntervalSubscriptions e ops tenant treatFunction w =
     (case checked_cursor (co_queryIntervals ops w (getSubscribeContextCollectionName e tenant)) of
        Inl what \<Rightarrow> w
      | Inr subs \<Rightarrow> fold treatFunction subs w)"

fun recover_condition :: "'w env \<Rightarrow> string \<Rightarrow> string \<Rightarrow> cond_doc \<Rightarrow> 'w \<Rightarrow> 'w" where
  "recover_condition e tenant subId (CondInterval interval) w = env_createIntervalThread e subId (wrap32 interval) tenant w"
| "recover_condition e tenant subId (CondChange _) w = w"

fun recoverOnTimeIntervalThread :: "'w env \<Rightarrow> string \<Rightarrow> string option \<times> cond_doc list option \<Rightarrow> 'w \<Rightarrow> 'w" where
  "recoverOnTimeIntervalThread e tenant (None, _) w = w"
| "recoverOnTimeIntervalThread e tenant (Some subId, None) w = w"
| "recoverOnTimeIntervalThread e tenant (Some subId, Some condV) w = fold (recover_condition e tenant subId) condV w"

definition recoverOntimeIntervalThreads :: "'w env \<Rightarrow> 'w csub_ops \<Rightarrow> string \<Rightarrow> 'w \<Rightarrow> 'w" where
  "recoverOntimeIntervalThreads e ops tenant =
     treatOnTimeIntervalSubscriptions e ops tenant (recoverOnTimeIntervalThread e tenant)"

fun destroyOnTimeIntervalThread :: "'w csub_ops \<Rightarrow> string option \<times> cond_doc list option \<Rightarrow> 'w \<Rightarrow> 'w" where
  "destroyOnTimeIntervalThread ops (None, _) w = w"
| "destroyOnTimeIntervalThread ops (Some subId, _) w = co_destroyThreads ops subId w"

definition destroyAllOntimeIntervalThreads :: "'w env \<Rightarrow> 'w csub_ops \<Rightarrow> string \<Rightarrow> 'w \<Rightarrow> 'w" where
  "destroyAllOntimeIntervalThreads e ops tenant =
     treatOnTimeIntervalSubscriptions e ops tenant (destroyOnTimeIntervalThread ops)"

section \<open>The request semaphore is given back\<close>

locale sem_handler =
  fixes body :: "'w \<Rightarrow> ('r \<times> bool \<times> 'w) cpp"
  assumes gives: "body w = Ret (r, g, w') \<Longrightarrow> g"
begin

lemma sem_kept:
  assumes "with_reqSem clk reqType body s w = Some (Ret (r, s', w'))"
  shows "reqSem s' = reqSem s" "reqPolicy s' = reqPolicy s"
proof -
  obtain q taken s1 where t: "reqSemTake False (fst clk) (snd clk) reqType s = Some (q, taken, s1)"
    using assms by (auto simp: with_reqSem_def split: option.splits)
  then obtain g where "body w = Ret (r, g, w')" "s' = (if g then snd (reqSemGive taken s1) else s1)"
    using assms by (auto simp: with_reqSem_def cpp_bind_Ret_iff)
  moreover from this(1) have g by (rule gives)
  ultimately have "s' = snd (reqSemGive taken s1)" by simp
  then show "reqSem s' = reqSem s" "reqPolicy s' = reqPolicy s"
    using reqSemTake_cases[OF t] by (auto simp: reqSemGive_def)
qed

lemma next_enters:
  assumes "with_reqSem clk reqType body s w = Some (Ret (r, s', w'))" "0 < reqSem s"
  shows "reqSemTake False t0 t1 q s' \<noteq> None"
  using sem_kept[OF assms(1)] assms(2) by (auto simp: reqSemTake_def sem_wait_def Let_def)

end

definition request_duration :: "SubscribeContextRequest \<Rightarrow> Duration" where
  "request_duration req =
     (if Duration_isEmpty (scq_duration req) then Duration_set (scq_duration req) DEFAULT_DURATION else scq_duration req)"

lemma subscribe_bodyE:
  assumes "subscribe_body e ops req tenant fmt token sp w = Ret (r, g, w')"
  obtains oid w1 conds dn w2 x where
    "co_newOid ops w = (oid, w1)"
    "processConditionVector e (scq_notifyConditionVector req) (scq_entityIdVector req)
       (scq_attributeList req) oid (scq_reference req) (stringToFormat fmt) tenant token sp False w1 = Ret (conds, dn, w2)"
    "co_insert ops (getSubscribeContextCollectionName e tenant) oid
       (subscribe_doc req (env_now e w + fst (Duration_parse (request_duration req)))
          (if \<not> Throttling_isEmpty (scq_throttling req) then fst (Throttling_parse (scq_throttling req)) else 0)
          (case sp of [] \<Rightarrow> [] | p # _ \<Rightarrow> p) fmt conds dn (env_now e w2)) w2 = (x, w')"
    "g" "x = None \<Longrightarrow> scr_errorCode r = StatusCode_new \<and> sr_subscriptionId (scr_subscribeResponse r) = oid"
    "x \<noteq> None \<Longrightarrow> sc_code (scr_errorCode r) = SccReceiverInternalError"
proof -
  obtain oid w1 where o: "co_newOid ops w = (oid, w1)" by (cases "co_newOid ops w")
  obtain secs d2 where d: "Duration_parse (request_duration req) = (secs, d2)" by (cases "Duration_parse (request_duration req)")
  obtain t t2 where t: "(if \<not> Throttling_isEmpty (scq_throttling req) then Throttling_parse (scq_throttling req)
      else (0, scq_throttling req)) = (t, t2)" by fastforce
  note b = assms[unfolded subscribe_body_def Let_def, folded request_duration_def, unfolded o d t prod.case cpp_bind_Ret_iff]
  obtain conds dn w2 where p: "processConditionVector e (scq_notifyConditionVector req) (scq_entityIdVector req)
       (scq_attributeList req) oid (scq_reference req) (stringToFormat fmt) tenant token sp False w1 = Ret (conds, dn, w2)"
    using b by auto
  have t': "(if \<not> Throttling_isEmpty (scq_throttling req) then fst (Throttling_parse (scq_throttling req)) else 0) = t"
    using t by (auto split: if_splits)
  let ?doc = "subscribe_doc req (env_now e w + secs) t (case sp of [] \<Rightarrow> [] | p # _ \<Rightarrow> p) fmt conds dn (env_now e w2)"
  obtain x w3 where i: "co_insert ops (getSubscribeContextCollectionName e tenant) oid ?doc w2 = (x, w3)" by fastforce
  have "w3 = w' \<and> g \<and> (x = None \<longrightarrow> scr_errorCode r = StatusCode_new \<and> sr_subscriptionId (scr_subscribeResponse r) = oid)
    \<and> (x \<noteq> None \<longrightarrow> sc_code (scr_errorCode r) = SccReceiverInternalError)"
    using b p i by (cases x) (auto simp: SubscribeContextResponse_new_def StatusCode_fill_def)
  then show thesis using that[OF o p, unfolded t' d fst_conv, of x] i by simp
qed

interpretation subscribe_h: sem_handler "subscribe_body e ops req tenant fmt token sp"
  by unfold_locales (erule subscribe_bodyE)

lemma update_sub_bodyE:
  assumes "update_sub_body e ops req fmt tenant token sp w = Ret (r, g, w')"
  obtains (refused) "w' = w" "g" "sc_code (scr_errorCode r) \<noteq> SccNone"
  | (found) sub conds dn w1 x where
    "co_findOne ops w (getSubscribeContextCollectionName e tenant) (ucs_subscriptionId req) = CsDoc sub"
    "update_conditions e ops req fmt tenant token sp sub w = Ret (conds, dn, w1)"
    "co_update ops (getSubscribeContextCollectionName e tenant) (ucs_subscriptionId req)
       (updated_sub req fmt sub (env_now e w) conds dn (env_now e w1)) w1 = (x, w')"
    "g" "x = None \<Longrightarrow> scr_errorCode r = StatusCode_new" "x \<noteq> None \<Longrightarrow> sc_code (scr_errorCode r) = SccReceiverInternalError"
proof (cases "co_badOid ops (ucs_subscriptionId req) = None")
  case False
  then show thesis using assms refused by (auto simp: update_sub_body_def Let_def sub_error_def StatusCode_fill_def)
next
  case True
  let ?id = "ucs_subscriptionId req" and ?col = "getSubscribeContextCollectionName e tenant"
  show thesis
  proof (cases "co_findOne ops w ?col ?id")
    case (CsThrow what)
    then show thesis using True assms refused by (auto simp: update_sub_body_def Let_def sub_error_def StatusCode_fill_def)
  next
    case CsNone
    then show thesis using True assms refused by (auto simp: update_sub_body_def Let_def sub_error_def StatusCode_fill_def)
  next
    case (CsDoc sub)
    obtain conds dn w1 where c: "update_conditions e ops req fmt tenant token sp sub w = Ret (conds, dn, w1)"
      using assms True CsDoc by (cases "update_conditions e ops req fmt tenant token sp sub w") (auto simp: update_sub_body_def Let_def)
    obtain x w2 where x: "co_update ops ?col ?id (updated_sub req fmt sub (env_now e w) conds dn (env_now e w1)) w1 = (x, w2)"
      by fastforce
    have "w2 = w' \<and> g \<and> (x = None \<longrightarrow> scr_errorCode r = StatusCode_new)
      \<and> (x \<noteq> None \<longrightarrow> sc_code (scr_errorCode r) = SccReceiverInternalError)"
      using assms True CsDoc c x
      by (cases x) (auto simp: update_sub_body_def sub_error_def StatusCode_fill_def update_response_def
          SubscribeContextResponse_new_def Let_def)
    then show thesis using found[OF CsDoc c] x by simp
  qed
qed

interpretation update_h: sem_handler "update_sub_body e ops req fmt tenant token sp"
  by unfold_locales (erule update_sub_bodyE)

interpretation info_h: sem_handler "info_body e ops subId tenant"
  by unfold_locales (auto simp: info_body_def split: option.splits csub_found.splits)

interpretation responses_h: sem_handler "element_responses_body e enV attrL tenant"
proof unfold_locales
  fix w r g w'
  assume "element_responses_body e enV attrL tenant w = Ret (r, g, w')"
  then obtain x where "(case x of Inl err \<Rightarrow> Ret (Inl err, True, w)
      | Inr rawCerV \<Rightarrow> Ret (Inr (pruneContextElements rawCerV []), True, w)) = Ret (r, g, w')"
    by (auto simp: element_responses_body_def cpp_bind_Ret_iff)
  then show g by (cases x) auto
qed


section \<open>What the database does\<close>

text \<open>
  What is relied upon: \<open>subs\<close> gives the subscriptions stored, by collection and id. An operation that
  succeeds does what it says, one that fails does nothing, new ids are well-formed, and nothing else
  used here touches the subscriptions.
\<close>

definition csub_laws :: "'w env \<Rightarrow> 'w csub_ops \<Rightarrow> ('w \<Rightarrow> string \<Rightarrow> string \<Rightarrow> csub_doc option) \<Rightarrow> bool" where
  "csub_laws e ops subs \<longleftrightarrow>
     (\<forall>w col i. (\<exists>x. co_findOne ops w col i = CsThrow x) \<or>
        co_findOne ops w col i = (case subs w col i of None \<Rightarrow> CsNone | Some d \<Rightarrow> CsDoc d)) \<and>
     (\<forall>w col i d. subs (snd (co_insert ops col i d w)) =
        (if fst (co_insert ops col i d w) = None then (subs w)(col := (subs w col)(i \<mapsto> d)) else subs w)) \<and>
     (\<forall>w col i d. subs w col i \<noteq> None \<longrightarrow> subs (snd (co_update ops col i d w)) =
        (if fst (co_update ops col i d w) = None then (subs w)(col := (subs w col)(i \<mapsto> d)) else subs w)) \<and>
     (\<forall>w col i. subs (snd (co_remove ops col i w)) =
        (if fst (co_remove ops col i w) = None then (subs w)(col := (subs w col)(i := None)) else subs w)) \<and>
     (\<forall>w. subs (snd (co_newOid ops w)) = subs w \<and> co_badOid ops (fst (co_newOid ops w)) = None) \<and>
     (\<forall>w i. subs (co_destroyThreads ops i w) = subs w) \<and>
     (\<forall>w n. subs (env_sendNotify e n w) = subs w) \<and>
     (\<forall>w i t tenant. subs (env_createIntervalThread e i t tenant w) = subs w)"

lemma csub_lawsD:
  assumes "csub_laws e ops subs"
  shows "co_findOne ops w col i = CsDoc d \<Longrightarrow> subs w col i = Some d"
    "co_findOne ops w col i = CsNone \<Longrightarrow> subs w col i = None"
    "co_insert ops col i d w = (x, w') \<Longrightarrow> subs w' = (if x = None then (subs w)(col := (subs w col)(i \<mapsto> d)) else subs w)"
    "co_update ops col i d w = (x, w') \<Longrightarrow> subs w col i \<noteq> None
       \<Longrightarrow> subs w' = (if x = None then (subs w)(col := (subs w col)(i \<mapsto> d)) else subs w)"
    "co_remove ops col i w = (x, w') \<Longrightarrow> subs w' = (if x = None then (subs w)(col := (subs w col)(i := None)) else subs w)"
    "co_newOid ops w = (i, w') \<Longrightarrow> subs w' = subs w \<and> co_badOid ops i = None"
    "subs (co_destroyThreads ops i w) = subs w"
    "subs (env_sendNotify e n w) = subs w"
    "subs (env_createIntervalThread e i t tenant w) = subs w"
proof -
  note l = assms[unfolded csub_laws_def]
  have f: "(\<exists>x. co_findOne ops w col i = CsThrow x) \<or>
        co_findOne ops w col i = (case subs w col i of None \<Rightarrow> CsNone | Some d \<Rightarrow> CsDoc d)"
    using l[THEN conjunct1, rule_format] .
  show "co_findOne ops w col i = CsDoc d \<Longrightarrow> subs w col i = Some d"
    "co_findOne ops w col i = CsNone \<Longrightarrow> subs w col i = None"
    using f by (auto split: option.splits)
  show "co_insert ops col i d w = (x, w') \<Longrightarrow> subs w' = (if x = None then (subs w)(col := (subs w col)(i \<mapsto> d)) else subs w)"
    using l by (metis fst_conv snd_conv)
  show "co_update ops col i d w = (x, w') \<Longrightarrow> subs w col i \<noteq> None
       \<Longrightarrow> subs w' = (if x = None then (subs w)(col := (subs w col)(i \<mapsto> d)) else subs w)"
    using l by (metis fst_conv snd_conv)
  show "co_remove ops col i w = (x, w') \<Longrightarrow> subs w' = (if x = None then (subs w)(col := (subs w col)(i := None)) else subs w)"
    using l by (metis fst_conv snd_conv)
  show "co_newOid ops w = (i, w') \<Longrightarrow> subs w' = subs w \<and> co_badOid ops i = None"
    using l by (metis fst_conv snd_conv)
  show "subs (co_destroyThreads ops i w) = subs w" "subs (env_sendNotify e n w) = subs w"
    "subs (env_createIntervalThread e i t tenant w) = subs w"
    using l by auto
qed

lemma processConditionVector_subs:
  assumes "csub_laws e ops subs"
  shows "processConditionVector e ncv enV attrL subId url format tenant token sp dn w = Ret (conds, dn', w') \<Longrightarrow> subs w' = subs w"
proof (induction ncv arbitrary: dn w conds)
  case (Cons nc ncv)
  show ?case
  proof (cases "nc_type nc = ''ONCHANGE''")
    case True
    then obtain sent w1 where o1: "processOnChangeCondition e enV attrL (Some (nc_condValueList nc)) subId url format tenant token sp w = Ret (sent, w1)"
      and "\<exists>c. processConditionVector e ncv enV attrL subId url format tenant token sp (sent \<or> dn) w1 = Ret (c, dn', w')"
      using Cons.prems by (auto simp: cpp_bind_Ret_iff)
    then show ?thesis
      using Cons.IH processOnChangeCondition_sent[OF o1] csub_lawsD(8)[OF assms] by (cases sent) auto
  next
    case False
    then show ?thesis using Cons.prems Cons.IH csub_lawsD(9)[OF assms]
      by (cases "nc_type nc = ''ONTIMEINTERVAL''") (fastforce simp: cpp_bind_Ret_iff Let_def)+
  qed
qed simp


section \<open>Subscribing, updating and unsubscribing\<close>

lemma with_reqSem_Ret:
  assumes "with_reqSem clk q body s w = Some (Ret (r, s', w'))"
  obtains g where "body w = Ret (r, g, w')"
  using assms by (auto simp: with_reqSem_def cpp_bind_Ret_iff split: option.splits)

text \<open>The document stored for a subscription, up to the conditions and the initial notification.\<close>

lemma subscribed_doc:
  assumes "csub_laws e ops subs"
    and "mongoSubscribeContext e ops clk req tenant fmt token sp s w = Some (Ret (resp, s', w'))"
    and "sc_code (scr_errorCode resp) = SccNone"
  obtains conds dn now where
    "subs w' = (subs w)(getSubscribeContextCollectionName e tenant :=
       (subs w (getSubscribeContextCollectionName e tenant))(sr_subscriptionId (scr_subscribeResponse resp) \<mapsto>
         subscribe_doc req (env_now e w + fst (Duration_parse (request_duration req)))
          (if \<not> Throttling_isEmpty (scq_throttling req) then fst (Throttling_parse (scq_throttling req)) else 0)
          (case sp of [] \<Rightarrow> [] | p # _ \<Rightarrow> p) fmt conds dn now))"
    "co_badOid ops (sr_subscriptionId (scr_subscribeResponse resp)) = None"
proof -
  obtain g where b: "subscribe_body e ops req tenant fmt token sp w = Ret (resp, g, w')"
    using with_reqSem_Ret[OF assms(2)[unfolded mongoSubscribeContext_def]] .
  obtain oid w1 conds dn w2 x where o: "co_newOid ops w = (oid, w1)"
    and p: "processConditionVector e (scq_notifyConditionVector req) (scq_entityIdVector req)
       (scq_attributeList req) oid (scq_reference req) (stringToFormat fmt) tenant token sp False w1 = Ret (conds, dn, w2)"
    and i: "co_insert ops (getSubscribeContextCollectionName e tenant) oid
       (subscribe_doc req (env_now e w + fst (Duration_parse (request_duration req)))
          (if \<not> Throttling_isEmpty (scq_throttling req) then fst (Throttling_parse (scq_throttling req)) else 0)
          (case sp of [] \<Rightarrow> [] | p # _ \<Rightarrow> p) fmt conds dn (env_now e w2)) w2 = (x, w')"
    and r: "x = None \<Longrightarrow> scr_errorCode resp = StatusCode_new \<and> sr_subscriptionId (scr_subscribeResponse resp) = oid"
      "x \<noteq> None \<Longrightarrow> sc_code (scr_errorCode resp) = SccReceiverInternalError"
    using subscribe_bodyE[OF b] by metis
  have "x = None" using assms(3) r(2) by (cases x) auto
  then show thesis
    using that[of conds dn "env_now e w2"] csub_lawsD(3)[OF assms(1) i] csub_lawsD(6)[OF assms(1) o]
      processConditionVector_subs[OF assms(1) p] r(1) by simp
qed

text \<open>C33: A subscription that is accepted can be read back under the id of the response: entities,
  attributes, reference, throttling, expiration (24 hours when the request gives no duration) and
  format are those of the request; all other subscriptions are as they were.\<close>

theorem subscribe_info_roundtrip:
  assumes "csub_laws e ops subs"
    and "mongoSubscribeContext e ops clk req tenant fmt token sp s w = Some (Ret (resp, s', w'))"
    and "sc_code (scr_errorCode resp) = SccNone"
    and "mongoGetContextSubscriptionInfo e ops clk' (sr_subscriptionId (scr_subscribeResponse resp)) tenant s' w'
           = Some (Ret ((info, None), s'', w''))"
  shows "\<exists>i. info = Some i
    \<and> csi_entityIdVector i = map (\<lambda>en. EntityId_new (en_id en) (en_type en) (en_isPattern en)) (scq_entityIdVector req)
    \<and> csi_attributeList i = scq_attributeList req \<and> csi_url i = scq_reference req \<and> csi_format i = stringToFormat fmt
    \<and> csi_expiration i = env_now e w + (if Duration_isEmpty (scq_duration req) then parse8601 DEFAULT_DURATION
                                        else parse8601 (dur_string (scq_duration req)))
    \<and> csi_throttling i = (if Throttling_isEmpty (scq_throttling req) then - 1 else parse8601 (thr_string (scq_throttling req)))
    \<and> (\<forall>col j. (col, j) \<noteq> (getSubscribeContextCollectionName e tenant, sr_subscriptionId (scr_subscribeResponse resp))
         \<longrightarrow> subs w' col j = subs w col j)"
proof -
  obtain conds dn now where d: "subs w' = (subs w)(getSubscribeContextCollectionName e tenant :=
       (subs w (getSubscribeContextCollectionName e tenant))(sr_subscriptionId (scr_subscribeResponse resp) \<mapsto>
         subscribe_doc req (env_now e w + fst (Duration_parse (request_duration req)))
          (if \<not> Throttling_isEmpty (scq_throttling req) then fst (Throttling_parse (scq_throttling req)) else 0)
          (case sp of [] \<Rightarrow> [] | p # _ \<Rightarrow> p) fmt conds dn now))"
    and ok: "co_badOid ops (sr_subscriptionId (scr_subscribeResponse resp)) = None"
    using subscribed_doc[OF assms(1-3)] by metis
  obtain g where "info_body e ops (sr_subscriptionId (scr_subscribeResponse resp)) tenant w' = Ret ((info, None), g, w'')"
    using with_reqSem_Ret[OF assms(4)[unfolded mongoGetContextSubscriptionInfo_def]] .
  then have "info = Some (info_of (subscribe_doc req (env_now e w + fst (Duration_parse (request_duration req)))
          (if \<not> Throttling_isEmpty (scq_throttling req) then fst (Throttling_parse (scq_throttling req)) else 0)
          (case sp of [] \<Rightarrow> [] | p # _ \<Rightarrow> p) fmt conds dn now))"
    using ok d csub_lawsD(1,2)[OF assms(1), of w'] by (fastforce simp: info_body_def split: csub_found.splits)
  then show ?thesis
    using d by (auto simp: info_of_def subscribe_doc_def request_duration_def Duration_parse_def Duration_set_def
        Throttling_parse_def STR_FIELD_def Let_def EntityId_new_def)
qed

text \<open>An update of a subscription never changes its entities, attributes or reference, nor any other
  subscription; it extends the expiration only if the request has a duration, and throttling of zero
  seconds removes the throttling. When it answers with an error nothing is changed.\<close>

theorem update_subscription_spec:
  assumes "csub_laws e ops subs"
    and "mongoUpdateContextSubscription e ops clk req fmt tenant token sp s w = Some (Ret (resp, s', w'))"
  shows "if sc_code (scr_errorCode resp) = SccNone then
      \<exists>d d'. subs w (getSubscribeContextCollectionName e tenant) (ucs_subscriptionId req) = Some d
        \<and> subs w' = (subs w)(getSubscribeContextCollectionName e tenant :=
             (subs w (getSubscribeContextCollectionName e tenant))(ucs_subscriptionId req \<mapsto> d'))
        \<and> cs_entities d' = cs_entities d \<and> cs_attrs d' = cs_attrs d \<and> cs_reference d' = cs_reference d
        \<and> cs_expiration d' = (if Duration_isEmpty (ucs_duration req) then cs_expiration d
                              else env_now e w + parse8601 (dur_string (ucs_duration req)))
        \<and> cs_throttling d' = (if Throttling_isEmpty (ucs_throttling req) then cs_throttling d
                              else if parse8601 (thr_string (ucs_throttling req)) = 0 then None
                              else Some (parse8601 (thr_string (ucs_throttling req))))
        \<and> (ucs_notifyConditionVector req = [] \<longrightarrow> cs_conditions d' = cs_conditions d
             \<and> cs_lastNotification d' = cs_lastNotification d \<and> cs_count d' = cs_count d)
    else subs w' = subs w"
proof -
  let ?col = "getSubscribeContextCollectionName e tenant" and ?id = "ucs_subscriptionId req"
  obtain g where "update_sub_body e ops req fmt tenant token sp w = Ret (resp, g, w')"
    using with_reqSem_Ret[OF assms(2)[unfolded mongoUpdateContextSubscription_def]] .
  then show ?thesis
  proof (cases rule: update_sub_bodyE)
    case refused
    then show ?thesis by simp
  next
    case (found sub conds dn w1 x)
    have w1: "subs w1 = subs w" "ucs_notifyConditionVector req = [] \<Longrightarrow> conds = None \<and> \<not> dn"
      using found(2) processConditionVector_subs[OF assms(1)] csub_lawsD(7)[OF assms(1)]
      by (auto simp: update_conditions_def Let_def cpp_bind_Ret_iff split: if_splits)
    have d: "subs w ?col ?id = Some sub" using csub_lawsD(1)[OF assms(1) found(1)] .
    have w': "subs w' = (if x = None then (subs w)(?col := (subs w ?col)(?id \<mapsto>
         updated_sub req fmt sub (env_now e w) conds dn (env_now e w1))) else subs w)"
      using csub_lawsD(4)[OF assms(1) found(3)] w1(1) d by simp
    show ?thesis
    proof (cases "x = None")
      case True
      then have "sc_code (scr_errorCode resp) = SccNone" using found(5) by (simp add: StatusCode_new_def)
      then show ?thesis using True w' d w1(2)
        by (auto simp: updated_sub_def Let_def Duration_parse_def Throttling_parse_def split: option.splits)
    next
      case False
      then show ?thesis using w' found(6) by (cases x) auto
    qed
  qed
qed

text \<open>An update of a subscription loses its service path: the new document is built from an empty
  one and the field is not copied, so from then on the subscription is matched as one without a path.\<close>

theorem update_drops_service_path:
  assumes "csub_laws e ops subs"
    and "mongoUpdateContextSubscription e ops clk req fmt tenant token sp s w = Some (Ret (resp, s', w'))"
    and "sc_code (scr_errorCode resp) = SccNone"
  shows "\<exists>d. subs w' (getSubscribeContextCollectionName e tenant) (ucs_subscriptionId req) = Some d \<and> cs_servicePath d = None"
proof -
  obtain g where "update_sub_body e ops req fmt tenant token sp w = Ret (resp, g, w')"
    using with_reqSem_Ret[OF assms(2)[unfolded mongoUpdateContextSubscription_def]] .
  then show ?thesis
  proof (cases rule: update_sub_bodyE)
    case refused
    then show ?thesis using assms(3) by simp
  next
    case (found sub conds dn w1 x)
    then have "x = None" using assms(3) by (cases x) auto
    moreover have "subs w1 = subs w"
      using found(2) processConditionVector_subs[OF assms(1)] csub_lawsD(7)[OF assms(1)]
      by (auto simp: update_conditions_def Let_def cpp_bind_Ret_iff split: if_splits)
    ultimately show ?thesis
      using csub_lawsD(4)[OF assms(1) found(3)] csub_lawsD(1)[OF assms(1) found(1)]
      by (simp add: updated_sub_def Let_def)
  qed
qed

text \<open>Unsubscribing answers OK exactly when the subscription was there and is now removed; with any
  other answer all subscriptions are as they were.\<close>

theorem unsubscribe_spec:
  assumes "csub_laws e ops subs"
    and "mongoUnsubscribeContext e ops clk subId tenant s w = Some (Ret (resp, s', w'))"
  shows "if sc_code (unr_statusCode resp) = SccOk
    then subs w (getSubscribeContextCollectionName e tenant) subId \<noteq> None
       \<and> subs w' = (subs w)(getSubscribeContextCollectionName e tenant :=
            (subs w (getSubscribeContextCollectionName e tenant))(subId := None))
    else subs w' = subs w"
proof -
  obtain g where b: "unsubscribe_body e ops subId tenant w = Ret (resp, g, w')"
    using with_reqSem_Ret[OF assms(2)[unfolded mongoUnsubscribeContext_def]] .
  let ?col = "getSubscribeContextCollectionName e tenant"
  obtain x w1 where r: "co_remove ops ?col subId w = (x, w1)" by fastforce
  show ?thesis
    using b r csub_lawsD(1)[OF assms(1), of w ?col subId] csub_lawsD(5)[OF assms(1) r] csub_lawsD(7)[OF assms(1)]
    by (cases "co_findOne ops w ?col subId"; cases x)
       (auto simp: unsubscribe_body_def Let_def StatusCode_fill_def split: if_splits)
qed


section \<open>The semaphore after each operation\<close>

text \<open>Subscribing, updating a subscription and reading one leave the request semaphore as they found
  it, on every path; so the next request of any kind can enter.\<close>

theorem subscription_handlers_give_back:
  "(mongoSubscribeContext e ops clk req tenant fmt token sp s w = Some (Ret (resp, s1, w1)) \<longrightarrow> reqSem s1 = reqSem s)
   \<and> (mongoUpdateContextSubscription e ops clk ureq ufmt tenant token sp s w = Some (Ret (uresp, s2, w2)) \<longrightarrow> reqSem s2 = reqSem s)
   \<and> (mongoGetContextSubscriptionInfo e ops clk subId tenant s w = Some (Ret (i, s3, w3)) \<longrightarrow> reqSem s3 = reqSem s)
   \<and> (mongoGetContextElementResponses e clk enV attrL tenant s w = Some (Ret (c, s4, w4)) \<longrightarrow> reqSem s4 = reqSem s)"
  unfolding mongoSubscribeContext_def mongoUpdateContextSubscription_def mongoGetContextSubscriptionInfo_def
    mongoGetContextElementResponses_def
  by (intro conjI impI;
      erule subscribe_h.sem_kept(1) update_h.sem_kept(1) info_h.sem_kept(1) responses_h.sem_kept(1))

text \<open>C40: An unsubscription with an empty id keeps the request semaphore: when the policy serialises
  writes, every later request to subscribe, update a subscription or unsubscribe waits for ever.\<close>

theorem unsubscribe_empty_id_blocks:
  assumes "reqPolicy s = SemReadWriteOp \<or> reqPolicy s = SemWriteOp" "reqSem s = 1"
  shows "\<exists>resp s'. mongoUnsubscribeContext e ops clk [] tenant s w = Some (Ret (resp, s', w))
    \<and> mongoSubscribeContext e ops clk req tenant fmt token sp s' w' = None
    \<and> mongoUpdateContextSubscription e ops clk ureq ufmt tenant token sp s' w' = None
    \<and> mongoUnsubscribeContext e ops clk subId tenant s' w' = None"
proof -
  obtain q s' where t: "reqSemTake False (fst clk) (snd clk) SemWriteOp s = Some (q, True, s')"
    "reqSem s' = 0" "reqPolicy s' = reqPolicy s"
    using assms by (auto simp: reqSemTake_def sem_wait_def Let_def)
  have "reqSemTake False (fst clk) (snd clk) SemWriteOp s' = None"
    using assms(1) t(2,3) by (auto simp: reqSemTake_def sem_wait_def)
  then show ?thesis using t(1)
    by (simp add: mongoUnsubscribeContext_def mongoSubscribeContext_def mongoUpdateContextSubscription_def
        with_reqSem_def unsubscribe_body_def Let_def)
qed

section \<open>Interval threads\<close>

text \<open>The interval threads of a subscription survive a restart: recovering from the stored conditions
  creates the same threads as processing the conditions of the request did.\<close>

theorem interval_threads_recovered:
  assumes "processConditionVector e ncv enV attrL subId url format tenant token sp False w = Ret (conds, dn, w')"
    and "\<forall>nc\<in>set ncv. nc_type nc \<noteq> ''ONCHANGE''"
    and "\<forall>t. CondInterval t \<in> set conds \<longrightarrow> - (2 ^ 31) \<le> t \<and> t < 2 ^ 31"
  shows "recoverOnTimeIntervalThread e tenant (Some subId, Some conds) w = w'"
proof -
  have "fold (recover_condition e tenant subId) conds w = w'"
    if "processConditionVector e ncv enV attrL subId url format tenant token sp dn0 w = Ret (conds, dn, w')" for dn0
    using that assms(2,3)
  proof (induction ncv arbitrary: w conds)
    case (Cons nc ncv)
    show ?case
    proof (cases "nc_type nc = ''ONTIMEINTERVAL''")
      case True
      then obtain interval conds' where c: "conds = CondInterval interval # conds'"
        and p: "processConditionVector e ncv enV attrL subId url format tenant token sp dn0
          (env_createIntervalThread e subId interval tenant w) = Ret (conds', dn, w')"
        using Cons.prems(1) by (auto simp: cpp_bind_Ret_iff Let_def)
      have "wrap32 interval = interval" using Cons.prems(3) c by (intro wrap32_id) auto
      then show ?thesis using Cons.IH[OF p] Cons.prems c by simp
    next
      case False
      then show ?thesis using Cons.IH Cons.prems by simp
    qed
  qed simp
  then show ?thesis using assms(1) by simp
qed

section \<open>Subscriptions in memory\<close>

record sub_mem =
  sm_base :: mem_world
  sm_subs :: "(string \<times> string) \<rightharpoonup> csub_doc"
  sm_next :: nat

definition sub_env :: "sub_mem env" where
  "sub_env = lift_env sm_base (\<lambda>b v. v\<lparr>sm_base := b\<rparr>) mem_env"

definition sub_ops :: "sub_mem csub_ops" where
  "sub_ops =
     \<lparr>co_newOid = (\<lambda>w. (replicate (sm_next w) (CHR ''a''), w\<lparr>sm_next := sm_next w + 1\<rparr>)),
      co_badOid = (\<lambda>i. if i = ''bad'' then Some ''malformed id'' else None),
      co_findOne = (\<lambda>w col i. case sm_subs w (col, i) of None \<Rightarrow> CsNone | Some d \<Rightarrow> CsDoc d),
      co_insert = (\<lambda>col i d w. (None, w\<lparr>sm_subs := (sm_subs w)((col, i) \<mapsto> d)\<rparr>)),
      co_update = (\<lambda>col i d w. (None, w\<lparr>sm_subs := (sm_subs w)((col, i) \<mapsto> d)\<rparr>)),
      co_remove = (\<lambda>col i w. (None, w\<lparr>sm_subs := (sm_subs w)((col, i) := None)\<rparr>)),
      co_queryIntervals = (\<lambda>w col. DbDocs []),
      co_destroyThreads = (\<lambda>i w. w),
      co_show = (\<lambda>d. [])\<rparr>"


definition sub_view :: "sub_mem \<Rightarrow> string \<Rightarrow> string \<Rightarrow> csub_doc option" where
  "sub_view w col i = sm_subs w (col, i)"

lemma replicate_not_bad: "replicate n (CHR ''a'') \<noteq> ''bad''"
  by (cases n) auto

lemma sub_mem_laws: "csub_laws sub_env sub_ops sub_view"
  by (auto simp: csub_laws_def sub_env_def sub_ops_def sub_view_def lift_env_def fun_eq_iff replicate_not_bad)

definition sub_world0 :: sub_mem where
  "sub_world0 = \<lparr>sm_base = mem_world0, sm_subs = Map.empty, sm_next = 3\<rparr>"

definition sub_req0 :: SubscribeContextRequest where
  "sub_req0 = \<lparr>scq_entityIdVector = [EntityId_new ''E1'' ''T'' ''false''], scq_attributeList = [''A''],
     scq_reference = ''http://u'', scq_duration = Duration_new, scq_notifyConditionVector = [], scq_throttling = Throttling_new\<rparr>"

definition sub_doc0 :: csub_doc where
  "sub_doc0 = subscribe_doc sub_req0 (1000 + parse8601 DEFAULT_DURATION) 0 ''/a'' ''JSON'' [] False 1000"

definition sub_world1 :: sub_mem where
  "sub_world1 = sub_world0\<lparr>sm_next := 4, sm_subs := [(''orion.csubs'', ''aaa'') \<mapsto> sub_doc0]\<rparr>"

definition clk0 :: "timespec \<times> timespec" where
  "clk0 = (time_zero, time_zero)"

definition upd_req0 :: UpdateContextSubscriptionRequest where
  "upd_req0 = \<lparr>ucs_duration = Duration_new, ucs_subscriptionId = ''aaa'', ucs_notifyConditionVector = [], ucs_throttling = Throttling_new\<rparr>"

lemma csubs_col0: "getSubscribeContextCollectionName sub_env [] = ''orion.csubs''"
  by (simp add: getSubscribeContextCollectionName_def sub_env_def lift_env_def mem_env_def composeCollectionName_def composeDatabaseName_def)

lemma take_running:
  "reqSemTake False (fst clk0) (snd clk0) SemWriteOp sem_running = Some (0, True, sem_running\<lparr>reqSem := 0\<rparr>)"
  "reqSemTake False (fst clk0) (snd clk0) SemReadOp sem_running = Some (- 1, False, sem_running)"
  "reqSemGive True (sem_running\<lparr>reqSem := 0\<rparr>) = (0, sem_running)"
  by (simp_all add: reqSemTake_def sem_wait_def sem_running_def sem_start_def reqSemGive_def clk0_def)

lemma sub_now0: "env_now sub_env w = mw_now (sm_base w)"
  by (simp add: sub_env_def lift_env_def mem_env_def)

lemma subscribed0:
  "\<exists>resp. mongoSubscribeContext sub_env sub_ops clk0 sub_req0 [] ''JSON'' [] [''/a''] sem_running sub_world0
      = Some (Ret (resp, sem_running, sub_world1))
     \<and> sc_code (scr_errorCode resp) = SccNone \<and> sr_subscriptionId (scr_subscribeResponse resp) = ''aaa''"
  by (simp add: mongoSubscribeContext_def with_reqSem_def take_running subscribe_body_def csubs_col0 sub_req0_def
      Duration_isEmpty_def Duration_new_def Throttling_isEmpty_def Throttling_new_def Duration_set_def Duration_parse_def
      sub_now0 sub_ops_def sub_world0_def sub_world1_def sub_doc0_def mem_world0_def SubscribeContextResponse_new_def
      StatusCode_new_def numeral_3_eq_3 Let_def)

lemma info0:
  "\<exists>i. mongoGetContextSubscriptionInfo sub_env sub_ops clk0 ''aaa'' [] sem_running sub_world1
      = Some (Ret ((i, None), sem_running, sub_world1))"
  by (simp add: mongoGetContextSubscriptionInfo_def with_reqSem_def take_running info_body_def csubs_col0
      sub_ops_def sub_world1_def reqSemGive_def)

lemma updated0:
  "\<exists>resp w'. mongoUpdateContextSubscription sub_env sub_ops clk0 upd_req0 JSON [] [] [''/a''] sem_running sub_world1
      = Some (Ret (resp, sem_running, w')) \<and> sc_code (scr_errorCode resp) = SccNone"
  by (simp add: mongoUpdateContextSubscription_def with_reqSem_def take_running update_sub_body_def csubs_col0
      sub_ops_def sub_world1_def update_conditions_def update_response_def upd_req0_def SubscribeContextResponse_new_def StatusCode_new_def
      sub_world0_def Let_def)

lemma unsubscribed0:
  "\<exists>resp w'. mongoUnsubscribeContext sub_env sub_ops clk0 ''aaa'' [] sem_running sub_world1
      = Some (Ret (resp, sem_running, w')) \<and> sc_code (unr_statusCode resp) = SccOk"
  by (simp add: mongoUnsubscribeContext_def with_reqSem_def take_running unsubscribe_body_def csubs_col0
      sub_ops_def sub_world1_def StatusCode_fill_def sub_world0_def Let_def)

theorem subscribe_info_roundtrip_witness:
  "\<exists>i. mongoGetContextSubscriptionInfo sub_env sub_ops clk0 ''aaa'' [] sem_running sub_world1
      = Some (Ret ((Some i, None), sem_running, sub_world1)) \<and> csi_url i = ''http://u'' \<and> csi_attributeList i = [''A'']"
proof -
  obtain resp where r: "mongoSubscribeContext sub_env sub_ops clk0 sub_req0 [] ''JSON'' [] [''/a''] sem_running sub_world0
      = Some (Ret (resp, sem_running, sub_world1))" "sc_code (scr_errorCode resp) = SccNone"
    "sr_subscriptionId (scr_subscribeResponse resp) = ''aaa''" using subscribed0 by blast
  obtain i where i: "mongoGetContextSubscriptionInfo sub_env sub_ops clk0 ''aaa'' [] sem_running sub_world1
      = Some (Ret ((i, None), sem_running, sub_world1))" using info0 by blast
  show ?thesis using subscribe_info_roundtrip[OF sub_mem_laws r(1,2), unfolded r(3), OF i] i by (auto simp: sub_req0_def)
qed

theorem update_subscription_spec_witness:
  "\<exists>resp w' d'. mongoUpdateContextSubscription sub_env sub_ops clk0 upd_req0 JSON [] [] [''/a''] sem_running sub_world1
      = Some (Ret (resp, sem_running, w')) \<and> sub_view w' ''orion.csubs'' ''aaa'' = Some d' \<and> cs_reference d' = ''http://u''"
proof -
  obtain resp w' where r: "mongoUpdateContextSubscription sub_env sub_ops clk0 upd_req0 JSON [] [] [''/a''] sem_running sub_world1
      = Some (Ret (resp, sem_running, w'))" "sc_code (scr_errorCode resp) = SccNone" using updated0 by blast
  have "sub_view sub_world1 ''orion.csubs'' ''aaa'' = Some sub_doc0" by (simp add: sub_view_def sub_world1_def)
  then show ?thesis
    using update_subscription_spec[OF sub_mem_laws r(1), unfolded csubs_col0] r
    by (auto simp: upd_req0_def sub_doc0_def subscribe_doc_def sub_req0_def)
qed

theorem update_drops_service_path_witness:
  "\<exists>resp w' d'. cs_servicePath sub_doc0 = Some ''/a'' \<and>
     mongoUpdateContextSubscription sub_env sub_ops clk0 upd_req0 JSON [] [] [''/a''] sem_running sub_world1
      = Some (Ret (resp, sem_running, w')) \<and> sub_view w' ''orion.csubs'' ''aaa'' = Some d' \<and> cs_servicePath d' = None"
proof -
  obtain resp w' where r: "mongoUpdateContextSubscription sub_env sub_ops clk0 upd_req0 JSON [] [] [''/a''] sem_running sub_world1
      = Some (Ret (resp, sem_running, w'))" "sc_code (scr_errorCode resp) = SccNone" using updated0 by blast
  have "cs_servicePath sub_doc0 = Some ''/a''" by (simp add: sub_doc0_def subscribe_doc_def)
  then show ?thesis
    using update_drops_service_path[OF sub_mem_laws r, unfolded csubs_col0] r by (auto simp: upd_req0_def)
qed

theorem unsubscribe_spec_witness:
  "\<exists>resp w'. mongoUnsubscribeContext sub_env sub_ops clk0 ''aaa'' [] sem_running sub_world1
      = Some (Ret (resp, sem_running, w')) \<and> sub_view w' ''orion.csubs'' ''aaa'' = None"
proof -
  obtain resp w' where r: "mongoUnsubscribeContext sub_env sub_ops clk0 ''aaa'' [] sem_running sub_world1
      = Some (Ret (resp, sem_running, w'))" "sc_code (unr_statusCode resp) = SccOk" using unsubscribed0 by blast
  show ?thesis using unsubscribe_spec[OF sub_mem_laws r(1), unfolded csubs_col0] r by auto
qed

theorem subscription_handlers_give_back_witness:
  "\<exists>resp s1 w1. mongoSubscribeContext sub_env sub_ops clk0 sub_req0 [] ''JSON'' [] [''/a''] sem_running sub_world0
      = Some (Ret (resp, s1, w1)) \<and> reqSem s1 = 1"
proof -
  obtain resp where r: "mongoSubscribeContext sub_env sub_ops clk0 sub_req0 [] ''JSON'' [] [''/a''] sem_running sub_world0
      = Some (Ret (resp, sem_running, sub_world1))" using subscribed0 by blast
  have "reqSem sem_running = 1" by (simp add: sem_running_def)
  then show ?thesis using r subscription_handlers_give_back by blast
qed

theorem unsubscribe_empty_id_blocks_witness:
  "\<exists>resp s'. mongoUnsubscribeContext sub_env sub_ops clk0 [] [] sem_running sub_world0 = Some (Ret (resp, s', sub_world0))
    \<and> mongoUnsubscribeContext sub_env sub_ops clk0 ''aaa'' [] s' sub_world1 = None"
proof -
  have "reqPolicy sem_running = SemReadWriteOp \<or> reqPolicy sem_running = SemWriteOp" "reqSem sem_running = 1"
    by (simp_all add: sem_running_def)
  from unsubscribe_empty_id_blocks[OF this, of sub_env sub_ops clk0 "[]" sub_world0 sub_req0 "[]" "[]" "[]" sub_world1 upd_req0 JSON "''aaa''"]
  show ?thesis by blast
qed

theorem interval_threads_recovered_witness:
  "\<exists>w'. recoverOnTimeIntervalThread sub_env [] (Some ''aaa'', Some [CondInterval 60]) sub_world0 = w' \<and>
     processConditionVector sub_env [\<lparr>nc_type = ''ONTIMEINTERVAL'', nc_condValueList = [''PT60S'']\<rparr>] [] [] ''aaa'' [] JSON [] [] []
       False sub_world0 = Ret ([CondInterval 60], False, w')"
proof -
  have sec: "dur_seconds (snd (Duration_parse (Duration_set Duration_new ''PT60S''))) = 60" by code_simp
  obtain w' where p: "processConditionVector sub_env [\<lparr>nc_type = ''ONTIMEINTERVAL'', nc_condValueList = [''PT60S'']\<rparr>] [] [] ''aaa'' [] JSON [] [] []
       False sub_world0 = Ret ([CondInterval 60], False, w')" using sec by (simp add: Let_def)
  show ?thesis using interval_threads_recovered[OF p] p by simp
qed

end
