(* ===== verification/Mongo_Register.thy ===== *)
theory Mongo_Register
  imports Mongo_Update Mongo_Subs
begin

text \<open>
  Registrations and availability subscriptions: \<open>MongoCommonRegister.cpp\<close>,
  \<open>mongoRegisterContext.cpp\<close>, \<open>mongoNotifyContextAvailability.cpp\<close>,
  \<open>mongoDiscoverContextAvailability.cpp\<close>, \<open>mongoSubscribeContextAvailability.cpp\<close>,
  \<open>mongoUpdateContextAvailabilitySubscription.cpp\<close>, \<open>mongoUnsubscribeContextAvailability.cpp\<close> and
  \<open>processAvailabilitySubscription\<close> of \<open>MongoGlobal.cpp\<close>. The collections \<open>registrations\<close>, \<open>casubs\<close>
  and \<open>associations\<close> are reached through the operations \<open>reg_ops\<close> of the driver. Where a name of the
  source is already taken by a function of the update code, it carries the prefix \<open>reg\<close>.
\<close>

section \<open>Documents and operations of the driver\<close>

record assoc_doc =
  asd_id :: string
  asd_source :: "string \<times> string option"
  asd_target :: "string \<times> string option"
  asd_attrs :: "(string \<times> string) list"

record reg_full =
  rg_expiration :: int
  rg_servicePath :: string
  rg_doc :: reg_doc

record casub_doc =
  cas_expiration :: int
  cas_reference :: string
  cas_entities :: "(string \<times> string option \<times> string) list"
  cas_attrs :: "string list"
  cas_lastNotification :: "int option"
  cas_count :: "int option"
  cas_format :: string

text \<open>The two branches of the query for subscriptions, and the JavaScript text of the second.\<close>

record casub_query =
  cq_entities :: "(string \<times> string) list"
  cq_attrs :: "string list option"
  cq_expirationGt :: int
  cq_where :: string

record assoc_query =
  asq_field :: string
  asq_entities :: "(string \<times> string) list"
  asq_attrs :: "(string \<times> string list) option"

datatype 'd found = FThrow string | FNone | FDoc 'd

text \<open>
  \<open>ro_badOid\<close>: the text of the exception with which the driver refuses a text as an object id;
  \<open>ro_oidText\<close>: the text it prints for the id it has parsed (the hexadecimal digits in lower case).
\<close>

record 'w reg_ops =
  ro_casubsCol :: string
  ro_assocCol :: string
  ro_newOid :: "'w \<Rightarrow> string \<times> 'w"
  ro_badOid :: "string \<Rightarrow> string option"
  ro_oidText :: "string \<Rightarrow> string"
  ro_insertAssoc :: "string \<Rightarrow> assoc_doc \<Rightarrow> 'w \<Rightarrow> string option \<times> 'w"
  ro_queryAssocs :: "'w \<Rightarrow> string \<Rightarrow> assoc_query \<Rightarrow> int \<Rightarrow> int \<Rightarrow> assoc_doc list db_cursor"
  ro_upsertReg :: "string \<Rightarrow> string \<Rightarrow> reg_full \<Rightarrow> 'w \<Rightarrow> string option \<times> 'w"
  ro_findReg :: "'w \<Rightarrow> string \<Rightarrow> string \<Rightarrow> string \<Rightarrow> reg_full found"
  ro_countRegs :: "'w \<Rightarrow> string \<Rightarrow> reg_query \<Rightarrow> string + int"
  ro_queryCasubs :: "'w \<Rightarrow> string \<Rightarrow> casub_query \<Rightarrow> sub_doc list db_cursor"
  ro_findCasub :: "'w \<Rightarrow> string \<Rightarrow> string \<Rightarrow> casub_doc found"
  ro_insertCasub :: "string \<Rightarrow> string \<Rightarrow> casub_doc \<Rightarrow> 'w \<Rightarrow> string option \<times> 'w"
  ro_updateCasub :: "string \<Rightarrow> string \<Rightarrow> casub_doc \<Rightarrow> 'w \<Rightarrow> string option \<times> 'w"
  ro_removeCasub :: "string \<Rightarrow> string \<Rightarrow> 'w \<Rightarrow> string option \<times> 'w"
  ro_touchCasub :: "string \<Rightarrow> string \<Rightarrow> int \<Rightarrow> 'w \<Rightarrow> string option \<times> 'w"
  ro_sendAvailability :: "string \<Rightarrow> ContextRegistration list \<Rightarrow> string \<Rightarrow> string \<Rightarrow> Format \<Rightarrow> 'w \<Rightarrow> 'w"
  ro_show_casub_query :: "casub_query \<Rightarrow> string"
  ro_show_assoc_query :: "assoc_query \<Rightarrow> string"
  ro_show_reg :: "reg_full \<Rightarrow> string"
  ro_show_casub :: "casub_doc \<Rightarrow> string"

definition getSubscribeContextAvailabilityCollectionName :: "'w env \<Rightarrow> 'w reg_ops \<Rightarrow> string \<Rightarrow> string" where
  "getSubscribeContextAvailabilityCollectionName e ops tenant =
     composeCollectionName (env_multitenant e) (env_dbPrefix e) tenant (ro_casubsCol ops)"

definition getAssociationsCollectionName :: "'w env \<Rightarrow> 'w reg_ops \<Rightarrow> string \<Rightarrow> string" where
  "getAssociationsCollectionName e ops tenant =
     composeCollectionName (env_multitenant e) (env_dbPrefix e) tenant (ro_assocCol ops)"

section \<open>Requests and responses\<close>

text \<open>A context registration of a request: the part that is stored and its registration metadata.\<close>

record RegisterContextRequest =
  rcq_contextRegistrationVector :: "(ContextRegistration \<times> Metadata list) list"
  rcq_duration :: Duration
  rcq_registrationId :: string

record RegisterContextResponse =
  rcr_duration :: Duration
  rcr_registrationId :: string
  rcr_errorCode :: StatusCode

definition RegisterContextResponse_new :: RegisterContextResponse where
  "RegisterContextResponse_new =
     \<lparr>rcr_duration = Duration_set Duration_new [], rcr_registrationId = [], rcr_errorCode = StatusCode_new\<rparr>"

section \<open>Notifications of availability\<close>

text \<open>Every outcome of the update of the database is answered with \<open>SccOk\<close>.\<close>

definition mongoUpdateCasubNewNotification ::
  "'w env \<Rightarrow> 'w reg_ops \<Rightarrow> string \<Rightarrow> string \<Rightarrow> 'w \<Rightarrow> HttpStatusCode \<times> 'w" where
  "mongoUpdateCasubNewNotification e ops subId tenant w =
     (case ro_touchCasub ops (getSubscribeContextAvailabilityCollectionName e ops tenant) subId (env_now e w) w of
        (Some what, w1) \<Rightarrow> (SccOk, w1)
      | (None, w1) \<Rightarrow> (SccOk, w1))"

definition processAvailabilitySubscription ::
  "'w env \<Rightarrow> 'w reg_ops \<Rightarrow> EntityId list \<Rightarrow> string list \<Rightarrow> string \<Rightarrow> string \<Rightarrow> Format \<Rightarrow> string \<Rightarrow> 'w \<Rightarrow> (bool \<times> 'w) cpp" where
  "processAvailabilitySubscription e ops enV attrL subId notifyUrl format tenant w =
     cpp_bind (registrationsQuery e enV attrL tenant [] DEFAULT_PAGINATION_OFFSET_INT DEFAULT_PAGINATION_LIMIT_INT w)
       (\<lambda>r. case r of
          Inl err \<Rightarrow> Ret (False, w)
        | Inr crrV \<Rightarrow>
            if length crrV > 0 then
              let w1 = ro_sendAvailability ops subId crrV notifyUrl tenant format w;
                  (code, w2) = mongoUpdateCasubNewNotification e ops subId tenant w1
              in if code \<noteq> SccOk then Ret (False, w2) else Ret (True, w2)
            else Ret (False, w))"

section \<open>Registering\<close>

definition assoc_entity :: "EntityId \<Rightarrow> string \<times> string option" where
  "assoc_entity en = (if en_type en = [] then (en_id en, None) else (en_id en, Some (en_type en)))"

definition assoc_doc_of :: "Metadata \<Rightarrow> assoc_doc" where
  "assoc_doc_of md =
     \<lparr>asd_id = md_name md,
      asd_source = assoc_entity (ea_source (as_entityAssociation (md_association md))),
      asd_target = assoc_entity (ea_target (as_entityAssociation (md_association md))),
      asd_attrs = map (\<lambda>a. (aa_source a, aa_target a)) (as_attributeAssociationList (md_association md))\<rparr>"

text \<open>The text of the exception that ends the loop, if any.\<close>

fun processAssociations :: "'w env \<Rightarrow> 'w reg_ops \<Rightarrow> Metadata list \<Rightarrow> string \<Rightarrow> 'w \<Rightarrow> string option \<times> 'w" where
  "processAssociations e ops [] tenant w = (None, w)"
| "processAssociations e ops (md # mdV) tenant w =
     (if md_type md \<noteq> ''Association'' then processAssociations e ops mdV tenant w
      else case ro_insertAssoc ops (getAssociationsCollectionName e ops tenant) (assoc_doc_of md) w of
             (Some what, w1) \<Rightarrow> (Some what, w1)
           | (None, w1) \<Rightarrow> processAssociations e ops mdV tenant w1)"

fun js_items :: "string list \<Rightarrow> string" where
  "js_items [] = []"
| "js_items [x] = ''\"'' @ x @ ''\"''"
| "js_items (x # xs) = ''\"'' @ x @ ''\" ,'' @ js_items xs"

definition js_list :: "string list \<Rightarrow> string" where
  "js_list xs = ''[ '' @ js_items xs @ '' ]''"

definition availability_function :: "string list \<Rightarrow> string list \<Rightarrow> string" where
  "availability_function idJsV typeJsV =
     ''function(){enId = '' @ js_list idJsV @ '';enType = '' @ js_list typeJsV @
     '';for (var i=0; i < this.entities.length; i++) {if (this.entities[i].isPattern == \"true\") {''
     @ ''for (var j = 0; j < enId.length; j++) {if (enId[j].match(this.entities[i].id) && this.entities[i].type == enType[j]) {''
     @ ''return true; }}}}return false; }''"

definition reg_triggered_query :: "ContextRegistration \<Rightarrow> int \<Rightarrow> casub_query" where
  "reg_triggered_query cr now =
     (let ens = filter (\<lambda>en. en_isPattern en = ''false'') (cr_entityIdVector cr);
          attrs = map cra_name (cr_attributeVector cr)
      in \<lparr>cq_entities = map (\<lambda>en. (en_id en, en_type en)) ens,
          cq_attrs = (if attrs \<noteq> [] then Some attrs else None),
          cq_expirationGt = now,
          cq_where = availability_function (map en_id ens) (map en_type ens)\<rparr>)"

definition reg_TriggeredSubscription_of :: "sub_doc \<Rightarrow> TriggeredSubscription" where
  "reg_TriggeredSubscription_of sub =
     \<lparr>ts_throttling = - 1, ts_lastNotification = - 1,
      ts_format = (case sd_format sub of None \<Rightarrow> XML | Some f \<Rightarrow> stringToFormat f),
      ts_reference = sd_reference sub, ts_attrL = subToAttributeList sub\<rparr>"

fun reg_add_triggered :: "trig_map \<Rightarrow> sub_doc list \<Rightarrow> trig_map" where
  "reg_add_triggered subs [] = subs"
| "reg_add_triggered subs (sub # ss) =
     (case sd_id sub of
        None \<Rightarrow> reg_add_triggered subs ss
      | Some subId \<Rightarrow>
          (if map_of subs subId = None then reg_add_triggered (subs @ [(subId, reg_TriggeredSubscription_of sub)]) ss
           else reg_add_triggered subs ss))"

definition reg_addTriggeredSubscriptions ::
  "'w env \<Rightarrow> 'w reg_ops \<Rightarrow> ContextRegistration \<Rightarrow> trig_map \<Rightarrow> string \<Rightarrow> 'w \<Rightarrow> string + trig_map" where
  "reg_addTriggeredSubscriptions e ops cr subs tenant w =
     (let query = reg_triggered_query cr (env_now e w);
          col = getSubscribeContextAvailabilityCollectionName e ops tenant
      in case checked_cursor (ro_queryCasubs ops w col query) of
           Inl what \<Rightarrow> Inl (''collection: '' @ col @ '' - query(): '' @ ro_show_casub_query ops query @ '' - exception: '' @ what)
         | Inr docs \<Rightarrow> Inr (reg_add_triggered subs docs))"

text \<open>The loop over the map, in the order of the ids.\<close>

fun reg_processSubscriptions_loop ::
  "'w env \<Rightarrow> 'w reg_ops \<Rightarrow> EntityId list \<Rightarrow> string \<Rightarrow> trig_map \<Rightarrow> bool \<Rightarrow> 'w \<Rightarrow> (bool \<times> 'w) cpp" where
  "reg_processSubscriptions_loop e ops triggerEntitiesV tenant [] ret w = Ret (ret, w)"
| "reg_processSubscriptions_loop e ops triggerEntitiesV tenant ((mapSubId, trigs) # subs) ret w =
     cpp_bind (processAvailabilitySubscription e ops triggerEntitiesV (ts_attrL trigs) mapSubId (ts_reference trigs)
                 (ts_format trigs) tenant w)
       (\<lambda>(sent, w1). reg_processSubscriptions_loop e ops triggerEntitiesV tenant subs (if \<not> sent then False else ret) w1)"

definition reg_processSubscriptions ::
  "'w env \<Rightarrow> 'w reg_ops \<Rightarrow> EntityId list \<Rightarrow> trig_map \<Rightarrow> string \<Rightarrow> 'w \<Rightarrow> (bool \<times> 'w) cpp" where
  "reg_processSubscriptions e ops triggerEntitiesV subs tenant w =
     reg_processSubscriptions_loop e ops triggerEntitiesV tenant (sort_key fst subs) True w"

definition cr_doc_of :: "ContextRegistration \<Rightarrow> cr_doc" where
  "cr_doc_of cr =
     \<lparr>crd_entities = map (\<lambda>en. (en_id en, en_type en)) (cr_entityIdVector cr),
      crd_attrs = Some (map (\<lambda>cra. (cra_name cra, cra_type cra, cra_isDomain cra)) (cr_attributeVector cr)),
      crd_providingApplication = pa_string (cr_providingApplication cr)\<rparr>"

text \<open>The loop over the context registrations: \<open>Inl\<close> is the status of an early return.\<close>

fun register_loop ::
  "'w env \<Rightarrow> 'w reg_ops \<Rightarrow> string \<Rightarrow> (ContextRegistration \<times> Metadata list) list \<Rightarrow> trig_map \<Rightarrow> EntityId list \<Rightarrow> cr_doc list \<Rightarrow> 'w
   \<Rightarrow> (StatusCode + trig_map \<times> EntityId list \<times> cr_doc list) \<times> 'w" where
  "register_loop e ops tenant [] subs triggerEntitiesV docs w = (Inr (subs, triggerEntitiesV, docs), w)"
| "register_loop e ops tenant ((cr, mdV) # crV) subs triggerEntitiesV docs w =
     (case processAssociations e ops mdV tenant w of
        (Some err, w1) \<Rightarrow> (Inl (StatusCode_fill SccReceiverInternalError []), w1)
      | (None, w1) \<Rightarrow>
          (case reg_addTriggeredSubscriptions e ops cr subs tenant w1 of
             Inl err \<Rightarrow> (Inl (StatusCode_fill SccReceiverInternalError err), w1)
           | Inr subs' \<Rightarrow>
               register_loop e ops tenant crV subs' (triggerEntitiesV @ cr_entityIdVector cr) (docs @ [cr_doc_of cr]) w1))"

text \<open>The document is written, then the subscriptions found are notified.\<close>

definition register_store ::
  "'w env \<Rightarrow> 'w reg_ops \<Rightarrow> string \<Rightarrow> string \<Rightarrow> reg_full \<Rightarrow> Duration \<Rightarrow> trig_map \<Rightarrow> EntityId list \<Rightarrow> 'w
   \<Rightarrow> (RegisterContextResponse \<times> 'w) cpp" where
  "register_store e ops tenant oid regDoc duration subsToNotify triggerEntitiesV w =
     (let col = getRegistrationsCollectionName e tenant
      in case ro_upsertReg ops col oid regDoc w of
           (Some what, w1) \<Rightarrow>
             Ret (RegisterContextResponse_new\<lparr>rcr_errorCode := StatusCode_fill SccReceiverInternalError
                    (''collection: '' @ col @ '' - upsert update(): '' @ ro_show_reg ops regDoc @ '' - exception: '' @ what)\<rparr>, w1)
         | (None, w1) \<Rightarrow>
             cpp_bind (reg_processSubscriptions e ops triggerEntitiesV subsToNotify tenant w1)
               (\<lambda>(_, w2). Ret (\<lparr>rcr_duration = duration, rcr_registrationId = oid,
                                rcr_errorCode = StatusCode_fill SccOk []\<rparr>, w2)))"

definition processRegisterContext ::
  "'w env \<Rightarrow> 'w reg_ops \<Rightarrow> RegisterContextRequest \<Rightarrow> string option \<Rightarrow> string \<Rightarrow> string \<Rightarrow> string \<Rightarrow> 'w
   \<Rightarrow> (RegisterContextResponse \<times> 'w) cpp" where
  "processRegisterContext e ops req idP tenant servicePath format w =
     (let duration1 = (if Duration_isEmpty (rcq_duration req) then Duration_set (rcq_duration req) DEFAULT_DURATION
                       else rcq_duration req);
          (secs, duration2) = Duration_parse duration1;
          expiration = env_now e w + secs;
          (oid, w1) = (case idP of None \<Rightarrow> ro_newOid ops w | Some i \<Rightarrow> (i, w))
      in case register_loop e ops tenant (rcq_contextRegistrationVector req) [] [] [] w1 of
           (Inl code, w2) \<Rightarrow> Ret (RegisterContextResponse_new\<lparr>rcr_errorCode := code\<rparr>, w2)
         | (Inr (subsToNotify, triggerEntitiesV, docs), w2) \<Rightarrow>
             register_store e ops tenant oid
               \<lparr>rg_expiration = expiration, rg_servicePath = servicePath,
                rg_doc = \<lparr>rd_format = Some format, rd_contextRegistration = docs\<rparr>\<rparr>
               duration2 subsToNotify triggerEntitiesV w2)"

definition DEFAULT_SERVICE_PATH :: string where
  "DEFAULT_SERVICE_PATH = ''/''"

definition register_body ::
  "'w env \<Rightarrow> 'w reg_ops \<Rightarrow> RegisterContextRequest \<Rightarrow> string \<Rightarrow> string \<Rightarrow> string \<Rightarrow> 'w
   \<Rightarrow> (RegisterContextResponse \<times> bool \<times> 'w) cpp" where
  "register_body e ops req notifyFormat tenant servicePath w =
     (let sPath = (if servicePath = [] then DEFAULT_SERVICE_PATH else servicePath);
          regId = rcq_registrationId req;
          col = getRegistrationsCollectionName e tenant
      in if regId = [] then
           cpp_bind (processRegisterContext e ops req None tenant sPath notifyFormat w) (\<lambda>(r, w1). Ret (r, True, w1))
         else if ro_badOid ops regId \<noteq> None then
           Ret (RegisterContextResponse_new\<lparr>rcr_errorCode := StatusCode_fill SccContextElementNotFound [],
                                            rcr_registrationId := regId\<rparr>, True, w)
         else case ro_findReg ops w col (ro_oidText ops regId) sPath of
           FThrow what \<Rightarrow>
             Ret (RegisterContextResponse_new\<lparr>rcr_errorCode := StatusCode_fill SccReceiverInternalError
                    (''collection: '' @ col @ '' - findOne() _id: '' @ regId @ '' - exception: '' @ what)\<rparr>, True, w)
         | FNone \<Rightarrow>
             Ret (RegisterContextResponse_new\<lparr>rcr_errorCode := StatusCode_fill SccContextElementNotFound
                    (''registration id: /'' @ regId @ ''/''), rcr_registrationId := regId\<rparr>, True, w)
         | FDoc _ \<Rightarrow>
             cpp_bind (processRegisterContext e ops req (Some (ro_oidText ops regId)) tenant sPath notifyFormat w) (\<lambda>(r, w1). Ret (r, True, w1)))"

definition mongoRegisterContext ::
  "'w env \<Rightarrow> 'w reg_ops \<Rightarrow> timespec \<times> timespec \<Rightarrow> RegisterContextRequest \<Rightarrow> string \<Rightarrow> string \<Rightarrow> string \<Rightarrow> sem_state \<Rightarrow> 'w
   \<Rightarrow> (RegisterContextResponse \<times> sem_state \<times> 'w) cpp option" where
  "mongoRegisterContext e ops clk req notifyFormat tenant servicePath =
     with_reqSem clk SemWriteOp (register_body e ops req notifyFormat tenant servicePath)"

definition notify_availability_body ::
  "'w env \<Rightarrow> 'w reg_ops \<Rightarrow> (ContextRegistration \<times> Metadata list) list \<Rightarrow> string \<Rightarrow> string \<Rightarrow> string \<Rightarrow> 'w \<Rightarrow> (StatusCode \<times> bool \<times> 'w) cpp" where
  "notify_availability_body e ops crV notifyFormat tenant servicePath w =
     cpp_bind (processRegisterContext e ops
         \<lparr>rcq_contextRegistrationVector = crV, rcq_duration = Duration_set Duration_new DEFAULT_DURATION, rcq_registrationId = []\<rparr>
         None tenant servicePath notifyFormat w)
       (\<lambda>(_, w1). Ret (StatusCode_fill SccOk [], True, w1))"

definition mongoNotifyContextAvailability ::
  "'w env \<Rightarrow> 'w reg_ops \<Rightarrow> timespec \<times> timespec \<Rightarrow> (ContextRegistration \<times> Metadata list) list \<Rightarrow> string \<Rightarrow> string \<Rightarrow> string
   \<Rightarrow> sem_state \<Rightarrow> 'w \<Rightarrow> (StatusCode \<times> sem_state \<times> 'w) cpp option" where
  "mongoNotifyContextAvailability e ops clk crV notifyFormat tenant servicePath =
     with_reqSem clk SemWriteOp (notify_availability_body e ops crV notifyFormat tenant servicePath)"

section \<open>Availability subscriptions\<close>

record AvailabilityRequest =
  avq_entityIdVector :: "EntityId list"
  avq_attributeList :: "string list"
  avq_reference :: string
  avq_duration :: Duration
  avq_subscriptionId :: string

record AvailabilityResponse =
  avr_subscriptionId :: string
  avr_duration :: Duration
  avr_errorCode :: StatusCode

definition AvailabilityResponse_new :: AvailabilityResponse where
  "AvailabilityResponse_new =
     \<lparr>avr_subscriptionId = [], avr_duration = Duration_set Duration_new [], avr_errorCode = StatusCode_new\<rparr>"

definition casub_entities :: "EntityId list \<Rightarrow> (string \<times> string option \<times> string) list" where
  "casub_entities enV = map (\<lambda>en. if en_type en = [] then (en_id en, None, en_isPattern en)
                                  else (en_id en, Some (en_type en), en_isPattern en)) enV"

definition subscribe_availability_body ::
  "'w env \<Rightarrow> 'w reg_ops \<Rightarrow> AvailabilityRequest \<Rightarrow> Format \<Rightarrow> string \<Rightarrow> 'w \<Rightarrow> (AvailabilityResponse \<times> bool \<times> 'w) cpp" where
  "subscribe_availability_body e ops req notifyFormat tenant w =
     (let duration1 = (if Duration_isEmpty (avq_duration req) then Duration_set (avq_duration req) DEFAULT_DURATION
                       else avq_duration req);
          (secs, duration2) = Duration_parse duration1;
          (oid, w1) = ro_newOid ops w;
          col = getSubscribeContextAvailabilityCollectionName e ops tenant;
          subDoc = \<lparr>cas_expiration = env_now e w + secs, cas_reference = avq_reference req,
                    cas_entities = casub_entities (avq_entityIdVector req), cas_attrs = avq_attributeList req,
                    cas_lastNotification = None, cas_count = None, cas_format = formatToString notifyFormat\<rparr>
      in case ro_insertCasub ops col oid subDoc w1 of
           (Some what, w2) \<Rightarrow>
             Ret (AvailabilityResponse_new\<lparr>avr_errorCode := StatusCode_fill SccReceiverInternalError
                    (''collection: '' @ col @ '' - insert(): '' @ ro_show_casub ops subDoc @ '' - exception: '' @ what)\<rparr>, True, w2)
         | (None, w2) \<Rightarrow>
             cpp_bind (processAvailabilitySubscription e ops (avq_entityIdVector req) (avq_attributeList req) oid
                         (avq_reference req) notifyFormat tenant w2)
               (\<lambda>(_, w3). Ret (AvailabilityResponse_new\<lparr>avr_duration := duration2, avr_subscriptionId := oid\<rparr>, True, w3)))"

definition mongoSubscribeContextAvailability ::
  "'w env \<Rightarrow> 'w reg_ops \<Rightarrow> timespec \<times> timespec \<Rightarrow> AvailabilityRequest \<Rightarrow> Format \<Rightarrow> string \<Rightarrow> sem_state \<Rightarrow> 'w
   \<Rightarrow> (AvailabilityResponse \<times> sem_state \<times> 'w) cpp option" where
  "mongoSubscribeContextAvailability e ops clk req notifyFormat tenant =
     with_reqSem clk SemWriteOp (subscribe_availability_body e ops req notifyFormat tenant)"

definition updated_casub :: "AvailabilityRequest \<Rightarrow> Format \<Rightarrow> int \<Rightarrow> casub_doc \<Rightarrow> casub_doc" where
  "updated_casub req notifyFormat now sub =
     (let count = (case cas_count sub of Some c \<Rightarrow> c | None \<Rightarrow> 0)
      in \<lparr>cas_expiration = (if Duration_isEmpty (avq_duration req) then cas_expiration sub
                            else now + fst (Duration_parse (avq_duration req))),
          cas_reference = cas_reference sub,
          cas_entities = casub_entities (avq_entityIdVector req), cas_attrs = avq_attributeList req,
          cas_lastNotification = cas_lastNotification sub,
          cas_count = (case cas_count sub of Some _ \<Rightarrow> Some count | None \<Rightarrow> None),
          cas_format = formatToString notifyFormat\<rparr>)"

definition update_availability_body ::
  "'w env \<Rightarrow> 'w reg_ops \<Rightarrow> AvailabilityRequest \<Rightarrow> Format \<Rightarrow> string \<Rightarrow> 'w \<Rightarrow> (AvailabilityResponse \<times> bool \<times> 'w) cpp" where
  "update_availability_body e ops req notifyFormat tenant w =
     (let subId = avq_subscriptionId req;
          col = getSubscribeContextAvailabilityCollectionName e ops tenant;
          error = (\<lambda>code details. AvailabilityResponse_new\<lparr>avr_errorCode := StatusCode_fill code details\<rparr>)
      in if ro_badOid ops subId \<noteq> None then Ret (error SccContextElementNotFound [], True, w)
         else case ro_findCasub ops w col subId of
           FThrow what \<Rightarrow> Ret (error SccReceiverInternalError
             (''collection: '' @ col @ '' - findOne() _id: '' @ subId @ '' - exception: '' @ what), True, w)
         | FNone \<Rightarrow> Ret (error SccContextElementNotFound [], True, w)
         | FDoc sub \<Rightarrow>
             let update = updated_casub req notifyFormat (env_now e w) sub
             in case ro_updateCasub ops col subId update w of
                  (Some what, w1) \<Rightarrow> Ret (error SccReceiverInternalError
                    (''collection: '' @ col @ '' - update() _id: '' @ c_str subId @ '' - update() doc: '' @ ro_show_casub ops update
                     @ '' - exception: '' @ what), True, w1)
                | (None, w1) \<Rightarrow>
                    cpp_bind (processAvailabilitySubscription e ops (avq_entityIdVector req) (avq_attributeList req) subId
                                (cas_reference sub) notifyFormat tenant w1)
                      (\<lambda>(_, w2).
                         let r = AvailabilityResponse_new\<lparr>avr_subscriptionId := subId\<rparr>
                         in Ret (if \<not> Duration_isEmpty (avq_duration req)
                                 then r\<lparr>avr_duration := snd (Duration_parse (avq_duration req))\<rparr> else r, True, w2)))"

definition mongoUpdateContextAvailabilitySubscription ::
  "'w env \<Rightarrow> 'w reg_ops \<Rightarrow> timespec \<times> timespec \<Rightarrow> AvailabilityRequest \<Rightarrow> Format \<Rightarrow> string \<Rightarrow> sem_state \<Rightarrow> 'w
   \<Rightarrow> (AvailabilityResponse \<times> sem_state \<times> 'w) cpp option" where
  "mongoUpdateContextAvailabilitySubscription e ops clk req notifyFormat tenant =
     with_reqSem clk SemWriteOp (update_availability_body e ops req notifyFormat tenant)"

definition unsubscribe_availability_body ::
  "'w env \<Rightarrow> 'w reg_ops \<Rightarrow> string \<Rightarrow> string \<Rightarrow> 'w \<Rightarrow> (UnsubscribeContextResponse \<times> bool \<times> 'w) cpp" where
  "unsubscribe_availability_body e ops subId tenant w =
     (let col = getSubscribeContextAvailabilityCollectionName e ops tenant;
          answer = (\<lambda>code details. \<lparr>unr_statusCode = StatusCode_fill code details, unr_subscriptionId = subId\<rparr>)
      in if ro_badOid ops subId \<noteq> None then Ret (answer SccContextElementNotFound [], True, w)
         else case ro_findCasub ops w col subId of
           FThrow what \<Rightarrow> Ret (answer SccReceiverInternalError
             (''collection: '' @ col @ '' - findOne() _id: '' @ subId @ '' - exception: '' @ what), True, w)
         | FNone \<Rightarrow> Ret (answer SccContextElementNotFound [], True, w)
         | FDoc _ \<Rightarrow>
             (case ro_removeCasub ops col subId w of
                (Some what, w1) \<Rightarrow> Ret (answer SccReceiverInternalError
                  (''collection: '' @ col @ '' - remove() _id: '' @ c_str subId @ '' - exception: '' @ what), True, w1)
              | (None, w1) \<Rightarrow> Ret (answer SccOk [], True, w1)))"

definition mongoUnsubscribeContextAvailability ::
  "'w env \<Rightarrow> 'w reg_ops \<Rightarrow> timespec \<times> timespec \<Rightarrow> string \<Rightarrow> string \<Rightarrow> sem_state \<Rightarrow> 'w
   \<Rightarrow> (UnsubscribeContextResponse \<times> sem_state \<times> 'w) cpp option" where
  "mongoUnsubscribeContextAvailability e ops clk subId tenant =
     with_reqSem clk SemWriteOp (unsubscribe_availability_body e ops subId tenant)"

section \<open>Discovery\<close>

record DiscoverRequest =
  dcq_entityIdVector :: "EntityId list"
  dcq_attributeList :: "string list"
  dcq_scopeVector :: "Scope list"

text \<open>The answer to a discovery with associations ends with an element that carries their metadata.\<close>

record DiscoverResponse =
  dcr_responseVector :: "(ContextRegistration \<times> Metadata list) list"
  dcr_errorCode :: StatusCode

definition DiscoverResponse_new :: DiscoverResponse where
  "DiscoverResponse_new = \<lparr>dcr_responseVector = [], dcr_errorCode = StatusCode_new\<rparr>"

definition associations_query :: "EntityId list \<Rightarrow> string list \<Rightarrow> string \<Rightarrow> assoc_query" where
  "associations_query enV attrL scope =
     \<lparr>asq_field = (if scope = ''SOURCES'' then ''tgtEnt'' else ''srcEnt''),
      asq_entities = map (\<lambda>en. (en_id en, en_type en)) enV,
      asq_attrs = (if length attrL \<noteq> 0
                   then Some (if scope = ''SOURCES'' then ''attrs.tgt'' else ''attrs.src'', attrL) else None)\<rparr>"

definition association_md :: "assoc_doc \<Rightarrow> Metadata" where
  "association_md r =
     (Metadata_new (asd_id r) ''Association'' [])\<lparr>md_association :=
        \<lparr>as_entityAssociation = \<lparr>ea_source = EntityId_new (fst (asd_source r)) (STR_FIELD (snd (asd_source r))) ''false'',
                                 ea_target = EntityId_new (fst (asd_target r)) (STR_FIELD (snd (asd_target r))) ''false''\<rparr>,
         as_attributeAssociationList = map (\<lambda>(s, t). \<lparr>aa_source = s, aa_target = t\<rparr>) (asd_attrs r)\<rparr>\<rparr>"

definition associationsQuery ::
  "'w env \<Rightarrow> 'w reg_ops \<Rightarrow> EntityId list \<Rightarrow> string list \<Rightarrow> string \<Rightarrow> string \<Rightarrow> int \<Rightarrow> int \<Rightarrow> 'w \<Rightarrow> string + Metadata list" where
  "associationsQuery e ops enV attrL scope tenant offset limit w =
     (let query = associations_query enV attrL scope;
          col = getAssociationsCollectionName e ops tenant
      in case checked_cursor (ro_queryAssocs ops w col query limit offset) of
           Inl what \<Rightarrow> Inl (''collection: '' @ col @ '' - query(): '' @ ro_show_assoc_query ops query @ '' - exception: '' @ what)
         | Inr docs \<Rightarrow> Inr (map association_md docs))"

text \<open>The registrations of the associated entities, one query per association; an error ends the loop.\<close>

fun associated_registrations ::
  "'w env \<Rightarrow> string \<Rightarrow> string \<Rightarrow> string list \<Rightarrow> Metadata list \<Rightarrow> ContextRegistration list \<Rightarrow> 'w \<Rightarrow> (ContextRegistration list \<times> string option) cpp" where
  "associated_registrations e scope tenant servicePathV [] acc w = Ret (acc, None)"
| "associated_registrations e scope tenant servicePathV (md # mdV) acc w =
     (let ea = as_entityAssociation (md_association md);
          src = (if scope = ''SOURCES'' then ea_source ea else ea_target ea);
          en = EntityId_new (en_id src) (en_type src) [];
          attrL = map (\<lambda>a. if scope = ''SOURCES'' then aa_source a else aa_target a)
                    (as_attributeAssociationList (md_association md))
      in cpp_bind (registrationsQuery e [en] attrL tenant servicePathV
                     DEFAULT_PAGINATION_OFFSET_INT DEFAULT_PAGINATION_LIMIT_INT w)
           (\<lambda>r. case r of
              Inl err \<Rightarrow> Ret (acc, Some err)
            | Inr crrV \<Rightarrow> associated_registrations e scope tenant servicePathV mdV (acc @ crrV) w))"

definition association_provider :: ContextRegistration where
  "association_provider =
     \<lparr>cr_entityIdVector = [], cr_attributeVector = [],
      cr_providingApplication = ProvidingApplication_new\<lparr>pa_string := ''http://www.fi-ware.eu/NGSI/association''\<rparr>\<rparr>"

definition associationsDiscoverContextAvailability ::
  "'w env \<Rightarrow> 'w reg_ops \<Rightarrow> DiscoverRequest \<Rightarrow> string \<Rightarrow> string \<Rightarrow> int \<Rightarrow> int \<Rightarrow> string list \<Rightarrow> 'w \<Rightarrow> DiscoverResponse cpp" where
  "associationsDiscoverContextAvailability e ops req scope tenant offset limit servicePathV w =
     (if scope = ''ALL'' then
        Ret (DiscoverResponse_new\<lparr>dcr_errorCode := StatusCode_fill SccNotImplemented (''Not supported scope: '' @ [CHR 39] @ ''ALL'' @ [CHR 39])\<rparr>)
      else case associationsQuery e ops (dcq_entityIdVector req) (dcq_attributeList req) scope tenant offset limit w of
        Inl err \<Rightarrow> Ret (DiscoverResponse_new\<lparr>dcr_errorCode := StatusCode_fill SccReceiverInternalError (''Database error: '' @ err)\<rparr>)
      | Inr mdV \<Rightarrow>
          cpp_bind (associated_registrations e scope tenant servicePathV mdV [] w)
            (\<lambda>(crrV, error). case error of
               Some err \<Rightarrow> Ret (DiscoverResponse_new\<lparr>dcr_responseVector := map (\<lambda>cr. (cr, [])) crrV,
                                                      dcr_errorCode := StatusCode_fill SccReceiverInternalError err\<rparr>)
             | None \<Rightarrow>
                 if crrV = [] then
                   Ret (DiscoverResponse_new\<lparr>dcr_errorCode := StatusCode_fill SccContextElementNotFound
                          ''Could not query association with combination of entity/attribute''\<rparr>)
                 else Ret (DiscoverResponse_new\<lparr>dcr_responseVector :=
                             map (\<lambda>cr. (cr, [])) crrV @ [(association_provider, mdV)]\<rparr>)))"

text \<open>\<open>registrationsQuery\<close> with the number of matching documents, which is asked for with \<open>details\<close>.\<close>

definition registrationsQuery_count ::
  "'w env \<Rightarrow> 'w reg_ops \<Rightarrow> EntityId list \<Rightarrow> string list \<Rightarrow> string \<Rightarrow> string list \<Rightarrow> int \<Rightarrow> int \<Rightarrow> bool \<Rightarrow> 'w
   \<Rightarrow> (string + ContextRegistration list \<times> int) cpp" where
  "registrationsQuery_count e ops enV attrL tenant servicePathV offset limit details w =
     cpp_bind (fillQueryServicePath (env_buf0 e) servicePathV) (\<lambda>sp.
       let query = registrations_query e enV attrL sp (env_now e w);
           col = getRegistrationsCollectionName e tenant
       in case (if details then ro_countRegs ops w col query else Inr (- 1)) of
            Inl what \<Rightarrow> Ret (Inl (''collection: '' @ col @ '' - query(): '' @ env_show_reg_query e query @ '' - exception: '' @ what))
          | Inr count \<Rightarrow>
              cpp_bind (registrationsQuery e enV attrL tenant servicePathV offset limit w)
                (\<lambda>r. case r of Inl err \<Rightarrow> Ret (Inl err) | Inr crrV \<Rightarrow> Ret (Inr (crrV, count))))"

definition conventionalDiscoverContextAvailability ::
  "'w env \<Rightarrow> 'w reg_ops \<Rightarrow> DiscoverRequest \<Rightarrow> string \<Rightarrow> int \<Rightarrow> int \<Rightarrow> bool \<Rightarrow> string list \<Rightarrow> 'w \<Rightarrow> DiscoverResponse cpp" where
  "conventionalDiscoverContextAvailability e ops req tenant offset limit details servicePathV w =
     cpp_bind (registrationsQuery_count e ops (dcq_entityIdVector req) (dcq_attributeList req) tenant servicePathV offset limit details w)
       (\<lambda>r. case r of
          Inl err \<Rightarrow> Ret (DiscoverResponse_new\<lparr>dcr_errorCode := StatusCode_fill SccReceiverInternalError err\<rparr>)
        | Inr (crrV, count) \<Rightarrow>
            let resp = DiscoverResponse_new\<lparr>dcr_responseVector := map (\<lambda>cr. (cr, [])) crrV\<rparr>
            in if crrV = [] then
                 if details \<and> count > 0 \<and> offset \<ge> count
                 then Ret (resp\<lparr>dcr_errorCode := StatusCode_fill SccContextElementNotFound
                        (''Number of matching registrations: '' @ int_str count @ ''. Offset is '' @ int_str offset)\<rparr>)
                 else Ret (resp\<lparr>dcr_errorCode := StatusCode_fill SccContextElementNotFound []\<rparr>)
               else if details then Ret (resp\<lparr>dcr_errorCode := StatusCode_fill SccOk (''Count: '' @ int_str count)\<rparr>)
               else Ret resp)"

text \<open>
  \<open>mongoDiscoverContextAvailability\<close>: \<open>offset\<close>, \<open>limit\<close> and \<open>details\<close> are the URI parameters. With
  the association scope the semaphore is given back by a call without the flag, whose default is true.
\<close>

definition mongoDiscoverContextAvailability ::
  "'w env \<Rightarrow> 'w reg_ops \<Rightarrow> timespec \<times> timespec \<Rightarrow> DiscoverRequest \<Rightarrow> string \<Rightarrow> string \<Rightarrow> string \<Rightarrow> string \<Rightarrow> string list
   \<Rightarrow> sem_state \<Rightarrow> 'w \<Rightarrow> (DiscoverResponse \<times> sem_state) cpp option" where
  "mongoDiscoverContextAvailability e ops clk req tenant offsetS limitS detailsString servicePathV s w =
     (let offset = atoi (c_str offsetS); limit = atoi (c_str limitS); details = strcaseeq ''on'' (c_str detailsString)
      in case reqSemTake False (fst clk) (snd clk) SemReadOp s of
           None \<Rightarrow> None
         | Some (_, reqSemTaken, s1) \<Rightarrow>
             (case dcq_scopeVector req of
                sc # _ \<Rightarrow>
                  if sco_type sc = ''IncludeAssociations'' then
                    Some (cpp_bind (associationsDiscoverContextAvailability e ops req (sco_value sc) tenant offset limit servicePathV w)
                           (\<lambda>r. Ret (r, snd (reqSemGive True s1))))
                  else
                    Some (cpp_bind (conventionalDiscoverContextAvailability e ops req tenant offset limit details servicePathV w)
                           (\<lambda>r. Ret (r, snd (reqSemGive reqSemTaken s1))))
              | [] \<Rightarrow>
                  Some (cpp_bind (conventionalDiscoverContextAvailability e ops req tenant offset limit details servicePathV w)
                         (\<lambda>r. Ret (r, snd (reqSemGive reqSemTaken s1))))))"

section \<open>The request semaphore\<close>

interpretation register_h: sem_handler "register_body e ops req fmt tenant sp"
proof unfold_locales
  fix w r g w'
  assume "register_body e ops req fmt tenant sp w = Ret (r, g, w')"
  then show g
    by (auto simp: register_body_def Let_def cpp_bind_Ret_iff split: if_splits found.splits)
qed

interpretation notify_availability_h: sem_handler "notify_availability_body e ops crV fmt tenant sp"
  by unfold_locales (auto simp: notify_availability_body_def cpp_bind_Ret_iff)

interpretation subscribe_availability_h: sem_handler "subscribe_availability_body e ops req fmt tenant"
proof unfold_locales
  fix w r g w'
  assume b: "subscribe_availability_body e ops req fmt tenant w = Ret (r, g, w')"
  obtain i w1 where "ro_newOid ops w = (i, w1)" by fastforce
  then show g using b
    by (auto simp: subscribe_availability_body_def Duration_parse_def Let_def cpp_bind_Ret_iff split: prod.splits option.splits)
qed

interpretation update_availability_h: sem_handler "update_availability_body e ops req fmt tenant"
proof unfold_locales
  fix w r g w'
  assume "update_availability_body e ops req fmt tenant w = Ret (r, g, w')"
  then show g
    by (auto simp: update_availability_body_def Let_def cpp_bind_Ret_iff split: if_splits found.splits prod.splits option.splits)
qed

interpretation unsubscribe_availability_h: sem_handler "unsubscribe_availability_body e ops subId tenant"
  by unfold_locales
     (auto simp: unsubscribe_availability_body_def Let_def split: if_splits found.splits prod.splits option.splits)

text \<open>The operations on registrations and availability subscriptions leave the request semaphore as
  they found it.\<close>

theorem registration_handlers_give_back:
  "(mongoRegisterContext e ops clk req fmt tenant sp s w = Some (Ret (r1, s1, w1)) \<longrightarrow> reqSem s1 = reqSem s)
   \<and> (mongoNotifyContextAvailability e ops clk crV fmt tenant sp s w = Some (Ret (r2, s2, w2)) \<longrightarrow> reqSem s2 = reqSem s)
   \<and> (mongoSubscribeContextAvailability e ops clk avq format tenant s w = Some (Ret (r3, s3, w3)) \<longrightarrow> reqSem s3 = reqSem s)
   \<and> (mongoUpdateContextAvailabilitySubscription e ops clk avq format tenant s w = Some (Ret (r4, s4, w4)) \<longrightarrow> reqSem s4 = reqSem s)
   \<and> (mongoUnsubscribeContextAvailability e ops clk subId tenant s w = Some (Ret (r5, s5, w5)) \<longrightarrow> reqSem s5 = reqSem s)"
  unfolding mongoRegisterContext_def mongoNotifyContextAvailability_def mongoSubscribeContextAvailability_def
    mongoUpdateContextAvailabilitySubscription_def mongoUnsubscribeContextAvailability_def
  by (intro conjI impI; erule register_h.sem_kept(1) notify_availability_h.sem_kept(1) subscribe_availability_h.sem_kept(1)
      update_availability_h.sem_kept(1) unsubscribe_availability_h.sem_kept(1))

text \<open>A discovery with the association scope raises the request semaphore when the policy did not
  make it take the semaphore: the value becomes 2, and from then on two requests that the policy
  serialises are inside at the same time.\<close>

theorem discovery_raises_semaphore:
  assumes "reqPolicy s = SemWriteOp" "reqSem s = 1"
    and "dcq_scopeVector req = sc # scs" "sco_type sc = ''IncludeAssociations''"
    and "mongoDiscoverContextAvailability e ops clk req tenant offset limit details sp s w = Some (Ret (r, s'))"
  shows "reqSem s' = 2
    \<and> (\<exists>s''. req_run (s', [None, None]) [Enters 0 SemWriteOp False, Enters 1 SemWriteOp False]
          (s'', [Some (SemWriteOp, True), Some (SemWriteOp, True)]))"
proof -
  have t: "reqSemTake False (fst clk) (snd clk) SemReadOp s = Some (- 1, False, s)"
    using assms(1) by (simp add: reqSemTake_def)
  have s': "s' = snd (reqSemGive True s)"
    using assms(3-5) t by (auto simp: mongoDiscoverContextAvailability_def Let_def cpp_bind_Ret_iff)
  then have "reqSem s' = 2" "reqPolicy s' = SemWriteOp" using assms(1,2) by (auto simp: reqSemGive_def)
  then show ?thesis
    using two_enter[OF _ _ _ req_run.run_Nil, of s' SemWriteOp SemWriteOp] by (simp add: serialised_def)
qed


section \<open>What the database does\<close>

text \<open>
  What is relied upon: \<open>regs\<close> gives the registrations stored, by collection and id. An upsert that
  succeeds writes its document and one that fails writes nothing; a lookup returns the document with the
  given id and service path; nothing else used here touches the registrations.
\<close>

definition reg_laws :: "'w reg_ops \<Rightarrow> ('w \<Rightarrow> string \<Rightarrow> string \<Rightarrow> reg_full option) \<Rightarrow> bool" where
  "reg_laws ops regs \<longleftrightarrow>
     (\<forall>w col i d. regs (snd (ro_upsertReg ops col i d w)) =
        (if fst (ro_upsertReg ops col i d w) = None then (regs w)(col := (regs w col)(i \<mapsto> d)) else regs w)) \<and>
     (\<forall>w col i sp d. ro_findReg ops w col i sp = FDoc d \<longrightarrow> regs w col i = Some d \<and> rg_servicePath d = sp) \<and>
     (\<forall>w col i sp. ro_findReg ops w col i sp = FNone \<longrightarrow> (\<forall>d. regs w col i = Some d \<longrightarrow> rg_servicePath d \<noteq> sp)) \<and>
     (\<forall>w. regs (snd (ro_newOid ops w)) = regs w) \<and>
     (\<forall>w col d. regs (snd (ro_insertAssoc ops col d w)) = regs w) \<and>
     (\<forall>w col i t. regs (snd (ro_touchCasub ops col i t w)) = regs w) \<and>
     (\<forall>w i crrV url tenant f. regs (ro_sendAvailability ops i crrV url tenant f w) = regs w)"

lemma reg_lawsD:
  assumes "reg_laws ops regs"
  shows "ro_upsertReg ops col i d w = (x, w') \<Longrightarrow> regs w' = (if x = None then (regs w)(col := (regs w col)(i \<mapsto> d)) else regs w)"
    "ro_findReg ops w col i sp = FDoc d \<Longrightarrow> regs w col i = Some d \<and> rg_servicePath d = sp"
    "ro_newOid ops w = (i, w') \<Longrightarrow> regs w' = regs w"
    "ro_insertAssoc ops col a w = (x, w') \<Longrightarrow> regs w' = regs w"
    "ro_touchCasub ops col i t w = (x, w') \<Longrightarrow> regs w' = regs w"
    "regs (ro_sendAvailability ops i crrV url tenant f w) = regs w"
  using assms unfolding reg_laws_def by (metis fst_conv snd_conv)+

lemma availability_sent:
  assumes "processAvailabilitySubscription e ops enV attrL subId url format tenant w = Ret (sent, w')"
  shows "if sent then \<exists>crrV. crrV \<noteq> [] \<and> list_all (reg_ok e enV attrL) crrV
           \<and> w' = snd (mongoUpdateCasubNewNotification e ops subId tenant (ro_sendAvailability ops subId crrV url tenant format w))
         else w' = w"
proof -
  obtain r where r: "registrationsQuery e enV attrL tenant [] DEFAULT_PAGINATION_OFFSET_INT DEFAULT_PAGINATION_LIMIT_INT w = Ret r"
    using assms unfolding processAvailabilitySubscription_def cpp_bind_Ret_iff by blast
  show ?thesis
  proof (cases r)
    case (Inl err)
    then show ?thesis using assms r by (simp add: processAvailabilitySubscription_def)
  next
    case (Inr crrV)
    have ok: "fst (mongoUpdateCasubNewNotification e ops subId tenant v) = SccOk" for v
      by (auto simp: mongoUpdateCasubNewNotification_def split: prod.splits option.splits)
    show ?thesis
    proof (cases "crrV = []")
      case True
      then show ?thesis using assms r Inr by (simp add: processAvailabilitySubscription_def)
    next
      case False
      let ?u = "mongoUpdateCasubNewNotification e ops subId tenant (ro_sendAvailability ops subId crrV url tenant format w)"
      have "?u = (SccOk, snd ?u)" using ok by (metis prod.collapse)
      then have "sent \<and> w' = snd ?u"
        using assms r Inr False unfolding processAvailabilitySubscription_def
        by (cases ?u) (auto simp: Let_def)
      moreover have "list_all (reg_ok e enV attrL) crrV" by (rule registrationsQuery_ok[OF r[unfolded Inr]])
      ultimately show ?thesis using False by (auto intro!: exI[of _ crrV])
    qed
  qed
qed

text \<open>An availability notification is sent only with registrations that match the subscription, at
  least one; the subscription is then marked as notified. Without a matching registration, or when the
  query fails, nothing is sent and nothing written.\<close>

theorem availability_notification_sound:
  assumes "processAvailabilitySubscription e ops enV attrL subId url format tenant w = Ret (sent, w')"
  shows "if sent then \<exists>crrV. crrV \<noteq> [] \<and> list_all (reg_ok e enV attrL) crrV
           \<and> w' = snd (mongoUpdateCasubNewNotification e ops subId tenant (ro_sendAvailability ops subId crrV url tenant format w))
         else w' = w"
  by (rule availability_sent[OF assms])

text \<open>A view of the database that new ids, notifications and the dates of subscriptions leave as it is.\<close>

definition bystander :: "'w reg_ops \<Rightarrow> ('w \<Rightarrow> 'x) \<Rightarrow> bool" where
  "bystander ops f \<longleftrightarrow>
     (\<forall>w. f (snd (ro_newOid ops w)) = f w) \<and>
     (\<forall>w col i t. f (snd (ro_touchCasub ops col i t w)) = f w) \<and>
     (\<forall>w i crrV url tenant fmt. f (ro_sendAvailability ops i crrV url tenant fmt w) = f w)"

lemma reg_laws_bystander: "reg_laws ops regs \<Longrightarrow> bystander ops regs"
  by (simp add: reg_laws_def bystander_def)

lemma bystanderD:
  assumes "bystander ops f"
  shows "ro_newOid ops w = (i, w') \<Longrightarrow> f w' = f w"
    "ro_touchCasub ops col j t w = (x, w') \<Longrightarrow> f w' = f w"
    "f (ro_sendAvailability ops j crrV url tenant fmt w) = f w"
  using assms unfolding bystander_def by (metis snd_conv)+

lemma processAvailabilitySubscription_kept:
  assumes "bystander ops f" "processAvailabilitySubscription e ops enV attrL subId url format tenant w = Ret (sent, w')"
  shows "f w' = f w"
proof -
  have "f (snd (mongoUpdateCasubNewNotification e ops subId tenant v)) = f v" for v
    using bystanderD(2)[OF assms(1)] by (auto simp: mongoUpdateCasubNewNotification_def split: prod.splits option.splits)
  then show ?thesis
    using availability_sent[OF assms(2)] bystanderD(3)[OF assms(1)] by (cases sent) auto
qed

lemma reg_processSubscriptions_kept:
  assumes "bystander ops f"
  shows "reg_processSubscriptions_loop e ops enV tenant subs ret w = Ret (r, w') \<Longrightarrow> f w' = f w"
proof (induction subs arbitrary: ret w)
  case (Cons s subs)
  obtain i t where "s = (i, t)" by fastforce
  then show ?case using Cons processAvailabilitySubscription_kept[OF assms] by (fastforce simp: cpp_bind_Ret_iff)
qed simp

lemma processAssociations_regs:
  assumes "reg_laws ops regs"
  shows "processAssociations e ops mdV tenant w = (x, w') \<Longrightarrow> regs w' = regs w"
proof (induction mdV arbitrary: w)
  case (Cons md mdV)
  then show ?case using reg_lawsD(4)[OF assms] by (fastforce split: if_splits prod.splits option.splits)
qed simp

lemma register_loop_spec:
  assumes "reg_laws ops regs"
  shows "register_loop e ops tenant crV subs trig docs w = (r, w') \<Longrightarrow> regs w' = regs w \<and>
    (case r of Inl code \<Rightarrow> sc_code code = SccReceiverInternalError
     | Inr (_, trig', docs') \<Rightarrow> docs' = docs @ map (cr_doc_of \<circ> fst) crV
         \<and> trig' = trig @ concat (map (cr_entityIdVector \<circ> fst) crV))"
proof (induction crV arbitrary: subs trig docs w)
  case (Cons x crV)
  obtain cr mdV where x: "x = (cr, mdV)" by fastforce
  obtain a w1 where a: "processAssociations e ops mdV tenant w = (a, w1)" by fastforce
  note r1 = processAssociations_regs[OF assms a]
  show ?case
  proof (cases a)
    case (Some err)
    then show ?thesis using Cons.prems x a r1 by (auto simp: StatusCode_fill_def)
  next
    case None
    show ?thesis
    proof (cases "reg_addTriggeredSubscriptions e ops cr subs tenant w1")
      case (Inl err)
      then show ?thesis using Cons.prems x a r1 None by (auto simp: StatusCode_fill_def)
    next
      case (Inr subs')
      then have "register_loop e ops tenant crV subs' (trig @ cr_entityIdVector cr) (docs @ [cr_doc_of cr]) w1 = (r, w')"
        using Cons.prems x a None by simp
      from Cons.IH[OF this] show ?thesis using r1 x by (auto simp: comp_def split: sum.splits)
    qed
  qed
qed auto

lemma register_loop_error:
  "register_loop e ops tenant crV subs trig docs w = (Inl code, w') \<Longrightarrow> sc_code code = SccReceiverInternalError"
proof (induction crV arbitrary: subs trig docs w)
  case (Cons x crV)
  then show ?case by (cases x) (auto simp: StatusCode_fill_def split: prod.splits option.splits sum.splits)
qed simp

definition registered_doc :: "RegisterContextRequest \<Rightarrow> int \<Rightarrow> string \<Rightarrow> string \<Rightarrow> reg_full" where
  "registered_doc req now sp format =
     \<lparr>rg_expiration = now + parse8601 (if Duration_isEmpty (rcq_duration req) then DEFAULT_DURATION else dur_string (rcq_duration req)),
      rg_servicePath = sp,
      rg_doc = \<lparr>rd_format = Some format, rd_contextRegistration = map (cr_doc_of \<circ> fst) (rcq_contextRegistrationVector req)\<rparr>\<rparr>"

definition registered_duration :: "RegisterContextRequest \<Rightarrow> Duration" where
  "registered_duration req =
     snd (Duration_parse (if Duration_isEmpty (rcq_duration req) then Duration_set (rcq_duration req) DEFAULT_DURATION
                          else rcq_duration req))"

lemma register_store_cases:
  assumes "register_store e ops tenant oid d duration subs trig w = Ret (resp, w')"
  obtains (stored) w1 ret where "ro_upsertReg ops (getRegistrationsCollectionName e tenant) oid d w = (None, w1)"
      "resp = \<lparr>rcr_duration = duration, rcr_registrationId = oid, rcr_errorCode = StatusCode_fill SccOk []\<rparr>"
      "reg_processSubscriptions_loop e ops trig tenant (sort_key fst subs) True w1 = Ret (ret, w')"
  | (failed) what where "ro_upsertReg ops (getRegistrationsCollectionName e tenant) oid d w = (Some what, w')"
      "sc_code (rcr_errorCode resp) = SccReceiverInternalError" "rcr_duration resp = rcr_duration RegisterContextResponse_new"
proof -
  obtain y w1 where u: "ro_upsertReg ops (getRegistrationsCollectionName e tenant) oid d w = (y, w1)" by fastforce
  show ?thesis
  proof (cases y)
    case None
    then obtain ret where r: "reg_processSubscriptions_loop e ops trig tenant (sort_key fst subs) True w1 = Ret (ret, w')"
      and "resp = \<lparr>rcr_duration = duration, rcr_registrationId = oid, rcr_errorCode = StatusCode_fill SccOk []\<rparr>"
      using assms u by (auto simp: register_store_def reg_processSubscriptions_def cpp_bind_Ret_iff)
    then show ?thesis using stored u None by blast
  next
    case (Some what)
    then show ?thesis using failed assms u
      by (auto simp: register_store_def RegisterContextResponse_new_def StatusCode_fill_def)
  qed
qed

lemma register_store_regs:
  assumes "reg_laws ops regs" "register_store e ops tenant oid d duration subs trig w = Ret (resp, w')"
  shows "if sc_code (rcr_errorCode resp) = SccOk
    then regs w' = (regs w)(getRegistrationsCollectionName e tenant :=
           (regs w (getRegistrationsCollectionName e tenant))(oid \<mapsto> d)) \<and>
         resp = \<lparr>rcr_duration = duration, rcr_registrationId = oid, rcr_errorCode = StatusCode_fill SccOk []\<rparr>
    else regs w' = regs w \<and> sc_code (rcr_errorCode resp) = SccReceiverInternalError \<and>
         rcr_duration resp = rcr_duration RegisterContextResponse_new"
  using assms(2)
proof (cases rule: register_store_cases)
  case (stored w1 ret)
  then show ?thesis
    using reg_lawsD(1)[OF assms(1) stored(1)] reg_processSubscriptions_kept[OF reg_laws_bystander[OF assms(1)] stored(3)]
    by (simp add: StatusCode_fill_def)
next
  case (failed what)
  then show ?thesis using reg_lawsD(1)[OF assms(1) failed(1)] by simp
qed

lemma processRegisterContext_cases:
  assumes "processRegisterContext e ops req idP tenant sp format w = Ret (resp, w')"
  obtains (loop) oid w1 code where "(case idP of None \<Rightarrow> ro_newOid ops w | Some i \<Rightarrow> (i, w)) = (oid, w1)"
      "register_loop e ops tenant (rcq_contextRegistrationVector req) [] [] [] w1 = (Inl code, w')"
      "resp = RegisterContextResponse_new\<lparr>rcr_errorCode := code\<rparr>"
  | (store) oid w1 subs trig docs w2 where "(case idP of None \<Rightarrow> ro_newOid ops w | Some i \<Rightarrow> (i, w)) = (oid, w1)"
      "register_loop e ops tenant (rcq_contextRegistrationVector req) [] [] [] w1 = (Inr (subs, trig, docs), w2)"
      "register_store e ops tenant oid
         \<lparr>rg_expiration = rg_expiration (registered_doc req (env_now e w) sp format), rg_servicePath = sp,
          rg_doc = \<lparr>rd_format = Some format, rd_contextRegistration = docs\<rparr>\<rparr>
         (registered_duration req) subs trig w2 = Ret (resp, w')"
proof -
  obtain oid w1 where o: "(case idP of None \<Rightarrow> ro_newOid ops w | Some i \<Rightarrow> (i, w)) = (oid, w1)" by fastforce
  obtain r w2 where l: "register_loop e ops tenant (rcq_contextRegistrationVector req) [] [] [] w1 = (r, w2)" by fastforce
  show ?thesis
  proof (cases r)
    case (Inl code)
    then show ?thesis using assms o l loop by (auto simp: processRegisterContext_def Let_def Duration_parse_def)
  next
    case (Inr x)
    then obtain subs trig docs where "x = (subs, trig, docs)" by (cases x) auto
    then show ?thesis using assms o l Inr store
      by (auto simp: processRegisterContext_def Let_def Duration_parse_def Duration_set_def registered_doc_def
          registered_duration_def split: if_splits)
  qed
qed

lemma processRegisterContext_regs:
  assumes "reg_laws ops regs" "processRegisterContext e ops req idP tenant sp format w = Ret (resp, w')"
  shows "if sc_code (rcr_errorCode resp) = SccOk
    then regs w' = (regs w)(getRegistrationsCollectionName e tenant :=
           (regs w (getRegistrationsCollectionName e tenant))(rcr_registrationId resp \<mapsto> registered_doc req (env_now e w) sp format))
       \<and> (\<forall>i. idP = Some i \<longrightarrow> rcr_registrationId resp = i)
       \<and> rcr_errorCode resp = StatusCode_fill SccOk [] \<and> rcr_duration resp = registered_duration req
    else regs w' = regs w \<and> sc_code (rcr_errorCode resp) = SccReceiverInternalError \<and>
         rcr_duration resp = rcr_duration RegisterContextResponse_new"
  using assms(2)
proof (cases rule: processRegisterContext_cases)
  case (loop oid w1 code)
  have "regs w1 = regs w" using loop(1) reg_lawsD(3)[OF assms(1)] by (auto split: option.splits)
  then show ?thesis using register_loop_spec[OF assms(1) loop(2)] loop(3) by simp
next
  case (store oid w1 subs trig docs w2)
  have w1: "regs w1 = regs w" "\<forall>i. idP = Some i \<longrightarrow> oid = i"
    using store(1) reg_lawsD(3)[OF assms(1)] by (auto split: option.splits)
  have l: "regs w2 = regs w1" "docs = map (cr_doc_of \<circ> fst) (rcq_contextRegistrationVector req)"
    using register_loop_spec[OF assms(1) store(2)] by simp_all
  then have "\<lparr>rg_expiration = rg_expiration (registered_doc req (env_now e w) sp format), rg_servicePath = sp,
          rg_doc = \<lparr>rd_format = Some format, rd_contextRegistration = docs\<rparr>\<rparr> = registered_doc req (env_now e w) sp format"
    by (simp add: registered_doc_def)
  then show ?thesis using register_store_regs[OF assms(1) store(3)] l(1) w1 by (auto split: if_splits)
qed

text \<open>
  What is relied upon for the associations: an insertion that succeeds adds its document and one that fails
  adds none; nothing else used here touches them.
\<close>

definition assoc_laws :: "'w reg_ops \<Rightarrow> ('w \<Rightarrow> string \<Rightarrow> assoc_doc list) \<Rightarrow> bool" where
  "assoc_laws ops assocs \<longleftrightarrow> bystander ops assocs \<and>
     (\<forall>w col i d. assocs (snd (ro_upsertReg ops col i d w)) = assocs w) \<and>
     (\<forall>w col d. assocs (snd (ro_insertAssoc ops col d w)) =
        (if fst (ro_insertAssoc ops col d w) = None then (assocs w)(col := assocs w col @ [d]) else assocs w))"

lemma assoc_lawsD:
  assumes "assoc_laws ops assocs"
  shows "bystander ops assocs" "ro_upsertReg ops col i d w = (x, w') \<Longrightarrow> assocs w' = assocs w"
    "ro_insertAssoc ops col a w = (x, w') \<Longrightarrow> assocs w' = (if x = None then (assocs w)(col := assocs w col @ [a]) else assocs w)"
  using assms unfolding assoc_laws_def by (metis fst_conv snd_conv)+

definition assocs_of :: "Metadata list \<Rightarrow> assoc_doc list" where
  "assocs_of mdV = map assoc_doc_of (filter (\<lambda>md. md_type md = ''Association'') mdV)"

definition request_assocs :: "RegisterContextRequest \<Rightarrow> assoc_doc list" where
  "request_assocs req = assocs_of (concat (map snd (rcq_contextRegistrationVector req)))"

lemma processAssociations_assocs:
  assumes "assoc_laws ops assocs"
  shows "processAssociations e ops mdV tenant w = (x, w') \<Longrightarrow>
    \<exists>n \<le> length (assocs_of mdV). assocs w' = (assocs w)(getAssociationsCollectionName e ops tenant :=
         assocs w (getAssociationsCollectionName e ops tenant) @ take n (assocs_of mdV))
      \<and> (x = None \<longrightarrow> n = length (assocs_of mdV))"
proof (induction mdV arbitrary: w)
  case Nil
  then show ?case by (auto simp: assocs_of_def)
next
  case (Cons md mdV)
  let ?col = "getAssociationsCollectionName e ops tenant"
  show ?case
  proof (cases "md_type md = ''Association''")
    case False
    then show ?thesis using Cons by (simp add: assocs_of_def)
  next
    case True
    then have A: "assocs_of (md # mdV) = assoc_doc_of md # assocs_of mdV" by (simp add: assocs_of_def)
    obtain y w1 where i: "ro_insertAssoc ops ?col (assoc_doc_of md) w = (y, w1)" by fastforce
    note iw = assoc_lawsD(3)[OF assms i]
    show ?thesis
    proof (cases y)
      case None
      then have "processAssociations e ops mdV tenant w1 = (x, w')" using Cons.prems True i by simp
      then obtain n where "n \<le> length (assocs_of mdV)" "assocs w' = (assocs w1)(?col := assocs w1 ?col @ take n (assocs_of mdV))"
        "x = None \<longrightarrow> n = length (assocs_of mdV)" using Cons.IH by blast
      then show ?thesis unfolding A using iw None by (intro exI[of _ "Suc n"]) simp
    next
      case (Some what)
      then show ?thesis using Cons.prems True i iw by (intro exI[of _ 0]) auto
    qed
  qed
qed

lemma register_loop_assocs:
  assumes "assoc_laws ops assocs"
  shows "register_loop e ops tenant crV subs trig docs w = (r, w') \<Longrightarrow>
    \<exists>n \<le> length (assocs_of (concat (map snd crV))). assocs w' = (assocs w)(getAssociationsCollectionName e ops tenant :=
         assocs w (getAssociationsCollectionName e ops tenant) @ take n (assocs_of (concat (map snd crV))))
      \<and> (\<forall>y. r = Inr y \<longrightarrow> n = length (assocs_of (concat (map snd crV))))"
proof (induction crV arbitrary: subs trig docs w)
  case Nil
  then show ?case by (auto simp: assocs_of_def)
next
  case (Cons x crV)
  let ?col = "getAssociationsCollectionName e ops tenant" and ?B = "assocs_of (concat (map snd crV))"
  obtain cr mdV where x: "x = (cr, mdV)" by fastforce
  have A: "assocs_of (concat (map snd (x # crV))) = assocs_of mdV @ ?B" by (simp add: x assocs_of_def)
  obtain a w1 where a: "processAssociations e ops mdV tenant w = (a, w1)" by fastforce
  obtain n where n: "n \<le> length (assocs_of mdV)" "assocs w1 = (assocs w)(?col := assocs w ?col @ take n (assocs_of mdV))"
    "a = None \<longrightarrow> n = length (assocs_of mdV)" using processAssociations_assocs[OF assms a] by blast
  consider (stop) code where "r = Inl code" "w' = w1"
    | (more) subs' where "a = None" "register_loop e ops tenant crV subs' (trig @ cr_entityIdVector cr) (docs @ [cr_doc_of cr]) w1 = (r, w')"
    using Cons.prems x a by (auto split: option.splits sum.splits)
  then show ?case
  proof cases
    case stop
    then show ?thesis unfolding A using n by (intro exI[of _ n]) simp
  next
    case more
    from Cons.IH[OF more(2)] obtain m where "m \<le> length ?B" "assocs w' = (assocs w1)(?col := assocs w1 ?col @ take m ?B)"
      "\<forall>y. r = Inr y \<longrightarrow> m = length ?B" by blast
    then show ?thesis unfolding A using n more(1) by (intro exI[of _ "length (assocs_of mdV) + m"]) auto
  qed
qed

lemma processRegisterContext_assocs:
  assumes "assoc_laws ops assocs" "processRegisterContext e ops req idP tenant sp format w = Ret (resp, w')"
  shows "\<exists>n. assocs w' = (assocs w)(getAssociationsCollectionName e ops tenant :=
         assocs w (getAssociationsCollectionName e ops tenant) @ take n (request_assocs req))
      \<and> (sc_code (rcr_errorCode resp) = SccOk \<longrightarrow> n = length (request_assocs req))"
  using assms(2)
proof (cases rule: processRegisterContext_cases)
  case (loop oid w1 code)
  have "assocs w1 = assocs w" using loop(1) bystanderD(1)[OF assoc_lawsD(1)[OF assms(1)]] by (auto split: option.splits)
  moreover have "sc_code code = SccReceiverInternalError" using register_loop_error[OF loop(2)] .
  ultimately show ?thesis using register_loop_assocs[OF assms(1) loop(2)] loop(3) by (auto simp: request_assocs_def)
next
  case (store oid w1 subs trig docs w2)
  have "assocs w1 = assocs w" using store(1) bystanderD(1)[OF assoc_lawsD(1)[OF assms(1)]] by (auto split: option.splits)
  moreover have "assocs w' = assocs w2" using store(3)
  proof (cases rule: register_store_cases)
    case (stored w3 ret)
    then show ?thesis
      using assoc_lawsD(2)[OF assms(1) stored(1)] reg_processSubscriptions_kept[OF assoc_lawsD(1)[OF assms(1)] stored(3)] by simp
  next
    case (failed what)
    then show ?thesis using assoc_lawsD(2)[OF assms(1) failed(1)] by simp
  qed
  ultimately show ?thesis using register_loop_assocs[OF assms(1) store(2)]
    by (intro exI[of _ "length (request_assocs req)"]) (auto simp: request_assocs_def)
qed

text \<open>C34: registering. With the answer OK exactly one document is written, under the id of the answer,
  with the context registrations, service path and format of the request and the expiration its duration (or
  the default) gives, and all associations of the request are added; the answer carries that duration and
  no details. An update needs a well-formed id and a registration with that id in the same service path, and
  answers the id as the driver prints it. With any other answer the code says "not found" or "internal
  error", no registration is written, but of the associations of the request those inserted
  before the failure stay, in order; "not found" comes only from an update, repeats its id, and
  then nothing at all is written.\<close>

theorem register_spec:
  assumes "reg_laws ops regs" and "assoc_laws ops assocs"
    and "mongoRegisterContext e ops clk req fmt tenant sp s w = Some (Ret (resp, s', w'))"
  shows "if sc_code (rcr_errorCode resp) = SccOk
    then regs w' = (regs w)(getRegistrationsCollectionName e tenant :=
           (regs w (getRegistrationsCollectionName e tenant))(rcr_registrationId resp \<mapsto>
              registered_doc req (env_now e w) (if sp = [] then DEFAULT_SERVICE_PATH else sp) fmt))
       \<and> assocs w' = (assocs w)(getAssociationsCollectionName e ops tenant :=
           assocs w (getAssociationsCollectionName e ops tenant) @ request_assocs req)
       \<and> rcr_errorCode resp = StatusCode_fill SccOk [] \<and> rcr_duration resp = registered_duration req
       \<and> (rcq_registrationId req \<noteq> [] \<longrightarrow> ro_badOid ops (rcq_registrationId req) = None
            \<and> rcr_registrationId resp = ro_oidText ops (rcq_registrationId req)
            \<and> (\<exists>d. regs w (getRegistrationsCollectionName e tenant) (rcr_registrationId resp) = Some d
                 \<and> rg_servicePath d = (if sp = [] then DEFAULT_SERVICE_PATH else sp)))
    else regs w' = regs w \<and> sc_code (rcr_errorCode resp) \<in> {SccContextElementNotFound, SccReceiverInternalError}
       \<and> (\<exists>n. assocs w' = (assocs w)(getAssociationsCollectionName e ops tenant :=
             assocs w (getAssociationsCollectionName e ops tenant) @ take n (request_assocs req)))
       \<and> rcr_duration resp = rcr_duration RegisterContextResponse_new
       \<and> (sc_code (rcr_errorCode resp) = SccContextElementNotFound \<longrightarrow>
            rcq_registrationId req \<noteq> [] \<and> rcr_registrationId resp = rcq_registrationId req \<and> w' = w)"
proof -
  let ?sp = "if sp = [] then DEFAULT_SERVICE_PATH else sp" and ?col = "getRegistrationsCollectionName e tenant"
  let ?id = "ro_oidText ops (rcq_registrationId req)"
  obtain g where b: "register_body e ops req fmt tenant sp w = Ret (resp, g, w')"
    using with_reqSem_Ret[OF assms(3)[unfolded mongoRegisterContext_def]] .
  consider (new) "rcq_registrationId req = []" "processRegisterContext e ops req None tenant ?sp fmt w = Ret (resp, w')"
    | (upd) d where "rcq_registrationId req \<noteq> []" "ro_badOid ops (rcq_registrationId req) = None"
        "ro_findReg ops w ?col ?id ?sp = FDoc d" "processRegisterContext e ops req (Some ?id) tenant ?sp fmt w = Ret (resp, w')"
    | (err) "w' = w" "rcr_duration resp = rcr_duration RegisterContextResponse_new" "rcq_registrationId req \<noteq> []"
        "sc_code (rcr_errorCode resp) = SccReceiverInternalError \<or>
         sc_code (rcr_errorCode resp) = SccContextElementNotFound \<and> rcr_registrationId resp = rcq_registrationId req"
    using b
    by (cases "ro_findReg ops w ?col ?id ?sp")
       (auto simp: register_body_def Let_def cpp_bind_Ret_iff StatusCode_fill_def RegisterContextResponse_new_def split: if_splits)
  then show ?thesis
  proof cases
    case new
    then show ?thesis using processRegisterContext_regs[OF assms(1) new(2)] processRegisterContext_assocs[OF assms(2) new(2)] by auto
  next
    case upd
    then show ?thesis
      using processRegisterContext_regs[OF assms(1) upd(4)] processRegisterContext_assocs[OF assms(2) upd(4)]
        reg_lawsD(2)[OF assms(1) upd(3)] by auto
  next
    case err
    then show ?thesis using take_0 by (auto intro: exI[of _ 0])
  qed
qed

lemma matchEntity_refl: "\<not> isTrue (en_isPattern en) \<Longrightarrow> matchEntity e (EntityId_new (en_id en) (en_type en) ''false'') en"
  by (simp add: matchEntity_def EntityId_new_def)

definition cr_response :: "ContextRegistration \<Rightarrow> Format \<Rightarrow> ContextRegistration" where
  "cr_response cr format =
     \<lparr>cr_entityIdVector = map (\<lambda>en. EntityId_new (en_id en) (en_type en) ''false'') (cr_entityIdVector cr),
      cr_attributeVector = cr_attributeVector cr,
      cr_providingApplication = \<lparr>pa_string = pa_string (cr_providingApplication cr), pa_format = format\<rparr>\<rparr>"

lemma processContextRegistrationElement_stored:
  assumes "cr_entityIdVector cr \<noteq> []" "\<forall>en\<in>set (cr_entityIdVector cr). \<not> isTrue (en_isPattern en)"
  shows "processContextRegistrationElement e (cr_entityIdVector cr) [] format acc (cr_doc_of cr) = acc @ [cr_response cr format]"
proof -
  have "filter (\<lambda>en. includedEntity e en (cr_entityIdVector cr))
      (map (\<lambda>(i, t). EntityId_new i t ''false'') (map (\<lambda>en. (en_id en, en_type en)) (cr_entityIdVector cr)))
    = map (\<lambda>en. EntityId_new (en_id en) (en_type en) ''false'') (cr_entityIdVector cr)"
    using assms(2) matchEntity_refl by (auto simp: comp_def filter_id_conv includedEntity_iff)
  moreover have "foldl (processAttribute []) [] (map (\<lambda>cra. (cra_name cra, cra_type cra, cra_isDomain cra)) (cr_attributeVector cr))
    = cr_attributeVector cr"
  proof -
    have "\<lparr>cra_name = cra_name x, cra_type = cra_type x, cra_isDomain = cra_isDomain x\<rparr> = x" for x :: ContextRegistrationAttribute
      by (cases x) simp
    then have "map (\<lambda>x. \<lparr>cra_name = cra_name x, cra_type = cra_type x, cra_isDomain = cra_isDomain x\<rparr>) xs = xs"
      for xs :: "ContextRegistrationAttribute list" by (intro map_idI)
    then show ?thesis unfolding foldl_processAttribute by (simp add: includedAttribute_iff case_prod_unfold comp_def)
  qed
  ultimately show ?thesis
    using assms(1) unfolding processContextRegistrationElement_def cr_doc_of_def cr_response_def
    by (simp add: Let_def foldl_processEntity)
qed

lemma process_reg_doc_stored:
  assumes "cr \<in> set crV" "cr_entityIdVector cr \<noteq> []" "\<forall>en\<in>set (cr_entityIdVector cr). \<not> isTrue (en_isPattern en)"
  shows "cr_response cr (stringToFormat fmt) \<in> set (process_reg_doc e (cr_entityIdVector cr) [] []
           \<lparr>rd_format = Some fmt, rd_contextRegistration = map cr_doc_of crV\<rparr>)"
proof -
  let ?f = "processContextRegistrationElement e (cr_entityIdVector cr) [] (stringToFormat fmt)"
  have keep: "set acc \<subseteq> set (foldl ?f acc ds)" for acc ds
  proof (induction ds arbitrary: acc)
    case (Cons d ds)
    obtain new where "?f acc d = acc @ new" using processContextRegistrationElement_ok by blast
    then show ?case using Cons[of "acc @ new"] by auto
  qed simp
  obtain xs ys where "crV = xs @ cr # ys" using split_list[OF assms(1)] by blast
  then have "foldl ?f [] (map cr_doc_of crV)
      = foldl ?f (foldl ?f [] (map cr_doc_of xs) @ [cr_response cr (stringToFormat fmt)]) (map cr_doc_of ys)"
    by (simp add: processContextRegistrationElement_stored[OF assms(2,3)])
  then show ?thesis using keep by (fastforce simp: process_reg_doc_def)
qed

text \<open>What has been registered is discovered: after a registration is accepted, looking up the entities of
  one of its context registrations in the stored document gives that context registration back, with its
  entities, attributes and providing application and the format of the request.\<close>

theorem registration_read_back:
  assumes "reg_laws ops regs"
    and "mongoRegisterContext e ops clk req fmt tenant sp s w = Some (Ret (resp, s', w'))"
    and "sc_code (rcr_errorCode resp) = SccOk"
    and "(cr, mdV) \<in> set (rcq_contextRegistrationVector req)" "cr_entityIdVector cr \<noteq> []"
    and "\<forall>en\<in>set (cr_entityIdVector cr). \<not> isTrue (en_isPattern en)"
  shows "\<exists>d. regs w' (getRegistrationsCollectionName e tenant) (rcr_registrationId resp) = Some d
    \<and> cr_response cr (stringToFormat fmt) \<in> set (process_reg_doc e (cr_entityIdVector cr) [] [] (rg_doc d))"
proof -
  let ?sp = "if sp = [] then DEFAULT_SERVICE_PATH else sp" and ?col = "getRegistrationsCollectionName e tenant"
  obtain g where b: "register_body e ops req fmt tenant sp w = Ret (resp, g, w')"
    using with_reqSem_Ret[OF assms(2)[unfolded mongoRegisterContext_def]] .
  then obtain idP where p: "processRegisterContext e ops req idP tenant ?sp fmt w = Ret (resp, w')"
    using assms(3)
    by (cases "ro_findReg ops w ?col (ro_oidText ops (rcq_registrationId req)) ?sp")
       (auto simp: register_body_def Let_def cpp_bind_Ret_iff StatusCode_fill_def RegisterContextResponse_new_def split: if_splits)
  have "regs w' ?col (rcr_registrationId resp) = Some (registered_doc req (env_now e w) ?sp fmt)"
    using processRegisterContext_regs[OF assms(1) p] assms(3) by simp
  moreover have "cr \<in> set (map fst (rcq_contextRegistrationVector req))" using assms(4) by force
  ultimately show ?thesis
    using process_reg_doc_stored[of cr "map fst (rcq_contextRegistrationVector req)"] assms(5,6)
    by (auto simp: registered_doc_def)
qed


section \<open>Registrations in memory\<close>

record reg_mem =
  rm_base :: mem_world
  rm_regs :: "(string \<times> string) \<rightharpoonup> reg_full"
  rm_assocs :: "string \<Rightarrow> assoc_doc list"
  rm_next :: nat

definition reg_env :: "reg_mem env" where
  "reg_env = lift_env rm_base (\<lambda>b v. v\<lparr>rm_base := b\<rparr>) mem_env"

definition reg_ops0 :: "reg_mem reg_ops" where
  "reg_ops0 =
     \<lparr>ro_casubsCol = ''casubs'', ro_assocCol = ''associations'',
      ro_newOid = (\<lambda>w. (replicate (rm_next w) (CHR ''a''), w\<lparr>rm_next := rm_next w + 1\<rparr>)),
      ro_badOid = (\<lambda>i. if i = ''bad'' then Some ''malformed id'' else None),
      ro_oidText = map to_lower,
      ro_insertAssoc = (\<lambda>col d w. (None, w\<lparr>rm_assocs := (rm_assocs w)(col := rm_assocs w col @ [d])\<rparr>)),
      ro_queryAssocs = (\<lambda>w col q limit offset. DbDocs []),
      ro_upsertReg = (\<lambda>col i d w. (None, w\<lparr>rm_regs := (rm_regs w)((col, i) \<mapsto> d)\<rparr>)),
      ro_findReg = (\<lambda>w col i sp. case rm_regs w (col, i) of
                      Some d \<Rightarrow> if rg_servicePath d = sp then FDoc d else FNone | None \<Rightarrow> FNone),
      ro_countRegs = (\<lambda>w col q. Inr 0),
      ro_queryCasubs = (\<lambda>w col q. DbDocs []),
      ro_findCasub = (\<lambda>w col i. FNone),
      ro_insertCasub = (\<lambda>col i d w. (None, w)),
      ro_updateCasub = (\<lambda>col i d w. (None, w)),
      ro_removeCasub = (\<lambda>col i w. (None, w)),
      ro_touchCasub = (\<lambda>col i t w. (None, w)),
      ro_sendAvailability = (\<lambda>i crrV url tenant f w. w\<lparr>rm_next := rm_next w + 1\<rparr>),
      ro_show_casub_query = (\<lambda>q. []), ro_show_assoc_query = (\<lambda>q. []), ro_show_reg = (\<lambda>d. []), ro_show_casub = (\<lambda>d. [])\<rparr>"

definition reg_view :: "reg_mem \<Rightarrow> string \<Rightarrow> string \<Rightarrow> reg_full option" where
  "reg_view w col i = rm_regs w (col, i)"

lemma reg_mem_laws: "reg_laws reg_ops0 reg_view"
  by (auto simp: reg_laws_def reg_ops0_def reg_view_def fun_eq_iff split: option.splits if_splits)

lemma reg_mem_assoc_laws: "assoc_laws reg_ops0 rm_assocs"
  by (simp add: assoc_laws_def bystander_def reg_ops0_def)

definition reg_world0 :: reg_mem where
  "reg_world0 = \<lparr>rm_base = mem_world0\<lparr>mw_regs := [sample_reg]\<rparr>, rm_regs = Map.empty, rm_assocs = (\<lambda>_. []), rm_next = 2\<rparr>"

definition reg_cr0 :: ContextRegistration where
  "reg_cr0 = \<lparr>cr_entityIdVector = [EntityId_new ''E1'' ''T'' ''false''],
     cr_attributeVector = [\<lparr>cra_name = ''A'', cra_type = ''t'', cra_isDomain = ''false''\<rparr>],
     cr_providingApplication = \<lparr>pa_string = ''http://p'', pa_format = NOFORMAT\<rparr>\<rparr>"

definition reg_req0 :: RegisterContextRequest where
  "reg_req0 = \<lparr>rcq_contextRegistrationVector = [(reg_cr0, [])], rcq_duration = Duration_new, rcq_registrationId = []\<rparr>"

lemma regs_col0: "getRegistrationsCollectionName reg_env [] = ''orion.registrations''"
  by (simp add: getRegistrationsCollectionName_def reg_env_def lift_env_def mem_env_def composeCollectionName_def composeDatabaseName_def)

lemma registered0:
  "\<exists>resp w'. mongoRegisterContext reg_env reg_ops0 clk0 reg_req0 ''JSON'' [] [] sem_running reg_world0
      = Some (Ret (resp, sem_running, w')) \<and> sc_code (rcr_errorCode resp) = SccOk \<and> rcr_registrationId resp = ''aa''"
  by (simp add: mongoRegisterContext_def with_reqSem_def take_running register_body_def reg_req0_def processRegisterContext_def
      Duration_parse_def reg_ops0_def reg_addTriggeredSubscriptions_def checked_cursor_def register_store_def
      reg_processSubscriptions_def StatusCode_fill_def reg_world0_def numeral_2_eq_2 Let_def)

theorem register_spec_witness:
  "\<exists>resp w' d. mongoRegisterContext reg_env reg_ops0 clk0 reg_req0 ''JSON'' [] [] sem_running reg_world0
      = Some (Ret (resp, sem_running, w')) \<and> reg_view w' ''orion.registrations'' ''aa'' = Some d \<and> rg_servicePath d = ''/''"
proof -
  obtain resp w' where r: "mongoRegisterContext reg_env reg_ops0 clk0 reg_req0 ''JSON'' [] [] sem_running reg_world0
      = Some (Ret (resp, sem_running, w'))" "sc_code (rcr_errorCode resp) = SccOk" "rcr_registrationId resp = ''aa''"
    using registered0 by blast
  then show ?thesis
    using register_spec[OF reg_mem_laws reg_mem_assoc_laws r(1), unfolded regs_col0] by (auto simp: registered_doc_def DEFAULT_SERVICE_PATH_def)
qed

theorem registration_read_back_witness:
  "\<exists>w' d. reg_view w' ''orion.registrations'' ''aa'' = Some d
     \<and> cr_response reg_cr0 JSON \<in> set (process_reg_doc reg_env (cr_entityIdVector reg_cr0) [] [] (rg_doc d))"
proof -
  obtain resp w' where r: "mongoRegisterContext reg_env reg_ops0 clk0 reg_req0 ''JSON'' [] [] sem_running reg_world0
      = Some (Ret (resp, sem_running, w'))" "sc_code (rcr_errorCode resp) = SccOk" "rcr_registrationId resp = ''aa''"
    using registered0 by blast
  have "(reg_cr0, []) \<in> set (rcq_contextRegistrationVector reg_req0)" "cr_entityIdVector reg_cr0 \<noteq> []"
    "\<forall>en\<in>set (cr_entityIdVector reg_cr0). \<not> isTrue (en_isPattern en)"
    by (simp_all add: reg_req0_def reg_cr0_def EntityId_new_def isTrue_def)
  from registration_read_back[OF reg_mem_laws r(1,2) this, unfolded regs_col0 r(3)]
  show ?thesis by (auto simp: stringToFormat_def)
qed

theorem registration_handlers_give_back_witness:
  "\<exists>resp s' w'. mongoRegisterContext reg_env reg_ops0 clk0 reg_req0 ''JSON'' [] [] sem_running reg_world0
      = Some (Ret (resp, s', w')) \<and> reqSem s' = 1"
proof -
  obtain resp w' where r: "mongoRegisterContext reg_env reg_ops0 clk0 reg_req0 ''JSON'' [] [] sem_running reg_world0
      = Some (Ret (resp, sem_running, w'))" using registered0 by blast
  have "reqSem sem_running = 1" by (simp add: sem_running_def)
  then show ?thesis using r registration_handlers_give_back by blast
qed

definition discover_req0 :: DiscoverRequest where
  "discover_req0 = \<lparr>dcq_entityIdVector = [], dcq_attributeList = [],
     dcq_scopeVector = [\<lparr>sco_type = ''IncludeAssociations'', sco_value = ''ALL'', sco_oper = [], sco_area = NoArea\<rparr>]\<rparr>"

theorem discovery_raises_semaphore_witness:
  "\<exists>r s'. mongoDiscoverContextAvailability reg_env reg_ops0 clk0 discover_req0 [] ''0'' ''20'' ''off'' [] sem_running reg_world0
      = Some (Ret (r, s')) \<and> reqSem s' = 2"
proof -
  obtain r s' where d: "mongoDiscoverContextAvailability reg_env reg_ops0 clk0 discover_req0 [] ''0'' ''20'' ''off'' [] sem_running reg_world0
      = Some (Ret (r, s'))"
    by (simp add: mongoDiscoverContextAvailability_def take_running discover_req0_def associationsDiscoverContextAvailability_def Let_def)
  have "reqPolicy sem_running = SemWriteOp" "reqSem sem_running = 1" by (simp_all add: sem_running_def)
  from discovery_raises_semaphore[OF this _ _ d] show ?thesis using d by (auto simp: discover_req0_def)
qed

theorem availability_notification_sound_witness:
  "\<exists>w' crrV. processAvailabilitySubscription reg_env reg_ops0 [EntityId_new ''E1'' ''T'' ''false''] [''A''] ''s1'' ''http://u'' JSON [] reg_world0
      = Ret (True, w') \<and> crrV \<noteq> [] \<and> list_all (reg_ok reg_env [EntityId_new ''E1'' ''T'' ''false''] [''A'']) crrV"
proof -
  obtain w' where p: "processAvailabilitySubscription reg_env reg_ops0 [EntityId_new ''E1'' ''T'' ''false''] [''A''] ''s1'' ''http://u'' JSON [] reg_world0
      = Ret (True, w')"
    by (simp add: processAvailabilitySubscription_def registrationsQuery_def fillQueryServicePath_def reg_env_def lift_env_def
        mem_env_def reg_world0_def mem_world0_def sample_reg_def process_reg_doc_def processContextRegistrationElement_def
        processEntity_def processAttribute_def includedAttribute_def matchEntity_def EntityId_new_def isTrue_def
        mongoUpdateCasubNewNotification_def reg_ops0_def Let_def)
  from availability_notification_sound[OF p] show ?thesis using p by auto
qed

end
