(* ===== verification/Mongo_Entry.thy ===== *)
theory Mongo_Entry
  imports Mongo_Register "HOL-Library.Word"
begin

text \<open>
  The entry points of the NGSI10 operations: \<open>mongoQueryContext.cpp\<close>, \<open>mongoUpdateContext.cpp\<close>,
  \<open>mongoNotifyContext.cpp\<close>, the queries for entity types of \<open>mongoQueryTypes.cpp\<close> and the forwarded
  registration ids of \<open>mongoConfManOperations.cpp\<close>. Functions that the source overloads for vectors
  carry the suffix \<open>V\<close>.
\<close>

section \<open>Operations of the driver\<close>

text \<open>
  The count of the documents of a query; the aggregations over \<open>attrNames\<close>, whose answer is the field
  \<open>result\<close> (\<open>DbNull\<close>: the field is missing, and reading it as an array throws). A type comes with the
  set of its attribute names as the database lists it, where \<open>None\<close> is the null that stands for an entity
  without attributes. An attribute is \<open>None\<close> when its \<open>_id\<close> is missing. The exceptions of the last
  two operations include those of a malformed id.
\<close>

record agg_command =
  ag_type :: "string option"
  ag_servicePath :: "sp_elem list"

record 'w entry_ops =
  eo_countEntities :: "'w \<Rightarrow> string \<Rightarrow> ent_query \<Rightarrow> string + int"
  eo_aggregateTypes :: "'w \<Rightarrow> string \<Rightarrow> agg_command \<Rightarrow> (string \<times> string option list) list db_cursor"
  eo_aggregateAttrs :: "'w \<Rightarrow> string \<Rightarrow> agg_command \<Rightarrow> string option list db_cursor"
  eo_setFwdRegId :: "string \<Rightarrow> string \<Rightarrow> string \<Rightarrow> 'w \<Rightarrow> string option \<times> 'w"
  eo_getFwdRegId :: "'w \<Rightarrow> string \<Rightarrow> string \<Rightarrow> string + string option"
  eo_show_command :: "agg_command \<Rightarrow> string"

section \<open>Requests and responses\<close>

record QueryContextRequest =
  qcr_entityIdVector :: "EntityId list"
  qcr_attributeList :: "string list"
  qcr_scopeVector :: "Scope list"

record QueryContextResponse =
  qrs_contextElementResponseVector :: "ContextElementResponse list"
  qrs_errorCode :: StatusCode

record UpdateContextRequest =
  upr_contextElementVector :: "ContextElement list"
  upr_updateActionType :: string

record UpdateContextResponse =
  urs_contextElementResponseVector :: "ContextElementResponse list"
  urs_errorCode :: StatusCode

definition QueryContextResponse_new :: QueryContextResponse where
  "QueryContextResponse_new = \<lparr>qrs_contextElementResponseVector = [], qrs_errorCode = StatusCode_new\<rparr>"

section \<open>Context providers in the result of a query\<close>

fun someContextElementNotFoundV :: "ContextElementResponse list \<Rightarrow> bool" where
  "someContextElementNotFoundV [] = False"
| "someContextElementNotFoundV (cer # cerV) =
     (if someContextElementNotFound cer then True else someContextElementNotFoundV cerV)"

definition fillContextProvidersV :: "ContextElementResponse list \<Rightarrow> ContextRegistration list \<Rightarrow> ContextElementResponse list" where
  "fillContextProvidersV cerV crrV = map (\<lambda>cer. fillContextProviders cer crrV) cerV"

definition cpr_element :: "EntityId \<Rightarrow> ContextElementResponse" where
  "cpr_element en =
     ContextElementResponse_new
       \<lparr>cer_contextElement := ContextElement_new\<lparr>ce_entityId := EntityId_new (en_id en) (en_type en) ''false''\<rparr>,
        cer_statusCode := StatusCode_fill SccOk []\<rparr>"

definition push_provider :: "ProvidingApplication \<Rightarrow> ContextElementResponse \<Rightarrow> ContextElementResponse" where
  "push_provider pa cer =
     (let ce = cer_contextElement cer
      in cer\<lparr>cer_contextElement := ce\<lparr>ce_providingApplicationList := ce_providingApplicationList ce @ [pa]\<rparr>\<rparr>)"

fun addContextProviderEntity :: "ContextElementResponse list \<Rightarrow> EntityId \<Rightarrow> ProvidingApplication \<Rightarrow> ContextElementResponse list" where
  "addContextProviderEntity [] en pa = [push_provider pa (cpr_element en)]"
| "addContextProviderEntity (cer # cerV) en pa =
     (if cer_of_entity en cer then push_provider pa cer # cerV
      else cer # addContextProviderEntity cerV en pa)"

definition push_attribute :: "string \<Rightarrow> ProvidingApplication \<Rightarrow> ContextElementResponse \<Rightarrow> ContextElementResponse" where
  "push_attribute name pa cer =
     (let ce = cer_contextElement cer
      in cer\<lparr>cer_contextElement := ce\<lparr>ce_contextAttributeVector := ce_contextAttributeVector ce @
           [(ContextAttribute_new name [] [] True)\<lparr>ca_providingApplication := pa\<rparr>]\<rparr>\<rparr>)"

fun addContextProviderAttribute ::
  "ContextElementResponse list \<Rightarrow> EntityId \<Rightarrow> ContextRegistrationAttribute \<Rightarrow> ProvidingApplication \<Rightarrow> ContextElementResponse list" where
  "addContextProviderAttribute [] en cra pa = [push_attribute (cra_name cra) pa (cpr_element en)]"
| "addContextProviderAttribute (cer # cerV) en cra pa =
     (if \<not> cer_of_entity en cer then cer # addContextProviderAttribute cerV en cra pa
      else if list_ex (\<lambda>ca. ca_name ca = cra_name cra) (ce_contextAttributeVector (cer_contextElement cer)) then cer # cerV
      else push_attribute (cra_name cra) pa cer # cerV)"

fun matchEntityInCrr :: "'w env \<Rightarrow> EntityId list \<Rightarrow> EntityId \<Rightarrow> bool" where
  "matchEntityInCrr e [] en = False"
| "matchEntityInCrr e (crEn # crEns) en = (if matchEntity e crEn en then True else matchEntityInCrr e crEns en)"

definition add_registration :: "ContextElementResponse list \<Rightarrow> ContextRegistration \<Rightarrow> ContextElementResponse list" where
  "add_registration cerV cr =
     (if cr_attributeVector cr = []
      then foldl (\<lambda>v en. addContextProviderEntity v en (cr_providingApplication cr)) cerV (cr_entityIdVector cr)
      else foldl (\<lambda>v en. foldl (\<lambda>v' cra. addContextProviderAttribute v' en cra (cr_providingApplication cr))
                           v (cr_attributeVector cr))
             cerV (cr_entityIdVector cr))"

text \<open>\<open>enP\<close> is \<open>None\<close> for the default NULL: no filter.\<close>

fun addContextProviders ::
  "'w env \<Rightarrow> ContextElementResponse list \<Rightarrow> ContextRegistration list \<Rightarrow> EntityId option \<Rightarrow> ContextElementResponse list" where
  "addContextProviders e cerV [] enP = cerV"
| "addContextProviders e cerV (cr # crrV) enP =
     (if (case enP of None \<Rightarrow> False | Some en \<Rightarrow> \<not> matchEntityInCrr e (cr_entityIdVector cr) en)
      then addContextProviders e cerV crrV enP
      else addContextProviders e (add_registration cerV cr) crrV enP)"

fun processGenericEntities ::
  "'w env \<Rightarrow> EntityId list \<Rightarrow> ContextElementResponse list \<Rightarrow> ContextRegistration list \<Rightarrow> ContextElementResponse list" where
  "processGenericEntities e [] cerV crrV = cerV"
| "processGenericEntities e (en # enV) cerV crrV =
     (if en_type en = [] \<or> isTrue (en_isPattern en)
      then processGenericEntities e enV (addContextProviders e cerV crrV (Some en)) crrV
      else processGenericEntities e enV cerV crrV)"

section \<open>Querying\<close>

text \<open>\<open>entitiesQuery\<close> with the number of matching documents, which is asked for when \<open>countP\<close> is not NULL.\<close>

definition entitiesQuery_count ::
  "'w env \<Rightarrow> 'w entry_ops \<Rightarrow> EntityId list \<Rightarrow> string list \<Rightarrow> Scope list \<Rightarrow> string \<Rightarrow> string list \<Rightarrow> int \<Rightarrow> int \<Rightarrow> bool \<Rightarrow> 'w
   \<Rightarrow> (string + ContextElementResponse list \<times> int option) cpp" where
  "entitiesQuery_count e ops enV attrL scopes tenant servicePath offset limit counting w =
     cpp_bind (fillQueryServicePath (env_buf0 e) servicePath) (\<lambda>sp.
       let query = entities_query e enV attrL scopes sp;
           col = getEntitiesCollectionName e tenant
       in case (if counting then map_sum id Some (eo_countEntities ops w col query) else Inr None) of
            Inl what \<Rightarrow> Ret (Inl (''collection: '' @ col @ '' - query(): '' @ env_show_ent_query e query @ '' - exception: '' @ what))
          | Inr count \<Rightarrow>
              cpp_bind (entitiesQuery e enV attrL scopes True tenant servicePath offset limit w)
                (\<lambda>r. case r of Inl err \<Rightarrow> Ret (Inl err) | Inr rawCerV \<Rightarrow> Ret (Inr (rawCerV, count))))"

text \<open>A lookup of registrations whose failure is only logged.\<close>

definition with_registrations ::
  "'w env \<Rightarrow> EntityId list \<Rightarrow> string list \<Rightarrow> string \<Rightarrow> string list \<Rightarrow> 'w
   \<Rightarrow> (ContextElementResponse list \<Rightarrow> ContextRegistration list \<Rightarrow> ContextElementResponse list)
   \<Rightarrow> ContextElementResponse list \<Rightarrow> ContextElementResponse list cpp" where
  "with_registrations e enV attrL tenant servicePathV w f rawCerV =
     cpp_bind (registrationsQuery e enV attrL tenant servicePathV 0 0 w)
       (\<lambda>r. case r of
          Inl err \<Rightarrow> Ret rawCerV
        | Inr crrV \<Rightarrow> Ret (if length crrV > 0 then f rawCerV crrV else rawCerV))"

text \<open>
  The four lookups. The request semaphore has already been given back, so that each of them may find
  the database in another state: \<open>ws k\<close> is the state that the \<open>k\<close>-th lookup finds.
\<close>

definition complete_query ::
  "'w env \<Rightarrow> EntityId list \<Rightarrow> string list \<Rightarrow> string \<Rightarrow> string list \<Rightarrow> (nat \<Rightarrow> 'w) \<Rightarrow> ContextElementResponse list
   \<Rightarrow> ContextElementResponse list cpp" where
  "complete_query e enV attrL tenant servicePathV ws raw0 =
     cpp_bind (if raw0 = []
               then with_registrations e enV attrL tenant servicePathV (ws 0) (processGenericEntities e enV) raw0
               else Ret raw0) (\<lambda>raw1.
     cpp_bind (if someContextElementNotFoundV raw1
               then with_registrations e enV attrL tenant servicePathV (ws 1)
                      (\<lambda>v crrV. processGenericEntities e enV (fillContextProvidersV v crrV) crrV) raw1
               else Ret raw1) (\<lambda>raw2.
     cpp_bind (if someContextElementNotFoundV raw2
               then with_registrations e enV [] tenant servicePathV (ws 2) fillContextProvidersV raw2
               else Ret raw2) (\<lambda>raw3.
     if attrL = []
     then with_registrations e enV attrL tenant servicePathV (ws 3) (\<lambda>v crrV. addContextProviders e v crrV None) raw3
     else Ret raw3)))"

definition query_status :: "ContextElementResponse list \<Rightarrow> int option \<Rightarrow> int \<Rightarrow> StatusCode" where
  "query_status cerV count offset =
     (if cerV = [] then
        (case count of
           Some n \<Rightarrow> if n > 0 \<and> offset \<ge> n
                     then StatusCode_fill SccContextElementNotFound
                            (''Number of matching entities: '' @ int_str n @ ''. Offset is '' @ int_str offset)
                     else StatusCode_fill SccContextElementNotFound []
         | None \<Rightarrow> StatusCode_fill SccContextElementNotFound [])
      else case count of
             Some n \<Rightarrow> StatusCode_fill SccOk (''Count: '' @ int_str n)
           | None \<Rightarrow> StatusCode_new)"

text \<open>\<open>offsetS\<close> and \<open>limitS\<close> are the URI parameters; the count is the value left in \<open>*countP\<close>.\<close>

definition mongoQueryContext ::
  "'w env \<Rightarrow> 'w entry_ops \<Rightarrow> timespec \<times> timespec \<Rightarrow> QueryContextRequest \<Rightarrow> string \<Rightarrow> string list \<Rightarrow> string \<Rightarrow> string \<Rightarrow> bool
   \<Rightarrow> (nat \<Rightarrow> 'w) \<Rightarrow> sem_state \<Rightarrow> 'w \<Rightarrow> (QueryContextResponse \<times> int option \<times> sem_state) cpp option" where
  "mongoQueryContext e ops clk req tenant servicePathV offsetS limitS counting ws s w =
     (let offset = atoi (c_str offsetS); limit = atoi (c_str limitS);
          enV = qcr_entityIdVector req; attrL = qcr_attributeList req
      in case reqSemTake False (fst clk) (snd clk) SemReadOp s of
           None \<Rightarrow> None
         | Some (_, reqSemTaken, s1) \<Rightarrow>
             Some (cpp_bind (entitiesQuery_count e ops enV attrL (qcr_scopeVector req) tenant servicePathV offset limit counting w)
               (\<lambda>r. let s2 = snd (reqSemGive reqSemTaken s1)
                    in case r of
                         Inl err \<Rightarrow> Ret (QueryContextResponse_new\<lparr>qrs_errorCode := StatusCode_fill SccReceiverInternalError err\<rparr>, None, s2)
                       | Inr (raw0, count) \<Rightarrow>
                           cpp_bind (complete_query e enV attrL tenant servicePathV ws raw0) (\<lambda>rawCerV.
                             let cerV = pruneContextElements rawCerV []
                             in Ret (\<lparr>qrs_contextElementResponseVector = cerV,
                                      qrs_errorCode = query_status cerV count offset\<rparr>, count, s2)))))"

section \<open>Updating\<close>

fun update_elements ::
  "'w env \<Rightarrow> string \<Rightarrow> string \<Rightarrow> string list \<Rightarrow> string \<Rightarrow> string \<Rightarrow> ContextElement list \<Rightarrow> ContextElementResponse list \<Rightarrow> 'w
   \<Rightarrow> (ContextElementResponse list \<times> 'w) cpp" where
  "update_elements e action tenant servicePathV notExist xauthToken [] cerV w = Ret (cerV, w)"
| "update_elements e action tenant servicePathV notExist xauthToken (ce # ceV) cerV w =
     cpp_bind (processContextElement e ce action tenant servicePathV notExist xauthToken w)
       (\<lambda>(cers, w1). update_elements e action tenant servicePathV notExist xauthToken ceV (cerV @ cers) w1)"

definition update_body ::
  "'w env \<Rightarrow> UpdateContextRequest \<Rightarrow> string \<Rightarrow> string list \<Rightarrow> string \<Rightarrow> string \<Rightarrow> 'w \<Rightarrow> (UpdateContextResponse \<times> bool \<times> 'w) cpp" where
  "update_body e req tenant servicePathV notExist xauthToken w =
     (if length servicePathV > 1
      then Ret (\<lparr>urs_contextElementResponseVector = [],
                 urs_errorCode = StatusCode_fill SccBadRequest ''service path length greater than one in update''\<rparr>, True, w)
      else cpp_bind (update_elements e (upr_updateActionType req) tenant servicePathV notExist xauthToken
                       (upr_contextElementVector req) [] w)
             (\<lambda>(cerV, w1). Ret (\<lparr>urs_contextElementResponseVector = cerV, urs_errorCode = StatusCode_fill SccOk []\<rparr>, True, w1)))"

definition mongoUpdateContext ::
  "'w env \<Rightarrow> timespec \<times> timespec \<Rightarrow> UpdateContextRequest \<Rightarrow> string \<Rightarrow> string list \<Rightarrow> string \<Rightarrow> string \<Rightarrow> sem_state \<Rightarrow> 'w
   \<Rightarrow> (UpdateContextResponse \<times> sem_state \<times> 'w) cpp option" where
  "mongoUpdateContext e clk req tenant servicePathV notExist xauthToken =
     with_reqSem clk SemWriteOp (update_body e req tenant servicePathV notExist xauthToken)"

text \<open>
  A notification received from another broker: each element is appended with a response of its own,
  which is dropped, and without URI parameters. The result is the status of the answer.
\<close>

fun notify_elements ::
  "'w env \<Rightarrow> string \<Rightarrow> string list \<Rightarrow> string \<Rightarrow> ContextElementResponse list \<Rightarrow> 'w \<Rightarrow> 'w cpp" where
  "notify_elements e tenant servicePathV xauthToken [] w = Ret w"
| "notify_elements e tenant servicePathV xauthToken (cer # cerV) w =
     cpp_bind (processContextElement e (cer_contextElement cer) ''append'' tenant servicePathV [] xauthToken w)
       (\<lambda>(cers, w1). notify_elements e tenant servicePathV xauthToken cerV w1)"

definition notify_body ::
  "'w env \<Rightarrow> ContextElementResponse list \<Rightarrow> string \<Rightarrow> string \<Rightarrow> string list \<Rightarrow> 'w \<Rightarrow> (StatusCode \<times> bool \<times> 'w) cpp" where
  "notify_body e cerV tenant xauthToken servicePathV w =
     cpp_bind (notify_elements e tenant servicePathV xauthToken cerV w) (\<lambda>w1. Ret (StatusCode_fill SccOk [], True, w1))"

definition mongoNotifyContext ::
  "'w env \<Rightarrow> timespec \<times> timespec \<Rightarrow> ContextElementResponse list \<Rightarrow> string \<Rightarrow> string \<Rightarrow> string list \<Rightarrow> sem_state \<Rightarrow> 'w
   \<Rightarrow> (StatusCode \<times> sem_state \<times> 'w) cpp option" where
  "mongoNotifyContext e clk cerV tenant xauthToken servicePathV =
     with_reqSem clk SemWriteOp (notify_body e cerV tenant xauthToken servicePathV)"

section \<open>Entity types\<close>

record TypeEntity =
  te_type :: string
  te_contextAttributeVector :: "ContextAttribute list"

record EntityTypesResponse =
  etr_typeEntityVector :: "TypeEntity list"
  etr_statusCode :: StatusCode

record EntityTypeAttributesResponse =
  ear_entityType :: TypeEntity
  ear_statusCode :: StatusCode

text \<open>
  The elements that the loop \<open>for (unsigned int ix = offset; ix < MIN(size, offset + limit); ++ix)\<close>
  visits: \<open>offset\<close> and \<open>limit\<close> are unsigned numbers of 32 bits, and so is their sum.
\<close>

definition page :: "32 word \<Rightarrow> 32 word \<Rightarrow> 'a list \<Rightarrow> 'a list" where
  "page offset limit xs = map ((!) xs) [unat offset ..< min (length xs) (unat (offset + limit))]"

text \<open>The attributes of a type: nulls are left out, and a null in the first place skips the loop.\<close>

definition type_entity :: "string \<times> string option list \<Rightarrow> TypeEntity cpp" where
  "type_entity item =
     cpp_bind (vec_at (snd item) 0) (\<lambda>first.
       Ret \<lparr>te_type = fst item,
            te_contextAttributeVector =
              (if first \<noteq> None
               then List.map_filter (map_option (\<lambda>n. ContextAttribute_new n [] [] True)) (snd item)
               else [])\<rparr>)"

fun type_entities :: "(string \<times> string option list) list \<Rightarrow> TypeEntity list cpp" where
  "type_entities [] = Ret []"
| "type_entities (item # items) =
     cpp_bind (type_entity item) (\<lambda>t. cpp_bind (type_entities items) (\<lambda>ts. Ret (t # ts)))"

definition page_status :: "string \<Rightarrow> bool \<Rightarrow> bool \<Rightarrow> nat \<Rightarrow> 32 word \<Rightarrow> StatusCode" where
  "page_status what nonempty details found offset =
     (if nonempty
      then if details then StatusCode_fill SccOk (''Count: '' @ int_str (int found)) else StatusCode_fill SccOk []
      else if details
           then StatusCode_fill SccContextElementNotFound
                  (''Number of '' @ what @ '': '' @ int_str (int found) @ ''. Offset is '' @ int_str (sint offset))
           else StatusCode_fill SccContextElementNotFound [])"

definition entity_types_body ::
  "'w env \<Rightarrow> 'w entry_ops \<Rightarrow> string \<Rightarrow> string list \<Rightarrow> string \<Rightarrow> string \<Rightarrow> string \<Rightarrow> 'w \<Rightarrow> (EntityTypesResponse \<times> bool \<times> 'w) cpp" where
  "entity_types_body e ops tenant servicePathV offsetS limitS detailsString w =
     (let offset = word_of_int (atoi (c_str offsetS)); limit = word_of_int (atoi (c_str limitS));
          details = strcaseeq ''on'' (c_str detailsString);
          db = composeDatabaseName (env_multitenant e) (env_dbPrefix e) tenant
      in cpp_bind (fillQueryServicePath (env_buf0 e) servicePathV) (\<lambda>sp.
           let cmd = \<lparr>ag_type = None, ag_servicePath = sp\<rparr>
           in case eo_aggregateTypes ops w db cmd of
                DbThrow what \<Rightarrow>
                  Ret (\<lparr>etr_typeEntityVector = [],
                        etr_statusCode = StatusCode_fill SccReceiverInternalError
                          (''database: '' @ db @ '' - command: '' @ eo_show_command ops cmd @ '' - exception: '' @ what)\<rparr>, True, w)
              | DbNull \<Rightarrow> UB
              | DbDocs resultsArray \<Rightarrow>
                  if resultsArray = []
                  then Ret (\<lparr>etr_typeEntityVector = [], etr_statusCode = StatusCode_fill SccContextElementNotFound []\<rparr>, True, w)
                  else cpp_bind (type_entities (page offset limit resultsArray)) (\<lambda>ts.
                         Ret (\<lparr>etr_typeEntityVector = ts,
                               etr_statusCode = page_status ''types'' (ts \<noteq> []) details (length resultsArray) offset\<rparr>, True, w))))"

definition mongoEntityTypes ::
  "'w env \<Rightarrow> 'w entry_ops \<Rightarrow> timespec \<times> timespec \<Rightarrow> string \<Rightarrow> string list \<Rightarrow> string \<Rightarrow> string \<Rightarrow> string \<Rightarrow> sem_state \<Rightarrow> 'w
   \<Rightarrow> (EntityTypesResponse \<times> sem_state \<times> 'w) cpp option" where
  "mongoEntityTypes e ops clk tenant servicePathV offsetS limitS detailsString =
     with_reqSem clk SemReadOp (entity_types_body e ops tenant servicePathV offsetS limitS detailsString)"

definition type_attributes_body ::
  "'w env \<Rightarrow> 'w entry_ops \<Rightarrow> string \<Rightarrow> string \<Rightarrow> string list \<Rightarrow> string \<Rightarrow> string \<Rightarrow> string \<Rightarrow> 'w
   \<Rightarrow> (EntityTypeAttributesResponse \<times> bool \<times> 'w) cpp" where
  "type_attributes_body e ops entityType tenant servicePathV offsetS limitS detailsString w =
     (let offset = word_of_int (atoi (c_str offsetS)); limit = word_of_int (atoi (c_str limitS));
          details = strcaseeq ''on'' (c_str detailsString);
          db = composeDatabaseName (env_multitenant e) (env_dbPrefix e) tenant;
          answer = (\<lambda>cas sc. \<lparr>ear_entityType = \<lparr>te_type = entityType, te_contextAttributeVector = cas\<rparr>, ear_statusCode = sc\<rparr>)
      in cpp_bind (fillQueryServicePath (env_buf0 e) servicePathV) (\<lambda>sp.
           let cmd = \<lparr>ag_type = Some entityType, ag_servicePath = sp\<rparr>
           in case eo_aggregateAttrs ops w db cmd of
                DbThrow what \<Rightarrow>
                  Ret (answer [] (StatusCode_fill SccReceiverInternalError
                         (''database: '' @ db @ '' - command: '' @ eo_show_command ops cmd @ '' - exception: '' @ what)), True, w)
              | DbNull \<Rightarrow> UB
              | DbDocs resultsArray \<Rightarrow>
                  if resultsArray = [] then Ret (answer [] (StatusCode_fill SccContextElementNotFound []), True, w)
                  else let cas = List.map_filter (map_option (\<lambda>n. ContextAttribute_new n [] [] True)) (page offset limit resultsArray)
                       in Ret (answer cas (page_status ''attributes'' (cas \<noteq> []) details (length resultsArray) offset), True, w)))"

definition mongoAttributesForEntityType ::
  "'w env \<Rightarrow> 'w entry_ops \<Rightarrow> timespec \<times> timespec \<Rightarrow> string \<Rightarrow> string \<Rightarrow> string list \<Rightarrow> string \<Rightarrow> string \<Rightarrow> string \<Rightarrow> sem_state \<Rightarrow> 'w
   \<Rightarrow> (EntityTypeAttributesResponse \<times> sem_state \<times> 'w) cpp option" where
  "mongoAttributesForEntityType e ops clk entityType tenant servicePathV offsetS limitS detailsString =
     with_reqSem clk SemReadOp (type_attributes_body e ops entityType tenant servicePathV offsetS limitS detailsString)"

section \<open>Forwarded registrations\<close>

definition set_fwd_body :: "'w env \<Rightarrow> 'w entry_ops \<Rightarrow> string \<Rightarrow> string \<Rightarrow> string \<Rightarrow> 'w \<Rightarrow> (unit \<times> bool \<times> 'w) cpp" where
  "set_fwd_body e ops regId fwdRegId tenant w =
     (case eo_setFwdRegId ops (getRegistrationsCollectionName e tenant) regId fwdRegId w of
        (Some what, w1) \<Rightarrow> Ret ((), True, w1)
      | (None, w1) \<Rightarrow> Ret ((), True, w1))"

definition mongoSetFwdRegId ::
  "'w env \<Rightarrow> 'w entry_ops \<Rightarrow> timespec \<times> timespec \<Rightarrow> string \<Rightarrow> string \<Rightarrow> string \<Rightarrow> sem_state \<Rightarrow> 'w \<Rightarrow> (unit \<times> sem_state \<times> 'w) cpp option" where
  "mongoSetFwdRegId e ops clk regId fwdRegId tenant = with_reqSem clk SemWriteOp (set_fwd_body e ops regId fwdRegId tenant)"

definition get_fwd_body :: "'w env \<Rightarrow> 'w entry_ops \<Rightarrow> string \<Rightarrow> string \<Rightarrow> 'w \<Rightarrow> (string \<times> bool \<times> 'w) cpp" where
  "get_fwd_body e ops regId tenant w =
     (case eo_getFwdRegId ops w (getRegistrationsCollectionName e tenant) regId of
        Inl what \<Rightarrow> Ret ([], True, w)
      | Inr field \<Rightarrow> Ret (STR_FIELD field, True, w))"

definition mongoGetFwdRegId ::
  "'w env \<Rightarrow> 'w entry_ops \<Rightarrow> timespec \<times> timespec \<Rightarrow> string \<Rightarrow> string \<Rightarrow> sem_state \<Rightarrow> 'w \<Rightarrow> (string \<times> sem_state \<times> 'w) cpp option" where
  "mongoGetFwdRegId e ops clk regId tenant = with_reqSem clk SemReadOp (get_fwd_body e ops regId tenant)"

section \<open>What the lookups of providers do to the result of a query\<close>

text \<open>
  A relation between the result of a query before and after that each of the functions which add
  providers respects holds for the four lookups together.
\<close>

locale query_relation =
  fixes R :: "ContextElementResponse list \<Rightarrow> ContextElementResponse list \<Rightarrow> bool" and e :: "'w env"
  assumes R_refl: "R v v"
    and R_trans: "R v u \<Longrightarrow> R u t \<Longrightarrow> R v t"
    and R_add: "R v (addContextProviders e v crrV enP)"
    and R_generic: "R v (processGenericEntities e enV v crrV)"
    and R_fill: "R v (fillContextProvidersV v crrV)"
begin

lemma lookup:
  assumes "(if b then with_registrations e enV attrL tenant sp w f v else Ret v) = Ret u" "\<And>v crrV. R v (f v crrV)"
  shows "R v u"
proof (cases b)
  case True
  with assms(1) obtain r where "registrationsQuery e enV attrL tenant sp 0 0 w = Ret r"
    and "(case r of Inl err \<Rightarrow> Ret v | Inr crrV \<Rightarrow> Ret (if length crrV > 0 then f v crrV else v)) = Ret u"
    by (auto simp: with_registrations_def cpp_bind_Ret_iff)
  then show ?thesis using assms(2) R_refl by (cases r) auto
next
  case False
  then show ?thesis using assms(1) R_refl by simp
qed

lemma complete:
  assumes "complete_query e enV attrL tenant sp ws v = Ret u"
  shows "R v u"
proof -
  have fill: "R v (processGenericEntities e enV (fillContextProvidersV v crrV) crrV)" for v crrV
    by (rule R_trans[OF R_fill R_generic])
  obtain v1 v2 v3 where
    1: "(if v = [] then with_registrations e enV attrL tenant sp (ws 0) (processGenericEntities e enV) v else Ret v) = Ret v1"
    and 2: "(if someContextElementNotFoundV v1 then with_registrations e enV attrL tenant sp (ws 1)
              (\<lambda>v crrV. processGenericEntities e enV (fillContextProvidersV v crrV) crrV) v1 else Ret v1) = Ret v2"
    and 3: "(if someContextElementNotFoundV v2 then with_registrations e enV [] tenant sp (ws 2) fillContextProvidersV v2
             else Ret v2) = Ret v3"
    and 4: "(if attrL = [] then with_registrations e enV attrL tenant sp (ws 3) (\<lambda>v crrV. addContextProviders e v crrV None) v3
             else Ret v3) = Ret u"
    using assms unfolding complete_query_def cpp_bind_Ret_iff by blast
  show ?thesis
    using lookup[OF 1 R_generic] lookup[OF 2 fill] lookup[OF 3 R_fill] lookup[OF 4 R_add] by (blast intro: R_trans)
qed

end

section \<open>Local data are kept\<close>

abbreviation attrs_of :: "ContextElementResponse \<Rightarrow> ContextAttribute list" where
  "attrs_of cer \<equiv> ce_contextAttributeVector (cer_contextElement cer)"

abbreviation entity_of :: "ContextElementResponse \<Rightarrow> EntityId" where
  "entity_of cer \<equiv> ce_entityId (cer_contextElement cer)"

text \<open>
  An attribute keeps its name, and a found one is not touched at all. An element keeps its entity and status;
  its attributes stay in place, and the ones added have names of their own. Elements stay in place.
\<close>

definition attr_keeps :: "ContextAttribute \<Rightarrow> ContextAttribute \<Rightarrow> bool" where
  "attr_keeps a b \<longleftrightarrow> ca_name b = ca_name a \<and> (ca_found a \<longrightarrow> b = a)"

definition cer_keeps :: "ContextElementResponse \<Rightarrow> ContextElementResponse \<Rightarrow> bool" where
  "cer_keeps c d \<longleftrightarrow> entity_of d = entity_of c \<and> cer_statusCode d = cer_statusCode c \<and> cer_prune d = cer_prune c
     \<and> (\<exists>as extra. attrs_of d = as @ extra \<and> list_all2 attr_keeps (attrs_of c) as
          \<and> list_all (\<lambda>x. ca_found x \<and> ca_name x \<notin> ca_name ` set (attrs_of c)) extra)"

definition cerV_keeps :: "ContextElementResponse list \<Rightarrow> ContextElementResponse list \<Rightarrow> bool" where
  "cerV_keeps v u \<longleftrightarrow> (\<exists>u1 u2. u = u1 @ u2 \<and> list_all2 cer_keeps v u1)"

lemma attr_keeps_refl [simp]: "attr_keeps a a"
  by (simp add: attr_keeps_def)

lemma attr_keeps_trans: "attr_keeps a b \<Longrightarrow> attr_keeps b c \<Longrightarrow> attr_keeps a c"
  by (auto simp: attr_keeps_def)

lemma attrs_keep_names: "list_all2 attr_keeps xs ys \<Longrightarrow> map ca_name ys = map ca_name xs"
  by (induction rule: list_all2_induct) (auto simp: attr_keeps_def)

lemma attrs_keep_found: "list_all2 attr_keeps xs ys \<Longrightarrow> list_all ca_found xs \<Longrightarrow> ys = xs"
  by (induction rule: list_all2_induct) (auto simp: attr_keeps_def)

lemma attrs_keep_refl [simp]: "list_all2 attr_keeps xs xs"
  by (rule list_all2_refl) simp

lemma cer_keepsI:
  assumes "entity_of d = entity_of c" "cer_statusCode d = cer_statusCode c" "cer_prune d = cer_prune c"
    and "attrs_of d = as @ extra" "list_all2 attr_keeps (attrs_of c) as"
    and "\<And>x. x \<in> set extra \<Longrightarrow> ca_found x \<and> ca_name x \<notin> ca_name ` set (attrs_of c)"
  shows "cer_keeps c d"
  using assms unfolding cer_keeps_def list_all_iff by blast

lemma cer_keeps_refl [simp]: "cer_keeps c c"
  by (rule cer_keepsI[of _ _ "attrs_of c" "[]"]) simp_all

lemma cer_keeps_trans:
  assumes "cer_keeps a b" "cer_keeps b c"
  shows "cer_keeps a c"
proof -
  obtain as ex where b: "attrs_of b = as @ ex" "list_all2 attr_keeps (attrs_of a) as"
    "list_all (\<lambda>x. ca_found x \<and> ca_name x \<notin> ca_name ` set (attrs_of a)) ex"
    using assms(1) by (auto simp: cer_keeps_def)
  obtain bs ex' where c: "attrs_of c = bs @ ex'" "list_all2 attr_keeps (attrs_of b) bs"
    "list_all (\<lambda>x. ca_found x \<and> ca_name x \<notin> ca_name ` set (attrs_of b)) ex'"
    using assms(2) by (auto simp: cer_keeps_def)
  obtain cs1 cs2 where cs: "bs = cs1 @ cs2" "list_all2 attr_keeps as cs1" "list_all2 attr_keeps ex cs2"
    using c(2) b(1) by (auto simp: list_all2_append1)
  have ex: "cs2 = ex" using attrs_keep_found[OF cs(3)] b(3) by (auto simp: list_all_iff)
  have keep: "list_all2 attr_keeps (attrs_of a) cs1" using list_all2_trans[OF attr_keeps_trans b(2) cs(2)] .
  have "ca_name ` set (attrs_of a) \<subseteq> ca_name ` set (attrs_of b)"
    using attrs_keep_names[OF b(2)] b(1) by (metis Un_upper1 image_Un list.set_map set_append)
  then have "list_all (\<lambda>x. ca_found x \<and> ca_name x \<notin> ca_name ` set (attrs_of a)) (ex @ ex')"
    using b(3) c(3) by (auto simp: list_all_iff)
  moreover have "attrs_of c = cs1 @ (ex @ ex')" using c(1) cs(1) ex by simp
  moreover have "entity_of c = entity_of a" "cer_statusCode c = cer_statusCode a" "cer_prune c = cer_prune a"
    using assms by (simp_all add: cer_keeps_def)
  ultimately show ?thesis using keep by (intro cer_keepsI[of _ _ cs1 "ex @ ex'"]) (auto simp: list_all_iff)
qed

lemma cerV_keeps_refl [simp]: "cerV_keeps v v"
  unfolding cerV_keeps_def by (intro exI[of _ v] exI[of _ "[]"]) (simp add: list_all2_refl)

lemma cerV_keeps_trans:
  assumes "cerV_keeps a b" "cerV_keeps b c"
  shows "cerV_keeps a c"
proof -
  obtain b1 b2 where b: "b = b1 @ b2" "list_all2 cer_keeps a b1" using assms(1) by (auto simp: cerV_keeps_def)
  obtain c1 c2 where c: "c = c1 @ c2" "list_all2 cer_keeps b c1" using assms(2) by (auto simp: cerV_keeps_def)
  obtain d1 d2 where d: "c1 = d1 @ d2" "list_all2 cer_keeps b1 d1" using c(2) b(1) by (auto simp: list_all2_append1)
  have "list_all2 cer_keeps a d1" using list_all2_trans[OF cer_keeps_trans b(2) d(2)] .
  then show ?thesis using c(1) d(1) unfolding cerV_keeps_def by (intro exI[of _ d1] exI[of _ "d2 @ c2"]) simp
qed

lemma cerV_keeps_Nil [simp]: "cerV_keeps [] u"
  by (auto simp: cerV_keeps_def)

lemma cerV_keeps_Cons: "cer_keeps c d \<Longrightarrow> cerV_keeps v u \<Longrightarrow> cerV_keeps (c # v) (d # u)"
  unfolding cerV_keeps_def by (metis append_Cons list_all2_Cons)

lemma cerV_keeps_foldl:
  assumes "\<And>v x. cerV_keeps v (f v x)"
  shows "cerV_keeps v (foldl f v xs)"
  by (induction xs arbitrary: v) (auto intro: cerV_keeps_trans assms)

lemma push_provider_keeps: "cer_keeps c (push_provider pa c)"
  by (rule cer_keepsI[of _ _ "attrs_of c" "[]"]) (simp_all add: push_provider_def Let_def)

lemma push_attribute_keeps: "name \<notin> ca_name ` set (attrs_of c) \<Longrightarrow> cer_keeps c (push_attribute name pa c)"
  by (rule cer_keepsI[of _ _ "attrs_of c"]) (auto simp: push_attribute_def Let_def ContextAttribute_new_def)

lemma addContextProviderEntity_keeps: "cerV_keeps v (addContextProviderEntity v en pa)"
  by (induction v en pa rule: addContextProviderEntity.induct) (auto intro: cerV_keeps_Cons push_provider_keeps)

lemma addContextProviderAttribute_keeps: "cerV_keeps v (addContextProviderAttribute v en cra pa)"
  by (induction v en cra pa rule: addContextProviderAttribute.induct)
     (auto simp: list_ex_iff intro!: cerV_keeps_Cons push_attribute_keeps)

lemma add_registration_keeps: "cerV_keeps v (add_registration v cr)"
  unfolding add_registration_def
  by (auto intro!: cerV_keeps_foldl addContextProviderEntity_keeps addContextProviderAttribute_keeps)

lemma addContextProviders_keeps: "cerV_keeps v (addContextProviders e v crrV enP)"
  by (induction e v crrV enP rule: addContextProviders.induct) (auto intro: cerV_keeps_trans add_registration_keeps)

lemma processGenericEntities_keeps: "cerV_keeps v (processGenericEntities e enV v crrV)"
  by (induction e enV v crrV rule: processGenericEntities.induct) (auto intro: cerV_keeps_trans addContextProviders_keeps)

lemma fillContextProviders_keeps: "cer_keeps c (fillContextProviders c crrV)"
proof -
  have "list_all2 attr_keeps xs (map (fill_provider en crrV) xs)" for xs en
    by (induction xs) (auto simp: attr_keeps_def fill_provider_def Let_def split: prod.splits)
  then show ?thesis
    by (intro cer_keepsI[of _ _ "map (fill_provider (entity_of c) crrV) (attrs_of c)" "[]"])
       (simp_all add: fillContextProviders_def Let_def)
qed

lemma fillContextProvidersV_keeps: "cerV_keeps v (fillContextProvidersV v crrV)"
  by (induction v) (auto simp: fillContextProvidersV_def intro: cerV_keeps_Cons fillContextProviders_keeps)

interpretation keeps: query_relation cerV_keeps e for e
  by unfold_locales
     (auto intro: cerV_keeps_trans addContextProviders_keeps processGenericEntities_keeps fillContextProvidersV_keeps)

lemma cer_keeps_attr: "cer_keeps c d \<Longrightarrow> a \<in> set (attrs_of c) \<Longrightarrow> ca_found a \<Longrightarrow> a \<in> set (attrs_of d)"
proof -
  assume "cer_keeps c d" "a \<in> set (attrs_of c)" "ca_found a"
  moreover have "a \<in> set ys" if "list_all2 attr_keeps xs ys" "a \<in> set xs" for xs ys
    using that \<open>ca_found a\<close> by (induction rule: list_all2_induct) (auto simp: attr_keeps_def)
  ultimately show "a \<in> set (attrs_of d)" by (auto simp: cer_keeps_def)
qed

lemma cer_keeps_count:
  assumes "cer_keeps c d" "a \<in> set (attrs_of c)"
  shows "length (filter (\<lambda>x. ca_name x = ca_name a) (attrs_of d)) = length (filter (\<lambda>x. ca_name x = ca_name a) (attrs_of c))"
proof -
  obtain as extra where d: "attrs_of d = as @ extra" "list_all2 attr_keeps (attrs_of c) as"
    "list_all (\<lambda>x. ca_found x \<and> ca_name x \<notin> ca_name ` set (attrs_of c)) extra"
    using assms(1) by (auto simp: cer_keeps_def)
  have count: "length (filter (\<lambda>x. ca_name x = n) xs) = length (filter (\<lambda>m. m = n) (map ca_name xs))" for n xs
    by (simp add: filter_map comp_def)
  have "filter (\<lambda>x. ca_name x = ca_name a) extra = []"
    using d(3) assms(2) by (auto simp: filter_empty_conv list_all_iff)
  moreover have "length (filter (\<lambda>x. ca_name x = ca_name a) as) = length (filter (\<lambda>x. ca_name x = ca_name a) (attrs_of c))"
    unfolding count attrs_keep_names[OF d(2)] ..
  ultimately show ?thesis by (simp add: d(1))
qed

lemma prune_keeps:
  assumes "d \<in> set u" "cer_keeps cer d" "ca \<in> set (attrs_of cer)" "ca_found ca"
  shows "\<exists>x\<in>set (pruneContextElements u []). entity_of x = entity_of cer
    \<and> sc_code (cer_statusCode x) = sc_code (cer_statusCode cer) \<and> ContextAttribute_copy ca \<in> set (attrs_of x)
    \<and> length (filter (\<lambda>a. ca_name a = ca_name ca) (attrs_of x)) \<le> length (filter (\<lambda>a. ca_name a = ca_name ca) (attrs_of cer))"
proof -
  have ca: "ca \<in> set (filter ca_found (attrs_of d))" using cer_keeps_attr[OF assms(2-4)] assms(4) by simp
  then have "filter ca_found (attrs_of d) \<noteq> []" by (metis empty_iff list.set(1))
  then obtain x where x: "prune_one d = Some x" "attrs_of x = map ContextAttribute_copy (filter ca_found (attrs_of d))"
    "entity_of x = entity_of d" "sc_code (cer_statusCode x) = sc_code (cer_statusCode d)"
    by (auto simp: prune_one_def Let_def StatusCode_fill_def)
  have "length (filter (\<lambda>a. ca_name a = n) (map ContextAttribute_copy (filter ca_found xs)))
      \<le> length (filter (\<lambda>a. ca_name a = n) xs)" for n xs
    by (induction xs) (auto simp: ContextAttribute_copy_def)
  then have "length (filter (\<lambda>a. ca_name a = ca_name ca) (attrs_of x)) \<le> length (filter (\<lambda>a. ca_name a = ca_name ca) (attrs_of cer))"
    using cer_keeps_count[OF assms(2,3)] x(2) by metis
  moreover have "x \<in> set (pruneContextElements u [])"
    using x(1) assms(1) by (auto simp: pruneContextElements_eq set_map_filter)
  moreover have "entity_of d = entity_of cer" "cer_statusCode d = cer_statusCode cer"
    using assms(2) by (auto simp: cer_keeps_def)
  ultimately show ?thesis using x ca by (intro bexI[of _ x]) auto
qed

lemma mongoQueryContext_Ret:
  assumes "mongoQueryContext e ops clk req tenant sp offsetS limitS counting ws s w = Some (Ret (resp, count, s'))"
    and "entitiesQuery_count e ops (qcr_entityIdVector req) (qcr_attributeList req) (qcr_scopeVector req) tenant sp
           (atoi (c_str offsetS)) (atoi (c_str limitS)) counting w = Ret (Inr (raw, n))"
  obtains u where "complete_query e (qcr_entityIdVector req) (qcr_attributeList req) tenant sp ws raw = Ret u"
    and "resp = \<lparr>qrs_contextElementResponseVector = pruneContextElements u [],
                 qrs_errorCode = query_status (pruneContextElements u []) n (atoi (c_str offsetS))\<rparr>"
    and "count = n" "reqSem s' = reqSem s"
proof -
  obtain q taken s1 where t: "reqSemTake False (fst clk) (snd clk) SemReadOp s = Some (q, taken, s1)"
    using assms(1) by (auto simp: mongoQueryContext_def Let_def split: option.splits)
  then obtain u where u: "complete_query e (qcr_entityIdVector req) (qcr_attributeList req) tenant sp ws raw = Ret u"
      "resp = \<lparr>qrs_contextElementResponseVector = pruneContextElements u [],
               qrs_errorCode = query_status (pruneContextElements u []) n (atoi (c_str offsetS))\<rparr>"
      "count = n" "s' = snd (reqSemGive taken s1)"
    using assms by (auto simp: mongoQueryContext_def Let_def cpp_bind_Ret_iff)
  moreover from t have "reqSem s' = reqSem s" using reqSemTake_cases[OF t] u(4) by (auto simp: reqSemGive_def)
  ultimately show ?thesis using that by blast
qed

text \<open>C39: What the broker holds itself is never replaced by a context provider. Every attribute that the query of the
  database found is in the answer, with its value, in an element of its entity with the status of the query; no
  further attribute of that name is put beside it; and the request semaphore is as it was.\<close>

theorem query_keeps_local_data:
  assumes "mongoQueryContext e ops clk req tenant sp offsetS limitS counting ws s w = Some (Ret (resp, count, s'))"
    and "entitiesQuery_count e ops (qcr_entityIdVector req) (qcr_attributeList req) (qcr_scopeVector req) tenant sp
           (atoi (c_str offsetS)) (atoi (c_str limitS)) counting w = Ret (Inr (raw, n))"
    and "cer \<in> set raw" "ca \<in> set (attrs_of cer)" "ca_found ca"
  shows "reqSem s' = reqSem s \<and> (\<exists>d\<in>set (qrs_contextElementResponseVector resp).
           entity_of d = entity_of cer \<and> sc_code (cer_statusCode d) = sc_code (cer_statusCode cer)
         \<and> ContextAttribute_copy ca \<in> set (attrs_of d)
         \<and> length (filter (\<lambda>a. ca_name a = ca_name ca) (attrs_of d)) \<le> length (filter (\<lambda>a. ca_name a = ca_name ca) (attrs_of cer)))"
proof -
  obtain u where u: "complete_query e (qcr_entityIdVector req) (qcr_attributeList req) tenant sp ws raw = Ret u"
    and r: "qrs_contextElementResponseVector resp = pruneContextElements u []" "reqSem s' = reqSem s"
    using mongoQueryContext_Ret[OF assms(1,2)] by (metis QueryContextResponse.select_convs(1))
  obtain u1 u2 where "u = u1 @ u2" "list_all2 cer_keeps raw u1"
    using keeps.complete[OF u] by (auto simp: cerV_keeps_def)
  then obtain d where d: "d \<in> set u" "cer_keeps cer d"
    using assms(3) by (metis Un_iff in_set_conv_nth list_all2_conv_all_nth set_append)
  show ?thesis using prune_keeps[OF d assms(4,5)] r by simp
qed

section \<open>Well-formed answers\<close>

text \<open>At most one element per entity, and in an element at most one attribute per name.\<close>

abbreviation cer_key :: "ContextElementResponse \<Rightarrow> string \<times> string" where
  "cer_key cer \<equiv> (en_id (entity_of cer), en_type (entity_of cer))"

abbreviation attr_names :: "ContextElementResponse \<Rightarrow> string list" where
  "attr_names cer \<equiv> map ca_name (attrs_of cer)"

definition wf_cerV :: "ContextElementResponse list \<Rightarrow> bool" where
  "wf_cerV v \<longleftrightarrow> distinct (map cer_key v) \<and> list_all (\<lambda>c. distinct (attr_names c)) v"

lemma cer_of_entity_key: "cer_of_entity en cer \<longleftrightarrow> cer_key cer = (en_id en, en_type en)"
  by (auto simp: cer_of_entity_def)

lemma cpr_element_simps [simp]: "cer_key (cpr_element en) = (en_id en, en_type en)" "attrs_of (cpr_element en) = []"
  by (simp_all add: cpr_element_def ContextElementResponse_new_def ContextElement_new_def EntityId_new_def)

lemma push_simps [simp]:
  "entity_of (push_provider pa c) = entity_of c" "attrs_of (push_provider pa c) = attrs_of c"
  "entity_of (push_attribute n pa c) = entity_of c" "attr_names (push_attribute n pa c) = attr_names c @ [n]"
  by (simp_all add: push_provider_def push_attribute_def ContextAttribute_new_def Let_def)

lemma wf_cerV_Cons: "wf_cerV (c # v) \<longleftrightarrow> cer_key c \<notin> cer_key ` set v \<and> distinct (attr_names c) \<and> wf_cerV v"
  by (auto simp: wf_cerV_def)

lemma addContextProviderEntity_keys:
  "cer_key ` set (addContextProviderEntity v en pa) = insert (en_id en, en_type en) (cer_key ` set v)"
  by (induction v en pa rule: addContextProviderEntity.induct) (auto simp: cer_of_entity_key simp del: prod.inject)

lemma addContextProviderAttribute_keys:
  "cer_key ` set (addContextProviderAttribute v en cra pa) = insert (en_id en, en_type en) (cer_key ` set v)"
  by (induction v en cra pa rule: addContextProviderAttribute.induct) (auto simp: cer_of_entity_key simp del: prod.inject)

lemma addContextProviderEntity_wf: "wf_cerV v \<Longrightarrow> wf_cerV (addContextProviderEntity v en pa)"
proof (induction v en pa rule: addContextProviderEntity.induct)
  case (1 en pa)
  then show ?case by (simp add: wf_cerV_def)
next
  case (2 cer cerV en pa)
  then show ?case
    by (auto simp: wf_cerV_Cons addContextProviderEntity_keys cer_of_entity_key simp del: prod.inject)
qed

lemma addContextProviderAttribute_wf: "wf_cerV v \<Longrightarrow> wf_cerV (addContextProviderAttribute v en cra pa)"
proof (induction v en cra pa rule: addContextProviderAttribute.induct)
  case (1 en cra pa)
  then show ?case by (simp add: wf_cerV_def)
next
  case (2 cer cerV en cra pa)
  show ?case
  proof (cases "cer_of_entity en cer")
    case True
    then show ?thesis using 2(2) by (auto simp: wf_cerV_Cons list_ex_iff)
  next
    case False
    then show ?thesis
      using 2 by (auto simp: wf_cerV_Cons addContextProviderAttribute_keys cer_of_entity_key simp del: prod.inject)
  qed
qed

lemma wf_foldl: "(\<And>v x. wf_cerV v \<Longrightarrow> wf_cerV (f v x)) \<Longrightarrow> wf_cerV v \<Longrightarrow> wf_cerV (foldl f v xs)"
  by (induction xs arbitrary: v) auto

lemma addContextProviders_wf: "wf_cerV v \<Longrightarrow> wf_cerV (addContextProviders e v crrV enP)"
proof (induction e v crrV enP rule: addContextProviders.induct)
  case (2 e cerV cr crrV enP)
  have "wf_cerV (add_registration cerV cr)"
    unfolding add_registration_def
    using 2(3) by (auto intro!: wf_foldl addContextProviderEntity_wf addContextProviderAttribute_wf)
  then show ?case using 2 by simp
qed simp

lemma processGenericEntities_wf: "wf_cerV v \<Longrightarrow> wf_cerV (processGenericEntities e enV v crrV)"
  by (induction e enV v crrV rule: processGenericEntities.induct) (auto intro: addContextProviders_wf)

lemma fillContextProvidersV_wf: "wf_cerV v \<Longrightarrow> wf_cerV (fillContextProvidersV v crrV)"
proof -
  have "ca_name (fill_provider en crrV a) = ca_name a" for en a
    by (simp add: fill_provider_def Let_def split: prod.splits)
  then have "attr_names (fillContextProviders c crrV) = attr_names c" "entity_of (fillContextProviders c crrV) = entity_of c" for c
    by (simp_all add: fillContextProviders_def Let_def)
  then show "wf_cerV v \<Longrightarrow> wf_cerV (fillContextProvidersV v crrV)"
    by (simp add: wf_cerV_def fillContextProvidersV_def list_all_iff comp_def)
qed

interpretation wf: query_relation "\<lambda>v u. wf_cerV v \<longrightarrow> wf_cerV u" e for e
  by unfold_locales (auto intro: addContextProviders_wf processGenericEntities_wf fillContextProvidersV_wf)

lemma prune_one_wf:
  assumes "prune_one c = Some d"
  shows "cer_key d = cer_key c" "distinct (attr_names c) \<Longrightarrow> distinct (attr_names d)"
proof -
  have d: "entity_of d = entity_of c" "attrs_of d = map ContextAttribute_copy (filter ca_found (attrs_of c))"
    using assms by (auto simp: prune_one_def Let_def split: if_splits)
  have "attr_names d = map ca_name (filter ca_found (attrs_of c))"
    by (simp add: d(2) ContextAttribute_copy_def comp_def)
  then show "distinct (attr_names c) \<Longrightarrow> distinct (attr_names d)" by (simp add: distinct_map_filter)
  show "cer_key d = cer_key c" by (simp add: d(1))
qed

lemma map_filter_wf: "wf_cerV v \<Longrightarrow> wf_cerV (List.map_filter prune_one v)"
proof (induction v)
  case Nil
  then show ?case by (simp add: map_filter_simps wf_cerV_def)
next
  case (Cons c v)
  have sub: "cer_key ` set (List.map_filter prune_one v) \<subseteq> cer_key ` set v"
    by (force simp: set_map_filter dest: prune_one_wf(1))
  show ?case
  proof (cases "prune_one c")
    case None
    then show ?thesis using Cons by (simp add: map_filter_simps wf_cerV_Cons)
  next
    case (Some d)
    then have "cer_key d \<notin> cer_key ` set (List.map_filter prune_one v)"
      using Cons.prems sub prune_one_wf(1)[OF Some] unfolding wf_cerV_Cons by auto
    then show ?thesis using Cons prune_one_wf(2)[OF Some] Some by (simp add: map_filter_simps wf_cerV_Cons)
  qed
qed

text \<open>Context providers never make an answer ambiguous: if the result of the query has at most one element per
  entity, and at most one attribute per name in each, so has the answer after all lookups of providers and pruning;
  and the answer says "not found" exactly when it is empty.\<close>

theorem query_answer_wf:
  assumes "mongoQueryContext e ops clk req tenant sp offsetS limitS counting ws s w = Some (Ret (resp, count, s'))"
    and "entitiesQuery_count e ops (qcr_entityIdVector req) (qcr_attributeList req) (qcr_scopeVector req) tenant sp
           (atoi (c_str offsetS)) (atoi (c_str limitS)) counting w = Ret (Inr (raw, n))"
    and "wf_cerV raw"
  shows "wf_cerV (qrs_contextElementResponseVector resp)
    \<and> (sc_code (qrs_errorCode resp) = SccContextElementNotFound \<longleftrightarrow> qrs_contextElementResponseVector resp = [])"
proof -
  obtain u where u: "complete_query e (qcr_entityIdVector req) (qcr_attributeList req) tenant sp ws raw = Ret u"
    and r: "qrs_contextElementResponseVector resp = pruneContextElements u []"
      "qrs_errorCode resp = query_status (pruneContextElements u []) n (atoi (c_str offsetS))"
    using mongoQueryContext_Ret[OF assms(1,2)] by (metis QueryContextResponse.select_convs(1,2))
  have "wf_cerV u" using wf.complete[OF u] assms(3) by blast
  moreover have "sc_code (query_status v n offset) = SccContextElementNotFound \<longleftrightarrow> v = []" for v offset
    by (simp add: query_status_def StatusCode_fill_def StatusCode_new_def split: option.splits)
  ultimately show ?thesis using r by (simp add: pruneContextElements_eq map_filter_wf)
qed

section \<open>Pages of entity types\<close>

lemma page_eq:
  assumes "unat offset + unat limit < 2 ^ 32"
  shows "page offset limit xs = take (unat limit) (drop (unat offset) xs)"
proof -
  have "unat (offset + limit) = unat offset + unat limit"
    using assms by (simp add: unat_word_ariths(1))
  then show ?thesis
    by (auto simp: page_def min_def intro!: nth_equalityI)
qed

lemma unat_atoi: "n < 2 ^ 31 \<Longrightarrow> unat (word_of_int (atoi (nat_str n)) :: 32 word) = n"
  by (simp add: atoi_nat_str unat_of_nat)

definition names_of :: "string option list \<Rightarrow> ContextAttribute list" where
  "names_of as = List.map_filter (map_option (\<lambda>n. ContextAttribute_new n [] [] True)) as"

lemma type_entities_eq:
  "list_all (\<lambda>item. snd item \<noteq> []) items \<Longrightarrow>
   type_entities items = Ret (map (\<lambda>(t, as). \<lparr>te_type = t, te_contextAttributeVector = if hd as \<noteq> None then names_of as else []\<rparr>) items)"
  by (induction items) (auto simp: type_entity_def vec_at_def names_of_def hd_conv_nth)

definition type_answer :: "string \<times> string option list \<Rightarrow> TypeEntity" where
  "type_answer item = \<lparr>te_type = fst item,
     te_contextAttributeVector = if hd (snd item) \<noteq> None then names_of (snd item) else []\<rparr>"

lemma with_reqSem_enters:
  assumes "0 < reqSem s" "body w = Ret (r, True, w')"
  shows "\<exists>s'. with_reqSem clk q body s w = Some (Ret (r, s', w')) \<and> reqSem s' = reqSem s"
proof -
  obtain p taken s1 where t: "reqSemTake False (fst clk) (snd clk) q s = Some (p, taken, s1)"
    using assms(1) by (cases "reqSemTake False (fst clk) (snd clk) q s") (auto simp: reqSemTake_def sem_wait_def Let_def split: if_splits)
  then show ?thesis
    using assms(2) reqSemTake_cases[OF t] by (auto simp: with_reqSem_def reqSemGive_def)
qed

lemma entity_types_eq:
  assumes "fillQueryServicePath (env_buf0 e) spV = Ret sp"
    and "eo_aggregateTypes ops w (composeDatabaseName (env_multitenant e) (env_dbPrefix e) tenant)
           \<lparr>ag_type = None, ag_servicePath = sp\<rparr> = DbDocs results"
    and "list_all (\<lambda>item. snd item \<noteq> []) results" "results \<noteq> []" "off < 2 ^ 31" "lmt < 2 ^ 31" "0 < reqSem s"
  shows "\<exists>s'. mongoEntityTypes e ops clk tenant spV (nat_str off) (nat_str lmt) detailsS s w =
      Some (Ret (\<lparr>etr_typeEntityVector = map type_answer (take lmt (drop off results)),
                  etr_statusCode = page_status ''types'' (0 < lmt \<and> off < length results) (strcaseeq ''on'' (c_str detailsS))
                    (length results) (of_nat off)\<rparr>, s', w))
    \<and> reqSem s' = reqSem s"
proof -
  let ?o = "word_of_int (atoi (nat_str off)) :: 32 word" and ?l = "word_of_int (atoi (nat_str lmt)) :: 32 word"
  have c: "c_str (nat_str n) = nat_str n" for n
    using nat_str_digits[of n] by (intro c_str_id) (auto simp: list_all_iff char_class_defs)
  have "page ?o ?l results = take lmt (drop off results)"
    using page_eq[of ?o ?l results] assms(5,6) by (simp add: unat_atoi)
  moreover have "list_all (\<lambda>item. snd item \<noteq> []) (take lmt (drop off results))"
    using assms(3) by (auto simp: list_all_iff dest!: in_set_takeD in_set_dropD)
  then have "type_entities (take lmt (drop off results)) = Ret (map type_answer (take lmt (drop off results)))"
    by (simp add: type_entities_eq type_answer_def case_prod_beta)
  moreover have "?o = of_nat off" using assms(5) by (simp add: atoi_nat_str)
  ultimately have "entity_types_body e ops tenant spV (nat_str off) (nat_str lmt) detailsS w =
     Ret (\<lparr>etr_typeEntityVector = map type_answer (take lmt (drop off results)),
           etr_statusCode = page_status ''types'' (0 < lmt \<and> off < length results) (strcaseeq ''on'' (c_str detailsS))
             (length results) (of_nat off)\<rparr>, True, w)"
    using assms(1,2,4) by (simp add: entity_types_body_def c Let_def not_le)
  then show ?thesis unfolding mongoEntityTypes_def by (intro with_reqSem_enters assms(7))
qed

text \<open>Pages of entity types. For an offset and a limit that fit an \<open>int\<close>, the query returns exactly the types from the
  offset on, at most the limit, in the order of the database, so that consecutive pages tile the whole list; the
  status says "not found" exactly for an empty page; the database and the request semaphore are left as they were.\<close>

theorem entity_types_page:
  assumes "fillQueryServicePath (env_buf0 e) spV = Ret sp"
    and "eo_aggregateTypes ops w (composeDatabaseName (env_multitenant e) (env_dbPrefix e) tenant)
           \<lparr>ag_type = None, ag_servicePath = sp\<rparr> = DbDocs results"
    and "list_all (\<lambda>item. snd item \<noteq> []) results" "results \<noteq> []" "off < 2 ^ 31" "lmt < 2 ^ 31" "0 < reqSem s"
  shows "\<exists>resp s'. mongoEntityTypes e ops clk tenant spV (nat_str off) (nat_str lmt) detailsS s w = Some (Ret (resp, s', w))
    \<and> reqSem s' = reqSem s
    \<and> map te_type (etr_typeEntityVector resp) = map fst (take lmt (drop off results))
    \<and> (sc_code (etr_statusCode resp) = SccContextElementNotFound \<longleftrightarrow> etr_typeEntityVector resp = [])
    \<and> (\<forall>i < length (etr_typeEntityVector resp). hd (snd (results ! (off + i))) \<noteq> None \<longrightarrow>
         map ca_name (te_contextAttributeVector (etr_typeEntityVector resp ! i)) = List.map_filter id (snd (results ! (off + i))))"
proof -
  have names: "map ca_name (names_of as) = List.map_filter id as" for as
    by (induction as) (auto simp: names_of_def map_filter_simps ContextAttribute_new_def split: option.splits)
  have "sc_code (page_status ''types'' b d n k) = SccContextElementNotFound \<longleftrightarrow> \<not> b" for b d n k
    by (simp add: page_status_def StatusCode_fill_def)
  then show ?thesis
    using entity_types_eq[OF assms, of clk detailsS] by (auto simp: comp_def names type_answer_def)
qed

text \<open>A type loses its attributes in the list of types when the database happens to list the null of an
  entity without attributes first: the type is returned with no attribute at all, whatever attributes its other
  entities have. The query for that type lists them.\<close>

theorem entity_type_loses_attributes:
  assumes "fillQueryServicePath (env_buf0 e) spV = Ret sp"
    and "eo_aggregateTypes ops w (composeDatabaseName (env_multitenant e) (env_dbPrefix e) tenant)
           \<lparr>ag_type = None, ag_servicePath = sp\<rparr> = DbDocs [(t, None # map Some names)]"
    and "eo_aggregateAttrs ops w (composeDatabaseName (env_multitenant e) (env_dbPrefix e) tenant)
           \<lparr>ag_type = Some t, ag_servicePath = sp\<rparr> = DbDocs (map Some names)"
    and "0 < reqSem s" "0 < lmt" "lmt < 2 ^ 31" "names \<noteq> []"
  shows "(\<exists>resp s'. mongoEntityTypes e ops clk tenant spV ''0'' (nat_str lmt) detailsS s w = Some (Ret (resp, s', w))
           \<and> map te_contextAttributeVector (etr_typeEntityVector resp) = [[]])
    \<and> (\<exists>resp s'. mongoAttributesForEntityType e ops clk t tenant spV ''0'' (nat_str lmt) detailsS s w = Some (Ret (resp, s', w))
           \<and> map ca_name (te_contextAttributeVector (ear_entityType resp)) = take lmt names)"
proof
  have z: "nat_str 0 = ''0''" by code_simp
  have c: "c_str (nat_str n) = nat_str n" for n
    using nat_str_digits[of n] by (intro c_str_id) (auto simp: list_all_iff char_class_defs)
  show "\<exists>resp s'. mongoEntityTypes e ops clk tenant spV ''0'' (nat_str lmt) detailsS s w = Some (Ret (resp, s', w))
      \<and> map te_contextAttributeVector (etr_typeEntityVector resp) = [[]]"
    using entity_types_eq[OF assms(1,2), of 0 lmt s clk detailsS] assms(4-6) by (auto simp: z type_answer_def)
  have "names_of (map Some ns) = map (\<lambda>n. ContextAttribute_new n [] [] True) ns" for ns
    by (induction ns) (simp_all add: names_of_def map_filter_simps)
  moreover have "page (word_of_int (atoi (c_str ''0''))) (word_of_int (atoi (c_str (nat_str lmt)))) (map Some names) = map Some (take lmt names)"
    using page_eq[of "word_of_int (atoi (nat_str 0))" "word_of_int (atoi (nat_str lmt))" "map Some names"] assms(6) c[of 0] c[of lmt]
    by (simp add: unat_atoi unat_atoi[of 0, unfolded z] z take_map)
  ultimately obtain resp where "type_attributes_body e ops t tenant spV ''0'' (nat_str lmt) detailsS w = Ret (resp, True, w)"
    "map ca_name (te_contextAttributeVector (ear_entityType resp)) = take lmt names"
    using assms(1,3,7) by (auto simp: type_attributes_body_def Let_def names_of_def ContextAttribute_new_def comp_def)
  then show "\<exists>resp s'. mongoAttributesForEntityType e ops clk t tenant spV ''0'' (nat_str lmt) detailsS s w = Some (Ret (resp, s', w))
      \<and> map ca_name (te_contextAttributeVector (ear_entityType resp)) = take lmt names"
    unfolding mongoAttributesForEntityType_def using with_reqSem_enters[OF assms(4)] by metis
qed

section \<open>The request semaphore\<close>


interpretation update_ctx_h: sem_handler "update_body e req tenant sp notExist token" for e req tenant sp notExist token
  by unfold_locales (auto simp: update_body_def cpp_bind_Ret_iff split: if_splits)

interpretation notify_ctx_h: sem_handler "notify_body e cerV tenant token sp" for e cerV tenant token sp
  by unfold_locales (auto simp: notify_body_def cpp_bind_Ret_iff)

interpretation types_h: sem_handler "entity_types_body e ops tenant sp off lmt det" for e ops tenant sp off lmt det
proof
  fix w r g w'
  assume b: "entity_types_body e ops tenant sp off lmt det w = Ret (r, g, w')"
  then obtain sps where "fillQueryServicePath (env_buf0 e) sp = Ret sps"
    by (auto simp: entity_types_body_def cpp_bind_Ret_iff Let_def)
  with b show g
    by (cases "eo_aggregateTypes ops w (composeDatabaseName (env_multitenant e) (env_dbPrefix e) tenant) \<lparr>ag_type = None, ag_servicePath = sps\<rparr>")
       (auto simp: entity_types_body_def cpp_bind_Ret_iff Let_def split: if_splits)
qed

interpretation type_attrs_h: sem_handler "type_attributes_body e ops t tenant sp off lmt det" for e ops t tenant sp off lmt det
proof
  fix w r g w'
  assume b: "type_attributes_body e ops t tenant sp off lmt det w = Ret (r, g, w')"
  then obtain sps where "fillQueryServicePath (env_buf0 e) sp = Ret sps"
    by (auto simp: type_attributes_body_def cpp_bind_Ret_iff Let_def)
  with b show g
    by (cases "eo_aggregateAttrs ops w (composeDatabaseName (env_multitenant e) (env_dbPrefix e) tenant) \<lparr>ag_type = Some t, ag_servicePath = sps\<rparr>")
       (auto simp: type_attributes_body_def cpp_bind_Ret_iff Let_def split: if_splits)
qed

interpretation set_fwd_h: sem_handler "set_fwd_body e ops regId fwdRegId tenant" for e ops regId fwdRegId tenant
  by unfold_locales (auto simp: set_fwd_body_def split: prod.splits option.splits)

interpretation get_fwd_h: sem_handler "get_fwd_body e ops regId tenant" for e ops regId tenant
  by unfold_locales (auto simp: get_fwd_body_def split: sum.splits)

section \<open>Updates\<close>

inductive processed ::
  "'w env \<Rightarrow> string \<Rightarrow> string \<Rightarrow> string list \<Rightarrow> string \<Rightarrow> string \<Rightarrow> ContextElement list \<Rightarrow> 'w \<Rightarrow> ContextElementResponse list list \<Rightarrow> 'w \<Rightarrow> bool"
  for e action tenant sp notExist token where
  processed_Nil: "processed e action tenant sp notExist token [] w [] w"
| processed_Cons: "processContextElement e ce action tenant sp notExist token w = Ret (cers, w1) \<Longrightarrow>
     processed e action tenant sp notExist token ceV w1 rs w2 \<Longrightarrow>
     processed e action tenant sp notExist token (ce # ceV) w (cers # rs) w2"

lemma update_elements_processed:
  "update_elements e action tenant sp notExist token ceV acc w = Ret (cerV, w') \<Longrightarrow>
   \<exists>rs. processed e action tenant sp notExist token ceV w rs w' \<and> cerV = acc @ concat rs"
proof (induction ceV arbitrary: acc w)
  case Nil
  then show ?case by (auto intro!: processed_Nil exI[of _ "[]"])
next
  case (Cons ce ceV)
  then obtain cers w1 where c: "processContextElement e ce action tenant sp notExist token w = Ret (cers, w1)"
    "update_elements e action tenant sp notExist token ceV (acc @ cers) w1 = Ret (cerV, w')"
    by (auto simp: cpp_bind_Ret_iff)
  then obtain rs where "processed e action tenant sp notExist token ceV w1 rs w'" "cerV = (acc @ cers) @ concat rs"
    using Cons.IH by blast
  then show ?case using c(1) by (intro exI[of _ "cers # rs"]) (auto intro: processed_Cons)
qed

lemma notify_elements_update:
  "notify_elements e tenant sp token cerV w = Ret w' \<longleftrightarrow>
   (\<exists>cers. update_elements e ''append'' tenant sp [] token (map cer_contextElement cerV) acc w = Ret (cers, w'))"
proof (induction cerV arbitrary: w acc)
  case (Cons cer cerV)
  show ?case
  proof (cases "processContextElement e (cer_contextElement cer) ''append'' tenant sp [] token w")
    case (Ret x)
    then show ?thesis using Cons.IH[of "snd x" "acc @ fst x"] by (simp add: case_prod_beta)
  qed simp
qed simp

text \<open>An update request is its elements, one after the other: with at most one service path every element is
  processed in the state the previous one left, the answer lists their responses in order and is OK; with
  several service paths the request is refused and nothing happens. A notification received from another
  broker has exactly the effect of the update request that appends its elements.\<close>

theorem update_is_sequence:
  assumes "mongoUpdateContext e clk req tenant sp notExist token s w = Some (Ret (resp, s', w'))"
  shows "reqSem s' = reqSem s \<and>
    (if length sp > 1 then w' = w \<and> sc_code (urs_errorCode resp) = SccBadRequest \<and> urs_contextElementResponseVector resp = []
     else sc_code (urs_errorCode resp) = SccOk
       \<and> (\<exists>rs. processed e (upr_updateActionType req) tenant sp notExist token (upr_contextElementVector req) w rs w'
            \<and> urs_contextElementResponseVector resp = concat rs)
       \<and> (upr_updateActionType req = ''append'' \<and> notExist = [] \<and> map cer_contextElement cerV = upr_contextElementVector req \<longrightarrow>
            mongoNotifyContext e clk cerV tenant token sp s w = Some (Ret (StatusCode_fill SccOk [], s', w'))))"
proof -
  obtain q taken s1 where t: "reqSemTake False (fst clk) (snd clk) SemWriteOp s = Some (q, taken, s1)"
    using assms by (auto simp: mongoUpdateContext_def with_reqSem_def split: option.splits)
  then obtain g where b: "update_body e req tenant sp notExist token w = Ret (resp, g, w')"
    "s' = (if g then snd (reqSemGive taken s1) else s1)"
    using assms by (auto simp: mongoUpdateContext_def with_reqSem_def cpp_bind_Ret_iff)
  have g: g using update_ctx_h.gives[OF b(1)] .
  have k: "reqSem s' = reqSem s" using update_ctx_h.sem_kept(1)[OF assms[unfolded mongoUpdateContext_def]] .
  show ?thesis
  proof (cases "length sp > 1")
    case True
    then show ?thesis using b(1) k by (auto simp: update_body_def StatusCode_fill_def)
  next
    case False
    then obtain cerV' where u: "update_elements e (upr_updateActionType req) tenant sp notExist token (upr_contextElementVector req) [] w = Ret (cerV', w')"
      and r: "resp = \<lparr>urs_contextElementResponseVector = cerV', urs_errorCode = StatusCode_fill SccOk []\<rparr>"
      using b(1) by (auto simp: update_body_def cpp_bind_Ret_iff)
    have "mongoNotifyContext e clk cerV tenant token sp s w = Some (Ret (StatusCode_fill SccOk [], s', w'))"
      if "upr_updateActionType req = ''append''" "notExist = []" "map cer_contextElement cerV = upr_contextElementVector req"
    proof -
      have "notify_elements e tenant sp token cerV w = Ret w'"
        using u that by (subst notify_elements_update) auto
      then show ?thesis using t b(2) g by (simp add: mongoNotifyContext_def with_reqSem_def notify_body_def)
    qed
    then show ?thesis
      using k False r update_elements_processed[OF u] by (auto simp: StatusCode_fill_def)
  qed
qed

section \<open>A database in memory\<close>

text \<open>One entity with a local attribute; a registration provides another attribute of it.\<close>

definition entry_world :: mem_world where
  "entry_world = mem_world0\<lparr>
     mw_rows := [\<lparr>ed_id = ''E1'', ed_type = Some ''T'', ed_servicePath = None, ed_attrNames = [''A''],
        ed_attrs = Some [(''A'', \<lparr>ad_value = Some (BString ''1''), ad_type = Some ''t'', ad_md = None, ad_creDate = None, ad_modDate = None\<rparr>)],
        ed_creDate = None, ed_modDate = None, ed_location = None\<rparr>],
     mw_regs := [\<lparr>rd_format = None, rd_contextRegistration =
        [\<lparr>crd_entities = [(''E1'', ''T'')], crd_attrs = Some [(''A'', ''t'', ''false''), (''B'', ''t'', ''false'')],
          crd_providingApplication = ''http://p''\<rparr>]\<rparr>]\<rparr>"

definition entry_ops0 :: "mem_world entry_ops" where
  "entry_ops0 = \<lparr>eo_countEntities = (\<lambda>w col q. Inr (int (length (mw_rows w)))),
     eo_aggregateTypes = (\<lambda>w db cmd. DbDocs [(''T'', [None, Some ''A''])]),
     eo_aggregateAttrs = (\<lambda>w db cmd. DbDocs [Some ''A'']),
     eo_setFwdRegId = (\<lambda>col i f w. (None, w)), eo_getFwdRegId = (\<lambda>w col i. Inr None),
     eo_show_command = (\<lambda>cmd. [])\<rparr>"

definition entry_req0 :: QueryContextRequest where
  "entry_req0 = \<lparr>qcr_entityIdVector = [EntityId_new ''E1'' ''T'' ''false''], qcr_attributeList = [], qcr_scopeVector = []\<rparr>"

lemmas entry_world_defs = entry_world_def mem_world0_def mem_env_def entry_ops0_def entry_req0_def sem_running_def sem_start_def

definition entry_raw0 :: "ContextElementResponse list" where
  "entry_raw0 = process_rows [EntityId_new ''E1'' ''T'' ''false''] [] True (map RowDoc (mw_rows entry_world))"

lemma entry_query0:
  "entitiesQuery_count mem_env entry_ops0 (qcr_entityIdVector entry_req0) (qcr_attributeList entry_req0) (qcr_scopeVector entry_req0) [] []
     (atoi (c_str ''0'')) (atoi (c_str ''20'')) True entry_world = Ret (Inr (entry_raw0, Some 1))"
  by code_simp

lemma entry_query0_returns:
  obtains resp count s' where
    "mongoQueryContext mem_env entry_ops0 clk0 entry_req0 [] [] ''0'' ''20'' True (\<lambda>_. entry_world) sem_running entry_world = Some (Ret (resp, count, s'))"
proof -
  have "(case mongoQueryContext mem_env entry_ops0 clk0 entry_req0 [] [] ''0'' ''20'' True (\<lambda>_. entry_world) sem_running entry_world of
      Some (Ret r) \<Rightarrow> map ca_name (attrs_of (hd (qrs_contextElementResponseVector (fst r)))) = [''A'', ''B''] | _ \<Rightarrow> False)"
    by code_simp
  then show ?thesis using that by (auto split: option.splits cpp.splits)
qed

theorem query_keeps_local_data_witness:
  "\<exists>resp count s'. mongoQueryContext mem_env entry_ops0 clk0 entry_req0 [] [] ''0'' ''20'' True (\<lambda>_. entry_world) sem_running entry_world
     = Some (Ret (resp, count, s'))
   \<and> (\<exists>d\<in>set (qrs_contextElementResponseVector resp). \<exists>a\<in>set (attrs_of d). ca_name a = ''A'' \<and> ca_value a = ''1'')"
proof -
  obtain resp count s' where r:
    "mongoQueryContext mem_env entry_ops0 clk0 entry_req0 [] [] ''0'' ''20'' True (\<lambda>_. entry_world) sem_running entry_world = Some (Ret (resp, count, s'))"
    by (rule entry_query0_returns)
  define cer ca where "cer = hd entry_raw0" and "ca = hd (attrs_of cer)"
  have "entry_raw0 \<noteq> []" "attrs_of (hd entry_raw0) \<noteq> []" "ca_found (hd (attrs_of (hd entry_raw0)))"
    "ca_name (hd (attrs_of (hd entry_raw0))) = ''A''" "ca_value (hd (attrs_of (hd entry_raw0))) = ''1''"
    by code_simp+
  then have c: "cer \<in> set entry_raw0" "ca \<in> set (attrs_of cer)" "ca_found ca" "ca_name ca = ''A''" "ca_value ca = ''1''"
    by (auto simp: cer_def ca_def)
  obtain d where "d \<in> set (qrs_contextElementResponseVector resp)" "ContextAttribute_copy ca \<in> set (attrs_of d)"
    using query_keeps_local_data[OF r entry_query0 c(1-3)] by blast
  moreover have "ca_name (ContextAttribute_copy ca) = ''A''" "ca_value (ContextAttribute_copy ca) = ''1''"
    using c(4,5) by (simp_all add: ContextAttribute_copy_def)
  ultimately show ?thesis using r by blast
qed

theorem query_answer_wf_witness:
  "wf_cerV entry_raw0 \<and> (\<exists>resp count s'. mongoQueryContext mem_env entry_ops0 clk0 entry_req0 [] [] ''0'' ''20'' True (\<lambda>_. entry_world) sem_running entry_world
     = Some (Ret (resp, count, s')) \<and> wf_cerV (qrs_contextElementResponseVector resp))"
proof -
  obtain resp count s' where r:
    "mongoQueryContext mem_env entry_ops0 clk0 entry_req0 [] [] ''0'' ''20'' True (\<lambda>_. entry_world) sem_running entry_world = Some (Ret (resp, count, s'))"
    by (rule entry_query0_returns)
  have "wf_cerV entry_raw0" by code_simp
  with query_answer_wf[OF r entry_query0] r show ?thesis by blast
qed

theorem entity_types_page_witness:
  "\<exists>resp s'. mongoEntityTypes mem_env entry_ops0 clk0 [] [] (nat_str 0) (nat_str 20) ''on'' sem_running entry_world = Some (Ret (resp, s', entry_world))
     \<and> map te_type (etr_typeEntityVector resp) = [''T'']"
proof -
  obtain sp where sp: "fillQueryServicePath (env_buf0 mem_env) [] = Ret sp" by (simp add: fillQueryServicePath_def)
  show ?thesis
    using entity_types_page[OF sp, of entry_ops0 entry_world "[]" "[(''T'', [None, Some ''A''])]" 0 20 sem_running clk0 "''on''"]
    by (auto simp: entry_ops0_def sem_running_def)
qed

theorem entity_type_loses_attributes_witness:
  "\<exists>resp s'. mongoEntityTypes mem_env entry_ops0 clk0 [] [] ''0'' (nat_str 20) ''off'' sem_running entry_world = Some (Ret (resp, s', entry_world))
     \<and> map te_contextAttributeVector (etr_typeEntityVector resp) = [[]]"
proof -
  obtain sp where sp: "fillQueryServicePath (env_buf0 mem_env) [] = Ret sp" by (simp add: fillQueryServicePath_def)
  show ?thesis
    using entity_type_loses_attributes[OF sp, of entry_ops0 entry_world "[]" "''T''" "[''A'']" sem_running 20 clk0 "''off''"]
    by (auto simp: entry_ops0_def sem_running_def)
qed

definition update_req0 :: UpdateContextRequest where
  "update_req0 = \<lparr>upr_contextElementVector = [ContextElement_new\<lparr>ce_entityId := EntityId_new ''P.*'' ''T'' ''true''\<rparr>], upr_updateActionType = ''append''\<rparr>"

theorem update_is_sequence_witness:
  "\<exists>resp s' rs. mongoUpdateContext mem_env clk0 update_req0 [] [] [] [] sem_running entry_world = Some (Ret (resp, s', entry_world))
     \<and> processed mem_env ''append'' [] [] [] [] (upr_contextElementVector update_req0) entry_world rs entry_world
     \<and> urs_contextElementResponseVector resp = concat rs"
proof -
  have "update_body mem_env update_req0 [] [] [] [] entry_world = Ret
     (\<lparr>urs_contextElementResponseVector = [buildGeneralErrorResponse (hd (upr_contextElementVector update_req0)) None SccNotImplemented []],
       urs_errorCode = StatusCode_fill SccOk []\<rparr>, True, entry_world)"
    by (simp add: update_body_def update_req0_def processContextElement_def EntityId_new_def isTrue_def Let_def)
  from with_reqSem_enters[of sem_running "update_body mem_env update_req0 [] [] [] []" entry_world, OF _ this, of clk0 SemWriteOp]
  obtain resp s' where r: "mongoUpdateContext mem_env clk0 update_req0 [] [] [] [] sem_running entry_world = Some (Ret (resp, s', entry_world))"
    by (auto simp: mongoUpdateContext_def sem_running_def)
  moreover have "upr_updateActionType update_req0 = ''append''" by (simp add: update_req0_def)
  ultimately show ?thesis using update_is_sequence[OF r, of "[]"] by auto
qed

end
