(* ===== verification/Ngsi_Render.thy ===== *)
theory Ngsi_Render
  imports Common_Tag Mongo_Entry
begin

text \<open>
  How the NGSI types are written: the \<open>render\<close> functions of \<^verbatim>\<open>src/src/lib/ngsi\<close> and of
  \<^verbatim>\<open>parse/CompoundValueNode.cpp\<close>. The XML tag that some classes keep in a field (\<open>tagSet\<close>) is an
  argument here. For each renderer a lemma (collection \<open>json\<close>) says what its JSON output is: a list of
  members of an object or of elements of an array, with the comma asked for, provided the texts in it
  are safe inside a JSON string; where a renderer puts a comma wrongly, the lemma has the condition under
  which it does not.
\<close>

section \<open>Renderers\<close>

subsection \<open>Status codes and errors\<close>

text \<open>
  Double quotes in the details are to be replaced by an escaped quote, in a zeroed buffer of
  \<open>2 * length + 1\<close> bytes. The buffer is large enough and the replacement ends (lemma
  \<open>StatusCode_details_total\<close>), so that the last case does not occur.
\<close>

definition StatusCode_details :: "string \<Rightarrow> string" where
  "StatusCode_details details =
     (if CHR 0x22 \<in> set (c_str details) then
        (let len = length details * 2
         in case strReplace (replicate (len + 1) NUL) len details QUOT [BACKSLASH, CHR 0x22] of
              Some (Ret s) \<Rightarrow> c_str s
            | _ \<Rightarrow> [])
      else details)"

definition StatusCode_render :: "string \<Rightarrow> StatusCode \<Rightarrow> Format \<Rightarrow> string \<Rightarrow> bool \<Rightarrow> bool \<Rightarrow> string \<times> StatusCode" where
  "StatusCode_render tag sc0 format indent comma showTag =
     (let sc1 = sc0\<lparr>sc_details := StatusCode_details (sc_details sc0)\<rparr>;
          sc = (if sc_code sc1 = SccNone
                then (let f = StatusCode_fill SccReceiverInternalError []
                      in f\<lparr>sc_details := sc_details f @ '' - ZERO code set to 500''\<rparr>)
                else sc1)
      in (startTag1 indent tag format showTag False @
          valueTag_int (indent @ ''  '') ''code'' (scc_num (sc_code sc)) format True False @
          valueTag (indent @ ''  '') ''reasonPhrase'' (sc_reasonPhrase sc) format (sc_details sc \<noteq> []) False False @
          (if sc_details sc \<noteq> [] then valueTag (indent @ ''  '') ''details'' (sc_details sc) format False False False
           else []) @
          endTag indent tag format comma False True False, sc))"

record OrionError =
  oe_code :: HttpStatusCode
  oe_reasonPhrase :: string
  oe_details :: string

definition OrionError_new :: "HttpStatusCode \<Rightarrow> string \<Rightarrow> OrionError" where
  "OrionError_new code details = \<lparr>oe_code = code, oe_reasonPhrase = httpStatusCodeString code, oe_details = details\<rparr>"

definition OrionError_of :: "StatusCode \<Rightarrow> OrionError" where
  "OrionError_of sc = \<lparr>oe_code = sc_code sc, oe_reasonPhrase = httpStatusCodeString (sc_code sc), oe_details = sc_details sc\<rparr>"

definition OrionError_render :: "OrionError \<Rightarrow> Format \<Rightarrow> string \<Rightarrow> string" where
  "OrionError_render oe format indent0 =
     (let indent = (if format = JSON then indent0 @ ''  '' else indent0)
      in (if format = JSON then indent0 @ ''{'' @ NL else []) @
         startTag1 indent ''orionError'' format True False @
         valueTag_int (indent @ ''  '') ''code'' (scc_num (oe_code oe)) format True False @
         valueTag (indent @ ''  '') ''reasonPhrase'' (oe_reasonPhrase oe) format (oe_details oe \<noteq> []) False False @
         (if oe_details oe \<noteq> [] then valueTag (indent @ ''  '') ''details'' (oe_details oe) format False False False
          else []) @
         endTag indent ''orionError'' format False False True False @
         (if format = JSON then indent0 @ ''}'' @ NL else []))"

subsection \<open>Entity ids, attribute lists and single values\<close>

definition EntityId_render :: "string \<Rightarrow> EntityId \<Rightarrow> Format \<Rightarrow> string \<Rightarrow> bool \<Rightarrow> bool \<Rightarrow> string \<Rightarrow> string" where
  "EntityId_render tag en format indent comma isInVector assocTag =
     (let isPatternEscaped = htmlEscape (en_isPattern en);
          typeEscaped = htmlEscape (en_type en);
          idEscaped = htmlEscape (en_id en)
      in if format = XML then
           indent @ ''<'' @ tag @ '' type='' @ QUOT @ typeEscaped @ QUOT @ '' isPattern='' @ QUOT @ isPatternEscaped @ QUOT @ ''>'' @ NL @
           indent @ ''  '' @ ''<id>'' @ idEscaped @ ''</id>'' @ NL @
           indent @ ''</'' @ tag @ ''>'' @ NL
         else
           (let isAssoc = (assocTag \<noteq> []);
                indent2 = (if isInVector then indent @ ''  '' else indent)
            in (if isInVector then indent @ (if isAssoc then QUOT @ assocTag @ QUOT @ '' : '' else []) @ ''{'' @ NL else []) @
               indent2 @ QUOT @ ''type'' @ QUOT @ '' : '' @ QUOT @ typeEscaped @ QUOT @ '','' @ NL @
               indent2 @ QUOT @ ''isPattern'' @ QUOT @ '' : '' @ QUOT @ isPatternEscaped @ QUOT @ '','' @ NL @
               indent2 @ QUOT @ ''id'' @ QUOT @ '' : '' @ QUOT @ idEscaped @ QUOT @
               (if comma \<and> \<not> isInVector then '','' @ NL
                else NL @ (if isInVector then indent @ ''}'' else []) @
                     (if comma then '','' @ NL else if isInVector then NL else []))))"

definition EntityIdVector_render :: "EntityId list \<Rightarrow> Format \<Rightarrow> string \<Rightarrow> bool \<Rightarrow> string" where
  "EntityIdVector_render vec format indent comma =
     (if vec = [] then []
      else startTag2 indent ''entityIdList'' ''entities'' format True True False @
           render_seq (\<lambda>c e. EntityId_render ''entityId'' e format (indent @ ''  '') c True []) vec @
           endTag indent ''entityIdList'' format comma True True False)"

definition AttributeList_render :: "string list \<Rightarrow> Format \<Rightarrow> string \<Rightarrow> bool \<Rightarrow> string" where
  "AttributeList_render attributeV format indent comma =
     (if attributeV = [] then []
      else startTag2 indent ''attributeList'' ''attributes'' format True True False @
           render_seq (\<lambda>c a. valueTag (indent @ ''  '') ''attribute'' a format c False True) attributeV @
           endTag indent ''attributeList'' format comma True True False)"

definition AttributeDomainName_render :: "string \<Rightarrow> Format \<Rightarrow> string \<Rightarrow> bool \<Rightarrow> string" where
  "AttributeDomainName_render s format indent comma =
     (if s = [] then [] else valueTag indent ''attributeDomainName'' s format comma False False)"

definition AttributeExpression_render :: "string \<Rightarrow> Format \<Rightarrow> string \<Rightarrow> bool \<Rightarrow> string" where
  "AttributeExpression_render s format indent comma =
     (if s = [] then [] else valueTag indent ''attributeExpression'' s format comma False False)"

definition Duration_render :: "Duration \<Rightarrow> Format \<Rightarrow> string \<Rightarrow> bool \<Rightarrow> string" where
  "Duration_render d format indent comma =
     (if dur_string d = [] then [] else if \<not> dur_valid d then []
      else valueTag indent ''duration'' (dur_string d) format comma False False)"

definition Throttling_render :: "Throttling \<Rightarrow> Format \<Rightarrow> string \<Rightarrow> bool \<Rightarrow> string" where
  "Throttling_render t format indent comma =
     (if thr_string t = [] then [] else valueTag indent ''throttling'' (thr_string t) format comma False False)"

definition Reference_render :: "string \<Rightarrow> Format \<Rightarrow> string \<Rightarrow> bool \<Rightarrow> string" where
  "Reference_render s format indent comma =
     (if s = [] then [] else valueTag indent ''reference'' s format comma False False)"

definition Originator_render :: "string \<Rightarrow> Format \<Rightarrow> string \<Rightarrow> bool \<Rightarrow> string" where
  "Originator_render s format indent comma =
     (if s = [] then [] else valueTag indent ''originator'' s format comma False False)"

definition ProvidingApplication_render :: "ProvidingApplication \<Rightarrow> Format \<Rightarrow> string \<Rightarrow> bool \<Rightarrow> string" where
  "ProvidingApplication_render pa format indent comma =
     (if pa_string pa = [] then [] else valueTag indent ''providingApplication'' (pa_string pa) format comma False False)"

definition RestrictionString_render :: "string \<Rightarrow> Format \<Rightarrow> string \<Rightarrow> bool \<Rightarrow> string" where
  "RestrictionString_render s format indent comma =
     (if s = [] then [] else valueTag indent ''restriction'' s format comma False False)"

definition UpdateActionType_render :: "string \<Rightarrow> Format \<Rightarrow> string \<Rightarrow> bool \<Rightarrow> string" where
  "UpdateActionType_render s format indent comma =
     (if s = [] then [] else valueTag indent ''updateAction'' s format comma False False)"

abbreviation NO_ID :: string where
  "NO_ID \<equiv> ''000000000000000000000000''"

definition subscriptionId_mandatory :: "RequestType \<Rightarrow> bool" where
  "subscriptionId_mandatory container \<longleftrightarrow>
     container = RtSubscribeContextAvailabilityResponse \<or>
     container = RtUpdateContextAvailabilitySubscriptionResponse \<or>
     container = RtUnsubscribeContextAvailabilityResponse \<or>
     container = NotifyContextAvailability \<or>
     container = UpdateContextSubscription \<or>
     container = UnsubscribeContext \<or>
     container = RtUnsubscribeContextResponse \<or>
     container = NotifyContext \<or>
     container = RtSubscribeResponse \<or>
     container = RtSubscribeError"

definition SubscriptionId_render :: "string \<Rightarrow> RequestType \<Rightarrow> Format \<Rightarrow> string \<Rightarrow> bool \<Rightarrow> string" where
  "SubscriptionId_render s container format indent comma =
     (if s = [] then
        (if subscriptionId_mandatory container then valueTag indent ''subscriptionId'' NO_ID format comma False False
         else [])
      else valueTag indent ''subscriptionId'' s format comma False False)"

definition SubscriptionId_rendered :: "string \<Rightarrow> RequestType \<Rightarrow> bool" where
  "SubscriptionId_rendered s container =
     (if s = [] \<or> s = NO_ID then (if subscriptionId_mandatory container then True else False) else True)"

definition RegistrationId_render :: "string \<Rightarrow> RequestType \<Rightarrow> Format \<Rightarrow> string \<Rightarrow> bool \<Rightarrow> string" where
  "RegistrationId_render s requestType format indent comma =
     (if s = [] then
        (if requestType = RegisterResponse then valueTag indent ''registrationId'' NO_ID format comma False False
         else [])
      else valueTag indent ''registrationId'' s format comma False False)"


subsection \<open>Associations and metadata\<close>

definition AttributeAssociation_render :: "AttributeAssociation \<Rightarrow> Format \<Rightarrow> string \<Rightarrow> bool \<Rightarrow> string" where
  "AttributeAssociation_render a format indent comma =
     (let targetAttributeRendered = (aa_target a \<noteq> [])
      in startTag1 indent ''attributeAssociation'' format False False @
         valueTag (indent @ ''  '') (if format = XML then ''sourceAttribute'' else ''source'') (aa_source a) format
           targetAttributeRendered False False @
         valueTag (indent @ ''  '') (if format = XML then ''targetAttribute'' else ''target'') (aa_target a) format
           False False False @
         endTag indent ''attributeAssociation'' format comma False True False)"

definition AttributeAssociationList_render :: "AttributeAssociation list \<Rightarrow> Format \<Rightarrow> string \<Rightarrow> bool \<Rightarrow> string" where
  "AttributeAssociationList_render vec format indent comma =
     (if vec = [] then []
      else startTag2 indent ''attributeAssociationList'' ''attributeAssociations'' format True True False @
           render_seq (\<lambda>c a. AttributeAssociation_render a format (indent @ ''  '') c) vec @
           endTag indent ''attributeAssociationList'' format comma True False False)"

definition EntityAssociation_render :: "EntityAssociation \<Rightarrow> Format \<Rightarrow> string \<Rightarrow> bool \<Rightarrow> string" where
  "EntityAssociation_render ea format indent comma =
     startTag2 indent ''entityAssociation'' ''entities'' format False True False @
     EntityId_render ''sourceEntityId'' (ea_source ea) format (indent @ ''  '') True True ''source'' @
     EntityId_render ''targetEntityId'' (ea_target ea) format (indent @ ''  '') False True ''target'' @
     endTag indent ''entityAssociation'' format comma False True False"

definition Association_render :: "Association \<Rightarrow> Format \<Rightarrow> string \<Rightarrow> bool \<Rightarrow> string" where
  "Association_render a format indent comma =
     (let attributeAssociationListRendered = (as_attributeAssociationList a \<noteq> [])
      in if format = JSON then
           startTag1 indent ''association'' format False False @
           EntityAssociation_render (as_entityAssociation a) format (indent @ ''  '') attributeAssociationListRendered @
           AttributeAssociationList_render (as_attributeAssociationList a) format (indent @ ''  '') False @
           endTag indent ''association'' format False False True False
         else
           EntityAssociation_render (as_entityAssociation a) format (indent @ ''  '') attributeAssociationListRendered @
           AttributeAssociationList_render (as_attributeAssociationList a) format (indent @ ''  '') False)"

definition Metadata_render :: "Metadata \<Rightarrow> Format \<Rightarrow> string \<Rightarrow> bool \<Rightarrow> string" where
  "Metadata_render m format indent comma =
     (let xValue = (if md_type m = ''Association''
                    then NL @ Association_render (md_association m) format (indent @ ''  '') False
                    else md_value m)
      in startTag2 indent ''contextMetadata'' ''contextMetadata'' format False False False @
         valueTag (indent @ ''  '') ''name'' (md_name m) format True False False @
         valueTag (indent @ ''  '') ''type'' (md_type m) format True False False @
         valueTag (indent @ ''  '') ''value'' xValue format False (md_type m = ''Association'') False @
         endTag indent ''contextMetadata'' format comma False True False)"

definition MetadataVector_render :: "string \<Rightarrow> Metadata list \<Rightarrow> Format \<Rightarrow> string \<Rightarrow> bool \<Rightarrow> string" where
  "MetadataVector_render tag vec format indent comma =
     (if vec = [] then []
      else startTag2 indent tag ''metadatas'' format True True False @
           render_seq (\<lambda>c m. Metadata_render m format (indent @ ''  '') c) vec @
           endTag indent tag format comma True True False)"

subsection \<open>Compound values\<close>

text \<open>
  A node below the root, given the type of its container: \<open>siblingNo\<close> is the position of the node among
  the children of its container, so that the comma is there for all but the last.
\<close>

fun cv_render :: "Format \<Rightarrow> string \<Rightarrow> cv_type \<Rightarrow> bool \<Rightarrow> cvnode \<Rightarrow> string"
  and cv_render_list :: "Format \<Rightarrow> string \<Rightarrow> cv_type \<Rightarrow> cvnode list \<Rightarrow> string" where
  "cv_render format indent container jsonComma (CvNode t n v p cs) =
     (let tagName = (if container = CvVector then ''item'' else n)
      in if t = CvString then valueTag indent tagName v format jsonComma False (container = CvVector)
         else if t = CvVector then
           startTag2 indent tagName tagName format True (container = CvObject) True @
           cv_render_list format (indent @ ''  '') t cs @
           endTag indent tagName format jsonComma True True False
         else if t = CvObject \<and> container = CvVector then
           startTag2 indent ''item'' [] format False False False @
           cv_render_list format (indent @ ''  '') t cs @
           endTag indent ''item'' format jsonComma False True False
         else if t = CvObject then
           startTag2 indent tagName tagName format False True False @
           cv_render_list format (indent @ ''  '') t cs @
           endTag indent tagName format jsonComma False True False
         else [])"
| "cv_render_list format indent container [] = []"
| "cv_render_list format indent container (c # cs) =
     cv_render format indent container (cs \<noteq> []) c @ cv_render_list format indent container cs"

text \<open>The root is its own container, with sibling number 0.\<close>

definition CompoundValueNode_render :: "cvnode \<Rightarrow> Format \<Rightarrow> string \<Rightarrow> string" where
  "CompoundValueNode_render nd format indent =
     (if cv_type nd = CvString
      then valueTag indent (cv_name nd) (cv_value nd) format (0 < int (length (cv_childV nd)) - 1) False False
      else if cv_type nd = CvVector then cv_render_list format indent CvVector (cv_childV nd)
      else if cv_type nd = CvObject then cv_render_list format indent CvObject (cv_childV nd)
      else [])"

subsection \<open>Attributes\<close>

definition ContextAttribute_renderCompound :: "cvnode \<Rightarrow> Format \<Rightarrow> string \<Rightarrow> bool \<Rightarrow> string" where
  "ContextAttribute_renderCompound nd format indent comma =
     (let isCompoundVector = (cv_type nd = CvVector)
      in startTag2 (indent @ ''  '') ''contextValue'' ''value'' format isCompoundVector True isCompoundVector @
         CompoundValueNode_render nd format (indent @ ''    '') @
         endTag (indent @ ''  '') ''contextValue'' format comma isCompoundVector True False)"

definition ContextAttribute_renderAsJsonObject ::
  "ContextAttribute \<Rightarrow> ConnectionInfo \<Rightarrow> RequestType \<Rightarrow> string \<Rightarrow> bool \<Rightarrow> bool \<Rightarrow> string" where
  "ContextAttribute_renderAsJsonObject ca ci request indent comma omitValue =
     (let format = ci_outFormat ci;
          commaAfterContextValue = (ca_metadataVector ca \<noteq> []);
          commaAfterType = (\<not> omitValue \<or> commaAfterContextValue)
      in startTag2 indent [] (ca_name ca) format False True False @
         valueTag (indent @ ''  '') ''type'' (ca_type ca) format commaAfterType False False @
         (case ca_compoundValueP ca of
            None \<Rightarrow>
              if \<not> omitValue
              then valueTag (indent @ ''  '') (if format = XML then ''contextValue'' else ''value'')
                     (if request \<noteq> RtUpdateContextResponse then ca_value ca else [])
                     format commaAfterContextValue False False
              else []
          | Some nd \<Rightarrow> ContextAttribute_renderCompound nd format indent commaAfterContextValue) @
         (if \<not> omitValue then MetadataVector_render ''metadata'' (ca_metadataVector ca) format (indent @ ''  '') False
          else []) @
         endTag indent [] format comma False True False)"

definition ContextAttribute_renderAsNameString ::
  "ContextAttribute \<Rightarrow> ConnectionInfo \<Rightarrow> RequestType \<Rightarrow> string \<Rightarrow> bool \<Rightarrow> string" where
  "ContextAttribute_renderAsNameString ca ci request indent comma =
     (if ci_outFormat ci = XML then indent @ ''<name>'' @ ca_name ca @ ''</name>'' @ NL
      else if comma then indent @ QUOT @ ca_name ca @ QUOT @ '','' @ NL
      else indent @ QUOT @ ca_name ca @ QUOT @ NL)"

definition ContextAttribute_render ::
  "ContextAttribute \<Rightarrow> ConnectionInfo \<Rightarrow> RequestType \<Rightarrow> string \<Rightarrow> bool \<Rightarrow> bool \<Rightarrow> string" where
  "ContextAttribute_render ca ci request indent comma omitValue =
     (let format = ci_outFormat ci;
          valueRendered = (ca_compoundValueP ca \<noteq> None \<or> \<not> omitValue \<or> request = RtUpdateContextResponse);
          commaAfterContextValue = (ca_metadataVector ca \<noteq> []);
          commaAfterType = valueRendered;
          vTag = (if format = XML then ''contextValue'' else ''value'')
      in if uriParam ci URI_PARAM_ATTRIBUTE_FORMAT = ''object'' \<and> format = JSON
         then ContextAttribute_renderAsJsonObject ca ci request indent comma omitValue
         else
           startTag2 indent ''contextAttribute'' ''attribute'' format False False False @
           valueTag (indent @ ''  '') ''name'' (ca_name ca) format True False False @
           valueTag (indent @ ''  '') ''type'' (ca_type ca) format commaAfterType False False @
           (case ca_compoundValueP ca of
              None \<Rightarrow>
                if \<not> omitValue
                then valueTag (indent @ ''  '') vTag (if request \<noteq> RtUpdateContextResponse then ca_value ca else [])
                       format commaAfterContextValue False False
                else if request = RtUpdateContextResponse
                then valueTag (indent @ ''  '') vTag [] format commaAfterContextValue False False
                else []
            | Some nd \<Rightarrow> ContextAttribute_renderCompound nd format indent commaAfterContextValue) @
           MetadataVector_render ''metadata'' (ca_metadataVector ca) format (indent @ ''  '') False @
           endTag indent ''contextAttribute'' format comma False True False)"

text \<open>
  The loop that removes attributes whose name was seen before: after an erase the index still advances,
  so that the attribute that moved into the place is not looked at. \<open>addedLookup\<close> answers with the name it
  finds, which for an empty name is also its answer when it finds none.
\<close>

definition addedLookup :: "string list \<Rightarrow> string \<Rightarrow> string" where
  "addedLookup added v = (if v \<in> set added then v else [])"

fun remove_copies :: "string list \<Rightarrow> ContextAttribute list \<Rightarrow> ContextAttribute list" where
  "remove_copies added [] = []"
| "remove_copies added (a # as) =
     (if addedLookup added (ca_name a) = [] then a # remove_copies (added @ [ca_name a]) as
      else case as of [] \<Rightarrow> [] | b # bs \<Rightarrow> b # remove_copies added bs)"

definition ContextAttributeVector_render ::
  "ContextAttribute list \<Rightarrow> ConnectionInfo \<Rightarrow> RequestType \<Rightarrow> string \<Rightarrow> bool \<Rightarrow> bool \<Rightarrow> bool \<Rightarrow> string" where
  "ContextAttributeVector_render vec ci request indent comma omitValue attrsAsName =
     (let format = ci_outFormat ci;
          item = (\<lambda>c a. if attrsAsName then ContextAttribute_renderAsNameString a ci request (indent @ ''  '') c
                        else ContextAttribute_render a ci request (indent @ ''  '') c omitValue)
      in if vec = [] then
           (if format = XML \<and> (request = IndividualContextEntityAttribute \<or> request = AttributeValueInstance \<or>
                                request = IndividualContextEntityAttributes)
            then indent @ ''<contextAttributeList></contextAttributeList>'' @ NL
            else [])
         else if uriParam ci URI_PARAM_ATTRIBUTE_FORMAT = ''object'' \<and> format = JSON then
           startTag2 indent ''contextAttributeList'' ''attributes'' format attrsAsName True False @
           render_seq item (remove_copies [] vec) @
           endTag indent ''contextAttributeList'' format comma attrsAsName True False
         else
           startTag2 indent ''contextAttributeList'' ''attributes'' format True True False @
           render_seq item vec @
           endTag indent ''contextAttributeList'' format comma True True False)"

subsection \<open>Context elements and their responses\<close>

definition ContextElement_render ::
  "ContextElement \<Rightarrow> ConnectionInfo \<Rightarrow> RequestType \<Rightarrow> string \<Rightarrow> bool \<Rightarrow> bool \<Rightarrow> string" where
  "ContextElement_render ce ci requestType indent comma omitAttributeValues =
     (let format = ci_outFormat ci;
          attributeDomainNameRendered = (ce_attributeDomainName ce \<noteq> []);
          contextAttributeVectorRendered = (ce_contextAttributeVector ce \<noteq> []);
          domainMetadataVectorRendered = (ce_domainMetadataVector ce \<noteq> []);
          commaAfterContextAttributeVector = domainMetadataVectorRendered;
          commaAfterAttributeDomainName = (domainMetadataVectorRendered \<or> contextAttributeVectorRendered);
          commaAfterEntityId = (commaAfterAttributeDomainName \<or> attributeDomainNameRendered)
      in startTag2 indent ''contextElement'' ''contextElement'' format False (requestType \<noteq> UpdateContext) False @
         EntityId_render ''entityId'' (ce_entityId ce) format (indent @ ''  '') commaAfterEntityId False [] @
         AttributeDomainName_render (ce_attributeDomainName ce) format (indent @ ''  '') commaAfterAttributeDomainName @
         ContextAttributeVector_render (ce_contextAttributeVector ce) ci requestType (indent @ ''  '')
           commaAfterContextAttributeVector omitAttributeValues False @
         MetadataVector_render ''registrationMetadata'' (ce_domainMetadataVector ce) format (indent @ ''  '') False @
         endTag indent ''contextElement'' format comma False True False)"

definition ContextElementVector_render ::
  "ContextElement list \<Rightarrow> ConnectionInfo \<Rightarrow> RequestType \<Rightarrow> string \<Rightarrow> bool \<Rightarrow> string" where
  "ContextElementVector_render vec ci requestType indent comma =
     (if vec = [] then []
      else startTag2 indent ''contextElementList'' ''contextElements'' (ci_outFormat ci) True True False @
           render_seq (\<lambda>c ce. ContextElement_render ce ci requestType (indent @ ''  '') c False) vec @
           endTag indent ''contextElementList'' (ci_outFormat ci) comma True True False)"

definition ContextElementResponse_render ::
  "ContextElementResponse \<Rightarrow> ConnectionInfo \<Rightarrow> RequestType \<Rightarrow> string \<Rightarrow> bool \<Rightarrow> bool \<Rightarrow> string" where
  "ContextElementResponse_render cer ci requestType indent comma omitAttributeValues =
     startTag2 indent ''contextElementResponse'' ''contextElement'' (ci_outFormat ci) False False False @
     ContextElement_render (cer_contextElement cer) ci requestType (indent @ ''  '') True omitAttributeValues @
     fst (StatusCode_render ''statusCode'' (cer_statusCode cer) (ci_outFormat ci) (indent @ ''  '') False True) @
     endTag indent ''contextElementResponse'' (ci_outFormat ci) comma False True False"

definition ContextElementResponseVector_render ::
  "ContextElementResponse list \<Rightarrow> ConnectionInfo \<Rightarrow> RequestType \<Rightarrow> string \<Rightarrow> bool \<Rightarrow> bool \<Rightarrow> string" where
  "ContextElementResponseVector_render vec ci requestType indent comma omitAttributeValues =
     (if vec = [] then []
      else startTag2 indent ''contextResponseList'' ''contextResponses'' (ci_outFormat ci) True True False @
           render_seq (\<lambda>c cer. ContextElementResponse_render cer ci requestType (indent @ ''  '') c omitAttributeValues) vec @
           endTag indent ''contextResponseList'' (ci_outFormat ci) comma True True False)"


section \<open>The replacement in the details of a status\<close>

lemma strReplace_loop_total:
  assumes "toIx + 2 * length f < length to" and "n < length to" and "2 \<le> n"
  shows "\<exists>to'. strReplace_loop to n toIx f [q] [a, b] = Some (Ret to') \<and> length to' = length to"
  using assms(1,2)
proof (induction f arbitrary: to toIx)
  case Nil
  then show ?case by (simp add: strReplace_loop.simps [of _ _ _ "[]"] buf_set_def)
next
  case (Cons c f)
  show ?case
  proof (cases "c = q")
    case True
    obtain t1 where t1: "snprintf_s to n [a, b] = Ret t1" "length t1 = length to"
    proof -
      let ?w = "take (n - 1) (c_str [a, b]) @ [NUL]"
      have le: "length ?w \<le> length to" using Cons.prems(2) assms(3) by simp
      then have "snprintf_s to n [a, b] = Ret (?w @ drop (length ?w) to)"
        using assms(3) by (simp only: snprintf_s_def Let_def if_True) simp
      with le show thesis by (intro that) (assumption, simp)
    qed
    have "\<exists>to'. strReplace_loop t1 n (toIx + 2) f [q] [a, b] = Some (Ret to') \<and> length to' = length t1"
      using Cons.prems t1(2) by (intro Cons.IH) simp_all
    with True t1 show ?thesis by (simp add: strReplace_loop.simps [of _ _ _ "q # f"])
  next
    case False
    have "\<exists>to'. strReplace_loop (to[toIx := c]) n (Suc toIx) f [q] [a, b] = Some (Ret to') \<and>
        length to' = length (to[toIx := c])"
      using Cons.prems by (intro Cons.IH) simp_all
    with False Cons.prems show ?thesis
      by (simp add: strReplace_loop.simps [of _ _ _ "c # f"] buf_set_def)
  qed
qed

lemma StatusCode_details_total:
  assumes "CHR 0x22 \<in> set (c_str details)"
  shows "\<exists>s. strReplace (replicate (length details * 2 + 1) NUL) (length details * 2) details QUOT
               [BACKSLASH, CHR 0x22] = Some (Ret s)"
proof -
  have le: "length (c_str details) \<le> length details"
    by (simp add: c_str_def length_takeWhile_le)
  moreover have "c_str details \<noteq> []" using assms by auto
  ultimately have "1 \<le> length details" by (cases details) auto
  with le show ?thesis
    using strReplace_loop_total [of 0 "c_str details" "replicate (length details * 2 + 1) NUL" "length details * 2"
        "CHR 0x22" BACKSLASH "CHR 0x22"]
    by (auto simp: strReplace_def c_str_def)
qed

lemma StatusCode_details_plain: "json_clean d \<Longrightarrow> StatusCode_details d = d"
  by (auto simp: StatusCode_details_def json_clean_def list_all_iff c_str_def dest: set_takeWhileD)

section \<open>The JSON that is written\<close>

lemma json_run_fail: "json_run (JFail, st) s = (JFail, st)"
  by (induction s) simp_all

lemma json_step_nul: "fst (json_step q NUL) = JFail"
proof -
  obtain m st where "q = (m, st)" by (cases q)
  then show ?thesis
    by (cases m) (auto simp: json_ws_def json_value_start_def split: list.splits bool.splits)
qed

lemma json_run_no_nul: "fst (json_run q s) \<noteq> JFail \<Longrightarrow> NUL \<notin> set s"
proof (induction s arbitrary: q)
  case Nil
  then show ?case by simp
next
  case (Cons c s)
  have "c \<noteq> NUL"
  proof
    assume "c = NUL"
    then have "fst (json_step q c) = JFail" by (simp add: json_step_nul)
    then have "fst (json_run q (c # s)) = JFail"
      using json_run_fail [of "snd (json_step q c)" s] by (metis fst_conv json_run_Cons prod.collapse)
    with Cons.prems show False by simp
  qed
  with Cons show ?case by auto
qed

definition EntityId_json :: "EntityId \<Rightarrow> bool" where
  "EntityId_json en \<longleftrightarrow> json_safe (en_id en) \<and> json_safe (en_type en) \<and> json_safe (en_isPattern en)"

lemma json_member_EntityId [json]:
  "blank i \<Longrightarrow> EntityId_json en \<Longrightarrow> json_member c (EntityId_render t en JSON i c False a)"
  by (auto simp: json_member_def EntityId_render_def Let_def EntityId_json_def json_text json_clean_htmlEscape)

lemma json_elem_EntityId [json]:
  "blank i \<Longrightarrow> EntityId_json en \<Longrightarrow> json_elem c (EntityId_render t en JSON i c True [])"
  by (auto simp: json_elem_def EntityId_render_def Let_def EntityId_json_def json_text json_clean_htmlEscape)

lemma json_member_EntityId_assoc [json]:
  "blank i \<Longrightarrow> EntityId_json en \<Longrightarrow> a \<noteq> [] \<Longrightarrow> json_clean a \<Longrightarrow>
     json_member c (EntityId_render t en JSON i c True a)"
  by (auto simp: json_member_def EntityId_render_def Let_def EntityId_json_def json_text json_clean_htmlEscape)

lemma json_member_EntityIdVector [json]:
  "blank i \<Longrightarrow> list_all EntityId_json vec \<Longrightarrow> vec \<noteq> [] \<Longrightarrow> json_member c (EntityIdVector_render vec JSON i c)"
  unfolding EntityIdVector_render_def
  by (auto simp: list_all_iff json_clean_Cons intro!: json_member_array json_elem_seq json_elem_EntityId)

lemma json_member_AttributeList [json]:
  "blank i \<Longrightarrow> list_all json_safe vec \<Longrightarrow> vec \<noteq> [] \<Longrightarrow> json_member c (AttributeList_render vec JSON i c)"
  unfolding AttributeList_render_def
  by (auto simp: list_all_iff json_clean_Cons intro!: json_member_array json_elem_seq json_elem_valueTag)


definition Association_json :: "Association \<Rightarrow> bool" where
  "Association_json a \<longleftrightarrow>
     EntityId_json (ea_source (as_entityAssociation a)) \<and> EntityId_json (ea_target (as_entityAssociation a)) \<and>
     list_all (\<lambda>x. json_safe (aa_source x) \<and> json_safe (aa_target x) \<and> aa_target x \<noteq> [])
       (as_attributeAssociationList a)"

definition Metadata_json :: "Metadata \<Rightarrow> bool" where
  "Metadata_json m \<longleftrightarrow> json_safe (md_name m) \<and> json_safe (md_type m) \<and>
     (if md_type m = ''Association'' then Association_json (md_association m) else json_safe (md_value m))"

lemma json_elem_AttributeAssociation [json]:
  assumes "blank i" and "json_safe (aa_source x)" and "json_safe (aa_target x)" and "aa_target x \<noteq> []"
  shows "json_elem c (AttributeAssociation_render x JSON i c)"
proof -
  let ?s = "valueTag (i @ ''  '') ''source'' (aa_source x) JSON True False False"
  let ?t = "valueTag (i @ ''  '') ''target'' (aa_target x) JSON False False False"
  have "json_member False (?s @ ?t)"
    using assms by (intro json_member_append json_member_valueTag) (auto simp: json_clean_Cons)
  then show ?thesis
    using json_elem_object(2) [OF assms(1), of "?s @ ?t"] assms(4) by (simp add: AttributeAssociation_render_def Let_def)
qed

lemma json_member_AttributeAssociationList [json]:
  "blank i \<Longrightarrow> list_all (\<lambda>x. json_safe (aa_source x) \<and> json_safe (aa_target x) \<and> aa_target x \<noteq> []) vec \<Longrightarrow>
     vec \<noteq> [] \<Longrightarrow> json_member c (AttributeAssociationList_render vec JSON i c)"
  unfolding AttributeAssociationList_render_def
  by (auto simp: list_all_iff json_clean_Cons intro!: json_member_array json_elem_seq json_elem_AttributeAssociation)

lemma json_member_EntityAssociation [json]:
  assumes "blank i" and "EntityId_json (ea_source ea)" and "EntityId_json (ea_target ea)"
  shows "json_member c (EntityAssociation_render ea JSON i c)"
proof -
  let ?b = "EntityId_render ''sourceEntityId'' (ea_source ea) JSON (i @ ''  '') True True ''source'' @
    EntityId_render ''targetEntityId'' (ea_target ea) JSON (i @ ''  '') False True ''target''"
  have "json_member False ?b"
    using assms by (intro json_member_append json_member_EntityId_assoc) (auto simp: json_clean_Cons)
  then show ?thesis
    using json_member_object(1) [OF assms(1), of "''entities''" ?b] by (simp add: EntityAssociation_render_def json_clean_Cons)
qed

text \<open>An association is written as the value of a member.\<close>

lemma json_run_Association:
  assumes "blank i" and "Association_json a"
  shows "json_run (JVal, st) (Association_render a JSON i c) = (JAfter, st)"
proof -
  let ?l = "as_attributeAssociationList a"
  let ?b = "EntityAssociation_render (as_entityAssociation a) JSON (i @ ''  '') (?l \<noteq> []) @
    AttributeAssociationList_render ?l JSON (i @ ''  '') False"
  have "json_member False ?b"
  proof (rule json_member_opt [of "?l \<noteq> []"])
    show "json_member (?l \<noteq> []) (EntityAssociation_render (as_entityAssociation a) JSON (i @ ''  '') (?l \<noteq> []))"
      using assms by (intro json_member_EntityAssociation) (auto simp: Association_json_def)
    show "?l \<noteq> [] \<Longrightarrow> json_member False (AttributeAssociationList_render ?l JSON (i @ ''  '') False)"
      using assms by (intro json_member_AttributeAssociationList) (auto simp: Association_json_def)
  qed (simp add: AttributeAssociationList_render_def)
  from json_memberD [OF this, of JObj0] show ?thesis
    using assms(1) by (simp add: Association_render_def Let_def startTag1_def endTag_def json_text)
qed

lemma json_elem_Metadata [json]:
  assumes "blank i" and "Metadata_json m"
  shows "json_elem c (Metadata_render m JSON i c)"
proof -
  let ?v = "if md_type m = ''Association'' then NL @ Association_render (md_association m) JSON (i @ ''  '') False
    else md_value m"
  let ?val = "valueTag (i @ ''  '') ''value'' ?v JSON False (md_type m = ''Association'') False"
  let ?b = "valueTag (i @ ''  '') ''name'' (md_name m) JSON True False False @
    valueTag (i @ ''  '') ''type'' (md_type m) JSON True False False @ ?val"
  have "json_member False ?val"
  proof (cases "md_type m = ''Association''")
    case True
    let ?a = "Association_render (md_association m) JSON (i @ ''  '') False"
    have run: "json_run (JVal, st) ?a = (JAfter, st)" for st
      using assms True by (intro json_run_Association) (auto simp: Metadata_json_def)
    have "NUL \<notin> set ?a" using json_run_no_nul [of "(JVal, [])" ?a] run [of "[]"] by simp
    then have "c_str (NL @ ?a) = NL @ ?a" by (intro c_str_id) auto
    then have "?val = i @ ''  '' @ QUOT @ ''value'' @ QUOT @ '' : '' @ NL @ ?a @ NL"
      using True by (simp add: valueTag_def Let_def)
    then show ?thesis
      using run assms(1) by (auto simp: json_member_def json_text)
  next
    case False
    then show ?thesis
      using assms by (auto simp: Metadata_json_def json_clean_Cons intro!: json_member_valueTag)
  qed
  then have "json_member False ?b"
    using assms by (intro json_member_append json_member_valueTag) (auto simp: Metadata_json_def json_clean_Cons)
  then show ?thesis
    using json_elem_object(1) [OF assms(1), of ?b] by (simp add: Metadata_render_def Let_def)
qed

lemma json_member_MetadataVector [json]:
  "blank i \<Longrightarrow> list_all Metadata_json vec \<Longrightarrow> vec \<noteq> [] \<Longrightarrow> json_member c (MetadataVector_render t vec JSON i c)"
  unfolding MetadataVector_render_def
  by (auto simp: list_all_iff json_clean_Cons intro!: json_member_array json_elem_seq json_elem_Metadata)


subsection \<open>Compound values\<close>

text \<open>The names of fields are written as they are, the values are escaped.\<close>

fun cv_json :: "cv_type \<Rightarrow> cvnode \<Rightarrow> bool" where
  "cv_json container (CvNode t n v p cs) \<longleftrightarrow>
     t \<noteq> CvUnknown \<and> (container = CvObject \<longrightarrow> json_clean n) \<and>
     (if t = CvString then json_safe v else list_all (cv_json t) cs)"

definition CompoundValueNode_json :: "cvnode \<Rightarrow> bool" where
  "CompoundValueNode_json nd \<longleftrightarrow>
     (cv_type nd = CvVector \<or> cv_type nd = CvObject) \<and> list_all (cv_json (cv_type nd)) (cv_childV nd)"

lemma json_cv_render:
  "fm = JSON \<Longrightarrow> blank i \<Longrightarrow> ct = CvObject \<or> ct = CvVector \<Longrightarrow> cv_json ct nd \<Longrightarrow>
     (if ct = CvObject then json_member c (cv_render fm i ct c nd) else json_elem c (cv_render fm i ct c nd))"
  "fm = JSON \<Longrightarrow> blank i \<Longrightarrow> ct = CvObject \<or> ct = CvVector \<Longrightarrow> list_all (cv_json ct) cs \<Longrightarrow>
     cs = [] \<or> (if ct = CvObject then json_member False (cv_render_list fm i ct cs)
                else json_elem False (cv_render_list fm i ct cs))"
proof (induction fm i ct c nd and fm i ct cs rule: cv_render_cv_render_list.induct)
  case (1 fm i ct c t n v p cs)
  note IH = "1.IH" and prems = "1.prems"
  have nil: "cv_render_list JSON j t [] = []" for j by simp
  consider (str) "t = CvString" | (vec) "t = CvVector" | (obj) "t = CvObject" using prems(4) by (cases t) auto
  then show ?case
  proof cases
    case str
    with prems show ?thesis by (auto intro: json_member_valueTag json_elem_valueTag)
  next
    case vec
    let ?b = "cv_render_list JSON (i @ ''  '') CvVector cs"
    have "?b = [] \<or> json_elem False ?b" using vec IH(1) prems nil by fastforce
    with vec prems show ?thesis
      using json_member_array [of i n ?b] json_elem_array [of i ?b] by (auto simp: Let_def)
  next
    case obj
    let ?b = "cv_render_list JSON (i @ ''  '') CvObject cs"
    have "?b = [] \<or> json_member False ?b" using obj IH(2,3) prems nil by fastforce
    with obj prems show ?thesis
      using json_member_object(1) [of i n ?b] json_elem_object(1) [of i ?b] by (auto simp: Let_def)
  qed
next
  case (2 fm i ct)
  then show ?case by simp
next
  case (3 fm i ct c cs)
  then show ?case
    by (cases "cs = []") (auto intro: json_member_append json_elem_append split: if_splits)
qed

lemma json_member_compound [json]:
  assumes "blank i" and "CompoundValueNode_json nd"
  shows "json_member c (ContextAttribute_renderCompound nd JSON i c)"
proof -
  let ?b = "CompoundValueNode_render nd JSON (i @ ''    '')"
  have "?b = [] \<or> (if cv_type nd = CvObject then json_member False ?b else json_elem False ?b)"
    using json_cv_render(2) [of JSON "i @ ''    ''" "cv_type nd" "cv_childV nd"] assms
    by (auto simp: CompoundValueNode_json_def CompoundValueNode_render_def)
  with assms show ?thesis
    using json_member_array [of "i @ ''  ''" "''value''" ?b] json_member_object(1) [of "i @ ''  ''" "''value''" ?b]
    by (auto simp: ContextAttribute_renderCompound_def CompoundValueNode_json_def json_clean_Cons Let_def)
qed


subsection \<open>Attributes and context elements\<close>

text \<open>
  What an attribute needs to be written as JSON: safe texts; when the value is left out, no metadata
  (the comma before the metadata is missing, or there is one too many) and, as an object, no compound
  value. Written as an object, the name is a key and is not escaped.
\<close>

definition ContextAttribute_json :: "bool \<Rightarrow> bool \<Rightarrow> ContextAttribute \<Rightarrow> bool" where
  "ContextAttribute_json asObject omitValue ca \<longleftrightarrow>
     (if asObject then json_clean (ca_name ca) else json_safe (ca_name ca)) \<and>
     json_safe (ca_type ca) \<and> json_safe (ca_value ca) \<and>
     list_all Metadata_json (ca_metadataVector ca) \<and>
     (case ca_compoundValueP ca of None \<Rightarrow> True | Some nd \<Rightarrow> CompoundValueNode_json nd) \<and>
     (omitValue \<longrightarrow> ca_metadataVector ca = [] \<and> (asObject \<longrightarrow> ca_compoundValueP ca = None))"

abbreviation as_object :: "ConnectionInfo \<Rightarrow> bool" where
  "as_object ci \<equiv> uriParam ci URI_PARAM_ATTRIBUTE_FORMAT = ''object''"

lemma json_member_opt_metadata:
  assumes "blank i" and "list_all Metadata_json ms" and "json_member (ms \<noteq> []) a"
  shows "json_member False (a @ MetadataVector_render t ms JSON i False)"
  using assms by (intro json_member_opt [of "ms \<noteq> []"] json_member_MetadataVector) (simp_all add: MetadataVector_render_def)

lemma json_elem_ContextAttribute [json]:
  assumes "ci_outFormat ci = JSON" and "\<not> as_object ci" and i: "blank i" and ca: "ContextAttribute_json False omit a"
  shows "json_elem c (ContextAttribute_render a ci rt i c omit)"
proof -
  let ?ms = "ca_metadataVector a"
  let ?rendered = "ca_compoundValueP a \<noteq> None \<or> \<not> omit \<or> rt = RtUpdateContextResponse"
  let ?n = "valueTag (i @ ''  '') ''name'' (ca_name a) JSON True False False"
  let ?t = "valueTag (i @ ''  '') ''type'' (ca_type a) JSON ?rendered False False"
  let ?v = "case ca_compoundValueP a of
      None \<Rightarrow> if \<not> omit then valueTag (i @ ''  '') ''value'' (if rt \<noteq> RtUpdateContextResponse then ca_value a else [])
                     JSON (?ms \<noteq> []) False False
              else if rt = RtUpdateContextResponse then valueTag (i @ ''  '') ''value'' [] JSON (?ms \<noteq> []) False False
              else []
    | Some nd \<Rightarrow> ContextAttribute_renderCompound nd JSON i (?ms \<noteq> [])"
  let ?m = "MetadataVector_render ''metadata'' ?ms JSON (i @ ''  '') False"
  have tv: "json_member (?ms \<noteq> []) (?t @ ?v)"
  proof (rule json_member_opt [of ?rendered])
    show "json_member ?rendered ?t"
      using i ca by (intro json_member_valueTag) (auto simp: ContextAttribute_json_def json_clean_Cons)
    show "?rendered \<Longrightarrow> json_member (?ms \<noteq> []) ?v"
      using i ca by (auto simp: ContextAttribute_json_def json_clean_Cons split: option.splits
          intro!: json_member_valueTag json_member_compound)
    show "\<not> ?rendered \<Longrightarrow> ?v = [] \<and> \<not> ?ms \<noteq> []"
      using ca by (simp add: ContextAttribute_json_def)
  qed
  have "json_member True ?n"
    using i ca by (intro json_member_valueTag) (auto simp: ContextAttribute_json_def json_clean_Cons)
  from json_member_append [OF this tv] have "json_member False ((?n @ ?t @ ?v) @ ?m)"
    using i ca by (intro json_member_opt_metadata) (auto simp: ContextAttribute_json_def)
  then show ?thesis
    using json_elem_object(1) [OF i, of "(?n @ ?t @ ?v) @ ?m"] assms(1,2)
    by (cases "ca_compoundValueP a") (simp_all add: ContextAttribute_render_def Let_def cong: if_cong split del: if_split)
qed

lemma json_member_ContextAttribute [json]:
  assumes "ci_outFormat ci = JSON" and "as_object ci" and i: "blank i" and ca: "ContextAttribute_json True omit a"
  shows "json_member c (ContextAttribute_render a ci rt i c omit)"
proof -
  let ?ms = "ca_metadataVector a"
  let ?t = "valueTag (i @ ''  '') ''type'' (ca_type a) JSON (\<not> omit \<or> ?ms \<noteq> []) False False"
  let ?v = "case ca_compoundValueP a of
      None \<Rightarrow> if \<not> omit then valueTag (i @ ''  '') ''value'' (if rt \<noteq> RtUpdateContextResponse then ca_value a else [])
                     JSON (?ms \<noteq> []) False False
              else []
    | Some nd \<Rightarrow> ContextAttribute_renderCompound nd JSON i (?ms \<noteq> [])"
  let ?m = "if \<not> omit then MetadataVector_render ''metadata'' ?ms JSON (i @ ''  '') False else []"
  have t: "json_member (\<not> omit \<or> ?ms \<noteq> []) ?t"
    using i ca by (intro json_member_valueTag) (auto simp: ContextAttribute_json_def json_clean_Cons)
  have "json_member False (?t @ ?v @ ?m)"
  proof (cases omit)
    case True
    with t ca show ?thesis by (simp add: ContextAttribute_json_def)
  next
    case False
    have "json_member (?ms \<noteq> []) (?t @ ?v)"
    proof (rule json_member_append)
      show "json_member True ?t" using t False by simp
      show "json_member (?ms \<noteq> []) ?v"
        using i ca False by (auto simp: ContextAttribute_json_def json_clean_Cons split: option.splits
            intro!: json_member_valueTag json_member_compound)
    qed
    then have "json_member False ((?t @ ?v) @ MetadataVector_render ''metadata'' ?ms JSON (i @ ''  '') False)"
      using i ca by (intro json_member_opt_metadata) (auto simp: ContextAttribute_json_def)
    with False show ?thesis by simp
  qed
  moreover have "json_clean (ca_name a)" using ca by (simp add: ContextAttribute_json_def)
  ultimately have "json_member c (startTag2 i [] (ca_name a) JSON False True False @ (?t @ ?v @ ?m) @
      endTag i [] JSON c False True False)"
    by (intro json_member_object(1) [OF i] disjI2)
  then show ?thesis
    using assms(1,2)
    by (cases "ca_compoundValueP a")
      (simp_all add: ContextAttribute_render_def ContextAttribute_renderAsJsonObject_def Let_def cong: if_cong split del: if_split)
qed

lemma json_elem_NameString [json]:
  "ci_outFormat ci = JSON \<Longrightarrow> blank i \<Longrightarrow> json_clean (ca_name a) \<Longrightarrow>
     json_elem c (ContextAttribute_renderAsNameString a ci rt i c)"
  by (auto simp: json_elem_def ContextAttribute_renderAsNameString_def json_text)

lemma remove_copies_set: "set (remove_copies added as) \<subseteq> set as"
  by (induction added as rule: remove_copies.induct) (auto split: list.splits)

lemma remove_copies_nonempty: "as \<noteq> [] \<Longrightarrow> remove_copies [] as \<noteq> []"
  by (cases as) (simp_all add: addedLookup_def)

lemma json_member_ContextAttributeVector [json]:
  assumes "ci_outFormat ci = JSON" and i: "blank i" and "vec \<noteq> []"
    and vec: "list_all (ContextAttribute_json (as_object ci) omit) vec"
  shows "json_member c (ContextAttributeVector_render vec ci rt i c omit False)"
proof (cases "as_object ci")
  case True
  let ?b = "render_seq (\<lambda>c a. ContextAttribute_render a ci rt (i @ ''  '') c omit) (remove_copies [] vec)"
  have "json_member False ?b"
    using assms True remove_copies_set [of "[]" vec] remove_copies_nonempty
    by (intro json_member_seq json_member_ContextAttribute) (auto simp: list_all_iff)
  then show ?thesis
    using json_member_object(1) [OF i, of "''attributes''" ?b] assms True
    by (simp add: ContextAttributeVector_render_def json_clean_Cons Let_def)
next
  case False
  let ?b = "render_seq (\<lambda>c a. ContextAttribute_render a ci rt (i @ ''  '') c omit) vec"
  have "json_elem False ?b"
    using assms False by (intro json_elem_seq json_elem_ContextAttribute) (auto simp: list_all_iff)
  then show ?thesis
    using json_member_array [OF i, of "''attributes''" ?b] assms False
    by (simp add: ContextAttributeVector_render_def json_clean_Cons Let_def)
qed


definition ContextElement_json :: "bool \<Rightarrow> bool \<Rightarrow> ContextElement \<Rightarrow> bool" where
  "ContextElement_json asObject omitValue ce \<longleftrightarrow>
     EntityId_json (ce_entityId ce) \<and> json_safe (ce_attributeDomainName ce) \<and>
     list_all (ContextAttribute_json asObject omitValue) (ce_contextAttributeVector ce) \<and>
     list_all Metadata_json (ce_domainMetadataVector ce)"

text \<open>The members of a context element, between its braces.\<close>

definition ContextElement_body :: "ContextElement \<Rightarrow> ConnectionInfo \<Rightarrow> RequestType \<Rightarrow> string \<Rightarrow> bool \<Rightarrow> string" where
  "ContextElement_body ce ci requestType indent omit =
     (let dm = (ce_domainMetadataVector ce \<noteq> []); av = (ce_contextAttributeVector ce \<noteq> [])
      in EntityId_render ''entityId'' (ce_entityId ce) (ci_outFormat ci) (indent @ ''  '')
           ((dm \<or> av) \<or> ce_attributeDomainName ce \<noteq> []) False [] @
         AttributeDomainName_render (ce_attributeDomainName ce) (ci_outFormat ci) (indent @ ''  '') (dm \<or> av) @
         ContextAttributeVector_render (ce_contextAttributeVector ce) ci requestType (indent @ ''  '') dm omit False @
         MetadataVector_render ''registrationMetadata'' (ce_domainMetadataVector ce) (ci_outFormat ci) (indent @ ''  '') False)"

lemma ContextElement_render_body:
  "ContextElement_render ce ci rt i c omit =
     startTag2 i ''contextElement'' ''contextElement'' (ci_outFormat ci) False (rt \<noteq> UpdateContext) False @
     ContextElement_body ce ci rt i omit @ endTag i ''contextElement'' (ci_outFormat ci) c False True False"
  by (cases "ce_domainMetadataVector ce = []"; cases "ce_contextAttributeVector ce = []")
    (simp_all add: ContextElement_render_def ContextElement_body_def Let_def)

lemma json_member_ContextElement_body:
  assumes f: "ci_outFormat ci = JSON" and i: "blank i" and ce: "ContextElement_json (as_object ci) omit ce"
  shows "json_member False (ContextElement_body ce ci rt i omit)"
proof -
  let ?dm = "ce_domainMetadataVector ce \<noteq> []" and ?av = "ce_contextAttributeVector ce \<noteq> []"
  let ?dn = "ce_attributeDomainName ce \<noteq> []"
  let ?e = "EntityId_render ''entityId'' (ce_entityId ce) JSON (i @ ''  '') ((?dm \<or> ?av) \<or> ?dn) False []"
  let ?d = "AttributeDomainName_render (ce_attributeDomainName ce) JSON (i @ ''  '') (?dm \<or> ?av)"
  let ?a = "ContextAttributeVector_render (ce_contextAttributeVector ce) ci rt (i @ ''  '') ?dm omit False"
  have e: "json_member ((?dm \<or> ?av) \<or> ?dn) ?e"
    using i ce by (intro json_member_EntityId) (auto simp: ContextElement_json_def)
  have d: "?dn \<Longrightarrow> json_member (?dm \<or> ?av) ?d"
    using i ce by (auto simp: ContextElement_json_def AttributeDomainName_render_def json_clean_Cons
        intro!: json_member_valueTag)
  have a: "?av \<Longrightarrow> json_member ?dm ?a"
    using f i ce by (intro json_member_ContextAttributeVector) (auto simp: ContextElement_json_def)
  have ed: "json_member (?dm \<or> ?av) (?e @ ?d)"
    by (rule json_member_opt_or [of ?dn]) (use e d in \<open>auto simp: AttributeDomainName_render_def disj_ac\<close>)
  have "json_member ?dm ((?e @ ?d) @ ?a)"
  proof (rule json_member_opt_or [of ?av])
    show "json_member (?av \<or> ?dm) (?e @ ?d)" using ed by (simp only: disj_commute)
  qed (use a f in \<open>auto simp: ContextAttributeVector_render_def Let_def\<close>)
  then have "json_member False (((?e @ ?d) @ ?a) @
      MetadataVector_render ''registrationMetadata'' (ce_domainMetadataVector ce) JSON (i @ ''  '') False)"
    using i ce by (intro json_member_opt_metadata) (auto simp: ContextElement_json_def)
  then show ?thesis by (simp only: ContextElement_body_def Let_def f append_assoc)
qed

lemma json_member_ContextElement [json]:
  assumes "ci_outFormat ci = JSON" and "blank i" and "ContextElement_json (as_object ci) omit ce" and "rt \<noteq> UpdateContext"
  shows "json_member c (ContextElement_render ce ci rt i c omit)"
  using json_member_object(1) [OF assms(2), of "''contextElement''"] json_member_ContextElement_body [OF assms(1-3)] assms(1,4)
  by (simp add: ContextElement_render_body json_clean_Cons)

lemma json_elem_ContextElement [json]:
  assumes "ci_outFormat ci = JSON" and "blank i" and "ContextElement_json (as_object ci) omit ce"
  shows "json_elem c (ContextElement_render ce ci UpdateContext i c omit)"
  using json_elem_object(1) [OF assms(2)] json_member_ContextElement_body [OF assms] assms(1)
  by (simp add: ContextElement_render_body)

lemma json_member_ContextElementVector [json]:
  assumes "ci_outFormat ci = JSON" and "blank i" and "list_all (ContextElement_json (as_object ci) False) vec" and "vec \<noteq> []"
  shows "json_member c (ContextElementVector_render vec ci UpdateContext i c)"
proof -
  have "json_elem False (render_seq (\<lambda>c ce. ContextElement_render ce ci UpdateContext (i @ ''  '') c False) vec)"
    using assms by (intro json_elem_seq json_elem_ContextElement) (auto simp: list_all_iff)
  then show ?thesis
    using json_member_array [OF assms(2), of "''contextElements''"] assms(1,4)
    by (simp add: ContextElementVector_render_def json_clean_Cons)
qed

subsection \<open>Status codes and responses\<close>

definition StatusCode_json :: "StatusCode \<Rightarrow> bool" where
  "StatusCode_json sc \<longleftrightarrow> json_safe (sc_reasonPhrase sc) \<and> json_clean (sc_details sc)"

lemma json_safe_clean: "json_clean s \<Longrightarrow> json_safe s"
  by (auto simp: json_clean_def json_safe_def list_all_iff)

lemma json_clean_reason: "json_safe (httpStatusCodeString c)"
  by (cases c) (simp_all add: httpStatusCodeString_def json_safe_def)

text \<open>The members common to a status and an error.\<close>

lemma json_member_status:
  assumes "blank i" and "json_safe reason" and "json_safe details"
  shows "json_member False
    (valueTag_int i ''code'' n JSON True False @
     valueTag i ''reasonPhrase'' reason JSON (details \<noteq> []) False False @
     (if details \<noteq> [] then valueTag i ''details'' details JSON False False False else []))"
proof (rule json_member_append)
  show "json_member True (valueTag_int i ''code'' n JSON True False)"
    using assms(1) by (intro json_member_valueTag_int) (auto simp: json_clean_Cons)
  show "json_member False (valueTag i ''reasonPhrase'' reason JSON (details \<noteq> []) False False @
      (if details \<noteq> [] then valueTag i ''details'' details JSON False False False else []))"
    using assms by (intro json_member_opt [of "details \<noteq> []"])
      (auto simp: json_clean_Cons intro!: json_member_valueTag)
qed

lemma json_member_StatusCode [json]:
  assumes "blank i" and "json_clean tag" and "StatusCode_json sc"
  shows "json_member c (fst (StatusCode_render tag sc JSON i c True))"
proof -
  let ?f = "StatusCode_fill SccReceiverInternalError []"
  let ?s = "if sc_code sc = SccNone then ?f\<lparr>sc_details := sc_details ?f @ '' - ZERO code set to 500''\<rparr>
    else sc\<lparr>sc_details := StatusCode_details (sc_details sc)\<rparr>"
  let ?b = "valueTag_int (i @ ''  '') ''code'' (scc_num (sc_code ?s)) JSON True False @
    valueTag (i @ ''  '') ''reasonPhrase'' (sc_reasonPhrase ?s) JSON (sc_details ?s \<noteq> []) False False @
    (if sc_details ?s \<noteq> [] then valueTag (i @ ''  '') ''details'' (sc_details ?s) JSON False False False else [])"
  have "json_safe (sc_reasonPhrase ?s)"
    using assms(3) by (simp add: StatusCode_json_def StatusCode_fill_def json_clean_reason)
  moreover have "json_safe (sc_details ?s)"
    using assms(3) json_safe_clean
    by (simp add: StatusCode_json_def StatusCode_fill_def StatusCode_details_plain) (simp add: json_safe_def)
  ultimately have "json_member False ?b"
    using assms(1) by (intro json_member_status) simp_all
  then have "json_member c (startTag1 i tag JSON True False @ ?b @ endTag i tag JSON c False True False)"
    using assms(1,2) by (intro json_member_object(2) disjI2)
  then show ?thesis
    by (simp add: StatusCode_render_def Let_def split del: if_split cong: if_cong)
qed

lemma json_doc_OrionError [json]:
  assumes "blank i" and "json_safe (oe_reasonPhrase oe)" and "json_safe (oe_details oe)"
  shows "json_doc (OrionError_render oe JSON i)"
proof -
  let ?i = "i @ ''  ''"
  let ?b = "valueTag_int (?i @ ''  '') ''code'' (scc_num (oe_code oe)) JSON True False @
    valueTag (?i @ ''  '') ''reasonPhrase'' (oe_reasonPhrase oe) JSON (oe_details oe \<noteq> []) False False @
    (if oe_details oe \<noteq> [] then valueTag (?i @ ''  '') ''details'' (oe_details oe) JSON False False False else [])"
  have "json_member False ?b" using assms by (intro json_member_status) simp_all
  then have "json_member False (startTag1 ?i ''orionError'' JSON True False @ ?b @ endTag ?i ''orionError'' JSON False False True False)"
    using assms(1) by (intro json_member_object(2) disjI2) (auto simp: json_clean_Cons)
  from json_memberD [OF this, of JObj0 "[]"]
  have "json_run (JVal, []) (i @ ''{'' @ NL @ (startTag1 ?i ''orionError'' JSON True False @ ?b @
      endTag ?i ''orionError'' JSON False False True False) @ i @ ''}'' @ NL) = (JAfter, [])"
    using assms(1) by (simp add: json_text del: append_assoc split del: if_split)
  then show ?thesis
    by (simp add: json_doc_def OrionError_render_def Let_def split del: if_split cong: if_cong)
qed

definition ContextElementResponse_json :: "bool \<Rightarrow> bool \<Rightarrow> ContextElementResponse \<Rightarrow> bool" where
  "ContextElementResponse_json asObject omitValue cer \<longleftrightarrow>
     ContextElement_json asObject omitValue (cer_contextElement cer) \<and> StatusCode_json (cer_statusCode cer)"

lemma json_elem_ContextElementResponse [json]:
  assumes "ci_outFormat ci = JSON" and i: "blank i" and cer: "ContextElementResponse_json (as_object ci) omit cer"
    and "rt \<noteq> UpdateContext"
  shows "json_elem c (ContextElementResponse_render cer ci rt i c omit)"
proof -
  let ?b = "ContextElement_render (cer_contextElement cer) ci rt (i @ ''  '') True omit @
    fst (StatusCode_render ''statusCode'' (cer_statusCode cer) JSON (i @ ''  '') False True)"
  have "json_member False ?b"
    using assms by (intro json_member_append json_member_ContextElement json_member_StatusCode)
      (auto simp: ContextElementResponse_json_def json_clean_Cons)
  then show ?thesis
    using json_elem_object(1) [OF i, of ?b] assms(1) by (simp add: ContextElementResponse_render_def)
qed

lemma json_member_ContextElementResponseVector [json]:
  assumes "ci_outFormat ci = JSON" and "blank i" and "list_all (ContextElementResponse_json (as_object ci) omit) vec"
    and "vec \<noteq> []" and "rt \<noteq> UpdateContext"
  shows "json_member c (ContextElementResponseVector_render vec ci rt i c omit)"
proof -
  have "json_elem False (render_seq (\<lambda>c cer. ContextElementResponse_render cer ci rt (i @ ''  '') c omit) vec)"
    using assms by (intro json_elem_seq json_elem_ContextElementResponse) (auto simp: list_all_iff)
  then show ?thesis
    using json_member_array [OF assms(2), of "''contextResponses''"] assms(1,4)
    by (simp add: ContextElementResponseVector_render_def json_clean_Cons)
qed

end
