(* ===== verification/Ngsi_Messages.thy ===== *)
theory Ngsi_Messages
  imports Ngsi_Render "HOL-Library.Multiset"
begin

text \<open>
  The messages of NGSI9 and NGSI10: \<^verbatim>\<open>src/src/lib/ngsi9\<close>, \<^verbatim>\<open>src/src/lib/ngsi10\<close> and the
  parts of \<^verbatim>\<open>src/src/lib/ngsi\<close> that only they use. Responses are rendered (\<open>..._render\<close>), checked
  (\<open>..._check\<close>: "OK" or the text of an error response), and the response to an update is built up from
  the answers of context providers (\<open>notFoundPush\<close>, \<open>foundPush\<close>, \<open>merge\<close>). A renderer that fills in its error
  code changes the object; the changed object is not used any more after that, so that only the text is
  returned here.
\<close>

section \<open>Identifiers and registrations\<close>

fun idCheck_loop :: "string \<Rightarrow> string" where
  "idCheck_loop [] = ''OK''"
| "idCheck_loop (c # s) = (if is_xdigit c then idCheck_loop s else ''invalid char in ID string'')"

definition idCheck :: "string \<Rightarrow> string" where
  "idCheck s = (if length s \<noteq> 24 then ''bad length - 24 chars expected'' else idCheck_loop (c_str s))"

definition SubscriptionId_check :: "string \<Rightarrow> string" where
  "SubscriptionId_check s = (if s \<noteq> [] then idCheck s else ''OK'')"

definition RegistrationId_check :: "string \<Rightarrow> string" where
  "RegistrationId_check s = (if s \<noteq> [] then idCheck s else ''OK'')"

definition UpdateActionType_check :: "string \<Rightarrow> string" where
  "UpdateActionType_check s =
     (if s \<in> set [''update'', ''UPDATE'', ''Update'', ''append'', ''APPEND'', ''Append'', ''delete'', ''DELETE'', ''Delete'']
      then ''OK''
      else if s = [] then ''empty update action type''
      else ''invalid update action type: /'' @ s @ ''/'')"

definition ContextRegistrationAttribute_check :: "RequestType \<Rightarrow> ContextRegistrationAttribute \<times> Metadata list \<Rightarrow> string" where
  "ContextRegistrationAttribute_check rt a =
     (let cra = fst a
      in if cra_name cra = [] then ''missing name for registration attribute''
         else if cra_isDomain cra = [] then ''missing isDomain value for registration attribute''
         else if \<not> isTrue (cra_isDomain cra) \<and> \<not> isFalse (cra_isDomain cra)
         then ''invalid isDomain value for registration attribute: /'' @ cra_isDomain cra @ ''/''
         else let res = MetadataVector_check rt (snd a) in if res \<noteq> ''OK'' then res else ''OK'')"

fun ContextRegistrationAttributeVector_check :: "RequestType \<Rightarrow> (ContextRegistrationAttribute \<times> Metadata list) list \<Rightarrow> string" where
  "ContextRegistrationAttributeVector_check rt [] = ''OK''"
| "ContextRegistrationAttributeVector_check rt (a # as) =
     (let res = ContextRegistrationAttribute_check rt a
      in if res \<noteq> ''OK'' then res else ContextRegistrationAttributeVector_check rt as)"

text \<open>
  A registration as it comes in or goes out, with the metadata of its attributes and of its own, and
  the flag that the request named the list of entities.
\<close>

record registration =
  rn_entityIdVector :: "EntityId list"
  rn_entityIdVectorPresent :: bool
  rn_attributeVector :: "(ContextRegistrationAttribute \<times> Metadata list) list"
  rn_registrationMetadataVector :: "Metadata list"
  rn_providingApplication :: ProvidingApplication

definition ContextRegistration_check :: "RequestType \<Rightarrow> registration \<Rightarrow> string" where
  "ContextRegistration_check rt cr =
     (let res = EntityIdVector_check rt (rn_entityIdVector cr)
      in if res \<noteq> ''OK'' then res
         else let res = ContextRegistrationAttributeVector_check rt (rn_attributeVector cr)
         in if res \<noteq> ''OK'' then res
         else let res = MetadataVector_check rt (rn_registrationMetadataVector cr)
         in if res \<noteq> ''OK'' then res
         else let res = ProvidingApplication_check (rn_providingApplication cr)
         in if res \<noteq> ''OK'' then res
         else if rn_entityIdVectorPresent cr \<and> rn_entityIdVector cr = [] then ''Empty entityIdVector''
         else ''OK'')"

fun ContextRegistrationVector_check :: "RequestType \<Rightarrow> registration list \<Rightarrow> string" where
  "ContextRegistrationVector_check rt [] = ''OK''"
| "ContextRegistrationVector_check rt (cr # crs) =
     (let res = ContextRegistration_check rt cr
      in if res \<noteq> ''OK'' then res else ContextRegistrationVector_check rt crs)"

definition ContextRegistrationAttribute_render ::
  "ContextRegistrationAttribute \<times> Metadata list \<Rightarrow> Format \<Rightarrow> string \<Rightarrow> bool \<Rightarrow> string" where
  "ContextRegistrationAttribute_render a format indent comma =
     startTag2 indent ''contextRegistrationAttribute'' ''registrationAttribute'' format False False False @
     valueTag (indent @ ''  '') ''name'' (cra_name (fst a)) format True False False @
     valueTag (indent @ ''  '') ''type'' (cra_type (fst a)) format True False False @
     valueTag (indent @ ''  '') ''isDomain'' (cra_isDomain (fst a)) format (snd a \<noteq> []) False False @
     MetadataVector_render ''metadata'' (snd a) format (indent @ ''  '') False @
     endTag indent ''contextRegistrationAttribute'' format comma False True False"

definition ContextRegistrationAttributeVector_render ::
  "(ContextRegistrationAttribute \<times> Metadata list) list \<Rightarrow> Format \<Rightarrow> string \<Rightarrow> bool \<Rightarrow> string" where
  "ContextRegistrationAttributeVector_render vec format indent comma =
     (if vec = [] then []
      else startTag2 indent ''contextRegistrationAttributeList'' ''attributes'' format True True False @
           render_seq (\<lambda>c a. ContextRegistrationAttribute_render a format (indent @ ''  '') c) vec @
           endTag indent ''contextRegistrationAttributeList'' format comma True True False)"

definition ContextRegistration_render :: "registration \<Rightarrow> Format \<Rightarrow> string \<Rightarrow> bool \<Rightarrow> bool \<Rightarrow> string" where
  "ContextRegistration_render cr format indent comma isInVector =
     startTag1 indent ''contextRegistration'' format (\<not> isInVector) False @
     EntityIdVector_render (rn_entityIdVector cr) format (indent @ ''  '') True @
     ContextRegistrationAttributeVector_render (rn_attributeVector cr) format (indent @ ''  '') True @
     MetadataVector_render ''registrationMetadata'' (rn_registrationMetadataVector cr) format (indent @ ''  '') True @
     ProvidingApplication_render (rn_providingApplication cr) format (indent @ ''  '') False @
     endTag indent ''contextRegistration'' format comma False True False"

text \<open>The last argument of \<open>endTag\<close> in the code is \<open>comma\<close> once more, in the place of \<open>isVector\<close>.\<close>

definition ContextRegistrationVector_render :: "registration list \<Rightarrow> Format \<Rightarrow> string \<Rightarrow> bool \<Rightarrow> string" where
  "ContextRegistrationVector_render vec format indent comma =
     (if vec = [] then []
      else startTag2 indent ''contextRegistrationList'' ''contextRegistrations'' format True True False @
           render_seq (\<lambda>c cr. ContextRegistration_render cr format (indent @ ''  '') c True) vec @
           endTag indent ''contextRegistrationList'' format comma comma True False)"

definition ContextRegistrationResponse_render :: "registration \<times> StatusCode \<Rightarrow> Format \<Rightarrow> string \<Rightarrow> bool \<Rightarrow> string" where
  "ContextRegistrationResponse_render crr format indent comma =
     (let errorCodeRendered = (sc_code (snd crr) \<noteq> SccNone)
      in startTag2 indent ''contextRegistrationResponse'' ''contextRegistration'' format False False False @
         ContextRegistration_render (fst crr) format (indent @ ''  '') errorCodeRendered False @
         (if errorCodeRendered then fst (StatusCode_render ''errorCode'' (snd crr) format (indent @ ''  '') False True) else []) @
         endTag indent ''contextRegistrationResponse'' format comma False True False)"

definition ContextRegistrationResponseVector_render :: "(registration \<times> StatusCode) list \<Rightarrow> Format \<Rightarrow> string \<Rightarrow> bool \<Rightarrow> string" where
  "ContextRegistrationResponseVector_render vec format indent comma =
     (if vec = [] then []
      else startTag2 indent ''contextRegistrationResponseList'' ''contextRegistrationResponses'' format True True False @
           render_seq (\<lambda>c crr. ContextRegistrationResponse_render crr format (indent @ ''  '') c) vec @
           endTag indent ''contextRegistrationResponseList'' format comma True True False)"

section \<open>NGSI10 messages\<close>

definition QueryContextResponse_render :: "QueryContextResponse \<Rightarrow> ConnectionInfo \<Rightarrow> string \<Rightarrow> string" where
  "QueryContextResponse_render qcr ci indent =
     (let ec = qrs_errorCode qcr; vec = qrs_contextElementResponseVector qcr;
          noError = \<not> (sc_code ec \<noteq> SccNone \<and> sc_code ec \<noteq> SccOk);
          ec1 = (if noError \<and> vec \<noteq> [] \<and> sc_details ec \<noteq> [] \<and> sc_code ec = SccNone then ec\<lparr>sc_code := SccOk\<rparr> else ec);
          errorCodeRendered = (\<not> noError \<or> vec = [] \<or> sc_details ec \<noteq> []);
          r = StatusCode_render ''errorCode'' ec1 (ci_outFormat ci) (indent @ ''  '') False True;
          ec2 = (if errorCodeRendered then snd r else ec1)
      in startTag1 indent ''queryContextResponse'' (ci_outFormat ci) False False @
         (if vec \<noteq> [] then ContextElementResponseVector_render vec ci QueryContext (indent @ ''  '') errorCodeRendered False
          else []) @
         (if errorCodeRendered then fst r else []) @
         (if sc_code ec2 = SccNone \<and> vec = []
          then fst (StatusCode_render ''errorCode''
                      (StatusCode_fill SccReceiverInternalError ''Both the error-code structure and the response vector were empty'')
                      (ci_outFormat ci) (indent @ ''  '') False True)
          else []) @
         endTag indent ''queryContextResponse'' (ci_outFormat ci) False False True False)"

definition StatusCode_check :: "StatusCode \<Rightarrow> string" where
  "StatusCode_check sc =
     (if sc_code sc = SccNone then ''no code'' else if sc_reasonPhrase sc = [] then ''no reason phrase'' else ''OK'')"

definition ContextElementResponse_check :: "RequestType \<Rightarrow> ContextElementResponse \<Rightarrow> string" where
  "ContextElementResponse_check rt cer =
     (let res = ContextElement_check rt (cer_contextElement cer)
      in if res \<noteq> ''OK'' then res
         else let res = StatusCode_check (cer_statusCode cer)
         in if res \<noteq> ''OK'' then res else ''OK'')"

fun ContextElementResponseVector_check :: "RequestType \<Rightarrow> ContextElementResponse list \<Rightarrow> string" where
  "ContextElementResponseVector_check rt [] = ''OK''"
| "ContextElementResponseVector_check rt (cer # cerV) =
     (let res = ContextElementResponse_check rt cer
      in if res \<noteq> ''OK'' then res else ContextElementResponseVector_check rt cerV)"

definition QueryContextResponse_check :: "QueryContextResponse \<Rightarrow> ConnectionInfo \<Rightarrow> string \<Rightarrow> string \<Rightarrow> string" where
  "QueryContextResponse_check qcr ci indent predetectedError =
     (if predetectedError \<noteq> []
      then QueryContextResponse_render (qcr\<lparr>qrs_errorCode := StatusCode_fill SccBadRequest predetectedError\<rparr>) ci indent
      else let res = ContextElementResponseVector_check QueryContext (qrs_contextElementResponseVector qcr)
           in if res \<noteq> ''OK''
              then QueryContextResponse_render (qcr\<lparr>qrs_errorCode := StatusCode_fill SccBadRequest res\<rparr>) ci indent
              else ''OK'')"

definition UpdateContextResponse_render :: "UpdateContextResponse \<Rightarrow> ConnectionInfo \<Rightarrow> string \<Rightarrow> string" where
  "UpdateContextResponse_render upr ci indent =
     (let ec = urs_errorCode upr; vec = urs_contextElementResponseVector upr
      in startTag1 indent ''updateContextResponse'' (ci_outFormat ci) False False @
         (if sc_code ec \<noteq> SccNone \<and> sc_code ec \<noteq> SccOk
          then fst (StatusCode_render ''errorCode'' ec (ci_outFormat ci) (indent @ ''  '') False True)
          else if vec = []
          then fst (StatusCode_render ''errorCode'' (StatusCode_fill SccContextElementNotFound (sc_details ec))
                      (ci_outFormat ci) (indent @ ''  '') False True)
          else ContextElementResponseVector_render vec ci RtUpdateContextResponse (indent @ ''  '') False False) @
         endTag indent ''updateContextResponse'' (ci_outFormat ci) False False True False)"

text \<open>The result of the check is compared but not kept: the error has no details.\<close>

definition UpdateContextResponse_check :: "UpdateContextResponse \<Rightarrow> ConnectionInfo \<Rightarrow> string \<Rightarrow> string \<Rightarrow> string" where
  "UpdateContextResponse_check upr ci indent predetectedError =
     (if predetectedError \<noteq> []
      then UpdateContextResponse_render (upr\<lparr>urs_errorCode := StatusCode_fill SccBadRequest predetectedError\<rparr>) ci indent
      else if ContextElementResponseVector_check UpdateContext (urs_contextElementResponseVector upr) \<noteq> ''OK''
      then UpdateContextResponse_render (upr\<lparr>urs_errorCode := StatusCode_fill SccBadRequest []\<rparr>) ci indent
      else ''OK'')"

definition NotifyContextRequest_render ::
  "string \<Rightarrow> string \<Rightarrow> ContextElementResponse list \<Rightarrow> ConnectionInfo \<Rightarrow> string \<Rightarrow> string" where
  "NotifyContextRequest_render subscriptionId originator vec ci indent =
     startTag1 indent ''notifyContextRequest'' (ci_outFormat ci) False False @
     SubscriptionId_render subscriptionId NotifyContext (ci_outFormat ci) (indent @ ''  '') True @
     Originator_render originator (ci_outFormat ci) (indent @ ''  '') (vec \<noteq> []) @
     ContextElementResponseVector_render vec ci NotifyContext (indent @ ''  '') False False @
     endTag indent ''notifyContextRequest'' (ci_outFormat ci) False False True False"

definition NotifyContextResponse_render :: "StatusCode \<Rightarrow> Format \<Rightarrow> string \<Rightarrow> string" where
  "NotifyContextResponse_render responseCode format indent =
     startTag1 indent ''notifyContextResponse'' format False False @
     fst (StatusCode_render ''responseCode'' responseCode format (indent @ ''  '') False True) @
     endTag indent ''notifyContextResponse'' format False False True False"

definition NotifyContextRequest_check :: "string \<Rightarrow> ContextElementResponse list \<Rightarrow> ConnectionInfo \<Rightarrow> string \<Rightarrow> string \<Rightarrow> string" where
  "NotifyContextRequest_check subscriptionId vec ci indent predetectedError =
     (let err = (\<lambda>d. NotifyContextResponse_render (StatusCode_fill SccBadRequest d) (ci_outFormat ci) indent)
      in if predetectedError \<noteq> [] then err predetectedError
         else let res = SubscriptionId_check subscriptionId
         in if res \<noteq> ''OK'' then err res
         else let res = ContextElementResponseVector_check QueryContext vec
         in if res \<noteq> ''OK'' then err res
         else ''OK'')"

definition SubscribeResponse_render :: "SubscribeResponse \<Rightarrow> Format \<Rightarrow> string \<Rightarrow> bool \<Rightarrow> string" where
  "SubscribeResponse_render sr format indent comma =
     (let durationRendered = (\<not> Duration_isEmpty (sr_duration sr));
          throttlingRendered = (\<not> Throttling_isEmpty (sr_throttling sr))
      in startTag1 indent ''subscribeResponse'' format True False @
         SubscriptionId_render (sr_subscriptionId sr) RtSubscribeResponse format (indent @ ''  '')
           (durationRendered \<or> throttlingRendered) @
         Duration_render (sr_duration sr) format (indent @ ''  '') throttlingRendered @
         Throttling_render (sr_throttling sr) format (indent @ ''  '') False @
         endTag indent ''subscribeResponse'' format comma False True False)"

definition SubscribeError_render :: "string \<Rightarrow> StatusCode \<Rightarrow> RequestType \<Rightarrow> Format \<Rightarrow> string \<Rightarrow> bool \<Rightarrow> string" where
  "SubscribeError_render subscriptionId errorCode requestType format indent comma =
     startTag1 indent ''subscribeError'' format True False @
     (if requestType = UpdateContextSubscription then
        SubscriptionId_render (if subscriptionId = [] then NO_ID else subscriptionId) requestType format (indent @ ''  '') True
      else if requestType = SubscribeContext \<and> subscriptionId \<noteq> NO_ID \<and> subscriptionId \<noteq> [] then
        SubscriptionId_render subscriptionId requestType format (indent @ ''  '') True
      else []) @
     fst (StatusCode_render ''errorCode'' errorCode format (indent @ ''  '') False True) @
     endTag indent ''subscribeError'' format comma False True False"

text \<open>The id in the error part is \<open>errorId\<close>.\<close>

definition SubscribeContextResponse_render :: "SubscribeContextResponse \<Rightarrow> string \<Rightarrow> Format \<Rightarrow> string \<Rightarrow> string" where
  "SubscribeContextResponse_render scr errorId format indent =
     startTag1 indent ''subscribeContextResponse'' format False False @
     (if sc_code (scr_errorCode scr) = SccNone
      then SubscribeResponse_render (scr_subscribeResponse scr) format (indent @ ''  '') False
      else SubscribeError_render errorId (scr_errorCode scr) SubscribeContext format (indent @ ''  '') False) @
     endTag indent ''subscribeContextResponse'' format False False True False"

definition UpdateContextSubscriptionResponse_render :: "SubscribeContextResponse \<Rightarrow> string \<Rightarrow> Format \<Rightarrow> string \<Rightarrow> string" where
  "UpdateContextSubscriptionResponse_render scr errorId format indent =
     startTag1 indent ''updateContextSubscriptionResponse'' format False False @
     (if sc_code (scr_errorCode scr) = SccNone
      then SubscribeResponse_render (scr_subscribeResponse scr) format (indent @ ''  '') False
      else SubscribeError_render errorId (scr_errorCode scr) UpdateContextSubscription format (indent @ ''  '') False) @
     endTag indent ''updateContextSubscriptionResponse'' format False False True False"

definition UnsubscribeContextResponse_render :: "UnsubscribeContextResponse \<Rightarrow> Format \<Rightarrow> string \<Rightarrow> string" where
  "UnsubscribeContextResponse_render unr format indent =
     startTag1 indent ''unsubscribeContextResponse'' format False False @
     SubscriptionId_render (unr_subscriptionId unr) RtUnsubscribeContextResponse format (indent @ ''  '') True @
     fst (StatusCode_render ''statusCode'' (unr_statusCode unr) format (indent @ ''  '') False True) @
     endTag indent ''unsubscribeContextResponse'' format False False True False"

definition UnsubscribeContextRequest_check :: "string \<Rightarrow> Format \<Rightarrow> string \<Rightarrow> string" where
  "UnsubscribeContextRequest_check subscriptionId format indent =
     (let res = SubscriptionId_check subscriptionId
      in if res \<noteq> ''OK''
         then UnsubscribeContextResponse_render
           \<lparr>unr_statusCode = StatusCode_fill SccBadRequest (''Invalid Subscription Id: /'' @ subscriptionId @ ''/: '' @ res),
            unr_subscriptionId = []\<rparr> format indent
         else ''OK'')"

definition UpdateContextRequest_render :: "UpdateContextRequest \<Rightarrow> ConnectionInfo \<Rightarrow> string \<Rightarrow> string" where
  "UpdateContextRequest_render upr ci indent =
     startTag1 indent ''updateContextRequest'' (ci_outFormat ci) False False @
     ContextElementVector_render (upr_contextElementVector upr) ci UpdateContext (indent @ ''  '') True @
     UpdateActionType_render (upr_updateActionType upr) (ci_outFormat ci) (indent @ ''  '') False @
     endTag indent ''updateContextRequest'' (ci_outFormat ci) False False True False"

definition UpdateContextRequest_check :: "UpdateContextRequest \<Rightarrow> ConnectionInfo \<Rightarrow> RequestType \<Rightarrow> string \<Rightarrow> string \<Rightarrow> string" where
  "UpdateContextRequest_check upr ci requestType indent predetectedError =
     (let err = (\<lambda>d. UpdateContextResponse_render
             \<lparr>urs_contextElementResponseVector = [], urs_errorCode = StatusCode_fill SccBadRequest d\<rparr> ci indent)
      in if predetectedError \<noteq> [] then err predetectedError
         else let res = ContextElementVector_check requestType (upr_contextElementVector upr)
         in if res \<noteq> ''OK'' then err res
         else let res = UpdateActionType_check (upr_updateActionType upr)
         in if res \<noteq> ''OK'' then err res
         else ''OK'')"


section \<open>Merging the answers to a forwarded update\<close>

definition ContextElementResponse_of :: "EntityId \<Rightarrow> ContextAttribute \<Rightarrow> ContextElementResponse" where
  "ContextElementResponse_of en ca =
     ContextElementResponse_new\<lparr>cer_contextElement := ContextElement_new
       \<lparr>ce_entityId := en, ce_contextAttributeVector := [ContextAttribute_copy ca]\<rparr>\<rparr>"

fun ContextElementResponseVector_lookup :: "ContextElementResponse list \<Rightarrow> EntityId \<Rightarrow> HttpStatusCode \<Rightarrow> nat option" where
  "ContextElementResponseVector_lookup [] en code = None"
| "ContextElementResponseVector_lookup (cer # cerV) en code =
     (if EntityId_equal (ce_entityId (cer_contextElement cer)) en \<and> (code = SccNone \<or> sc_code (cer_statusCode cer) = code)
      then Some 0 else map_option Suc (ContextElementResponseVector_lookup cerV en code))"

definition cer_push_attr :: "ContextAttribute \<Rightarrow> ContextElementResponse \<Rightarrow> ContextElementResponse" where
  "cer_push_attr ca cer = cer\<lparr>cer_contextElement := (cer_contextElement cer)
     \<lparr>ce_contextAttributeVector := ce_contextAttributeVector (cer_contextElement cer) @ [ContextAttribute_copy ca]\<rparr>\<rparr>"

definition notFoundPush ::
  "UpdateContextResponse \<Rightarrow> EntityId \<Rightarrow> ContextAttribute \<Rightarrow> StatusCode option \<Rightarrow> UpdateContextResponse" where
  "notFoundPush upr en ca scP =
     (let vec = urs_contextElementResponseVector upr
      in case ContextElementResponseVector_lookup vec en SccContextElementNotFound of
           None \<Rightarrow> upr\<lparr>urs_contextElementResponseVector := vec @
             [(ContextElementResponse_of en ca)\<lparr>cer_statusCode :=
                (case scP of Some sc \<Rightarrow> StatusCode_fill (sc_code sc) (sc_details sc)
                 | None \<Rightarrow> StatusCode_fill SccContextElementNotFound (en_id en))\<rparr>]\<rparr>
         | Some k \<Rightarrow> upr\<lparr>urs_contextElementResponseVector := vec[k := cer_push_attr ca (vec ! k)]\<rparr>)"

definition foundPush :: "UpdateContextResponse \<Rightarrow> EntityId \<Rightarrow> ContextAttribute \<Rightarrow> UpdateContextResponse" where
  "foundPush upr en ca =
     (let vec = urs_contextElementResponseVector upr
      in case ContextElementResponseVector_lookup vec en SccOk of
           None \<Rightarrow> upr\<lparr>urs_contextElementResponseVector := vec @
             [(ContextElementResponse_of en ca)\<lparr>cer_statusCode := StatusCode_fill SccOk []\<rparr>]\<rparr>
         | Some k \<Rightarrow> upr\<lparr>urs_contextElementResponseVector := vec[k := cer_push_attr ca (vec ! k)]\<rparr>)"

fun merge_attrs :: "EntityId \<Rightarrow> StatusCode \<Rightarrow> UpdateContextResponse \<Rightarrow> ContextAttribute list \<Rightarrow> UpdateContextResponse" where
  "merge_attrs en sc upr [] = upr"
| "merge_attrs en sc upr (ca # cas) =
     merge_attrs en sc (if sc_code sc \<noteq> SccOk then notFoundPush upr en ca (Some sc) else foundPush upr en ca) cas"

fun merge_elements :: "UpdateContextResponse \<Rightarrow> ContextElementResponse list \<Rightarrow> UpdateContextResponse" where
  "merge_elements upr [] = upr"
| "merge_elements upr (cer # cerV) =
     merge_elements
       (merge_attrs (ce_entityId (cer_contextElement cer)) (cer_statusCode cer) upr
          (ce_contextAttributeVector (cer_contextElement cer))) cerV"

definition UpdateContextResponse_merge :: "UpdateContextResponse \<Rightarrow> UpdateContextResponse \<Rightarrow> UpdateContextResponse" where
  "UpdateContextResponse_merge upr src =
     (let ec = urs_errorCode upr; sec = urs_errorCode src;
          upr1 = (if urs_contextElementResponseVector src = [] then
                    (if sc_code ec = SccNone \<or> sc_code ec = SccOk
                     then upr\<lparr>urs_errorCode := StatusCode_fill (sc_code sec) (sc_details sec)\<rparr>
                     else if sc_details ec = [] then upr\<lparr>urs_errorCode := ec\<lparr>sc_details := sc_details sec\<rparr>\<rparr>
                     else upr)
                  else upr)
      in merge_elements upr1 (urs_contextElementResponseVector src))"

section \<open>NGSI9 messages\<close>

definition DiscoverContextAvailabilityResponse_render ::
  "(registration \<times> StatusCode) list \<Rightarrow> StatusCode \<Rightarrow> Format \<Rightarrow> string \<Rightarrow> string" where
  "DiscoverContextAvailabilityResponse_render vec errorCode format indent =
     (let r = StatusCode_render ''errorCode'' errorCode format (indent @ ''  '') False True
      in startTag1 indent ''discoverContextAvailabilityResponse'' format False False @
         (if vec \<noteq> [] then ContextRegistrationResponseVector_render vec format (indent @ ''  '') (sc_code errorCode \<noteq> SccNone)
          else []) @
         (if sc_code errorCode \<noteq> SccNone then fst r else []) @
         (if sc_code errorCode = SccNone \<and> vec = []
          then fst (StatusCode_render ''errorCode''
                      (StatusCode_fill SccReceiverInternalError ''Both the error-code structure and the response vector were empty'')
                      format (indent @ ''  '') False True)
          else []) @
         endTag indent ''discoverContextAvailabilityResponse'' format False False True False)"

definition NotifyContextAvailabilityRequest_render ::
  "string \<Rightarrow> (registration \<times> StatusCode) list \<Rightarrow> Format \<Rightarrow> string \<Rightarrow> string" where
  "NotifyContextAvailabilityRequest_render subscriptionId vec format indent =
     startTag1 indent ''notifyContextAvailabilityRequest'' format False False @
     SubscriptionId_render subscriptionId NotifyContextAvailability format (indent @ ''  '') True @
     ContextRegistrationResponseVector_render vec format (indent @ ''  '') False @
     endTag indent ''notifyContextAvailabilityRequest'' format False False True False"

definition NotifyContextAvailabilityResponse_render :: "StatusCode \<Rightarrow> Format \<Rightarrow> string \<Rightarrow> string" where
  "NotifyContextAvailabilityResponse_render responseCode format indent =
     startTag1 indent ''notifyContextAvailabilityResponse'' format False False @
     fst (StatusCode_render ''responseCode'' responseCode format (indent @ ''  '') False True) @
     endTag indent ''notifyContextAvailabilityResponse'' format False False True False"

definition RegisterContextResponse_render :: "RegisterContextResponse \<Rightarrow> Format \<Rightarrow> string \<Rightarrow> string" where
  "RegisterContextResponse_render rcr format indent =
     (let ec = rcr_errorCode rcr; errorCodeRendered = (sc_code ec \<noteq> SccNone \<and> sc_code ec \<noteq> SccOk)
      in startTag1 indent ''registerContextResponse'' format False False @
         Duration_render (rcr_duration rcr) format (indent @ ''  '') True @
         RegistrationId_render (rcr_registrationId rcr) RegisterResponse format (indent @ ''  '') errorCodeRendered @
         (if errorCodeRendered then fst (StatusCode_render ''errorCode'' ec format (indent @ ''  '') False True) else []) @
         endTag indent ''registerContextResponse'' format False False True False)"

definition RegisterContextRequest_render :: "registration list \<Rightarrow> Duration \<Rightarrow> string \<Rightarrow> Format \<Rightarrow> string \<Rightarrow> string" where
  "RegisterContextRequest_render vec duration registrationId format indent =
     (let durationRendered = (dur_string duration \<noteq> []); registrationIdRendered = (registrationId \<noteq> [])
      in startTag2 indent ''registerContextRequest'' [] format False False False @
         ContextRegistrationVector_render vec format (indent @ ''  '') (registrationIdRendered \<or> durationRendered) @
         Duration_render duration format (indent @ ''  '') registrationIdRendered @
         RegistrationId_render registrationId RegisterContext format (indent @ ''  '') False @
         endTag indent ''registerContextRequest'' format False False True False)"

definition RegisterContextRequest_check :: "registration list \<Rightarrow> Duration \<Rightarrow> string \<Rightarrow> Format \<Rightarrow> string \<Rightarrow> string \<Rightarrow> string" where
  "RegisterContextRequest_check vec duration registrationId format indent predetectedError =
     (let err = (\<lambda>d. RegisterContextResponse_render
             \<lparr>rcr_duration = Duration_set Duration_new (dur_string duration), rcr_registrationId = registrationId,
              rcr_errorCode = StatusCode_fill SccBadRequest d\<rparr> format indent)
      in if predetectedError \<noteq> [] then err predetectedError
         else if vec = [] then err ''Empty Context Registration List''
         else let res = ContextRegistrationVector_check RegisterContext vec
         in if res \<noteq> ''OK'' then err res
         else let res = fst (Duration_check duration)
         in if res \<noteq> ''OK'' then err res
         else let res = RegistrationId_check registrationId
         in if res \<noteq> ''OK'' then err res
         else ''OK'')"

definition SubscribeContextAvailabilityResponse_render :: "AvailabilityResponse \<Rightarrow> Format \<Rightarrow> string \<Rightarrow> string" where
  "SubscribeContextAvailabilityResponse_render r format indent =
     (let durationRendered = (\<not> Duration_isEmpty (avr_duration r)); errorCodeRendered = (sc_code (avr_errorCode r) \<noteq> SccNone)
      in startTag1 indent ''subscribeContextAvailabilityResponse'' format False False @
         SubscriptionId_render (avr_subscriptionId r) RtSubscribeContextAvailabilityResponse format (indent @ ''  '')
           (durationRendered \<or> errorCodeRendered) @
         Duration_render (avr_duration r) format (indent @ ''  '') errorCodeRendered @
         (if errorCodeRendered then fst (StatusCode_render ''errorCode'' (avr_errorCode r) format (indent @ ''  '') False True) else []) @
         endTag indent ''subscribeContextAvailabilityResponse'' format False False True False)"

definition UpdateContextAvailabilitySubscriptionResponse_render :: "AvailabilityResponse \<Rightarrow> Format \<Rightarrow> string \<Rightarrow> string" where
  "UpdateContextAvailabilitySubscriptionResponse_render r format indent =
     (let durationRendered = (\<not> Duration_isEmpty (avr_duration r)); errorCodeRendered = (sc_code (avr_errorCode r) \<noteq> SccNone)
      in startTag1 indent ''updateContextAvailabilitySubscriptionResponse'' format False False @
         SubscriptionId_render (avr_subscriptionId r) RtUpdateContextAvailabilitySubscriptionResponse format (indent @ ''  '')
           (errorCodeRendered \<or> durationRendered) @
         Duration_render (avr_duration r) format (indent @ ''  '') errorCodeRendered @
         (if errorCodeRendered then fst (StatusCode_render ''errorCode'' (avr_errorCode r) format (indent @ ''  '') False True) else []) @
         endTag indent ''updateContextAvailabilitySubscriptionResponse'' format False False True False)"

definition UnsubscribeContextAvailabilityResponse_render :: "string \<Rightarrow> StatusCode \<Rightarrow> Format \<Rightarrow> string \<Rightarrow> string" where
  "UnsubscribeContextAvailabilityResponse_render subscriptionId statusCode format indent =
     startTag1 indent ''unsubscribeContextAvailabilityResponse'' format False False @
     SubscriptionId_render subscriptionId RtUnsubscribeContextAvailabilityResponse format (indent @ ''  '') True @
     fst (StatusCode_render ''statusCode'' statusCode format (indent @ ''  '') False True) @
     endTag indent ''unsubscribeContextAvailabilityResponse'' format False False True False"

definition UnsubscribeContextAvailabilityRequest_check :: "string \<Rightarrow> Format \<Rightarrow> string \<Rightarrow> string \<Rightarrow> string" where
  "UnsubscribeContextAvailabilityRequest_check subscriptionId format indent predetectedError =
     (let err = (\<lambda>d. UnsubscribeContextAvailabilityResponse_render subscriptionId (StatusCode_fill SccBadRequest d) format indent)
      in if predetectedError \<noteq> [] then err predetectedError
         else let res = SubscriptionId_check subscriptionId
         in if res \<noteq> ''OK'' then err res else ''OK'')"


section \<open>The JSON of the messages\<close>

text \<open>The body of a message: members of the outermost object.\<close>

lemma json_doc_message:
  assumes "blank i" and "json_member False body"
  shows "json_doc (startTag1 i t JSON False False @ body @ endTag i y JSON False False True False)"
  using json_doc_object(1) [OF assms(1), of body] assms(2) by simp

lemma json_clean_literals [simp]:
  "json_clean ''errorCode''" "json_clean ''statusCode''" "json_clean ''responseCode''" "json_clean ''subscriptionId''"
  "json_clean ''originator''" "json_clean ''duration''" "json_clean ''throttling''" "json_clean ''registrationId''"
  "json_clean ''updateAction''" "json_clean ''subscribeResponse''" "json_clean ''subscribeError''"
  "json_safe NO_ID"
  by (simp_all add: json_clean_def json_safe_def)

lemma StatusCode_json_fill: "json_clean d \<Longrightarrow> StatusCode_json (StatusCode_fill c d)"
  by (simp add: StatusCode_json_def StatusCode_fill_def json_clean_reason)

lemma json_member_SubscriptionId [json]:
  "blank i \<Longrightarrow> json_safe s \<Longrightarrow> s \<noteq> [] \<or> subscriptionId_mandatory rt \<Longrightarrow>
     json_member c (SubscriptionId_render s rt JSON i c)"
  by (auto simp: SubscriptionId_render_def intro!: json_member_valueTag)

lemma json_member_Duration [json]:
  "blank i \<Longrightarrow> json_safe (dur_string d) \<Longrightarrow> dur_string d \<noteq> [] \<Longrightarrow> dur_valid d \<Longrightarrow>
     json_member c (Duration_render d JSON i c)"
  by (auto simp: Duration_render_def intro!: json_member_valueTag)

lemma json_member_Throttling [json]:
  "blank i \<Longrightarrow> json_safe (thr_string t) \<Longrightarrow> thr_string t \<noteq> [] \<Longrightarrow> json_member c (Throttling_render t JSON i c)"
  by (auto simp: Throttling_render_def intro!: json_member_valueTag)

definition QueryContextResponse_json :: "bool \<Rightarrow> QueryContextResponse \<Rightarrow> bool" where
  "QueryContextResponse_json asObject qcr \<longleftrightarrow>
     list_all (ContextElementResponse_json asObject False) (qrs_contextElementResponseVector qcr) \<and>
     StatusCode_json (qrs_errorCode qcr)"

definition UpdateContextResponse_json :: "bool \<Rightarrow> UpdateContextResponse \<Rightarrow> bool" where
  "UpdateContextResponse_json asObject upr \<longleftrightarrow>
     list_all (ContextElementResponse_json asObject False) (urs_contextElementResponseVector upr) \<and>
     StatusCode_json (urs_errorCode upr)"

lemma StatusCode_render_code: "sc_code (snd (StatusCode_render t sc f i c s)) \<noteq> SccNone"
  by (auto simp: StatusCode_render_def Let_def StatusCode_fill_def)

lemma query_render_doc:
  assumes f: "ci_outFormat ci = JSON" and i: "blank i" and q: "QueryContextResponse_json (as_object ci) qcr"
  shows "json_doc (QueryContextResponse_render qcr ci i)"
proof -
  let ?ec = "qrs_errorCode qcr" and ?vec = "qrs_contextElementResponseVector qcr"
  let ?noError = "\<not> (sc_code ?ec \<noteq> SccNone \<and> sc_code ?ec \<noteq> SccOk)"
  let ?ec1 = "if ?noError \<and> ?vec \<noteq> [] \<and> sc_details ?ec \<noteq> [] \<and> sc_code ?ec = SccNone then ?ec\<lparr>sc_code := SccOk\<rparr> else ?ec"
  let ?r = "\<not> ?noError \<or> ?vec = [] \<or> sc_details ?ec \<noteq> []"
  let ?s = "fst (StatusCode_render ''errorCode'' ?ec1 JSON (i @ ''  '') False True)"
  let ?v = "ContextElementResponseVector_render ?vec ci QueryContext (i @ ''  '') ?r False"
  let ?body = "(if ?vec \<noteq> [] then ?v else []) @ (if ?r then ?s else [])"
  have s: "json_member False ?s"
    using i q by (intro json_member_StatusCode) (auto simp: QueryContextResponse_json_def StatusCode_json_def)
  have v: "?vec \<noteq> [] \<Longrightarrow> json_member ?r ?v"
    using f i q by (intro json_member_ContextElementResponseVector) (auto simp: QueryContextResponse_json_def)
  have "json_member False ?body"
  proof (cases "?vec = []")
    case True
    with s show ?thesis by simp
  next
    case False
    have "json_member False (?v @ (if ?r then ?s else []))"
      by (rule json_member_opt [OF v [OF False]]) (use s in simp_all)
    with False show ?thesis by simp
  qed
  moreover have safety: "(sc_code (if ?r then snd (StatusCode_render ''errorCode'' ?ec1 JSON (i @ ''  '') False True) else ?ec1)
      = SccNone \<and> ?vec = []) = False"
    using StatusCode_render_code by auto
  have "QueryContextResponse_render qcr ci i =
      startTag1 i ''queryContextResponse'' JSON False False @ ?body @
      endTag i ''queryContextResponse'' JSON False False True False"
    by (simp only: QueryContextResponse_render_def Let_def f safety if_False append_Nil append_assoc)
  ultimately show ?thesis using json_doc_message [OF i] by metis
qed

lemma update_render_doc:
  assumes f: "ci_outFormat ci = JSON" and i: "blank i" and u: "UpdateContextResponse_json (as_object ci) upr"
  shows "json_doc (UpdateContextResponse_render upr ci i)"
proof -
  let ?ec = "urs_errorCode upr" and ?vec = "urs_contextElementResponseVector upr"
  have s: "json_member False (fst (StatusCode_render ''errorCode'' sc JSON (i @ ''  '') False True))" if "StatusCode_json sc" for sc
    using i that by (intro json_member_StatusCode) auto
  have ec: "StatusCode_json ?ec" "json_clean (sc_details ?ec)"
    using u by (auto simp: UpdateContextResponse_json_def StatusCode_json_def)
  have v: "?vec \<noteq> [] \<Longrightarrow>
      json_member False (ContextElementResponseVector_render ?vec ci RtUpdateContextResponse (i @ ''  '') False False)"
    using f i u by (intro json_member_ContextElementResponseVector) (auto simp: UpdateContextResponse_json_def)
  show ?thesis
    unfolding UpdateContextResponse_render_def Let_def f
    by (rule json_doc_message [OF i]) (use s v ec in \<open>auto intro: StatusCode_json_fill\<close>)
qed


lemma notify_render_doc:
  assumes f: "ci_outFormat ci = JSON" and i: "blank i" and "json_safe sub" and "json_safe orig"
    and "list_all (ContextElementResponse_json (as_object ci) False) vec" and "orig \<noteq> [] \<or> vec \<noteq> []"
  shows "json_doc (NotifyContextRequest_render sub orig vec ci i)"
proof -
  let ?s = "SubscriptionId_render sub NotifyContext JSON (i @ ''  '') True"
  let ?o = "Originator_render orig JSON (i @ ''  '') (vec \<noteq> [])"
  let ?v = "ContextElementResponseVector_render vec ci NotifyContext (i @ ''  '') False False"
  have s: "json_member True ?s"
    using assms by (intro json_member_SubscriptionId) (auto simp: subscriptionId_mandatory_def)
  have o: "orig \<noteq> [] \<Longrightarrow> json_member (vec \<noteq> []) ?o"
    using assms by (auto simp: Originator_render_def intro!: json_member_valueTag)
  have v: "vec \<noteq> [] \<Longrightarrow> json_member False ?v"
    using assms by (intro json_member_ContextElementResponseVector) auto
  have "json_member False (?o @ ?v)"
  proof (cases "orig = []")
    case True
    with v assms(6) show ?thesis by (simp add: Originator_render_def)
  next
    case False
    show ?thesis
      by (rule json_member_opt [OF o [OF False]]) (use v in \<open>auto simp: ContextElementResponseVector_render_def\<close>)
  qed
  from json_member_append [OF s this] have "json_member False (?s @ ?o @ ?v)" .
  from json_doc_message [OF i this] show ?thesis
    by (simp add: NotifyContextRequest_render_def f)
qed

lemma json_member_SubscribeResponse [json]:
  assumes i: "blank i" and "json_safe (sr_subscriptionId sr)" and "json_safe (dur_string (sr_duration sr))"
    and "json_safe (thr_string (sr_throttling sr))" and "dur_string (sr_duration sr) \<noteq> [] \<Longrightarrow> dur_valid (sr_duration sr)"
  shows "json_member c (SubscribeResponse_render sr JSON i c)"
proof -
  let ?dr = "\<not> Duration_isEmpty (sr_duration sr)" and ?tr = "\<not> Throttling_isEmpty (sr_throttling sr)"
  let ?s = "SubscriptionId_render (sr_subscriptionId sr) RtSubscribeResponse JSON (i @ ''  '') (?dr \<or> ?tr)"
  let ?d = "Duration_render (sr_duration sr) JSON (i @ ''  '') ?tr"
  let ?t = "Throttling_render (sr_throttling sr) JSON (i @ ''  '') False"
  have "json_member (?dr \<or> ?tr) ?s"
    using assms by (intro json_member_SubscriptionId) (auto simp: subscriptionId_mandatory_def)
  then have "json_member ?tr (?s @ ?d)"
    by (rule json_member_opt_or) (use assms in \<open>auto simp: Duration_isEmpty_def Duration_render_def intro!: json_member_valueTag\<close>)
  then have "json_member False ((?s @ ?d) @ ?t)"
    by (rule json_member_opt) (use assms in \<open>auto simp: Throttling_isEmpty_def Throttling_render_def intro!: json_member_valueTag\<close>)
  from json_member_object(2) [OF i _ disjI2 [OF this]] show ?thesis
    by (simp add: SubscribeResponse_render_def Let_def)
qed

lemma json_member_SubscribeError [json]:
  assumes i: "blank i" and "json_safe sub" and "StatusCode_json ec"
  shows "json_member c (SubscribeError_render sub ec rt JSON i c)"
proof -
  let ?s = "if rt = UpdateContextSubscription
    then SubscriptionId_render (if sub = [] then NO_ID else sub) rt JSON (i @ ''  '') True
    else if rt = SubscribeContext \<and> sub \<noteq> NO_ID \<and> sub \<noteq> [] then SubscriptionId_render sub rt JSON (i @ ''  '') True
    else []"
  let ?e = "fst (StatusCode_render ''errorCode'' ec JSON (i @ ''  '') False True)"
  have e: "json_member False ?e" using assms by (intro json_member_StatusCode) auto
  have s: "?s = [] \<or> json_member True ?s"
    using assms by (auto intro!: json_member_SubscriptionId simp: subscriptionId_mandatory_def)
  have "json_member False (?s @ ?e)"
    using s e by (cases "?s = []") (simp_all add: json_member_append split del: if_split)
  from json_member_object(2) [OF i _ disjI2 [OF this], of "''subscribeError''"] show ?thesis
    by (simp add: SubscribeError_render_def)
qed

definition SubscribeContextResponse_json :: "SubscribeContextResponse \<Rightarrow> bool" where
  "SubscribeContextResponse_json scr \<longleftrightarrow>
     (let sr = scr_subscribeResponse scr
      in json_safe (sr_subscriptionId sr) \<and> json_safe (dur_string (sr_duration sr)) \<and>
         json_safe (thr_string (sr_throttling sr)) \<and> (dur_string (sr_duration sr) \<noteq> [] \<longrightarrow> dur_valid (sr_duration sr)) \<and>
         StatusCode_json (scr_errorCode scr))"

lemma subscribe_render_doc:
  assumes i: "blank i" and "SubscribeContextResponse_json scr" and "json_safe errorId"
  shows "json_doc (SubscribeContextResponse_render scr errorId JSON i)"
    and "json_doc (UpdateContextSubscriptionResponse_render scr errorId JSON i)"
proof -
  let ?b = "\<lambda>rt. if sc_code (scr_errorCode scr) = SccNone
    then SubscribeResponse_render (scr_subscribeResponse scr) JSON (i @ ''  '') False
    else SubscribeError_render errorId (scr_errorCode scr) rt JSON (i @ ''  '') False"
  have b: "json_member False (?b rt)" for rt
    using assms by (auto simp: SubscribeContextResponse_json_def Let_def
        intro!: json_member_SubscribeResponse json_member_SubscribeError)
  from json_doc_message [OF i b] show "json_doc (SubscribeContextResponse_render scr errorId JSON i)"
    and "json_doc (UpdateContextSubscriptionResponse_render scr errorId JSON i)"
    unfolding SubscribeContextResponse_render_def UpdateContextSubscriptionResponse_render_def by blast+
qed

lemma unsubscribe_render_doc:
  assumes i: "blank i" and "json_safe (unr_subscriptionId unr)" and "StatusCode_json (unr_statusCode unr)"
  shows "json_doc (UnsubscribeContextResponse_render unr JSON i)"
  unfolding UnsubscribeContextResponse_render_def append_assoc [of "SubscriptionId_render a b c d e" for a b c d e, symmetric]
  using assms by (intro json_doc_message json_member_append json_member_SubscriptionId json_member_StatusCode)
    (auto simp: subscriptionId_mandatory_def)

text \<open>A registration needs its providing application: the member before it always has a comma.\<close>

definition registration_json :: "registration \<Rightarrow> bool" where
  "registration_json r \<longleftrightarrow> list_all EntityId_json (rn_entityIdVector r) \<and>
     list_all (\<lambda>(a, ms). json_safe (cra_name a) \<and> json_safe (cra_type a) \<and> json_safe (cra_isDomain a) \<and>
       list_all Metadata_json ms) (rn_attributeVector r) \<and>
     list_all Metadata_json (rn_registrationMetadataVector r) \<and>
     json_safe (pa_string (rn_providingApplication r)) \<and> pa_string (rn_providingApplication r) \<noteq> []"

lemma json_elem_ContextRegistrationAttribute [json]:
  assumes i: "blank i" and "json_safe (cra_name (fst a))" and "json_safe (cra_type (fst a))"
    and "json_safe (cra_isDomain (fst a))" and "list_all Metadata_json (snd a)"
  shows "json_elem c (ContextRegistrationAttribute_render a JSON i c)"
proof -
  let ?n = "valueTag (i @ ''  '') ''name'' (cra_name (fst a)) JSON True False False"
  let ?t = "valueTag (i @ ''  '') ''type'' (cra_type (fst a)) JSON True False False"
  let ?d = "valueTag (i @ ''  '') ''isDomain'' (cra_isDomain (fst a)) JSON (snd a \<noteq> []) False False"
  have nt: "json_member True ?n" "json_member True ?t" and d: "json_member (snd a \<noteq> []) ?d"
    using assms by (auto intro!: json_member_valueTag simp: json_clean_Cons)
  have "json_member False ((?n @ ?t @ ?d) @ MetadataVector_render ''metadata'' (snd a) JSON (i @ ''  '') False)"
    using assms json_member_append [OF nt(1) json_member_append [OF nt(2) d]]
    by (intro json_member_opt_metadata) auto
  from json_elem_object(1) [OF i disjI2 [OF this]] show ?thesis
    by (simp add: ContextRegistrationAttribute_render_def)
qed

lemma registration_body:
  assumes "blank i" and "registration_json r"
  shows "json_member False
    (EntityIdVector_render (rn_entityIdVector r) JSON i True @
     ContextRegistrationAttributeVector_render (rn_attributeVector r) JSON i True @
     MetadataVector_render ''registrationMetadata'' (rn_registrationMetadataVector r) JSON i True @
     ProvidingApplication_render (rn_providingApplication r) JSON i False)"
proof -
  have opt: "a = [] \<or> json_member True a \<Longrightarrow> json_member False b \<Longrightarrow> json_member False (a @ b)" for a b
    by (auto intro: json_member_append)
  let ?v = "rn_attributeVector r"
  have "?v \<noteq> [] \<Longrightarrow> json_elem False (render_seq (\<lambda>c a. ContextRegistrationAttribute_render a JSON (i @ ''  '') c) ?v)"
    using assms by (intro json_elem_seq json_elem_ContextRegistrationAttribute)
      (auto simp: registration_json_def list_all_iff split: prod.splits)
  then have "ContextRegistrationAttributeVector_render ?v JSON i True = [] \<or>
      json_member True (ContextRegistrationAttributeVector_render ?v JSON i True)"
    using assms(1) json_member_array [of i "''attributes''"]
    by (simp add: ContextRegistrationAttributeVector_render_def json_clean_Cons)
  moreover have "EntityIdVector_render (rn_entityIdVector r) JSON i True = [] \<or>
      json_member True (EntityIdVector_render (rn_entityIdVector r) JSON i True)"
    using assms json_member_EntityIdVector by (cases "rn_entityIdVector r = []") (auto simp: registration_json_def EntityIdVector_render_def)
  moreover have "MetadataVector_render ''registrationMetadata'' (rn_registrationMetadataVector r) JSON i True = [] \<or>
      json_member True (MetadataVector_render ''registrationMetadata'' (rn_registrationMetadataVector r) JSON i True)"
    using assms json_member_MetadataVector
    by (cases "rn_registrationMetadataVector r = []") (auto simp: registration_json_def MetadataVector_render_def)
  moreover have "json_member False (ProvidingApplication_render (rn_providingApplication r) JSON i False)"
    using assms by (auto simp: registration_json_def ProvidingApplication_render_def json_clean_Cons intro!: json_member_valueTag)
  ultimately show ?thesis by (intro opt) auto
qed


section \<open>Requests that are sent or rendered\<close>

definition ConditionValueList_render :: "string list \<Rightarrow> Format \<Rightarrow> string \<Rightarrow> bool \<Rightarrow> string" where
  "ConditionValueList_render vec format indent comma =
     (if vec = [] then []
      else startTag2 indent ''condValueList'' ''condValueList'' format True True False @
           render_seq (\<lambda>c v. valueTag2 (indent @ ''  '') ''condValue'' [] v format c False) vec @
           endTag indent ''condValueList'' format comma True True False)"

text \<open>A condition with its restriction; the flag \<open>notLastInVector\<close> is not used.\<close>

definition NotifyCondition_render :: "NotifyCondition \<times> string \<Rightarrow> Format \<Rightarrow> string \<Rightarrow> bool \<Rightarrow> string" where
  "NotifyCondition_render nc format indent notLastInVector =
     (let condValueListRendered = (nc_condValueList (fst nc) \<noteq> []);
          restrictionRendered = (snd nc \<noteq> [])
      in startTag2 indent ''notifyCondition'' ''notifyCondition'' format False False False @
         valueTag (indent @ ''  '') ''type'' (nc_type (fst nc)) format (condValueListRendered \<or> restrictionRendered) False False @
         ConditionValueList_render (nc_condValueList (fst nc)) format (indent @ ''  '') restrictionRendered @
         RestrictionString_render (snd nc) format (indent @ ''  '') False @
         endTag indent ''notifyCondition'' format False False True False)"

definition NotifyConditionVector_render :: "(NotifyCondition \<times> string) list \<Rightarrow> Format \<Rightarrow> string \<Rightarrow> bool \<Rightarrow> string" where
  "NotifyConditionVector_render vec format indent comma =
     (if vec = [] then []
      else startTag2 indent ''notifyConditions'' ''notifyConditions'' format True True False @
           render_seq (\<lambda>c nc. NotifyCondition_render nc format (indent @ ''  '') c) vec @
           endTag indent ''notifyConditions'' format comma True True False)"

definition Scope_render :: "Scope \<Rightarrow> Format \<Rightarrow> string \<Rightarrow> bool \<Rightarrow> string" where
  "Scope_render s format indent notLastInVector =
     startTag2 indent ''operationScope'' ''operationScope'' format False False False @
     valueTag (indent @ ''  '') (if format = XML then ''scopeType'' else ''type'') (sco_type s) format True False False @
     valueTag (indent @ ''  '') (if format = XML then ''scopeValue'' else ''value'') (sco_value s) format False False False @
     endTag indent ''operationScope'' format notLastInVector False True False"

definition ScopeVector_render :: "Scope list \<Rightarrow> Format \<Rightarrow> string \<Rightarrow> bool \<Rightarrow> string" where
  "ScopeVector_render vec format indent comma =
     (if vec = [] then []
      else startTag2 indent ''scope'' ''scope'' format True True False @
           render_seq (\<lambda>c s. Scope_render s format (indent @ ''  '') c) vec @
           endTag indent ''scope'' format comma True True False)"

definition Restriction_render :: "string \<Rightarrow> Scope list \<Rightarrow> Format \<Rightarrow> string \<Rightarrow> int \<Rightarrow> bool \<Rightarrow> string" where
  "Restriction_render attributeExpression scopeVector format indent restrictions comma =
     (if restrictions = 0 then []
      else startTag1 indent ''restriction'' format True False @
           AttributeExpression_render attributeExpression format (indent @ ''  '') (scopeVector \<noteq> []) @
           ScopeVector_render scopeVector format (indent @ ''  '') False @
           endTag indent ''restriction'' format comma False True False)"

definition QueryContextRequest_render :: "QueryContextRequest \<Rightarrow> string \<Rightarrow> int \<Rightarrow> Format \<Rightarrow> string \<Rightarrow> string" where
  "QueryContextRequest_render qcr attributeExpression restrictions format indent =
     (let attributeListRendered = (qcr_attributeList qcr \<noteq> []); restrictionRendered = (restrictions \<noteq> 0)
      in startTag1 indent ''queryContextRequest'' format False False @
         EntityIdVector_render (qcr_entityIdVector qcr) format (indent @ ''  '') (attributeListRendered \<or> restrictionRendered) @
         AttributeList_render (qcr_attributeList qcr) format (indent @ ''  '') restrictionRendered @
         Restriction_render attributeExpression (qcr_scopeVector qcr) format (indent @ ''  '') restrictions False @
         endTag indent ''queryContextRequest'' format False False True False)"

definition SubscribeContextRequest_render ::
  "SubscribeContextRequest \<Rightarrow> string list \<Rightarrow> string \<Rightarrow> Scope list \<Rightarrow> int \<Rightarrow> Format \<Rightarrow> string \<Rightarrow> string" where
  "SubscribeContextRequest_render scr ncRestrictions attributeExpression scopeVector restrictions format indent =
     (let durationRendered = (dur_string (scq_duration scr) \<noteq> []);
          restrictionRendered = (restrictions \<noteq> 0);
          notifyConditionVectorRendered = (scq_notifyConditionVector scr \<noteq> []);
          throttlingRendered = (thr_string (scq_throttling scr) \<noteq> []);
          indent2 = indent @ ''  ''
      in startTag1 indent ''subscribeContextRequest'' format False False @
         EntityIdVector_render (scq_entityIdVector scr) format indent2 True @
         AttributeList_render (scq_attributeList scr) format indent2 True @
         Reference_render (scq_reference scr) format indent2
           (durationRendered \<or> restrictionRendered \<or> notifyConditionVectorRendered \<or> throttlingRendered) @
         Duration_render (scq_duration scr) format indent2
           (restrictionRendered \<or> notifyConditionVectorRendered \<or> throttlingRendered) @
         Restriction_render attributeExpression scopeVector format indent2 restrictions
           (notifyConditionVectorRendered \<or> throttlingRendered) @
         NotifyConditionVector_render (zip (scq_notifyConditionVector scr) ncRestrictions) format indent2 throttlingRendered @
         Throttling_render (scq_throttling scr) format indent2 False @
         endTag indent ''subscribeContextRequest'' format False False True False)"

definition UpdateContextSubscriptionRequest_render ::
  "UpdateContextSubscriptionRequest \<Rightarrow> string list \<Rightarrow> string \<Rightarrow> Scope list \<Rightarrow> int \<Rightarrow> Format \<Rightarrow> string \<Rightarrow> string" where
  "UpdateContextSubscriptionRequest_render ucs ncRestrictions attributeExpression scopeVector restrictions format indent =
     (let notifyConditionVectorRendered = (ucs_notifyConditionVector ucs \<noteq> []);
          throttlingRendered = (thr_string (ucs_throttling ucs) \<noteq> []);
          indent2 = indent @ ''  ''
      in startTag1 indent ''updateContextSubscriptionRequest'' format False False @
         Duration_render (ucs_duration ucs) format indent2 True @
         Restriction_render attributeExpression scopeVector format indent2 restrictions True @
         SubscriptionId_render (ucs_subscriptionId ucs) UpdateContextSubscription format indent2
           (notifyConditionVectorRendered \<or> throttlingRendered) @
         NotifyConditionVector_render (zip (ucs_notifyConditionVector ucs) ncRestrictions) format indent2 throttlingRendered @
         Throttling_render (ucs_throttling ucs) format indent2 False @
         endTag indent ''updateContextSubscriptionRequest'' format False False True False)"

lemma render_nothing [simp]:
  "AttributeList_render [] f i c = []" "Restriction_render ae vec f i 0 c = []" "ScopeVector_render [] f i c = []"
  by (simp_all add: AttributeList_render_def Restriction_render_def ScopeVector_render_def)

lemma json_elem_Scope [json]:
  assumes i: "blank i" and "json_safe (sco_type s)" and "json_safe (sco_value s)"
  shows "json_elem c (Scope_render s JSON i c)"
proof -
  let ?t = "valueTag (i @ ''  '') ''type'' (sco_type s) JSON True False False"
  let ?v = "valueTag (i @ ''  '') ''value'' (sco_value s) JSON False False False"
  have "json_member False (?t @ ?v)"
    using assms by (intro json_member_append json_member_valueTag) (auto simp: json_clean_Cons)
  from json_elem_object(1) [OF i disjI2 [OF this]] show ?thesis by (simp add: Scope_render_def)
qed

lemma json_member_ScopeVector [json]:
  assumes "blank i" and "list_all (\<lambda>s. json_safe (sco_type s) \<and> json_safe (sco_value s)) vec" and "vec \<noteq> []"
  shows "json_member c (ScopeVector_render vec JSON i c)"
  using assms unfolding ScopeVector_render_def
  by (auto simp: list_all_iff json_clean_Cons intro!: json_member_array json_elem_seq json_elem_Scope)

lemma json_member_Restriction [json]:
  assumes i: "blank i" and "json_safe ae" and "list_all (\<lambda>s. json_safe (sco_type s) \<and> json_safe (sco_value s)) vec" and "n \<noteq> 0"
  shows "json_member c (Restriction_render ae vec JSON i n c)"
proof -
  let ?a = "AttributeExpression_render ae JSON (i @ ''  '') (vec \<noteq> [])"
  let ?s = "ScopeVector_render vec JSON (i @ ''  '') False"
  have a: "ae \<noteq> [] \<Longrightarrow> json_member (vec \<noteq> []) ?a"
    using assms by (auto simp: AttributeExpression_render_def json_clean_Cons intro!: json_member_valueTag)
  have s: "vec \<noteq> [] \<Longrightarrow> json_member False ?s" using assms by (intro json_member_ScopeVector) auto
  have "?a @ ?s = [] \<or> json_member False (?a @ ?s)"
  proof (cases "ae = []")
    case True
    then show ?thesis
      using s by (cases "vec = []") (simp_all add: AttributeExpression_render_def ScopeVector_render_def)
  next
    case False
    have "json_member False (?a @ ?s)"
      by (rule json_member_opt [OF a [OF False]]) (use s in \<open>auto simp: ScopeVector_render_def\<close>)
    then show ?thesis ..
  qed
  from json_member_object(2) [OF i _ this, of "''restriction''"] assms(4) show ?thesis
    by (simp add: Restriction_render_def json_clean_Cons)
qed

lemma query_request_doc:
  assumes i: "blank i" and "list_all EntityId_json (qcr_entityIdVector q)" and "qcr_entityIdVector q \<noteq> []"
    and "list_all json_safe (qcr_attributeList q)" and "json_safe ae"
    and "list_all (\<lambda>s. json_safe (sco_type s) \<and> json_safe (sco_value s)) (qcr_scopeVector q)"
  shows "json_doc (QueryContextRequest_render q ae n JSON i)"
proof -
  let ?al = "qcr_attributeList q \<noteq> []"
  let ?e = "EntityIdVector_render (qcr_entityIdVector q) JSON (i @ ''  '') (?al \<or> n \<noteq> 0)"
  let ?a = "AttributeList_render (qcr_attributeList q) JSON (i @ ''  '') (n \<noteq> 0)"
  let ?r = "Restriction_render ae (qcr_scopeVector q) JSON (i @ ''  '') n False"
  have "json_member (?al \<or> n \<noteq> 0) ?e" using assms by (intro json_member_EntityIdVector) auto
  then have "json_member (n \<noteq> 0) (?e @ ?a)"
    by (rule json_member_opt_or) (use assms json_member_AttributeList in auto)
  then have "json_member False ((?e @ ?a) @ ?r)"
    by (rule json_member_opt) (use assms json_member_Restriction in auto)
  from json_doc_message [OF i this] show ?thesis
    by (simp add: QueryContextRequest_render_def Let_def)
qed

lemma update_request_doc:
  assumes f: "ci_outFormat ci = JSON" and i: "blank i"
    and "list_all (ContextElement_json (as_object ci) False) (upr_contextElementVector u)" and "upr_contextElementVector u \<noteq> []"
    and "json_safe (upr_updateActionType u)" and "upr_updateActionType u \<noteq> []"
  shows "json_doc (UpdateContextRequest_render u ci i)"
proof -
  let ?v = "ContextElementVector_render (upr_contextElementVector u) ci UpdateContext (i @ ''  '') True"
  let ?a = "UpdateActionType_render (upr_updateActionType u) JSON (i @ ''  '') False"
  have "json_member True ?v" using assms by (intro json_member_ContextElementVector) auto
  moreover have "json_member False ?a"
    using assms by (auto simp: UpdateActionType_render_def intro!: json_member_valueTag)
  ultimately have "json_member False (?v @ ?a)" by (rule json_member_append)
  from json_doc_message [OF i this] show ?thesis by (simp add: UpdateContextRequest_render_def f)
qed


section \<open>Registrations that are answered\<close>

lemma json_elem_ContextRegistrationResponse [json]:
  assumes i: "blank i" and "registration_json (fst r)" and "StatusCode_json (snd r)"
  shows "json_elem c (ContextRegistrationResponse_render r JSON i c)"
proof -
  let ?er = "sc_code (snd r) \<noteq> SccNone"
  let ?c = "ContextRegistration_render (fst r) JSON (i @ ''  '') ?er False"
  let ?e = "if ?er then fst (StatusCode_render ''errorCode'' (snd r) JSON (i @ ''  '') False True) else []"
  have b: "blank (i @ ''  '')" "blank ((i @ ''  '') @ ''  '')" "json_clean ''contextRegistration''"
    using i by (auto simp: json_clean_Cons)
  from json_member_object(2) [OF b(1,3) disjI2 [OF registration_body [OF b(2) assms(2)]]]
  have "json_member ?er ?c"
    unfolding ContextRegistration_render_def append_assoc by simp
  then have "json_member False (?c @ ?e)"
    by (rule json_member_opt) (use assms json_member_StatusCode in auto)
  from json_elem_object(1) [OF i disjI2 [OF this]] show ?thesis
    by (simp add: ContextRegistrationResponse_render_def Let_def)
qed

lemma json_member_ContextRegistrationResponseVector [json]:
  assumes "blank i" and "list_all (\<lambda>r. registration_json (fst r) \<and> StatusCode_json (snd r)) vec" and "vec \<noteq> []"
  shows "json_member c (ContextRegistrationResponseVector_render vec JSON i c)"
  using assms unfolding ContextRegistrationResponseVector_render_def
  by (auto simp: list_all_iff json_clean_Cons intro!: json_member_array json_elem_seq json_elem_ContextRegistrationResponse)

lemma discover_render_doc:
  assumes i: "blank i" and v: "list_all (\<lambda>r. registration_json (fst r) \<and> StatusCode_json (snd r)) vec" and ec: "StatusCode_json ec"
  shows "json_doc (DiscoverContextAvailabilityResponse_render vec ec JSON i)"
proof -
  let ?none = "sc_code ec = SccNone"
  let ?v = "if vec \<noteq> [] then ContextRegistrationResponseVector_render vec JSON (i @ ''  '') (\<not> ?none) else []"
  let ?s = "\<lambda>sc. fst (StatusCode_render ''errorCode'' sc JSON (i @ ''  '') False True)"
  let ?f = "StatusCode_fill SccReceiverInternalError ''Both the error-code structure and the response vector were empty''"
  let ?body = "?v @ (if \<not> ?none then ?s ec else []) @ (if ?none \<and> vec = [] then ?s ?f else [])"
  have s: "json_member False (?s ec)" "json_member False (?s ?f)"
    using i ec StatusCode_json_fill [of "''Both the error-code structure and the response vector were empty''"]
    by (auto intro!: json_member_StatusCode simp: json_clean_Cons)
  have vv: "vec \<noteq> [] \<Longrightarrow> json_member (\<not> ?none) (ContextRegistrationResponseVector_render vec JSON (i @ ''  '') (\<not> ?none))"
    using i v by (intro json_member_ContextRegistrationResponseVector) auto
  have "json_member False ?body"
    using s vv by (cases "vec = []"; cases ?none) (auto intro: json_member_append)
  from json_doc_message [OF i this] show ?thesis
    by (simp add: DiscoverContextAvailabilityResponse_render_def Let_def cong: if_cong split del: if_split)
qed

lemma register_render_doc:
  assumes i: "blank i" and d: "json_safe (dur_string (rcr_duration r))" and "json_safe (rcr_registrationId r)"
    and "StatusCode_json (rcr_errorCode r)"
  shows "json_doc (RegisterContextResponse_render r JSON i)"
proof -
  let ?er = "sc_code (rcr_errorCode r) \<noteq> SccNone \<and> sc_code (rcr_errorCode r) \<noteq> SccOk"
  let ?d = "Duration_render (rcr_duration r) JSON (i @ ''  '') True"
  let ?g = "RegistrationId_render (rcr_registrationId r) RegisterResponse JSON (i @ ''  '') ?er"
  let ?e = "if ?er then fst (StatusCode_render ''errorCode'' (rcr_errorCode r) JSON (i @ ''  '') False True) else []"
  have "json_member ?er ?g"
    using assms by (auto simp: RegistrationId_render_def intro!: json_member_valueTag)
  then have "json_member False (?g @ ?e)"
    by (rule json_member_opt) (use assms json_member_StatusCode in auto)
  moreover have "?d = [] \<or> json_member True ?d"
    using i d by (auto simp: Duration_render_def intro!: json_member_valueTag)
  ultimately have "json_member False (?d @ ?g @ ?e)" by (auto intro: json_member_append)
  from json_doc_message [OF i this] show ?thesis
    by (simp add: RegisterContextResponse_render_def Let_def cong: if_cong split del: if_split)
qed

definition AvailabilityResponse_json :: "AvailabilityResponse \<Rightarrow> bool" where
  "AvailabilityResponse_json r \<longleftrightarrow> json_safe (avr_subscriptionId r) \<and> json_safe (dur_string (avr_duration r)) \<and>
     (dur_string (avr_duration r) \<noteq> [] \<longrightarrow> dur_valid (avr_duration r)) \<and> StatusCode_json (avr_errorCode r)"

lemma availability_render_doc:
  assumes i: "blank i" and r: "AvailabilityResponse_json r"
  shows "json_doc (SubscribeContextAvailabilityResponse_render r JSON i)"
    and "json_doc (UpdateContextAvailabilitySubscriptionResponse_render r JSON i)"
proof -
  let ?dr = "\<not> Duration_isEmpty (avr_duration r)" and ?er = "sc_code (avr_errorCode r) \<noteq> SccNone"
  let ?s = "\<lambda>rt. SubscriptionId_render (avr_subscriptionId r) rt JSON (i @ ''  '') (?dr \<or> ?er)"
  let ?d = "Duration_render (avr_duration r) JSON (i @ ''  '') ?er"
  let ?e = "if ?er then fst (StatusCode_render ''errorCode'' (avr_errorCode r) JSON (i @ ''  '') False True) else []"
  have b: "json_member False ((?s rt @ ?d) @ ?e)" if "subscriptionId_mandatory rt" for rt
  proof (rule json_member_opt)
    have "json_member (?dr \<or> ?er) (?s rt)"
      using i r that by (intro json_member_SubscriptionId) (auto simp: AvailabilityResponse_json_def)
    then show "json_member ?er (?s rt @ ?d)"
      by (rule json_member_opt_or)
        (use i r in \<open>auto simp: AvailabilityResponse_json_def Duration_isEmpty_def Duration_render_def intro!: json_member_valueTag\<close>)
  qed (use i r json_member_StatusCode in \<open>auto simp: AvailabilityResponse_json_def\<close>)
  have m: "subscriptionId_mandatory RtSubscribeContextAvailabilityResponse"
    "subscriptionId_mandatory RtUpdateContextAvailabilitySubscriptionResponse"
    by (simp_all add: subscriptionId_mandatory_def)
  from json_doc_message [OF i b [OF m(1)]] json_doc_message [OF i b [OF m(2)]]
  show "json_doc (SubscribeContextAvailabilityResponse_render r JSON i)"
    and "json_doc (UpdateContextAvailabilitySubscriptionResponse_render r JSON i)"
    unfolding SubscribeContextAvailabilityResponse_render_def UpdateContextAvailabilitySubscriptionResponse_render_def Let_def
      disj_commute [of ?er ?dr] append_assoc by blast+
qed


section \<open>What a merge keeps\<close>

text \<open>
  The attributes of a list of responses, with the key of their entity (as \<open>EntityId::equal\<close> compares)
  and whether their response is a success.
\<close>

definition merge_key :: "EntityId \<Rightarrow> string \<times> string \<times> bool" where
  "merge_key en = (en_id en, en_type en, isTrue (en_isPattern en))"

definition cer_attrs :: "ContextElementResponse \<Rightarrow> ((string \<times> string \<times> bool) \<times> bool \<times> ContextAttribute) list" where
  "cer_attrs cer = map (\<lambda>ca. (merge_key (ce_entityId (cer_contextElement cer)), sc_code (cer_statusCode cer) = SccOk, ca))
     (ce_contextAttributeVector (cer_contextElement cer))"

definition response_attrs :: "ContextElementResponse list \<Rightarrow> ((string \<times> string \<times> bool) \<times> bool \<times> ContextAttribute) multiset" where
  "response_attrs cerV = mset (concat (map cer_attrs cerV))"

lemma response_attrs_simps [simp]:
  "response_attrs [] = {#}" "response_attrs (a @ b) = response_attrs a + response_attrs b"
  "response_attrs (c # cs) = mset (cer_attrs c) + response_attrs cs"
  by (simp_all add: response_attrs_def)

lemma EntityId_equal_key: "EntityId_equal a b \<longleftrightarrow> merge_key a = merge_key b"
  by (auto simp: EntityId_equal_def merge_key_def)

lemma lookup_Some:
  "ContextElementResponseVector_lookup vec en code = Some k \<Longrightarrow>
     k < length vec \<and> merge_key (ce_entityId (cer_contextElement (vec ! k))) = merge_key en \<and>
     (code = SccNone \<or> sc_code (cer_statusCode (vec ! k)) = code)"
  by (induction vec arbitrary: k) (auto simp: EntityId_equal_key split: if_splits)

lemma cer_attrs_push:
  "cer_attrs (cer_push_attr ca cer) = cer_attrs cer @
     [(merge_key (ce_entityId (cer_contextElement cer)), sc_code (cer_statusCode cer) = SccOk, ContextAttribute_copy ca)]"
  by (simp add: cer_attrs_def cer_push_attr_def)

lemma response_attrs_update:
  "k < length vec \<Longrightarrow> mset (cer_attrs c) = mset (cer_attrs (vec ! k)) + x \<Longrightarrow>
     response_attrs (vec[k := c]) = response_attrs vec + x"
  by (induction vec arbitrary: k) (auto split: nat.splits simp: ac_simps)

lemma cer_attrs_of:
  "cer_attrs ((ContextElementResponse_of en ca)\<lparr>cer_statusCode := sc\<rparr>) =
     [(merge_key en, sc_code sc = SccOk, ContextAttribute_copy ca)]"
  by (simp add: cer_attrs_def ContextElementResponse_of_def)

lemma foundPush_attrs:
  "response_attrs (urs_contextElementResponseVector (foundPush upr en ca)) =
     response_attrs (urs_contextElementResponseVector upr) + {#(merge_key en, True, ContextAttribute_copy ca)#}"
proof (cases "ContextElementResponseVector_lookup (urs_contextElementResponseVector upr) en SccOk")
  case None
  then show ?thesis by (simp add: foundPush_def Let_def cer_attrs_of StatusCode_fill_def)
next
  case (Some k)
  from lookup_Some [OF Some] show ?thesis
    by (simp add: foundPush_def Let_def Some response_attrs_update cer_attrs_push)
qed

lemma notFoundPush_attrs:
  assumes "sc_code sc \<noteq> SccOk"
  shows "response_attrs (urs_contextElementResponseVector (notFoundPush upr en ca (Some sc))) =
     response_attrs (urs_contextElementResponseVector upr) + {#(merge_key en, False, ContextAttribute_copy ca)#}"
proof (cases "ContextElementResponseVector_lookup (urs_contextElementResponseVector upr) en SccContextElementNotFound")
  case None
  then show ?thesis using assms by (simp add: notFoundPush_def Let_def cer_attrs_of StatusCode_fill_def)
next
  case (Some k)
  from lookup_Some [OF Some] show ?thesis
    by (simp add: notFoundPush_def Let_def Some response_attrs_update cer_attrs_push)
qed

definition copied :: "(string \<times> string \<times> bool) \<times> bool \<times> ContextAttribute \<Rightarrow> (string \<times> string \<times> bool) \<times> bool \<times> ContextAttribute" where
  "copied x = (fst x, fst (snd x), ContextAttribute_copy (snd (snd x)))"

lemma merge_attrs_attrs:
  "response_attrs (urs_contextElementResponseVector (merge_attrs en sc upr cas)) =
     response_attrs (urs_contextElementResponseVector upr) +
     mset (map (\<lambda>ca. (merge_key en, sc_code sc = SccOk, ContextAttribute_copy ca)) cas)"
  by (induction en sc upr cas rule: merge_attrs.induct) (auto simp: foundPush_attrs notFoundPush_attrs ac_simps)

lemma merge_elements_attrs:
  "response_attrs (urs_contextElementResponseVector (merge_elements upr cerV)) =
     response_attrs (urs_contextElementResponseVector upr) + image_mset copied (response_attrs cerV)"
proof (induction upr cerV rule: merge_elements.induct)
  case (1 upr)
  then show ?case by simp
next
  case (2 upr cer cerV)
  have "map copied (cer_attrs cer) =
      map (\<lambda>ca. (merge_key (ce_entityId (cer_contextElement cer)), sc_code (cer_statusCode cer) = SccOk, ContextAttribute_copy ca))
        (ce_contextAttributeVector (cer_contextElement cer))"
    by (simp add: cer_attrs_def copied_def)
  then show ?case
    by (simp add: 2 merge_attrs_attrs ac_simps flip: mset_map)
qed

section \<open>Claims\<close>

text \<open>Merging the answer of a context provider into the response to an update loses no attribute and
  invents none: the attributes of the result, each with the key of its entity and with success or failure, are
  those of the response so far together with copies of those of the answer. A provider's error code is
  taken over only when its answer has no elements and the response so far has no error.\<close>

theorem merge_conserves:
  "response_attrs (urs_contextElementResponseVector (UpdateContextResponse_merge upr src)) =
     response_attrs (urs_contextElementResponseVector upr) +
     image_mset copied (response_attrs (urs_contextElementResponseVector src))"
  by (simp add: UpdateContextResponse_merge_def Let_def merge_elements_attrs)

text \<open>C30: when they hold only texts that need no escaping beyond that of \<open>htmlEscape\<close>, the JSON answers to
  queries and updates and the JSON of a notification are well-formed documents, in both attribute formats. Needed is: no
  text holds a backslash or a control character, which are not escaped; the details of a status hold no
  double quote; in the object format attribute names, and in compound values the field names, hold no double quote, since
  they are written as they are; a compound value is an object or a vector without nodes of unknown type;
  the attribute associations of a metadata of type Association have non-empty targets; and a notification has an
  originator or a response.\<close>

theorem context_answers_json:
  assumes "ci_outFormat ci = JSON" and "blank indent"
    and "QueryContextResponse_json (as_object ci) qcr"
    and "UpdateContextResponse_json (as_object ci) upr"
    and "list_all (ContextElementResponse_json (as_object ci) False) cerV"
    and "json_safe subId" and "json_safe originator" and "originator \<noteq> [] \<or> cerV \<noteq> []"
  shows "json_doc (QueryContextResponse_render qcr ci indent) \<and>
         json_doc (UpdateContextResponse_render upr ci indent) \<and>
         json_doc (NotifyContextRequest_render subId originator cerV ci indent)"
  using query_render_doc update_render_doc notify_render_doc assms by blast

definition json_ci :: ConnectionInfo where
  "json_ci = (ConnectionInfo_new ''/v1/queryContext'' ''POST'' ''1.1'')\<lparr>ci_outFormat := JSON\<rparr>"

definition json_cer :: ContextElementResponse where
  "json_cer = ContextElementResponse_new
     \<lparr>cer_contextElement := ContextElement_new
        \<lparr>ce_entityId := EntityId_new ''Room'' ''R'' ''false'',
         ce_contextAttributeVector := [(ContextAttribute_new ''t'' ''C'' ''<20>'' False)
           \<lparr>ca_metadataVector := [Metadata_new ''unit'' ''s'' ''K'']\<rparr>]\<rparr>,
      cer_statusCode := StatusCode_fill SccOk []\<rparr>"

lemmas json_example = json_ci_def json_cer_def ConnectionInfo_new_def ContextElementResponse_new_def ContextElement_new_def
  ContextAttribute_new_def StatusCode_fill_def StatusCode_new_def EntityId_new_def Metadata_new_def uriParam_def
  httpStatusCodeString_def QueryContextResponse_json_def UpdateContextResponse_json_def ContextElementResponse_json_def
  ContextElement_json_def ContextAttribute_json_def EntityId_json_def Metadata_json_def StatusCode_json_def
  json_safe_def json_clean_def

theorem context_answers_json_witness:
  "json_doc (QueryContextResponse_render \<lparr>qrs_contextElementResponseVector = [json_cer, json_cer], qrs_errorCode = StatusCode_new\<rparr> json_ci []) \<and>
   json_doc (UpdateContextResponse_render \<lparr>urs_contextElementResponseVector = [json_cer], urs_errorCode = StatusCode_new\<rparr> json_ci []) \<and>
   json_doc (NotifyContextRequest_render NO_ID ''localhost'' [json_cer] json_ci [])"
  by (rule context_answers_json) (simp_all add: json_example)


text \<open>So are the JSON answers to subscriptions, registrations and discoveries and the requests that are
  forwarded to context providers (with at least one entity, respectively one element and an
  action).\<close>

theorem other_messages_json:
  assumes "blank indent"
    and "SubscribeContextResponse_json scr" and "json_safe errorId"
    and "json_safe (unr_subscriptionId unr)" and "StatusCode_json (unr_statusCode unr)"
    and "json_safe (dur_string (rcr_duration rcr))" and "json_safe (rcr_registrationId rcr)" and "StatusCode_json (rcr_errorCode rcr)"
    and "AvailabilityResponse_json avr"
    and "list_all (\<lambda>r. registration_json (fst r) \<and> StatusCode_json (snd r)) crrV" and "StatusCode_json ec"
    and "list_all EntityId_json (qcr_entityIdVector q)" and "qcr_entityIdVector q \<noteq> []"
    and "list_all json_safe (qcr_attributeList q)" and "json_safe ae"
    and "list_all (\<lambda>s. json_safe (sco_type s) \<and> json_safe (sco_value s)) (qcr_scopeVector q)"
    and "ci_outFormat ci = JSON"
    and "list_all (ContextElement_json (as_object ci) False) (upr_contextElementVector u)" and "upr_contextElementVector u \<noteq> []"
    and "json_safe (upr_updateActionType u)" and "upr_updateActionType u \<noteq> []"
  shows "json_doc (SubscribeContextResponse_render scr errorId JSON indent) \<and>
         json_doc (UpdateContextSubscriptionResponse_render scr errorId JSON indent) \<and>
         json_doc (UnsubscribeContextResponse_render unr JSON indent) \<and>
         json_doc (RegisterContextResponse_render rcr JSON indent) \<and>
         json_doc (SubscribeContextAvailabilityResponse_render avr JSON indent) \<and>
         json_doc (UpdateContextAvailabilitySubscriptionResponse_render avr JSON indent) \<and>
         json_doc (DiscoverContextAvailabilityResponse_render crrV ec JSON indent) \<and>
         json_doc (QueryContextRequest_render q ae restrictions JSON indent) \<and>
         json_doc (UpdateContextRequest_render u ci indent)"
  by (intro conjI subscribe_render_doc unsubscribe_render_doc register_render_doc availability_render_doc
      discover_render_doc query_request_doc update_request_doc assms)

theorem other_messages_json_witness:
  "json_doc (SubscribeContextResponse_render SubscribeContextResponse_new [] JSON []) \<and>
   json_doc (UpdateContextSubscriptionResponse_render SubscribeContextResponse_new [] JSON []) \<and>
   json_doc (UnsubscribeContextResponse_render \<lparr>unr_statusCode = StatusCode_new, unr_subscriptionId = []\<rparr> JSON []) \<and>
   json_doc (RegisterContextResponse_render RegisterContextResponse_new JSON []) \<and>
   json_doc (SubscribeContextAvailabilityResponse_render AvailabilityResponse_new JSON []) \<and>
   json_doc (UpdateContextAvailabilitySubscriptionResponse_render AvailabilityResponse_new JSON []) \<and>
   json_doc (DiscoverContextAvailabilityResponse_render [] StatusCode_new JSON []) \<and>
   json_doc (QueryContextRequest_render
      \<lparr>qcr_entityIdVector = [EntityId_new ''E'' ''T'' []], qcr_attributeList = [''a'', ''b''], qcr_scopeVector = []\<rparr> [] 0 JSON []) \<and>
   json_doc (UpdateContextRequest_render
      \<lparr>upr_contextElementVector = [cer_contextElement json_cer], upr_updateActionType = ''UPDATE''\<rparr> json_ci [])"
  by (rule other_messages_json)
    (simp_all add: json_example SubscribeContextResponse_json_def SubscribeContextResponse_new_def Duration_new_def Throttling_new_def
      RegisterContextResponse_new_def AvailabilityResponse_json_def AvailabilityResponse_new_def Duration_set_def Duration_parse_def Let_def)

text \<open>Five places where the JSON that is written is not a document: an attribute with metadata whose value
  is left out (the comma after the type is missing); two notify conditions in a subscription (the comma
  between them is missing); a registration request with neither duration nor id (the list is closed with a
  brace); a status whose details hold a double quote (the escape for it is itself escaped); a value that holds
  a backslash (which is not escaped).\<close>

theorem malformed_json:
  "\<not> json_doc (startTag1 [] [] JSON False False @
       ContextElement_render (cer_contextElement json_cer) json_ci NotifyContext [] False True @
       endTag [] [] JSON False False True False) \<and>
   \<not> json_doc (startTag1 [] [] JSON False False @
       NotifyConditionVector_render (replicate 2 (\<lparr>nc_type = ''ONCHANGE'', nc_condValueList = [''t'']\<rparr>, [])) JSON [] False @
       endTag [] [] JSON False False True False) \<and>
   \<not> json_doc (RegisterContextRequest_render
       [\<lparr>rn_entityIdVector = [EntityId_new ''E'' ''T'' []], rn_entityIdVectorPresent = True, rn_attributeVector = [],
         rn_registrationMetadataVector = [], rn_providingApplication = \<lparr>pa_string = ''h'', pa_format = JSON\<rparr>\<rparr>]
       Duration_new [] JSON []) \<and>
   \<not> json_doc (NotifyContextResponse_render (StatusCode_fill SccBadRequest (''a'' @ QUOT @ ''b'')) JSON []) \<and>
   \<not> json_doc (OrionError_render (OrionError_new SccBadRequest [BACKSLASH, CHR ''x'']) JSON [])"
  by code_simp

end
