(* ===== verification/Rest_Request.thy ===== *)
theory Rest_Request
  imports Ngsi_Messages
begin

text \<open>
  The HTTP front end: \<^verbatim>\<open>src/src/lib/rest/rest.cpp\<close>, \<^verbatim>\<open>rest/restReply.cpp\<close> and
  \<open>formatParse\<close> of \<^verbatim>\<open>common/Format.cpp\<close>. The HTTP library calls \<open>connectionTreat\<close> once with the headers,
  then with the payload, then once more to serve the request; the three parts of it are
  \<open>connectionTreat_first\<close>, \<open>connectionTreat_data\<close> and \<open>connectionTreat_last\<close>. What the library delivers (the
  address of the client, the headers and the URI parameters in their order, the payload) is given as
  arguments; a URI parameter without a value has the null pointer for it (\<open>None\<close>). A response is queued by
  adding it to \<open>ci_replies\<close>, unless the library fails to create it (\<open>rc_response\<close>).
\<close>

record rest_config =
  rc_acceptTextXml :: bool
  rc_allowedOrigin :: string
  rc_response :: "string \<Rightarrow> bool"

section \<open>Replies\<close>

definition restReply :: "rest_config \<Rightarrow> string \<Rightarrow> ConnectionInfo \<Rightarrow> ConnectionInfo" where
  "restReply cfg answer ci =
     (if \<not> rc_response cfg answer then ci
      else
        let contentType = (if ci_outFormat ci = XML then [(''Content-Type'', ''application/xml'')]
                           else if ci_outFormat ci = JSON then [(''Content-Type'', ''application/json'')] else []);
            origin = rc_allowedOrigin cfg;
            cors = (if length origin > 0 \<and> ci_verb ci = GET then
                      (if origin = ''__ALL'' then [(''Access-Control-Allow-Origin'', ''*'')]
                       else if hh_origin (ci_httpHeaders ci) = origin then [(''Access-Control-Allow-Origin'', origin)]
                       else [])
                    else [])
        in ci\<lparr>ci_replies := ci_replies ci @
             [\<lparr>hr_status = ci_httpStatusCode ci,
               hr_headers = ci_httpHeader ci @ (if answer \<noteq> [] then contentType @ cors else []),
               hr_body = answer\<rparr>]\<rparr>)"

text \<open>The names under which a standard operation may be given.\<close>

definition request_names :: "string \<Rightarrow> string \<Rightarrow> string \<Rightarrow> string \<Rightarrow> string list" where
  "request_names api API v1 op =
     [op, ''/'' @ api @ ''/'' @ op, ''/'' @ API @ ''/'' @ op, op @ ''Request'', v1 @ op]"

definition tagGet :: "string \<Rightarrow> string" where
  "tagGet request =
     (let is9 = (\<lambda>op. request \<in> set (request_names ''ngsi9'' ''NGSI9'' ''/v1/registry/'' op));
          is10 = (\<lambda>op. request \<in> set (request_names ''ngsi10'' ''NGSI10'' ''/v1/'' op))
      in if is9 ''registerContext'' then ''registerContextResponse''
         else if is9 ''discoverContextAvailability'' then ''discoverContextAvailabilityResponse''
         else if is9 ''subscribeContextAvailability'' then ''subscribeContextAvailabilityResponse''
         else if is9 ''updateContextAvailabilitySubscription'' then ''updateContextAvailabilitySubscriptionResponse''
         else if is9 ''unsubscribeContextAvailability'' then ''unsubscribeContextAvailabilityResponse''
         else if is9 ''notifyContextAvailability'' then ''notifyContextAvailabilityResponse''
         else if is10 ''queryContext'' then ''queryContextResponse''
         else if is10 ''subscribeContext'' then ''subscribeContextResponse''
         else if is10 ''updateContextSubscription'' then ''updateContextSubscriptionResponse''
         else if is10 ''unsubscribeContext'' then ''unsubscribeContextResponse''
         else if is10 ''updateContext'' then ''updateContextResponse''
         else if is10 ''notifyContext'' then ''notifyContextResponse''
         else if request = ''StatusCode'' then ''StatusCode''
         else ''UnknownTag'')"

text \<open>
  The reply for an error, in the shape of the response to the request. The status of the connection is
  set to 200; callers that want another one set it afterwards.
\<close>

definition restErrorReplyGet ::
  "ConnectionInfo \<Rightarrow> Format \<Rightarrow> string \<Rightarrow> string \<Rightarrow> HttpStatusCode \<Rightarrow> string \<Rightarrow> string \<times> ConnectionInfo" where
  "restErrorReplyGet ci format indent request code details =
     (let tag = tagGet request; ec = StatusCode_fill code details;
          noDuration = Duration_new;
          avr = \<lparr>avr_subscriptionId = [], avr_duration = noDuration, avr_errorCode = ec\<rparr>;
          scr = SubscribeContextResponse_new\<lparr>scr_errorCode := ec\<rparr>;
          reply =
            (if tag = ''registerContextResponse''
             then RegisterContextResponse_render \<lparr>rcr_duration = noDuration, rcr_registrationId = NO_ID, rcr_errorCode = ec\<rparr> format indent
             else if tag = ''discoverContextAvailabilityResponse''
             then DiscoverContextAvailabilityResponse_render [] ec format indent
             else if tag = ''subscribeContextAvailabilityResponse''
             then SubscribeContextAvailabilityResponse_render (avr\<lparr>avr_subscriptionId := NO_ID\<rparr>) format indent
             else if tag = ''updateContextAvailabilitySubscriptionResponse''
             then UpdateContextAvailabilitySubscriptionResponse_render avr format indent
             else if tag = ''unsubscribeContextAvailabilityResponse''
             then UnsubscribeContextAvailabilityResponse_render [] ec format indent
             else if tag = ''notifyContextAvailabilityResponse''
             then NotifyContextAvailabilityResponse_render ec format indent
             else if tag = ''queryContextResponse''
             then QueryContextResponse_render \<lparr>qrs_contextElementResponseVector = [], qrs_errorCode = ec\<rparr> ci indent
             else if tag = ''subscribeContextResponse''
             then SubscribeContextResponse_render scr NO_ID format indent
             else if tag = ''updateContextSubscriptionResponse''
             then UpdateContextSubscriptionResponse_render scr NO_ID format indent
             else if tag = ''unsubscribeContextResponse''
             then UnsubscribeContextResponse_render \<lparr>unr_statusCode = ec, unr_subscriptionId = NO_ID\<rparr> format indent
             else if tag = ''updateContextResponse''
             then UpdateContextResponse_render \<lparr>urs_contextElementResponseVector = [], urs_errorCode = ec\<rparr> ci indent
             else if tag = ''notifyContextResponse''
             then NotifyContextResponse_render ec format indent
             else if tag = ''StatusCode''
             then fst (StatusCode_render ''statusCode'' ec format indent False True)
             else OrionError_render (OrionError_of ec) format indent)
      in (reply, ci\<lparr>ci_httpStatusCode := SccOk\<rparr>))"

section \<open>URI parameters and headers\<close>

definition bad_param :: "string \<Rightarrow> ConnectionInfo \<Rightarrow> ConnectionInfo" where
  "bad_param msg ci = ci\<lparr>ci_httpStatusCode := SccBadRequest,
     ci_answer := OrionError_render (OrionError_new SccBadRequest msg) (ci_outFormat ci) []\<rparr>"

abbreviation MAX_PAGINATION_LIMIT :: string where "MAX_PAGINATION_LIMIT \<equiv> ''1000''"

definition uriArgumentGet :: "string \<Rightarrow> string option \<Rightarrow> ConnectionInfo \<Rightarrow> ConnectionInfo cpp" where
  "uriArgumentGet key val ci =
     (let v = (case val of None \<Rightarrow> [] | Some s \<Rightarrow> s);
          store = (\<lambda>x ci. Ret (ci\<lparr>ci_uriParam := (ci_uriParam ci)(key \<mapsto> (if val \<noteq> None then x else ''SET''))\<rparr>))
      in if key = URI_PARAM_NOTIFY_FORMAT then
           (case val of
              None \<Rightarrow> UB
            | Some s \<Rightarrow>
                if strcaseeq s ''xml'' then store ''XML'' ci
                else if strcaseeq s ''json'' then store ''JSON'' ci
                else Ret (bad_param (''Bad notification format: /'' @ v @ ''/. Valid values: /XML/ and /JSON/'') ci))
         else if key = URI_PARAM_PAGINATION_OFFSET then
           (case val of
              None \<Rightarrow> UB
            | Some s \<Rightarrow>
                if \<not> list_all is_digit s
                then Ret (bad_param (''Bad pagination offset: /'' @ v @ ''/ [must be a decimal number]'') ci)
                else store v ci)
         else if key = URI_PARAM_PAGINATION_LIMIT then
           (case val of
              None \<Rightarrow> UB
            | Some s \<Rightarrow>
                if \<not> list_all is_digit s
                then Ret (bad_param (''Bad pagination limit: /'' @ v @ ''/ [must be a decimal number]'') ci)
                else if atoi s > atoi MAX_PAGINATION_LIMIT
                then Ret (bad_param (''Bad pagination limit: /'' @ v @ ''/ [max: '' @ MAX_PAGINATION_LIMIT @ '']'') ci)
                else if atoi s = 0
                then Ret (bad_param (''Bad pagination limit: /'' @ v @ ''/ [a value of ZERO is unacceptable]'') ci)
                else store v ci)
         else if key = URI_PARAM_PAGINATION_DETAILS then
           (if \<not> strcaseeq v ''on'' \<and> \<not> strcaseeq v ''off''
            then Ret (bad_param (''Bad value for /details/: /'' @ v @
                   ''/ [accepted: /on/, /ON/, /off/, /OFF/. Default is /off/]'') ci)
            else store v ci)
         else if key = URI_PARAM_ATTRIBUTES_FORMAT then
           store v (ci\<lparr>ci_uriParam := (ci_uriParam ci)(URI_PARAM_ATTRIBUTE_FORMAT \<mapsto> v)\<rparr>)
         else if key = URI_PARAM_ATTRIBUTE_FORMAT then
           store v (ci\<lparr>ci_uriParam := (ci_uriParam ci)(URI_PARAM_ATTRIBUTES_FORMAT \<mapsto> v)\<rparr>)
         else store v ci)"

fun uriArguments :: "(string \<times> string option) list \<Rightarrow> ConnectionInfo \<Rightarrow> ConnectionInfo cpp" where
  "uriArguments [] ci = Ret ci"
| "uriArguments ((k, v) # args) ci = cpp_bind (uriArgumentGet k v ci) (uriArguments args)"

definition httpHeaderGet :: "string \<Rightarrow> string \<Rightarrow> HttpHeaders \<Rightarrow> HttpHeaders" where
  "httpHeaderGet key v h =
     (let h1 =
        (if strcaseeq key ''User-Agent'' then h\<lparr>hh_userAgent := v\<rparr>
         else if strcaseeq key ''Host'' then h\<lparr>hh_host := v\<rparr>
         else if strcaseeq key ''Accept'' then h\<lparr>hh_accept := v\<rparr>
         else if strcaseeq key ''Expect'' then h\<lparr>hh_expect := v\<rparr>
         else if strcaseeq key ''Connection'' then h\<lparr>hh_connection := v\<rparr>
         else if strcaseeq key ''Content-Type'' then h\<lparr>hh_contentType := v\<rparr>
         else if strcaseeq key ''Content-Length'' then h\<lparr>hh_contentLength := nat (atoi v mod 2 ^ 32)\<rparr>
         else if strcaseeq key ''Origin'' then h\<lparr>hh_origin := v\<rparr>
         else if strcaseeq key ''Fiware-Service'' then h\<lparr>hh_tenant := v\<rparr>
         else if strcaseeq key ''X-Auth-Token'' then h\<lparr>hh_xauthToken := v\<rparr>
         else if strcaseeq key ''Fiware-Servicepath'' then h\<lparr>hh_servicePath := v, hh_servicePathReceived := True\<rparr>
         else h);
          h2 = (case str_find (CHR '';'') (hh_contentType h1) of
                  None \<Rightarrow> h1 | Some p \<Rightarrow> h1\<lparr>hh_contentType := take p (hh_contentType h1)\<rparr>)
      in h2\<lparr>hh_gotHeaders := True\<rparr>)"

definition httpHeaders_all :: "(string \<times> string) list \<Rightarrow> HttpHeaders \<Rightarrow> HttpHeaders" where
  "httpHeaders_all hs h = foldl (\<lambda>h (k, v). httpHeaderGet k v h) h hs"


section \<open>Formats\<close>

text \<open>
  The elements of the Accept header: the text is cut at the commas and stripped; what follows the last
  comma counts only if it is not blank.
\<close>

function acceptList_split :: "string \<Rightarrow> string list" where
  "acceptList_split s =
     (case str_find (CHR '','') s of
        Some p \<Rightarrow> wsStrip (take p s) # (if drop (Suc p) s = [] then [] else acceptList_split (drop (Suc p) s))
      | None \<Rightarrow> if wsStrip s \<noteq> [] then [wsStrip s] else [])"
  by pat_completeness auto
termination
  by (relation "measure length") (auto dest!: str_find_Some)

declare acceptList_split.simps [simp del]

definition accept_format :: "string \<Rightarrow> string" where
  "accept_format s = (case str_find (CHR '';'') s of None \<Rightarrow> s | Some p \<Rightarrow> take p s)"

fun accept_loop :: "bool \<Rightarrow> string list \<Rightarrow> bool \<times> bool \<Rightarrow> bool \<times> bool" where
  "accept_loop textXml [] q = q"
| "accept_loop textXml (s # vec) (xml, json) =
     (let format = accept_format s;
          xml' = (xml \<or> format \<in> set [''*/*'', ''*/xml'', ''application/*'', ''application/xml''] \<or>
                  textXml \<and> format = ''text/xml'');
          json' = (json \<or> format \<in> set [''*/*'', ''application/*'', ''application/json'', ''*/json''])
      in accept_loop textXml vec (xml', json'))"

text \<open>The character set is read and reset for every element.\<close>

definition wantedOutputSupported :: "rest_config \<Rightarrow> string \<Rightarrow> string \<Rightarrow> string \<Rightarrow> Format \<times> string" where
  "wantedOutputSupported cfg apiVersion acceptList charset =
     (let vec = acceptList_split (if length acceptList = 0 then ''*/*'' else c_str acceptList);
          (xml, json) = accept_loop (rc_acceptTextXml cfg) vec (False, False);
          format = (if apiVersion = ''v2'' then (if json then JSON else if xml then XML else NOFORMAT)
                    else (if xml then XML else if json then JSON else NOFORMAT))
      in (format, if vec = [] then charset else []))"

definition formatParse :: "string \<Rightarrow> Format" where
  "formatParse formatString =
     (let cP = (case str_find (CHR '';'') (c_str formatString) of
                  None \<Rightarrow> c_str formatString | Some p \<Rightarrow> take p (c_str formatString));
          format = wsStrip cP
      in if format = ''*/*'' then XML
         else if format = ''application/xml'' then XML
         else if format = ''text/xml'' then XML
         else if format = ''text/json'' then JSON
         else if format = ''application/json'' then JSON
         else XML)"

definition outFormatCheck :: "rest_config \<Rightarrow> ConnectionInfo \<Rightarrow> int \<times> ConnectionInfo" where
  "outFormatCheck cfg ci =
     (let (f, cs) = wantedOutputSupported cfg (ci_apiVersion ci) (hh_accept (ci_httpHeaders ci)) (ci_charset ci);
          ci1 = ci\<lparr>ci_outFormat := f, ci_charset := cs\<rparr>
      in if f = NOFORMAT then
           (let (reply, ci2) = restErrorReplyGet (ci1\<lparr>ci_httpStatusCode := SccNotAcceptable\<rparr>) XML [] ''OrionError'' SccNotAcceptable
                  (''acceptable MIME types: application/xml, application/json. Accept header in request: '' @ hh_accept (ci_httpHeaders ci))
            in (1, ci2\<lparr>ci_answer := reply, ci_outFormat := XML, ci_httpStatusCode := SccNotAcceptable\<rparr>))
         else (0, ci1))"

section \<open>Service paths\<close>

definition is_alnum :: "char \<Rightarrow> bool" where
  "is_alnum c \<longleftrightarrow> is_digit c \<or> is_upper c \<or> is_lower c"

definition path_error :: "string \<Rightarrow> ConnectionInfo \<Rightarrow> ConnectionInfo" where
  "path_error msg ci = ci\<lparr>ci_answer := OrionError_render (OrionError_new SccBadRequest msg) (ci_outFormat ci) []\<rparr>"

fun servicePath_components :: "string list \<Rightarrow> ConnectionInfo \<Rightarrow> int \<times> ConnectionInfo" where
  "servicePath_components [] ci = (0, ci)"
| "servicePath_components (c # comps) ci =
     (if length (c_str c) > 50 then (3, path_error ''component-name too long in ServicePath'' ci)
      else if comps = [] \<and> c = ''#'' then servicePath_components comps ci
      else if \<not> list_all (\<lambda>x. is_alnum x \<or> x = CHR ''_'') (c_str c)
      then (4, path_error ''a component of ServicePath contains an illegal character'' ci)
      else servicePath_components comps ci)"

definition servicePathCheck_rest :: "string \<Rightarrow> ConnectionInfo \<Rightarrow> int \<times> ConnectionInfo" where
  "servicePathCheck_rest servicePath ci =
     (if \<not> hh_servicePathReceived (ci_httpHeaders ci) then (0, ci)
      else if take 1 servicePath \<noteq> ''/''
      then (1, path_error ''Only /absolute/ Service Paths allowed [a service path must begin with /]'' ci)
      else let (components, compV) = stringSplit servicePath (CHR ''/'') []
           in if components > 10 then (2, path_error ''too many components in ServicePath'' ci)
              else servicePath_components compV ci)"

text \<open>
  The string whose characters the returned pointer refers to. (The pointer is into an argument passed by
  value.)
\<close>

function removeTrailingSlash :: "string \<Rightarrow> string" where
  "removeTrailingSlash path =
     (if length path > 1 \<and> last path = CHR ''/'' then removeTrailingSlash (butlast path) else path)"
  by pat_completeness auto
termination
  by (relation "measure length") auto

declare removeTrailingSlash.simps [simp del]

fun servicePaths_check :: "string list \<Rightarrow> ConnectionInfo \<Rightarrow> int \<times> ConnectionInfo" where
  "servicePaths_check [] ci = (0, ci)"
| "servicePaths_check (p # ps) ci =
     (let (s, ci') = servicePathCheck_rest p ci in if s \<noteq> 0 then (s, ci') else servicePaths_check ps ci')"

definition servicePathSplit :: "ConnectionInfo \<Rightarrow> int \<times> ConnectionInfo" where
  "servicePathSplit ci =
     (let (servicePaths, pathV) = stringSplit (ci_servicePath ci) (CHR '','') (ci_servicePathV ci);
          ci1 = ci\<lparr>ci_servicePathV := pathV\<rparr>
      in if servicePaths = 0 then (0, ci1)
         else if servicePaths > 10
         then (- 1, path_error ''too many service paths - a maximum of ten service paths is allowed'' ci1)
         else let pathV' = map (\<lambda>p. removeTrailingSlash (wsStrip p)) (take servicePaths pathV) @ drop servicePaths pathV
              in servicePaths_check (take servicePaths pathV') (ci1\<lparr>ci_servicePathV := pathV'\<rparr>))"

section \<open>Checks of the request\<close>

definition unsupported_media :: "string \<Rightarrow> ConnectionInfo \<Rightarrow> int \<times> ConnectionInfo" where
  "unsupported_media details ci =
     (let (reply, ci2) = restErrorReplyGet (ci\<lparr>ci_httpStatusCode := SccUnsupportedMediaType\<rparr>) (ci_outFormat ci) []
            ''OrionError'' SccUnsupportedMediaType details
      in (1, ci2\<lparr>ci_answer := reply, ci_httpStatusCode := SccUnsupportedMediaType\<rparr>))"

definition contentTypeCheck :: "rest_config \<Rightarrow> ConnectionInfo \<Rightarrow> int \<times> ConnectionInfo" where
  "contentTypeCheck cfg ci =
     (let ct = hh_contentType (ci_httpHeaders ci)
      in if hh_contentLength (ci_httpHeaders ci) = 0 then (0, ci)
         else if ct = []
         then unsupported_media ''Content-Type header not used, default application/octet-stream is not supported'' ci
         else if rc_acceptTextXml cfg \<and> ct = ''text/xml'' then (0, ci)
         else if ct \<noteq> ''application/xml'' \<and> ct \<noteq> ''application/json''
         then unsupported_media (''not supported content type: '' @ ct) ci
         else if ci_apiVersion ci = ''v2'' \<and> ct \<noteq> ''application/json''
         then unsupported_media (''not supported content type: '' @ ct) ci
         else (0, ci))"

text \<open>
  Slashes at the end of the URL are overwritten with zero bytes, so that the length of the
  \<open>std::string\<close> stays. When nothing but slashes is there, the loop goes on and reads the byte before the
  string.
\<close>

definition urlCheck :: "ConnectionInfo \<Rightarrow> (bool \<times> ConnectionInfo) cpp" where
  "urlCheck ci =
     (let url = c_str (ci_url ci)
      in if forbiddenChars (Some url) then Ret (False, bad_param ''invalid character in URI'' ci)
         else let s = rev (dropWhile (\<lambda>c. c = CHR ''/'') (rev url))
              in if s = [] then UB
                 else Ret (True, ci\<lparr>ci_url := s @ replicate (length url - length s) NUL @ drop (length url) (ci_url ci)\<rparr>))"

text \<open>\<open>strcasestr (hay, needle) != NULL\<close>\<close>

fun strcasestr :: "string \<Rightarrow> string \<Rightarrow> bool" where
  "strcasestr [] needle \<longleftrightarrow> needle = []"
| "strcasestr (c # hay) needle \<longleftrightarrow>
     map to_lower (take (length needle) (c # hay)) = map to_lower needle \<or> strcasestr hay needle"

definition defaultServicePath :: "string \<Rightarrow> string \<Rightarrow> string" where
  "defaultServicePath url method =
     (if strcasestr url ''updateContextAvailabilitySubscription'' then ''/#''
      else if strcasestr url ''unsubscribeContextAvailability'' then ''/#''
      else if strcasestr url ''subscribeContextAvailability'' then ''/#''
      else if strcasestr url ''discoverContextAvailability'' then ''/#''
      else if strcasestr url ''notifyContextAvailability'' then ''/''
      else if strcasestr url ''updateContextSubscription'' then ''/#''
      else if strcasestr url ''unsubscribeContext'' then ''/#''
      else if strcasestr url ''subscribeContext'' then ''/#''
      else if strcasestr url ''registerContext'' then ''/''
      else if strcasestr url ''updateContext'' then ''/''
      else if strcasestr url ''notifyContext'' then ''/''
      else if strcasestr url ''queryContext'' then ''/#''
      else if strcasestr url ''contextAvailabilitySubscriptions'' then ''/#''
      else if strcasestr url ''contextSubscriptions'' then ''/#''
      else if strcaseeq method ''POST'' then ''/''
      else if strcaseeq method ''PUT'' then ''/''
      else if strcaseeq method ''DELETE'' then ''/''
      else if strcaseeq method ''GET'' then ''/#''
      else ''/'')"

definition apiVersionGet :: "string \<Rightarrow> string" where
  "apiVersionGet path = (if take 2 (drop 1 (c_str path)) = ''v2'' then ''v2'' else ''v1'')"


section \<open>The three calls of a connection\<close>

text \<open>
  Address and port of the client, from the bytes of its socket address. \<open>char\<close> is signed: a low byte of
  128 or more is subtracted from the port instead of added.
\<close>

definition schar :: "nat \<Rightarrow> int" where
  "schar b = (if b < 128 then int b else int b - 256)"

definition client_port :: "nat list option \<Rightarrow> nat" where
  "client_port addr =
     (case addr of Some (b0 # b1 # r) \<Rightarrow> nat ((schar b0 * 256 + schar b1) mod 2 ^ 16) | _ \<Rightarrow> 0)"

definition client_ip :: "nat list option \<Rightarrow> string" where
  "client_ip addr =
     (case addr of
        Some (b0 # b1 # b2 # b3 # b4 # b5 # r) \<Rightarrow> nat_str b2 @ ''.'' @ nat_str b3 @ ''.'' @ nat_str b4 @ ''.'' @ nat_str b5
      | _ \<Rightarrow> ''IP unknown'')"

definition uriParam_defaults :: "string \<rightharpoonup> string" where
  "uriParam_defaults =
     [URI_PARAM_NOTIFY_FORMAT \<mapsto> [], URI_PARAM_PAGINATION_OFFSET \<mapsto> ''0'', URI_PARAM_PAGINATION_LIMIT \<mapsto> ''20'',
      URI_PARAM_PAGINATION_DETAILS \<mapsto> ''off'']"

text \<open>
  From the checks of the service path on: each error is answered, but only an error in the URL or a
  status other than 200 ends the function.
\<close>

definition connectionTreat_checks ::
  "rest_config \<Rightarrow> (string \<times> string option) list \<Rightarrow> ConnectionInfo \<Rightarrow> ConnectionInfo cpp" where
  "connectionTreat_checks cfg args ci0 =
     (let (s, ci1) = servicePathSplit (ci0\<lparr>ci_servicePath := hh_servicePath (ci_httpHeaders ci0)\<rparr>);
          ci2 = (if s \<noteq> 0 then restReply cfg (ci_answer ci1) ci1 else ci1);
          ci3 = ci2\<lparr>ci_apiVersion := apiVersionGet (ci_url ci2)\<rparr>;
          (c, ci4) = contentTypeCheck cfg ci3;
          ci5 = (if c \<noteq> 0 then restReply cfg (ci_answer ci4) ci4
                 else let (o1, ci6) = outFormatCheck cfg ci4
                      in if o1 \<noteq> 0 then restReply cfg (ci_answer ci6) ci6
                         else ci6\<lparr>ci_inFormat := formatParse (hh_contentType (ci_httpHeaders ci6))\<rparr>)
      in cpp_bind (uriArguments args ci5) (\<lambda>ci7.
           if ci_httpStatusCode ci7 \<noteq> SccOk then Ret (restReply cfg (ci_answer ci7) ci7)
           else if uriParam ci7 URI_PARAM_NOTIFY_FORMAT = []
           then Ret (ci7\<lparr>ci_uriParam := (ci_uriParam ci7)(URI_PARAM_NOTIFY_FORMAT \<mapsto>
                  (if ci_outFormat ci7 = XML then ''XML'' else if ci_outFormat ci7 = JSON then ''JSON'' else ''XML''))\<rparr>)
           else Ret ci7))"

definition connectionTreat_first ::
  "rest_config \<Rightarrow> nat list option \<Rightarrow> (string \<times> string) list \<Rightarrow> (string \<times> string option) list \<Rightarrow> char list
   \<Rightarrow> string \<Rightarrow> string \<Rightarrow> string \<Rightarrow> ConnectionInfo cpp" where
  "connectionTreat_first cfg addr headers args tenantBuf url method version =
     (let h0 = httpHeaders_all headers HttpHeaders_new;
          h = (if \<not> hh_servicePathReceived h0 then h0\<lparr>hh_servicePath := defaultServicePath url method\<rparr> else h0);
          ci1 = (ConnectionInfo_new url method version)
                  \<lparr>ci_port := client_port addr, ci_ip := client_ip addr, ci_uriParam := uriParam_defaults, ci_httpHeaders := h\<rparr>
      in cpp_bind (strToLower tenantBuf (hh_tenant h)) (\<lambda>tenant.
           let (f, cs) = wantedOutputSupported cfg (ci_apiVersion ci1) (hh_accept h) (ci_charset ci1);
               ci2 = ci1\<lparr>ci_tenantFromHttpHeader := c_str tenant, ci_charset := cs,
                         ci_outFormat := (if f = NOFORMAT then XML else f)\<rparr>
           in cpp_bind (urlCheck ci2) (\<lambda>(ok, ci3).
                if \<not> ok then Ret (restReply cfg (ci_answer ci3) ci3)
                else connectionTreat_checks cfg args ci3)))"

text \<open>
  The payload is taken when all of it has come; the second result says whether it was. The copy and its
  final zero byte go to a buffer of \<open>STATIC_BUFFER_SIZE + 1\<close> bytes or to a new one of
  \<open>contentLength + 1\<close> bytes.
\<close>

abbreviation PAYLOAD_MAX_SIZE :: nat where "PAYLOAD_MAX_SIZE \<equiv> 1048576"
abbreviation STATIC_BUFFER_SIZE :: nat where "STATIC_BUFFER_SIZE \<equiv> 32768"

definition payload_buffer :: "nat \<Rightarrow> nat" where
  "payload_buffer contentLength =
     (if contentLength > STATIC_BUFFER_SIZE then contentLength + 1 else STATIC_BUFFER_SIZE + 1)"

definition connectionTreat_data :: "rest_config \<Rightarrow> string \<Rightarrow> ConnectionInfo \<Rightarrow> (ConnectionInfo \<times> bool) cpp" where
  "connectionTreat_data cfg upload_data ci =
     (let dataLen = length upload_data; contentLength = hh_contentLength (ci_httpHeaders ci)
      in if dataLen = contentLength then
           (if contentLength \<le> PAYLOAD_MAX_SIZE then
              (if dataLen < payload_buffer contentLength
               then Ret (ci\<lparr>ci_payload := Some (upload_data @ [NUL]), ci_payloadSize := int dataLen\<rparr>, True)
               else UB)
            else
              (let (reply, ci2) = restErrorReplyGet ci (ci_outFormat ci) [] (ci_url ci) SccRequestEntityTooLarge
                     (''payload size: '' @ int_str (wrap32 (int contentLength)) @ '', max size supported: '' @ nat_str PAYLOAD_MAX_SIZE)
               in Ret (ci2\<lparr>ci_answer := reply, ci_httpStatusCode := SccRequestEntityTooLarge\<rparr>, True)))
         else Ret (ci, False))"

text \<open>\<open>strncasecmp (url, "/log/", 5) == 0\<close>\<close>

definition is_log_url :: "string \<Rightarrow> bool" where
  "is_log_url url \<longleftrightarrow> map to_lower (take 5 (c_str url)) = ''/log/''"

text \<open>
  What serving a request yields: \<open>None\<close> when the thread waits for a semaphore for ever, else the result
  or undefined behaviour.
\<close>

fun served_bind :: "'a cpp option \<Rightarrow> ('a \<Rightarrow> 'b cpp option) \<Rightarrow> 'b cpp option" where
  "served_bind None f = None"
| "served_bind (Some UB) f = Some UB"
| "served_bind (Some (Ret x)) f = f x"

definition connectionTreat_last ::
  "rest_config \<Rightarrow> (ConnectionInfo \<Rightarrow> 'w \<Rightarrow> (ConnectionInfo \<times> 'w) cpp option) \<Rightarrow> string \<Rightarrow> ConnectionInfo \<Rightarrow> 'w
   \<Rightarrow> (ConnectionInfo \<times> 'w) cpp option" where
  "connectionTreat_last cfg serveFunction url ci w =
     (if (ci_verb ci = POST \<or> ci_verb ci = PUT) \<and> hh_contentLength (ci_httpHeaders ci) = 0 \<and> \<not> is_log_url (ci_url ci) then
        (let (errorMsg, ci2) = restErrorReplyGet ci (ci_outFormat ci) [] url SccLengthRequired
               ''Zero/No Content-Length in PUT/POST request''
         in Some (Ret (restReply cfg errorMsg (ci2\<lparr>ci_httpStatusCode := SccLengthRequired\<rparr>), w)))
      else if ci_answer ci \<noteq> [] then Some (Ret (restReply cfg (ci_answer ci) ci, w))
      else serveFunction ci w)"

text \<open>
  A connection from the headers to the response. The library does not call again once a response has
  been queued; it delivers the payload, if there is one, and then calls the last time.
\<close>

definition treat_connection ::
  "rest_config \<Rightarrow> (ConnectionInfo \<Rightarrow> 'w \<Rightarrow> (ConnectionInfo \<times> 'w) cpp option) \<Rightarrow> nat list option \<Rightarrow> (string \<times> string) list
   \<Rightarrow> (string \<times> string option) list \<Rightarrow> char list \<Rightarrow> string \<Rightarrow> string \<Rightarrow> string \<Rightarrow> string \<Rightarrow> 'w
   \<Rightarrow> (ConnectionInfo \<times> 'w) cpp option" where
  "treat_connection cfg serveFunction addr headers args tenantBuf url method version payload w =
     served_bind (Some (connectionTreat_first cfg addr headers args tenantBuf url method version)) (\<lambda>ci.
       if ci_replies ci \<noteq> [] then Some (Ret (ci, w))
       else served_bind (Some (if payload = [] then Ret (ci, True) else connectionTreat_data cfg payload ci)) (\<lambda>(ci2, acked).
         connectionTreat_last cfg serveFunction url ci2 w))"


section \<open>Undefined behaviour of the first call\<close>

lemma cpp_bind_UB_iff: "cpp_bind m f = UB \<longleftrightarrow> m = UB \<or> (\<exists>x. m = Ret x \<and> f x = UB)"
  by (cases m) auto

definition null_argument :: "string \<times> string option \<Rightarrow> bool" where
  "null_argument a \<longleftrightarrow> snd a = None \<and>
     fst a \<in> {URI_PARAM_NOTIFY_FORMAT, URI_PARAM_PAGINATION_OFFSET, URI_PARAM_PAGINATION_LIMIT}"

lemma uriArgumentGet_UB: "uriArgumentGet k v ci = UB \<longleftrightarrow> null_argument (k, v)"
  by (cases v) (simp_all add: uriArgumentGet_def null_argument_def Let_def)

lemma uriArguments_UB: "uriArguments args ci = UB \<longleftrightarrow> list_ex null_argument args"
  by (induction args ci rule: uriArguments.induct)
    (auto simp: cpp_bind_UB_iff uriArgumentGet_UB dest: cpp.exhaust split: cpp.splits,
     metis cpp.exhaust uriArgumentGet_UB)

definition all_slashes :: "string \<Rightarrow> bool" where
  "all_slashes s \<longleftrightarrow> list_all (\<lambda>c. c = CHR ''/'') (c_str s)"

lemma rev_dropWhile_Nil: "rev (dropWhile P (rev s)) = [] \<longleftrightarrow> list_all P s"
  by (simp add: list_all_iff)

lemma urlCheck_UB: "urlCheck ci = UB \<longleftrightarrow> \<not> forbiddenChars (Some (c_str (ci_url ci))) \<and> all_slashes (ci_url ci)"
  by (simp add: urlCheck_def Let_def all_slashes_def list_all_iff)

lemma all_slashes_allowed: "all_slashes s \<Longrightarrow> \<not> forbiddenChars (Some (c_str s))"
proof -
  have "list_all (\<lambda>c. c = CHR ''/'') t \<Longrightarrow> \<not> forbiddenChars_loop t" for t by (induction t) auto
  then show "all_slashes s \<Longrightarrow> \<not> forbiddenChars (Some (c_str s))" by (simp add: all_slashes_def forbiddenChars_def)
qed

lemma urlCheck_Ret:
  "urlCheck ci = Ret (ok, ci') \<Longrightarrow> ok \<longleftrightarrow> \<not> forbiddenChars (Some (c_str (ci_url ci)))"
  by (auto simp: urlCheck_def Let_def split: if_splits)

lemma connectionTreat_checks_UB: "connectionTreat_checks cfg args ci = UB \<longleftrightarrow> list_ex null_argument args"
  by (auto simp: connectionTreat_checks_def Let_def cpp_bind_UB_iff uriArguments_UB split: prod.splits)

lemma strToLower_UB: "strToLower to frm = UB \<longleftrightarrow> length to < length (c_str frm) + 1"
  by (simp add: strToLower_def Let_def strToLower_loop_eq)

text \<open>The tenant in the headers of a request.\<close>

definition header_tenant :: "(string \<times> string) list \<Rightarrow> string" where
  "header_tenant headers = hh_tenant (httpHeaders_all headers HttpHeaders_new)"

lemma connectionTreat_first_UB:
  "connectionTreat_first cfg addr headers args tenantBuf url method version = UB \<longleftrightarrow>
     length tenantBuf < length (c_str (header_tenant headers)) + 1 \<or>
     all_slashes url \<or>
     \<not> forbiddenChars (Some (c_str url)) \<and> list_ex null_argument args"
proof -
  let ?h0 = "httpHeaders_all headers HttpHeaders_new"
  let ?h = "if \<not> hh_servicePathReceived ?h0 then ?h0\<lparr>hh_servicePath := defaultServicePath url method\<rparr> else ?h0"
  have t: "hh_tenant ?h = header_tenant headers" by (simp add: header_tenant_def)
  have rest: "cpp_bind (urlCheck ci2) (\<lambda>(ok, ci3). if \<not> ok then Ret (restReply cfg (ci_answer ci3) ci3)
        else connectionTreat_checks cfg args ci3) = UB \<longleftrightarrow>
      all_slashes url \<or> \<not> forbiddenChars (Some (c_str url)) \<and> list_ex null_argument args"
    if "ci_url ci2 = url" for ci2
  proof (cases "urlCheck ci2")
    case (Ret r)
    obtain ok ci3 where r: "r = (ok, ci3)" by (cases r)
    have "\<not> all_slashes url" using Ret urlCheck_UB [of ci2] all_slashes_allowed that by auto
    with Ret r urlCheck_Ret [of ci2 ok ci3] that show ?thesis by (auto simp: connectionTreat_checks_UB)
  next
    case UB
    with urlCheck_UB [of ci2] that show ?thesis by simp
  qed
  show ?thesis
  proof (cases "strToLower tenantBuf (header_tenant headers)")
    case (Ret x)
    then have "\<not> length tenantBuf < length (c_str (header_tenant headers)) + 1"
      using strToLower_UB by (metis cpp.distinct(1))
    with Ret show ?thesis
      unfolding connectionTreat_first_def Let_def t
      by (auto simp: rest ConnectionInfo_new_def split: prod.splits)
  next
    case UB
    then have "length tenantBuf < length (c_str (header_tenant headers)) + 1"
      using strToLower_UB by blast
    with UB show ?thesis
      unfolding connectionTreat_first_def Let_def t by simp
  qed
qed


section \<open>Service paths that are accepted\<close>

definition path_component_ok :: "string \<Rightarrow> bool" where
  "path_component_ok c \<longleftrightarrow> length c \<le> 50 \<and> list_all (\<lambda>x. is_alnum x \<or> x = CHR ''_'') c"

fun path_components_ok :: "string list \<Rightarrow> bool" where
  "path_components_ok [] = True"
| "path_components_ok [c] \<longleftrightarrow> c = ''#'' \<or> path_component_ok c"
| "path_components_ok (c # d # cs) \<longleftrightarrow> path_component_ok c \<and> path_components_ok (d # cs)"

text \<open>Absolute, at most ten components, each of at most fifty letters, digits and underscores; the last may be a hash.\<close>

definition servicePath_ok :: "string \<Rightarrow> bool" where
  "servicePath_ok s \<longleftrightarrow> take 1 s = ''/'' \<and>
     (let t = dropWhile (\<lambda>c. c = CHR ''/'') s
      in t = [] \<or> length (split_on (CHR ''/'') t) \<le> 10 \<and> path_components_ok (split_on (CHR ''/'') t))"

lemma servicePath_components_0:
  assumes "\<forall>c\<in>set comps. NUL \<notin> set c"
  shows "fst (servicePath_components comps ci) = 0 \<longleftrightarrow> path_components_ok comps"
    and "path_components_ok comps \<Longrightarrow> snd (servicePath_components comps ci) = ci"
proof -
  have "(fst (servicePath_components comps ci) = 0 \<longleftrightarrow> path_components_ok comps) \<and>
      (path_components_ok comps \<longrightarrow> snd (servicePath_components comps ci) = ci)"
    using assms
  proof (induction comps rule: path_components_ok.induct)
    case (2 c)
    then have c: "c_str c = c" by (simp add: c_str_id)
    have h: "c_str ''#'' = ''#''" by (simp add: c_str_def)
    show ?case by (cases "c = ''#''") (auto simp: path_component_ok_def c h)
  next
    case (3 c d cs)
    then have c: "c_str c = c" by (simp add: c_str_id)
    show ?case using 3 by (auto simp: path_component_ok_def c)
  qed simp
  then show "fst (servicePath_components comps ci) = 0 \<longleftrightarrow> path_components_ok comps"
    and "path_components_ok comps \<Longrightarrow> snd (servicePath_components comps ci) = ci" by auto
qed

lemma servicePathCheck_rest_0:
  assumes "hh_servicePathReceived (ci_httpHeaders ci)" and "NUL \<notin> set s"
  shows "fst (servicePathCheck_rest s ci) = 0 \<longleftrightarrow> servicePath_ok s"
    and "servicePath_ok s \<Longrightarrow> snd (servicePathCheck_rest s ci) = ci"
proof -
  let ?t = "dropWhile (\<lambda>c. c = CHR ''/'') s"
  have nn: "\<forall>c\<in>set (split_on (CHR ''/'') ?t). NUL \<notin> set c"
    using split_on_pieces assms(2) by (meson in_mono set_dropWhileD)
  have sp: "stringSplit s (CHR ''/'') [] = (if ?t = [] then (0, []) else (length (split_on (CHR ''/'') ?t), split_on (CHR ''/'') ?t))"
    by (simp add: stringSplit_eq Let_def c_str_id [OF assms(2)])
  show "fst (servicePathCheck_rest s ci) = 0 \<longleftrightarrow> servicePath_ok s"
    using assms(1) servicePath_components_0(1) [OF nn, of ci] sp
    by (cases "?t = []") (auto simp: servicePathCheck_rest_def servicePath_ok_def Let_def)
  show "servicePath_ok s \<Longrightarrow> snd (servicePathCheck_rest s ci) = ci"
    using assms(1) servicePath_components_0(2) [OF nn, of ci] sp
    by (cases "?t = []") (auto simp: servicePathCheck_rest_def servicePath_ok_def Let_def)
qed

lemma servicePaths_check_0:
  assumes "hh_servicePathReceived (ci_httpHeaders ci)" and "\<forall>p\<in>set ps. NUL \<notin> set p"
  shows "(fst (servicePaths_check ps ci) = 0 \<longleftrightarrow> list_all servicePath_ok ps) \<and>
    (list_all servicePath_ok ps \<longrightarrow> snd (servicePaths_check ps ci) = ci)"
  using assms
proof (induction ps)
  case (Cons p ps)
  obtain s ci' where r: "servicePathCheck_rest p ci = (s, ci')" by (cases "servicePathCheck_rest p ci")
  with Cons servicePathCheck_rest_0 [of ci p] show ?case by (auto split: if_splits)
qed simp

lemma removeTrailingSlash_set: "set (removeTrailingSlash p) \<subseteq> set p"
proof (induction p rule: removeTrailingSlash.induct)
  case (1 p)
  then show ?case
    by (subst removeTrailingSlash.simps) (auto dest: in_set_butlastD)
qed

text \<open>The paths of the header, as they are taken over.\<close>

definition header_paths :: "string \<Rightarrow> string list" where
  "header_paths s =
     (let t = dropWhile (\<lambda>c. c = CHR '','') (c_str s)
      in if t = [] then [] else map (\<lambda>p. removeTrailingSlash (wsStrip p)) (split_on (CHR '','') t))"

lemma servicePathSplit_spec:
  assumes "hh_servicePathReceived (ci_httpHeaders ci)" and "ci_servicePathV ci = []"
  shows "fst (servicePathSplit ci) = 0 \<longleftrightarrow>
      length (header_paths (ci_servicePath ci)) \<le> 10 \<and> list_all servicePath_ok (header_paths (ci_servicePath ci))"
    and "fst (servicePathSplit ci) = 0 \<Longrightarrow>
      snd (servicePathSplit ci) = ci\<lparr>ci_servicePathV := header_paths (ci_servicePath ci)\<rparr>"
proof -
  let ?t = "dropWhile (\<lambda>c. c = CHR '','') (c_str (ci_servicePath ci))"
  let ?ps = "split_on (CHR '','') ?t" and ?f = "\<lambda>p. removeTrailingSlash (wsStrip p)"
  have nn: "\<forall>p\<in>set (map ?f ?ps). NUL \<notin> set p"
    using removeTrailingSlash_set wsStrip_no_nul by fastforce
  have sp: "stringSplit (ci_servicePath ci) (CHR '','') [] = (if ?t = [] then (0, []) else (length ?ps, ?ps))"
    by (simp add: stringSplit_eq Let_def)
  have chk: "(fst (servicePaths_check (map ?f ?ps) ci') = 0 \<longleftrightarrow> list_all servicePath_ok (map ?f ?ps)) \<and>
      (list_all servicePath_ok (map ?f ?ps) \<longrightarrow> snd (servicePaths_check (map ?f ?ps) ci') = ci')"
    if "hh_servicePathReceived (ci_httpHeaders ci')" for ci'
    using servicePaths_check_0 [OF that nn] .
  have empty: "?t = [] \<Longrightarrow> servicePathSplit ci = (0, ci\<lparr>ci_servicePathV := []\<rparr>)"
    using sp assms(2) by (simp add: servicePathSplit_def)
  have many: "?t \<noteq> [] \<Longrightarrow> length ?ps > 10 \<Longrightarrow> fst (servicePathSplit ci) = - 1"
    using sp assms(2) by (simp add: servicePathSplit_def)
  have few: "?t \<noteq> [] \<Longrightarrow> length ?ps \<le> 10 \<Longrightarrow>
      servicePathSplit ci = servicePaths_check (map ?f ?ps) (ci\<lparr>ci_servicePathV := map ?f ?ps\<rparr>)"
    unfolding servicePathSplit_def assms(2) sp by (simp add: Let_def del: dropWhile_eq_Nil_conv)
  have hp: "header_paths (ci_servicePath ci) = (if ?t = [] then [] else map ?f ?ps)"
    by (simp only: header_paths_def Let_def)
  show "fst (servicePathSplit ci) = 0 \<longleftrightarrow>
      length (header_paths (ci_servicePath ci)) \<le> 10 \<and> list_all servicePath_ok (header_paths (ci_servicePath ci))"
    using many few chk [of "ci\<lparr>ci_servicePathV := map ?f ?ps\<rparr>"] assms(1)
    by (cases "?t = []"; cases "length ?ps \<le> 10") (simp_all add: hp empty del: dropWhile_eq_Nil_conv)
  show "fst (servicePathSplit ci) = 0 \<Longrightarrow>
      snd (servicePathSplit ci) = ci\<lparr>ci_servicePathV := header_paths (ci_servicePath ci)\<rparr>"
    using many few chk [of "ci\<lparr>ci_servicePathV := map ?f ?ps\<rparr>"] assms(1)
    by (cases "?t = []"; cases "length ?ps \<le> 10") (simp_all add: hp empty del: dropWhile_eq_Nil_conv)
qed


section \<open>URI parameters that are accepted\<close>

lemma atoi_1000: "atoi ''1000'' = 1000"
  by code_simp

lemma limit_status:
  assumes "ci_httpStatusCode ci = SccOk" and "uriArgumentGet URI_PARAM_PAGINATION_LIMIT (Some s) ci = Ret ci'"
  shows "ci_httpStatusCode ci' = SccOk \<longleftrightarrow> list_all is_digit s \<and> atoi s \<le> 1000 \<and> atoi s \<noteq> 0"
    and "ci_httpStatusCode ci' = SccOk \<Longrightarrow> ci' = ci\<lparr>ci_uriParam := (ci_uriParam ci)(URI_PARAM_PAGINATION_LIMIT \<mapsto> s)\<rparr>"
  using assms by (auto simp: uriArgumentGet_def Let_def bad_param_def atoi_1000 split: if_splits)

section \<open>The payload\<close>

lemma connectionTreat_data_Ret: "connectionTreat_data cfg d ci \<noteq> UB"
  by (auto simp: connectionTreat_data_def payload_buffer_def Let_def split: prod.splits)

section \<open>Every request is answered\<close>

lemma restReply_replies:
  "rc_response cfg answer \<Longrightarrow> \<exists>r. ci_replies (restReply cfg answer ci) = ci_replies ci @ [r] \<and>
     hr_status r = ci_httpStatusCode ci \<and> hr_body r = answer"
  by (simp add: restReply_def Let_def)


lemma restReply_queues: "rc_response cfg answer \<Longrightarrow> ci_replies (restReply cfg answer ci) \<noteq> []"
  by (simp add: restReply_def Let_def)


section \<open>Verb and URL through the first call\<close>

lemma url_kept [simp]:
  "ci_url (restReply cfg answer ci) = ci_url ci"
  "ci_url (snd (restErrorReplyGet ci format indent request code details)) = ci_url ci"
  "ci_url (path_error msg ci) = ci_url ci"
  "ci_url (bad_param msg ci) = ci_url ci"
  "ci_url (snd (unsupported_media details ci)) = ci_url ci"
  "ci_method (restReply cfg answer ci) = ci_method ci"
  "ci_method (snd (restErrorReplyGet ci format indent request code details)) = ci_method ci"
  "ci_method (path_error msg ci) = ci_method ci"
  "ci_method (bad_param msg ci) = ci_method ci"
  "ci_method (snd (unsupported_media details ci)) = ci_method ci"
  by (simp_all add: restReply_def restErrorReplyGet_def path_error_def bad_param_def unsupported_media_def Let_def)

lemma pair_url: "p = (a, b) \<Longrightarrow> ci_url (snd p) = u \<Longrightarrow> ci_url b = u"
  by simp

lemma pair_method: "p = (a, b) \<Longrightarrow> ci_method (snd p) = u \<Longrightarrow> ci_method b = u"
  by simp

lemma servicePath_components_url [simp]: "ci_url (snd (servicePath_components comps ci)) = ci_url ci" "ci_method (snd (servicePath_components comps ci)) = ci_method ci"
  by (induction comps) (auto split: if_splits)

lemma servicePathCheck_rest_url [simp]: "ci_url (snd (servicePathCheck_rest s ci)) = ci_url ci" "ci_method (snd (servicePathCheck_rest s ci)) = ci_method ci"
  by (simp_all add: servicePathCheck_rest_def Let_def split: prod.splits)

lemma servicePaths_check_kept:
  "ci_url (snd (servicePaths_check ps ci)) = ci_url ci \<and> ci_method (snd (servicePaths_check ps ci)) = ci_method ci"
proof (induction ps arbitrary: ci)
  case (Cons p ps)
  obtain s ci1 where r: "servicePathCheck_rest p ci = (s, ci1)" by (cases "servicePathCheck_rest p ci")
  from Cons pair_url [OF r servicePathCheck_rest_url(1)] pair_method [OF r servicePathCheck_rest_url(2)] show ?case by (simp add: r)
qed simp

lemmas servicePaths_check_url [simp] = servicePaths_check_kept [THEN conjunct1] servicePaths_check_kept [THEN conjunct2]

lemma servicePathSplit_url [simp]: "ci_url (snd (servicePathSplit ci)) = ci_url ci" "ci_method (snd (servicePathSplit ci)) = ci_method ci"
  by (simp_all add: servicePathSplit_def Let_def split: prod.splits)

lemma contentTypeCheck_url [simp]: "ci_url (snd (contentTypeCheck cfg ci)) = ci_url ci" "ci_method (snd (contentTypeCheck cfg ci)) = ci_method ci"
  by (simp_all add: contentTypeCheck_def Let_def)

lemma outFormatCheck_url [simp]: "ci_url (snd (outFormatCheck cfg ci)) = ci_url ci" "ci_method (snd (outFormatCheck cfg ci)) = ci_method ci"
  by (simp_all add: outFormatCheck_def restErrorReplyGet_def Let_def split: prod.splits)

lemma uriArguments_url: "uriArguments args ci = Ret ci' \<Longrightarrow> ci_url ci' = ci_url ci \<and> ci_method ci' = ci_method ci"
proof (induction args ci rule: uriArguments.induct)
  case (2 k v args ci)
  then obtain ci1 where "uriArgumentGet k v ci = Ret ci1" "uriArguments args ci1 = Ret ci'"
    by (auto simp: cpp_bind_Ret_iff)
  moreover from this(1) have "ci_url ci1 = ci_url ci \<and> ci_method ci1 = ci_method ci"
    by (auto simp: uriArgumentGet_def Let_def split: if_splits option.splits)
  ultimately show ?case using 2 by simp
qed simp

lemma connectionTreat_checks_url:
  "connectionTreat_checks cfg args ci = Ret ci' \<Longrightarrow> ci_url ci' = ci_url ci \<and> ci_method ci' = ci_method ci"
proof -
  assume r: "connectionTreat_checks cfg args ci = Ret ci'"
  define ci0 where "ci0 = ci\<lparr>ci_servicePath := hh_servicePath (ci_httpHeaders ci)\<rparr>"
  obtain s ci1 where sp: "servicePathSplit ci0 = (s, ci1)" by (cases "servicePathSplit ci0")
  define ci3 where "ci3 = (if s \<noteq> 0 then restReply cfg (ci_answer ci1) ci1 else ci1)
    \<lparr>ci_apiVersion := apiVersionGet (ci_url (if s \<noteq> 0 then restReply cfg (ci_answer ci1) ci1 else ci1))\<rparr>"
  obtain c ci4 where ct: "contentTypeCheck cfg ci3 = (c, ci4)" by (cases "contentTypeCheck cfg ci3")
  obtain o1 ci6 where of: "outFormatCheck cfg ci4 = (o1, ci6)" by (cases "outFormatCheck cfg ci4")
  define ci5 where "ci5 = (if c \<noteq> 0 then restReply cfg (ci_answer ci4) ci4
    else if o1 \<noteq> 0 then restReply cfg (ci_answer ci6) ci6
    else ci6\<lparr>ci_inFormat := formatParse (hh_contentType (ci_httpHeaders ci6))\<rparr>)"
  have "ci_url ci1 = ci_url ci" "ci_method ci1 = ci_method ci"
    using pair_url [OF sp servicePathSplit_url(1)] pair_method [OF sp servicePathSplit_url(2)] by (simp_all add: ci0_def)
  then have "ci_url ci3 = ci_url ci" "ci_method ci3 = ci_method ci" by (simp_all add: ci3_def)
  then have k4: "ci_url ci4 = ci_url ci" "ci_method ci4 = ci_method ci"
    using pair_url [OF ct contentTypeCheck_url(1)] pair_method [OF ct contentTypeCheck_url(2)] by simp_all
  then have "ci_url ci6 = ci_url ci" "ci_method ci6 = ci_method ci"
    using pair_url [OF of outFormatCheck_url(1)] pair_method [OF of outFormatCheck_url(2)] by simp_all
  with k4 have u5: "ci_url ci5 = ci_url ci" "ci_method ci5 = ci_method ci" by (simp_all add: ci5_def)
  from r obtain ci7 where u: "uriArguments args ci5 = Ret ci7"
      and "ci' = restReply cfg (ci_answer ci7) ci7 \<or> ci' = ci7 \<or> (\<exists>p. ci' = ci7\<lparr>ci_uriParam := p\<rparr>)"
    unfolding connectionTreat_checks_def Let_def ci0_def [symmetric] sp prod.case ci3_def [symmetric] ct of ci5_def [symmetric]
    by (auto simp: cpp_bind_Ret_iff split: if_splits)
  with uriArguments_url [OF u] u5 show ?thesis by auto
qed

text \<open>The URL that is served: slashes at its end are gone.\<close>

lemma c_str_pad:
  assumes "NUL \<notin> set s"
  shows "c_str (s @ replicate n NUL @ drop (length (c_str url)) url) = s"
proof (cases n)
  case 0
  have "drop (length (c_str url)) url = dropWhile (\<lambda>c. c \<noteq> NUL) url" by (simp add: c_str_def dropWhile_eq_drop)
  moreover have "d = [] \<or> hd d = NUL" if "d = dropWhile (\<lambda>c. c \<noteq> NUL) url" for d
    using that hd_dropWhile [of "\<lambda>c. c \<noteq> NUL" url] by auto
  ultimately have "drop (length (c_str url)) url = [] \<or> (\<exists>r. drop (length (c_str url)) url = NUL # r)"
    by (metis list.collapse)
  with 0 assms show ?thesis by (auto simp: c_str_id c_str_append_nul)
next
  case (Suc m)
  with assms show ?thesis by (simp add: c_str_append_nul)
qed

lemma connectionTreat_first_cases:
  assumes "connectionTreat_first cfg addr headers args tenantBuf url method version = Ret ci"
  obtains ci2 ok ci3 where "ci_url ci2 = url" "ci_method ci2 = method" "urlCheck ci2 = Ret (ok, ci3)"
    "(if \<not> ok then Ret (restReply cfg (ci_answer ci3) ci3) else connectionTreat_checks cfg args ci3) = Ret ci"
proof -
  define h0 where "h0 = httpHeaders_all headers HttpHeaders_new"
  define h where "h = (if \<not> hh_servicePathReceived h0 then h0\<lparr>hh_servicePath := defaultServicePath url method\<rparr> else h0)"
  define ci1 where "ci1 = (ConnectionInfo_new url method version)
    \<lparr>ci_port := client_port addr, ci_ip := client_ip addr, ci_uriParam := uriParam_defaults, ci_httpHeaders := h\<rparr>"
  obtain f cs where w: "wantedOutputSupported cfg (ci_apiVersion ci1) (hh_accept h) (ci_charset ci1) = (f, cs)"
    by (cases "wantedOutputSupported cfg (ci_apiVersion ci1) (hh_accept h) (ci_charset ci1)")
  from assms obtain tenant ok ci3 where
      uc: "urlCheck (ci1\<lparr>ci_tenantFromHttpHeader := c_str tenant, ci_charset := cs,
        ci_outFormat := (if f = NOFORMAT then XML else f)\<rparr>) = Ret (ok, ci3)" (is "urlCheck ?ci2 = _")
      and r: "(if \<not> ok then Ret (restReply cfg (ci_answer ci3) ci3) else connectionTreat_checks cfg args ci3) = Ret ci"
    unfolding connectionTreat_first_def Let_def h0_def [symmetric] h_def [symmetric] ci1_def [symmetric] w prod.case
    by (auto simp: cpp_bind_Ret_iff)
  have "ci_url ?ci2 = url" "ci_method ?ci2 = method" by (simp_all add: ci1_def ConnectionInfo_new_def)
  from that [OF this uc r] show thesis .
qed

lemma connectionTreat_first_url:
  assumes "connectionTreat_first cfg addr headers args tenantBuf url method version = Ret ci"
    and "\<not> forbiddenChars (Some (c_str url))"
  shows "c_str (ci_url ci) = rev (dropWhile (\<lambda>c. c = CHR ''/'') (rev (c_str url)))"
proof -
  obtain ci2 ok ci3 where u2: "ci_url ci2 = url" and m2: "ci_method ci2 = method" and uc: "urlCheck ci2 = Ret (ok, ci3)"
      and r: "(if \<not> ok then Ret (restReply cfg (ci_answer ci3) ci3) else connectionTreat_checks cfg args ci3) = Ret ci"
    using connectionTreat_first_cases [OF assms(1)] .
  have "ok" using urlCheck_Ret [OF uc] assms(2) u2 by simp
  then have "ci_url ci = ci_url ci3" using r connectionTreat_checks_url by simp
  moreover let ?s = "rev (dropWhile (\<lambda>c. c = CHR ''/'') (rev (c_str url)))"
  have "ci_url ci3 = ?s @ replicate (length (c_str url) - length ?s) NUL @ drop (length (c_str url)) url"
    using uc assms(2) u2 by (auto simp: urlCheck_def Let_def split: if_splits)
  moreover have "NUL \<notin> set ?s" by (auto dest: set_dropWhileD)
  ultimately show ?thesis by (simp add: c_str_pad)
qed


lemma connectionTreat_first_method:
  assumes "connectionTreat_first cfg addr headers args tenantBuf url method version = Ret ci"
  shows "ci_method ci = method"
proof -
  obtain ci2 ok ci3 where m2: "ci_method ci2 = method" and uc: "urlCheck ci2 = Ret (ok, ci3)"
      and r: "(if \<not> ok then Ret (restReply cfg (ci_answer ci3) ci3) else connectionTreat_checks cfg args ci3) = Ret ci"
    using connectionTreat_first_cases [OF assms] by metis
  have "ci_method ci3 = method" using uc m2 by (auto simp: urlCheck_def Let_def split: if_splits)
  then show ?thesis using r connectionTreat_checks_url by (auto split: if_splits)
qed

text \<open>A URL with forbidden characters is answered at once.\<close>

lemma connectionTreat_first_refuses:
  assumes "connectionTreat_first cfg addr headers args tenantBuf url method version = Ret ci"
    and "\<forall>s. rc_response cfg s" and "forbiddenChars (Some (c_str url))"
  shows "ci_replies ci \<noteq> []"
proof -
  obtain ci2 ok ci3 where u2: "ci_url ci2 = url" and m2: "ci_method ci2 = method" and uc: "urlCheck ci2 = Ret (ok, ci3)"
      and r: "(if \<not> ok then Ret (restReply cfg (ci_answer ci3) ci3) else connectionTreat_checks cfg args ci3) = Ret ci"
    using connectionTreat_first_cases [OF assms(1)] .
  have "\<not> ok" using urlCheck_Ret [OF uc] assms(3) u2 by simp
  with r have "ci = restReply cfg (ci_answer ci3) ci3" by simp
  then show ?thesis using assms(2) by (simp add: restReply_def Let_def)
qed

lemma connectionTreat_data_url:
  "connectionTreat_data cfg d ci = Ret (ci', acked) \<Longrightarrow> ci_url ci' = ci_url ci \<and> ci_method ci' = ci_method ci"
  by (auto simp: connectionTreat_data_def restErrorReplyGet_def Let_def split: if_splits)

section \<open>Properties\<close>

text \<open>C26: The first call of a connection has undefined behaviour in exactly three cases: the tenant of the
  \<open>Fiware-Service\<close> header does not fit into the buffer on the stack, the URL consists of slashes only
  (then \<open>urlCheck\<close> reads the byte before the string), or, for an allowed URL, one of the parameters
  \<open>notifyFormat\<close>, \<open>offset\<close> and \<open>limit\<close> is given without a value (a null pointer is read).\<close>

theorem first_call_undefined:
  "connectionTreat_first cfg addr headers args tenantBuf url method version = UB \<longleftrightarrow>
     length tenantBuf < length (c_str (header_tenant headers)) + 1 \<or>
     all_slashes url \<or>
     \<not> forbiddenChars (Some (c_str url)) \<and> list_ex null_argument args"
  by (rule connectionTreat_first_UB)

text \<open>C29: The service paths of a request are accepted exactly if there are at most ten of them and each is
  absolute and has at most ten components of at most fifty letters, digits and underscores (the last may
  be a hash); they are then stored without blanks around them and slashes at their ends.\<close>

theorem service_paths_accepted:
  assumes "hh_servicePathReceived (ci_httpHeaders ci)" and "ci_servicePathV ci = []"
  shows "(fst (servicePathSplit ci) = 0 \<longleftrightarrow>
      length (header_paths (ci_servicePath ci)) \<le> 10 \<and> list_all servicePath_ok (header_paths (ci_servicePath ci))) \<and>
    (fst (servicePathSplit ci) = 0 \<longrightarrow> snd (servicePathSplit ci) = ci\<lparr>ci_servicePathV := header_paths (ci_servicePath ci)\<rparr>)"
  using servicePathSplit_spec [OF assms] by blast

definition path_ci :: ConnectionInfo where
  "path_ci = (ConnectionInfo_new ''/v1/queryContext'' ''POST'' [])
     \<lparr>ci_httpHeaders := HttpHeaders_new\<lparr>hh_servicePathReceived := True\<rparr>, ci_servicePath := ''/Madrid/Gardens/ , /Lund/#''\<rparr>"

theorem service_paths_accepted_witness:
  "fst (servicePathSplit path_ci) = 0 \<and> ci_servicePathV (snd (servicePathSplit path_ci)) = [''/Madrid/Gardens'', ''/Lund/#'']"
proof -
  have p: "header_paths (ci_servicePath path_ci) = [''/Madrid/Gardens'', ''/Lund/#'']" by code_simp
  have "list_all servicePath_ok [''/Madrid/Gardens'', ''/Lund/#'']" by code_simp
  with service_paths_accepted [of path_ci] p show ?thesis by (simp add: path_ci_def ConnectionInfo_new_def)
qed

text \<open>The value of the parameter \<open>limit\<close> is accepted exactly if it consists of digits and \<open>atoi\<close> makes of it a
  number of at most 1000 that is not zero; it is then stored as it is. As \<open>atoi\<close> works on 32 bits, this
  includes numbers far beyond the maximum.\<close>

theorem limit_accepted:
  assumes "ci_httpStatusCode ci = SccOk" and "uriArgumentGet URI_PARAM_PAGINATION_LIMIT (Some s) ci = Ret ci'"
  shows "(ci_httpStatusCode ci' = SccOk \<longleftrightarrow> list_all is_digit s \<and> atoi s \<le> 1000 \<and> atoi s \<noteq> 0) \<and>
    (ci_httpStatusCode ci' = SccOk \<longrightarrow> ci' = ci\<lparr>ci_uriParam := (ci_uriParam ci)(URI_PARAM_PAGINATION_LIMIT \<mapsto> s)\<rparr>)"
  using limit_status [OF assms] by blast

theorem limit_accepted_witness:
  "\<exists>ci'. uriArgumentGet ''limit'' (Some ''4294967297'') path_ci = Ret ci' \<and> ci_httpStatusCode ci' = SccOk \<and>
     uriParam ci' ''limit'' = ''4294967297''"
proof -
  have "\<exists>ci'. uriArgumentGet ''limit'' (Some ''4294967297'') path_ci = Ret ci'"
    using uriArgumentGet_UB [of "''limit''" "Some ''4294967297''" path_ci] by (metis cpp.exhaust null_argument_def option.distinct(1) snd_conv)
  then obtain ci' where r: "uriArgumentGet ''limit'' (Some ''4294967297'') path_ci = Ret ci'" by blast
  have ok: "ci_httpStatusCode path_ci = SccOk" by (simp add: path_ci_def ConnectionInfo_new_def)
  have "list_all is_digit ''4294967297''" by code_simp
  moreover from this have "atoi ''4294967297'' = 1"
    by (simp add: atoi_def strtol_val_digits digits_val_def digit_val_def wrap32_def)
  ultimately have a: "list_all is_digit ''4294967297'' \<and> atoi ''4294967297'' \<le> 1000 \<and> atoi ''4294967297'' \<noteq> 0" by simp
  show ?thesis using limit_accepted [OF ok r] a r by (auto simp: uriParam_def)
qed

text \<open>The copy of the payload and its final zero byte never leave the buffer; a payload that has come in full and is
  not larger than the maximum is stored as it is, and a larger one is answered with 413.\<close>

theorem payload_in_bounds:
  "\<exists>ci' acked. connectionTreat_data cfg d ci = Ret (ci', acked) \<and>
     (acked \<longleftrightarrow> length d = hh_contentLength (ci_httpHeaders ci)) \<and>
     (if acked \<and> length d \<le> PAYLOAD_MAX_SIZE then ci_payload ci' = Some (d @ [NUL]) \<and> ci_payloadSize ci' = int (length d)
      else ci_payload ci' = ci_payload ci \<and> (if acked then ci_httpStatusCode ci' = SccRequestEntityTooLarge else ci' = ci))"
  by (auto simp: connectionTreat_data_def payload_buffer_def Let_def restErrorReplyGet_def split: prod.splits)

lemma keeps_replies:
  "contentTypeCheck cfg ci = (c, ci1) \<Longrightarrow> ci_replies ci1 = ci_replies ci \<and> (c \<noteq> 0 \<longrightarrow> ci_httpStatusCode ci1 = SccUnsupportedMediaType)"
  "uriArguments args ci = Ret ci2 \<Longrightarrow> ci_replies ci2 = ci_replies ci \<and> (ci_httpStatusCode ci \<noteq> SccOk \<longrightarrow> ci_httpStatusCode ci2 \<noteq> SccOk)"
proof -
  show "contentTypeCheck cfg ci = (c, ci1) \<Longrightarrow> ci_replies ci1 = ci_replies ci \<and> (c \<noteq> 0 \<longrightarrow> ci_httpStatusCode ci1 = SccUnsupportedMediaType)"
    by (auto simp: contentTypeCheck_def unsupported_media_def restErrorReplyGet_def Let_def split: if_splits)
  show "uriArguments args ci = Ret ci2 \<Longrightarrow> ci_replies ci2 = ci_replies ci \<and> (ci_httpStatusCode ci \<noteq> SccOk \<longrightarrow> ci_httpStatusCode ci2 \<noteq> SccOk)"
  proof (induction args ci rule: uriArguments.induct)
    case (2 k v args ci)
    then obtain ci1 where u: "uriArgumentGet k v ci = Ret ci1" "uriArguments args ci1 = Ret ci2"
      by (auto simp: cpp_bind_Ret_iff)
    from u(1) have "ci_replies ci1 = ci_replies ci \<and> (ci_httpStatusCode ci \<noteq> SccOk \<longrightarrow> ci_httpStatusCode ci1 \<noteq> SccOk)"
      by (auto simp: uriArgumentGet_def bad_param_def Let_def split: if_splits option.splits)
    with 2 u show ?case by simp
  qed simp
qed

lemma servicePathSplit_keeps:
  "ci_replies (snd (servicePathSplit ci)) = ci_replies ci \<and> ci_httpStatusCode (snd (servicePathSplit ci)) = ci_httpStatusCode ci \<and>
   ci_httpHeaders (snd (servicePathSplit ci)) = ci_httpHeaders ci"
proof -
  have c: "ci_replies (snd (servicePath_components comps ci)) = ci_replies ci \<and>
      ci_httpStatusCode (snd (servicePath_components comps ci)) = ci_httpStatusCode ci \<and>
      ci_httpHeaders (snd (servicePath_components comps ci)) = ci_httpHeaders ci" for comps ci
    by (induction comps) (auto simp: path_error_def split: if_splits)
  have r: "ci_replies (snd (servicePathCheck_rest s ci)) = ci_replies ci \<and>
      ci_httpStatusCode (snd (servicePathCheck_rest s ci)) = ci_httpStatusCode ci \<and>
      ci_httpHeaders (snd (servicePathCheck_rest s ci)) = ci_httpHeaders ci" for s ci
    using c by (simp add: servicePathCheck_rest_def path_error_def Let_def split: prod.splits)
  have "ci_replies (snd (servicePaths_check ps ci)) = ci_replies ci \<and>
      ci_httpStatusCode (snd (servicePaths_check ps ci)) = ci_httpStatusCode ci \<and>
      ci_httpHeaders (snd (servicePaths_check ps ci)) = ci_httpHeaders ci" for ps ci
  proof (induction ps arbitrary: ci)
    case (Cons p ps)
    obtain s ci1 where e: "servicePathCheck_rest p ci = (s, ci1)" by (cases "servicePathCheck_rest p ci")
    with r [of p ci] Cons show ?case by simp
  qed simp
  then show ?thesis by (simp add: servicePathSplit_def path_error_def Let_def split: prod.splits)
qed

lemma contentTypeCheck_code:
  "fst (contentTypeCheck cfg ci) = fst (contentTypeCheck cfg ci')" if "ci_httpHeaders ci = ci_httpHeaders ci'" "ci_apiVersion ci = ci_apiVersion ci'"
  using that by (simp add: contentTypeCheck_def unsupported_media_def restErrorReplyGet_def Let_def)

text \<open>A request whose \<open>Content-Type\<close> is not supported is answered more than once: the check answers, but the
  function goes on and answers again when it finds the status changed. If the service path is
  unacceptable too, that is answered before, with the status 200.\<close>

theorem errors_answered_more_than_once:
  assumes "\<forall>s. rc_response cfg s" and "connectionTreat_checks cfg args ci = Ret ci'"
    and "ci_httpStatusCode ci = SccOk" and "ci_replies ci = []"
    and "fst (contentTypeCheck cfg (ci\<lparr>ci_apiVersion := apiVersionGet (ci_url ci)\<rparr>)) \<noteq> 0"
  shows "\<exists>lastStatus. map hr_status (ci_replies ci') =
    (if fst (servicePathSplit (ci\<lparr>ci_servicePath := hh_servicePath (ci_httpHeaders ci)\<rparr>)) \<noteq> 0 then [SccOk] else []) @
    [SccUnsupportedMediaType, lastStatus]"
proof -
  define ci0 where "ci0 = ci\<lparr>ci_servicePath := hh_servicePath (ci_httpHeaders ci)\<rparr>"
  obtain s ci1 where sp: "servicePathSplit ci0 = (s, ci1)" by (cases "servicePathSplit ci0")
  define ci2 where "ci2 = (if s \<noteq> 0 then restReply cfg (ci_answer ci1) ci1 else ci1)"
  define ci3 where "ci3 = ci2\<lparr>ci_apiVersion := apiVersionGet (ci_url ci2)\<rparr>"
  obtain c ci4 where ct: "contentTypeCheck cfg ci3 = (c, ci4)" by (cases "contentTypeCheck cfg ci3")
  have st: "map hr_status (ci_replies (restReply cfg a x)) = map hr_status (ci_replies x) @ [ci_httpStatusCode x]" for a x
    using assms(1) by (simp add: restReply_def Let_def)
  have k1: "ci_replies ci1 = []" "ci_httpStatusCode ci1 = SccOk" "ci_httpHeaders ci1 = ci_httpHeaders ci"
    using servicePathSplit_keeps [of ci0] sp assms(3,4) by (simp_all add: ci0_def)
  have u1: "ci_url ci1 = ci_url ci" using pair_url [OF sp servicePathSplit_url(1)] by (simp add: ci0_def)
  have h3: "ci_httpHeaders ci3 = ci_httpHeaders ci" "ci_apiVersion ci3 = apiVersionGet (ci_url ci)"
    using k1 u1 by (simp_all add: ci3_def ci2_def restReply_def Let_def)
  have "c \<noteq> 0" using assms(5) ct contentTypeCheck_code [of ci3 "ci\<lparr>ci_apiVersion := apiVersionGet (ci_url ci)\<rparr>" cfg] h3 by simp
  then have k4: "ci_replies ci4 = ci_replies ci3" "ci_httpStatusCode ci4 = SccUnsupportedMediaType"
    using keeps_replies(1) [OF ct] by auto
  have r3: "map hr_status (ci_replies ci3) = (if s \<noteq> 0 then [SccOk] else [])"
    using k1 by (simp add: ci3_def ci2_def st)
  obtain ci7 where u: "uriArguments args (restReply cfg (ci_answer ci4) ci4) = Ret ci7"
      and e: "ci_httpStatusCode ci7 \<noteq> SccOk \<Longrightarrow> ci' = restReply cfg (ci_answer ci7) ci7"
    using assms(2) \<open>c \<noteq> 0\<close>
    unfolding connectionTreat_checks_def Let_def ci0_def [symmetric] sp prod.case ci2_def [symmetric] ci3_def [symmetric] ct
    by (auto simp: cpp_bind_Ret_iff split: if_splits)
  have "ci_httpStatusCode (restReply cfg (ci_answer ci4) ci4) \<noteq> SccOk" using k4 by (simp add: restReply_def Let_def)
  with keeps_replies(2) [OF u] e have "ci' = restReply cfg (ci_answer ci7) ci7"
      and "ci_replies ci7 = ci_replies (restReply cfg (ci_answer ci4) ci4)" by auto
  then show ?thesis using r3 k4 sp by (simp add: st ci0_def)
qed

definition rest_config0 :: rest_config where
  "rest_config0 = \<lparr>rc_acceptTextXml = False, rc_allowedOrigin = [], rc_response = (\<lambda>s. True)\<rparr>"

definition text_ci :: ConnectionInfo where
  "text_ci = (ConnectionInfo_new ''/v1/queryContext'' ''POST'' [])
     \<lparr>ci_httpHeaders := HttpHeaders_new\<lparr>hh_servicePathReceived := True, hh_servicePath := ''Madrid'', hh_contentType := ''text/plain'', hh_contentLength := 2\<rparr>\<rparr>"

theorem errors_answered_more_than_once_witness:
  "\<exists>ci' lastStatus. connectionTreat_checks rest_config0 [] text_ci = Ret ci' \<and>
     map hr_status (ci_replies ci') = [SccOk, SccUnsupportedMediaType, lastStatus]"
proof -
  obtain ci' where r: "connectionTreat_checks rest_config0 [] text_ci = Ret ci'"
    using connectionTreat_checks_UB [of rest_config0 "[]" text_ci] by (cases "connectionTreat_checks rest_config0 [] text_ci") auto
  have c: "fst (contentTypeCheck rest_config0 (text_ci\<lparr>ci_apiVersion := apiVersionGet (ci_url text_ci)\<rparr>)) \<noteq> 0"
    by (simp add: contentTypeCheck_def text_ci_def unsupported_media_def restErrorReplyGet_def Let_def rest_config0_def)
  have p: "list_all servicePath_ok (header_paths ''Madrid'') = False" by code_simp
  have s: "fst (servicePathSplit (text_ci\<lparr>ci_servicePath := hh_servicePath (ci_httpHeaders text_ci)\<rparr>)) \<noteq> 0"
    using servicePathSplit_spec(1) [of "text_ci\<lparr>ci_servicePath := hh_servicePath (ci_httpHeaders text_ci)\<rparr>"] p
    by (simp add: text_ci_def ConnectionInfo_new_def)
  have "ci_httpStatusCode text_ci = SccOk" "ci_replies text_ci = []" "\<forall>s. rc_response rest_config0 s"
    by (simp_all add: text_ci_def ConnectionInfo_new_def rest_config0_def)
  with errors_answered_more_than_once [OF _ r _ _ c] s r show ?thesis by auto
qed

end
