(* ===== verification/Rest_Service.thy ===== *)
theory Rest_Service
  imports Rest_Request
begin

text \<open>
  Dispatching a request: \<^verbatim>\<open>src/src/lib/rest/RestService.cpp\<close>, the data of a parsed payload
  (\<^verbatim>\<open>ngsi/ParseData.h\<close>) and the counters of \<^verbatim>\<open>common/statistics.cpp\<close>. A service of
  the vector names the routine that treats it; the routines and the two parsers are fields of the record
  \<open>broker\<close>. A routine works on the state \<open>'w\<close> of the broker, and like the operations of the backend it
  yields \<open>None\<close> when it waits for a semaphore for ever.
\<close>

section \<open>The data of a payload\<close>

record RegisterProviderRequest =
  rpr_metadataVector :: "Metadata list"
  rpr_duration :: Duration
  rpr_providingApplication :: ProvidingApplication
  rpr_registrationId :: string

record UpdateContextElementRequest =
  ucer_attributeDomainName :: string
  ucer_contextAttributeVector :: "ContextAttribute list"
  ucer_domainMetadataVector :: "Metadata list"

record AppendContextElementRequest =
  acer_entity :: EntityId
  acer_attributeDomainName :: string
  acer_contextAttributeVector :: "ContextAttribute list"
  acer_domainMetadataVector :: "Metadata list"

record UpdateContextAttributeRequest =
  upcar_type :: string
  upcar_contextValue :: string
  upcar_metadataVector :: "Metadata list"
  upcar_compoundValue :: "cvnode option"

text \<open>
  The parsed requests, and the responses that are kept with them. The restriction of a request is its scope
  vector; the metadata of the attributes of a registration, which the backend does not read, are listed apart
  (by registration and attribute, where a list that is too short stands for no metadata); the pointers that
  help the parsers have no field.
\<close>

record ParseData =
  pd_rcr :: RegisterContextRequest
  pd_rcr_attributeMetadata :: "Metadata list list list"
  pd_rcrs :: RegisterContextResponse
  pd_dcar :: DiscoverRequest
  pd_dcars :: DiscoverResponse
  pd_scar :: AvailabilityRequest
  pd_scar_scopeVector :: "Scope list"
  pd_ucas :: AvailabilityRequest
  pd_ucas_scopeVector :: "Scope list"
  pd_ucar_subscriptionId :: string
  pd_qcr :: QueryContextRequest
  pd_qcrs :: QueryContextResponse
  pd_scr :: SubscribeContextRequest
  pd_scr_scopeVector :: "Scope list"
  pd_uncr_subscriptionId :: string
  pd_upcr :: UpdateContextRequest
  pd_upcrs :: UpdateContextResponse
  pd_ucsr :: UpdateContextSubscriptionRequest
  pd_ucsr_scopeVector :: "Scope list"
  pd_ncr_subscriptionId :: string
  pd_ncr_contextElementResponseVector :: "ContextElementResponse list"
  pd_ncar_subscriptionId :: string
  pd_ncar_responseVector :: "(ContextRegistration \<times> Metadata list) list"
  pd_rpr :: RegisterProviderRequest
  pd_ucer :: UpdateContextElementRequest
  pd_acer :: AppendContextElementRequest
  pd_upcar :: UpdateContextAttributeRequest

definition ParseData_new :: ParseData where
  "ParseData_new =
     (let avq = \<lparr>avq_entityIdVector = [], avq_attributeList = [], avq_reference = [], avq_duration = Duration_new,
                 avq_subscriptionId = []\<rparr>
      in \<lparr>pd_rcr = \<lparr>rcq_contextRegistrationVector = [], rcq_duration = Duration_new, rcq_registrationId = []\<rparr>,
          pd_rcr_attributeMetadata = [], pd_rcrs = RegisterContextResponse_new,
          pd_dcar = \<lparr>dcq_entityIdVector = [], dcq_attributeList = [], dcq_scopeVector = []\<rparr>, pd_dcars = DiscoverResponse_new,
          pd_scar = avq, pd_scar_scopeVector = [], pd_ucas = avq, pd_ucas_scopeVector = [],
          pd_ucar_subscriptionId = [],
          pd_qcr = \<lparr>qcr_entityIdVector = [], qcr_attributeList = [], qcr_scopeVector = []\<rparr>,
          pd_qcrs = QueryContextResponse_new,
          pd_scr = \<lparr>scq_entityIdVector = [], scq_attributeList = [], scq_reference = [], scq_duration = Duration_new,
                    scq_notifyConditionVector = [], scq_throttling = Throttling_new\<rparr>,
          pd_scr_scopeVector = [],
          pd_uncr_subscriptionId = [],
          pd_upcr = \<lparr>upr_contextElementVector = [], upr_updateActionType = []\<rparr>,
          pd_upcrs = \<lparr>urs_contextElementResponseVector = [], urs_errorCode = StatusCode_new\<rparr>,
          pd_ucsr = \<lparr>ucs_duration = Duration_new, ucs_subscriptionId = [], ucs_notifyConditionVector = [],
                     ucs_throttling = Throttling_new\<rparr>,
          pd_ucsr_scopeVector = [],
          pd_ncr_subscriptionId = [], pd_ncr_contextElementResponseVector = [],
          pd_ncar_subscriptionId = [], pd_ncar_responseVector = [],
          pd_rpr = \<lparr>rpr_metadataVector = [], rpr_duration = Duration_new, rpr_providingApplication = ProvidingApplication_new,
                    rpr_registrationId = []\<rparr>,
          pd_ucer = \<lparr>ucer_attributeDomainName = [], ucer_contextAttributeVector = [], ucer_domainMetadataVector = []\<rparr>,
          pd_acer = \<lparr>acer_entity = EntityId_new [] [] [], acer_attributeDomainName = [], acer_contextAttributeVector = [],
                     acer_domainMetadataVector = []\<rparr>,
          pd_upcar = \<lparr>upcar_type = [], upcar_contextValue = [], upcar_metadataVector = [], upcar_compoundValue = None\<rparr>\<rparr>)"

section \<open>Statistics\<close>

text \<open>The counters by their names, and the counter of each type of request.\<close>

type_synonym counters = "string \<Rightarrow> int"

definition request_counters :: "(RequestType \<times> string) list" where
  "request_counters =
     [(RegisterContext, ''noOfRegistrations''),
      (DiscoverContextAvailability, ''noOfDiscoveries''),
      (SubscribeContextAvailability, ''noOfAvailabilitySubscriptions''),
      (UpdateContextAvailabilitySubscription, ''noOfAvailabilitySubscriptionUpdates''),
      (UnsubscribeContextAvailability, ''noOfAvailabilityUnsubscriptions''),
      (NotifyContextAvailability, ''noOfAvailabilityNotificationsReceived''),
      (QueryContext, ''noOfQueries''),
      (SubscribeContext, ''noOfSubscriptions''),
      (UpdateContextSubscription, ''noOfSubscriptionUpdates''),
      (UnsubscribeContext, ''noOfUnsubscriptions''),
      (NotifyContext, ''noOfNotificationsReceived''),
      (UpdateContext, ''noOfUpdates''),
      (RtQueryContextResponse, ''noOfQueryContextResponses''),
      (RtUpdateContextResponse, ''noOfUpdateContextResponses''),
      (ContextEntitiesByEntityId, ''noOfContextEntitiesByEntityId''),
      (ContextEntityAttributes, ''noOfContextEntityAttributes''),
      (EntityByIdAttributeByName, ''noOfEntityByIdAttributeByName''),
      (ContextEntityTypes, ''noOfContextEntityTypes''),
      (ContextEntityTypeAttributeContainer, ''noOfContextEntityTypeAttributeContainer''),
      (ContextEntityTypeAttribute, ''noOfContextEntityTypeAttribute''),
      (IndividualContextEntity, ''noOfIndividualContextEntity''),
      (IndividualContextEntityAttributes, ''noOfIndividualContextEntityAttributes''),
      (AttributeValueInstance, ''noOfAttributeValueInstance''),
      (IndividualContextEntityAttribute, ''noOfIndividualContextEntityAttribute''),
      (Ngsi9SubscriptionsConvOp, ''noOfNgsi9SubscriptionsConvOp''),
      (UpdateContextElement, ''noOfUpdateContextElement''),
      (AppendContextElement, ''noOfAppendContextElement''),
      (UpdateContextAttribute, ''noOfUpdateContextAttribute''),
      (Ngsi10ContextEntityTypes, ''noOfNgsi10ContextEntityTypes''),
      (Ngsi10ContextEntityTypesAttributeContainer, ''noOfNgsi10ContextEntityTypesAttributeContainer''),
      (Ngsi10ContextEntityTypesAttribute, ''noOfNgsi10ContextEntityTypesAttribute''),
      (Ngsi10SubscriptionsConvOp, ''noOfNgsi10SubscriptionsConvOp''),
      (AllContextEntities, ''noOfAllContextEntitiesRequests''),
      (AllEntitiesWithTypeAndId, ''noOfAllEntitiesWithTypeAndIdRequests''),
      (IndividualContextEntityAttributeWithTypeAndId, ''noOfIndividualContextEntityAttributeWithTypeAndId''),
      (AttributeValueInstanceWithTypeAndId, ''noOfAttributeValueInstanceWithTypeAndId''),
      (ContextEntitiesByEntityIdAndType, ''noOfContextEntitiesByEntityIdAndType''),
      (EntityByIdAttributeByNameIdAndType, ''noOfEntityByIdAttributeByNameIdAndType''),
      (LogRequest, ''noOfLogRequests''),
      (VersionRequest, ''noOfVersionRequests''),
      (ExitRequest, ''noOfExitRequests''),
      (LeakRequest, ''noOfLeakRequests''),
      (StatisticsRequest, ''noOfStatisticsRequests''),
      (InvalidRequest, ''noOfInvalidRequests''),
      (RegisterResponse, ''noOfRegisterResponses''),
      (RtSubscribeContextAvailabilityResponse, ''noOfRtSubscribeContextAvailabilityResponse''),
      (RtUpdateContextAvailabilitySubscriptionResponse, ''noOfRtUpdateContextAvailabilitySubscriptionResponse''),
      (RtUnsubscribeContextAvailabilityResponse, ''noOfRtUnsubscribeContextAvailabilityResponse''),
      (RtUnsubscribeContextResponse, ''noOfRtUnsubscribeContextResponse''),
      (RtSubscribeResponse, ''noOfRtSubscribeResponse''),
      (RtSubscribeError, ''noOfRtSubscribeError''),
      (RtContextElementResponse, ''noOfContextElementResponse''),
      (RtContextAttributeResponse, ''noOfContextAttributeResponse''),
      (EntityTypes, ''noOfEntityTypesRequest''),
      (AttributesForEntityType, ''noOfAttributesForEntityTypeRequest''),
      (RtEntityTypesResponse, ''noOfEntityTypesResponse''),
      (RtAttributesForEntityTypeResponse, ''noOfAttributesForEntityTypeResponse''),
      (EntitiesRequest, ''noOfEntitiesRequests''),
      (EntitiesResponse, ''noOfEntitiesResponses''),
      (EntryPointsRequest, ''noOfEntryPointsRequests''),
      (EntryPointsResponse, ''noOfEntryPointsResponses''),
      (EntityRequest, ''noOfEntityRequests''),
      (EntityResponse, ''noOfEntityResponses''),
      (EntityAttributeRequest, ''noOfEntityAttributeRequests''),
      (EntityAttributeResponse, ''noOfEntityAttributeResponses'')]"

definition count_up :: "string \<Rightarrow> counters \<Rightarrow> counters" where
  "count_up c st = st(c := wrap32 (st c + 1))"

definition statisticsUpdate :: "RequestType \<Rightarrow> Format \<Rightarrow> counters \<Rightarrow> counters" where
  "statisticsUpdate request inFormat st =
     (let st1 = (if inFormat = XML then count_up ''noOfXmlRequests'' st else st);
          st2 = (if inFormat = JSON then count_up ''noOfJsonRequests'' st1 else st1)
      in case map_of request_counters request of None \<Rightarrow> st2 | Some c \<Rightarrow> count_up c st2)"

section \<open>Services\<close>

text \<open>
  An entry of the vector of services; \<open>sv_treat\<close> is \<open>None\<close> in the entry that ends the vector. The field
  \<open>compV\<close> is an array of ten strings, of which those not given are empty.
\<close>

record RestService =
  sv_verb :: string
  sv_request :: RequestType
  sv_components :: nat
  sv_compV :: "string list"
  sv_payloadWord :: string
  sv_treat :: "string option"

definition service :: "string \<Rightarrow> RequestType \<Rightarrow> nat \<Rightarrow> string list \<Rightarrow> string \<Rightarrow> string \<Rightarrow> RestService" where
  "service verb request components compV payloadWord treat =
     \<lparr>sv_verb = verb, sv_request = request, sv_components = components,
      sv_compV = compV @ replicate (10 - length compV) [], sv_payloadWord = payloadWord, sv_treat = Some treat\<rparr>"

definition END_REQUEST :: RestService where
  "END_REQUEST = \<lparr>sv_verb = [], sv_request = InvalidRequest, sv_components = 0, sv_compV = replicate 10 [],
     sv_payloadWord = [], sv_treat = None\<rparr>"

text \<open>What the routines share: the configuration, the parsers, and the routines by their names.\<close>

type_synonym 'w treat =
  "ConnectionInfo \<Rightarrow> nat \<Rightarrow> string list \<Rightarrow> ParseData \<Rightarrow> 'w \<Rightarrow> (string \<times> ConnectionInfo \<times> ParseData \<times> 'w) cpp option"

type_synonym parser = "string \<Rightarrow> ConnectionInfo \<Rightarrow> ParseData \<Rightarrow> RequestType \<Rightarrow> string \<Rightarrow> string \<times> ConnectionInfo \<times> ParseData"

record 'w broker =
  bk_rest :: rest_config
  bk_xmlTreat :: parser
  bk_jsonTreat :: parser
  bk_routine :: "string \<Rightarrow> 'w treat"

text \<open>The state of the process: the counters, whether it has been told to exit, and the rest.\<close>

record 'w server =
  srv_counters :: counters
  srv_exited :: bool
  srv_world :: 'w

definition payloadParse ::
  "'w broker \<Rightarrow> ConnectionInfo \<Rightarrow> ParseData \<Rightarrow> RestService \<Rightarrow> string \<Rightarrow> string \<times> ConnectionInfo \<times> ParseData" where
  "payloadParse b ci pd sv payload =
     (if ci_inFormat ci \<noteq> XML \<and> ci_inFormat ci \<noteq> JSON then (''Bad inFormat'', ci, pd)
      else
        let (result, ci1, pd1) =
              (if ci_inFormat ci = XML then bk_xmlTreat b payload ci pd (sv_request sv) (sv_payloadWord sv)
               else bk_jsonTreat b payload ci pd (sv_request sv) (sv_payloadWord sv))
        in (result, if result \<noteq> ''OK'' then restReply (bk_rest b) result ci1 else ci1, pd1))"

abbreviation MAX_TENANT_NAME_LEN :: nat where "MAX_TENANT_NAME_LEN \<equiv> 50"

fun tenantCheck_loop :: "string \<Rightarrow> string" where
  "tenantCheck_loop [] = ''OK''"
| "tenantCheck_loop (c # name) =
     (if \<not> is_alnum c \<and> c \<noteq> CHR ''_''
      then ''bad character in tenant name - only underscore and alphanumeric characters are allowed''
      else tenantCheck_loop name)"

definition tenantCheck :: "string \<Rightarrow> string" where
  "tenantCheck tenant =
     (if length (c_str tenant) > MAX_TENANT_NAME_LEN
      then ''bad length - a tenant name can be max 50 characters long''
      else tenantCheck_loop (c_str tenant))"

abbreviation SCOPE_OPERATOR_NOT :: string where "SCOPE_OPERATOR_NOT \<equiv> ''Not''"
abbreviation SCOPE_FILTER_EXISTENCE :: string where "SCOPE_FILTER_EXISTENCE \<equiv> ''FIWARE::Filter::Existence''"
abbreviation SCOPE_FILTER_NOT_EXISTENCE :: string where "SCOPE_FILTER_NOT_EXISTENCE \<equiv> ''FIWARE::Filter::Not::Existence''"
abbreviation SCOPE_VALUE_ENTITY_TYPE :: string where "SCOPE_VALUE_ENTITY_TYPE \<equiv> ''entity::type''"

definition Scope_new :: "string \<Rightarrow> string \<Rightarrow> Scope" where
  "Scope_new t v = \<lparr>sco_type = t, sco_value = v, sco_oper = [], sco_area = NoArea\<rparr>"

text \<open>The filters given as URI parameters become scopes of the query; only two requests support them.\<close>

definition push_scope :: "Scope \<Rightarrow> ParseData \<Rightarrow> ParseData" where
  "push_scope s pd = pd\<lparr>pd_qcr := (pd_qcr pd)\<lparr>qcr_scopeVector := qcr_scopeVector (pd_qcr pd) @ [s]\<rparr>\<rparr>"

definition commonFilters :: "ConnectionInfo \<Rightarrow> ParseData \<Rightarrow> RestService \<Rightarrow> ParseData" where
  "commonFilters ci pd sv =
     (let supported = (sv_request sv = EntityTypes \<or> sv_request sv = AllContextEntities);
          notExist = (uriParam ci URI_PARAM_NOT_EXIST = SCOPE_VALUE_ENTITY_TYPE);
          pd1 = (if notExist \<and> supported
                 then push_scope ((Scope_new SCOPE_FILTER_EXISTENCE SCOPE_VALUE_ENTITY_TYPE)\<lparr>sco_oper := SCOPE_OPERATOR_NOT\<rparr>) pd
                 else pd)
      in if notExist \<and> \<not> supported then pd1
         else if uriParam ci URI_PARAM_EXIST = SCOPE_VALUE_ENTITY_TYPE \<and> supported
         then push_scope (Scope_new SCOPE_FILTER_EXISTENCE SCOPE_VALUE_ENTITY_TYPE) pd1
         else pd1)"

definition scopeFilter_scope :: "Scope \<Rightarrow> Scope" where
  "scopeFilter_scope s =
     (if sco_type s = SCOPE_FILTER_NOT_EXISTENCE
      then s\<lparr>sco_type := SCOPE_FILTER_EXISTENCE, sco_oper := SCOPE_OPERATOR_NOT\<rparr> else s)"

definition scopeFilter :: "ConnectionInfo \<Rightarrow> ParseData \<Rightarrow> ParseData" where
  "scopeFilter ci pd =
     (let payloadWord = c_str (ci_payloadWord ci); f = map scopeFilter_scope
      in if payloadWord = ''discoverContextAvailabilityRequest''
         then pd\<lparr>pd_dcar := (pd_dcar pd)\<lparr>dcq_scopeVector := f (dcq_scopeVector (pd_dcar pd))\<rparr>\<rparr>
         else if payloadWord = ''subscribeContextAvailabilityRequest''
         then pd\<lparr>pd_scar_scopeVector := f (pd_scar_scopeVector pd)\<rparr>
         else if payloadWord = ''updateContextAvailabilitySubscriptionRequest''
         then pd\<lparr>pd_ucas_scopeVector := f (pd_ucas_scopeVector pd)\<rparr>
         else if payloadWord = ''queryContextRequest''
         then pd\<lparr>pd_qcr := (pd_qcr pd)\<lparr>qcr_scopeVector := f (qcr_scopeVector (pd_qcr pd))\<rparr>\<rparr>
         else if payloadWord = ''subscribeContextRequest''
         then pd\<lparr>pd_scr_scopeVector := f (pd_scr_scopeVector pd)\<rparr>
         else if payloadWord = ''updateContextSubscriptionRequest''
         then pd\<lparr>pd_ucsr_scopeVector := f (pd_ucsr_scopeVector pd)\<rparr>
         else pd)"

definition filterRelease :: "ParseData \<Rightarrow> RequestType \<Rightarrow> ParseData" where
  "filterRelease pd request =
     (if request = EntityTypes \<or> request = AllContextEntities
      then pd\<lparr>pd_qcr := (pd_qcr pd)\<lparr>qcr_scopeVector := []\<rparr>\<rparr> else pd)"

section \<open>Finding the service and serving the request\<close>

text \<open>The components of the URL against those of a service, from number \<open>n\<close> on.\<close>

fun match_components :: "RestService \<Rightarrow> nat \<Rightarrow> string list \<Rightarrow> bool cpp" where
  "match_components sv n [] = Ret True"
| "match_components sv n (c # compV) =
     cpp_bind (vec_at (sv_compV sv) n) (\<lambda>s.
       if s = ''*'' then match_components sv (Suc n) compV
       else if \<not> strcaseeq (c_str s) (c_str c) then Ret False
       else match_components sv (Suc n) compV)"

text \<open>
  The loop over the vector: the service found, if any, and the payload word, which is that of the last
  service looked at. Reading past the end of the vector is undefined.
\<close>

fun service_lookup :: "RestService list \<Rightarrow> string \<Rightarrow> string list \<Rightarrow> string \<Rightarrow> (RestService option \<times> string) cpp" where
  "service_lookup [] meth compV word = UB"
| "service_lookup (sv # serviceV) meth compV word =
     (if sv_treat sv = None then Ret (None, word)
      else if sv_components sv \<noteq> 0 \<and> sv_components sv \<noteq> length compV then service_lookup serviceV meth compV word
      else if meth \<noteq> sv_verb sv \<and> sv_verb sv \<noteq> ''*'' then service_lookup serviceV meth compV word
      else let word' = take 64 (c_str (sv_payloadWord sv))
           in cpp_bind (match_components sv 0 compV) (\<lambda>match.
                if match then Ret (Some sv, word') else service_lookup serviceV meth compV word'))"

definition has_payload :: "ConnectionInfo \<Rightarrow> bool" where
  "has_payload ci \<longleftrightarrow> (case ci_payload ci of Some (c # r) \<Rightarrow> ci_payloadSize ci \<noteq> 0 \<and> c \<noteq> NUL | _ \<Rightarrow> False)"

definition tenant_error :: "ConnectionInfo \<Rightarrow> string" where
  "tenant_error ci = OrionError_render (OrionError_new SccBadRequest
     ''tenant name not accepted - a tenant string must not be longer than 50 characters and may only contain underscores and alphanumeric characters'')
     (ci_outFormat ci) []"

text \<open>A service that has been found, from the parsing of the payload on.\<close>

definition restService_found ::
  "'w broker \<Rightarrow> RestService \<Rightarrow> string list \<Rightarrow> ConnectionInfo \<Rightarrow> 'w server \<Rightarrow> (string \<times> ConnectionInfo \<times> 'w server) cpp option" where
  "restService_found b sv compV ci srv =
     (let (result, ci1, pd1) =
            (if has_payload ci \<and> sv_verb sv \<noteq> ''*''
             then payloadParse b ci ParseData_new sv (case ci_payload ci of Some p \<Rightarrow> c_str p | None \<Rightarrow> [])
             else (''OK'', ci, ParseData_new))
      in if result \<noteq> ''OK'' then Some (Ret (result, restReply (bk_rest b) result ci1, srv))
         else
           let srv1 = srv\<lparr>srv_counters := statisticsUpdate (sv_request sv) (ci_inFormat ci1) (srv_counters srv)\<rparr>;
               ci2 = ci1\<lparr>ci_tenant := ci_tenantFromHttpHeader ci1\<rparr>
           in if ci_tenant ci2 \<noteq> [] \<and> tenantCheck (ci_tenant ci2) \<noteq> ''OK''
              then Some (Ret (tenant_error ci2, restReply (bk_rest b) (tenant_error ci2) ci2, srv1))
              else
                let pd2 = scopeFilter ci2 (commonFilters ci2 pd1 sv)
                in case sv_treat sv of
                     None \<Rightarrow> Some UB
                   | Some treat \<Rightarrow>
                       served_bind (bk_routine b treat ci2 (length compV) compV pd2 (srv_world srv1)) (\<lambda>(response, ci3, pd3, w).
                         let srv2 = srv1\<lparr>srv_world := w\<rparr>
                         in if response = ''DIE'' then Some (Ret (response, ci3, srv2\<lparr>srv_exited := True\<rparr>))
                            else Some (Ret (response, restReply (bk_rest b) response ci3, srv2))))"

definition restService ::
  "'w broker \<Rightarrow> RestService list \<Rightarrow> ConnectionInfo \<Rightarrow> 'w server \<Rightarrow> (string \<times> ConnectionInfo \<times> 'w server) cpp option" where
  "restService b serviceV ci srv =
     (if length (ci_url ci) = 0 \<or> length (ci_url ci) = 1 \<and> take 1 (ci_url ci) = ''/'' then
        (let response = OrionError_render (OrionError_new SccBadRequest
               (''The Orion Context Broker is a REST service, not a '' @ [CHR 0x27] @ ''web page'' @ [CHR 0x27])) (ci_outFormat ci) []
         in Some (Ret (''Empty URL'', restReply (bk_rest b) response ci, srv)))
      else
        let ci1 = ci\<lparr>ci_httpStatusCode := SccOk\<rparr>;
            compV = snd (stringSplit (ci_url ci1) (CHR ''/'') [])
        in served_bind (Some (service_lookup serviceV (ci_method ci1) compV (ci_payloadWord ci1))) (\<lambda>(found, word).
             let ci2 = ci1\<lparr>ci_payloadWord := word\<rparr>
             in case found of
                  Some sv \<Rightarrow> restService_found b sv compV ci2 srv
                | None \<Rightarrow>
                    (let (answer, ci3) = restErrorReplyGet (ci2\<lparr>ci_httpStatusCode := SccBadRequest\<rparr>) (ci_outFormat ci2) []
                           (c_str word) SccBadRequest ''unrecognized request''
                     in Some (Ret (answer, restReply (bk_rest b) answer ci3, srv)))))"

definition serve :: "'w broker \<Rightarrow> RestService list \<Rightarrow> ConnectionInfo \<Rightarrow> 'w server \<Rightarrow> (ConnectionInfo \<times> 'w server) cpp option" where
  "serve b serviceV ci srv = served_bind (restService b serviceV ci srv) (\<lambda>(answer, ci', srv'). Some (Ret (ci', srv')))"


section \<open>Tenants\<close>

lemma tenantCheck_loop_OK: "tenantCheck_loop s = ''OK'' \<longleftrightarrow> list_all (\<lambda>c. is_alnum c \<or> c = CHR ''_'') s"
  by (induction s) auto

lemma tenantCheck_OK:
  "tenantCheck t = ''OK'' \<longleftrightarrow> length (c_str t) \<le> 50 \<and> list_all (\<lambda>c. is_alnum c \<or> c = CHR ''_'') (c_str t)"
  by (auto simp: tenantCheck_def tenantCheck_loop_OK)

section \<open>The service that is found\<close>

definition component_ok :: "string \<Rightarrow> string \<Rightarrow> bool" where
  "component_ok s c \<longleftrightarrow> s = ''*'' \<or> strcaseeq (c_str s) (c_str c)"

definition service_applies :: "string \<Rightarrow> string list \<Rightarrow> RestService \<Rightarrow> bool" where
  "service_applies meth compV sv \<longleftrightarrow>
     (sv_components sv = 0 \<or> sv_components sv = length compV) \<and> (sv_verb sv = meth \<or> sv_verb sv = ''*'') \<and>
     list_all2 component_ok (take (length compV) (sv_compV sv)) compV"

definition wf_service :: "RestService \<Rightarrow> bool" where
  "wf_service sv \<longleftrightarrow> length (sv_compV sv) = 10 \<and> length (sv_payloadWord sv) < 64"

lemma vec_at_Ret: "n < length xs \<Longrightarrow> vec_at xs n = Ret (xs ! n)"
  by (simp add: vec_at_def)

lemma match_components_spec:
  assumes "n + length compV \<le> length (sv_compV sv)"
  shows "match_components sv n compV =
    Ret (list_all2 component_ok (take (length compV) (drop n (sv_compV sv))) compV)"
  using assms
proof (induction compV arbitrary: n)
  case (Cons c compV)
  then have n: "n < length (sv_compV sv)" by simp
  then have "take (length (c # compV)) (drop n (sv_compV sv)) =
      sv_compV sv ! n # take (length compV) (drop (Suc n) (sv_compV sv))"
    by (simp add: Cons_nth_drop_Suc [symmetric])
  with Cons n show ?case by (auto simp: vec_at_Ret component_ok_def)
qed simp

lemma service_lookup_found:
  assumes "length compV \<le> 10" and "list_all (\<lambda>sv. length (sv_compV sv) = 10) serviceV"
    and "list_ex (\<lambda>sv. sv_treat sv = None) serviceV"
  shows "\<exists>word'. service_lookup serviceV meth compV word =
    Ret (find (service_applies meth compV) (takeWhile (\<lambda>sv. sv_treat sv \<noteq> None) serviceV), word')"
  using assms
proof (induction serviceV arbitrary: word)
  case (Cons sv serviceV)
  have m: "match_components sv 0 compV = Ret (list_all2 component_ok (take (length compV) (sv_compV sv)) compV)"
    using match_components_spec [of 0 compV sv] Cons.prems by simp
  show ?case
  proof (cases "sv_treat sv = None")
    case False
    with Cons.prems have "list_ex (\<lambda>sv. sv_treat sv = None) serviceV" by simp
    with Cons.IH Cons.prems have "\<exists>word'. service_lookup serviceV meth compV word1 =
        Ret (find (service_applies meth compV) (takeWhile (\<lambda>sv. sv_treat sv \<noteq> None) serviceV), word')" for word1
      by simp
    with False show ?thesis by (auto simp: m Let_def service_applies_def [of meth compV sv])
  qed simp
qed simp

section \<open>Replies\<close>

lemma served_bind_Ret:
  assumes "served_bind m f = Some (Ret y)"
  obtains x where "m = Some (Ret x)" "f x = Some (Ret y)"
  using assms by (cases m; cases "the m") auto


definition parser_keeps :: "parser \<Rightarrow> bool" where
  "parser_keeps p \<longleftrightarrow> (\<forall>s ci pd req word. ci_replies (fst (snd (p s ci pd req word))) = ci_replies ci)"

text \<open>
  What the dispatcher relies on: responses can be created, and neither a parser nor a routine queues a
  response by itself.
\<close>

definition well_behaved :: "'w broker \<Rightarrow> bool" where
  "well_behaved b \<longleftrightarrow> (\<forall>s. rc_response (bk_rest b) s) \<and> parser_keeps (bk_xmlTreat b) \<and> parser_keeps (bk_jsonTreat b) \<and>
     (\<forall>t ci n compV pd w r ci' pd' w'. bk_routine b t ci n compV pd w = Some (Ret (r, ci', pd', w')) \<longrightarrow> ci_replies ci' = ci_replies ci)"

lemma restReply_bodies:
  "well_behaved b \<Longrightarrow> map hr_body (ci_replies (restReply (bk_rest b) answer ci)) = map hr_body (ci_replies ci) @ [answer]"
  by (simp add: well_behaved_def restReply_def Let_def)

lemma payloadParse_bodies:
  assumes "well_behaved b" and "payloadParse b ci pd sv p = (result, ci1, pd1)"
  shows "map hr_body (ci_replies ci1) = map hr_body (ci_replies ci) @
    (if result = ''OK'' \<or> ci_inFormat ci \<noteq> XML \<and> ci_inFormat ci \<noteq> JSON then [] else [result])"
proof -
  have "parser_keeps (bk_xmlTreat b)" "parser_keeps (bk_jsonTreat b)" using assms(1) by (auto simp: well_behaved_def)
  then have k: "bk_xmlTreat b s ci pd req word = (r, ci2, pd2) \<Longrightarrow> ci_replies ci2 = ci_replies ci"
      "bk_jsonTreat b s ci pd req word = (r, ci2, pd2) \<Longrightarrow> ci_replies ci2 = ci_replies ci" for s req word r ci2 pd2
    by (metis fst_conv snd_conv parser_keeps_def)+
  show ?thesis using assms
    by (auto simp: payloadParse_def Let_def restReply_bodies k split: if_splits prod.splits)
qed

text \<open>The bodies that serving a request adds to the replies of its connection.\<close>

definition answers :: "string \<Rightarrow> string list \<Rightarrow> bool" where
  "answers answer bodies \<longleftrightarrow> bodies = [answer] \<or> bodies = [answer, answer] \<and> answer \<noteq> ''OK''"

lemma restErrorReplyGet_replies [simp]:
  "ci_replies (snd (restErrorReplyGet ci format indent request code details)) = ci_replies ci"
  by (simp add: restErrorReplyGet_def Let_def)

lemma restService_found_bodies:
  assumes "well_behaved b" and "restService_found b sv compV ci srv = Some (Ret (answer, ci', srv'))"
  shows "\<exists>bodies. map hr_body (ci_replies ci') = map hr_body (ci_replies ci) @ bodies \<and>
    (answers answer bodies \<or> bodies = [] \<and> answer = ''DIE'' \<and> srv_exited srv')"
proof -
  define parsed where "parsed = (if has_payload ci \<and> sv_verb sv \<noteq> ''*''
    then payloadParse b ci ParseData_new sv (case ci_payload ci of Some p \<Rightarrow> c_str p | None \<Rightarrow> []) else (''OK'', ci, ParseData_new))"
  obtain result ci1 pd1 where p: "parsed = (result, ci1, pd1)" by (cases parsed)
  have b1: "map hr_body (ci_replies ci1) = map hr_body (ci_replies ci) @
      (if result = ''OK'' \<or> ci_inFormat ci \<noteq> XML \<and> ci_inFormat ci \<noteq> JSON then [] else [result])"
    using p payloadParse_bodies [OF assms(1)] by (auto simp: parsed_def split: if_splits)
  have keeps: "bk_routine b t ci0 n compV pd w = Some (Ret (r, ci2, pd', w')) \<Longrightarrow> ci_replies ci2 = ci_replies ci0"
    for t ci0 n pd w r ci2 pd' w'
    using assms(1) unfolding well_behaved_def by blast
  show ?thesis
  proof (cases "result = ''OK''")
    case False
    then have "answer = result" "ci' = restReply (bk_rest b) result ci1"
      using assms(2) p by (auto simp: restService_found_def parsed_def [symmetric])
    with b1 False restReply_bodies [OF assms(1)] show ?thesis by (auto simp: answers_def)
  next
    case True
    note ok = this
    let ?ci2 = "ci1\<lparr>ci_tenant := ci_tenantFromHttpHeader ci1\<rparr>"
    have b2: "map hr_body (ci_replies ?ci2) = map hr_body (ci_replies ci)" using b1 ok by simp
    show ?thesis
    proof (cases "ci_tenant ?ci2 \<noteq> [] \<and> tenantCheck (ci_tenant ?ci2) \<noteq> ''OK''")
      case True
      then have "answer = tenant_error ?ci2" "ci' = restReply (bk_rest b) (tenant_error ?ci2) ?ci2"
        using assms(2) p ok by (auto simp: restService_found_def parsed_def [symmetric] Let_def)
      with b2 restReply_bodies [OF assms(1)] show ?thesis by (simp add: answers_def)
    next
      case False
      then obtain t where t: "sv_treat sv = Some t"
        using assms(2) p ok
        by (cases "sv_treat sv") (auto simp: restService_found_def parsed_def [symmetric] Let_def split: if_splits)
      obtain w0 pd0 ci3 pd3 w where r: "bk_routine b t ?ci2 (length compV) compV pd0 w0 = Some (Ret (answer, ci3, pd3, w))"
          and ci': "ci' = (if answer = ''DIE'' then ci3 else restReply (bk_rest b) answer ci3)" "answer = ''DIE'' \<Longrightarrow> srv_exited srv'"
        using assms(2) p ok False t
        by (auto simp: restService_found_def parsed_def [symmetric] Let_def elim!: served_bind_Ret split: if_splits)
      have "ci_replies ci3 = ci_replies ci1" using keeps [OF r] by simp
      with ci' b2 restReply_bodies [OF assms(1)] show ?thesis by (auto simp: answers_def)
    qed
  qed
qed


lemma restService_url:
  assumes "\<not> (length (ci_url ci) = 0 \<or> length (ci_url ci) = 1 \<and> take 1 (ci_url ci) = ''/'')"
  shows "restService b serviceV ci srv =
    served_bind (Some (service_lookup serviceV (ci_method ci) (snd (stringSplit (ci_url ci) (CHR ''/'') [])) (ci_payloadWord ci)))
      (\<lambda>(found, word).
         let ci2 = ci\<lparr>ci_httpStatusCode := SccOk, ci_payloadWord := word\<rparr>
         in case found of
              Some sv \<Rightarrow> restService_found b sv (snd (stringSplit (ci_url ci) (CHR ''/'') [])) ci2 srv
            | None \<Rightarrow>
                (let (answer, ci3) = restErrorReplyGet (ci2\<lparr>ci_httpStatusCode := SccBadRequest\<rparr>) (ci_outFormat ci2) []
                       (c_str word) SccBadRequest ''unrecognized request''
                 in Some (Ret (answer, restReply (bk_rest b) answer ci3, srv))))"
proof -
  have sel: "ci_url (ci\<lparr>ci_httpStatusCode := SccOk\<rparr>) = ci_url ci" "ci_method (ci\<lparr>ci_httpStatusCode := SccOk\<rparr>) = ci_method ci"
      "ci_payloadWord (ci\<lparr>ci_httpStatusCode := SccOk\<rparr>) = ci_payloadWord ci"
    by simp_all
  from assms show ?thesis unfolding restService_def by (simp only: if_False Let_def sel)
qed

lemma restService_bodies:
  assumes "well_behaved b" and "restService b serviceV ci srv = Some (Ret (answer, ci', srv'))"
  shows "\<exists>bodies. map hr_body (ci_replies ci') = map hr_body (ci_replies ci) @ bodies \<and>
    (answers answer bodies \<or> answer = ''Empty URL'' \<and> length bodies = 1 \<or> bodies = [] \<and> answer = ''DIE'' \<and> srv_exited srv')"
proof (cases "length (ci_url ci) = 0 \<or> length (ci_url ci) = 1 \<and> take 1 (ci_url ci) = ''/''")
  case True
  with assms show ?thesis by (auto simp: restService_def Let_def restReply_bodies)
next
  case False
  let ?compV = "snd (stringSplit (ci_url ci) (CHR ''/'') [])"
  note rs = assms(2) [unfolded restService_url [OF False]]
  obtain found word where
    l: "service_lookup serviceV (ci_method ci) ?compV (ci_payloadWord ci) = Ret (found, word)"
    using rs by (elim served_bind_Ret) auto
  show ?thesis
  proof (cases found)
    case None
    with l rs assms(1) show ?thesis
      by (auto simp: Let_def restReply_bodies answers_def restErrorReplyGet_def)
  next
    case (Some sv)
    with l rs have "restService_found b sv ?compV (ci\<lparr>ci_httpStatusCode := SccOk, ci_payloadWord := word\<rparr>) srv =
        Some (Ret (answer, ci', srv'))"
      by (simp add: Let_def)
    from restService_found_bodies [OF assms(1) this] show ?thesis by auto
  qed
qed

section \<open>Statistics\<close>

lemma request_counters_distinct:
  "distinct (map fst request_counters)" "distinct (map snd request_counters)"
  "''noOfXmlRequests'' \<notin> set (map snd request_counters)" "''noOfJsonRequests'' \<notin> set (map snd request_counters)"
  by code_simp+

text \<open>The number of requests among \<open>served\<close> that a counter is about.\<close>

definition counted :: "string \<Rightarrow> (RequestType \<times> Format) list \<Rightarrow> nat" where
  "counted c served = length (filter (\<lambda>(request, f).
     map_of request_counters request = Some c \<or> c = ''noOfXmlRequests'' \<and> f = XML \<or> c = ''noOfJsonRequests'' \<and> f = JSON) served)"

lemma map_of_counters: "map_of request_counters request = Some c \<Longrightarrow> c \<noteq> ''noOfXmlRequests'' \<and> c \<noteq> ''noOfJsonRequests''"
proof -
  assume "map_of request_counters request = Some c"
  then have "c \<in> set (map snd request_counters)"
    unfolding set_map by (rule map_of_SomeD [THEN rev_image_eqI]) (simp only: snd_conv)
  then show ?thesis using request_counters_distinct(3,4) by blast
qed

lemma statisticsUpdate_step:
  "statisticsUpdate request f st c =
     (if map_of request_counters request = Some c \<or> c = ''noOfXmlRequests'' \<and> f = XML \<or> c = ''noOfJsonRequests'' \<and> f = JSON
      then wrap32 (st c + 1) else st c)"
  using map_of_counters by (auto simp: statisticsUpdate_def count_up_def Let_def split: option.splits)

lemma statistics_fold:
  assumes "- (2 ^ 31) \<le> st c" and "st c + int (length served) < 2 ^ 31"
  shows "fold (\<lambda>(request, f). statisticsUpdate request f) served st c = st c + int (counted c served)"
  using assms
proof (induction served arbitrary: st)
  case (Cons rf served)
  obtain r f where rf: "rf = (r, f)" by (cases rf)
  let ?st = "statisticsUpdate r f st"
  have "?st c = st c + (if map_of request_counters r = Some c \<or> c = ''noOfXmlRequests'' \<and> f = XML \<or> c = ''noOfJsonRequests'' \<and> f = JSON then 1 else 0)"
    using Cons.prems by (auto simp: statisticsUpdate_step wrap32_id)
  with Cons.IH [of ?st] Cons.prems show ?case by (auto simp: rf counted_def)
qed (simp add: counted_def)


section \<open>Serving a request ends\<close>

text \<open>The outcomes without a result: waiting for ever, and undefined behaviour.\<close>

definition same_stuck :: "'a cpp option \<Rightarrow> 'b cpp option \<Rightarrow> bool" where
  "same_stuck m r \<longleftrightarrow> m = None \<and> r = None \<or> m = Some UB \<and> r = Some UB"

lemma outcome_cases:
  obtains "m = None" | "m = Some UB" | r ci pd w where "m = Some (Ret (r, ci, pd, w))"
  by (cases m; cases "the m") auto

text \<open>
  Serving a request neither blocks nor runs into undefined behaviour by itself: either there is a
  response (or the process has been told to exit), or the routine of the service is stuck.
\<close>

lemma restService_found_answers:
  assumes "\<forall>s. rc_response (bk_rest b) s" and "sv_treat sv = Some t"
  shows "(\<exists>answer ci' srv'. restService_found b sv compV ci srv = Some (Ret (answer, ci', srv')) \<and> (ci_replies ci' \<noteq> [] \<or> srv_exited srv')) \<or>
    (\<exists>ci2 pd. same_stuck (bk_routine b t ci2 (length compV) compV pd (srv_world srv)) (restService_found b sv compV ci srv))"
proof -
  define parsed where "parsed = (if has_payload ci \<and> sv_verb sv \<noteq> ''*''
    then payloadParse b ci ParseData_new sv (case ci_payload ci of Some p \<Rightarrow> c_str p | None \<Rightarrow> []) else (''OK'', ci, ParseData_new))"
  obtain result ci1 pd1 where p: "parsed = (result, ci1, pd1)" by (cases parsed)
  let ?ci2 = "ci1\<lparr>ci_tenant := ci_tenantFromHttpHeader ci1\<rparr>"
  define m where "m = bk_routine b t ?ci2 (length compV) compV (scopeFilter ?ci2 (commonFilters ?ci2 pd1 sv)) (srv_world srv)"
  let ?r = "restService_found b sv compV ci srv"
  note defs = restService_found_def parsed_def [symmetric] p Let_def assms(2)
  note reply = restReply_queues [of "bk_rest b"]
  consider (bad) "result \<noteq> ''OK''"
    | (tenant) "result = ''OK''" "ci_tenantFromHttpHeader ci1 \<noteq> [] \<and> tenantCheck (ci_tenantFromHttpHeader ci1) \<noteq> ''OK''"
    | (routine) "result = ''OK''" "\<not> (ci_tenantFromHttpHeader ci1 \<noteq> [] \<and> tenantCheck (ci_tenantFromHttpHeader ci1) \<noteq> ''OK'')"
    by blast
  then show ?thesis
  proof cases
    case bad
    then show ?thesis using assms(1) reply by (simp add: defs)
  next
    case tenant
    then show ?thesis using assms(1) reply by (simp add: defs)
  next
    case routine
    show ?thesis
    proof (cases m rule: outcome_cases)
      case 1
      then have "?r = None" using routine by (simp add: defs m_def)
      then have "same_stuck m ?r" using 1 by (simp add: same_stuck_def)
      then show ?thesis unfolding m_def by blast
    next
      case 2
      then have "?r = Some UB" using routine by (simp add: defs m_def)
      then have "same_stuck m ?r" using 2 by (simp add: same_stuck_def)
      then show ?thesis unfolding m_def by blast
    next
      case (3 r ci3 pd3 w)
      then show ?thesis using routine assms(1) reply by (auto simp: defs m_def)
    qed
  qed
qed

lemma restService_answered:
  assumes "\<forall>s. rc_response (bk_rest b) s"
    and "service_lookup serviceV (ci_method ci) (snd (stringSplit (ci_url ci) (CHR ''/'') [])) (ci_payloadWord ci) = Ret (found, word)"
    and "\<forall>sv. found = Some sv \<longrightarrow> sv_treat sv \<noteq> None"
  shows "(\<exists>answer ci' srv'. restService b serviceV ci srv = Some (Ret (answer, ci', srv')) \<and> (ci_replies ci' \<noteq> [] \<or> srv_exited srv')) \<or>
    (\<exists>sv t ci2 pd. found = Some sv \<and> sv_treat sv = Some t \<and>
       same_stuck (bk_routine b t ci2 (length (snd (stringSplit (ci_url ci) (CHR ''/'') []))) (snd (stringSplit (ci_url ci) (CHR ''/'') [])) pd (srv_world srv))
         (restService b serviceV ci srv))"
proof (cases "length (ci_url ci) = 0 \<or> length (ci_url ci) = 1 \<and> take 1 (ci_url ci) = ''/''")
  case True
  then show ?thesis using assms(1) by (simp add: restService_def Let_def restReply_queues)
next
  case False
  show ?thesis
  proof (cases found)
    case None
    then show ?thesis using assms(1,2) by (auto simp: restService_url [OF False] Let_def restReply_queues split: prod.splits)
  next
    case (Some sv)
    then obtain t where t: "sv_treat sv = Some t" using assms(3) by blast
    have "restService b serviceV ci srv = restService_found b sv (snd (stringSplit (ci_url ci) (CHR ''/'') []))
        (ci\<lparr>ci_httpStatusCode := SccOk, ci_payloadWord := word\<rparr>) srv"
      using assms(2) Some by (simp add: restService_url [OF False] Let_def)
    then show ?thesis using restService_found_answers [OF assms(1) t] Some t by metis
  qed
qed

lemma service_lookup_treat:
  "service_lookup serviceV meth compV word = Ret (Some sv, word') \<Longrightarrow> sv_treat sv \<noteq> None"
  by (induction serviceV arbitrary: word) (auto simp: Let_def cpp_bind_Ret_iff split: if_splits)

text \<open>Serving a request queues exactly one response on its connection, except that a payload the parser
  rejects is answered twice with the same body (by \<open>payloadParse\<close> and again by \<open>restService\<close>), and that
  the request to exit is not answered. The parsers and the service routines are assumed not to queue
  responses themselves.\<close>

theorem restService_answers:
  assumes "well_behaved b" and "restService b serviceV ci srv = Some (Ret (answer, ci', srv'))" and "\<not> srv_exited srv'"
  shows "\<exists>bodies. map hr_body (ci_replies ci') = map hr_body (ci_replies ci) @ bodies \<and>
    (length bodies = 1 \<or> bodies = [answer, answer] \<and> answer \<noteq> ''OK'')"
  using restService_bodies [OF assms(1,2)] assms(3) by (auto simp: answers_def)

definition refusing :: "string \<Rightarrow> ConnectionInfo \<Rightarrow> ParseData \<Rightarrow> RequestType \<Rightarrow> string \<Rightarrow> string \<times> ConnectionInfo \<times> ParseData" where
  "refusing s ci pd req word = (''Bad payload'', ci, pd)"

definition broker0 :: "unit broker" where
  "broker0 = \<lparr>bk_rest = \<lparr>rc_acceptTextXml = False, rc_allowedOrigin = [], rc_response = (\<lambda>s. True)\<rparr>,
     bk_xmlTreat = refusing, bk_jsonTreat = refusing,
     bk_routine = (\<lambda>t ci n compV pd w. Some (Ret (''done'', ci, pd, w)))\<rparr>"

lemma broker0_well_behaved: "well_behaved broker0"
  by (simp add: well_behaved_def broker0_def parser_keeps_def refusing_def)

definition posted :: ConnectionInfo where
  "posted = (ConnectionInfo_new ''/v1/updateContext'' ''POST'' [])\<lparr>ci_payload := Some (''{}'' @ [NUL]), ci_payloadSize := 2\<rparr>"

definition posted_services :: "RestService list" where
  "posted_services = [service ''POST'' UpdateContext 2 [''v1'', ''updateContext''] ''updateContextRequest'' ''postUpdateContext'', END_REQUEST]"

definition server0 :: "unit server" where
  "server0 = \<lparr>srv_counters = (\<lambda>c. - 1), srv_exited = False, srv_world = ()\<rparr>"

theorem restService_answers_witness:
  "\<exists>bodies. map hr_body (ci_replies (fst (snd (case the (restService broker0 posted_services posted server0) of Ret x \<Rightarrow> x)))) =
     map hr_body (ci_replies posted) @ bodies \<and>
     (length bodies = 1 \<or> bodies = [''Bad payload'', ''Bad payload''] \<and> ''Bad payload'' \<noteq> ''OK'')"
proof -
  have "case restService broker0 posted_services posted server0 of
      Some (Ret (answer, ci', srv')) \<Rightarrow> answer = ''Bad payload'' \<and> \<not> srv_exited srv' | _ \<Rightarrow> False"
    by code_simp
  then obtain ci' srv' where r: "restService broker0 posted_services posted server0 = Some (Ret (''Bad payload'', ci', srv'))"
      and e: "\<not> srv_exited srv'"
    by (auto split: option.splits cpp.splits prod.splits)
  from restService_answers [OF broker0_well_behaved r e] r show ?thesis by simp
qed

end
