(* ===== verification/Broker_Services.thy ===== *)
theory Broker_Services
  imports Rest_Service
begin

text \<open>
  The services of the broker: the vectors \<open>restServiceV\<close> and \<open>restServiceNgsi9\<close> of
  \<^verbatim>\<open>src/src/app/contextBroker/contextBroker.cpp\<close>, one definition per macro, and the service routines
  that answer requests no other routine is for (\<^verbatim>\<open>serviceRoutines/badVerb*.cpp\<close>,
  \<^verbatim>\<open>badRequest.cpp\<close>, \<^verbatim>\<open>badNgsi9Request.cpp\<close>, \<^verbatim>\<open>badNgsi10Request.cpp\<close>).
\<close>

section \<open>The vectors of services\<close>

definition API_V2 :: "RestService list" where
  "API_V2 =
     [service ''GET'' EntryPointsRequest 1 [''v2''] [] ''entryPointsTreat'',
      service ''*'' EntryPointsRequest 1 [''v2''] [] ''badVerbAllFour'',
      service ''GET'' EntitiesRequest 2 [''v2'', ''entities''] [] ''getEntities'',
      service ''*'' EntitiesRequest 2 [''v2'', ''entities''] [] ''badVerbGetOnly'',
      service ''GET'' EntityRequest 3 [''v2'', ''entities'', ''*''] [] ''getEntity'',
      service ''*'' EntityRequest 3 [''v2'', ''entities'', ''*''] [] ''badVerbGetOnly'',
      service ''GET'' EntityAttributeRequest 5 [''v2'', ''entities'', ''*'', ''attrs'', ''*''] [] ''getEntityAttribute'',
      service ''*'' EntityAttributeRequest 5 [''v2'', ''entities'', ''*'', ''attrs'', ''*''] [] ''badVerbGetOnly'']"

definition REGISTRY_STANDARD_REQUESTS_V0 :: "RestService list" where
  "REGISTRY_STANDARD_REQUESTS_V0 =
     [service ''POST'' RegisterContext 2 [''ngsi9'', ''registerContext''] ''registerContextRequest'' ''postRegisterContext'',
      service ''*'' RegisterContext 2 [''ngsi9'', ''registerContext''] ''registerContextRequest'' ''badVerbPostOnly'',
      service ''POST'' DiscoverContextAvailability 2 [''ngsi9'', ''discoverContextAvailability''] ''discoverContextAvailabilityRequest'' ''postDiscoverContextAvailability'',
      service ''*'' DiscoverContextAvailability 2 [''ngsi9'', ''discoverContextAvailability''] ''discoverContextAvailabilityRequest'' ''badVerbPostOnly'',
      service ''POST'' SubscribeContextAvailability 2 [''ngsi9'', ''subscribeContextAvailability''] ''subscribeContextAvailabilityRequest'' ''postSubscribeContextAvailability'',
      service ''*'' SubscribeContextAvailability 2 [''ngsi9'', ''subscribeContextAvailability''] ''subscribeContextAvailabilityRequest'' ''badVerbPostOnly'',
      service ''POST'' UnsubscribeContextAvailability 2 [''ngsi9'', ''unsubscribeContextAvailability''] ''unsubscribeContextAvailabilityRequest'' ''postUnsubscribeContextAvailability'',
      service ''*'' UnsubscribeContextAvailability 2 [''ngsi9'', ''unsubscribeContextAvailability''] ''unsubscribeContextAvailabilityRequest'' ''badVerbPostOnly'',
      service ''POST'' UpdateContextAvailabilitySubscription 2 [''ngsi9'', ''updateContextAvailabilitySubscription''] ''updateContextAvailabilitySubscriptionRequest'' ''postUpdateContextAvailabilitySubscription'',
      service ''*'' UpdateContextAvailabilitySubscription 2 [''ngsi9'', ''updateContextAvailabilitySubscription''] ''updateContextAvailabilitySubscriptionRequest'' ''badVerbPostOnly'',
      service ''POST'' NotifyContextAvailability 2 [''ngsi9'', ''notifyContextAvailability''] ''notifyContextAvailabilityRequest'' ''postNotifyContextAvailability'',
      service ''*'' NotifyContextAvailability 2 [''ngsi9'', ''notifyContextAvailability''] ''notifyContextAvailabilityRequest'' ''badVerbPostOnly'']"

definition REGISTRY_STANDARD_REQUESTS_V1 :: "RestService list" where
  "REGISTRY_STANDARD_REQUESTS_V1 =
     [service ''POST'' RegisterContext 3 [''v1'', ''registry'', ''registerContext''] ''registerContextRequest'' ''postRegisterContext'',
      service ''*'' RegisterContext 3 [''v1'', ''registry'', ''registerContext''] ''registerContextRequest'' ''badVerbPostOnly'',
      service ''POST'' DiscoverContextAvailability 3 [''v1'', ''registry'', ''discoverContextAvailability''] ''discoverContextAvailabilityRequest'' ''postDiscoverContextAvailability'',
      service ''*'' DiscoverContextAvailability 3 [''v1'', ''registry'', ''discoverContextAvailability''] ''discoverContextAvailabilityRequest'' ''badVerbPostOnly'',
      service ''POST'' SubscribeContextAvailability 3 [''v1'', ''registry'', ''subscribeContextAvailability''] ''subscribeContextAvailabilityRequest'' ''postSubscribeContextAvailability'',
      service ''*'' SubscribeContextAvailability 3 [''v1'', ''registry'', ''subscribeContextAvailability''] ''subscribeContextAvailabilityRequest'' ''badVerbPostOnly'',
      service ''POST'' UnsubscribeContextAvailability 3 [''v1'', ''registry'', ''unsubscribeContextAvailability''] ''unsubscribeContextAvailabilityRequest'' ''postUnsubscribeContextAvailability'',
      service ''*'' UnsubscribeContextAvailability 3 [''v1'', ''registry'', ''unsubscribeContextAvailability''] ''unsubscribeContextAvailabilityRequest'' ''badVerbPostOnly'',
      service ''POST'' UpdateContextAvailabilitySubscription 3 [''v1'', ''registry'', ''updateContextAvailabilitySubscription''] ''updateContextAvailabilitySubscriptionRequest'' ''postUpdateContextAvailabilitySubscription'',
      service ''*'' UpdateContextAvailabilitySubscription 3 [''v1'', ''registry'', ''updateContextAvailabilitySubscription''] ''updateContextAvailabilitySubscriptionRequest'' ''badVerbPostOnly'',
      service ''POST'' NotifyContextAvailability 3 [''v1'', ''registry'', ''notifyContextAvailability''] ''notifyContextAvailabilityRequest'' ''postNotifyContextAvailability'',
      service ''*'' NotifyContextAvailability 3 [''v1'', ''registry'', ''notifyContextAvailability''] ''notifyContextAvailabilityRequest'' ''badVerbPostOnly'']"

definition STANDARD_REQUESTS_V0 :: "RestService list" where
  "STANDARD_REQUESTS_V0 =
     [service ''POST'' UpdateContext 2 [''ngsi10'', ''updateContext''] ''updateContextRequest'' ''postUpdateContext'',
      service ''*'' UpdateContext 2 [''ngsi10'', ''updateContext''] ''updateContextRequest'' ''badVerbPostOnly'',
      service ''POST'' QueryContext 2 [''ngsi10'', ''queryContext''] ''queryContextRequest'' ''postQueryContext'',
      service ''*'' QueryContext 2 [''ngsi10'', ''queryContext''] ''queryContextRequest'' ''badVerbPostOnly'',
      service ''POST'' SubscribeContext 2 [''ngsi10'', ''subscribeContext''] ''subscribeContextRequest'' ''postSubscribeContext'',
      service ''*'' SubscribeContext 2 [''ngsi10'', ''subscribeContext''] ''subscribeContextRequest'' ''badVerbPostOnly'',
      service ''POST'' UpdateContextSubscription 2 [''ngsi10'', ''updateContextSubscription''] ''updateContextSubscriptionRequest'' ''postUpdateContextSubscription'',
      service ''*'' UpdateContextSubscription 2 [''ngsi10'', ''updateContextSubscription''] ''updateContextSubscriptionRequest'' ''badVerbPostOnly'',
      service ''POST'' UnsubscribeContext 2 [''ngsi10'', ''unsubscribeContext''] ''unsubscribeContextRequest'' ''postUnsubscribeContext'',
      service ''*'' UnsubscribeContext 2 [''ngsi10'', ''unsubscribeContext''] ''unsubscribeContextRequest'' ''badVerbPostOnly'',
      service ''POST'' NotifyContext 2 [''ngsi10'', ''notifyContext''] ''notifyContextRequest'' ''postNotifyContext'',
      service ''*'' NotifyContext 2 [''ngsi10'', ''notifyContext''] ''notifyContextRequest'' ''badVerbPostOnly'']"

definition STANDARD_REQUESTS_V1 :: "RestService list" where
  "STANDARD_REQUESTS_V1 =
     [service ''POST'' UpdateContext 2 [''v1'', ''updateContext''] ''updateContextRequest'' ''postUpdateContext'',
      service ''*'' UpdateContext 2 [''v1'', ''updateContext''] ''updateContextRequest'' ''badVerbPostOnly'',
      service ''POST'' QueryContext 2 [''v1'', ''queryContext''] ''queryContextRequest'' ''postQueryContext'',
      service ''*'' QueryContext 2 [''v1'', ''queryContext''] ''queryContextRequest'' ''badVerbPostOnly'',
      service ''POST'' SubscribeContext 2 [''v1'', ''subscribeContext''] ''subscribeContextRequest'' ''postSubscribeContext'',
      service ''*'' SubscribeContext 2 [''v1'', ''subscribeContext''] ''subscribeContextRequest'' ''badVerbPostOnly'',
      service ''POST'' UpdateContextSubscription 2 [''v1'', ''updateContextSubscription''] ''updateContextSubscriptionRequest'' ''postUpdateContextSubscription'',
      service ''*'' UpdateContextSubscription 2 [''v1'', ''updateContextSubscription''] ''updateContextSubscriptionRequest'' ''badVerbPostOnly'',
      service ''POST'' UnsubscribeContext 2 [''v1'', ''unsubscribeContext''] ''unsubscribeContextRequest'' ''postUnsubscribeContext'',
      service ''*'' UnsubscribeContext 2 [''v1'', ''unsubscribeContext''] ''unsubscribeContextRequest'' ''badVerbPostOnly'',
      service ''POST'' NotifyContext 2 [''v1'', ''notifyContext''] ''notifyContextRequest'' ''postNotifyContext'',
      service ''*'' NotifyContext 2 [''v1'', ''notifyContext''] ''notifyContextRequest'' ''badVerbPostOnly'']"

definition REGISTRY_CONVENIENCE_OPERATIONS_V0 :: "RestService list" where
  "REGISTRY_CONVENIENCE_OPERATIONS_V0 =
     [service ''GET'' ContextEntitiesByEntityId 3 [''ngsi9'', ''contextEntities'', ''*''] [] ''getContextEntitiesByEntityId'',
      service ''POST'' ContextEntitiesByEntityId 3 [''ngsi9'', ''contextEntities'', ''*''] ''registerProviderRequest'' ''postContextEntitiesByEntityId'',
      service ''*'' ContextEntitiesByEntityId 3 [''ngsi9'', ''contextEntities'', ''*''] [] ''badVerbGetPostOnly'',
      service ''GET'' ContextEntityAttributes 4 [''ngsi9'', ''contextEntities'', ''*'', ''attributes''] [] ''getContextEntityAttributes'',
      service ''POST'' ContextEntityAttributes 4 [''ngsi9'', ''contextEntities'', ''*'', ''attributes''] ''registerProviderRequest'' ''postContextEntityAttributes'',
      service ''*'' ContextEntityAttributes 4 [''ngsi9'', ''contextEntities'', ''*'', ''attributes''] [] ''badVerbGetPostOnly'',
      service ''GET'' EntityByIdAttributeByName 5 [''ngsi9'', ''contextEntities'', ''*'', ''attributes'', ''*''] [] ''getEntityByIdAttributeByName'',
      service ''POST'' EntityByIdAttributeByName 5 [''ngsi9'', ''contextEntities'', ''*'', ''attributes'', ''*''] ''registerProviderRequest'' ''postEntityByIdAttributeByName'',
      service ''*'' EntityByIdAttributeByName 5 [''ngsi9'', ''contextEntities'', ''*'', ''attributes'', ''*''] [] ''badVerbGetPostOnly'',
      service ''GET'' ContextEntityTypes 3 [''ngsi9'', ''contextEntityTypes'', ''*''] [] ''getContextEntityTypes'',
      service ''POST'' ContextEntityTypes 3 [''ngsi9'', ''contextEntityTypes'', ''*''] ''registerProviderRequest'' ''postContextEntityTypes'',
      service ''*'' ContextEntityTypes 3 [''ngsi9'', ''contextEntityTypes'', ''*''] [] ''badVerbGetPostOnly'',
      service ''GET'' ContextEntityTypeAttributeContainer 4 [''ngsi9'', ''contextEntityTypes'', ''*'', ''attributes''] [] ''getContextEntityTypes'',
      service ''POST'' ContextEntityTypeAttributeContainer 4 [''ngsi9'', ''contextEntityTypes'', ''*'', ''attributes''] ''registerProviderRequest'' ''postContextEntityTypes'',
      service ''*'' ContextEntityTypeAttributeContainer 4 [''ngsi9'', ''contextEntityTypes'', ''*'', ''attributes''] [] ''badVerbGetPostOnly'',
      service ''GET'' ContextEntityTypeAttribute 5 [''ngsi9'', ''contextEntityTypes'', ''*'', ''attributes'', ''*''] [] ''getContextEntityTypeAttribute'',
      service ''POST'' ContextEntityTypeAttribute 5 [''ngsi9'', ''contextEntityTypes'', ''*'', ''attributes'', ''*''] ''registerProviderRequest'' ''postContextEntityTypeAttribute'',
      service ''*'' ContextEntityTypeAttribute 5 [''ngsi9'', ''contextEntityTypes'', ''*'', ''attributes'', ''*''] [] ''badVerbGetPostOnly'',
      service ''POST'' SubscribeContextAvailability 2 [''ngsi9'', ''contextAvailabilitySubscriptions''] ''subscribeContextAvailabilityRequest'' ''postSubscribeContextAvailabilityConvOp'',
      service ''*'' SubscribeContextAvailability 2 [''ngsi9'', ''contextAvailabilitySubscriptions''] [] ''badVerbPostOnly'',
      service ''PUT'' Ngsi9SubscriptionsConvOp 3 [''ngsi9'', ''contextAvailabilitySubscriptions'', ''*''] ''updateContextAvailabilitySubscriptionRequest'' ''putAvailabilitySubscriptionConvOp'',
      service ''DELETE'' Ngsi9SubscriptionsConvOp 3 [''ngsi9'', ''contextAvailabilitySubscriptions'', ''*''] [] ''deleteAvailabilitySubscriptionConvOp'',
      service ''*'' Ngsi9SubscriptionsConvOp 3 [''ngsi9'', ''contextAvailabilitySubscriptions'', ''*''] [] ''badVerbPutDeleteOnly'']"

definition REGISTRY_CONVENIENCE_OPERATIONS_V1 :: "RestService list" where
  "REGISTRY_CONVENIENCE_OPERATIONS_V1 =
     [service ''GET'' ContextEntitiesByEntityId 4 [''v1'', ''registry'', ''contextEntities'', ''*''] [] ''getContextEntitiesByEntityId'',
      service ''POST'' ContextEntitiesByEntityId 4 [''v1'', ''registry'', ''contextEntities'', ''*''] ''registerProviderRequest'' ''postContextEntitiesByEntityId'',
      service ''*'' ContextEntitiesByEntityId 4 [''v1'', ''registry'', ''contextEntities'', ''*''] [] ''badVerbGetPostOnly'',
      service ''GET'' ContextEntityAttributes 5 [''v1'', ''registry'', ''contextEntities'', ''*'', ''attributes''] [] ''getContextEntityAttributes'',
      service ''POST'' ContextEntityAttributes 5 [''v1'', ''registry'', ''contextEntities'', ''*'', ''attributes''] ''registerProviderRequest'' ''postContextEntityAttributes'',
      service ''*'' ContextEntityAttributes 5 [''v1'', ''registry'', ''contextEntities'', ''*'', ''attributes''] [] ''badVerbGetPostOnly'',
      service ''GET'' EntityByIdAttributeByName 6 [''v1'', ''registry'', ''contextEntities'', ''*'', ''attributes'', ''*''] [] ''getEntityByIdAttributeByName'',
      service ''POST'' EntityByIdAttributeByName 6 [''v1'', ''registry'', ''contextEntities'', ''*'', ''attributes'', ''*''] ''registerProviderRequest'' ''postEntityByIdAttributeByName'',
      service ''*'' EntityByIdAttributeByName 6 [''v1'', ''registry'', ''contextEntities'', ''*'', ''attributes'', ''*''] [] ''badVerbGetPostOnly'',
      service ''GET'' ContextEntityTypes 4 [''v1'', ''registry'', ''contextEntityTypes'', ''*''] [] ''getContextEntityTypes'',
      service ''POST'' ContextEntityTypes 4 [''v1'', ''registry'', ''contextEntityTypes'', ''*''] ''registerProviderRequest'' ''postContextEntityTypes'',
      service ''*'' ContextEntityTypes 4 [''v1'', ''registry'', ''contextEntityTypes'', ''*''] [] ''badVerbGetPostOnly'',
      service ''GET'' ContextEntityTypeAttributeContainer 5 [''v1'', ''registry'', ''contextEntityTypes'', ''*'', ''attributes''] [] ''getContextEntityTypes'',
      service ''POST'' ContextEntityTypeAttributeContainer 5 [''v1'', ''registry'', ''contextEntityTypes'', ''*'', ''attributes''] ''registerProviderRequest'' ''postContextEntityTypes'',
      service ''*'' ContextEntityTypeAttributeContainer 5 [''v1'', ''registry'', ''contextEntityTypes'', ''*'', ''attributes''] [] ''badVerbGetPostOnly'',
      service ''GET'' ContextEntityTypeAttribute 6 [''v1'', ''registry'', ''contextEntityTypes'', ''*'', ''attributes'', ''*''] [] ''getContextEntityTypeAttribute'',
      service ''POST'' ContextEntityTypeAttribute 6 [''v1'', ''registry'', ''contextEntityTypes'', ''*'', ''attributes'', ''*''] ''registerProviderRequest'' ''postContextEntityTypeAttribute'',
      service ''*'' ContextEntityTypeAttribute 6 [''v1'', ''registry'', ''contextEntityTypes'', ''*'', ''attributes'', ''*''] [] ''badVerbGetPostOnly'',
      service ''POST'' SubscribeContextAvailability 3 [''v1'', ''registry'', ''contextAvailabilitySubscriptions''] ''subscribeContextAvailabilityRequest'' ''postSubscribeContextAvailability'',
      service ''*'' SubscribeContextAvailability 3 [''v1'', ''registry'', ''contextAvailabilitySubscriptions''] [] ''badVerbPostOnly'',
      service ''PUT'' Ngsi9SubscriptionsConvOp 4 [''v1'', ''registry'', ''contextAvailabilitySubscriptions'', ''*''] ''updateContextAvailabilitySubscriptionRequest'' ''putAvailabilitySubscriptionConvOp'',
      service ''DELETE'' Ngsi9SubscriptionsConvOp 4 [''v1'', ''registry'', ''contextAvailabilitySubscriptions'', ''*''] [] ''deleteAvailabilitySubscriptionConvOp'',
      service ''*'' Ngsi9SubscriptionsConvOp 4 [''v1'', ''registry'', ''contextAvailabilitySubscriptions'', ''*''] [] ''badVerbPutDeleteOnly'']"

definition CONVENIENCE_OPERATIONS_V0 :: "RestService list" where
  "CONVENIENCE_OPERATIONS_V0 =
     [service ''GET'' IndividualContextEntity 3 [''ngsi10'', ''contextEntities'', ''*''] [] ''getIndividualContextEntity'',
      service ''PUT'' IndividualContextEntity 3 [''ngsi10'', ''contextEntities'', ''*''] ''updateContextElementRequest'' ''putIndividualContextEntity'',
      service ''POST'' IndividualContextEntity 3 [''ngsi10'', ''contextEntities'', ''*''] ''appendContextElementRequest'' ''postIndividualContextEntity'',
      service ''DELETE'' IndividualContextEntity 3 [''ngsi10'', ''contextEntities'', ''*''] [] ''deleteIndividualContextEntity'',
      service ''*'' IndividualContextEntity 3 [''ngsi10'', ''contextEntities'', ''*''] [] ''badVerbAllFour'',
      service ''GET'' IndividualContextEntityAttributes 4 [''ngsi10'', ''contextEntities'', ''*'', ''attributes''] [] ''getIndividualContextEntity'',
      service ''PUT'' IndividualContextEntityAttributes 4 [''ngsi10'', ''contextEntities'', ''*'', ''attributes''] ''updateContextElementRequest'' ''putIndividualContextEntity'',
      service ''POST'' IndividualContextEntityAttributes 4 [''ngsi10'', ''contextEntities'', ''*'', ''attributes''] ''appendContextElementRequest'' ''postIndividualContextEntity'',
      service ''DELETE'' IndividualContextEntityAttributes 4 [''ngsi10'', ''contextEntities'', ''*'', ''attributes''] [] ''deleteIndividualContextEntity'',
      service ''*'' IndividualContextEntityAttributes 4 [''ngsi10'', ''contextEntities'', ''*'', ''attributes''] [] ''badVerbAllFour'',
      service ''GET'' IndividualContextEntityAttribute 5 [''ngsi10'', ''contextEntities'', ''*'', ''attributes'', ''*''] [] ''getIndividualContextEntityAttribute'',
      service ''PUT'' IndividualContextEntityAttribute 5 [''ngsi10'', ''contextEntities'', ''*'', ''attributes'', ''*''] ''updateContextAttributeRequest'' ''putIndividualContextEntityAttribute'',
      service ''POST'' IndividualContextEntityAttribute 5 [''ngsi10'', ''contextEntities'', ''*'', ''attributes'', ''*''] ''updateContextAttributeRequest'' ''postIndividualContextEntityAttribute'',
      service ''DELETE'' IndividualContextEntityAttribute 5 [''ngsi10'', ''contextEntities'', ''*'', ''attributes'', ''*''] [] ''deleteIndividualContextEntityAttribute'',
      service ''*'' IndividualContextEntityAttribute 5 [''ngsi10'', ''contextEntities'', ''*'', ''attributes'', ''*''] [] ''badVerbGetPostDeleteOnly'',
      service ''GET'' AttributeValueInstance 6 [''ngsi10'', ''contextEntities'', ''*'', ''attributes'', ''*'', ''*''] [] ''getAttributeValueInstance'',
      service ''PUT'' AttributeValueInstance 6 [''ngsi10'', ''contextEntities'', ''*'', ''attributes'', ''*'', ''*''] ''updateContextAttributeRequest'' ''putAttributeValueInstance'',
      service ''DELETE'' AttributeValueInstance 6 [''ngsi10'', ''contextEntities'', ''*'', ''attributes'', ''*'', ''*''] [] ''deleteAttributeValueInstance'',
      service ''*'' AttributeValueInstance 6 [''ngsi10'', ''contextEntities'', ''*'', ''attributes'', ''*'', ''*''] [] ''badVerbGetPutDeleteOnly'',
      service ''GET'' Ngsi10ContextEntityTypes 3 [''ngsi10'', ''contextEntityTypes'', ''*''] [] ''getNgsi10ContextEntityTypes'',
      service ''*'' Ngsi10ContextEntityTypes 3 [''ngsi10'', ''contextEntityTypes'', ''*''] [] ''badVerbGetOnly'',
      service ''GET'' Ngsi10ContextEntityTypesAttributeContainer 4 [''ngsi10'', ''contextEntityTypes'', ''*'', ''attributes''] [] ''getNgsi10ContextEntityTypes'',
      service ''*'' Ngsi10ContextEntityTypesAttributeContainer 4 [''ngsi10'', ''contextEntityTypes'', ''*'', ''attributes''] [] ''badVerbGetOnly'',
      service ''GET'' Ngsi10ContextEntityTypesAttribute 5 [''ngsi10'', ''contextEntityTypes'', ''*'', ''attributes'', ''*''] [] ''getNgsi10ContextEntityTypesAttribute'',
      service ''*'' Ngsi10ContextEntityTypesAttribute 5 [''ngsi10'', ''contextEntityTypes'', ''*'', ''attributes'', ''*''] [] ''badVerbGetOnly'',
      service ''POST'' SubscribeContext 2 [''ngsi10'', ''contextSubscriptions''] ''subscribeContextRequest'' ''postSubscribeContextConvOp'',
      service ''*'' SubscribeContext 2 [''ngsi10'', ''contextSubscriptions''] [] ''badVerbPostOnly'',
      service ''PUT'' Ngsi10SubscriptionsConvOp 3 [''ngsi10'', ''contextSubscriptions'', ''*''] ''updateContextSubscriptionRequest'' ''putSubscriptionConvOp'',
      service ''DELETE'' Ngsi10SubscriptionsConvOp 3 [''ngsi10'', ''contextSubscriptions'', ''*''] [] ''deleteSubscriptionConvOp'',
      service ''*'' Ngsi10SubscriptionsConvOp 3 [''ngsi10'', ''contextSubscriptions'', ''*''] [] ''badVerbPutDeleteOnly'']"

definition CONVENIENCE_OPERATIONS_V1 :: "RestService list" where
  "CONVENIENCE_OPERATIONS_V1 =
     [service ''GET'' IndividualContextEntity 3 [''v1'', ''contextEntities'', ''*''] [] ''getIndividualContextEntity'',
      service ''PUT'' IndividualContextEntity 3 [''v1'', ''contextEntities'', ''*''] ''updateContextElementRequest'' ''putIndividualContextEntity'',
      service ''POST'' IndividualContextEntity 3 [''v1'', ''contextEntities'', ''*''] ''appendContextElementRequest'' ''postIndividualContextEntity'',
      service ''DELETE'' IndividualContextEntity 3 [''v1'', ''contextEntities'', ''*''] [] ''deleteIndividualContextEntity'',
      service ''*'' IndividualContextEntity 3 [''v1'', ''contextEntities'', ''*''] [] ''badVerbAllFour'',
      service ''GET'' IndividualContextEntityAttributes 4 [''v1'', ''contextEntities'', ''*'', ''attributes''] [] ''getIndividualContextEntity'',
      service ''PUT'' IndividualContextEntityAttributes 4 [''v1'', ''contextEntities'', ''*'', ''attributes''] ''updateContextElementRequest'' ''putIndividualContextEntity'',
      service ''POST'' IndividualContextEntityAttributes 4 [''v1'', ''contextEntities'', ''*'', ''attributes''] ''appendContextElementRequest'' ''postIndividualContextEntity'',
      service ''DELETE'' IndividualContextEntityAttributes 4 [''v1'', ''contextEntities'', ''*'', ''attributes''] [] ''deleteIndividualContextEntity'',
      service ''*'' IndividualContextEntityAttributes 4 [''v1'', ''contextEntities'', ''*'', ''attributes''] [] ''badVerbAllFour'',
      service ''GET'' IndividualContextEntityAttribute 5 [''v1'', ''contextEntities'', ''*'', ''attributes'', ''*''] [] ''getIndividualContextEntityAttribute'',
      service ''PUT'' IndividualContextEntityAttribute 5 [''v1'', ''contextEntities'', ''*'', ''attributes'', ''*''] ''updateContextAttributeRequest'' ''putIndividualContextEntityAttribute'',
      service ''POST'' IndividualContextEntityAttribute 5 [''v1'', ''contextEntities'', ''*'', ''attributes'', ''*''] ''updateContextAttributeRequest'' ''postIndividualContextEntityAttribute'',
      service ''DELETE'' IndividualContextEntityAttribute 5 [''v1'', ''contextEntities'', ''*'', ''attributes'', ''*''] [] ''deleteIndividualContextEntityAttribute'',
      service ''*'' IndividualContextEntityAttribute 5 [''v1'', ''contextEntities'', ''*'', ''attributes'', ''*''] [] ''badVerbGetPostDeleteOnly'',
      service ''GET'' AttributeValueInstance 6 [''v1'', ''contextEntities'', ''*'', ''attributes'', ''*'', ''*''] [] ''getAttributeValueInstance'',
      service ''PUT'' AttributeValueInstance 6 [''v1'', ''contextEntities'', ''*'', ''attributes'', ''*'', ''*''] ''updateContextAttributeRequest'' ''putAttributeValueInstance'',
      service ''DELETE'' AttributeValueInstance 6 [''v1'', ''contextEntities'', ''*'', ''attributes'', ''*'', ''*''] [] ''deleteAttributeValueInstance'',
      service ''*'' AttributeValueInstance 6 [''v1'', ''contextEntities'', ''*'', ''attributes'', ''*'', ''*''] [] ''badVerbGetPutDeleteOnly'',
      service ''GET'' Ngsi10ContextEntityTypes 3 [''v1'', ''contextEntityTypes'', ''*''] [] ''getNgsi10ContextEntityTypes'',
      service ''*'' Ngsi10ContextEntityTypes 3 [''v1'', ''contextEntityTypes'', ''*''] [] ''badVerbGetOnly'',
      service ''GET'' Ngsi10ContextEntityTypesAttributeContainer 4 [''v1'', ''contextEntityTypes'', ''*'', ''attributes''] [] ''getNgsi10ContextEntityTypes'',
      service ''*'' Ngsi10ContextEntityTypesAttributeContainer 4 [''v1'', ''contextEntityTypes'', ''*'', ''attributes''] [] ''badVerbGetOnly'',
      service ''GET'' Ngsi10ContextEntityTypesAttribute 5 [''v1'', ''contextEntityTypes'', ''*'', ''attributes'', ''*''] [] ''getNgsi10ContextEntityTypesAttribute'',
      service ''*'' Ngsi10ContextEntityTypesAttribute 5 [''v1'', ''contextEntityTypes'', ''*'', ''attributes'', ''*''] [] ''badVerbGetOnly'',
      service ''POST'' SubscribeContext 2 [''v1'', ''contextSubscriptions''] ''subscribeContextRequest'' ''postSubscribeContextConvOp'',
      service ''*'' SubscribeContext 2 [''v1'', ''contextSubscriptions''] [] ''badVerbPostOnly'',
      service ''PUT'' Ngsi10SubscriptionsConvOp 3 [''v1'', ''contextSubscriptions'', ''*''] ''updateContextSubscriptionRequest'' ''putSubscriptionConvOp'',
      service ''DELETE'' Ngsi10SubscriptionsConvOp 3 [''v1'', ''contextSubscriptions'', ''*''] [] ''deleteSubscriptionConvOp'',
      service ''*'' Ngsi10SubscriptionsConvOp 3 [''v1'', ''contextSubscriptions'', ''*''] [] ''badVerbPutDeleteOnly'',
      service ''GET'' EntityTypes 2 [''v1'', ''contextTypes''] [] ''getEntityTypes'',
      service ''*'' EntityTypes 2 [''v1'', ''contextTypes''] [] ''badVerbGetOnly'',
      service ''GET'' AttributesForEntityType 3 [''v1'', ''contextTypes'', ''*''] [] ''getAttributesForEntityType'',
      service ''*'' AttributesForEntityType 3 [''v1'', ''contextTypes'', ''*''] [] ''badVerbGetOnly'',
      service ''GET'' AllContextEntities 2 [''v1'', ''contextEntities''] [] ''getAllContextEntities'',
      service ''POST'' AllContextEntities 2 [''v1'', ''contextEntities''] ''appendContextElementRequest'' ''postIndividualContextEntity'',
      service ''*'' AllContextEntities 2 [''v1'', ''contextEntities''] [] ''badVerbGetOnly'',
      service ''GET'' AllEntitiesWithTypeAndId 6 [''v1'', ''contextEntities'', ''type'', ''*'', ''id'', ''*''] [] ''getAllEntitiesWithTypeAndId'',
      service ''POST'' AllEntitiesWithTypeAndId 6 [''v1'', ''contextEntities'', ''type'', ''*'', ''id'', ''*''] ''appendContextElementRequest'' ''postAllEntitiesWithTypeAndId'',
      service ''PUT'' AllEntitiesWithTypeAndId 6 [''v1'', ''contextEntities'', ''type'', ''*'', ''id'', ''*''] ''updateContextElementRequest'' ''putAllEntitiesWithTypeAndId'',
      service ''DELETE'' AllEntitiesWithTypeAndId 6 [''v1'', ''contextEntities'', ''type'', ''*'', ''id'', ''*''] [] ''deleteAllEntitiesWithTypeAndId'',
      service ''*'' AllEntitiesWithTypeAndId 6 [''v1'', ''contextEntities'', ''type'', ''*'', ''id'', ''*''] [] ''badVerbAllFour'',
      service ''GET'' IndividualContextEntityAttributeWithTypeAndId 8 [''v1'', ''contextEntities'', ''type'', ''*'', ''id'', ''*'', ''attributes'', ''*''] [] ''getIndividualContextEntityAttributeWithTypeAndId'',
      service ''POST'' IndividualContextEntityAttributeWithTypeAndId 8 [''v1'', ''contextEntities'', ''type'', ''*'', ''id'', ''*'', ''attributes'', ''*''] ''updateContextAttributeRequest'' ''postIndividualContextEntityAttributeWithTypeAndId'',
      service ''PUT'' IndividualContextEntityAttributeWithTypeAndId 8 [''v1'', ''contextEntities'', ''type'', ''*'', ''id'', ''*'', ''attributes'', ''*''] ''updateContextAttributeRequest'' ''putIndividualContextEntityAttributeWithTypeAndId'',
      service ''DELETE'' IndividualContextEntityAttributeWithTypeAndId 8 [''v1'', ''contextEntities'', ''type'', ''*'', ''id'', ''*'', ''attributes'', ''*''] [] ''deleteIndividualContextEntityAttributeWithTypeAndId'',
      service ''*'' IndividualContextEntityAttributeWithTypeAndId 8 [''v1'', ''contextEntities'', ''type'', ''*'', ''id'', ''*'', ''attributes'', ''*''] [] ''badVerbAllFour'',
      service ''GET'' AttributeValueInstanceWithTypeAndId 9 [''v1'', ''contextEntities'', ''type'', ''*'', ''id'', ''*'', ''attributes'', ''*'', ''*''] [] ''getAttributeValueInstanceWithTypeAndId'',
      service ''POST'' AttributeValueInstanceWithTypeAndId 9 [''v1'', ''contextEntities'', ''type'', ''*'', ''id'', ''*'', ''attributes'', ''*'', ''*''] ''updateContextAttributeRequest'' ''postAttributeValueInstanceWithTypeAndId'',
      service ''PUT'' AttributeValueInstanceWithTypeAndId 9 [''v1'', ''contextEntities'', ''type'', ''*'', ''id'', ''*'', ''attributes'', ''*'', ''*''] ''updateContextAttributeRequest'' ''putAttributeValueInstanceWithTypeAndId'',
      service ''DELETE'' AttributeValueInstanceWithTypeAndId 9 [''v1'', ''contextEntities'', ''type'', ''*'', ''id'', ''*'', ''attributes'', ''*'', ''*''] [] ''deleteAttributeValueInstanceWithTypeAndId'',
      service ''*'' AttributeValueInstanceWithTypeAndId 9 [''v1'', ''contextEntities'', ''type'', ''*'', ''id'', ''*'', ''attributes'', ''*'', ''*''] [] ''badVerbAllFour'',
      service ''GET'' ContextEntitiesByEntityIdAndType 7 [''v1'', ''registry'', ''contextEntities'', ''type'', ''*'', ''id'', ''*''] [] ''getContextEntitiesByEntityIdAndType'',
      service ''POST'' ContextEntitiesByEntityIdAndType 7 [''v1'', ''registry'', ''contextEntities'', ''type'', ''*'', ''id'', ''*''] ''registerProviderRequest'' ''postContextEntitiesByEntityIdAndType'',
      service ''*'' ContextEntitiesByEntityIdAndType 7 [''v1'', ''registry'', ''contextEntities'', ''type'', ''*'', ''id'', ''*''] [] ''badVerbGetPostOnly'',
      service ''GET'' EntityByIdAttributeByNameIdAndType 9 [''v1'', ''registry'', ''contextEntities'', ''type'', ''*'', ''id'', ''*'', ''attributes'', ''*''] [] ''getEntityByIdAttributeByNameWithTypeAndId'',
      service ''POST'' EntityByIdAttributeByNameIdAndType 9 [''v1'', ''registry'', ''contextEntities'', ''type'', ''*'', ''id'', ''*'', ''attributes'', ''*''] ''registerProviderRequest'' ''postEntityByIdAttributeByNameWithTypeAndId'',
      service ''*'' EntityByIdAttributeByNameIdAndType 9 [''v1'', ''registry'', ''contextEntities'', ''type'', ''*'', ''id'', ''*'', ''attributes'', ''*''] [] ''badVerbGetPostOnly'']"

definition LOG_REQUESTS_V0 :: "RestService list" where
  "LOG_REQUESTS_V0 =
     [service ''GET'' LogRequest 2 [''log'', ''trace''] [] ''logTraceTreat'',
      service ''DELETE'' LogRequest 2 [''log'', ''trace''] [] ''logTraceTreat'',
      service ''*'' LogRequest 2 [''log'', ''trace''] [] ''badVerbAllFour'',
      service ''PUT'' LogRequest 3 [''log'', ''trace'', ''*''] [] ''logTraceTreat'',
      service ''DELETE'' LogRequest 3 [''log'', ''trace'', ''*''] [] ''logTraceTreat'',
      service ''*'' LogRequest 3 [''log'', ''trace'', ''*''] [] ''badVerbAllFour'',
      service ''GET'' LogRequest 2 [''log'', ''traceLevel''] [] ''logTraceTreat'',
      service ''DELETE'' LogRequest 2 [''log'', ''traceLevel''] [] ''logTraceTreat'',
      service ''*'' LogRequest 2 [''log'', ''traceLevel''] [] ''badVerbAllFour'',
      service ''PUT'' LogRequest 3 [''log'', ''traceLevel'', ''*''] [] ''logTraceTreat'',
      service ''DELETE'' LogRequest 3 [''log'', ''traceLevel'', ''*''] [] ''logTraceTreat'',
      service ''*'' LogRequest 3 [''log'', ''traceLevel'', ''*''] [] ''badVerbAllFour'']"

definition LOG_REQUESTS_V1 :: "RestService list" where
  "LOG_REQUESTS_V1 =
     [service ''GET'' LogRequest 4 [''v1'', ''admin'', ''log'', ''trace''] [] ''logTraceTreat'',
      service ''DELETE'' LogRequest 4 [''v1'', ''admin'', ''log'', ''trace''] [] ''logTraceTreat'',
      service ''*'' LogRequest 4 [''v1'', ''admin'', ''log'', ''trace''] [] ''badVerbAllFour'',
      service ''PUT'' LogRequest 5 [''v1'', ''admin'', ''log'', ''trace'', ''*''] [] ''logTraceTreat'',
      service ''DELETE'' LogRequest 5 [''v1'', ''admin'', ''log'', ''trace'', ''*''] [] ''logTraceTreat'',
      service ''*'' LogRequest 5 [''v1'', ''admin'', ''log'', ''trace'', ''*''] [] ''badVerbAllFour'',
      service ''GET'' LogRequest 4 [''v1'', ''admin'', ''log'', ''traceLevel''] [] ''logTraceTreat'',
      service ''DELETE'' LogRequest 4 [''v1'', ''admin'', ''log'', ''traceLevel''] [] ''logTraceTreat'',
      service ''*'' LogRequest 4 [''v1'', ''admin'', ''log'', ''traceLevel''] [] ''badVerbAllFour'',
      service ''PUT'' LogRequest 5 [''v1'', ''admin'', ''log'', ''traceLevel'', ''*''] [] ''logTraceTreat'',
      service ''DELETE'' LogRequest 5 [''v1'', ''admin'', ''log'', ''traceLevel'', ''*''] [] ''logTraceTreat'',
      service ''*'' LogRequest 5 [''v1'', ''admin'', ''log'', ''traceLevel'', ''*''] [] ''badVerbAllFour'']"

definition STAT_REQUESTS_V0 :: "RestService list" where
  "STAT_REQUESTS_V0 =
     [service ''GET'' StatisticsRequest 1 [''statistics''] [] ''statisticsTreat'',
      service ''DELETE'' StatisticsRequest 1 [''statistics''] [] ''statisticsTreat'',
      service ''*'' StatisticsRequest 1 [''statistics''] [] ''badVerbGetDeleteOnly'']"

definition STAT_REQUESTS_V1 :: "RestService list" where
  "STAT_REQUESTS_V1 =
     [service ''GET'' StatisticsRequest 3 [''v1'', ''admin'', ''statistics''] [] ''statisticsTreat'',
      service ''DELETE'' StatisticsRequest 3 [''v1'', ''admin'', ''statistics''] [] ''statisticsTreat'',
      service ''*'' StatisticsRequest 3 [''v1'', ''admin'', ''statistics''] [] ''badVerbGetDeleteOnly'']"

definition VERSION_REQUESTS :: "RestService list" where
  "VERSION_REQUESTS =
     [service ''GET'' VersionRequest 1 [''version''] [] ''versionTreat'',
      service ''*'' VersionRequest 1 [''version''] [] ''badVerbGetOnly'']"

definition EXIT_REQUESTS :: "RestService list" where
  "EXIT_REQUESTS =
     [service ''GET'' ExitRequest 2 [''exit'', ''*''] [] ''exitTreat'',
      service ''GET'' ExitRequest 1 [''exit''] [] ''exitTreat'']"

definition LEAK_REQUESTS :: "RestService list" where
  "LEAK_REQUESTS =
     [service ''GET'' LeakRequest 2 [''leak'', ''*''] [] ''leakTreat'',
      service ''GET'' LeakRequest 1 [''leak''] [] ''leakTreat'']"

definition INVALID_REQUESTS :: "RestService list" where
  "INVALID_REQUESTS =
     [service ''*'' InvalidRequest 2 [''ngsi9'', ''*''] [] ''badNgsi9Request'',
      service ''*'' InvalidRequest 2 [''ngsi10'', ''*''] [] ''badNgsi10Request'',
      service ''*'' InvalidRequest 0 [''*'', ''*'', ''*'', ''*'', ''*'', ''*''] [] ''badRequest'']"

text \<open>The services that only a debug build has are included when \<open>debug\<close> is set.\<close>

definition restServiceV :: "bool \<Rightarrow> RestService list" where
  "restServiceV debug =
     API_V2 @
     REGISTRY_STANDARD_REQUESTS_V0 @ REGISTRY_STANDARD_REQUESTS_V1 @ STANDARD_REQUESTS_V0 @ STANDARD_REQUESTS_V1 @
     REGISTRY_CONVENIENCE_OPERATIONS_V0 @ REGISTRY_CONVENIENCE_OPERATIONS_V1 @
     CONVENIENCE_OPERATIONS_V0 @ CONVENIENCE_OPERATIONS_V1 @
     LOG_REQUESTS_V0 @ LOG_REQUESTS_V1 @ STAT_REQUESTS_V0 @ STAT_REQUESTS_V1 @ VERSION_REQUESTS @
     (if debug then EXIT_REQUESTS @ LEAK_REQUESTS else []) @
     INVALID_REQUESTS @ [END_REQUEST]"

definition restServiceNgsi9 :: "bool \<Rightarrow> RestService list" where
  "restServiceNgsi9 debug =
     REGISTRY_STANDARD_REQUESTS_V0 @ REGISTRY_STANDARD_REQUESTS_V1 @
     REGISTRY_CONVENIENCE_OPERATIONS_V0 @ REGISTRY_CONVENIENCE_OPERATIONS_V1 @
     LOG_REQUESTS_V0 @ LOG_REQUESTS_V1 @ STAT_REQUESTS_V0 @ STAT_REQUESTS_V1 @ VERSION_REQUESTS @
     (if debug then EXIT_REQUESTS @ LEAK_REQUESTS else []) @
     INVALID_REQUESTS @ [END_REQUEST]"

section \<open>Routines for bad requests\<close>

definition badVerb :: "string \<Rightarrow> 'w treat" where
  "badVerb allow ci components compV pd w =
     Some (Ret ([], ci\<lparr>ci_httpHeader := ci_httpHeader ci @ [(''Allow'', allow)], ci_httpStatusCode := SccBadVerb\<rparr>, pd, w))"

definition badVerbAllFour :: "'w treat" where
  "badVerbAllFour = badVerb ''POST, GET, PUT, DELETE''"

definition badVerbGetDeleteOnly :: "'w treat" where
  "badVerbGetDeleteOnly = badVerb ''GET, DELETE''"

definition badVerbGetOnly :: "'w treat" where
  "badVerbGetOnly = badVerb ''GET''"

definition badVerbGetPostDeleteOnly :: "'w treat" where
  "badVerbGetPostDeleteOnly = badVerb ''GET, POST, DELETE''"

definition badVerbGetPostOnly :: "'w treat" where
  "badVerbGetPostOnly = badVerb ''POST, GET''"

definition badVerbGetPutDeleteOnly :: "'w treat" where
  "badVerbGetPutDeleteOnly = badVerb ''GET, PUT, DELETE''"

definition badVerbPostOnly :: "'w treat" where
  "badVerbPostOnly = badVerb ''POST''"

definition badVerbPutDeleteOnly :: "'w treat" where
  "badVerbPutDeleteOnly = badVerb ''PUT, DELETE''"

definition service_not_found :: "'w treat" where
  "service_not_found ci components compV pd w =
     (let (answer, ci') = restErrorReplyGet ci (ci_outFormat ci) [] (c_str (ci_payloadWord ci)) SccBadRequest ''service not found''
      in Some (Ret (answer, ci', pd, w)))"

definition badRequest :: "'w treat" where
  "badRequest = service_not_found"

definition badNgsi9Request :: "'w treat" where
  "badNgsi9Request = service_not_found"

definition badNgsi10Request :: "'w treat" where
  "badNgsi10Request = service_not_found"

text \<open>The routines above by their names; \<open>others\<close> has the rest.\<close>

definition bad_routines :: "(string \<Rightarrow> 'w treat) \<Rightarrow> string \<Rightarrow> 'w treat" where
  "bad_routines others name =
     (if name = ''badVerbAllFour'' then badVerbAllFour
      else if name = ''badVerbGetDeleteOnly'' then badVerbGetDeleteOnly
      else if name = ''badVerbGetOnly'' then badVerbGetOnly
      else if name = ''badVerbGetPostDeleteOnly'' then badVerbGetPostDeleteOnly
      else if name = ''badVerbGetPostOnly'' then badVerbGetPostOnly
      else if name = ''badVerbGetPutDeleteOnly'' then badVerbGetPutDeleteOnly
      else if name = ''badVerbPostOnly'' then badVerbPostOnly
      else if name = ''badVerbPutDeleteOnly'' then badVerbPutDeleteOnly
      else if name = ''badRequest'' then badRequest
      else if name = ''badNgsi9Request'' then badNgsi9Request
      else if name = ''badNgsi10Request'' then badNgsi10Request
      else others name)"

section \<open>Facts about the vectors\<close>

text \<open>Every service but the last, which is for any number of components, has between one and nine components.\<close>

definition regular :: "RestService \<Rightarrow> bool" where
  "regular sv \<longleftrightarrow> sv_treat sv \<noteq> None \<and> 0 < sv_components sv \<and> sv_components sv \<le> 9 \<and> wf_service sv"

lemma regular_service: "regular (service v r n cs w t) \<longleftrightarrow> 0 < n \<and> n \<le> 9 \<and> length cs \<le> 10 \<and> length w < 64"
  by (auto simp: regular_def service_def wf_service_def)

abbreviation catch_all :: RestService where
  "catch_all \<equiv> service ''*'' InvalidRequest 0 [''*'', ''*'', ''*'', ''*'', ''*'', ''*''] [] ''badRequest''"

lemma regular_groups:
  "list_all regular API_V2" "list_all regular REGISTRY_STANDARD_REQUESTS_V0" "list_all regular REGISTRY_STANDARD_REQUESTS_V1"
  "list_all regular STANDARD_REQUESTS_V0" "list_all regular STANDARD_REQUESTS_V1"
  "list_all regular REGISTRY_CONVENIENCE_OPERATIONS_V0" "list_all regular REGISTRY_CONVENIENCE_OPERATIONS_V1"
  "list_all regular CONVENIENCE_OPERATIONS_V0" "list_all regular CONVENIENCE_OPERATIONS_V1"
  "list_all regular LOG_REQUESTS_V0" "list_all regular LOG_REQUESTS_V1" "list_all regular STAT_REQUESTS_V0"
  "list_all regular STAT_REQUESTS_V1" "list_all regular VERSION_REQUESTS" "list_all regular EXIT_REQUESTS"
  "list_all regular LEAK_REQUESTS" "list_all regular (butlast INVALID_REQUESTS)"
  by (simp_all add: regular_service API_V2_def REGISTRY_STANDARD_REQUESTS_V0_def REGISTRY_STANDARD_REQUESTS_V1_def
    STANDARD_REQUESTS_V0_def STANDARD_REQUESTS_V1_def REGISTRY_CONVENIENCE_OPERATIONS_V0_def
    REGISTRY_CONVENIENCE_OPERATIONS_V1_def CONVENIENCE_OPERATIONS_V0_def CONVENIENCE_OPERATIONS_V1_def
    LOG_REQUESTS_V0_def LOG_REQUESTS_V1_def STAT_REQUESTS_V0_def STAT_REQUESTS_V1_def VERSION_REQUESTS_def
    EXIT_REQUESTS_def LEAK_REQUESTS_def INVALID_REQUESTS_def)

lemma INVALID_REQUESTS_last: "INVALID_REQUESTS = butlast INVALID_REQUESTS @ [catch_all]"
  by (simp add: INVALID_REQUESTS_def)

lemma ends_append:
  "list_all p a \<Longrightarrow> \<exists>rs. b = rs @ t \<and> list_all p rs \<Longrightarrow> \<exists>rs. a @ b = rs @ t \<and> list_all p rs"
  by (metis append.assoc list_all_append)

lemma INVALID_REQUESTS_ends: "\<exists>rs. INVALID_REQUESTS @ [END_REQUEST] = rs @ [catch_all, END_REQUEST] \<and> list_all regular rs"
  using regular_groups(17) INVALID_REQUESTS_last by (metis append.assoc append_Cons append_Nil)

lemma debug_groups: "list_all regular (if d then EXIT_REQUESTS @ LEAK_REQUESTS else [])"
  by (simp add: regular_groups)

lemma restServiceV_regular:
  "\<exists>rs. restServiceV d = rs @ [catch_all, END_REQUEST] \<and> list_all regular rs"
  "\<exists>rs. restServiceNgsi9 d = rs @ [catch_all, END_REQUEST] \<and> list_all regular rs"
  unfolding restServiceV_def restServiceNgsi9_def
  by (rule ends_append regular_groups debug_groups INVALID_REQUESTS_ends)+

section \<open>Which requests are routed\<close>

lemma regular_lookup_skip:
  assumes "list_all regular rs" and "length compV > 9"
  shows "service_lookup (rs @ ss) meth compV word = service_lookup ss meth compV word"
  using assms by (induction rs) (auto simp: regular_def)

lemma component_ok_nil: "component_ok [] c \<longleftrightarrow> c_str c = []"
  by (auto simp: component_ok_def c_str_def strcaseeq_def)

text \<open>The last service against a URL: six components of any kind, the further ones must be empty.\<close>

lemma catch_all_compV: "sv_compV catch_all = replicate 6 ''*'' @ replicate 4 []"
  by (simp add: service_def numeral_eq_Suc)

lemma match_catch_all_step:
  "match_components catch_all n (c # cs) =
     (if n < 6 then match_components catch_all (Suc n) cs
      else if n < 10 then if c_str c = [] then match_components catch_all (Suc n) cs else Ret False else UB)"
proof -
  have "vec_at (sv_compV catch_all) n = (if n < 6 then Ret ''*'' else if n < 10 then Ret [] else UB)"
    by (simp add: vec_at_def catch_all_compV nth_append)
  moreover have "strcaseeq [] (c_str c) \<longleftrightarrow> c_str c = []" by (auto simp: strcaseeq_def c_str_def)
  ultimately show ?thesis by (simp add: c_str_id)
qed

lemma match_catch_all:
  "n \<le> 10 \<Longrightarrow> match_components catch_all n compV =
     (if list_all (\<lambda>c. c_str c = []) (take (10 - max n 6) (drop (6 - n) compV))
      then if n + length compV > 10 then UB else Ret True
      else Ret False)"
proof (induction compV arbitrary: n)
  case (Cons c cs)
  consider "n < 6" | "6 \<le> n" "n < 10" | "n = 10" using Cons.prems by linarith
  then show ?case
  proof cases
    case 1
    then have "6 - n = Suc (6 - Suc n)" "max n 6 = 6" "max (Suc n) 6 = 6" by auto
    with 1 Cons.IH [of "Suc n"] show ?thesis by (simp add: match_catch_all_step del: match_components.simps(2))
  next
    case 2
    then have "10 - n = Suc (10 - Suc n)" by simp
    with 2 Cons.IH [of "Suc n"] show ?thesis by (auto simp: match_catch_all_step max_def simp del: match_components.simps(2))
  qed (simp add: match_catch_all_step del: match_components.simps(2))
qed simp

text \<open>The places of a URL that only the last service looks at.\<close>

definition late_components_empty :: "string list \<Rightarrow> bool" where
  "late_components_empty compV \<longleftrightarrow> list_all (\<lambda>c. c_str c = []) (take 4 (drop 6 compV))"

lemma service_lookup_UB:
  assumes "serviceV = rs @ [catch_all, END_REQUEST]" and "list_all regular rs"
  shows "service_lookup serviceV meth compV word = UB \<longleftrightarrow> length compV > 10 \<and> late_components_empty compV"
proof (cases "length compV > 10")
  case True
  with assms have "service_lookup serviceV meth compV word =
      service_lookup [catch_all, END_REQUEST] meth compV word"
    by (simp add: regular_lookup_skip)
  also have "\<dots> = UB \<longleftrightarrow> late_components_empty compV"
    using True match_catch_all [of 0 compV]
    by (simp add: service_def END_REQUEST_def late_components_empty_def Let_def)
  finally show ?thesis using True by simp
next
  case False
  moreover have "list_all (\<lambda>sv. length (sv_compV sv) = 10) serviceV"
    using assms by (auto simp: regular_def wf_service_def list_all_iff service_def END_REQUEST_def)
  moreover have "list_ex (\<lambda>sv. sv_treat sv = None) serviceV" using assms(1) by (simp add: END_REQUEST_def)
  ultimately show ?thesis using service_lookup_found [of compV serviceV meth word] by auto
qed


lemmas vector_shapes = restServiceV_regular

lemma routed:
  assumes "serviceV = rs @ [catch_all, END_REQUEST]" and "list_all regular rs" and "length compV \<le> 10"
  shows "\<exists>word'. service_lookup serviceV meth compV word = Ret (find (service_applies meth compV) (butlast serviceV), word')"
proof -
  have "list_all (\<lambda>sv. length (sv_compV sv) = 10) serviceV"
    using assms(1,2) by (auto simp: regular_def wf_service_def list_all_iff service_def END_REQUEST_def)
  moreover have "list_ex (\<lambda>sv. sv_treat sv = None) serviceV" using assms(1) by (simp add: END_REQUEST_def)
  moreover have "takeWhile (\<lambda>sv. sv_treat sv \<noteq> None) serviceV = butlast serviceV"
  proof -
    have "sv_treat sv \<noteq> None" if "sv \<in> set (rs @ [catch_all])" for sv
      using assms(2) that by (auto simp: regular_def list_all_iff service_def)
    then have "takeWhile (\<lambda>sv. sv_treat sv \<noteq> None) ((rs @ [catch_all]) @ [END_REQUEST]) =
        (rs @ [catch_all]) @ takeWhile (\<lambda>sv. sv_treat sv \<noteq> None) [END_REQUEST]"
      by (rule takeWhile_append2)
    moreover have "serviceV = (rs @ [catch_all]) @ [END_REQUEST]" using assms(1) by simp
    ultimately show ?thesis by (simp add: END_REQUEST_def butlast_append)
  qed
  ultimately show ?thesis using service_lookup_found [OF assms(3), of serviceV meth word] by simp
qed

lemma catch_all_applies: "length compV \<le> 6 \<Longrightarrow> service_applies meth compV catch_all"
proof -
  assume l: "length compV \<le> 6"
  have "list_all2 component_ok (replicate (length compV) ''*'') compV"
    by (simp add: list_all2_conv_all_nth component_ok_def)
  moreover have "take (length compV) (sv_compV catch_all) = replicate (length compV) ''*''"
    using l unfolding catch_all_compV by (simp add: min_def)
  ultimately show ?thesis by (simp add: service_applies_def service_def)
qed

text \<open>C27: For a URL of at most ten components the broker's vector is searched safely and yields the first service
  whose verb, number of components and component patterns fit the request; for one of at most six
  components there always is such a service.\<close>

theorem requests_are_routed:
  assumes "length compV \<le> 10"
  shows "\<exists>found word'. service_lookup (restServiceV debug) meth compV word = Ret (found, word') \<and>
    found = find (service_applies meth compV) (butlast (restServiceV debug)) \<and>
    (found = None \<longrightarrow> length compV > 6)"
proof -
  obtain rs where v: "restServiceV debug = rs @ [catch_all, END_REQUEST]" "list_all regular rs"
    using vector_shapes(1) by blast
  have "catch_all \<in> set (butlast (restServiceV debug))" using v(1) by (simp add: butlast_append)
  then have "length compV \<le> 6 \<Longrightarrow> find (service_applies meth compV) (butlast (restServiceV debug)) \<noteq> None"
    using catch_all_applies by (auto simp: find_None_iff)
  with routed [OF v assms, of meth word] show ?thesis by fastforce
qed

theorem requests_are_routed_witness:
  "\<exists>found word'. service_lookup (restServiceV False) ''PATCH'' [''v1'', ''nothing''] [] = Ret (found, word') \<and>
    found = find (service_applies ''PATCH'' [''v1'', ''nothing'']) (butlast (restServiceV False)) \<and>
    (found = None \<longrightarrow> length [''v1'', ''nothing''] > 6)"
  using requests_are_routed [of "[''v1'', ''nothing'']" False "''PATCH''" "[]"] by simp

text \<open>C28: The search reads past the end of the array of components of the last service exactly for a URL of
  more than ten components of which the seventh to the tenth are empty.\<close>

theorem lookup_out_of_bounds:
  "service_lookup (restServiceV debug) meth compV word = UB \<longleftrightarrow> length compV > 10 \<and> late_components_empty compV"
  using vector_shapes(1) [of debug] service_lookup_UB by metis

text \<open>A request for the URL \<open>/a/b/c/d/e/f//////x\<close> makes the broker read past the array, whatever its
  verb, and whatever the service routines are.\<close>

theorem crashing_url:
  "ci_url ci = ''/a/b/c/d/e/f//////x'' \<Longrightarrow> restService b (restServiceV debug) ci srv = Some UB"
proof -
  assume u: "ci_url ci = ''/a/b/c/d/e/f//////x''"
  have "late_components_empty (snd (stringSplit ''/a/b/c/d/e/f//////x'' (CHR ''/'') [])) \<and>
      length (snd (stringSplit ''/a/b/c/d/e/f//////x'' (CHR ''/'') [])) > 10"
    by code_simp
  then have "service_lookup (restServiceV debug) (ci_method ci) (snd (stringSplit (ci_url ci) (CHR ''/'') [])) (ci_payloadWord ci) = UB"
    using vector_shapes(1) [of debug] service_lookup_UB unfolding u by metis
  moreover have "\<not> (length (ci_url ci) = 0 \<or> length (ci_url ci) = 1 \<and> take 1 (ci_url ci) = ''/'')" by (simp add: u)
  ultimately show ?thesis by (simp add: restService_url del: service_lookup.simps)
qed

theorem crashing_url_witness:
  "restService broker0 (restServiceV False) (posted\<lparr>ci_url := ''/a/b/c/d/e/f//////x''\<rparr>) server0 = Some UB"
  by (rule crashing_url) simp


section \<open>Verbs that are announced and verbs that are served\<close>

lemma service_applies_service:
  "service_applies m c (service v r n cs w t) \<longleftrightarrow>
     (if n \<noteq> 0 \<and> n \<noteq> length c then False
      else if v \<noteq> m \<and> v \<noteq> ''*'' then False
      else list_all2 component_ok (take (length c) (cs @ replicate (10 - length cs) [])) c)"
  by (auto simp: service_applies_def service_def)

lemma find_append: "find p (a @ b) = (case find p a of None \<Rightarrow> find p b | Some x \<Rightarrow> Some x)"
  by (induction a) auto

lemmas group_defs = API_V2_def REGISTRY_STANDARD_REQUESTS_V0_def REGISTRY_STANDARD_REQUESTS_V1_def
    STANDARD_REQUESTS_V0_def STANDARD_REQUESTS_V1_def REGISTRY_CONVENIENCE_OPERATIONS_V0_def
    REGISTRY_CONVENIENCE_OPERATIONS_V1_def CONVENIENCE_OPERATIONS_V0_def CONVENIENCE_OPERATIONS_V1_def

lemmas lookup_simps = service_applies_service component_ok_def strcaseeq_def to_lower_def char_class_defs c_str_def

text \<open>The routine that the broker's vector has for a request.\<close>

definition routine_for :: "string \<Rightarrow> string list \<Rightarrow> string option" where
  "routine_for meth compV = (case find (service_applies meth compV) (restServiceV False) of None \<Rightarrow> None | Some sv \<Rightarrow> sv_treat sv)"

lemma routines_contextEntities:
  "routine_for ''PATCH'' [''v1'', ''contextEntities''] = Some ''badVerbGetOnly''"
  "routine_for ''POST'' [''v1'', ''contextEntities''] = Some ''postIndividualContextEntity''"
  unfolding routine_for_def restServiceV_def find_append
  by (simp_all add: group_defs lookup_simps, simp_all add: service_def)

lemma routines_attribute:
  "routine_for ''PATCH'' [''v1'', ''contextEntities'', ''e'', ''attributes'', ''a''] = Some ''badVerbGetPostDeleteOnly''"
  "routine_for ''PUT'' [''v1'', ''contextEntities'', ''e'', ''attributes'', ''a''] = Some ''putIndividualContextEntityAttribute''"
  unfolding routine_for_def restServiceV_def find_append
  by (simp_all add: group_defs lookup_simps, simp_all add: service_def)


text \<open>The \<open>Allow\<close> header of the answer 405 leaves out verbs that the broker serves: \<open>PUT\<close> for the attribute
  of an entity, and \<open>POST\<close> for the collection of entities.\<close>

theorem allow_header_incomplete:
  "routine_for ''PUT'' [''v1'', ''contextEntities'', ''e'', ''attributes'', ''a''] = Some ''putIndividualContextEntityAttribute'' \<and>
   routine_for ''PATCH'' [''v1'', ''contextEntities'', ''e'', ''attributes'', ''a''] = Some ''badVerbGetPostDeleteOnly'' \<and>
   bad_routines others ''badVerbGetPostDeleteOnly'' ci n compV pd w =
     Some (Ret ([], ci\<lparr>ci_httpHeader := ci_httpHeader ci @ [(''Allow'', ''GET, POST, DELETE'')], ci_httpStatusCode := SccBadVerb\<rparr>, pd, w)) \<and>
   routine_for ''POST'' [''v1'', ''contextEntities''] = Some ''postIndividualContextEntity'' \<and>
   routine_for ''PATCH'' [''v1'', ''contextEntities''] = Some ''badVerbGetOnly'' \<and>
   bad_routines others ''badVerbGetOnly'' ci n compV pd w =
     Some (Ret ([], ci\<lparr>ci_httpHeader := ci_httpHeader ci @ [(''Allow'', ''GET'')], ci_httpStatusCode := SccBadVerb\<rparr>, pd, w))"
  by (simp add: routines_attribute routines_contextEntities bad_routines_def badVerbGetPostDeleteOnly_def badVerbGetOnly_def badVerb_def)

section \<open>From the connection to the answer\<close>


lemma components_bound:
  assumes "count_list (c_str url) (CHR ''/'') \<le> 9"
  shows "length (snd (stringSplit url (CHR ''/'') [])) \<le> 10"
proof -
  let ?t = "dropWhile (\<lambda>c. c = CHR ''/'') (c_str url)"
  have "count_list (c_str url) (CHR ''/'') = count_list (takeWhile (\<lambda>c. c = CHR ''/'') (c_str url)) (CHR ''/'') + count_list ?t (CHR ''/'')"
    by (metis count_list_append takeWhile_dropWhile_id)
  then have "count_list ?t (CHR ''/'') \<le> 9" using assms by simp
  then show ?thesis by (simp add: stringSplit_eq Let_def length_split_on)
qed

lemma count_trailing: "count_list (rev (dropWhile p (rev s))) c \<le> count_list s c"
  by (metis count_list_append count_list_rev le_add2 rev_append rev_rev_ident takeWhile_dropWhile_id)

text \<open>Serving a connection on the broker's vector.\<close>

lemma serve_answers:
  assumes "\<forall>s. rc_response (bk_rest b) s" and "count_list (c_str (ci_url ci)) (CHR ''/'') \<le> 9"
  shows "(\<exists>ci' srv'. serve b (restServiceV debug) ci srv = Some (Ret (ci', srv')) \<and> (ci_replies ci' \<noteq> [] \<or> srv_exited srv')) \<or>
    (\<exists>sv t ci2 pd. find (service_applies (ci_method ci) (snd (stringSplit (ci_url ci) (CHR ''/'') []))) (butlast (restServiceV debug)) = Some sv \<and>
       sv_treat sv = Some t \<and>
       same_stuck (bk_routine b t ci2 (length (snd (stringSplit (ci_url ci) (CHR ''/'') []))) (snd (stringSplit (ci_url ci) (CHR ''/'') [])) pd
           (srv_world srv)) (serve b (restServiceV debug) ci srv))"
proof -
  obtain rs where v: "restServiceV debug = rs @ [catch_all, END_REQUEST]" "list_all regular rs"
    using vector_shapes(1) by blast
  let ?compV = "snd (stringSplit (ci_url ci) (CHR ''/'') [])"
  obtain word where l: "service_lookup (restServiceV debug) (ci_method ci) ?compV (ci_payloadWord ci) =
      Ret (find (service_applies (ci_method ci) ?compV) (butlast (restServiceV debug)), word)"
    using routed [OF v components_bound [OF assms(2)], of "ci_method ci" "ci_payloadWord ci"] by auto
  have "\<forall>sv. find (service_applies (ci_method ci) ?compV) (butlast (restServiceV debug)) = Some sv \<longrightarrow> sv_treat sv \<noteq> None"
    using l service_lookup_treat by fastforce
  from restService_answered [OF assms(1) l this, of srv] show ?thesis
  proof (elim disjE exE conjE)
    fix answer ci' srv'
    assume "restService b (restServiceV debug) ci srv = Some (Ret (answer, ci', srv'))" "ci_replies ci' \<noteq> []"
    then show ?thesis by (simp add: serve_def)
  next
    fix answer ci' srv'
    assume "restService b (restServiceV debug) ci srv = Some (Ret (answer, ci', srv'))" "srv_exited srv'"
    then show ?thesis by (simp add: serve_def)
  next
    fix sv t ci2 pd
    assume f: "find (service_applies (ci_method ci) ?compV) (butlast (restServiceV debug)) = Some sv" "sv_treat sv = Some t"
      and s: "same_stuck (bk_routine b t ci2 (length ?compV) ?compV pd (srv_world srv)) (restService b (restServiceV debug) ci srv)"
    then have "same_stuck (bk_routine b t ci2 (length ?compV) ?compV pd (srv_world srv)) (serve b (restServiceV debug) ci srv)"
      by (auto simp: same_stuck_def serve_def)
    with f show ?thesis by blast
  qed
qed

lemma stringSplit_c_str: "c_str s = c_str t \<Longrightarrow> stringSplit s d [] = stringSplit t d []"
  by (simp add: stringSplit_def)

text \<open>The components of a URL: what stands between its slashes, those at the end left out.\<close>

definition url_components :: "string \<Rightarrow> string list" where
  "url_components url = snd (stringSplit (rev (dropWhile (\<lambda>c. c = CHR ''/'') (rev (c_str url)))) (CHR ''/'') [])"

text \<open>C13: no request is lost outside the service routines. Let responses be created when asked for, the
  first call be defined (\<open>first_call_undefined\<close> says when it is not) and the URL have at most
  nine slashes. Whatever the parsers and routines do, the treatment of a connection, from its headers over
  its payload to the service that is found for it, then ends with at least one response queued or with the
  process told to exit, unless the routine of that service, the first of the broker's vector that fits
  verb and URL, itself waits for ever or is undefined; then the treatment has that same outcome.\<close>

theorem connection_answered:
  assumes "\<forall>s. rc_response (bk_rest b) s"
    and "connectionTreat_first (bk_rest b) addr headers args tenantBuf url meth version \<noteq> UB"
    and "count_list (c_str url) (CHR ''/'') \<le> 9"
  shows "(\<exists>ci' srv'. treat_connection (bk_rest b) (serve b (restServiceV debug)) addr headers args tenantBuf url meth version payload srv =
      Some (Ret (ci', srv')) \<and> (ci_replies ci' \<noteq> [] \<or> srv_exited srv')) \<or>
    (\<exists>sv t ci2 pd. find (service_applies meth (url_components url)) (butlast (restServiceV debug)) = Some sv \<and> sv_treat sv = Some t \<and>
       same_stuck (bk_routine b t ci2 (length (url_components url)) (url_components url) pd (srv_world srv))
         (treat_connection (bk_rest b) (serve b (restServiceV debug)) addr headers args tenantBuf url meth version payload srv))"
proof -
  let ?cfg = "bk_rest b"
  obtain ci where f: "connectionTreat_first ?cfg addr headers args tenantBuf url meth version = Ret ci"
    using assms(2) by (cases "connectionTreat_first ?cfg addr headers args tenantBuf url meth version") auto
  show ?thesis
  proof (cases "ci_replies ci = []")
    case True
    have nf: "\<not> forbiddenChars (Some (c_str url))"
      using connectionTreat_first_refuses [OF f] assms(1) True by auto
    note u = connectionTreat_first_url [OF f nf]
    have n: "count_list (c_str (ci_url ci)) (CHR ''/'') \<le> 9"
      using u count_trailing [of "\<lambda>c. c = CHR ''/''" "c_str url" "CHR ''/''"] assms(3) by simp
    have comps: "snd (stringSplit (ci_url ci) (CHR ''/'') []) = url_components url"
      unfolding url_components_def u [symmetric] by (simp add: stringSplit_c_str [of "c_str (ci_url ci)" "ci_url ci"])
    obtain ci2 acked where d: "(if payload = [] then Ret (ci, True) else connectionTreat_data ?cfg payload ci) = Ret (ci2, acked)"
        and u2: "ci_url ci2 = ci_url ci" "ci_method ci2 = meth"
    proof (cases "connectionTreat_data ?cfg payload ci")
      case (Ret r)
      then show ?thesis using that connectionTreat_data_url connectionTreat_first_method [OF f] by (cases r; cases "payload = []") auto
    next
      case UB
      with connectionTreat_data_Ret show ?thesis by blast
    qed
    have t: "treat_connection ?cfg (serve b (restServiceV debug)) addr headers args tenantBuf url meth version payload srv =
        connectionTreat_last ?cfg (serve b (restServiceV debug)) url ci2 srv"
      using f True d by (simp add: treat_connection_def)
    show ?thesis unfolding t
      using serve_answers [OF assms(1), of ci2 debug srv] n u2 comps assms(1)
      by (auto simp: connectionTreat_last_def Let_def restReply_queues split: prod.splits)
  qed (use f in \<open>simp add: treat_connection_def\<close>)
qed

text \<open>A broker whose refusing routines are those of the code and whose other routines wait for ever.\<close>

definition broker1 :: "unit broker" where
  "broker1 = broker0\<lparr>bk_routine := bad_routines (\<lambda>t ci n compV pd w. None)\<rparr>"

lemma bad_verb_routed:
  "find (service_applies ''PATCH'' (url_components ''/v1/contextEntities/'')) (butlast (restServiceV False)) = Some sv \<Longrightarrow>
     sv_treat sv = Some ''badVerbGetOnly''"
proof -
  have c: "url_components ''/v1/contextEntities/'' = [''v1'', ''contextEntities'']" by code_simp
  assume "find (service_applies ''PATCH'' (url_components ''/v1/contextEntities/'')) (butlast (restServiceV False)) = Some sv"
  moreover obtain xs where "restServiceV False = xs @ [END_REQUEST]"
    using vector_shapes(1) [of False] by (metis append.assoc append_Cons append_Nil)
  ultimately have "find (service_applies ''PATCH'' [''v1'', ''contextEntities'']) (restServiceV False) = Some sv"
    unfolding c by (simp add: find_append)
  then show ?thesis using routines_contextEntities(1) by (simp add: routine_for_def)
qed

theorem connection_answered_witness:
  "\<exists>ci' srv'. treat_connection (bk_rest broker1) (serve broker1 (restServiceV False)) None [] [] (replicate 128 NUL)
     ''/v1/contextEntities/'' ''PATCH'' ''HTTP/1.1'' [] server0 = Some (Ret (ci', srv')) \<and> (ci_replies ci' \<noteq> [] \<or> srv_exited srv')"
proof -
  have "connectionTreat_first (bk_rest broker1) None [] [] (replicate 128 NUL) ''/v1/contextEntities/'' ''PATCH'' ''HTTP/1.1'' \<noteq> UB"
    by (simp add: connectionTreat_first_UB header_tenant_def httpHeaders_all_def HttpHeaders_new_def all_slashes_def c_str_def)
  moreover have "\<forall>s. rc_response (bk_rest broker1) s" by (simp add: broker1_def broker0_def)
  moreover have "count_list (c_str ''/v1/contextEntities/'') (CHR ''/'') \<le> 9" by (simp add: c_str_def)
  moreover have "\<not> same_stuck (bk_routine broker1 ''badVerbGetOnly'' ci n compV pd w) r" for ci n compV pd w r
    by (simp add: broker1_def bad_routines_def badVerbGetOnly_def badVerb_def same_stuck_def)
  ultimately show ?thesis
    using connection_answered [of broker1 None "[]" "[]" "replicate 128 NUL" "''/v1/contextEntities/''" "''PATCH''" "''HTTP/1.1''" False "[]" server0]
      bad_verb_routed by fastforce
qed

end
