(* ===== verification/Http_Client.thy ===== *)
theory Http_Client
  imports Clock_Sem Common_String "HOL-Library.Word"
begin

text \<open>
  The HTTP client: \<^verbatim>\<open>src/src/lib/rest/httpRequestSend.cpp\<close> as it is compiled, over libcurl. What
  libcurl does with a request (\<open>curl_easy_perform\<close>) is the function \<open>ho_perform\<close> of the record \<open>http_ops\<close>:
  the pieces of the answer it hands to the callback, each with whether the memory for it could be had,
  and whether the transfer ended without an error. The handle and its mutex come from the table of
  \<open>Clock_Sem\<close>, and \<open>None\<close> means, as there, that the thread waits for a mutex for ever.
\<close>

section \<open>Receiving\<close>

text \<open>The buffer for the answer; its bytes from \<open>ms_size\<close> on do not matter.\<close>

record MemoryStruct =
  ms_memory :: "string option"
  ms_size :: nat

definition MemoryStruct_new :: MemoryStruct where
  "MemoryStruct_new = \<lparr>ms_memory = Some [NUL], ms_size = 0\<rparr>"

definition writeMemoryCallback :: "bool \<Rightarrow> string \<Rightarrow> MemoryStruct \<Rightarrow> nat \<times> MemoryStruct" where
  "writeMemoryCallback realloc_ok contents mem =
     (if \<not> realloc_ok then (0, mem\<lparr>ms_memory := None\<rparr>)
      else (length contents,
            \<lparr>ms_memory = Some (take (ms_size mem) (case ms_memory mem of None \<Rightarrow> [] | Some m \<Rightarrow> m) @ contents @ [NUL]),
             ms_size = ms_size mem + length contents\<rparr>))"

text \<open>libcurl gives up when the callback takes fewer bytes than it was given.\<close>

fun receive :: "(string \<times> bool) list \<Rightarrow> MemoryStruct \<Rightarrow> bool \<times> MemoryStruct" where
  "receive [] mem = (True, mem)"
| "receive ((contents, realloc_ok) # chunks) mem =
     (let (n, mem') = writeMemoryCallback realloc_ok contents mem
      in if n \<noteq> length contents then (False, mem') else receive chunks mem')"

text \<open>The result of the call, after \<open>curl_easy_perform\<close> has returned.\<close>

definition received :: "(string \<times> bool) list \<Rightarrow> bool \<Rightarrow> string" where
  "received chunks transfer_ok =
     (let (taken, mem) = receive chunks MemoryStruct_new
      in if \<not> (transfer_ok \<and> taken) then []
         else take (ms_size mem) (case ms_memory mem of None \<Rightarrow> [] | Some m \<Rightarrow> m))"

section \<open>Sending\<close>

abbreviation CURL_VERSION_MAX_LENGTH :: nat where "CURL_VERSION_MAX_LENGTH \<equiv> 128"
abbreviation HTTP_HEADER_USER_AGENT_MAX_LENGTH :: nat where "HTTP_HEADER_USER_AGENT_MAX_LENGTH \<equiv> 256"
abbreviation HTTP_HEADER_HOST_MAX_LENGTH :: nat where "HTTP_HEADER_HOST_MAX_LENGTH \<equiv> 256"
abbreviation MAX_DYN_MSG_SIZE :: int where "MAX_DYN_MSG_SIZE \<equiv> 8 * 1024 * 1024"

text \<open>The configuration of the broker that the client reads, and the arguments of a call.\<close>

record http_config =
  hc_rushHost :: string
  hc_rushPort :: "16 word"
  hc_defaultTimeout :: int
  hc_versionString :: string
  hc_curlVersion :: string

record http_args =
  ha_ip :: string
  ha_port :: "16 word"
  ha_protocol :: string
  ha_verb :: string
  ha_tenant :: string
  ha_servicePath :: string
  ha_xauthToken :: string
  ha_resource :: string
  ha_contentType :: string
  ha_content :: string
  ha_useRush :: bool
  ha_waitForResponse :: bool
  ha_acceptFormat :: string
  ha_timeout :: int

text \<open>The options set on the curl handle that depend on the call.\<close>

record curl_request =
  rq_url :: string
  rq_verb :: string
  rq_headers :: "string list"
  rq_postfields :: string
  rq_timeout :: "int option"

text \<open>\<open>ho_unlock\<close> is the result of unlocking the mutex of the handle.\<close>

record 'w http_ops =
  ho_calls :: "'w \<Rightarrow> curl_calls"
  ho_semTimeStatistics :: bool
  ho_clock :: "'w \<Rightarrow> timespec \<times> timespec"
  ho_unlock :: "'w \<Rightarrow> int"
  ho_perform :: "curl_request \<Rightarrow> 'w \<Rightarrow> (string \<times> bool) list \<times> bool \<times> 'w"

definition httpRequestInit :: "int \<Rightarrow> http_config \<Rightarrow> http_config" where
  "httpRequestInit defaultTimeoutInMilliseconds cfg =
     (if defaultTimeoutInMilliseconds \<noteq> - 1 then cfg\<lparr>hc_defaultTimeout := defaultTimeoutInMilliseconds\<rparr> else cfg)"

definition curlVersionGet :: "http_config \<Rightarrow> nat \<Rightarrow> string" where
  "curlVersionGet cfg bufLen = snprintf_buf bufLen (c_str (hc_curlVersion cfg))"

abbreviation port_str :: "16 word \<Rightarrow> string" where "port_str p \<equiv> nat_str (unat p)"

definition precondition_error :: "http_args \<Rightarrow> bool" where
  "precondition_error a \<longleftrightarrow>
     ha_port a = 0 \<or> ha_ip a = [] \<or> ha_verb a = [] \<or> ha_resource a = [] \<or>
     ha_contentType a = [] \<and> ha_content a \<noteq> [] \<or> ha_contentType a \<noteq> [] \<and> ha_content a = []"

definition uses_rush :: "http_config \<Rightarrow> http_args \<Rightarrow> bool" where
  "uses_rush cfg a \<longleftrightarrow> (if hc_rushPort cfg = 0 \<or> hc_rushHost cfg = [] then False else ha_useRush a)"

text \<open>The host and port the message is sent to.\<close>

definition destination :: "http_config \<Rightarrow> http_args \<Rightarrow> string \<times> 16 word" where
  "destination cfg a = (if uses_rush cfg a then (hc_rushHost cfg, hc_rushPort cfg) else (ha_ip a, ha_port a))"

definition rush_headers :: "http_args \<Rightarrow> string list" where
  "rush_headers a =
     (''X-relayer-host: '' @ ha_ip a @ '':'' @ port_str (ha_port a)) #
     (if ha_protocol a = ''https:'' then [''X-relayer-protocol: https''] else [])"

text \<open>The headers in the order they are appended, each with what it adds to \<open>outgoingMsgSize\<close>.\<close>

definition common_headers :: "http_config \<Rightarrow> http_args \<Rightarrow> (string \<times> nat) list" where
  "common_headers cfg a =
     (let (ip, port) = destination cfg a;
          userAgent = snprintf_buf HTTP_HEADER_USER_AGENT_MAX_LENGTH
            (''User-Agent: orion/'' @ c_str (hc_versionString cfg) @ '' libcurl/'' @ curlVersionGet cfg CURL_VERSION_MAX_LENGTH);
          host = snprintf_buf HTTP_HEADER_HOST_MAX_LENGTH (''Host: '' @ c_str ip @ '':'' @ port_str port);
          accept = ''Accept: '' @ (if ha_acceptFormat a \<noteq> [] then ha_acceptFormat a else ''application/xml, application/json'');
          contentLength = nat_str (length (ha_content a))
      in [(userAgent, length userAgent + 1), (host, length host + 1)] @
         (if ha_tenant a \<noteq> [] then [(''fiware-service: '' @ ha_tenant a, length (ha_tenant a) + 16)] else []) @
         (if ha_servicePath a \<noteq> []
          then [(''Fiware-ServicePath: '' @ ha_servicePath a, length (ha_servicePath a) + length ''Fiware-ServicePath: '')] else []) @
         (if ha_xauthToken a \<noteq> []
          then [(''X-Auth-Token: '' @ ha_xauthToken a, length (ha_xauthToken a) + length ''X-Auth-Token: '')] else []) @
         [(accept, length accept), (''Expect: '', 8),
          (''Content-length: '' @ contentLength, length contentLength + 16),
          (''Content-type: '' @ ha_contentType a, length (ha_contentType a) + 14)])"

definition sized_headers :: "http_config \<Rightarrow> http_args \<Rightarrow> (string \<times> nat) list" where
  "sized_headers cfg a =
     (if uses_rush cfg a then map (\<lambda>h. (h, length h)) (rush_headers a) else []) @ common_headers cfg a"

text \<open>An \<open>int\<close> to which sizes are added.\<close>

definition outgoingMsgSize :: "http_config \<Rightarrow> http_args \<Rightarrow> int" where
  "outgoingMsgSize cfg a = wrap32 (int (sum_list (map snd (sized_headers cfg a)) + length (ha_content a)))"

definition request_url :: "http_config \<Rightarrow> http_args \<Rightarrow> string" where
  "request_url cfg a =
     (let (ip, port) = destination cfg a
      in (if isIPv6 ip then ''['' @ ip @ '']'' else ip) @ '':'' @ port_str port @
         (if take 1 (ha_resource a) = ''/'' then [] else ''/'') @ ha_resource a)"

definition curl_request_of :: "http_config \<Rightarrow> http_args \<Rightarrow> curl_request" where
  "curl_request_of cfg a =
     (let t = (if ha_timeout a = - 1 then hc_defaultTimeout cfg else ha_timeout a)
      in \<lparr>rq_url = c_str (request_url cfg a), rq_verb = c_str (ha_verb a),
          rq_headers = map (\<lambda>(h, n). c_str h) (sized_headers cfg a),
          rq_postfields = c_str (ha_content a), rq_timeout = (if t \<noteq> 0 then Some t else None)\<rparr>)"

definition httpRequestSend ::
  "http_config \<Rightarrow> 'w http_ops \<Rightarrow> http_args \<Rightarrow> curl_state \<Rightarrow> 'w \<Rightarrow> (string \<times> curl_state \<times> 'w) option" where
  "httpRequestSend cfg ops a s w =
     (if precondition_error a then Some (''error'', s, w)
      else case get_curl_context (ho_calls ops w) (ho_semTimeStatistics ops) (fst (ho_clock ops w)) (snd (ho_clock ops w)) (ha_ip a) s of
          None \<Rightarrow> None
        | Some (_, cc, s1) \<Rightarrow>
            let released = (\<lambda>w. snd (snd (release_curl_context (ho_unlock ops w) cc s1)))
            in if cc_curl cc = None then Some (''error'', released w, w)
               else if outgoingMsgSize cfg a > MAX_DYN_MSG_SIZE then Some (''error'', released w, w)
               else let (chunks, transfer_ok, w1) = ho_perform ops (curl_request_of cfg a) w;
                        result = received chunks transfer_ok
                    in Some (result, released w1, w1))"

section \<open>What the client does\<close>

lemma receive_all:
  assumes "list_all snd chunks" and "n \<le> length m"
  shows "\<exists>m'. receive chunks \<lparr>ms_memory = Some m, ms_size = n\<rparr> =
      (True, \<lparr>ms_memory = Some m', ms_size = n + length (concat (map fst chunks))\<rparr>) \<and>
    take (n + length (concat (map fst chunks))) m' = take n m @ concat (map fst chunks)"
  using assms
proof (induction chunks arbitrary: m n)
  case (Cons ch chunks)
  obtain c ok where ch: "ch = (c, ok)" by (cases ch)
  have "\<exists>m'. receive chunks \<lparr>ms_memory = Some (take n m @ c @ [NUL]), ms_size = n + length c\<rparr> =
        (True, \<lparr>ms_memory = Some m', ms_size = n + length c + length (concat (map fst chunks))\<rparr>) \<and>
      take (n + length c + length (concat (map fst chunks))) m' =
        take (n + length c) (take n m @ c @ [NUL]) @ concat (map fst chunks)"
    using Cons.prems by (intro Cons.IH) simp_all
  then show ?case using Cons.prems by (auto simp: ch writeMemoryCallback_def add.assoc)
qed simp

text \<open>The table of handles at rest: no thread is in it, and its entries are complete.\<close>

definition curl_idle :: "curl_state \<Rightarrow> bool" where
  "curl_idle s \<longleftrightarrow> \<not> contexts_mutex s \<and> held s = [] \<and>
     (\<forall>key cc. contexts s key = Some cc \<longrightarrow> cc_curl cc \<noteq> None \<and> cc_pmutex cc \<noteq> None)"

text \<open>The calls on mutexes and for memory succeed.\<close>

definition http_calls_ok :: "'w http_ops \<Rightarrow> bool" where
  "http_calls_ok ops \<longleftrightarrow> (\<forall>w. calls_ok (ho_calls ops w) \<and> k_malloc (ho_calls ops w) \<noteq> None \<and>
     k_mutex_init (ho_calls ops w) = 0 \<and> ho_unlock ops w = 0)"

lemma get_curl_context_idle:
  assumes "curl_idle s" and "calls_ok k" and "k_malloc k \<noteq> None" and "k_mutex_init k = 0"
  shows "case get_curl_context k stat t0 t1 key s of None \<Rightarrow> False
    | Some (r, cc, s1) \<Rightarrow> curl_idle (snd (snd (release_curl_context 0 cc s1))) \<and>
        (cc_curl cc = None \<longleftrightarrow> contexts s key = None \<and> k_curl_easy_init k = None)"
proof (cases "contexts s key")
  case None
  then show ?thesis using assms
    by (cases "k_curl_easy_init k"; cases stat)
       (auto simp: get_curl_context_def find_curl_context_def lock_curl_context_def release_curl_context_def
          NULL_context_def curl_idle_def calls_ok_def mutex_lock_def Let_def)
next
  case (Some cc)
  then obtain c m where "cc = \<lparr>cc_curl = Some c, cc_pmutex = Some m\<rparr>"
    using assms(1) unfolding curl_idle_def by (cases cc) fastforce
  with Some assms show ?thesis
    by (cases stat)
       (auto simp: get_curl_context_def find_curl_context_def lock_curl_context_def release_curl_context_def
          NULL_context_def curl_idle_def calls_ok_def mutex_lock_def Let_def)
qed

text \<open>The answer that a transfer leaves in the result.\<close>

definition transfer_result :: "(string \<times> bool) list \<Rightarrow> bool \<Rightarrow> string" where
  "transfer_result chunks transfer_ok =
     (if transfer_ok \<and> list_all snd chunks then concat (map fst chunks) else [])"

lemma receive_failed:
  assumes "list_all (\<lambda>(c, got). got \<or> c \<noteq> []) chunks" and "\<not> list_all snd chunks"
  shows "\<not> fst (receive chunks mem)"
  using assms by (induction chunks arbitrary: mem) (auto simp: writeMemoryCallback_def split: if_splits)

lemma received_eq:
  assumes "list_all (\<lambda>(c, got). got \<or> c \<noteq> []) chunks"
  shows "received chunks ok = transfer_result chunks ok"
proof (cases "list_all snd chunks")
  case True
  from receive_all [OF this, of 0 "[NUL]"] True show ?thesis
    by (auto simp: transfer_result_def received_def MemoryStruct_new_def)
next
  case False
  with receive_failed [OF assms False, of MemoryStruct_new] show ?thesis
    by (auto simp: transfer_result_def received_def split: prod.splits)
qed

lemma httpRequestSend_idle:
  assumes "curl_idle s" and "http_calls_ok ops"
  shows "\<exists>s'. curl_idle s' \<and> httpRequestSend cfg ops a s w =
    (if precondition_error a \<or> contexts s (ha_ip a) = None \<and> k_curl_easy_init (ho_calls ops w) = None \<or>
        outgoingMsgSize cfg a > MAX_DYN_MSG_SIZE
     then Some (''error'', s', w)
     else case ho_perform ops (curl_request_of cfg a) w of (chunks, ok, w') \<Rightarrow> Some (received chunks ok, s', w'))"
proof (cases "precondition_error a")
  case True
  then show ?thesis using assms(1) by (auto simp: httpRequestSend_def)
next
  case False
  let ?k = "ho_calls ops w"
  have k: "calls_ok ?k" "k_malloc ?k \<noteq> None" "k_mutex_init ?k = 0" "\<And>w. ho_unlock ops w = 0"
    using assms(2) by (auto simp: http_calls_ok_def)
  let ?get = "get_curl_context ?k (ho_semTimeStatistics ops) (fst (ho_clock ops w)) (snd (ho_clock ops w)) (ha_ip a) s"
  note idle = get_curl_context_idle [OF assms(1) k(1-3), where key = "ha_ip a" and stat = "ho_semTimeStatistics ops"
      and ?t0.0 = "fst (ho_clock ops w)" and ?t1.0 = "snd (ho_clock ops w)"]
  obtain r cc s1 where g: "?get = Some (r, cc, s1)"
    using idle by (cases ?get) auto
  have i: "curl_idle (snd (snd (release_curl_context 0 cc s1)))"
      and c: "cc_curl cc = None \<longleftrightarrow> contexts s (ha_ip a) = None \<and> k_curl_easy_init ?k = None"
    using idle by (simp_all add: g)
  show ?thesis
    using False i by (intro exI [of _ "snd (snd (release_curl_context 0 cc s1))"])
      (auto simp: httpRequestSend_def g k(4) c Let_def simp del: not_None_eq split: prod.splits)
qed

section \<open>Claims\<close>

text \<open>C24: Sending a request ends. With the table of curl handles at rest and the system calls succeeding, a call
  whose arguments are incomplete, or for which there is no handle, or whose message is larger than 8 MB,
  returns "error" and sends nothing; any other call makes exactly one transfer, of the request
  composed from the arguments, and returns the whole answer, or the empty string if the transfer failed or
  there was no memory for a piece of it. On every path the table is at rest again afterwards.\<close>

theorem http_send_outcome:
  assumes "curl_idle s" and "http_calls_ok ops"
  shows "\<exists>s'. curl_idle s' \<and>
    (let no_handle = (contexts s (ha_ip a) = None \<and> k_curl_easy_init (ho_calls ops w) = None)
     in if precondition_error a \<or> no_handle \<or> outgoingMsgSize cfg a > MAX_DYN_MSG_SIZE
        then httpRequestSend cfg ops a s w = Some (''error'', s', w)
        else \<forall>chunks ok w'. ho_perform ops (curl_request_of cfg a) w = (chunks, ok, w') \<longrightarrow>
          list_all (\<lambda>(c, got). got \<or> c \<noteq> []) chunks \<longrightarrow> httpRequestSend cfg ops a s w = Some (transfer_result chunks ok, s', w'))"
  using httpRequestSend_idle [OF assms, of cfg a w] by (auto simp: Let_def received_eq split: if_splits)


text \<open>A network in which every transfer is answered with the request's own body, and the requests are recorded.\<close>

definition echo_ops :: "curl_request list http_ops" where
  "echo_ops = \<lparr>ho_calls = (\<lambda>w. curl_calls0), ho_semTimeStatistics = False, ho_clock = (\<lambda>w. (time_zero, time_zero)),
     ho_unlock = (\<lambda>w. 0), ho_perform = (\<lambda>r w. ([(''200 OK '', True), (rq_postfields r, True)], True, w @ [r]))\<rparr>"

definition http_config0 :: http_config where
  "http_config0 = \<lparr>hc_rushHost = [], hc_rushPort = 0, hc_defaultTimeout = 5000, hc_versionString = ''0.19.0'',
     hc_curlVersion = ''7.19.7''\<rparr>"

definition http_args0 :: http_args where
  "http_args0 = \<lparr>ha_ip = ''h'', ha_port = 1028, ha_protocol = ''https:'', ha_verb = ''POST'', ha_tenant = [], ha_servicePath = ''/a'',
     ha_xauthToken = [], ha_resource = ''/v1/updateContext'', ha_contentType = ''application/json'', ha_content = ''{}'',
     ha_useRush = False, ha_waitForResponse = True, ha_acceptFormat = ''application/json'', ha_timeout = - 1\<rparr>"

theorem http_send_outcome_witness:
  "\<exists>s' r. curl_idle s' \<and> httpRequestSend http_config0 echo_ops http_args0 curl_state0 [] = Some (''200 OK {}'', s', [r]) \<and>
     rq_url r = ''h:1028/v1/updateContext''"
proof -
  have ok: "curl_idle curl_state0" "http_calls_ok echo_ops"
    by (simp_all add: curl_idle_def curl_state0_def http_calls_ok_def echo_ops_def calls_ok_def curl_calls0_def)
  have "\<not> precondition_error http_args0" "outgoingMsgSize http_config0 http_args0 \<le> MAX_DYN_MSG_SIZE"
    "rq_url (curl_request_of http_config0 http_args0) = ''h:1028/v1/updateContext''"
    "rq_postfields (curl_request_of http_config0 http_args0) = ''{}''"
    "k_curl_easy_init curl_calls0 \<noteq> None"
    by code_simp+
  then show ?thesis
    using http_send_outcome [OF ok, of http_args0 "[]" http_config0]
    by (auto simp: echo_ops_def transfer_result_def Let_def)
qed

text \<open>C25: Without the Rush relayer the protocol of the destination makes no difference: a request for an
  https URL is handed to libcurl exactly like one for http, with a URL that has no scheme, so that it is
  sent in the clear. With the relayer, the two differ in the header \<open>X-relayer-protocol\<close> alone.\<close>

theorem https_needs_rush:
  "(\<not> uses_rush cfg a \<longrightarrow>
      httpRequestSend cfg ops (a\<lparr>ha_protocol := ''https:''\<rparr>) s w = httpRequestSend cfg ops (a\<lparr>ha_protocol := ''http:''\<rparr>) s w) \<and>
   (uses_rush cfg a \<longrightarrow>
      filter (\<lambda>h. h \<noteq> ''X-relayer-protocol: https'') (map fst (sized_headers cfg (a\<lparr>ha_protocol := ''https:''\<rparr>))) =
        filter (\<lambda>h. h \<noteq> ''X-relayer-protocol: https'') (map fst (sized_headers cfg (a\<lparr>ha_protocol := ''http:''\<rparr>))) \<and>
      ''X-relayer-protocol: https'' \<in> set (map fst (sized_headers cfg (a\<lparr>ha_protocol := ''https:''\<rparr>))))"
proof -
  have r: "uses_rush cfg (a\<lparr>ha_protocol := p\<rparr>) = uses_rush cfg a" "destination cfg (a\<lparr>ha_protocol := p\<rparr>) = destination cfg a"
    "precondition_error (a\<lparr>ha_protocol := p\<rparr>) = precondition_error a"
    "request_url cfg (a\<lparr>ha_protocol := p\<rparr>) = request_url cfg a" for p
    by (simp_all add: uses_rush_def destination_def precondition_error_def request_url_def Let_def)
  have c: "common_headers cfg (a\<lparr>ha_protocol := p\<rparr>) = common_headers cfg a" for p
    by (simp add: common_headers_def r Let_def)
  have h: "sized_headers cfg (a\<lparr>ha_protocol := p\<rparr>) = sized_headers cfg a" if "\<not> uses_rush cfg a" for p
    using that by (simp add: sized_headers_def r c)
  have m: "outgoingMsgSize cfg (a\<lparr>ha_protocol := p\<rparr>) = outgoingMsgSize cfg a" if "\<not> uses_rush cfg a" for p
    using that by (simp add: outgoingMsgSize_def h)
  have q: "curl_request_of cfg (a\<lparr>ha_protocol := p\<rparr>) = curl_request_of cfg a" if "\<not> uses_rush cfg a" for p
    using that by (simp add: curl_request_of_def h r)
  have e: "httpRequestSend cfg ops (a\<lparr>ha_protocol := p\<rparr>) s w = httpRequestSend cfg ops a s w" if "\<not> uses_rush cfg a" for p
    unfolding httpRequestSend_def m [OF that] q [OF that] r by simp
  show ?thesis
    by (auto simp: e) (auto simp: sized_headers_def r c rush_headers_def)
qed

theorem https_needs_rush_witness:
  "httpRequestSend http_config0 echo_ops (http_args0\<lparr>ha_protocol := ''https:''\<rparr>) curl_state0 [] =
   httpRequestSend http_config0 echo_ops (http_args0\<lparr>ha_protocol := ''http:''\<rparr>) curl_state0 []"
  using https_needs_rush [of http_config0 http_args0 echo_ops curl_state0 "[]"]
  by (simp add: uses_rush_def http_config0_def)

end
