(* ===== verification/Ngsi_Notify.thy ===== *)
theory Ngsi_Notify
  imports Http_Client Ngsi_Messages Mongo_Subs
begin

text \<open>
  Sending notifications: \<^verbatim>\<open>src/src/lib/ngsiNotify/Notifier.cpp\<close>, the sender threads
  (\<^verbatim>\<open>senderThread.cpp\<close>) and the interval threads (\<^verbatim>\<open>onTimeIntervalThread.cpp\<close>). A
  notification is given to a thread of its own, whose parameters are a value; the thread is one call of the
  HTTP client. The interval threads and the structures they read form a step relation, in which a read of a
  structure that has been deleted leads to a state of its own.
\<close>

section \<open>Sender threads\<close>

record SenderThreadParams =
  stp_ip :: string
  stp_port :: "16 word"
  stp_protocol :: string
  stp_verb :: string
  stp_tenant :: string
  stp_servicePath :: string
  stp_xauthToken :: string
  stp_resource :: string
  stp_content_type :: string
  stp_content :: string

definition SenderThreadParams_new :: SenderThreadParams where
  "SenderThreadParams_new =
     \<lparr>stp_ip = [], stp_port = 0, stp_protocol = [], stp_verb = [], stp_tenant = [], stp_servicePath = [],
      stp_xauthToken = [], stp_resource = [], stp_content_type = [], stp_content = []\<rparr>"

definition sender_args :: "SenderThreadParams \<Rightarrow> http_args" where
  "sender_args p =
     \<lparr>ha_ip = stp_ip p, ha_port = stp_port p, ha_protocol = stp_protocol p, ha_verb = stp_verb p, ha_tenant = stp_tenant p,
      ha_servicePath = stp_servicePath p, ha_xauthToken = stp_xauthToken p, ha_resource = stp_resource p,
      ha_contentType = stp_content_type p, ha_content = stp_content p, ha_useRush = True, ha_waitForResponse = False,
      ha_acceptFormat = [], ha_timeout = - 1\<rparr>"

text \<open>The answer is not looked at.\<close>

definition startSenderThread ::
  "http_config \<Rightarrow> 'w http_ops \<Rightarrow> SenderThreadParams \<Rightarrow> curl_state \<Rightarrow> 'w \<Rightarrow> (curl_state \<times> 'w) option" where
  "startSenderThread cfg ops p s w = map_option snd (httpRequestSend cfg ops (sender_args p) s w)"

section \<open>The notifier\<close>

text \<open>The service paths of the entities, and whether one of them is not the default.\<close>

fun spath_loop :: "string \<Rightarrow> bool \<Rightarrow> EntityId list \<Rightarrow> string \<times> bool" where
  "spath_loop spathList atLeastOneNotDefault [] = (spathList, atLeastOneNotDefault)"
| "spath_loop spathList atLeastOneNotDefault (en # enV) =
     spath_loop ((if spathList \<noteq> [] then spathList @ '','' else spathList) @ en_servicePath en)
       (atLeastOneNotDefault \<or> en_servicePath en \<noteq> ''/'') enV"

definition spathList_of :: "ContextElementResponse list \<Rightarrow> string" where
  "spathList_of cerV =
     (let (spathList, atLeastOneNotDefault) = spath_loop [] False (map (\<lambda>cer. ce_entityId (cer_contextElement cer)) cerV)
      in if \<not> atLeastOneNotDefault then [] else spathList)"

definition url_out :: url where
  "url_out = \<lparr>u_host = [], u_port = 0, u_path = [], u_protocol = []\<rparr>"

abbreviation content_type_of :: "Format \<Rightarrow> string" where
  "content_type_of format \<equiv> (if format = XML then ''application/xml'' else ''application/json'')"

text \<open>\<open>None\<close>: the URL is malformed and no thread is made.\<close>

definition sendNotifyContextRequest :: "notification \<Rightarrow> SenderThreadParams option cpp" where
  "sendNotifyContextRequest ncr =
     (let ci = (ConnectionInfo_new [] [] [])\<lparr>ci_outFormat := nt_format ncr\<rparr>;
          payload = NotifyContextRequest_render (nt_subId ncr) (nt_originator ncr) (nt_cerV ncr) ci []
      in cpp_bind (parseUrl (nt_url ncr) url_out) (\<lambda>(ok, u).
           Ret (if \<not> ok then None
                else Some \<lparr>stp_ip = u_host u, stp_port = word_of_int (u_port u), stp_protocol = u_protocol u, stp_verb = ''POST'',
                           stp_tenant = nt_tenant ncr, stp_servicePath = spathList_of (nt_cerV ncr),
                           stp_xauthToken = nt_xauthToken ncr, stp_resource = u_path u,
                           stp_content_type = content_type_of (nt_format ncr), stp_content = payload\<rparr>)))"

definition sendNotifyContextAvailabilityRequest ::
  "string \<Rightarrow> (registration \<times> StatusCode) list \<Rightarrow> string \<Rightarrow> string \<Rightarrow> Format \<Rightarrow> SenderThreadParams option cpp" where
  "sendNotifyContextAvailabilityRequest subscriptionId crrV url tenant format =
     (let payload = NotifyContextAvailabilityRequest_render subscriptionId crrV format []
      in cpp_bind (parseUrl url url_out) (\<lambda>(ok, u).
           Ret (if \<not> ok then None
                else Some (SenderThreadParams_new
                  \<lparr>stp_ip := u_host u, stp_port := word_of_int (u_port u), stp_verb := ''POST'', stp_tenant := tenant,
                   stp_resource := u_path u, stp_content_type := content_type_of format, stp_content := payload\<rparr>))))"

text \<open>A notification as the environment of the backend has it, together with the run of its thread.\<close>

definition notify ::
  "http_config \<Rightarrow> 'w http_ops \<Rightarrow> notification \<Rightarrow> curl_state \<Rightarrow> 'w \<Rightarrow> (curl_state \<times> 'w) cpp option" where
  "notify cfg ops ncr s w =
     (case sendNotifyContextRequest ncr of
        UB \<Rightarrow> Some UB
      | Ret None \<Rightarrow> Some (Ret (s, w))
      | Ret (Some p) \<Rightarrow> map_option Ret (startSenderThread cfg ops p s w))"

section \<open>One run of an interval thread\<close>

text \<open>
  The body of the loop of an interval thread. \<open>csi0\<close> is what the uninitialised structure holds, of which
  the vectors and the URL are empty; when the subscription is not found or cannot be read, the function
  goes on with it. The clock readings \<open>clks\<close> are those of the three uses of the request semaphore.
\<close>

definition due :: "int \<Rightarrow> ContextSubscriptionInfo \<Rightarrow> bool" where
  "due current csi \<longleftrightarrow> current < csi_expiration csi \<and>
     (csi_throttling csi < 0 \<or> csi_lastNotification csi < 0 \<or> csi_lastNotification csi + csi_throttling csi < current)"

definition csi_read :: "ContextSubscriptionInfo \<Rightarrow> ContextSubscriptionInfo option \<Rightarrow> ContextSubscriptionInfo" where
  "csi_read csi0 info =
     (case info of Some csi \<Rightarrow> csi | None \<Rightarrow> csi0\<lparr>csi_entityIdVector := [], csi_attributeList := [], csi_url := []\<rparr>)"

definition interval_notification :: "string \<Rightarrow> string \<Rightarrow> ContextSubscriptionInfo \<Rightarrow> ContextElementResponse list \<Rightarrow> notification" where
  "interval_notification subId tenant csi cerV =
     \<lparr>nt_subId = subId, nt_originator = ''localhost'', nt_cerV = cerV, nt_url = csi_url csi, nt_tenant = tenant,
      nt_xauthToken = [], nt_format = csi_format csi\<rparr>"

text \<open>An exception leaves the thread's function, which ends the process.\<close>

definition doNotification ::
  "'w env \<Rightarrow> 'w csub_ops \<Rightarrow> (timespec \<times> timespec) \<times> (timespec \<times> timespec) \<times> (timespec \<times> timespec) \<Rightarrow> ContextSubscriptionInfo
   \<Rightarrow> string \<Rightarrow> string \<Rightarrow> sem_state \<Rightarrow> 'w \<Rightarrow> (sem_state \<times> 'w) cpp option" where
  "doNotification e ops clks csi0 subId tenant s w =
     (case mongoGetContextSubscriptionInfo e ops (fst clks) subId tenant s w of
        None \<Rightarrow> None
      | Some UB \<Rightarrow> Some UB
      | Some (Ret ((info, err), s1, w1)) \<Rightarrow>
          let csi = csi_read csi0 info
          in if \<not> due (env_now e w1) csi then Some (Ret (s1, w1))
             else case mongoGetContextElementResponses e (fst (snd clks)) (csi_entityIdVector csi) (csi_attributeList csi) tenant s1 w1 of
                 None \<Rightarrow> None
               | Some UB \<Rightarrow> Some UB
               | Some (Ret (r, s2, w2)) \<Rightarrow>
                   let cerV = (case r of Inl err \<Rightarrow> [] | Inr cerV \<Rightarrow> cerV)
                   in if cerV = [] then Some (Ret (s2, w2))
                      else case mongoUpdateCsubNewNotification e ops (snd (snd clks)) subId tenant s2 w2 of
                          None \<Rightarrow> None
                        | Some UB \<Rightarrow> Some UB
                        | Some (Ret (Inl what, s3, w3)) \<Rightarrow> Some UB
                        | Some (Ret (Inr (code, err), s3, w3)) \<Rightarrow>
                            Some (Ret (s3, if code = SccOk then env_sendNotify e (interval_notification subId tenant csi cerV) w3
                                           else w3)))"

section \<open>Interval threads\<close>

record OnIntervalThreadParams =
  otp_subId :: string
  otp_interval :: int
  otp_tenant :: string

record ThreadData =
  td_tid :: nat
  td_params :: nat

text \<open>
  Where an interval thread is: at the top of its loop, in \<open>doNotification\<close>, where it cannot be cancelled, or
  in \<open>sleep\<close>, the cancellation point.
\<close>

datatype thread_pc = Woken | Notifying | Asleep

text \<open>
  The notifier with its \<open>std::multimap\<close> of threads, the structures that are allocated, by address, and the
  threads: the address they were given, where they are, and whether they have been asked to end.
\<close>

record notifier =
  threadsMap :: "(string \<times> ThreadData) list"
  params_heap :: "nat \<rightharpoonup> OnIntervalThreadParams"
  threads :: "nat \<rightharpoonup> nat \<times> thread_pc \<times> bool"

definition Notifier_new :: notifier where
  "Notifier_new = \<lparr>threadsMap = [], params_heap = Map.empty, threads = Map.empty\<rparr>"

text \<open>\<open>created\<close> is the thread that \<open>pthread_create\<close> makes, or \<open>None\<close> when it fails; \<open>addr\<close> is the address from \<open>new\<close>.\<close>

definition createIntervalThread :: "nat option \<Rightarrow> nat \<Rightarrow> string \<Rightarrow> int \<Rightarrow> string \<Rightarrow> notifier \<Rightarrow> notifier" where
  "createIntervalThread created addr subId interval tenant s =
     (let s1 = s\<lparr>params_heap := (params_heap s)(addr \<mapsto> \<lparr>otp_subId = subId, otp_interval = interval, otp_tenant = tenant\<rparr>)\<rparr>
      in case created of
           None \<Rightarrow> s1
         | Some tid \<Rightarrow> s1\<lparr>threads := (threads s1)(tid \<mapsto> (addr, Woken, False)),
                          threadsMap := threadsMap s1 @ [(subId, \<lparr>td_tid = tid, td_params = addr\<rparr>)]\<rparr>)"

definition pthread_cancel :: "nat \<Rightarrow> notifier \<Rightarrow> notifier" where
  "pthread_cancel tid s = s\<lparr>threads := (threads s)(tid := map_option (\<lambda>(a, pc, c). (a, pc, True)) (threads s tid))\<rparr>"

text \<open>\<open>cancel\<close> holds the results of \<open>pthread_cancel\<close>. Deleting a structure twice is undefined.\<close>

fun destroy_loop :: "(nat \<Rightarrow> int) \<Rightarrow> ThreadData list \<Rightarrow> notifier \<Rightarrow> (bool \<times> notifier) cpp" where
  "destroy_loop cancel [] s = Ret (True, s)"
| "destroy_loop cancel (td # tds) s =
     (if cancel (td_tid td) \<noteq> 0 then Ret (False, s)
      else if params_heap s (td_params td) = None then UB
      else destroy_loop cancel tds
             ((pthread_cancel (td_tid td) s)\<lparr>params_heap := (params_heap s)(td_params td := None)\<rparr>))"

text \<open>
  The threads are detached, so the calls of \<open>pthread_join\<close> that follow in the source do not wait for them;
  they change nothing here.
\<close>

definition destroyOntimeIntervalThreads :: "(nat \<Rightarrow> int) \<Rightarrow> string \<Rightarrow> notifier \<Rightarrow> notifier cpp" where
  "destroyOntimeIntervalThreads cancel subId s =
     cpp_bind (destroy_loop cancel (map snd (filter (\<lambda>(k, td). k = subId) (threadsMap s))) s)
       (\<lambda>(all, s1). Ret (if \<not> all then s1
                        else s1\<lparr>threadsMap := filter (\<lambda>(k, td). k \<noteq> subId) (threadsMap s1)\<rparr>))"

text \<open>
  A step of a thread: it reads its structure at the top of the loop and, after \<open>doNotification\<close>, for the
  time to sleep; it ends in \<open>sleep\<close> when it has been asked to.
\<close>

definition startOnIntervalThread_step :: "nat \<Rightarrow> notifier \<Rightarrow> notifier cpp" where
  "startOnIntervalThread_step tid s =
     (case threads s tid of
        None \<Rightarrow> Ret s
      | Some (a, Woken, c) \<Rightarrow>
          if params_heap s a = None then UB else Ret (s\<lparr>threads := (threads s)(tid \<mapsto> (a, Notifying, c))\<rparr>)
      | Some (a, Notifying, c) \<Rightarrow>
          if params_heap s a = None then UB else Ret (s\<lparr>threads := (threads s)(tid \<mapsto> (a, Asleep, c))\<rparr>)
      | Some (a, Asleep, c) \<Rightarrow>
          Ret (s\<lparr>threads := (threads s)(tid := (if c then None else Some (a, Woken, c)))\<rparr>))"

text \<open>The steps of the broker: subscriptions come and go, and the threads run. All calls of \<open>pthread_cancel\<close> succeed.\<close>

inductive notifier_step :: "notifier \<Rightarrow> notifier \<Rightarrow> bool" where
  create: "threads s tid = None \<Longrightarrow> params_heap s addr = None \<Longrightarrow>
     notifier_step s (createIntervalThread (Some tid) addr subId interval tenant s)"
| not_created: "params_heap s addr = None \<Longrightarrow> notifier_step s (createIntervalThread None addr subId interval tenant s)"
| destroy: "destroyOntimeIntervalThreads (\<lambda>_. 0) subId s = Ret s' \<Longrightarrow> notifier_step s s'"
| run: "startOnIntervalThread_step tid s = Ret s' \<Longrightarrow> notifier_step s s'"

inductive notifier_reachable :: "notifier \<Rightarrow> bool" where
  start: "notifier_reachable Notifier_new"
| step: "notifier_reachable s \<Longrightarrow> notifier_step s s' \<Longrightarrow> notifier_reachable s'"

section \<open>The invariant of the interval threads\<close>

text \<open>
  The entries of the map have live structures of their own and threads that have not been asked to end, and
  every such thread is in the map.
\<close>

definition entry_ok :: "notifier \<Rightarrow> ThreadData \<Rightarrow> bool" where
  "entry_ok s td \<longleftrightarrow> params_heap s (td_params td) \<noteq> None \<and> (\<exists>pc. threads s (td_tid td) = Some (td_params td, pc, False))"

definition notifier_inv :: "notifier \<Rightarrow> bool" where
  "notifier_inv s \<longleftrightarrow> distinct (map (td_params \<circ> snd) (threadsMap s)) \<and> distinct (map (td_tid \<circ> snd) (threadsMap s)) \<and>
     (\<forall>(k, td) \<in> set (threadsMap s). entry_ok s td) \<and>
     (\<forall>tid a pc. threads s tid = Some (a, pc, False) \<longrightarrow> (\<exists>k. (k, \<lparr>td_tid = tid, td_params = a\<rparr>) \<in> set (threadsMap s)))"

text \<open>What the loop of the destruction leaves, for entries with distinct live structures and threads.\<close>

definition destroyed :: "ThreadData list \<Rightarrow> notifier \<Rightarrow> notifier" where
  "destroyed tds s = s\<lparr>params_heap := (\<lambda>a. if a \<in> td_params ` set tds then None else params_heap s a),
     threads := (\<lambda>t. if t \<in> td_tid ` set tds then map_option (\<lambda>(a, pc, c). (a, pc, True)) (threads s t) else threads s t)\<rparr>"

lemma destroy_loop_ok:
  assumes "distinct (map td_params tds)" and "\<forall>td \<in> set tds. params_heap s (td_params td) \<noteq> None"
  shows "destroy_loop (\<lambda>_. 0) tds s = Ret (True, destroyed tds s)"
  using assms
proof (induction tds arbitrary: s)
  case Nil
  then show ?case by (simp add: destroyed_def)
next
  case (Cons td tds)
  let ?s = "(pthread_cancel (td_tid td) s)\<lparr>params_heap := (params_heap s)(td_params td := None)\<rparr>"
  have "\<forall>x \<in> set tds. td_params x \<noteq> td_params td"
    using Cons.prems(1) by (simp add: image_iff) metis
  then have "destroy_loop (\<lambda>_. 0) tds ?s = Ret (True, destroyed tds ?s)"
    using Cons.prems by (intro Cons.IH) simp_all
  moreover have "destroyed tds ?s = destroyed (td # tds) s"
    by (rule notifier.equality)
       (auto simp: destroyed_def pthread_cancel_def fun_eq_iff option.map_comp comp_def case_prod_unfold)
  ultimately show ?case using Cons.prems by simp
qed

lemma notifier_inv_entries:
  assumes "notifier_inv s"
  shows "distinct (map td_params (map snd (filter P (threadsMap s))))"
    and "\<forall>td \<in> set (map snd (filter P (threadsMap s))). params_heap s (td_params td) \<noteq> None"
  using assms by (auto simp: notifier_inv_def entry_ok_def distinct_map_filter)

lemma destroy_Ret:
  assumes "notifier_inv s"
  shows "destroyOntimeIntervalThreads (\<lambda>_. 0) subId s =
    Ret ((destroyed (map snd (filter (\<lambda>(k, td). k = subId) (threadsMap s))) s)
           \<lparr>threadsMap := filter (\<lambda>(k, td). k \<noteq> subId) (threadsMap s)\<rparr>)"
proof -
  have "threadsMap (destroyed tds s) = threadsMap s" for tds by (simp add: destroyed_def)
  then show ?thesis
    unfolding destroyOntimeIntervalThreads_def
    by (simp add: destroy_loop_ok [OF notifier_inv_entries [OF assms]])
qed


lemma destroyed_threads:
  "threads (destroyed tds s) t = Some (a, pc, False) \<longleftrightarrow> threads s t = Some (a, pc, False) \<and> t \<notin> td_tid ` set tds"
  by (auto simp: destroyed_def)

lemma entry_key_unique:
  assumes "notifier_inv s" and "(k, td) \<in> set (threadsMap s)" and "(k', td') \<in> set (threadsMap s)"
    and "td_params td = td_params td' \<or> td_tid td = td_tid td'"
  shows "(k, td) = (k', td')"
proof -
  have i: "inj_on (td_params \<circ> snd) (set (threadsMap s))" "inj_on (td_tid \<circ> snd) (set (threadsMap s))"
    using assms(1) by (simp_all add: notifier_inv_def distinct_map)
  show ?thesis
    using assms(4) inj_onD [OF i(1) _ assms(2,3)] inj_onD [OF i(2) _ assms(2,3)] by auto
qed

lemma other_entries:
  assumes "notifier_inv s" and "(k, td) \<in> set (threadsMap s)" and "k \<noteq> subId"
  shows "td_params td \<notin> td_params ` set (map snd (filter (\<lambda>(k, td). k = subId) (threadsMap s))) \<and>
    td_tid td \<notin> td_tid ` set (map snd (filter (\<lambda>(k, td). k = subId) (threadsMap s)))"
proof -
  have "td_params td \<noteq> td_params td' \<and> td_tid td \<noteq> td_tid td'" if "(subId, td') \<in> set (threadsMap s)" for td'
    using entry_key_unique [OF assms(1,2) that] assms(3) by auto
  then show ?thesis by (auto simp: image_iff)
qed

lemma notifier_inv_destroy:
  assumes "notifier_inv s"
  shows "notifier_inv ((destroyed (map snd (filter (\<lambda>(k, td). k = subId) (threadsMap s))) s)
           \<lparr>threadsMap := filter (\<lambda>(k, td). k \<noteq> subId) (threadsMap s)\<rparr>)"
    (is "notifier_inv ?s'")
proof -
  let ?tds = "map snd (filter (\<lambda>(k, td). k = subId) (threadsMap s))"
  note other = other_entries [OF assms]
  have "entry_ok ?s' td" if "(k, td) \<in> set (threadsMap s)" "k \<noteq> subId" for k td
    using assms that other [OF that] by (fastforce simp: notifier_inv_def entry_ok_def destroyed_def)
  moreover have "\<exists>k. (k, \<lparr>td_tid = t, td_params = a\<rparr>) \<in> set (threadsMap ?s')"
    if "threads ?s' t = Some (a, pc, False)" for t a pc
  proof -
    from that have t: "threads s t = Some (a, pc, False)" "t \<notin> td_tid ` set ?tds"
      by (auto simp: destroyed_threads [of ?tds s] simp del: set_map)
    with assms obtain k where "(k, \<lparr>td_tid = t, td_params = a\<rparr>) \<in> set (threadsMap s)"
      unfolding notifier_inv_def by blast
    moreover from this t(2) have "k \<noteq> subId" by (auto simp: image_iff)
    ultimately show ?thesis by auto
  qed
  moreover have "distinct (map (td_params \<circ> snd) (threadsMap ?s'))" "distinct (map (td_tid \<circ> snd) (threadsMap ?s'))"
    using assms by (auto simp: notifier_inv_def distinct_map_filter)
  moreover have "set (threadsMap ?s') = {(k, td). (k, td) \<in> set (threadsMap s) \<and> k \<noteq> subId}" by auto
  ultimately show ?thesis
    unfolding notifier_inv_def by blast
qed

lemma notifier_inv_create:
  assumes "notifier_inv s" and "threads s tid = None" and "params_heap s addr = None"
  shows "notifier_inv (createIntervalThread (Some tid) addr subId interval tenant s)"
proof -
  let ?s' = "createIntervalThread (Some tid) addr subId interval tenant s"
  let ?td = "\<lparr>td_tid = tid, td_params = addr\<rparr>"
  have fresh: "td_tid td \<noteq> tid \<and> td_params td \<noteq> addr" if "(k, td) \<in> set (threadsMap s)" for k td
    using assms that by (fastforce simp: notifier_inv_def entry_ok_def)
  have m: "threadsMap ?s' = threadsMap s @ [(subId, ?td)]"
    by (simp add: createIntervalThread_def)
  have "entry_ok ?s' td" if "(k, td) \<in> set (threadsMap s)" for k td
    using assms(1) fresh [OF that] that by (fastforce simp: notifier_inv_def entry_ok_def createIntervalThread_def)
  moreover have "entry_ok ?s' ?td" by (simp add: entry_ok_def createIntervalThread_def)
  moreover have "addr \<notin> (td_params \<circ> snd) ` set (threadsMap s)" "tid \<notin> (td_tid \<circ> snd) ` set (threadsMap s)"
    using fresh by force+
  moreover have "\<exists>k. (k, \<lparr>td_tid = t, td_params = a\<rparr>) \<in> set (threadsMap ?s')" if "threads ?s' t = Some (a, pc, False)" for t a pc
    using assms(1) that by (cases "t = tid") (auto simp: notifier_inv_def createIntervalThread_def)
  ultimately show ?thesis
    using assms(1) unfolding notifier_inv_def m by auto
qed

lemma notifier_inv_run:
  assumes "notifier_inv s" and "startOnIntervalThread_step tid s = Ret s'"
  shows "notifier_inv s'"
proof -
  have "threadsMap s' = threadsMap s" "params_heap s' = params_heap s"
    and t: "(\<exists>pc. threads s' t = Some (a, pc, False)) \<longleftrightarrow> (\<exists>pc. threads s t = Some (a, pc, False))" for t a
    using assms(2) by (auto simp: startOnIntervalThread_step_def split: option.splits thread_pc.splits if_splits)
  moreover have "\<exists>k. (k, \<lparr>td_tid = t, td_params = a\<rparr>) \<in> set (threadsMap s)" if "threads s' t = Some (a, pc, False)" for t a pc
    using assms(1) t [of t a] that unfolding notifier_inv_def by blast
  ultimately show ?thesis using assms(1) by (auto simp: notifier_inv_def entry_ok_def)
qed

lemma notifier_inv_reachable: "notifier_reachable s \<Longrightarrow> notifier_inv s"
proof (induction rule: notifier_reachable.induct)
  case start
  then show ?case by (simp add: notifier_inv_def Notifier_new_def)
next
  case (step s s')
  from step.hyps(2) step.IH show ?case
  proof cases
    case (create tid addr subId interval tenant)
    with step.IH show ?thesis by (simp add: notifier_inv_create)
  next
    case (not_created addr subId interval tenant)
    with step.IH show ?thesis by (auto simp: createIntervalThread_def notifier_inv_def entry_ok_def)
  next
    case (destroy subId)
    with destroy_Ret [OF step.IH, of subId] notifier_inv_destroy [OF step.IH, of subId] show ?thesis
      by (metis cpp.inject)
  next
    case (run tid)
    with step.IH show ?thesis by (simp add: notifier_inv_run)
  qed
qed

section \<open>Claims\<close>

text \<open>C22: Interval threads, in every interleaving of subscriptions, unsubscriptions and threads: ending the threads
  of a subscription never deletes a structure twice, and a thread that was not asked to end never reads a deleted
  structure. But the structures are deleted as soon as the threads are asked to end, without waiting: a thread of
  the subscription reads its deleted structure in its next step exactly if it is not asleep at that moment.\<close>

theorem interval_threads_race:
  assumes "notifier_reachable s"
  shows "\<exists>s'. destroyOntimeIntervalThreads (\<lambda>_. 0) subId s = Ret s' \<and> notifier_reachable s' \<and>
    (\<forall>(k, td) \<in> set (threadsMap s).
       startOnIntervalThread_step (td_tid td) s \<noteq> UB \<and>
       (k = subId \<longrightarrow> (startOnIntervalThread_step (td_tid td) s' = UB \<longleftrightarrow>
          (\<forall>a c. threads s (td_tid td) \<noteq> Some (a, Asleep, c)))) \<and>
       (k \<noteq> subId \<longrightarrow> startOnIntervalThread_step (td_tid td) s' \<noteq> UB))"
proof -
  note inv = notifier_inv_reachable [OF assms]
  let ?tds = "map snd (filter (\<lambda>(k, td). k = subId) (threadsMap s))"
  let ?s' = "(destroyed ?tds s)\<lparr>threadsMap := filter (\<lambda>(k, td). k \<noteq> subId) (threadsMap s)\<rparr>"
  have d: "destroyOntimeIntervalThreads (\<lambda>_. 0) subId s = Ret ?s'" by (rule destroy_Ret [OF inv])
  have "startOnIntervalThread_step (td_tid td) s \<noteq> UB \<and>
       (k = subId \<longrightarrow> (startOnIntervalThread_step (td_tid td) ?s' = UB \<longleftrightarrow>
          (\<forall>a c. threads s (td_tid td) \<noteq> Some (a, Asleep, c)))) \<and>
       (k \<noteq> subId \<longrightarrow> startOnIntervalThread_step (td_tid td) ?s' \<noteq> UB)" if m: "(k, td) \<in> set (threadsMap s)" for k td
  proof -
    obtain pc where t: "threads s (td_tid td) = Some (td_params td, pc, False)" and h: "params_heap s (td_params td) \<noteq> None"
      using inv m by (fastforce simp: notifier_inv_def entry_ok_def)
    have own: "k = subId \<Longrightarrow> td_params td \<in> td_params ` set ?tds \<and> td_tid td \<in> td_tid ` set ?tds"
      using m by force
    have other: "k \<noteq> subId \<Longrightarrow> td_params td \<notin> td_params ` set ?tds \<and> td_tid td \<notin> td_tid ` set ?tds"
      by (rule other_entries [OF inv m])
    show ?thesis
      using t h own other
      by (cases pc; cases "k = subId") (auto simp: startOnIntervalThread_step_def destroyed_def simp del: set_map)
  qed
  moreover have "notifier_reachable ?s'" using assms d by (blast intro: notifier_reachable.step notifier_step.destroy)
  ultimately show ?thesis using d by blast
qed


definition notifier0 :: notifier where
  "notifier0 = createIntervalThread (Some 1) 2 ''aaa'' 60 [] Notifier_new"

theorem interval_threads_race_witness:
  "\<exists>s'. destroyOntimeIntervalThreads (\<lambda>_. 0) ''aaa'' notifier0 = Ret s' \<and> startOnIntervalThread_step 1 s' = UB"
proof -
  have "notifier_reachable notifier0"
    unfolding notifier0_def
    by (intro notifier_reachable.step [OF notifier_reachable.start] notifier_step.create) (simp_all add: Notifier_new_def)
  from interval_threads_race [OF this, of "''aaa''"] show ?thesis
    by (auto simp: notifier0_def createIntervalThread_def Notifier_new_def)
qed

text \<open>The list of service paths: with a path for every entity it is the list of the paths.\<close>

lemma spath_loop_eq:
  assumes "\<forall>en \<in> set enV. en_servicePath en \<noteq> []" and "acc \<noteq> []"
  shows "spath_loop acc b enV =
    (acc @ concat (map (\<lambda>en. '','' @ en_servicePath en) enV), b \<or> (\<exists>en \<in> set enV. en_servicePath en \<noteq> ''/''))"
  using assms by (induction enV arbitrary: acc b) auto

lemma join_concat: "ps \<noteq> [] \<Longrightarrow> hd ps @ concat (map (\<lambda>p. d # p) (tl ps)) = join_with d ps"
  by (induction d ps rule: join_with.induct) auto

lemma spathList_of_eq:
  assumes "\<forall>cer \<in> set cerV. en_servicePath (ce_entityId (cer_contextElement cer)) \<noteq> []"
  shows "spathList_of cerV =
    (let paths = map (\<lambda>cer. en_servicePath (ce_entityId (cer_contextElement cer))) cerV
     in if set paths \<subseteq> {''/''} then [] else join_with (CHR '','') paths)"
proof (cases cerV)
  case Nil
  then show ?thesis by (simp add: spathList_of_def)
next
  case (Cons cer cs)
  let ?p = "\<lambda>cer. en_servicePath (ce_entityId (cer_contextElement cer))"
  have "spath_loop (?p cer) (?p cer \<noteq> ''/'') (map (\<lambda>cer. ce_entityId (cer_contextElement cer)) cs) =
      (?p cer @ concat (map (\<lambda>en. '','' @ en_servicePath en) (map (\<lambda>cer. ce_entityId (cer_contextElement cer)) cs)),
       ?p cer \<noteq> ''/'' \<or> (\<exists>en \<in> set (map (\<lambda>cer. ce_entityId (cer_contextElement cer)) cs). en_servicePath en \<noteq> ''/''))"
    using assms by (intro spath_loop_eq) (auto simp: Cons)
  moreover have "?p cer @ concat (map (\<lambda>c. '','' @ ?p c) cs) = join_with (CHR '','') (map ?p cerV)"
    using join_concat [of "map ?p cerV" "CHR '',''"] by (simp add: Cons comp_def)
  ultimately show ?thesis
    by (auto simp: spathList_of_def Cons Let_def comp_def)
qed

lemma notify_payload_nonempty: "NotifyContextRequest_render sub orig cerV ci i \<noteq> []"
  by (simp add: NotifyContextRequest_render_def startTag1_def)

lemma common_headers_mem:
  "(''Content-type: '' @ ha_contentType a, length (ha_contentType a) + 14) \<in> set (common_headers cfg a)"
  "ha_servicePath a \<noteq> [] \<Longrightarrow> (''Fiware-ServicePath: '' @ ha_servicePath a, length (ha_servicePath a) + length ''Fiware-ServicePath: '')
     \<in> set (common_headers cfg a)"
  by (cases "destination cfg a", simp add: common_headers_def Let_def)+

lemma join_with_nonempty: "ps \<noteq> [] \<Longrightarrow> [] \<notin> set ps \<Longrightarrow> join_with d ps \<noteq> []"
  by (induction d ps rule: join_with.induct) auto

lemma sent_header: "(x, n) \<in> set hs \<Longrightarrow> c_str x \<in> set (map (\<lambda>(h, n). c_str h) hs)"
  by force

text \<open>The request that a notification becomes when it is not relayed.\<close>

definition notification_request :: "curl_request \<Rightarrow> notification \<Rightarrow> string \<Rightarrow> nat \<Rightarrow> string \<Rightarrow> bool" where
  "notification_request r ncr host port path \<longleftrightarrow>
     rq_url r = host @ '':'' @ nat_str port @ ''/'' @ path \<and> rq_verb r = ''POST'' \<and>
     rq_postfields r = c_str (NotifyContextRequest_render (nt_subId ncr) (nt_originator ncr) (nt_cerV ncr)
       ((ConnectionInfo_new [] [] [])\<lparr>ci_outFormat := nt_format ncr\<rparr>) []) \<and>
     (''Content-type: '' @ content_type_of (nt_format ncr)) \<in> set (rq_headers r) \<and>
     (let paths = map (\<lambda>cer. en_servicePath (ce_entityId (cer_contextElement cer))) (nt_cerV ncr)
      in [] \<notin> set paths \<longrightarrow> \<not> set paths \<subseteq> {''/''} \<longrightarrow>
         c_str (''Fiware-ServicePath: '' @ join_with (CHR '','') paths) \<in> set (rq_headers r))"

text \<open>C23: Delivering a notification. For a URL of a host, a port and a path, with no relayer and a handle to be
  had, a notification that is not too large becomes exactly one transfer: a POST to the host and path of
  the URL and to its port modulo 65536, with the notification rendered in the format of the subscription, the content type
  of that format, and, unless all entities are in the default path, the service paths of the entities in
  their order. The table of curl handles is at rest afterwards.\<close>

theorem notification_delivered:
  assumes "curl_idle s" and "http_calls_ok ops" and "hc_rushPort cfg = 0"
    and "nt_url ncr = ''http://'' @ h @ '':'' @ nat_str n @ ''/'' @ q" and "n < 2 ^ 31" and "n mod 65536 \<noteq> 0"
    and "h \<noteq> []" and "\<forall>c \<in> set h. c \<noteq> NUL \<and> c \<noteq> CHR ''/'' \<and> c \<noteq> CHR '':''" and "NUL \<notin> set q"
    and "contexts s h \<noteq> None \<or> k_curl_easy_init (ho_calls ops w) \<noteq> None"
    and "\<forall>p. sendNotifyContextRequest ncr = Ret (Some p) \<longrightarrow> outgoingMsgSize cfg (sender_args p) \<le> MAX_DYN_MSG_SIZE"
  shows "\<exists>r s' chunks ok w'. notification_request r ncr h (n mod 65536) q \<and> ho_perform ops r w = (chunks, ok, w') \<and>
    curl_idle s' \<and> notify cfg ops ncr s w = Some (Ret (s', w'))"
proof -
  let ?payload = "NotifyContextRequest_render (nt_subId ncr) (nt_originator ncr) (nt_cerV ncr)
       ((ConnectionInfo_new [] [] [])\<lparr>ci_outFormat := nt_format ncr\<rparr>) []"
  define p where "p = \<lparr>stp_ip = h, stp_port = word_of_int (int n), stp_protocol = ''http:'', stp_verb = ''POST'',
       stp_tenant = nt_tenant ncr, stp_servicePath = spathList_of (nt_cerV ncr), stp_xauthToken = nt_xauthToken ncr,
       stp_resource = ''/'' @ q, stp_content_type = content_type_of (nt_format ncr), stp_content = ?payload\<rparr>"
  let ?a = "sender_args p" and ?r = "curl_request_of cfg (sender_args p)"
  have sent: "sendNotifyContextRequest ncr = Ret (Some p)"
    using parseUrl_roundtrip [OF assms(7,8,5,9), of url_out]
    by (simp add: sendNotifyContextRequest_def assms(4) p_def url_out_def Let_def)
  have port: "unat (stp_port p) = n mod 65536"
    by (simp add: p_def unat_word_ariths take_bit_nat_def unsigned_of_nat flip: of_nat_mod)
  have pre: "\<not> precondition_error ?a"
    using assms(6,7) port notify_payload_nonempty by (auto simp: precondition_error_def sender_args_def p_def)
  have dest: "destination cfg ?a = (h, stp_port p)" "\<not> uses_rush cfg ?a"
    by (simp_all add: destination_def uses_rush_def assms(3) sender_args_def p_def)
  have "CHR '':'' \<notin> set h" using assms(8) by blast
  then have "count_list h (CHR '':'') = 0" by (simp add: count_list_0_iff)
  then have "\<not> isIPv6 h" using isIPv6_colons [of h] by linarith
  then have "request_url cfg ?a = h @ '':'' @ nat_str (n mod 65536) @ ''/'' @ q"
    by (simp add: request_url_def dest port Let_def) (simp add: sender_args_def p_def)
  moreover have "NUL \<notin> set h" "NUL \<notin> set (nat_str (n mod 65536))"
    using assms(8) nat_str_digits [of "n mod 65536"] is_digit_not_nul by (auto simp: list_all_iff)
  ultimately have url: "rq_url ?r = h @ '':'' @ nat_str (n mod 65536) @ ''/'' @ q"
    using assms(9) by (simp add: curl_request_of_def Let_def c_str_id)
  have hdrs: "rq_headers ?r = map (\<lambda>(h, n). c_str h) (common_headers cfg ?a)"
    by (simp add: curl_request_of_def sized_headers_def dest Let_def)
  have fields: "ha_contentType ?a = content_type_of (nt_format ncr)" "ha_servicePath ?a = spathList_of (nt_cerV ncr)"
    by (simp_all add: sender_args_def p_def)
  have "c_str (''Content-type: '' @ content_type_of (nt_format ncr)) \<in> set (rq_headers ?r)"
    using sent_header [OF common_headers_mem(1) [of ?a cfg]] by (simp add: hdrs fields(1) del: set_map)
  moreover have "c_str (''Content-type: '' @ content_type_of (nt_format ncr)) = ''Content-type: '' @ content_type_of (nt_format ncr)"
    by (simp add: c_str_def)
  ultimately have ct: "''Content-type: '' @ content_type_of (nt_format ncr) \<in> set (rq_headers ?r)" by (simp only:)
  have sp: "c_str (''Fiware-ServicePath: '' @ spathList_of (nt_cerV ncr)) \<in> set (rq_headers ?r)"
    if "spathList_of (nt_cerV ncr) \<noteq> []"
    using sent_header [OF common_headers_mem(2) [of ?a cfg]] that by (simp add: hdrs fields(2) del: set_map)
  let ?paths = "map (\<lambda>cer. en_servicePath (ce_entityId (cer_contextElement cer))) (nt_cerV ncr)"
  have "c_str (''Fiware-ServicePath: '' @ join_with (CHR '','') ?paths) \<in> set (rq_headers ?r)"
    if "[] \<notin> set ?paths" "\<not> set ?paths \<subseteq> {''/''}"
  proof -
    have "?paths \<noteq> []" using that(2) by auto
    then have "join_with (CHR '','') ?paths \<noteq> []" using that(1) by (rule join_with_nonempty)
    moreover have "\<forall>cer \<in> set (nt_cerV ncr). en_servicePath (ce_entityId (cer_contextElement cer)) \<noteq> []"
      using that(1) by force
    ultimately show ?thesis using sp spathList_of_eq [of "nt_cerV ncr"] that(2) by (simp only: Let_def if_False simp_thms)
  qed
  moreover have "rq_verb ?r = ''POST''" "rq_postfields ?r = c_str ?payload"
    by (simp_all add: curl_request_of_def Let_def) (simp_all add: sender_args_def p_def c_str_def)
  ultimately have req: "notification_request ?r ncr h (n mod 65536) q"
    using url ct unfolding notification_request_def Let_def by blast
  obtain chunks ok w' where tr: "ho_perform ops ?r w = (chunks, ok, w')" by (cases "ho_perform ops ?r w")
  obtain s' where s': "curl_idle s'" "httpRequestSend cfg ops ?a s w = Some (received chunks ok, s', w')"
    using httpRequestSend_idle [OF assms(1,2), of cfg ?a w] pre assms(10) assms(11) sent tr
    by (auto simp: sender_args_def p_def)
  then show ?thesis
    using req tr by (auto simp: notify_def sent startSenderThread_def)
qed


definition notification0 :: notification where
  "notification0 = \<lparr>nt_subId = ''51c0ac9ed714fb3b37d7d5a8'', nt_originator = ''localhost'', nt_cerV = [], nt_url = ''http://h:1028/a'',
     nt_tenant = [], nt_xauthToken = [], nt_format = JSON\<rparr>"

theorem notification_delivered_witness:
  "\<exists>r s'. notification_request r notification0 ''h'' 1028 ''a'' \<and> curl_idle s' \<and>
     notify http_config0 echo_ops notification0 curl_state0 [] = Some (Ret (s', [r]))"
proof -
  have n: "nat_str 1028 = ''1028''" by code_simp
  have ok: "curl_idle curl_state0" "http_calls_ok echo_ops"
    by (simp_all add: curl_idle_def curl_state0_def http_calls_ok_def echo_ops_def calls_ok_def curl_calls0_def)
  have s: "case sendNotifyContextRequest notification0 of Ret (Some p) \<Rightarrow> outgoingMsgSize http_config0 (sender_args p) \<le> MAX_DYN_MSG_SIZE | _ \<Rightarrow> True"
    by code_simp
  have "\<exists>r s' chunks ok w'. notification_request r notification0 ''h'' (1028 mod 65536) ''a'' \<and> ho_perform echo_ops r [] = (chunks, ok, w') \<and>
      curl_idle s' \<and> notify http_config0 echo_ops notification0 curl_state0 [] = Some (Ret (s', w'))"
    using s by (intro notification_delivered [OF ok])
      (auto simp: n http_config0_def notification0_def echo_ops_def curl_calls0_def split: option.splits)
  then show ?thesis by (auto simp: echo_ops_def)
qed

text \<open>Notifications through the relayer to an https URL. The headers for the relayer of a context notification
  say that the protocol is https; those of an availability notification do not, because its thread is not
  given the protocol, so the relayer delivers it as http.\<close>

theorem availability_notification_loses_https:
  assumes "parseUrl url url_out = Ret (True, u)" and "u_protocol u = ''https:''"
  shows "(\<exists>p. sendNotifyContextRequest (ncr\<lparr>nt_url := url\<rparr>) = Ret (Some p) \<and>
      ''X-relayer-protocol: https'' \<in> set (rush_headers (sender_args p))) \<and>
    (\<exists>p. sendNotifyContextAvailabilityRequest subId crrV url tenant format = Ret (Some p) \<and>
      rush_headers (sender_args p) = [''X-relayer-host: '' @ u_host u @ '':'' @ nat_str (unat (word_of_int (u_port u) :: 16 word))])"
  using assms
  by (simp add: sendNotifyContextRequest_def sendNotifyContextAvailabilityRequest_def sender_args_def rush_headers_def
      SenderThreadParams_new_def)

theorem availability_notification_loses_https_witness:
  "\<exists>p. sendNotifyContextAvailabilityRequest ''1'' [] ''https://h/a'' [] XML = Ret (Some p) \<and>
     rush_headers (sender_args p) = [''X-relayer-host: h:443'']"
proof -
  let ?u = "\<lparr>u_host = ''h'', u_port = 443, u_path = ''/a'', u_protocol = ''https:''\<rparr>"
  have u: "parseUrl ''https://h/a'' url_out = Ret (True, ?u)" "nat_str (unat (word_of_int (u_port ?u) :: 16 word)) = ''443''"
    by code_simp+
  from availability_notification_loses_https [OF u(1), of notification0 "''1''" "[]" "[]" XML] u(2) show ?thesis by simp
qed

end
