(* ===== verification/Forward_Update.thy ===== *)
theory Forward_Update
  imports Rest_Service Ngsi_Notify
begin

text \<open>
  The service routine of updates with forwarding to context providers:
  \<^verbatim>\<open>src/src/lib/serviceRoutines/postUpdateContext.cpp\<close> with
  \<^verbatim>\<open>orionTypes/UpdateContextRequestVector.cpp\<close> and the parts of
  \<^verbatim>\<open>ngsi10/UpdateContextRequest.cpp\<close> it uses. The backend is \<open>Mongo_Entry\<close>, the requests to the
  providers go over \<open>Http_Client\<close>; the parsers of their answers are parameters.
\<close>

section \<open>The state and the parts shared by both forwarding routines\<close>

text \<open>
  What a service routine uses: the environment of the backend, the clock readings around the request
  semaphore, the worlds at the later reads of a query, the HTTP client, and the parsers.
\<close>

record 'w backend =
  bd_env :: "'w env"
  bd_entry :: "'w entry_ops"
  bd_clk :: "'w \<Rightarrow> timespec \<times> timespec"
  bd_later :: "'w \<Rightarrow> nat \<Rightarrow> 'w"
  bd_http :: http_config
  bd_net :: "'w http_ops"
  bd_xmlTreat :: parser
  bd_jsonTreat :: parser
  bd_cprForwardLimit :: nat

record 'w cb_state =
  cb_sem :: sem_state
  cb_curl :: curl_state
  cb_world :: 'w

text \<open>The C function: the rest of the text from the first occurrence on.\<close>

fun strstr :: "string \<Rightarrow> string \<Rightarrow> string option" where
  "strstr [] needle = (if needle = [] then Some [] else None)"
| "strstr (c # s) needle = (if take (length needle) (c # s) = needle then Some (c # s) else strstr s needle)"

definition xmlPayloadClean :: "string \<Rightarrow> string \<Rightarrow> string option" where
  "xmlPayloadClean payload payloadWord = strstr (c_str payload) payloadWord"

definition jsonPayloadClean :: "string \<Rightarrow> string option" where
  "jsonPayloadClean payload = strstr (c_str payload) ''{''"

definition provider_args :: "ConnectionInfo \<Rightarrow> url \<Rightarrow> string \<Rightarrow> Format \<Rightarrow> string \<Rightarrow> http_args" where
  "provider_args ci u operation format content =
     \<lparr>ha_ip = u_host u, ha_port = word_of_int (u_port u), ha_protocol = u_protocol u, ha_verb = ''POST'', ha_tenant = ci_tenant ci,
      ha_servicePath = (if hh_servicePathReceived (ci_httpHeaders ci) then hh_servicePath (ci_httpHeaders ci) else []),
      ha_xauthToken = hh_xauthToken (ci_httpHeaders ci), ha_resource = u_path u @ operation,
      ha_contentType = content_type_of format, ha_content = content, ha_useRush = False, ha_waitForResponse = True,
      ha_acceptFormat = content_type_of format, ha_timeout = - 1\<rparr>"

definition provider_send :: "'w backend \<Rightarrow> http_args \<Rightarrow> 'w cb_state \<Rightarrow> (string \<times> 'w cb_state) option" where
  "provider_send b a st =
     map_option (\<lambda>(out, s, w). (out, st\<lparr>cb_curl := s, cb_world := w\<rparr>))
       (httpRequestSend (bd_http b) (bd_net b) a (cb_curl st) (cb_world st))"

text \<open>The part of the answer that is parsed, and its parsing as the answer to a POST.\<close>

definition clean_answer :: "Format \<Rightarrow> string \<Rightarrow> string \<Rightarrow> string option" where
  "clean_answer format out xmlWord = (if format = XML then xmlPayloadClean out xmlWord else jsonPayloadClean out)"

definition parse_answer ::
  "'w backend \<Rightarrow> Format \<Rightarrow> string \<Rightarrow> ConnectionInfo \<Rightarrow> ParseData \<Rightarrow> RequestType \<Rightarrow> string \<Rightarrow> string \<times> ConnectionInfo \<times> ParseData" where
  "parse_answer b format payload ci pd request payloadWord =
     (let ci1 = ci\<lparr>ci_verb := POST, ci_method := ''POST''\<rparr>
      in if format = XML then bd_xmlTreat b payload ci1 pd request payloadWord
         else bd_jsonTreat b payload ci1 pd request payloadWord)"

definition ContextElement_copy :: "ContextElement \<Rightarrow> ContextElement" where
  "ContextElement_copy ce =
     \<lparr>ce_entityId = ce_entityId ce, ce_attributeDomainName = ce_attributeDomainName ce,
      ce_contextAttributeVector = ContextAttributeVector_fill [] (ce_contextAttributeVector ce),
      ce_domainMetadataVector = MetadataVector_fill [] (ce_domainMetadataVector ce),
      ce_providingApplicationList = ce_providingApplicationList ce\<rparr>"

definition ContextElementResponse_copy :: "ContextElementResponse \<Rightarrow> ContextElementResponse" where
  "ContextElementResponse_copy cer =
     \<lparr>cer_contextElement = ContextElement_copy (cer_contextElement cer),
      cer_statusCode = StatusCode_fill (sc_code (cer_statusCode cer)) (sc_details (cer_statusCode cer)), cer_prune = False\<rparr>"

definition UpdateContextResponse_new :: UpdateContextResponse where
  "UpdateContextResponse_new = \<lparr>urs_contextElementResponseVector = [], urs_errorCode = StatusCode_new\<rparr>"

definition UpdateContextResponse_fill :: "UpdateContextResponse \<Rightarrow> UpdateContextResponse \<Rightarrow> UpdateContextResponse" where
  "UpdateContextResponse_fill upr src =
     \<lparr>urs_contextElementResponseVector =
        urs_contextElementResponseVector upr @ map ContextElementResponse_copy (urs_contextElementResponseVector src),
      urs_errorCode = StatusCode_fill (sc_code (urs_errorCode src)) (sc_details (urs_errorCode src))\<rparr>"

text \<open>What rendering leaves in the status codes of a response.\<close>

abbreviation rendered_status :: "StatusCode \<Rightarrow> StatusCode" where
  "rendered_status sc \<equiv> snd (StatusCode_render [] sc XML [] False True)"

definition UpdateContextResponse_rendered :: "UpdateContextResponse \<Rightarrow> UpdateContextResponse" where
  "UpdateContextResponse_rendered upr =
     (let ec = urs_errorCode upr; vec = urs_contextElementResponseVector upr
      in if sc_code ec \<noteq> SccNone \<and> sc_code ec \<noteq> SccOk then upr\<lparr>urs_errorCode := rendered_status ec\<rparr>
         else if vec = [] then upr\<lparr>urs_errorCode := rendered_status (StatusCode_fill SccContextElementNotFound (sc_details ec))\<rparr>
         else upr\<lparr>urs_contextElementResponseVector :=
                    map (\<lambda>cer. cer\<lparr>cer_statusCode := rendered_status (cer_statusCode cer)\<rparr>) vec\<rparr>)"

section \<open>Forwarded updates\<close>

record forward_update =
  fu_contextProvider :: string
  fu_xmls :: int
  fu_jsons :: int
  fu_request :: UpdateContextRequest

definition UpdateContextRequest_for :: "string \<Rightarrow> EntityId \<Rightarrow> forward_update" where
  "UpdateContextRequest_for contextProvider en =
     \<lparr>fu_contextProvider = contextProvider, fu_xmls = 0, fu_jsons = 0,
      fu_request = \<lparr>upr_contextElementVector = [ContextElement_new\<lparr>ce_entityId := en\<rparr>], upr_updateActionType = []\<rparr>\<rparr>"

abbreviation DEFAULT_FORMAT :: Format where "DEFAULT_FORMAT \<equiv> XML"

definition UpdateContextRequest_format :: "forward_update \<Rightarrow> Format" where
  "UpdateContextRequest_format fu =
     (if fu_xmls fu > fu_jsons fu then XML else if fu_jsons fu > fu_xmls fu then JSON else DEFAULT_FORMAT)"

fun attribute_in :: "string \<Rightarrow> ContextAttribute list \<Rightarrow> ContextAttribute option" where
  "attribute_in name [] = None"
| "attribute_in name (ca # caV) = (if ca_name ca = name then Some ca else attribute_in name caV)"

fun attributeLookup :: "ContextElement list \<Rightarrow> EntityId \<Rightarrow> string \<Rightarrow> ContextAttribute option" where
  "attributeLookup [] en name = None"
| "attributeLookup (ce # ceV) en name =
     (if en_id (ce_entityId ce) \<noteq> en_id en \<or> en_type (ce_entityId ce) \<noteq> en_type en then attributeLookup ceV en name
      else case attribute_in name (ce_contextAttributeVector ce) of
             Some ca \<Rightarrow> Some ca | None \<Rightarrow> attributeLookup ceV en name)"

fun forwardsPending_attrs :: "ContextAttribute list \<Rightarrow> bool" where
  "forwardsPending_attrs [] = False"
| "forwardsPending_attrs (ca # caV) = (if pa_string (ca_providingApplication ca) \<noteq> [] then True else forwardsPending_attrs caV)"

fun update_forwardsPending :: "ContextElementResponse list \<Rightarrow> bool" where
  "update_forwardsPending [] = False"
| "update_forwardsPending (cer # cerV) =
     (if forwardsPending_attrs (ce_contextAttributeVector (cer_contextElement cer)) then True else update_forwardsPending cerV)"

text \<open>The error of a forward that failed.\<close>

definition forward_error :: "string \<Rightarrow> UpdateContextResponse" where
  "forward_error details = UpdateContextResponse_new\<lparr>urs_errorCode := StatusCode_fill SccContextElementNotFound details\<rparr>"

definition updateForward_fix :: "UpdateContextResponse \<Rightarrow> UpdateContextResponse" where
  "updateForward_fix upr =
     (let upr1 = (if sc_code (urs_errorCode upr) = SccNone then upr\<lparr>urs_errorCode := StatusCode_fill SccOk []\<rparr> else upr)
      in case urs_contextElementResponseVector upr1 of
           [cer] \<Rightarrow> if sc_code (cer_statusCode cer) = SccContextElementNotFound
                    then upr1\<lparr>urs_errorCode := StatusCode_fill SccContextElementNotFound []\<rparr> else upr1
         | _ \<Rightarrow> upr1)"

definition updateForward ::
  "'w backend \<Rightarrow> ConnectionInfo \<Rightarrow> forward_update \<Rightarrow> Format \<Rightarrow> 'w cb_state
   \<Rightarrow> (UpdateContextResponse \<times> ConnectionInfo \<times> 'w cb_state) cpp option" where
  "updateForward b ci fu format st =
     (case parseUrl (fu_contextProvider fu) url_out of
        UB \<Rightarrow> Some UB
      | Ret (False, _) \<Rightarrow> Some (Ret (forward_error [], ci, st))
      | Ret (True, u) \<Rightarrow>
          let payload = UpdateContextRequest_render (fu_request fu) (ci\<lparr>ci_outFormat := format\<rparr>) []
          in case (if format = XML then xmlPayloadClean payload ''<updateContextRequest>'' else Some (c_str payload)) of
               None \<Rightarrow> Some (Ret (forward_error [], ci, st))
             | Some cleanPayload \<Rightarrow>
                 (case provider_send b (provider_args ci u ''/updateContext'' format cleanPayload) st of
                    None \<Rightarrow> None
                  | Some (out, st1) \<Rightarrow>
                      if out = ''error'' \<or> out = [] then Some (Ret (forward_error [], ci, st1))
                      else case clean_answer format out ''<updateContextResponse>'' of
                             None \<Rightarrow> Some (Ret (forward_error ''invalid context provider response'', ci, st1))
                           | Some answer \<Rightarrow>
                               let pd = ParseData_new\<lparr>pd_upcrs := UpdateContextResponse_new\<lparr>urs_errorCode := StatusCode_fill SccOk []\<rparr>\<rparr>;
                                   (s, ci1, pd1) = parse_answer b format answer ci pd RtUpdateContextResponse ''updateContextResponse''
                               in if s \<noteq> ''OK'' then Some (Ret (forward_error [], ci1, st1))
                                  else Some (Ret (updateForward_fix (UpdateContextResponse_fill UpdateContextResponse_new (pd_upcrs pd1)),
                                                  ci1, st1))))"

section \<open>Found and not found\<close>

text \<open>One response of the backend: what becomes of it, and the response added for the attributes that were not found.\<close>

definition separate_cer :: "ContextElementResponse \<Rightarrow> ContextElementResponse \<times> ContextElementResponse option" where
  "separate_cer cer =
     (let ce = cer_contextElement cer; caV = ce_contextAttributeVector ce; id = en_id (ce_entityId ce);
          founds = length (filter ca_found caV); notFounds = length (filter (\<lambda>ca. \<not> ca_found ca) caV);
          (cer1, extra) =
            (if founds = 0 \<and> notFounds > 0 then
               (if sc_code (cer_statusCode cer) = SccOk \<or> sc_code (cer_statusCode cer) = SccNone
                then cer\<lparr>cer_statusCode := StatusCode_fill SccContextElementNotFound id\<rparr> else cer, None)
             else if founds > 0 \<and> notFounds > 0 then
               (cer\<lparr>cer_statusCode := StatusCode_fill SccOk [],
                    cer_contextElement := ce\<lparr>ce_contextAttributeVector := filter ca_found caV\<rparr>\<rparr>,
                Some (ContextElementResponse_new\<lparr>cer_contextElement := ContextElement_new\<lparr>ce_entityId := ce_entityId ce,
                        ce_contextAttributeVector := filter (\<lambda>ca. \<not> ca_found ca) caV\<rparr>,
                      cer_statusCode := StatusCode_fill SccContextElementNotFound id\<rparr>))
             else (cer, None));
          sc = cer_statusCode cer1
      in (if sc_code sc = SccContextElementNotFound \<and> sc_details sc = [] then cer1\<lparr>cer_statusCode := sc\<lparr>sc_details := id\<rparr>\<rparr> else cer1,
          extra))"

text \<open>Reading the first element of the request is undefined when it has none.\<close>

definition foundAndNotFoundAttributeSeparation ::
  "UpdateContextResponse \<Rightarrow> UpdateContextRequest \<Rightarrow> ConnectionInfo \<Rightarrow> UpdateContextResponse cpp" where
  "foundAndNotFoundAttributeSeparation upcrs upcr ci =
     (let sep = map separate_cer (urs_contextElementResponseVector upcrs);
          vec = map fst sep @ List.map_filter snd sep;
          upcrs1 = upcrs\<lparr>urs_contextElementResponseVector := vec\<rparr>;
          first_id = cpp_bind (vec_at (upr_contextElementVector upcr) 0) (\<lambda>ce. Ret (en_id (ce_entityId ce)))
      in cpp_bind (if ci_method ci \<noteq> ''DELETE'' \<and> vec = [] \<and> sc_code (urs_errorCode upcrs) = SccOk
                   then cpp_bind first_id (\<lambda>id. Ret (upcrs1\<lparr>urs_errorCode := StatusCode_fill SccContextElementNotFound id\<rparr>))
                   else Ret upcrs1) (\<lambda>upcrs2.
           let ec = urs_errorCode upcrs2
           in if sc_code ec \<noteq> SccContextElementNotFound then Ret upcrs2
              else case vec of
                     [cer] \<Rightarrow> Ret (upcrs2\<lparr>urs_errorCode := ec\<lparr>sc_details := en_id (ce_entityId (cer_contextElement cer))\<rparr>\<rparr>)
                   | [] \<Rightarrow> cpp_bind first_id (\<lambda>id. Ret (upcrs2\<lparr>urs_errorCode := ec\<lparr>sc_details := id\<rparr>\<rparr>))
                   | _ \<Rightarrow> Ret upcrs2))"

definition attributesToNotFound :: "UpdateContextRequest \<Rightarrow> UpdateContextRequest" where
  "attributesToNotFound upcr =
     upcr\<lparr>upr_contextElementVector :=
       map (\<lambda>ce. ce\<lparr>ce_contextAttributeVector := map (\<lambda>ca. ca\<lparr>ca_found := False\<rparr>) (ce_contextAttributeVector ce)\<rparr>)
         (upr_contextElementVector upcr)\<rparr>"

section \<open>Sorting by provider\<close>

text \<open>The backend does not return values: they are taken from the request, as far as they are simple.\<close>

definition fill_value :: "ContextElement list \<Rightarrow> EntityId \<Rightarrow> ContextAttribute \<Rightarrow> ContextAttribute" where
  "fill_value ceV en ca =
     (case attributeLookup ceV en (ca_name ca) of
        None \<Rightarrow> ca | Some aP \<Rightarrow> ca\<lparr>ca_value := ca_value aP, ca_type := ca_type aP\<rparr>)"

definition fill_values :: "UpdateContextRequest \<Rightarrow> ContextElementResponse list \<Rightarrow> ContextElementResponse list" where
  "fill_values upcr =
     map (\<lambda>cer. let ce = cer_contextElement cer
                in cer\<lparr>cer_contextElement := ce\<lparr>ce_contextAttributeVector :=
                     map (fill_value (upr_contextElementVector upcr) (ce_entityId ce)) (ce_contextAttributeVector ce)\<rparr>\<rparr>)"

fun forward_lookup :: "forward_update list \<Rightarrow> string \<Rightarrow> nat option" where
  "forward_lookup [] contextProvider = None"
| "forward_lookup (fu # fuV) contextProvider =
     (if fu_contextProvider fu = contextProvider then Some 0 else map_option Suc (forward_lookup fuV contextProvider))"

fun element_lookup :: "ContextElement list \<Rightarrow> EntityId \<Rightarrow> nat option" where
  "element_lookup [] en = None"
| "element_lookup (ce # ceV) en =
     (if en_id (ce_entityId ce) = en_id en \<and> en_type (ce_entityId ce) = en_type en then Some 0
      else map_option Suc (element_lookup ceV en))"

text \<open>The attribute in the request for its provider; the counter of its format is increased.\<close>

definition push_to_element :: "EntityId \<Rightarrow> ContextAttribute \<Rightarrow> ContextElement list \<Rightarrow> ContextElement list" where
  "push_to_element en ca ceV =
     (let ceV1 = (if element_lookup ceV en = None then ceV @ [ContextElement_new\<lparr>ce_entityId := en\<rparr>] else ceV)
      in case element_lookup ceV1 en of
           None \<Rightarrow> ceV1
         | Some k \<Rightarrow> ceV1[k := (ceV1 ! k)\<lparr>ce_contextAttributeVector :=
                            ce_contextAttributeVector (ceV1 ! k) @ [ContextAttribute_copy ca]\<rparr>])"

definition push_to_forward :: "EntityId \<Rightarrow> ContextAttribute \<Rightarrow> forward_update \<Rightarrow> forward_update" where
  "push_to_forward en ca fu =
     (let fu1 = (if pa_format (ca_providingApplication ca) = XML then fu\<lparr>fu_xmls := fu_xmls fu + 1\<rparr>
                 else fu\<lparr>fu_jsons := fu_jsons fu + 1\<rparr>)
      in fu1\<lparr>fu_request := (fu_request fu1)\<lparr>upr_contextElementVector :=
               push_to_element en ca (upr_contextElementVector (fu_request fu1))\<rparr>\<rparr>)"

definition sort_attribute ::
  "EntityId \<Rightarrow> UpdateContextResponse \<times> forward_update list \<Rightarrow> ContextAttribute \<Rightarrow> UpdateContextResponse \<times> forward_update list" where
  "sort_attribute en acc ca =
     (case acc of (response, requestV) \<Rightarrow>
        if \<not> ca_found ca then (notFoundPush response en (ContextAttribute_copy ca) None, requestV)
        else let pa = pa_string (ca_providingApplication ca)
             in if pa = [] then (foundPush response en (ContextAttribute_copy ca), requestV)
                else let requestV1 = (if forward_lookup requestV pa = None
                           then requestV @ [let fu = UpdateContextRequest_for pa en
                                            in fu\<lparr>fu_request := (fu_request fu)\<lparr>upr_updateActionType := ''UPDATE''\<rparr>\<rparr>]
                           else requestV)
                     in case forward_lookup requestV1 pa of
                          None \<Rightarrow> (response, requestV1)
                        | Some k \<Rightarrow> (response, requestV1[k := push_to_forward en ca (requestV1 ! k)]))"

definition sort_by_provider :: "ContextElementResponse list \<Rightarrow> UpdateContextResponse \<times> forward_update list" where
  "sort_by_provider cerV =
     foldl (\<lambda>acc cer. foldl (sort_attribute (ce_entityId (cer_contextElement cer))) acc
              (ce_contextAttributeVector (cer_contextElement cer)))
       (UpdateContextResponse_new\<lparr>urs_errorCode := StatusCode_fill SccOk []\<rparr>, []) cerV"

section \<open>The service routine\<close>

fun forward_updates ::
  "'w backend \<Rightarrow> forward_update list \<Rightarrow> UpdateContextResponse \<Rightarrow> ConnectionInfo \<Rightarrow> 'w cb_state
   \<Rightarrow> (UpdateContextResponse \<times> ConnectionInfo \<times> 'w cb_state) cpp option" where
  "forward_updates b [] response ci st = Some (Ret (response, ci, st))"
| "forward_updates b (fu # requestV) response ci st =
     (if fu_contextProvider fu = [] then forward_updates b requestV response ci st
      else served_bind (updateForward b ci fu (UpdateContextRequest_format fu) st)
             (\<lambda>(upcrs, ci1, st1). forward_updates b requestV (UpdateContextResponse_merge response upcrs) ci1 st1))"

abbreviation DEFAULT_SERVICE_PATH :: string where "DEFAULT_SERVICE_PATH \<equiv> ''/''"

definition postUpdateContext :: "'w backend \<Rightarrow> 'w cb_state treat" where
  "postUpdateContext b ci components compV pd st =
     (let bad = (\<lambda>ci details.
            let upcrs = (pd_upcrs pd)\<lparr>urs_errorCode := StatusCode_fill SccBadRequest details\<rparr>
            in Some (Ret (UpdateContextResponse_render upcrs ci [], ci, pd\<lparr>pd_upcrs := UpdateContextResponse_rendered upcrs\<rparr>, st)))
      in if length (ci_servicePathV ci) > 1 then bad ci ''more than one service path in context update request''
         else let ci0 = (if ci_servicePathV ci = [] then ci\<lparr>ci_servicePathV := [DEFAULT_SERVICE_PATH]\<rparr> else ci);
                  res = servicePathCheck (Some (hd (ci_servicePathV ci0)))
              in if res \<noteq> ''OK'' then bad ci0 res
                 else let upcr = attributesToNotFound (pd_upcr pd)
                      in served_bind (mongoUpdateContext (bd_env b) (bd_clk b (cb_world st)) upcr (ci_tenant ci0) (ci_servicePathV ci0)
                             (uriParam ci0 URI_PARAM_NOT_EXIST) (hh_xauthToken (ci_httpHeaders ci0)) (cb_sem st) (cb_world st))
                           (\<lambda>(r, s1, w1).
                              let ci1 = ci0\<lparr>ci_httpStatusCode := SccOk\<rparr>;
                                  st1 = st\<lparr>cb_sem := s1, cb_world := w1\<rparr>;
                                  r1 = r\<lparr>urs_contextElementResponseVector :=
                                           urs_contextElementResponseVector (pd_upcrs pd) @ urs_contextElementResponseVector r\<rparr>
                              in case foundAndNotFoundAttributeSeparation r1 upcr ci1 of
                                   UB \<Rightarrow> Some UB
                                 | Ret upcrs \<Rightarrow>
                                     let pd1 = pd\<lparr>pd_upcr := upcr\<lparr>upr_contextElementVector := []\<rparr>\<rparr>
                                     in if \<not> update_forwardsPending (urs_contextElementResponseVector upcrs)
                                        then Some (Ret (UpdateContextResponse_render upcrs ci1 [], ci1,
                                               pd1\<lparr>pd_upcrs := UpdateContextResponse_rendered upcrs\<rparr>, st1))
                                        else let (response, requestV) =
                                                   sort_by_provider (fill_values upcr (urs_contextElementResponseVector upcrs))
                                             in served_bind (forward_updates b (take (bd_cprForwardLimit b) requestV) response ci1 st1)
                                                  (\<lambda>(response, ci2, st2).
                                                     Some (Ret (UpdateContextResponse_render response ci2 [], ci2,
                                                       pd1\<lparr>pd_upcrs := UpdateContextResponse_fill UpdateContextResponse_new
                                                              (UpdateContextResponse_rendered response)\<rparr>, st2)))))"

section \<open>Sorting loses nothing\<close>

lemma mset_concat_update:
  "k < length xs \<Longrightarrow> mset (f y) = mset (f (xs ! k)) + x \<Longrightarrow>
     mset (concat (map f (xs[k := y]))) = mset (concat (map f xs)) + x"
  by (induction xs arbitrary: k) (auto split: nat.splits simp: ac_simps)

abbreviation en_key :: "EntityId \<Rightarrow> string \<times> string" where "en_key en \<equiv> (en_id en, en_type en)"

text \<open>The attributes of elements and of forwarded requests, with their entity and provider.\<close>

definition element_attrs :: "ContextElement \<Rightarrow> ((string \<times> string) \<times> ContextAttribute) list" where
  "element_attrs ce = map (\<lambda>ca. (en_key (ce_entityId ce), ca)) (ce_contextAttributeVector ce)"

definition forward_attrs :: "forward_update \<Rightarrow> (string \<times> (string \<times> string) \<times> ContextAttribute) list" where
  "forward_attrs fu = map (Pair (fu_contextProvider fu)) (concat (map element_attrs (upr_contextElementVector (fu_request fu))))"

definition requests_attrs :: "forward_update list \<Rightarrow> (string \<times> (string \<times> string) \<times> ContextAttribute) multiset" where
  "requests_attrs requestV = mset (concat (map forward_attrs requestV))"

lemma element_lookup_Some:
  "element_lookup ceV en = Some k \<Longrightarrow> k < length ceV \<and> en_key (ce_entityId (ceV ! k)) = en_key en"
  by (induction ceV arbitrary: k) (auto split: if_splits)

lemma element_lookup_append:
  "element_lookup ceV en = None \<Longrightarrow> element_lookup (ceV @ [ce]) en =
     (if en_key (ce_entityId ce) = en_key en then Some (length ceV) else None)"
  by (induction ceV) (auto split: if_splits)

lemma forward_lookup_Some:
  "forward_lookup fuV p = Some k \<Longrightarrow> k < length fuV \<and> fu_contextProvider (fuV ! k) = p"
  by (induction fuV arbitrary: k) (auto split: if_splits)

lemma forward_lookup_None: "forward_lookup fuV p = None \<longleftrightarrow> p \<notin> fu_contextProvider ` set fuV"
  by (induction fuV) auto

lemma forward_lookup_append:
  "forward_lookup fuV p = None \<Longrightarrow> forward_lookup (fuV @ [fu]) p =
     (if fu_contextProvider fu = p then Some (length fuV) else None)"
  by (induction fuV) (auto split: if_splits)

lemma push_at_attrs:
  assumes "element_lookup ceV en = Some k"
  shows "mset (concat (map element_attrs (ceV[k := (ceV ! k)\<lparr>ce_contextAttributeVector :=
           ce_contextAttributeVector (ceV ! k) @ [ContextAttribute_copy ca]\<rparr>]))) =
    mset (concat (map element_attrs ceV)) + {#(en_key en, ContextAttribute_copy ca)#}"
  using element_lookup_Some [OF assms] by (intro mset_concat_update) (auto simp: element_attrs_def)

lemma push_to_element_attrs:
  "mset (concat (map element_attrs (push_to_element en ca ceV))) =
     mset (concat (map element_attrs ceV)) + {#(en_key en, ContextAttribute_copy ca)#}"
proof (cases "element_lookup ceV en")
  case None
  let ?ceV = "ceV @ [ContextElement_new\<lparr>ce_entityId := en\<rparr>]"
  have l: "element_lookup ?ceV en = Some (length ceV)"
    by (simp add: element_lookup_append [OF None])
  have "element_attrs (ContextElement_new\<lparr>ce_entityId := en\<rparr>) = []"
    by (simp add: element_attrs_def ContextElement_new_def)
  then show ?thesis
    using push_at_attrs [OF l, of ca] by (simp add: push_to_element_def None l Let_def)
next
  case (Some k)
  then show ?thesis using push_at_attrs [OF Some, of ca] by (simp add: push_to_element_def Let_def)
qed

lemma push_to_forward_simps [simp]:
  "fu_contextProvider (push_to_forward en ca fu) = fu_contextProvider fu"
  "upr_updateActionType (fu_request (push_to_forward en ca fu)) = upr_updateActionType (fu_request fu)"
  by (simp_all add: push_to_forward_def Let_def)

lemma push_to_forward_attrs:
  "mset (forward_attrs (push_to_forward en ca fu)) =
     mset (forward_attrs fu) + {#(fu_contextProvider fu, en_key en, ContextAttribute_copy ca)#}"
  using push_to_element_attrs [of en ca "upr_contextElementVector (fu_request fu)"]
  by (simp add: forward_attrs_def push_to_forward_def Let_def)

lemma requests_attrs_push:
  assumes "forward_lookup requestV p = Some k"
  shows "requests_attrs (requestV[k := push_to_forward en ca (requestV ! k)]) =
    requests_attrs requestV + {#(p, en_key en, ContextAttribute_copy ca)#}"
  using forward_lookup_Some [OF assms] unfolding requests_attrs_def
  by (intro mset_concat_update) (auto simp: push_to_forward_attrs)

lemma requests_attrs_new:
  "requests_attrs (requestV @ [(UpdateContextRequest_for p en)\<lparr>fu_request := r\<rparr>]) =
     requests_attrs requestV + mset (forward_attrs ((UpdateContextRequest_for p en)\<lparr>fu_request := r\<rparr>))"
  by (simp add: requests_attrs_def)

text \<open>The invariant: one request per provider, with a provider, and the action UPDATE.\<close>

definition requests_ok :: "forward_update list \<Rightarrow> bool" where
  "requests_ok requestV \<longleftrightarrow> distinct (map fu_contextProvider requestV) \<and>
     (\<forall>fu \<in> set requestV. fu_contextProvider fu \<noteq> [] \<and> upr_updateActionType (fu_request fu) = ''UPDATE'')"

lemma requests_ok_Nil [simp]: "requests_ok []"
  by (simp add: requests_ok_def)

lemma requests_ok_push:
  assumes "requests_ok requestV" and "k < length requestV"
  shows "requests_ok (requestV[k := push_to_forward en ca (requestV ! k)])"
proof -
  have "map fu_contextProvider (requestV[k := push_to_forward en ca (requestV ! k)]) = map fu_contextProvider requestV"
    using assms(2) by (simp add: map_update list_update_same_conv)
  moreover have "fu_contextProvider fu \<noteq> [] \<and> upr_updateActionType (fu_request fu) = ''UPDATE''"
    if "fu \<in> set (requestV[k := push_to_forward en ca (requestV ! k)])" for fu
    using that assms set_update_subset_insert [of requestV k] nth_mem [OF assms(2)]
    by (auto simp: requests_ok_def dest!: subsetD [OF set_update_subset_insert])
  ultimately show ?thesis using assms(1) by (simp add: requests_ok_def)
qed

text \<open>Where an attribute goes.\<close>

definition is_forwarded :: "ContextAttribute \<Rightarrow> bool" where
  "is_forwarded ca \<longleftrightarrow> ca_found ca \<and> pa_string (ca_providingApplication ca) \<noteq> []"

lemma notFoundPush_None_attrs:
  "response_attrs (urs_contextElementResponseVector (notFoundPush upr en ca None)) =
     response_attrs (urs_contextElementResponseVector upr) + {#(merge_key en, False, ContextAttribute_copy ca)#}"
proof (cases "ContextElementResponseVector_lookup (urs_contextElementResponseVector upr) en SccContextElementNotFound")
  case None
  then show ?thesis by (simp add: notFoundPush_def Let_def cer_attrs_of StatusCode_fill_def)
next
  case (Some k)
  from lookup_Some [OF Some] show ?thesis
    by (simp add: notFoundPush_def Let_def Some response_attrs_update cer_attrs_push)
qed

lemma sort_attribute_spec:
  assumes "requests_ok requestV" and "sort_attribute en (response, requestV) ca = (response', requestV')"
  shows "requests_ok requestV'"
    and "response_attrs (urs_contextElementResponseVector response') = response_attrs (urs_contextElementResponseVector response) +
      (if is_forwarded ca then {#} else {#(merge_key en, ca_found ca, ContextAttribute_copy (ContextAttribute_copy ca))#})"
    and "requests_attrs requestV' = requests_attrs requestV +
      (if is_forwarded ca then {#(pa_string (ca_providingApplication ca), en_key en, ContextAttribute_copy ca)#} else {#})"
    and "urs_errorCode response' = urs_errorCode response"
proof -
  let ?p = "pa_string (ca_providingApplication ca)"
  let ?new = "(UpdateContextRequest_for ?p en)\<lparr>fu_request := (fu_request (UpdateContextRequest_for ?p en))\<lparr>upr_updateActionType := ''UPDATE''\<rparr>\<rparr>"
  let ?rV = "if forward_lookup requestV ?p = None then requestV @ [?new] else requestV"
  have keep: "urs_errorCode (notFoundPush u en a sc) = urs_errorCode u" "urs_errorCode (foundPush u en a) = urs_errorCode u" for u a sc
    by (simp_all add: notFoundPush_def foundPush_def Let_def split: option.splits)
  have new: "fu_contextProvider ?new = ?p" "upr_updateActionType (fu_request ?new) = ''UPDATE''" "forward_attrs ?new = []"
    by (simp_all add: UpdateContextRequest_for_def forward_attrs_def element_attrs_def ContextElement_new_def)
  obtain k where k: "forward_lookup ?rV ?p = Some k"
    using forward_lookup_append [of requestV ?p ?new] new(1) by (cases "forward_lookup requestV ?p") auto
  have kl: "k < length ?rV" using forward_lookup_Some [OF k] by simp
  have ra: "requests_attrs ?rV = requests_attrs requestV"
    using new(3) by (simp add: requests_attrs_def)
  have ok: "?p \<noteq> [] \<Longrightarrow> requests_ok ?rV"
    using assms(1) new(1,2) forward_lookup_None [of requestV ?p] by (auto simp: requests_ok_def)
  have fwd: "is_forwarded ca \<Longrightarrow> response' = response \<and> requestV' = ?rV[k := push_to_forward en ca (?rV ! k)]"
    using assms(2) k by (auto simp: sort_attribute_def is_forwarded_def Let_def)
  have loc: "\<not> is_forwarded ca \<Longrightarrow> requestV' = requestV \<and>
      response' = (if ca_found ca then foundPush response en (ContextAttribute_copy ca) else notFoundPush response en (ContextAttribute_copy ca) None)"
    using assms(2) by (auto simp: sort_attribute_def is_forwarded_def Let_def split: if_splits)
  show "requests_ok requestV'"
    using fwd loc assms(1) requests_ok_push [OF ok kl] by (cases "is_forwarded ca") (auto simp: is_forwarded_def)
  show "response_attrs (urs_contextElementResponseVector response') = response_attrs (urs_contextElementResponseVector response) +
      (if is_forwarded ca then {#} else {#(merge_key en, ca_found ca, ContextAttribute_copy (ContextAttribute_copy ca))#})"
    using fwd loc by (cases "is_forwarded ca") (auto simp: foundPush_attrs notFoundPush_None_attrs)
  show "requests_attrs requestV' = requests_attrs requestV +
      (if is_forwarded ca then {#(?p, en_key en, ContextAttribute_copy ca)#} else {#})"
    using fwd loc requests_attrs_push [OF k, of en ca] ra by (cases "is_forwarded ca") simp_all
  show "urs_errorCode response' = urs_errorCode response"
    using fwd loc keep by (cases "is_forwarded ca") auto
qed


text \<open>The attributes of the backend's answer with their entities, in the order of the two loops.\<close>

definition answer_attrs :: "ContextElementResponse list \<Rightarrow> (EntityId \<times> ContextAttribute) list" where
  "answer_attrs cerV =
     concat (map (\<lambda>cer. map (Pair (ce_entityId (cer_contextElement cer))) (ce_contextAttributeVector (cer_contextElement cer))) cerV)"

lemma answer_attrs_simps [simp]:
  "answer_attrs [] = []"
  "answer_attrs (cer # cerV) =
     map (Pair (ce_entityId (cer_contextElement cer))) (ce_contextAttributeVector (cer_contextElement cer)) @ answer_attrs cerV"
  "answer_attrs (xs @ ys) = answer_attrs xs @ answer_attrs ys"
  by (simp_all add: answer_attrs_def)

lemma sort_by_provider_fold:
  "foldl (\<lambda>acc cer. foldl (sort_attribute (ce_entityId (cer_contextElement cer))) acc (ce_contextAttributeVector (cer_contextElement cer))) acc cerV =
     foldl (\<lambda>acc (en, ca). sort_attribute en acc ca) acc (answer_attrs cerV)"
  by (induction cerV arbitrary: acc) (simp_all add: foldl_map)

lemma sort_fold_spec:
  assumes "requests_ok requestV" and "foldl (\<lambda>acc (en, ca). sort_attribute en acc ca) (response, requestV) xs = (response', requestV')"
  shows "requests_ok requestV' \<and> urs_errorCode response' = urs_errorCode response \<and>
    response_attrs (urs_contextElementResponseVector response') = response_attrs (urs_contextElementResponseVector response) +
      mset (map (\<lambda>(en, ca). (merge_key en, ca_found ca, ContextAttribute_copy (ContextAttribute_copy ca)))
        (filter (\<lambda>(en, ca). \<not> is_forwarded ca) xs)) \<and>
    requests_attrs requestV' = requests_attrs requestV +
      mset (map (\<lambda>(en, ca). (pa_string (ca_providingApplication ca), en_key en, ContextAttribute_copy ca))
        (filter (\<lambda>(en, ca). is_forwarded ca) xs))"
  using assms
proof (induction xs arbitrary: response requestV)
  case Nil
  then show ?case by simp
next
  case (Cons x xs)
  obtain en ca where x: "x = (en, ca)" by fastforce
  obtain r1 q1 where s: "sort_attribute en (response, requestV) ca = (r1, q1)" by fastforce
  note one = sort_attribute_spec [OF Cons.prems(1) s]
  have "foldl (\<lambda>acc (en, ca). sort_attribute en acc ca) (r1, q1) xs = (response', requestV')"
    using Cons.prems(2) by (simp add: x s)
  from Cons.IH [OF one(1) this] show ?case
    using one(2-4) by (cases "is_forwarded ca") (simp_all add: x)
qed

section \<open>Errors of providers\<close>

definition update_failed :: "UpdateContextResponse \<Rightarrow> bool" where
  "update_failed upr \<longleftrightarrow> sc_code (urs_errorCode upr) \<noteq> SccNone \<and> sc_code (urs_errorCode upr) \<noteq> SccOk"

lemma push_errorCode [simp]:
  "urs_errorCode (notFoundPush u en a sc) = urs_errorCode u" "urs_errorCode (foundPush u en a) = urs_errorCode u"
  by (simp_all add: notFoundPush_def foundPush_def Let_def split: option.splits)

lemma merge_attrs_errorCode [simp]: "urs_errorCode (merge_attrs en sc upr cas) = urs_errorCode upr"
  by (induction en sc upr cas rule: merge_attrs.induct) auto

lemma merge_elements_errorCode [simp]: "urs_errorCode (merge_elements upr cerV) = urs_errorCode upr"
  by (induction upr cerV rule: merge_elements.induct) auto

lemma merge_failed:
  "update_failed (UpdateContextResponse_merge upr src) \<longleftrightarrow>
     update_failed upr \<or> urs_contextElementResponseVector src = [] \<and> update_failed src"
  by (auto simp: update_failed_def UpdateContextResponse_merge_def Let_def StatusCode_fill_def)

text \<open>A response with an error is rendered without its elements.\<close>

lemma failed_render:
  "update_failed upr \<Longrightarrow> UpdateContextResponse_render (upr\<lparr>urs_contextElementResponseVector := vec\<rparr>) ci indent =
     UpdateContextResponse_render upr ci indent"
  by (simp add: update_failed_def UpdateContextResponse_render_def)

lemma forward_error_failed [simp]:
  "update_failed (forward_error details)" "urs_contextElementResponseVector (forward_error details) = []"
  by (simp_all add: update_failed_def forward_error_def UpdateContextResponse_new_def StatusCode_fill_def)

text \<open>The forwards as a relation: one answer of \<open>updateForward\<close> for each request in turn.\<close>

inductive forwarded ::
  "'w backend \<Rightarrow> forward_update list \<Rightarrow> ConnectionInfo \<Rightarrow> 'w cb_state \<Rightarrow> UpdateContextResponse list \<Rightarrow> ConnectionInfo \<Rightarrow> 'w cb_state \<Rightarrow> bool"
  for b where
  forwarded_Nil: "forwarded b [] ci st [] ci st"
| forwarded_Cons: "updateForward b ci fu (UpdateContextRequest_format fu) st = Some (Ret (upcrs, ci1, st1)) \<Longrightarrow>
    forwarded b fuV ci1 st1 upcrsV ci2 st2 \<Longrightarrow> forwarded b (fu # fuV) ci st (upcrs # upcrsV) ci2 st2"

inductive_simps forwarded_simps:
  "forwarded b [] ci st upcrsV ci2 st2" "forwarded b (fu # fuV) ci st upcrsV ci2 st2"

lemma served_bind_iff: "served_bind m f = Some (Ret y) \<longleftrightarrow> (\<exists>x. m = Some (Ret x) \<and> f x = Some (Ret y))"
  by (cases m; cases "the m") auto

lemma forward_updates_Ret:
  assumes "\<And>fu. fu \<in> set fuV \<Longrightarrow> fu_contextProvider fu \<noteq> []"
  shows "forward_updates b fuV response ci st = Some (Ret (response', ci', st')) \<longleftrightarrow>
    (\<exists>upcrsV. forwarded b fuV ci st upcrsV ci' st' \<and> response' = foldl UpdateContextResponse_merge response upcrsV)"
  using assms
proof (induction fuV arbitrary: response ci st)
  case Nil
  then show ?case by (auto simp: forwarded_simps)
next
  case (Cons fu fuV)
  have fu: "fu_contextProvider fu \<noteq> []" and ih: "\<And>r c s. forward_updates b fuV r c s = Some (Ret (response', ci', st')) \<longleftrightarrow>
      (\<exists>upcrsV. forwarded b fuV c s upcrsV ci' st' \<and> response' = foldl UpdateContextResponse_merge r upcrsV)"
    using Cons by auto
  let ?f = "updateForward b ci fu (UpdateContextRequest_format fu) st"
  have "forward_updates b (fu # fuV) response ci st = Some (Ret (response', ci', st')) \<longleftrightarrow>
      (\<exists>upcrs ci1 st1. ?f = Some (Ret (upcrs, ci1, st1)) \<and>
         (\<exists>upcrsV. forwarded b fuV ci1 st1 upcrsV ci' st' \<and> response' = foldl UpdateContextResponse_merge response (upcrs # upcrsV)))"
    using fu by (simp add: served_bind_iff ih split_paired_Ex)
  also have "\<dots> \<longleftrightarrow> (\<exists>upcrsV. forwarded b (fu # fuV) ci st upcrsV ci' st' \<and> response' = foldl UpdateContextResponse_merge response upcrsV)"
    unfolding forwarded_simps by blast
  finally show ?case .
qed

lemma foldl_merge_failed:
  "update_failed (foldl UpdateContextResponse_merge response upcrsV) \<longleftrightarrow>
     update_failed response \<or> (\<exists>upcrs \<in> set upcrsV. urs_contextElementResponseVector upcrs = [] \<and> update_failed upcrs)"
  by (induction upcrsV arbitrary: response) (auto simp: merge_failed)

lemma foldl_merge_attrs:
  "response_attrs (urs_contextElementResponseVector (foldl UpdateContextResponse_merge response upcrsV)) =
     response_attrs (urs_contextElementResponseVector response) +
     (\<Sum>upcrs \<leftarrow> upcrsV. image_mset copied (response_attrs (urs_contextElementResponseVector upcrs)))"
  by (induction upcrsV arbitrary: response)
    (simp_all add: UpdateContextResponse_merge_def Let_def merge_elements_attrs ac_simps)

section \<open>The forwards end\<close>

lemma provider_send_ends:
  assumes "curl_idle (cb_curl st)" and "http_calls_ok (bd_net b)"
  obtains out st' where "provider_send b a st = Some (out, st')" and "curl_idle (cb_curl st')" and "cb_sem st' = cb_sem st"
proof -
  from httpRequestSend_idle [OF assms, of "bd_http b" a "cb_world st"]
  obtain out s w where "httpRequestSend (bd_http b) (bd_net b) a (cb_curl st) (cb_world st) = Some (out, s, w)" and "curl_idle s"
    by (auto split: if_splits prod.splits)
  then have "provider_send b a st = Some (out, st\<lparr>cb_curl := s, cb_world := w\<rparr>)" "curl_idle (cb_curl (st\<lparr>cb_curl := s, cb_world := w\<rparr>))"
    by (simp_all add: provider_send_def)
  with that show thesis by auto
qed

lemma updateForward_ends:
  assumes "curl_idle (cb_curl st)" and "http_calls_ok (bd_net b)" and "parseUrl (fu_contextProvider fu) url_out \<noteq> UB"
  obtains upcrs ci' st' where "updateForward b ci fu format st = Some (Ret (upcrs, ci', st'))"
    and "curl_idle (cb_curl st')" and "cb_sem st' = cb_sem st"
proof -
  from assms(3) obtain ok u where u: "parseUrl (fu_contextProvider fu) url_out = Ret (ok, u)"
    by (cases "parseUrl (fu_contextProvider fu) url_out") auto
  let ?payload = "UpdateContextRequest_render (fu_request fu) (ci\<lparr>ci_outFormat := format\<rparr>) []"
  let ?clean = "if format = XML then xmlPayloadClean ?payload ''<updateContextRequest>'' else Some (c_str ?payload)"
  show thesis
  proof (cases "ok \<and> ?clean \<noteq> None")
    case False
    then have "updateForward b ci fu format st = Some (Ret (forward_error [], ci, st))"
      by (cases ok) (auto simp: updateForward_def u Let_def)
    with assms(1) that show thesis by blast
  next
    case True
    then obtain c where ok and c: "?clean = Some c" by blast
    obtain out st1 where send: "provider_send b (provider_args ci u ''/updateContext'' format c) st = Some (out, st1)"
      and idle: "curl_idle (cb_curl st1)" "cb_sem st1 = cb_sem st"
      using provider_send_ends [OF assms(1,2)] by blast
    let ?pd = "ParseData_new\<lparr>pd_upcrs := UpdateContextResponse_new\<lparr>urs_errorCode := StatusCode_fill SccOk []\<rparr>\<rparr>"
    have "\<exists>upcrs ci'. updateForward b ci fu format st = Some (Ret (upcrs, ci', st1))"
    proof (cases "clean_answer format out ''<updateContextResponse>''")
      case None
      with \<open>ok\<close> show ?thesis unfolding updateForward_def u Let_def c by (simp add: send)
    next
      case (Some answer)
      obtain s ci1 pd1 where "parse_answer b format answer ci ?pd RtUpdateContextResponse ''updateContextResponse'' = (s, ci1, pd1)"
        by (rule prod_cases3)
      with \<open>ok\<close> Some show ?thesis unfolding updateForward_def u Let_def c by (simp add: send)
    qed
    with idle that show thesis by blast
  qed
qed

lemma forwarded_ends:
  assumes "curl_idle (cb_curl st)" and "http_calls_ok (bd_net b)"
    and "\<And>fu. fu \<in> set fuV \<Longrightarrow> parseUrl (fu_contextProvider fu) url_out \<noteq> UB"
  shows "\<exists>upcrsV ci' st'. forwarded b fuV ci st upcrsV ci' st' \<and> curl_idle (cb_curl st') \<and> cb_sem st' = cb_sem st"
  using assms
proof (induction fuV arbitrary: ci st)
  case Nil
  then show ?case by (auto simp: forwarded_simps)
next
  case (Cons fu fuV)
  obtain upcrs ci1 st1 where f: "updateForward b ci fu (UpdateContextRequest_format fu) st = Some (Ret (upcrs, ci1, st1))"
    "curl_idle (cb_curl st1)" "cb_sem st1 = cb_sem st"
    using updateForward_ends [OF Cons.prems(1,2) Cons.prems(3) [OF list.set_intros(1)]] by blast
  from Cons.IH [OF f(2) Cons.prems(2), of ci1] Cons.prems(3)
  obtain upcrsV ci' st' where "forwarded b fuV ci1 st1 upcrsV ci' st'" "curl_idle (cb_curl st')" "cb_sem st' = cb_sem st1"
    by auto
  with f show ?case by (metis forwarded_Cons)
qed

lemma forward_updates_ends:
  assumes "curl_idle (cb_curl st)" and "http_calls_ok (bd_net b)" and "requests_ok fuV"
    and "\<And>fu. fu \<in> set fuV \<Longrightarrow> parseUrl (fu_contextProvider fu) url_out \<noteq> UB"
  shows "\<exists>upcrsV ci' st'. forward_updates b fuV response ci st = Some (Ret (foldl UpdateContextResponse_merge response upcrsV, ci', st')) \<and>
    forwarded b fuV ci st upcrsV ci' st' \<and> curl_idle (cb_curl st') \<and> cb_sem st' = cb_sem st"
proof -
  have "\<And>fu. fu \<in> set fuV \<Longrightarrow> fu_contextProvider fu \<noteq> []" using assms(3) by (simp add: requests_ok_def)
  then show ?thesis using forwarded_ends [OF assms(1,2,4)] forward_updates_Ret [of fuV] by blast
qed

lemma requests_ok_take: "requests_ok requestV \<Longrightarrow> requests_ok (take n requestV)"
  by (auto simp: requests_ok_def simp flip: take_map intro: distinct_take dest: in_set_takeD)

section \<open>Found and not found, separated\<close>

text \<open>A response is mixed when some of its attributes were found and some not.\<close>

definition mixed :: "ContextElementResponse \<Rightarrow> bool" where
  "mixed cer \<longleftrightarrow> ca_found ` set (attrs_of cer) = UNIV"

lemma mixed_iff:
  "mixed cer \<longleftrightarrow> filter ca_found (attrs_of cer) \<noteq> [] \<and>
     filter (\<lambda>ca. \<not> ca_found ca) (attrs_of cer) \<noteq> []"
  by (auto simp: mixed_def filter_empty_conv UNIV_bool image_iff)

lemma separate_cer_cases:
  obtains (mixed) c where "mixed cer" and "separate_cer cer = (c, Some (ContextElementResponse_new\<lparr>cer_contextElement :=
        ContextElement_new\<lparr>ce_entityId := entity_of cer,
          ce_contextAttributeVector := filter (\<lambda>ca. \<not> ca_found ca) (attrs_of cer)\<rparr>,
        cer_statusCode := StatusCode_fill SccContextElementNotFound (en_id (entity_of cer))\<rparr>))"
      and "c = cer\<lparr>cer_statusCode := StatusCode_fill SccOk [], cer_contextElement := (cer_contextElement cer)\<lparr>ce_contextAttributeVector :=
        filter ca_found (attrs_of cer)\<rparr>\<rparr>"
  | (pure) c where "\<not> mixed cer" and "separate_cer cer = (c, None)" and "cer_contextElement c = cer_contextElement cer"
      and "filter ca_found (attrs_of cer) = [] \<Longrightarrow>
        attrs_of cer \<noteq> [] \<Longrightarrow> sc_code (cer_statusCode c) \<noteq> SccOk \<and> sc_code (cer_statusCode c) \<noteq> SccNone"
      and "filter ca_found (attrs_of cer) \<noteq> [] \<or> attrs_of cer = [] \<Longrightarrow>
        sc_code (cer_statusCode c) = sc_code (cer_statusCode cer)"
proof -
  let ?caV = "attrs_of cer"
  show thesis
  proof (cases "mixed cer")
    case True
    then show thesis
      using mixed by (simp add: mixed_iff separate_cer_def Let_def StatusCode_fill_def)
  next
    case False
    then have nm: "filter ca_found ?caV = [] \<or> filter (\<lambda>ca. \<not> ca_found ca) ?caV = []" by (simp add: mixed_iff)
    have ne: "filter (\<lambda>ca. \<not> ca_found ca) ?caV \<noteq> []" if "filter ca_found ?caV = []" "?caV \<noteq> []"
      using that by (auto simp: filter_empty_conv)
    obtain c where c: "separate_cer cer = (c, None)" "cer_contextElement c = cer_contextElement cer"
    proof
      have "snd (separate_cer cer) = None" "cer_contextElement (fst (separate_cer cer)) = cer_contextElement cer"
        using nm by (auto simp: separate_cer_def Let_def)
      then show "separate_cer cer = (fst (separate_cer cer), None)"
        "cer_contextElement (fst (separate_cer cer)) = cer_contextElement cer"
        by (simp_all add: prod_eq_iff)
    qed
    show thesis
    proof (rule pure [OF False c])
      assume h: "filter ca_found ?caV = []" "?caV \<noteq> []"
      then show "sc_code (cer_statusCode c) \<noteq> SccOk \<and> sc_code (cer_statusCode c) \<noteq> SccNone"
        using c(1) ne [OF h] by (auto simp: separate_cer_def Let_def StatusCode_fill_def split: if_splits)
    next
      assume h: "filter ca_found ?caV \<noteq> [] \<or> ?caV = []"
      then show "sc_code (cer_statusCode c) = sc_code (cer_statusCode cer)"
        using c(1) nm by (auto simp: separate_cer_def Let_def split: if_splits)
    qed
  qed
qed

definition separated :: "ContextElementResponse list \<Rightarrow> ContextElementResponse list" where
  "separated cerV = map fst (map separate_cer cerV) @ List.map_filter snd (map separate_cer cerV)"

lemma separation_vector:
  "foundAndNotFoundAttributeSeparation upcrs upcr ci = Ret upcrs' \<Longrightarrow>
     urs_contextElementResponseVector upcrs' = separated (urs_contextElementResponseVector upcrs)"
  by (auto simp: foundAndNotFoundAttributeSeparation_def Let_def separated_def cpp_bind_Ret_iff
      split: if_splits list.splits)

lemma map_filter_Cons: "List.map_filter f (x # xs) = (case f x of None \<Rightarrow> [] | Some y \<Rightarrow> [y]) @ List.map_filter f xs"
  by (simp split: option.split)

lemma separated_answer_attrs: "mset (answer_attrs (separated cerV)) = mset (answer_attrs cerV)"
proof (induction cerV)
  case Nil
  then show ?case by (simp add: separated_def)
next
  case (Cons cer cerV)
  have split: "mset (map (Pair (entity_of cer)) (attrs_of cer)) =
      mset (map (Pair (entity_of cer)) (filter ca_found (attrs_of cer))) +
      mset (map (Pair (entity_of cer)) (filter (\<lambda>ca. \<not> ca_found ca) (attrs_of cer)))"
    by (induction "attrs_of cer" arbitrary: cer) (simp_all flip: image_mset_union multiset_partition add: mset_filter)
  show ?case
  proof (cases rule: separate_cer_cases [of cer])
    case (mixed c)
    then show ?thesis using Cons split by (simp add: separated_def ContextElementResponse_new_def ContextElement_new_def map_filter_Cons)
  next
    case (pure c)
    then show ?thesis using Cons by (simp add: separated_def)
  qed
qed

lemma separated_elements:
  assumes "c \<in> set (separated cerV)"
  shows "\<not> mixed c \<and> (attrs_of c \<noteq> [] \<and> filter ca_found (attrs_of c) = [] \<longrightarrow>
    sc_code (cer_statusCode c) \<noteq> SccOk \<and> sc_code (cer_statusCode c) \<noteq> SccNone)"
proof -
  obtain cer where cer: "c = fst (separate_cer cer) \<or> snd (separate_cer cer) = Some c"
    using assms unfolding separated_def List.map_filter_def by (fastforce simp: comp_def)
  show ?thesis
  proof (cases rule: separate_cer_cases [of cer])
    case (mixed c')
    from cer mixed(2) have "c = c' \<or> attrs_of c = filter (\<lambda>ca. \<not> ca_found ca) (attrs_of cer) \<and> sc_code (cer_statusCode c) = SccContextElementNotFound"
      by (auto simp: StatusCode_fill_def)
    then show ?thesis
    proof
      assume "c = c'"
      with mixed(3) have "attrs_of c = filter ca_found (attrs_of cer)" by simp
      then show ?thesis using mixed(1) by (simp add: mixed_iff)
    next
      assume "attrs_of c = filter (\<lambda>ca. \<not> ca_found ca) (attrs_of cer) \<and> sc_code (cer_statusCode c) = SccContextElementNotFound"
      then show ?thesis by (simp add: mixed_iff)
    qed
  next
    case (pure c')
    with cer show ?thesis by (auto simp: mixed_iff)
  qed
qed

section \<open>Claims\<close>

text \<open>C14: Forwarding an update ends and loses nothing. The attributes of the backend's answer are sorted: those
  that were not found or are held here go into the response, every other one into the only request for its
  provider, whose action is UPDATE whatever the action of the client was. With the curl handles at rest and
  well-formed provider URLs each of the requests, up to the limit, is sent in turn and the routine returns;
  the response then holds the local attributes and a copy of each attribute the providers answered, and
  nothing else. It carries an error exactly if a provider answered an error without elements.\<close>

theorem update_forwarding:
  assumes "sort_by_provider cerV = (response, requestV)"
    and "curl_idle (cb_curl st)" and "http_calls_ok (bd_net b)"
    and "\<forall>fu \<in> set requestV. parseUrl (fu_contextProvider fu) url_out \<noteq> UB"
  shows "requests_ok requestV \<and>
    requests_attrs requestV = mset (map (\<lambda>(en, ca). (pa_string (ca_providingApplication ca), en_key en, ContextAttribute_copy ca))
      (filter (\<lambda>(en, ca). is_forwarded ca) (answer_attrs cerV))) \<and>
    (\<exists>response' ci' st' upcrsV.
       forward_updates b (take (bd_cprForwardLimit b) requestV) response ci st = Some (Ret (response', ci', st')) \<and>
       forwarded b (take (bd_cprForwardLimit b) requestV) ci st upcrsV ci' st' \<and> curl_idle (cb_curl st') \<and> cb_sem st' = cb_sem st \<and>
       response_attrs (urs_contextElementResponseVector response') =
         mset (map (\<lambda>(en, ca). (merge_key en, ca_found ca, ContextAttribute_copy (ContextAttribute_copy ca)))
           (filter (\<lambda>(en, ca). \<not> is_forwarded ca) (answer_attrs cerV))) +
         (\<Sum>upcrs \<leftarrow> upcrsV. image_mset copied (response_attrs (urs_contextElementResponseVector upcrs))) \<and>
       (update_failed response' \<longleftrightarrow> (\<exists>upcrs \<in> set upcrsV. urs_contextElementResponseVector upcrs = [] \<and> update_failed upcrs)))"
proof -
  let ?start = "UpdateContextResponse_new\<lparr>urs_errorCode := StatusCode_fill SccOk []\<rparr>"
  let ?fuV = "take (bd_cprForwardLimit b) requestV"
  have "foldl (\<lambda>acc (en, ca). sort_attribute en acc ca) (?start, []) (answer_attrs cerV) = (response, requestV)"
    using assms(1) by (simp add: sort_by_provider_def sort_by_provider_fold)
  note sorted = sort_fold_spec [OF _ this]
  have ok: "requests_ok []" "requests_attrs [] = {#}" "urs_contextElementResponseVector ?start = []" "\<not> update_failed ?start"
    by (simp_all add: requests_ok_def requests_attrs_def UpdateContextResponse_new_def update_failed_def StatusCode_fill_def)
  note sorted = sorted [OF ok(1)]
  obtain upcrsV ci' st' where f: "forward_updates b ?fuV response ci st = Some (Ret (foldl UpdateContextResponse_merge response upcrsV, ci', st'))"
    "forwarded b ?fuV ci st upcrsV ci' st'" "curl_idle (cb_curl st')" "cb_sem st' = cb_sem st"
    using forward_updates_ends [OF assms(2,3) requests_ok_take, of requestV "bd_cprForwardLimit b"] sorted assms(4)
    by (meson in_set_takeD)
  have "update_failed response \<longleftrightarrow> False" using sorted ok(4) by (simp add: update_failed_def)
  then show ?thesis
    using sorted f ok foldl_merge_failed [of response upcrsV] foldl_merge_attrs [of response upcrsV] by auto
qed

text \<open>A provider that cannot be reached: its URL is refused or every request to it fails.\<close>

definition provider_unreachable :: "'w backend \<Rightarrow> forward_update \<Rightarrow> bool" where
  "provider_unreachable b fu \<longleftrightarrow>
     (\<forall>u. parseUrl (fu_contextProvider fu) url_out = Ret (True, u) \<longrightarrow>
        (\<forall>a st out st'. ha_ip a = u_host u \<and> provider_send b a st = Some (out, st') \<longrightarrow> out = ''error'' \<or> out = []))"

lemma unreachable_failed:
  assumes "provider_unreachable b fu" and "updateForward b ci fu format st = Some (Ret (upcrs, ci', st'))"
  shows "urs_contextElementResponseVector upcrs = [] \<and> update_failed upcrs"
proof -
  obtain ok u where u: "parseUrl (fu_contextProvider fu) url_out = Ret (ok, u)"
    using assms(2) by (cases "parseUrl (fu_contextProvider fu) url_out") (auto simp: updateForward_def)
  have down: "out = ''error'' \<or> out = []" if "ok" "provider_send b (provider_args ci u op f c) st = Some (out, st1)" for op f c out st1
  proof -
    have "ha_ip (provider_args ci u op f c) = u_host u" by (simp add: provider_args_def)
    moreover have "parseUrl (fu_contextProvider fu) url_out = Ret (True, u)" using u that(1) by simp
    ultimately show ?thesis using assms(1) that(2) unfolding provider_unreachable_def by blast
  qed
  let ?payload = "UpdateContextRequest_render (fu_request fu) (ci\<lparr>ci_outFormat := format\<rparr>) []"
  let ?clean = "if format = XML then xmlPayloadClean ?payload ''<updateContextRequest>'' else Some (c_str ?payload)"
  have "upcrs = forward_error []"
  proof (cases "ok \<and> ?clean \<noteq> None")
    case False
    then show ?thesis using assms(2) by (cases ok) (auto simp: updateForward_def u Let_def)
  next
    case True
    then obtain c where ok and c: "?clean = Some c" by blast
    obtain out st1 where send: "provider_send b (provider_args ci u ''/updateContext'' format c) st = Some (out, st1)"
      using assms(2) \<open>ok\<close> unfolding updateForward_def u Let_def c
      by (cases "provider_send b (provider_args ci u ''/updateContext'' format c) st") auto
    then have "updateForward b ci fu format st = Some (Ret (forward_error [], ci, st1))"
      using \<open>ok\<close> down [OF \<open>ok\<close> send] unfolding updateForward_def u Let_def c by simp
    with assms(2) show ?thesis by simp
  qed
  then show ?thesis by simp
qed

lemma forwarded_mem:
  assumes "forwarded b fuV ci st upcrsV ci' st'" and "fu \<in> set fuV"
  shows "\<exists>upcrs c s c' s'. upcrs \<in> set upcrsV \<and> updateForward b c fu (UpdateContextRequest_format fu) s = Some (Ret (upcrs, c', s'))"
  using assms by (induction rule: forwarded.induct) (auto, blast+)

text \<open>C15: One provider that cannot be reached hides everything else. Whatever was updated here and by the other
  providers, the answer of an update with such a provider is an error that does not depend on the
  results collected.\<close>

theorem unreachable_provider_hides_results:
  assumes "requests_ok requestV" and "fu \<in> set requestV" and "provider_unreachable b fu"
    and "forward_updates b requestV response ci st = Some (Ret (response', ci', st'))"
  shows "update_failed response' \<and>
    (\<forall>vec. UpdateContextResponse_render (response'\<lparr>urs_contextElementResponseVector := vec\<rparr>) ci' [] =
       UpdateContextResponse_render response' ci' [])"
proof -
  have "\<And>fu. fu \<in> set requestV \<Longrightarrow> fu_contextProvider fu \<noteq> []" using assms(1) by (simp add: requests_ok_def)
  with assms(4) obtain upcrsV where f: "forwarded b requestV ci st upcrsV ci' st'" "response' = foldl UpdateContextResponse_merge response upcrsV"
    using forward_updates_Ret [of requestV] by blast
  from forwarded_mem [OF f(1) assms(2)] obtain upcrs where "upcrs \<in> set upcrsV" "urs_contextElementResponseVector upcrs = []" "update_failed upcrs"
    using unreachable_failed [OF assms(3)] by blast
  then have "update_failed response'" using f(2) foldl_merge_failed by blast
  then show ?thesis using failed_render by blast
qed

text \<open>C16: What becomes of the answer of the backend before it is forwarded or sent: no attribute is lost or
  invented, attributes found and not found are no longer in one response, and a response with attributes none
  of which was found is not a success. But the found part of a mixed response is reported as a success whatever
  the backend said: when the backend refused the update, nothing was written.\<close>

theorem separation_masks_errors:
  assumes "foundAndNotFoundAttributeSeparation upcrs upcr ci = Ret upcrs'"
  shows "mset (answer_attrs (urs_contextElementResponseVector upcrs')) = mset (answer_attrs (urs_contextElementResponseVector upcrs)) \<and>
    (\<forall>c \<in> set (urs_contextElementResponseVector upcrs'). \<not> mixed c \<and>
       (attrs_of c \<noteq> [] \<and> filter ca_found (attrs_of c) = [] \<longrightarrow>
          sc_code (cer_statusCode c) \<noteq> SccOk \<and> sc_code (cer_statusCode c) \<noteq> SccNone)) \<and>
    (\<forall>cer \<in> set (urs_contextElementResponseVector upcrs). mixed cer \<longrightarrow>
       (\<exists>c \<in> set (urs_contextElementResponseVector upcrs'). entity_of c = entity_of cer \<and>
          attrs_of c = filter ca_found (attrs_of cer) \<and> sc_code (cer_statusCode c) = SccOk))"
proof -
  have vec: "urs_contextElementResponseVector upcrs' = separated (urs_contextElementResponseVector upcrs)"
    by (rule separation_vector [OF assms])
  have "\<exists>c \<in> set (separated cerV). entity_of c = entity_of cer \<and> attrs_of c = filter ca_found (attrs_of cer) \<and> sc_code (cer_statusCode c) = SccOk"
    if "cer \<in> set cerV" "mixed cer" for cer cerV
  proof (rule bexI [of _ "fst (separate_cer cer)"])
    show "entity_of (fst (separate_cer cer)) = entity_of cer \<and> attrs_of (fst (separate_cer cer)) = filter ca_found (attrs_of cer) \<and>
        sc_code (cer_statusCode (fst (separate_cer cer))) = SccOk"
      using that(2) by (cases rule: separate_cer_cases [of cer]) (simp_all add: StatusCode_fill_def)
    show "fst (separate_cer cer) \<in> set (separated cerV)" using that(1) by (simp add: separated_def)
  qed
  then show ?thesis unfolding vec using separated_answer_attrs separated_elements by blast
qed

section \<open>A broker whose providers are down\<close>

definition down_ops :: "mem_world http_ops" where
  "down_ops = \<lparr>ho_calls = (\<lambda>w. curl_calls0), ho_semTimeStatistics = False, ho_clock = (\<lambda>w. (time_zero, time_zero)),
     ho_unlock = (\<lambda>w. 0), ho_perform = (\<lambda>r w. ([], False, w))\<rparr>"

definition backend0 :: "mem_world backend" where
  "backend0 = \<lparr>bd_env = mem_env, bd_entry = entry_ops0, bd_clk = (\<lambda>w. clk0), bd_later = (\<lambda>w n. w), bd_http = http_config0,
     bd_net = down_ops, bd_xmlTreat = (\<lambda>payload ci pd r word. (''OK'', ci, pd)),
     bd_jsonTreat = (\<lambda>payload ci pd r word. (''OK'', ci, pd)), bd_cprForwardLimit = 1000\<rparr>"

definition cb_state0 :: "mem_world cb_state" where
  "cb_state0 = \<lparr>cb_sem = sem_running, cb_curl = curl_state0, cb_world = entry_world\<rparr>"

lemma down_ok [simp]:
  "curl_idle (cb_curl cb_state0)" "http_calls_ok (bd_net backend0)" "bd_cprForwardLimit backend0 = 1000"
  by (simp_all add: cb_state0_def backend0_def down_ops_def curl_idle_def curl_state0_def http_calls_ok_def calls_ok_def curl_calls0_def)

definition update_ca :: "string \<Rightarrow> bool \<Rightarrow> string \<Rightarrow> ContextAttribute" where
  "update_ca name found provider = (ContextAttribute_new name ''t'' ''1'' found)\<lparr>ca_providingApplication :=
     \<lparr>pa_string = provider, pa_format = JSON\<rparr>\<rparr>"

definition update_answer0 :: "ContextElementResponse list" where
  "update_answer0 = [cer_of (EntityId_new ''E1'' ''T'' ''false'')
     [update_ca ''A'' True [], update_ca ''B'' True ''http://p:1026/v1'', update_ca ''C'' False []] (StatusCode_fill SccOk [])]"

abbreviation update_requests0 :: "forward_update list" where
  "update_requests0 \<equiv> snd (sort_by_provider update_answer0)"

lemma update_requests0: "map fu_contextProvider update_requests0 = [''http://p:1026/v1'']"
  by code_simp

lemma update_provider0: "parseUrl ''http://p:1026/v1'' url_out \<noteq> UB"
  by code_simp

theorem update_forwarding_witness:
  "\<exists>response' ci' st' upcrsV.
     forward_updates backend0 (take 1000 update_requests0) (fst (sort_by_provider update_answer0)) json_ci cb_state0 =
       Some (Ret (response', ci', st')) \<and> curl_idle (cb_curl st')"
proof -
  have "\<forall>fu \<in> set update_requests0. parseUrl (fu_contextProvider fu) url_out \<noteq> UB"
  proof
    fix fu assume "fu \<in> set update_requests0"
    then have "fu_contextProvider fu \<in> set (map fu_contextProvider update_requests0)" by simp
    then show "parseUrl (fu_contextProvider fu) url_out \<noteq> UB" unfolding update_requests0 using update_provider0 by simp
  qed
  from update_forwarding [OF prod.collapse [symmetric], OF down_ok(1,2) this, of json_ci] show ?thesis by auto
qed

definition delete_req0 :: UpdateContextRequest where
  "delete_req0 = \<lparr>upr_contextElementVector = [ContextElement_new\<lparr>ce_entityId := EntityId_new ''E1'' ''T'' ''false'',
     ce_contextAttributeVector := [ContextAttribute_new ''A'' ''t'' [] False, ContextAttribute_new ''C'' ''t'' [] False]\<rparr>],
     upr_updateActionType = ''delete''\<rparr>"

text \<open>A delete of an attribute that is stored and one that is not: the backend refuses it and writes nothing.\<close>

definition delete_answer0 :: UpdateContextResponse where
  "delete_answer0 = \<lparr>urs_contextElementResponseVector = [cer_of (EntityId_new ''E1'' ''T'' ''false'')
       [ContextAttribute_new ''A'' ''t'' [] True, ContextAttribute_new ''C'' ''t'' [] False]
       (StatusCode_fill SccInvalidParameter
          ''action: DELETE - entity: [E1, T] - offending attribute: C - attribute not found'')],
     urs_errorCode = StatusCode_fill SccOk []\<rparr>"

lemma delete_refused: "update_body mem_env delete_req0 [] [''/''] [] [] entry_world = Ret (delete_answer0, True, entry_world)"
  by code_simp

lemma delete_separated: "foundAndNotFoundAttributeSeparation delete_answer0 delete_req0 json_ci \<noteq> UB"
  by code_simp

theorem separation_masks_errors_witness:
  "\<exists>upcrs'. update_body mem_env delete_req0 [] [''/''] [] [] entry_world = Ret (delete_answer0, True, entry_world) \<and>
     foundAndNotFoundAttributeSeparation delete_answer0 delete_req0 json_ci = Ret upcrs' \<and>
     (\<exists>c \<in> set (urs_contextElementResponseVector upcrs'). map ca_name (attrs_of c) = [''A''] \<and> sc_code (cer_statusCode c) = SccOk)"
proof -
  obtain upcrs' where u: "foundAndNotFoundAttributeSeparation delete_answer0 delete_req0 json_ci = Ret upcrs'"
    using delete_separated by (cases "foundAndNotFoundAttributeSeparation delete_answer0 delete_req0 json_ci") auto
  have "\<exists>cer. cer \<in> set (urs_contextElementResponseVector delete_answer0) \<and> mixed cer \<and> map ca_name (filter ca_found (attrs_of cer)) = [''A'']"
    unfolding mixed_iff by (simp add: delete_answer0_def cer_of_def ContextAttribute_new_def)
  with separation_masks_errors [OF u] u delete_refused show ?thesis by metis
qed

lemma down_unreachable: "provider_unreachable backend0 fu"
  by (auto simp: provider_unreachable_def provider_send_def httpRequestSend_def backend0_def down_ops_def received_def
      MemoryStruct_new_def Let_def split: if_splits option.splits prod.splits)

lemma update_ok0: "requests_ok update_requests0"
  using sort_fold_spec [of "[]" _ "answer_attrs update_answer0"]
  by (metis (no_types, lifting) prod.collapse requests_ok_Nil sort_by_provider_def sort_by_provider_fold)

definition update_req1 :: UpdateContextRequest where
  "update_req1 = \<lparr>upr_contextElementVector = [ContextElement_new\<lparr>ce_entityId := EntityId_new ''E1'' ''T'' ''false'',
     ce_contextAttributeVector := [ContextAttribute_new ''A'' ''t'' ''2'' False, ContextAttribute_new ''B'' ''t'' ''2'' False]\<rparr>],
     upr_updateActionType = ''update''\<rparr>"

text \<open>The whole routine: the attribute that is held here is written, and the client is told 404.\<close>

lemma local_update_hidden:
  "case postUpdateContext backend0 json_ci 2 [] (ParseData_new\<lparr>pd_upcr := update_req1\<rparr>) cb_state0 of
     Some (Ret (answer, ci, pd, st)) \<Rightarrow> length (mw_updates (cb_world st)) = 1 \<and> sc_code (urs_errorCode (pd_upcrs pd)) = SccContextElementNotFound
   | _ \<Rightarrow> False"
  by code_simp

theorem unreachable_provider_hides_results_witness:
  "(case postUpdateContext backend0 json_ci 2 [] (ParseData_new\<lparr>pd_upcr := update_req1\<rparr>) cb_state0 of
      Some (Ret (answer, ci, pd, st)) \<Rightarrow> length (mw_updates (cb_world st)) = 1 \<and> sc_code (urs_errorCode (pd_upcrs pd)) = SccContextElementNotFound
    | _ \<Rightarrow> False) \<and>
   (\<exists>response' ci' st'. update_requests0 \<noteq> [] \<and>
     forward_updates backend0 update_requests0 (fst (sort_by_provider update_answer0)) json_ci cb_state0 = Some (Ret (response', ci', st')) \<and>
     update_failed response' \<and>
     UpdateContextResponse_render (response'\<lparr>urs_contextElementResponseVector := []\<rparr>) ci' [] = UpdateContextResponse_render response' ci' [])"
proof (rule conjI [OF local_update_hidden])
  obtain fu where fu: "update_requests0 = [fu]" "fu_contextProvider fu = ''http://p:1026/v1''"
    using update_requests0 by auto
  then obtain response' ci' st' where f: "forward_updates backend0 update_requests0 (fst (sort_by_provider update_answer0)) json_ci cb_state0 =
      Some (Ret (response', ci', st'))"
    using forward_updates_ends [OF down_ok(1,2) update_ok0] update_provider0 by fastforce
  have "fu \<in> set update_requests0" by (simp add: fu(1))
  moreover have "update_requests0 \<noteq> []" by (simp add: fu(1))
  ultimately show "\<exists>response' ci' st'. update_requests0 \<noteq> [] \<and>
     forward_updates backend0 update_requests0 (fst (sort_by_provider update_answer0)) json_ci cb_state0 = Some (Ret (response', ci', st')) \<and>
     update_failed response' \<and>
     UpdateContextResponse_render (response'\<lparr>urs_contextElementResponseVector := []\<rparr>) ci' [] = UpdateContextResponse_render response' ci' []"
    using unreachable_provider_hides_results [OF update_ok0 _ down_unreachable f] f by blast
qed

end
