(* ===== verification/Forward_Query.thy ===== *)
theory Forward_Query
  imports Forward_Update
begin

text \<open>
  The service routine of queries with forwarding to context providers:
  \<^verbatim>\<open>src/src/lib/serviceRoutines/postQueryContext.cpp\<close> with
  \<^verbatim>\<open>orionTypes/QueryContextRequestVector.cpp\<close>, \<^verbatim>\<open>orionTypes/QueryContextResponseVector.cpp\<close>
  and the parts of \<^verbatim>\<open>ngsi10/QueryContextRequest.cpp\<close> and \<^verbatim>\<open>ngsi10/QueryContextResponse.cpp\<close> it uses.
\<close>

section \<open>Requests for the providers\<close>

text \<open>A forwarded request has no restriction.\<close>

record forward_query =
  fq_contextProvider :: string
  fq_request :: QueryContextRequest

record QueryContextRequestVector =
  qrv_vec :: "forward_query list"
  qrv_xmls :: int
  qrv_jsons :: int

definition QueryContextRequest_for :: "string \<Rightarrow> EntityId \<Rightarrow> string list \<Rightarrow> forward_query" where
  "QueryContextRequest_for contextProvider en attributeList =
     \<lparr>fq_contextProvider = contextProvider,
      fq_request = \<lparr>qcr_entityIdVector = [en], qcr_attributeList = attributeList, qcr_scopeVector = []\<rparr>\<rparr>"

definition QueryContextRequestVector_format :: "QueryContextRequestVector \<Rightarrow> Format" where
  "QueryContextRequestVector_format v =
     (if qrv_xmls v > qrv_jsons v then XML else if qrv_jsons v > qrv_xmls v then JSON else DEFAULT_FORMAT)"

definition entityIdMatch :: "EntityId \<Rightarrow> EntityId \<Rightarrow> bool" where
  "entityIdMatch e1 e2 =
     (if en_id e1 \<noteq> en_id e2 then False else if en_type e2 \<noteq> [] \<and> en_type e1 \<noteq> en_type e2 then False else True)"

text \<open>Only the first entity of a request is looked at; requests are made with one.\<close>

fun query_lookup :: "forward_query list \<Rightarrow> string \<Rightarrow> EntityId \<Rightarrow> nat option" where
  "query_lookup [] contextProvider en = None"
| "query_lookup (fq # fqV) contextProvider en =
     (if fq_contextProvider fq = contextProvider \<and>
         (case qcr_entityIdVector (fq_request fq) of [] \<Rightarrow> False | e # _ \<Rightarrow> entityIdMatch e en)
      then Some 0 else map_option Suc (query_lookup fqV contextProvider en))"

section \<open>One query of a provider\<close>

definition QueryContextResponse_fill :: "QueryContextResponse \<Rightarrow> QueryContextResponse \<Rightarrow> QueryContextResponse" where
  "QueryContextResponse_fill qcrs src =
     \<lparr>qrs_contextElementResponseVector =
        qrs_contextElementResponseVector qcrs @ map ContextElementResponse_copy (qrs_contextElementResponseVector src),
      qrs_errorCode = StatusCode_fill (sc_code (qrs_errorCode src)) (sc_details (qrs_errorCode src))\<rparr>"

definition queryForward_fix :: "QueryContextResponse \<Rightarrow> QueryContextResponse" where
  "queryForward_fix qcrs =
     (let qcrs1 = (if sc_code (qrs_errorCode qcrs) = SccNone then qcrs\<lparr>qrs_errorCode := StatusCode_fill SccOk []\<rparr> else qcrs)
      in case qrs_contextElementResponseVector qcrs1 of
           [cer] \<Rightarrow> if sc_code (cer_statusCode cer) = SccContextElementNotFound
                    then qcrs1\<lparr>qrs_errorCode := StatusCode_fill SccContextElementNotFound []\<rparr> else qcrs1
         | _ \<Rightarrow> qcrs1)"

definition query_error :: "string \<Rightarrow> QueryContextResponse" where
  "query_error details = QueryContextResponse_new\<lparr>qrs_errorCode := StatusCode_fill SccContextElementNotFound details\<rparr>"

text \<open>The XML is looked for in the rendered request, but the whole of it is sent.\<close>

definition queryForward ::
  "'w backend \<Rightarrow> ConnectionInfo \<Rightarrow> forward_query \<Rightarrow> Format \<Rightarrow> 'w cb_state
   \<Rightarrow> (QueryContextResponse \<times> ConnectionInfo \<times> 'w cb_state) cpp option" where
  "queryForward b ci fq format st =
     (case parseUrl (fq_contextProvider fq) url_out of
        UB \<Rightarrow> Some UB
      | Ret (False, _) \<Rightarrow> Some (Ret (query_error [], ci, st))
      | Ret (True, u) \<Rightarrow>
          let payload = QueryContextRequest_render (fq_request fq) [] 0 format []
          in if format = XML \<and> xmlPayloadClean payload ''<queryContextRequest>'' = None
             then Some (Ret (query_error [], ci, st))
             else case provider_send b (provider_args ci u ''/queryContext'' format payload) st of
                    None \<Rightarrow> None
                  | Some (out, st1) \<Rightarrow>
                      if out = ''error'' \<or> out = [] then Some (Ret (query_error [], ci, st1))
                      else case clean_answer format out ''<queryContextResponse>'' of
                             None \<Rightarrow> Some (Ret (query_error ''invalid context provider response'', ci, st1))
                           | Some answer \<Rightarrow>
                               let (s, ci1, pd1) = parse_answer b format answer ci ParseData_new RtQueryContextResponse ''queryContextResponse''
                               in if s \<noteq> ''OK'' then Some (Ret (query_error [], ci1, st1))
                                  else Some (Ret (queryForward_fix (QueryContextResponse_fill
                                         (QueryContextResponse_new\<lparr>qrs_errorCode := StatusCode_fill SccOk []\<rparr>) (pd_qcrs pd1)), ci1, st1)))"

fun query_forwardsPending :: "ContextElementResponse list \<Rightarrow> bool" where
  "query_forwardsPending [] = False"
| "query_forwardsPending (cer # cerV) =
     (if ce_providingApplicationList (cer_contextElement cer) \<noteq> [] then True
      else if forwardsPending_attrs (attrs_of cer) then True
      else query_forwardsPending cerV)"

section \<open>Sorting the answer of the backend\<close>

text \<open>The local attributes, gathered by entity, and the requests.\<close>

definition local_push :: "EntityId \<Rightarrow> ContextAttribute \<Rightarrow> ContextElementResponse list \<Rightarrow> ContextElementResponse list" where
  "local_push en ca cerV =
     (case ContextElementResponseVector_lookup cerV en SccNone of
        None \<Rightarrow> cerV @ [ContextElementResponse_of en ca]
      | Some k \<Rightarrow> cerV[k := cer_push_attr ca (cerV ! k)])"

definition request_push :: "EntityId \<Rightarrow> ContextAttribute \<Rightarrow> QueryContextRequestVector \<Rightarrow> QueryContextRequestVector" where
  "request_push en ca requestV =
     (let pa = ca_providingApplication ca
      in case query_lookup (qrv_vec requestV) (pa_string pa) en of
           None \<Rightarrow>
             let v = requestV\<lparr>qrv_vec := qrv_vec requestV @
                       [QueryContextRequest_for (pa_string pa) en (if ca_name ca \<noteq> [] then [ca_name ca] else [])]\<rparr>
             in if pa_format pa = XML then v\<lparr>qrv_xmls := qrv_xmls v + 1\<rparr>
                else if pa_format pa = JSON then v\<lparr>qrv_jsons := qrv_jsons v + 1\<rparr> else v
         | Some k \<Rightarrow>
             let fq = qrv_vec requestV ! k; r = fq_request fq
             in requestV\<lparr>qrv_vec := (qrv_vec requestV)[k := fq\<lparr>fq_request := r
                  \<lparr>qcr_attributeList := AttributeList_push_back_if_absent (qcr_attributeList r) (ca_name ca),
                   qcr_entityIdVector := EntityIdVector_push_back_if_absent (qcr_entityIdVector r) en\<rparr>\<rparr>]\<rparr>)"

definition query_sort_attr ::
  "EntityId \<Rightarrow> ContextElementResponse list \<times> QueryContextRequestVector \<Rightarrow> ContextAttribute
   \<Rightarrow> ContextElementResponse list \<times> QueryContextRequestVector" where
  "query_sort_attr en acc ca =
     (case acc of (localV, requestV) \<Rightarrow>
        if pa_string (ca_providingApplication ca) = []
        then (if \<not> ca_found ca then localV else local_push en ca localV, requestV)
        else (localV, request_push en ca requestV))"

definition query_sort_cer ::
  "string list \<Rightarrow> ContextElementResponse list \<times> QueryContextRequestVector \<Rightarrow> ContextElementResponse
   \<Rightarrow> ContextElementResponse list \<times> QueryContextRequestVector" where
  "query_sort_cer attributeList acc cer =
     (case acc of (localV, requestV) \<Rightarrow>
        let en = entity_of cer;
            requestV1 = requestV\<lparr>qrv_vec := qrv_vec requestV @
              map (\<lambda>pa. QueryContextRequest_for (pa_string pa) en attributeList) (ce_providingApplicationList (cer_contextElement cer))\<rparr>
        in foldl (query_sort_attr en) (localV, requestV1) (attrs_of cer))"

definition query_sort ::
  "string list \<Rightarrow> ContextElementResponse list \<Rightarrow> ContextElementResponse list \<times> QueryContextRequestVector" where
  "query_sort attributeList cerV =
     foldl (query_sort_cer attributeList) ([], \<lparr>qrv_vec = [], qrv_xmls = 0, qrv_jsons = 0\<rparr>) cerV"

section \<open>One response from all of them\<close>

definition collect_cer :: "ContextElementResponse list \<Rightarrow> ContextElementResponse \<Rightarrow> ContextElementResponse list" where
  "collect_cer cerV cer =
     (if sc_code (cer_statusCode cer) \<noteq> SccOk \<and> sc_code (cer_statusCode cer) \<noteq> SccNone then cerV
      else case ContextElementResponseVector_lookup cerV (entity_of cer) SccNone of
             Some k \<Rightarrow> cerV[k := (cerV ! k)\<lparr>cer_contextElement := (cer_contextElement (cerV ! k))
                 \<lparr>ce_contextAttributeVector := attrs_of (cerV ! k) @ map ContextAttribute_copy (attrs_of cer)\<rparr>\<rparr>]
           | None \<Rightarrow> cerV @ [(ContextElementResponse_copy cer)\<lparr>cer_statusCode := StatusCode_fill SccOk []\<rparr>])"

definition collect_response :: "ContextElementResponse list \<Rightarrow> QueryContextResponse \<Rightarrow> ContextElementResponse list" where
  "collect_response cerV q =
     foldl collect_cer
       (if qrs_contextElementResponseVector q = [] \<and> (sc_code (qrs_errorCode q) = SccOk \<or> sc_code (qrs_errorCode q) = SccNone)
        then cerV @ [ContextElementResponse_new\<lparr>cer_statusCode := StatusCode_fill SccContextElementNotFound []\<rparr>] else cerV)
       (qrs_contextElementResponseVector q)"

text \<open>The response that is rendered; the error code of a single empty response is changed on the way.\<close>

definition QueryContextResponseVector_response ::
  "QueryContextResponse list \<Rightarrow> bool \<Rightarrow> string \<Rightarrow> QueryContextResponse \<times> QueryContextResponse list" where
  "QueryContextResponseVector_response vec details detailsString =
     (let notFound = StatusCode_fill SccContextElementNotFound [];
          (ec, vec1) =
            (case vec of
               [] \<Rightarrow> (notFound, vec)
             | [q] \<Rightarrow> if qrs_contextElementResponseVector q = []
                      then let q1 = (if sc_code (qrs_errorCode q) = SccOk \<or> sc_code (qrs_errorCode q) = SccNone
                                     then q\<lparr>qrs_errorCode := notFound\<rparr> else q)
                           in (if sc_code (qrs_errorCode q1) = SccContextElementNotFound
                               then notFound\<lparr>sc_details := sc_details (qrs_errorCode q1)\<rparr> else notFound, [q1])
                      else (StatusCode_fill SccOk [], vec)
             | _ \<Rightarrow> (StatusCode_fill SccOk [], vec));
          ec1 = (if details then StatusCode_fill SccOk detailsString else ec)
      in (\<lparr>qrs_contextElementResponseVector = foldl collect_response [] vec1, qrs_errorCode = ec1\<rparr>, vec1))"

definition QueryContextResponseVector_render :: "QueryContextResponse list \<Rightarrow> ConnectionInfo \<Rightarrow> bool \<Rightarrow> string \<Rightarrow> string \<times> QueryContextResponse list" where
  "QueryContextResponseVector_render vec ci details detailsString =
     (case QueryContextResponseVector_response vec details detailsString of (response, vec1) \<Rightarrow>
        (QueryContextResponse_render response ci [], vec1))"

definition QueryContextResponseVector_populate :: "QueryContextResponse list \<Rightarrow> QueryContextResponse" where
  "QueryContextResponseVector_populate vec =
     (let notFound = StatusCode_fill SccContextElementNotFound [];
          (ec, vec1) =
            (case vec of
               [] \<Rightarrow> (notFound, vec)
             | [q] \<Rightarrow> if qrs_contextElementResponseVector q = [] then (notFound, [q\<lparr>qrs_errorCode := notFound\<rparr>])
                      else (StatusCode_fill SccOk [], vec)
             | _ \<Rightarrow> (StatusCode_fill SccOk [], vec))
      in \<lparr>qrs_contextElementResponseVector = foldl collect_response [] vec1, qrs_errorCode = ec\<rparr>)"

definition QueryContextResponse_rendered :: "QueryContextResponse \<Rightarrow> QueryContextResponse" where
  "QueryContextResponse_rendered qcr =
     (let ec = qrs_errorCode qcr; vec = qrs_contextElementResponseVector qcr;
          noError = \<not> (sc_code ec \<noteq> SccNone \<and> sc_code ec \<noteq> SccOk);
          ec1 = (if noError \<and> vec \<noteq> [] \<and> sc_details ec \<noteq> [] \<and> sc_code ec = SccNone then ec\<lparr>sc_code := SccOk\<rparr> else ec);
          ec2 = (if \<not> noError \<or> vec = [] \<or> sc_details ec \<noteq> [] then rendered_status ec1 else ec1)
      in \<lparr>qrs_contextElementResponseVector = map (\<lambda>cer. cer\<lparr>cer_statusCode := rendered_status (cer_statusCode cer)\<rparr>) vec,
          qrs_errorCode = (if sc_code ec2 = SccNone \<and> vec = []
            then rendered_status (StatusCode_fill SccReceiverInternalError ''Both the error-code structure and the response vector were empty'')
            else ec2)\<rparr>)"

section \<open>The service routine\<close>

fun forward_queries ::
  "'w backend \<Rightarrow> Format \<Rightarrow> forward_query list \<Rightarrow> QueryContextResponse list \<Rightarrow> ConnectionInfo \<Rightarrow> 'w cb_state
   \<Rightarrow> (QueryContextResponse list \<times> ConnectionInfo \<times> 'w cb_state) cpp option" where
  "forward_queries b format [] responseV ci st = Some (Ret (responseV, ci, st))"
| "forward_queries b format (fq # fqV) responseV ci st =
     (if fq_contextProvider fq = [] then forward_queries b format fqV responseV ci st
      else served_bind (queryForward b ci fq format st)
             (\<lambda>(qP, ci1, st1). forward_queries b format fqV (responseV @ [qP]) ci1 st1))"

definition counting :: "ConnectionInfo \<Rightarrow> bool" where
  "counting ci \<longleftrightarrow> ci_apiVersion ci = ''v2'' \<and> uriParam ci ''count'' = ''true'' \<or> ci_apiVersion ci = ''v1'' \<and> uriParam ci ''details'' = ''on''"

text \<open>The header with the count; its variable has no value when the backend failed.\<close>

definition add_count :: "int option \<Rightarrow> ConnectionInfo \<Rightarrow> ConnectionInfo cpp" where
  "add_count countP ci =
     (if ci_apiVersion ci = ''v2'' \<and> counting ci
      then case countP of None \<Rightarrow> UB
           | Some n \<Rightarrow> Ret (ci\<lparr>ci_httpHeader := ci_httpHeader ci @ [(''X-Total-Count'', nat_str (nat (n mod 2 ^ 64)))]\<rparr>)
      else Ret ci)"

definition postQueryContext :: "'w backend \<Rightarrow> 'w cb_state treat" where
  "postQueryContext b ci components compV pd st =
     (let qcr = pd_qcr pd; released = pd\<lparr>pd_qcr := qcr\<lparr>qcr_entityIdVector := [], qcr_scopeVector := []\<rparr>\<rparr>
      in served_bind (mongoQueryContext (bd_env b) (bd_entry b) (bd_clk b (cb_world st)) qcr (ci_tenant ci) (ci_servicePathV ci)
             (uriParam ci URI_PARAM_PAGINATION_OFFSET) (uriParam ci URI_PARAM_PAGINATION_LIMIT) (counting ci)
             (bd_later b (cb_world st)) (cb_sem st) (cb_world st))
           (\<lambda>(qcrs, countP, s1).
              let st1 = st\<lparr>cb_sem := s1\<rparr>
              in served_bind (Some (add_count countP (ci\<lparr>ci_httpStatusCode := SccOk\<rparr>))) (\<lambda>ci1.
                   if \<not> query_forwardsPending (qrs_contextElementResponseVector qcrs)
                   then Some (Ret (QueryContextResponse_render qcrs ci1 [], ci1, released\<lparr>pd_qcrs := QueryContextResponse_rendered qcrs\<rparr>, st1))
                   else let (localV, requestV) = query_sort (qcr_attributeList qcr) (qrs_contextElementResponseVector qcrs);
                            responseV = (if localV \<noteq> [] then [QueryContextResponse_new\<lparr>qrs_contextElementResponseVector := localV\<rparr>] else [])
                        in served_bind (forward_queries b (QueryContextRequestVector_format requestV)
                                 (take (bd_cprForwardLimit b) (qrv_vec requestV)) responseV ci1 st1)
                             (\<lambda>(responseV1, ci2, st2).
                                let (answer, responseV2) = QueryContextResponseVector_render responseV1 ci2
                                       (strcaseeq ''on'' (uriParam ci2 URI_PARAM_PAGINATION_DETAILS)) (sc_details (qrs_errorCode qcrs))
                                in Some (Ret (answer, ci2, released\<lparr>pd_qcrs := QueryContextResponseVector_populate responseV2\<rparr>, st2))))))"

section \<open>What the response holds\<close>

definition query_attrs :: "ContextElementResponse list \<Rightarrow> ((string \<times> string \<times> bool) \<times> ContextAttribute) multiset" where
  "query_attrs cerV = mset (concat (map (\<lambda>cer. map (Pair (merge_key (entity_of cer))) (attrs_of cer)) cerV))"

lemma query_attrs_simps [simp]:
  "query_attrs [] = {#}" "query_attrs (a @ b) = query_attrs a + query_attrs b"
  "query_attrs (cer # cerV) = mset (map (Pair (merge_key (entity_of cer))) (attrs_of cer)) + query_attrs cerV"
  by (simp_all add: query_attrs_def)

abbreviation copied_attrs :: "ContextElementResponse \<Rightarrow> ((string \<times> string \<times> bool) \<times> ContextAttribute) multiset" where
  "copied_attrs cer \<equiv> mset (map (\<lambda>ca. (merge_key (entity_of cer), ContextAttribute_copy ca)) (attrs_of cer))"

text \<open>Elements without an error; the others are left out.\<close>

definition answered :: "ContextElementResponse \<Rightarrow> bool" where
  "answered cer \<longleftrightarrow> sc_code (cer_statusCode cer) = SccOk \<or> sc_code (cer_statusCode cer) = SccNone"

lemma query_attrs_update:
  assumes "k < length cerV" and "mset (map (Pair (merge_key (entity_of c))) (attrs_of c)) =
    mset (map (Pair (merge_key (entity_of (cerV ! k)))) (attrs_of (cerV ! k))) + x"
  shows "query_attrs (cerV[k := c]) = query_attrs cerV + x"
  unfolding query_attrs_def using assms by (intro mset_concat_update) simp_all

lemma lookup_None:
  "ContextElementResponseVector_lookup cerV en SccNone = None \<longleftrightarrow> merge_key en \<notin> (\<lambda>cer. merge_key (entity_of cer)) ` set cerV"
  by (induction cerV) (auto simp: EntityId_equal_key)

lemma ContextElementResponse_copy_simps [simp]:
  "entity_of (ContextElementResponse_copy cer) = entity_of cer"
  "attrs_of (ContextElementResponse_copy cer) = map ContextAttribute_copy (attrs_of cer)"
  by (simp_all add: ContextElementResponse_copy_def ContextElement_copy_def ContextAttributeVector_fill_def)

lemma collect_cer_attrs:
  "query_attrs (collect_cer cerV cer) = query_attrs cerV + (if answered cer then copied_attrs cer else {#})"
proof (cases "ContextElementResponseVector_lookup cerV (entity_of cer) SccNone")
  case None
  then show ?thesis by (auto simp: collect_cer_def answered_def comp_def)
next
  case (Some k)
  from lookup_Some [OF Some] have "k < length cerV" "merge_key (entity_of (cerV ! k)) = merge_key (entity_of cer)" by simp_all
  then show ?thesis
    using Some by (auto simp: collect_cer_def answered_def query_attrs_update comp_def)
qed

text \<open>At most one element without an error per entity.\<close>

definition one_per_entity :: "ContextElementResponse list \<Rightarrow> bool" where
  "one_per_entity cerV \<longleftrightarrow> distinct (map (\<lambda>cer. merge_key (entity_of cer)) (filter (\<lambda>cer. sc_code (cer_statusCode cer) = SccOk) cerV))"

lemma filter_map_update:
  "k < length xs \<Longrightarrow> P y = P (xs ! k) \<Longrightarrow> f y = f (xs ! k) \<Longrightarrow> map f (filter P (xs[k := y])) = map f (filter P xs)"
  by (induction xs arbitrary: k) (auto split: nat.splits)

lemma collect_cer_one: "one_per_entity cerV \<Longrightarrow> one_per_entity (collect_cer cerV cer)"
proof (cases "ContextElementResponseVector_lookup cerV (entity_of cer) SccNone")
  case None
  assume "one_per_entity cerV"
  moreover have "merge_key (entity_of cer) \<notin> (\<lambda>cer. merge_key (entity_of cer)) ` set cerV"
    using None lookup_None by blast
  ultimately show ?thesis using None by (auto simp: collect_cer_def one_per_entity_def)
next
  case (Some k)
  assume "one_per_entity cerV"
  moreover have "k < length cerV" using lookup_Some [OF Some] by simp
  ultimately show ?thesis using Some by (simp add: collect_cer_def one_per_entity_def filter_map_update)
qed

lemma foldl_collect_cer:
  "query_attrs (foldl collect_cer cerV xs) = query_attrs cerV + (\<Sum>cer \<leftarrow> filter answered xs. copied_attrs cer) \<and>
   (one_per_entity cerV \<longrightarrow> one_per_entity (foldl collect_cer cerV xs))"
  by (induction xs arbitrary: cerV) (auto simp: collect_cer_attrs collect_cer_one ac_simps)

lemma one_per_entity_blank:
  "one_per_entity cerV \<Longrightarrow> one_per_entity (cerV @ [ContextElementResponse_new\<lparr>cer_statusCode := StatusCode_fill SccContextElementNotFound []\<rparr>])"
  by (simp add: one_per_entity_def StatusCode_fill_def)

lemma collect_response_spec:
  "query_attrs (collect_response cerV q) = query_attrs cerV + (\<Sum>cer \<leftarrow> filter answered (qrs_contextElementResponseVector q). copied_attrs cer) \<and>
   (one_per_entity cerV \<longrightarrow> one_per_entity (collect_response cerV q))"
  using foldl_collect_cer one_per_entity_blank
  by (auto simp: collect_response_def ContextElementResponse_new_def ContextElement_new_def)

lemma foldl_collect_response:
  "query_attrs (foldl collect_response cerV vec) = query_attrs cerV +
     (\<Sum>q \<leftarrow> vec. \<Sum>cer \<leftarrow> filter answered (qrs_contextElementResponseVector q). copied_attrs cer) \<and>
   (one_per_entity cerV \<longrightarrow> one_per_entity (foldl collect_response cerV vec))"
  by (induction vec arbitrary: cerV) (auto simp: collect_response_spec ac_simps)

section \<open>What the providers are asked for\<close>

text \<open>Some request asks the provider for the attribute of the entity.\<close>

definition asked :: "string \<Rightarrow> EntityId \<Rightarrow> string \<Rightarrow> forward_query list \<Rightarrow> bool" where
  "asked p en name fqV \<longleftrightarrow>
     (\<exists>fq \<in> set fqV. fq_contextProvider fq = p \<and> name \<in> set (qcr_attributeList (fq_request fq)) \<and>
        EntityId_key en \<in> EntityId_key ` set (qcr_entityIdVector (fq_request fq)))"

text \<open>Some request asks the provider for the entity, with the attributes of the client and perhaps more.\<close>

definition asked_entity :: "string \<Rightarrow> EntityId \<Rightarrow> string list \<Rightarrow> forward_query list \<Rightarrow> bool" where
  "asked_entity p en attributeList fqV \<longleftrightarrow>
     (\<exists>fq \<in> set fqV. fq_contextProvider fq = p \<and> prefix attributeList (qcr_attributeList (fq_request fq)) \<and>
        EntityId_key en \<in> EntityId_key ` set (qcr_entityIdVector (fq_request fq)))"

text \<open>While requests are gathered they stay, with the same provider, and only get longer.\<close>

definition fq_extends :: "forward_query \<Rightarrow> forward_query \<Rightarrow> bool" where
  "fq_extends a b \<longleftrightarrow> fq_contextProvider b = fq_contextProvider a \<and>
     prefix (qcr_attributeList (fq_request a)) (qcr_attributeList (fq_request b)) \<and>
     EntityId_key ` set (qcr_entityIdVector (fq_request a)) \<subseteq> EntityId_key ` set (qcr_entityIdVector (fq_request b))"

definition requests_extend :: "forward_query list \<Rightarrow> forward_query list \<Rightarrow> bool" where
  "requests_extend a b \<longleftrightarrow> (\<forall>fq \<in> set a. \<exists>fq' \<in> set b. fq_extends fq fq')"

lemma fq_extends_refl [simp]: "fq_extends a a"
  by (simp add: fq_extends_def)

lemma fq_extends_trans: "fq_extends a b \<Longrightarrow> fq_extends b c \<Longrightarrow> fq_extends a c"
  by (auto simp: fq_extends_def intro: prefix_order.trans)

lemma requests_extend_refl [simp]: "requests_extend a a"
  unfolding requests_extend_def using fq_extends_refl by blast

lemma requests_extend_append [simp]: "requests_extend a (a @ b)"
  unfolding requests_extend_def set_append using fq_extends_refl by blast

lemma requests_extend_trans [trans]: "requests_extend a b \<Longrightarrow> requests_extend b c \<Longrightarrow> requests_extend a c"
  unfolding requests_extend_def by (meson fq_extends_trans)

lemma asked_extend: "asked p en n a \<Longrightarrow> requests_extend a b \<Longrightarrow> asked p en n b"
  unfolding asked_def requests_extend_def fq_extends_def by (metis set_mono_prefix subsetD)

lemma asked_entity_extend: "asked_entity p en as a \<Longrightarrow> requests_extend a b \<Longrightarrow> asked_entity p en as b"
  unfolding asked_entity_def requests_extend_def fq_extends_def by (metis prefix_order.trans subsetD)

lemma query_lookup_Some:
  "query_lookup fqV p en = Some k \<Longrightarrow> k < length fqV \<and> fq_contextProvider (fqV ! k) = p"
  by (induction fqV arbitrary: k) (auto split: if_splits)

lemma push_back_if_absent_simps [simp]:
  "set (AttributeList_push_back_if_absent as n) = insert n (set as)"
  "EntityId_key ` set (EntityIdVector_push_back_if_absent es en) = insert (EntityId_key en) (EntityId_key ` set es)"
  by (auto simp: AttributeList_push_back_if_absent_def AttributeList_lookup_iff EntityIdVector_push_back_if_absent_def
      EntityIdVector_lookup_None) (auto simp: EntityId_key_def)

lemma request_push_asked:
  assumes "ca_name ca \<noteq> []"
  shows "asked (pa_string (ca_providingApplication ca)) en (ca_name ca) (qrv_vec (request_push en ca requestV))"
proof (cases "query_lookup (qrv_vec requestV) (pa_string (ca_providingApplication ca)) en")
  case None
  then show ?thesis using assms by (simp add: request_push_def Let_def asked_def QueryContextRequest_for_def)
next
  case (Some k)
  with query_lookup_Some [OF Some] show ?thesis
    by (auto simp: request_push_def Let_def asked_def intro!: bexI [OF _ set_update_memI])
qed

lemma requests_extend_update:
  assumes "k < length a" and "fq_extends (a ! k) y"
  shows "requests_extend a (a[k := y])"
proof -
  have "\<exists>fq' \<in> set (a[k := y]). fq_extends (a ! i) fq'" if "i < length a" for i
    using assms that by (cases "i = k") (force simp: in_set_conv_nth intro: exI [of _ i])+
  then show ?thesis by (metis requests_extend_def in_set_conv_nth)
qed

lemma request_push_extend: "requests_extend (qrv_vec requestV) (qrv_vec (request_push en ca requestV))"
proof (cases "query_lookup (qrv_vec requestV) (pa_string (ca_providingApplication ca)) en")
  case None
  then show ?thesis by (simp add: request_push_def Let_def)
next
  case (Some k)
  have "prefix as (AttributeList_push_back_if_absent as n)" for as n by (simp add: AttributeList_push_back_if_absent_def)
  then show ?thesis
    using Some query_lookup_Some [OF Some]
    by (auto simp: request_push_def Let_def fq_extends_def simp del: list_update_id intro!: requests_extend_update)
qed

lemma request_push_providers:
  "fq_contextProvider ` set (qrv_vec (request_push en ca requestV)) \<subseteq>
     insert (pa_string (ca_providingApplication ca)) (fq_contextProvider ` set (qrv_vec requestV))"
proof (cases "query_lookup (qrv_vec requestV) (pa_string (ca_providingApplication ca)) en")
  case None
  then show ?thesis by (auto simp: request_push_def Let_def QueryContextRequest_for_def)
next
  case (Some k)
  then show ?thesis using query_lookup_Some [OF Some]
    by (auto simp: request_push_def Let_def dest!: set_update_subset_insert [THEN subsetD])
qed

lemma local_push_attrs: "query_attrs (local_push en ca cerV) = query_attrs cerV + {#(merge_key en, ContextAttribute_copy ca)#}"
proof (cases "ContextElementResponseVector_lookup cerV en SccNone")
  case None
  then show ?thesis by (simp add: local_push_def ContextElementResponse_of_def)
next
  case (Some k)
  from lookup_Some [OF Some] Some show ?thesis by (simp add: local_push_def query_attrs_update cer_push_attr_def)
qed

text \<open>The pairs held here, and those held by providers.\<close>

definition is_local :: "ContextAttribute \<Rightarrow> bool" where
  "is_local ca \<longleftrightarrow> ca_found ca \<and> pa_string (ca_providingApplication ca) = []"

text \<open>The providers that the answer of the backend names for an attribute.\<close>

definition attr_providers :: "ContextAttribute list \<Rightarrow> string set" where
  "attr_providers caV = (\<lambda>ca. pa_string (ca_providingApplication ca)) ` set caV - {[]}"

lemma sort_attrs_spec:
  assumes "foldl (query_sort_attr en) (localV, requestV) caV = (localV', requestV')"
  shows "query_attrs localV' = query_attrs localV + mset (map (\<lambda>ca. (merge_key en, ContextAttribute_copy ca)) (filter is_local caV)) \<and>
      requests_extend (qrv_vec requestV) (qrv_vec requestV') \<and>
      fq_contextProvider ` set (qrv_vec requestV') \<subseteq> fq_contextProvider ` set (qrv_vec requestV) \<union> attr_providers caV \<and>
      (\<forall>ca \<in> set caV. pa_string (ca_providingApplication ca) \<noteq> [] \<longrightarrow> ca_name ca \<noteq> [] \<longrightarrow>
         asked (pa_string (ca_providingApplication ca)) en (ca_name ca) (qrv_vec requestV'))"
  using assms
proof (induction caV arbitrary: localV requestV)
  case Nil
  then show ?case by (auto simp: attr_providers_def)
next
  case (Cons ca caV)
  show ?case
  proof (cases "pa_string (ca_providingApplication ca) = []")
    case True
    then have s: "query_sort_attr en (localV, requestV) ca = (if ca_found ca then local_push en ca localV else localV, requestV)"
      by (simp add: query_sort_attr_def)
    have "attr_providers (ca # caV) = attr_providers caV" using True by (auto simp: attr_providers_def)
    then show ?thesis using Cons.IH [of "if ca_found ca then local_push en ca localV else localV" requestV] Cons.prems True
      by (auto simp: s is_local_def local_push_attrs)
  next
    case False
    let ?r = "request_push en ca requestV"
    have s: "query_sort_attr en (localV, requestV) ca = (localV, ?r)"
      using False by (simp add: query_sort_attr_def)
    have ih: "query_attrs localV' = query_attrs localV + mset (map (\<lambda>ca. (merge_key en, ContextAttribute_copy ca)) (filter is_local caV))"
      "requests_extend (qrv_vec ?r) (qrv_vec requestV')"
      "fq_contextProvider ` set (qrv_vec requestV') \<subseteq> fq_contextProvider ` set (qrv_vec ?r) \<union> attr_providers caV"
      "\<forall>ca \<in> set caV. pa_string (ca_providingApplication ca) \<noteq> [] \<longrightarrow> ca_name ca \<noteq> [] \<longrightarrow>
         asked (pa_string (ca_providingApplication ca)) en (ca_name ca) (qrv_vec requestV')"
      using Cons.IH [of localV ?r] Cons.prems s by simp_all
    have "requests_extend (qrv_vec requestV) (qrv_vec requestV')"
      using requests_extend_trans [OF request_push_extend ih(2)] .
    moreover have "attr_providers (ca # caV) = insert (pa_string (ca_providingApplication ca)) (attr_providers caV)"
      using False by (auto simp: attr_providers_def)
    then have "fq_contextProvider ` set (qrv_vec requestV') \<subseteq> fq_contextProvider ` set (qrv_vec requestV) \<union> attr_providers (ca # caV)"
      using ih(3) request_push_providers [of en ca requestV] by blast
    moreover have "ca_name ca \<noteq> [] \<Longrightarrow> asked (pa_string (ca_providingApplication ca)) en (ca_name ca) (qrv_vec requestV')"
      using request_push_asked asked_extend ih(2) by blast
    ultimately show ?thesis using ih(1,4) False by (simp add: is_local_def)
  qed
qed

text \<open>The providers of the whole entities of an answer.\<close>

definition entity_providers :: "ContextElementResponse list \<Rightarrow> (EntityId \<times> string) list" where
  "entity_providers cerV =
     concat (map (\<lambda>cer. map (\<lambda>pa. (entity_of cer, pa_string pa)) (ce_providingApplicationList (cer_contextElement cer))) cerV)"

lemma subset_chain: "r1 \<subseteq> r \<union> e' \<union> a1 \<Longrightarrow> r2 \<subseteq> r1 \<union> a2 \<union> e \<Longrightarrow> e \<subseteq> e' \<Longrightarrow> r2 \<subseteq> r \<union> (a1 \<union> a2) \<union> e'"
  by blast

lemma query_sort_spec:
  assumes "foldl (query_sort_cer attributeList) (localV, requestV) cerV = (localV', requestV')"
  shows "query_attrs localV' = query_attrs localV +
      mset (map (\<lambda>(en, ca). (merge_key en, ContextAttribute_copy ca)) (filter (\<lambda>(en, ca). is_local ca) (answer_attrs cerV))) \<and>
    requests_extend (qrv_vec requestV) (qrv_vec requestV') \<and>
    (\<forall>(en, ca) \<in> set (answer_attrs cerV). pa_string (ca_providingApplication ca) \<noteq> [] \<longrightarrow> ca_name ca \<noteq> [] \<longrightarrow>
      asked (pa_string (ca_providingApplication ca)) en (ca_name ca) (qrv_vec requestV')) \<and>
    (\<forall>(en, p) \<in> set (entity_providers cerV). asked_entity p en attributeList (qrv_vec requestV')) \<and>
    fq_contextProvider ` set (qrv_vec requestV') \<subseteq>
      fq_contextProvider ` set (qrv_vec requestV) \<union> attr_providers (map snd (answer_attrs cerV)) \<union> snd ` set (entity_providers cerV)"
  using assms
proof (induction cerV arbitrary: localV requestV)
  case Nil
  then show ?case by (simp add: entity_providers_def)
next
  case (Cons cer cerV)
  let ?new = "map (\<lambda>pa. QueryContextRequest_for (pa_string pa) (entity_of cer) attributeList) (ce_providingApplicationList (cer_contextElement cer))"
  let ?r = "requestV\<lparr>qrv_vec := qrv_vec requestV @ ?new\<rparr>"
  obtain l1 r1 where one: "foldl (query_sort_attr (entity_of cer)) (localV, ?r) (attrs_of cer) = (l1, r1)" by fastforce
  have "query_sort_cer attributeList (localV, requestV) cer = (l1, r1)"
    using one by (simp add: query_sort_cer_def Let_def)
  then have rest: "foldl (query_sort_cer attributeList) (l1, r1) cerV = (localV', requestV')"
    using Cons.prems by simp
  note here = sort_attrs_spec [OF one] and ih = Cons.IH [OF rest]
  have ext: "requests_extend (qrv_vec ?r) (qrv_vec r1)" "requests_extend (qrv_vec r1) (qrv_vec requestV')" using here ih by blast+
  have "requests_extend (qrv_vec requestV) (qrv_vec ?r)" by simp
  then have e: "requests_extend (qrv_vec requestV) (qrv_vec requestV')" using ext requests_extend_trans by blast
  have flt: "filter (\<lambda>(en, ca). is_local ca) (map (Pair (entity_of cer)) caV) = map (Pair (entity_of cer)) (filter is_local caV)" for caV
    by (induction caV) auto
  have l: "query_attrs localV' = query_attrs localV +
      mset (map (\<lambda>(en, ca). (merge_key en, ContextAttribute_copy ca)) (filter (\<lambda>(en, ca). is_local ca) (answer_attrs (cer # cerV))))"
    using here ih by (simp add: flt comp_def)
  have a: "\<forall>(en, ca) \<in> set (answer_attrs (cer # cerV)). pa_string (ca_providingApplication ca) \<noteq> [] \<longrightarrow> ca_name ca \<noteq> [] \<longrightarrow>
      asked (pa_string (ca_providingApplication ca)) en (ca_name ca) (qrv_vec requestV')"
    using here ih asked_extend [OF _ ext(2)] by auto
  have "asked_entity (pa_string pa) (entity_of cer) attributeList (qrv_vec ?r)"
    if "pa \<in> set (ce_providingApplicationList (cer_contextElement cer))" for pa
    unfolding asked_entity_def
    by (rule bexI [of _ "QueryContextRequest_for (pa_string pa) (entity_of cer) attributeList"])
       (use that in \<open>auto simp: QueryContextRequest_for_def\<close>)
  then have here_asked: "asked_entity (pa_string pa) (entity_of cer) attributeList (qrv_vec requestV')"
    if "pa \<in> set (ce_providingApplicationList (cer_contextElement cer))" for pa
    using that asked_entity_extend requests_extend_trans [OF ext] by blast
  have w: "\<forall>(en, p) \<in> set (entity_providers (cer # cerV)). asked_entity p en attributeList (qrv_vec requestV')"
    using ih here_asked by (auto simp: entity_providers_def)
  let ?P = "\<lambda>r. fq_contextProvider ` set (qrv_vec r)"
  have new: "fq_contextProvider ` set ?new \<subseteq> snd ` set (entity_providers (cer # cerV))"
    by (force simp: entity_providers_def QueryContextRequest_for_def)
  have ap: "attr_providers (map snd (answer_attrs (cer # cerV))) = attr_providers (attrs_of cer) \<union> attr_providers (map snd (answer_attrs cerV))"
    by (auto simp: attr_providers_def image_Un image_image)
  have ep: "snd ` set (entity_providers cerV) \<subseteq> snd ` set (entity_providers (cer # cerV))" by (auto simp: entity_providers_def)
  have "?P ?r = ?P requestV \<union> fq_contextProvider ` set ?new" by (simp add: image_Un)
  then have "?P r1 \<subseteq> ?P requestV \<union> snd ` set (entity_providers (cer # cerV)) \<union> attr_providers (attrs_of cer)"
    using here new by blast
  moreover have "?P requestV' \<subseteq> ?P r1 \<union> attr_providers (map snd (answer_attrs cerV)) \<union> snd ` set (entity_providers cerV)"
    using ih by blast
  ultimately have "?P requestV' \<subseteq>
      ?P requestV \<union> attr_providers (map snd (answer_attrs (cer # cerV))) \<union> snd ` set (entity_providers (cer # cerV))"
    unfolding ap using ep by (rule subset_chain)
  with l e a w show ?case by blast
qed

section \<open>The forwards end\<close>

text \<open>
  The forwards as a relation, for each request in turn: one without a provider is passed over; one whose
  provider has a bad URL, or whose XML is not found, is not sent and answered with an error; any other one
  is sent, rendered in the common format, in one POST to the provider, and its answer is that of
  \<open>queryForward\<close>.
\<close>

definition query_payload :: "forward_query \<Rightarrow> Format \<Rightarrow> string" where
  "query_payload fq format = QueryContextRequest_render (fq_request fq) [] 0 format []"

definition sendable :: "forward_query \<Rightarrow> Format \<Rightarrow> bool" where
  "sendable fq format \<longleftrightarrow> (case parseUrl (fq_contextProvider fq) url_out of Ret (ok, u) \<Rightarrow> ok | UB \<Rightarrow> False) \<and>
     \<not> (format = XML \<and> xmlPayloadClean (query_payload fq format) ''<queryContextRequest>'' = None)"

definition provider_url :: "forward_query \<Rightarrow> url" where
  "provider_url fq = (case parseUrl (fq_contextProvider fq) url_out of Ret (ok, u) \<Rightarrow> u | UB \<Rightarrow> url_out)"

inductive queries_sent ::
  "'w backend \<Rightarrow> Format \<Rightarrow> forward_query list \<Rightarrow> ConnectionInfo \<Rightarrow> 'w cb_state \<Rightarrow> QueryContextResponse list \<Rightarrow> ConnectionInfo \<Rightarrow> 'w cb_state \<Rightarrow> bool"
  for b format where
  sent_Nil: "queries_sent b format [] ci st [] ci st"
| sent_none: "fq_contextProvider fq = [] \<Longrightarrow> queries_sent b format fqV ci st qV ci2 st2 \<Longrightarrow> queries_sent b format (fq # fqV) ci st qV ci2 st2"
| sent_not: "fq_contextProvider fq \<noteq> [] \<Longrightarrow> \<not> sendable fq format \<Longrightarrow> queries_sent b format fqV ci st qV ci2 st2 \<Longrightarrow>
    queries_sent b format (fq # fqV) ci st (query_error [] # qV) ci2 st2"
| sent_one: "fq_contextProvider fq \<noteq> [] \<Longrightarrow> sendable fq format \<Longrightarrow>
    provider_send b (provider_args ci (provider_url fq) ''/queryContext'' format (query_payload fq format)) st = Some (out, st1) \<Longrightarrow>
    queryForward b ci fq format st = Some (Ret (q, ci1, st1)) \<Longrightarrow>
    queries_sent b format fqV ci1 st1 qV ci2 st2 \<Longrightarrow> queries_sent b format (fq # fqV) ci st (q # qV) ci2 st2"

lemma queryForward_not_sent:
  assumes "parseUrl (fq_contextProvider fq) url_out \<noteq> UB" and "\<not> sendable fq format"
  shows "queryForward b ci fq format st = Some (Ret (query_error [], ci, st))"
proof -
  obtain ok u where u: "parseUrl (fq_contextProvider fq) url_out = Ret (ok, u)"
    using assms(1) by (cases "parseUrl (fq_contextProvider fq) url_out") auto
  show ?thesis using assms(2) by (cases ok) (auto simp: queryForward_def sendable_def query_payload_def u Let_def)
qed

lemma queryForward_sent:
  assumes "curl_idle (cb_curl st)" and "http_calls_ok (bd_net b)" and "sendable fq format"
  obtains q ci' st' out where "queryForward b ci fq format st = Some (Ret (q, ci', st'))"
    and "provider_send b (provider_args ci (provider_url fq) ''/queryContext'' format (query_payload fq format)) st = Some (out, st')"
    and "curl_idle (cb_curl st')" and "cb_sem st' = cb_sem st"
proof -
  obtain u where u: "parseUrl (fq_contextProvider fq) url_out = Ret (True, u)"
    using assms(3) by (cases "parseUrl (fq_contextProvider fq) url_out") (auto simp: sendable_def)
  let ?payload = "query_payload fq format"
  have good: "(format = XML \<and> xmlPayloadClean ?payload ''<queryContextRequest>'' = None) \<longleftrightarrow> False"
    using assms(3) by (simp add: sendable_def)
  obtain out st1 where send: "provider_send b (provider_args ci u ''/queryContext'' format ?payload) st = Some (out, st1)"
    and idle: "curl_idle (cb_curl st1)" "cb_sem st1 = cb_sem st"
    using provider_send_ends [OF assms(1,2)] by blast
  have "\<exists>q ci'. queryForward b ci fq format st = Some (Ret (q, ci', st1))"
  proof (cases "clean_answer format out ''<queryContextResponse>''")
    case None
    then show ?thesis unfolding queryForward_def u Let_def query_payload_def [symmetric] good by (simp add: send)
  next
    case (Some answer)
    obtain s ci1 pd1 where "parse_answer b format answer ci ParseData_new RtQueryContextResponse ''queryContextResponse'' = (s, ci1, pd1)"
      by (rule prod_cases3)
    with Some show ?thesis unfolding queryForward_def u Let_def query_payload_def [symmetric] good by (simp add: send)
  qed
  moreover have "provider_url fq = u" by (simp add: provider_url_def u)
  ultimately show thesis using that send idle by blast
qed

lemma forward_queries_ends:
  assumes "curl_idle (cb_curl st)" and "http_calls_ok (bd_net b)"
    and "\<And>fq. fq \<in> set fqV \<Longrightarrow> parseUrl (fq_contextProvider fq) url_out \<noteq> UB"
  shows "\<exists>qV ci' st'. forward_queries b format fqV responseV ci st = Some (Ret (responseV @ qV, ci', st')) \<and>
    queries_sent b format fqV ci st qV ci' st' \<and> curl_idle (cb_curl st') \<and> cb_sem st' = cb_sem st"
  using assms
proof (induction fqV arbitrary: responseV ci st)
  case Nil
  then show ?case by (auto intro: queries_sent.sent_Nil)
next
  case (Cons fq fqV)
  have rest: "\<And>fq. fq \<in> set fqV \<Longrightarrow> parseUrl (fq_contextProvider fq) url_out \<noteq> UB" using Cons.prems(3) by simp
  have url: "parseUrl (fq_contextProvider fq) url_out \<noteq> UB" using Cons.prems(3) by simp
  consider (none) "fq_contextProvider fq = []" | (not) "fq_contextProvider fq \<noteq> []" "\<not> sendable fq format"
    | (send) "fq_contextProvider fq \<noteq> []" "sendable fq format" by blast
  then show ?case
  proof cases
    case none
    obtain qV ci' st' where "forward_queries b format fqV responseV ci st = Some (Ret (responseV @ qV, ci', st'))"
      "queries_sent b format fqV ci st qV ci' st'" "curl_idle (cb_curl st')" "cb_sem st' = cb_sem st"
      using Cons.IH [OF Cons.prems(1,2) rest] by blast
    then show ?thesis using none queries_sent.sent_none [of fq b format fqV ci st qV ci' st']
      by (intro exI [of _ qV] exI [of _ ci'] exI [of _ st']) simp
  next
    case not
    note f = queryForward_not_sent [OF url not(2), of b ci st]
    from Cons.IH [OF Cons.prems(1,2) rest, of "responseV @ [query_error []]" ci]
    obtain qV ci' st' where "forward_queries b format fqV (responseV @ [query_error []]) ci st = Some (Ret ((responseV @ [query_error []]) @ qV, ci', st'))"
      "queries_sent b format fqV ci st qV ci' st'" "curl_idle (cb_curl st')" "cb_sem st' = cb_sem st" by blast
    then show ?thesis using not f queries_sent.sent_not [of fq format b fqV ci st qV ci' st']
      by (intro exI [of _ "query_error [] # qV"] exI [of _ ci'] exI [of _ st']) simp
  next
    case send
    obtain q ci1 st1 out where f: "queryForward b ci fq format st = Some (Ret (q, ci1, st1))"
      "provider_send b (provider_args ci (provider_url fq) ''/queryContext'' format (query_payload fq format)) st = Some (out, st1)"
      "curl_idle (cb_curl st1)" "cb_sem st1 = cb_sem st"
      using queryForward_sent [OF Cons.prems(1,2) send(2)] by blast
    from Cons.IH [OF f(3) Cons.prems(2) rest, of "responseV @ [q]" ci1]
    obtain qV ci' st' where "forward_queries b format fqV (responseV @ [q]) ci1 st1 = Some (Ret ((responseV @ [q]) @ qV, ci', st'))"
      "queries_sent b format fqV ci1 st1 qV ci' st'" "curl_idle (cb_curl st')" "cb_sem st' = cb_sem st1" by blast
    then show ?thesis using send f queries_sent.sent_one [OF send f(2,1), of fqV qV ci' st']
      by (intro exI [of _ "q # qV"] exI [of _ ci'] exI [of _ st']) simp
  qed
qed

section \<open>Claims\<close>

text \<open>C17: forwarding a query ends. Of the backend's answer the attributes held here are kept, each once. Every
  named attribute that a provider holds is asked for in a request to that provider that names the attribute
  and the entity; every provider of a whole entity gets a request for that entity whose list starts
  with the client's attributes; and no one else is asked. Such a list may have become longer by attributes that the
  same provider holds on their own, which narrows the request when the client asked for all
  (\<open>query_for_all_narrowed\<close> below). With the curl handles at rest and provider URLs that can be parsed, the
  requests, up to the forwarding limit, are sent in turn: each in one POST of the rendered request to its
  provider, except those with an invalid URL, and their answers follow the local one; the requests beyond the
  limit are dropped.\<close>

theorem query_forwarding:
  assumes "query_sort attributeList cerV = (localV, requestV)"
    and "curl_idle (cb_curl st)" and "http_calls_ok (bd_net b)"
    and "\<forall>fq \<in> set (qrv_vec requestV). parseUrl (fq_contextProvider fq) url_out \<noteq> UB"
  shows "query_attrs localV =
      mset (map (\<lambda>(en, ca). (merge_key en, ContextAttribute_copy ca)) (filter (\<lambda>(en, ca). is_local ca) (answer_attrs cerV))) \<and>
    (\<forall>(en, ca) \<in> set (answer_attrs cerV). pa_string (ca_providingApplication ca) \<noteq> [] \<and> ca_name ca \<noteq> [] \<longrightarrow>
       asked (pa_string (ca_providingApplication ca)) en (ca_name ca) (qrv_vec requestV)) \<and>
    (\<forall>(en, p) \<in> set (entity_providers cerV). asked_entity p en attributeList (qrv_vec requestV)) \<and>
    fq_contextProvider ` set (qrv_vec requestV) \<subseteq>
      attr_providers (map snd (answer_attrs cerV)) \<union> snd ` set (entity_providers cerV) \<and>
    (\<exists>qV ci' st'. forward_queries b format (take (bd_cprForwardLimit b) (qrv_vec requestV)) responseV ci st =
         Some (Ret (responseV @ qV, ci', st')) \<and>
       queries_sent b format (take (bd_cprForwardLimit b) (qrv_vec requestV)) ci st qV ci' st' \<and>
       curl_idle (cb_curl st') \<and> cb_sem st' = cb_sem st)"
proof -
  note sorted = query_sort_spec [OF assms(1) [unfolded query_sort_def]]
  have "\<And>fq. fq \<in> set (take (bd_cprForwardLimit b) (qrv_vec requestV)) \<Longrightarrow> parseUrl (fq_contextProvider fq) url_out \<noteq> UB"
    using assms(4) by (meson in_set_takeD)
  from forward_queries_ends [OF assms(2,3) this] show ?thesis using sorted by auto
qed

text \<open>C18: The one response made of all: it holds a copy of each attribute of each element that was answered without
  an error, and nothing else, with one element per entity. Its code is 200 as soon as there are two
  responses or one with an element, or if details were asked for: when two providers fail, the answer is an empty
  response with the code 200, while a single failure is answered with 404.\<close>

theorem query_responses_merged:
  "let response = fst (QueryContextResponseVector_response vec details detailsString)
   in query_attrs (qrs_contextElementResponseVector response) =
        (\<Sum>q \<leftarrow> vec. \<Sum>cer \<leftarrow> filter answered (qrs_contextElementResponseVector q). copied_attrs cer) \<and>
      one_per_entity (qrs_contextElementResponseVector response) \<and>
      sc_code (qrs_errorCode response) =
        (if details \<or> 2 \<le> length vec \<or> list_ex (\<lambda>q. qrs_contextElementResponseVector q \<noteq> []) vec
         then SccOk else SccContextElementNotFound)"
proof -
  have none: "one_per_entity []" by (simp add: one_per_entity_def)
  consider "vec = []" | q where "vec = [q]" | q q' r where "vec = q # q' # r" by (metis list.exhaust)
  then show ?thesis
  proof cases
    case 1
    then show ?thesis using none by (simp add: QueryContextResponseVector_response_def Let_def StatusCode_fill_def)
  next
    case (2 q)
    show ?thesis
    proof (cases "qrs_contextElementResponseVector q = []")
      case True
      then show ?thesis
        using 2 none by (simp add: QueryContextResponseVector_response_def Let_def StatusCode_fill_def collect_response_def)
    next
      case False
      then show ?thesis using 2 none foldl_collect_response [of "[]" "[q]"]
        by (simp add: QueryContextResponseVector_response_def Let_def StatusCode_fill_def)
    qed
  next
    case (3 q q' r)
    then show ?thesis using none foldl_collect_response [of "[]" vec]
      by (simp add: QueryContextResponseVector_response_def Let_def StatusCode_fill_def)
  qed
qed

text \<open>A query for all attributes can be narrowed on its way. When a provider is registered for an entity and, in
  another registration, for an attribute of it, the request to that provider is the one made for the
  entity, to whose empty list of attributes the name is added: the provider is asked for this attribute
  alone and not for the others it holds.\<close>

theorem query_for_all_narrowed:
  assumes "ce_providingApplicationList (cer_contextElement cer) = [pa]" and "attrs_of cer = [ca]"
    and "pa_string (ca_providingApplication ca) = pa_string pa" and "pa_string pa \<noteq> []"
  shows "qrv_vec (snd (query_sort [] [cer])) = [QueryContextRequest_for (pa_string pa) (entity_of cer) [ca_name ca]]"
proof -
  have "query_lookup [QueryContextRequest_for (pa_string pa) (entity_of cer) []] (pa_string pa) (entity_of cer) = Some 0"
    by (simp add: QueryContextRequest_for_def entityIdMatch_def)
  moreover have "EntityIdVector_lookup [entity_of cer] (en_id (entity_of cer)) (en_type (entity_of cer)) (en_isPattern (entity_of cer)) \<noteq> None"
    by (simp add: EntityIdVector_lookup_None EntityId_key_def)
  ultimately show ?thesis
    using assms by (simp add: query_sort_def query_sort_cer_def query_sort_attr_def request_push_def Let_def
        AttributeList_push_back_if_absent_def EntityIdVector_push_back_if_absent_def) (simp add: QueryContextRequest_for_def)
qed

section \<open>A query whose providers are down\<close>

definition query_ca :: "string \<Rightarrow> string \<Rightarrow> ContextAttribute" where
  "query_ca name provider = (ContextAttribute_new name ''t'' ''1'' True)\<lparr>ca_providingApplication := \<lparr>pa_string = provider, pa_format = JSON\<rparr>\<rparr>"

definition query_answer0 :: "ContextElementResponse list" where
  "query_answer0 = [cer_of (EntityId_new ''E1'' ''T'' ''false'')
     [query_ca ''A'' [], query_ca ''B'' ''http://p:1026/v1'', query_ca ''C'' ''http://q:1026/v1''] (StatusCode_fill SccOk [])]"

definition query_answer1 :: ContextElementResponse where
  "query_answer1 = ContextElementResponse_new\<lparr>cer_contextElement := ContextElement_new
     \<lparr>ce_entityId := EntityId_new ''E1'' ''T'' ''false'', ce_contextAttributeVector := [query_ca ''B'' ''http://p:1026/v1''],
      ce_providingApplicationList := [\<lparr>pa_string = ''http://p:1026/v1'', pa_format = XML\<rparr>]\<rparr>\<rparr>"

lemma query_requests0: "map fq_contextProvider (qrv_vec (snd (query_sort [] query_answer0))) = [''http://p:1026/v1'', ''http://q:1026/v1'']"
  by code_simp

lemma query_provider0: "parseUrl ''http://q:1026/v1'' url_out \<noteq> UB"
  by code_simp

theorem query_forwarding_witness:
  "asked ''http://p:1026/v1'' (EntityId_new ''E1'' ''T'' ''false'') ''B'' (qrv_vec (snd (query_sort [] query_answer0))) \<and>
   (\<exists>qV ci' st'. forward_queries backend0 JSON (take (bd_cprForwardLimit backend0) (qrv_vec (snd (query_sort [] query_answer0)))) [] json_ci cb_state0 =
      Some (Ret (qV, ci', st')) \<and>
      queries_sent backend0 JSON (take (bd_cprForwardLimit backend0) (qrv_vec (snd (query_sort [] query_answer0)))) json_ci cb_state0 qV ci' st' \<and>
      curl_idle (cb_curl st'))"
proof -
  let ?vec = "qrv_vec (snd (query_sort [] query_answer0))"
  have ok: "\<forall>fq \<in> set ?vec. parseUrl (fq_contextProvider fq) url_out \<noteq> UB"
  proof
    fix fq assume "fq \<in> set ?vec"
    then have "fq_contextProvider fq \<in> set (map fq_contextProvider ?vec)" by simp
    then show "parseUrl (fq_contextProvider fq) url_out \<noteq> UB" unfolding query_requests0 using update_provider0 query_provider0 by auto
  qed
  have "(EntityId_new ''E1'' ''T'' ''false'', query_ca ''B'' ''http://p:1026/v1'') \<in> set (answer_attrs query_answer0)"
    by (simp add: query_answer0_def cer_of_def)
  moreover have "pa_string (ca_providingApplication (query_ca ''B'' ''http://p:1026/v1'')) = ''http://p:1026/v1''"
    "ca_name (query_ca ''B'' ''http://p:1026/v1'') = ''B''" by (simp_all add: query_ca_def ContextAttribute_new_def)
  ultimately show ?thesis
    using query_forwarding [OF prod.collapse [symmetric] down_ok(1,2) ok, of JSON "[]" json_ci] by fastforce
qed

theorem query_for_all_narrowed_witness:
  "qrv_vec (snd (query_sort [] [query_answer1])) = [QueryContextRequest_for ''http://p:1026/v1'' (EntityId_new ''E1'' ''T'' ''false'') [''B'']]"
  using query_for_all_narrowed [of query_answer1 "\<lparr>pa_string = ''http://p:1026/v1'', pa_format = XML\<rparr>" "query_ca ''B'' ''http://p:1026/v1''"]
  by (simp add: query_answer1_def query_ca_def ContextAttribute_new_def)

end
