(* ===== verification/Conv_Ops.thy ===== *)
theory Conv_Ops
  imports Forward_Query
begin

text \<open>
  The convenience operations of NGSI10, \<^verbatim>\<open>src/src/lib/serviceRoutines/\<close>: each makes an update or a query
  from the URL, the URI parameters and the payload, calls the standard routine and translates its answer. With
  them the types of \<^verbatim>\<open>src/src/lib/convenience/\<close> and the \<^verbatim>\<open>fill\<close> functions of
  \<^verbatim>\<open>ngsi10/UpdateContextRequest.cpp\<close>, \<^verbatim>\<open>ngsi10/QueryContextRequest.cpp\<close>, \<^verbatim>\<open>ngsi/ContextElementResponse.cpp\<close>
  and \<^verbatim>\<open>ngsi/StatusCode.cpp\<close>.
\<close>

section \<open>URL and URI parameters\<close>

datatype EntityTypeInfo = EntityTypeEmptyOrNotEmpty | EntityTypeEmpty | EntityTypeNotEmpty

abbreviation URI_PARAM_ENTITY_TYPE :: string where "URI_PARAM_ENTITY_TYPE \<equiv> SCOPE_VALUE_ENTITY_TYPE"

definition entityTypeInfo :: "ConnectionInfo \<Rightarrow> EntityTypeInfo" where
  "entityTypeInfo ci =
     (if uriParam ci URI_PARAM_NOT_EXIST = URI_PARAM_ENTITY_TYPE then EntityTypeEmpty
      else if uriParam ci URI_PARAM_EXIST = URI_PARAM_ENTITY_TYPE then EntityTypeNotEmpty
      else EntityTypeEmptyOrNotEmpty)"

text \<open>The type in the path against the URI parameters.\<close>

definition type_mismatch :: "ConnectionInfo \<Rightarrow> string \<Rightarrow> string option" where
  "type_mismatch ci entityType =
     (let fromParam = uriParam ci URI_PARAM_ENTITY_TYPE
      in if fromParam \<noteq> entityType \<and> fromParam \<noteq> [] then Some ''non-matching entity::types in URL'' else None)"

definition type_error :: "ConnectionInfo \<Rightarrow> string \<Rightarrow> string option" where
  "type_error ci entityType =
     (if entityTypeInfo ci = EntityTypeEmpty then Some ''entity::type cannot be empty for this request''
      else type_mismatch ci entityType)"

text \<open>A component of the path; reading past the vector is undefined.\<close>

abbreviation comp :: "string list \<Rightarrow> nat \<Rightarrow> (string \<Rightarrow> 'r cpp option) \<Rightarrow> 'r cpp option" where
  "comp compV i f \<equiv> served_bind (Some (vec_at compV i)) f"

section \<open>Requests\<close>

definition QueryContextRequest_fill :: "string \<Rightarrow> string \<Rightarrow> string \<Rightarrow> QueryContextRequest \<Rightarrow> QueryContextRequest" where
  "QueryContextRequest_fill entityId entityType attributeName q =
     q\<lparr>qcr_entityIdVector := qcr_entityIdVector q @ [EntityId_new entityId entityType ''true''],
       qcr_attributeList := (if attributeName \<noteq> [] then qcr_attributeList q @ [attributeName] else qcr_attributeList q)\<rparr>"

definition QueryContextRequest_fill_typed ::
  "string \<Rightarrow> string \<Rightarrow> string \<Rightarrow> EntityTypeInfo \<Rightarrow> string \<Rightarrow> QueryContextRequest \<Rightarrow> QueryContextRequest" where
  "QueryContextRequest_fill_typed entityId entityType isPattern typeInfo attributeName q =
     (let sco = (Scope_new SCOPE_FILTER_EXISTENCE SCOPE_VALUE_ENTITY_TYPE)
                  \<lparr>sco_oper := (if typeInfo = EntityTypeEmpty then SCOPE_OPERATOR_NOT else [])\<rparr>
      in q\<lparr>qcr_entityIdVector := qcr_entityIdVector q @ [EntityId_new entityId entityType isPattern],
           qcr_scopeVector := (if typeInfo = EntityTypeEmpty \<or> typeInfo = EntityTypeNotEmpty
                               then qcr_scopeVector q @ [sco] else qcr_scopeVector q),
           qcr_attributeList := (if attributeName \<noteq> [] then qcr_attributeList q @ [attributeName] else qcr_attributeList q)\<rparr>)"

definition UpdateContextRequest_fill_ucer ::
  "UpdateContextElementRequest \<Rightarrow> string \<Rightarrow> string \<Rightarrow> UpdateContextRequest \<Rightarrow> UpdateContextRequest" where
  "UpdateContextRequest_fill_ucer ucer entityId entityType upcr =
     \<lparr>upr_contextElementVector = upr_contextElementVector upcr @ [ContextElement_new
        \<lparr>ce_entityId := EntityId_new entityId entityType ''false'', ce_attributeDomainName := ucer_attributeDomainName ucer,
         ce_contextAttributeVector := ContextAttributeVector_fill [] (ucer_contextAttributeVector ucer),
         ce_domainMetadataVector := MetadataVector_fill [] (ucer_domainMetadataVector ucer)\<rparr>],
      upr_updateActionType = ''UPDATE''\<rparr>"

definition UpdateContextRequest_fill_acer ::
  "AppendContextElementRequest \<Rightarrow> string \<Rightarrow> string \<Rightarrow> UpdateContextRequest \<Rightarrow> UpdateContextRequest" where
  "UpdateContextRequest_fill_acer acer entityId entityType upcr =
     \<lparr>upr_contextElementVector = upr_contextElementVector upcr @ [ContextElement_new
        \<lparr>ce_entityId := EntityId_new entityId entityType ''false'', ce_attributeDomainName := acer_attributeDomainName acer,
         ce_contextAttributeVector := ContextAttributeVector_fill [] (acer_contextAttributeVector acer),
         ce_domainMetadataVector := MetadataVector_fill [] (acer_domainMetadataVector acer)\<rparr>],
      upr_updateActionType = ''APPEND''\<rparr>"

definition UpdateContextRequest_fill_names ::
  "string \<Rightarrow> string \<Rightarrow> string \<Rightarrow> string \<Rightarrow> string \<Rightarrow> string \<Rightarrow> UpdateContextRequest \<Rightarrow> UpdateContextRequest" where
  "UpdateContextRequest_fill_names entityId entityType isPattern attributeName metaID updateActionType upcr =
     (let ca = (ContextAttribute_new attributeName [] [] True)
                 \<lparr>ca_metadataVector := (if metaID \<noteq> [] then [Metadata_new ''ID'' [] metaID] else [])\<rparr>
      in \<lparr>upr_contextElementVector = upr_contextElementVector upcr @ [ContextElement_new
            \<lparr>ce_entityId := EntityId_new entityId entityType isPattern,
             ce_contextAttributeVector := (if attributeName \<noteq> [] then [ca] else [])\<rparr>],
          upr_updateActionType = updateActionType\<rparr>)"

definition UpdateContextRequest_fill_upcar ::
  "UpdateContextAttributeRequest \<Rightarrow> string \<Rightarrow> string \<Rightarrow> string \<Rightarrow> string \<Rightarrow> string \<Rightarrow> UpdateContextRequest \<Rightarrow> UpdateContextRequest" where
  "UpdateContextRequest_fill_upcar ucar entityId entityType attributeName metaID updateActionType upcr =
     (let ca = (case upcar_compoundValue ucar of
                  Some cv \<Rightarrow> (ContextAttribute_new attributeName (upcar_type ucar) [] False)\<lparr>ca_compoundValueP := Some (cv_clone cv)\<rparr>
                | None \<Rightarrow> ContextAttribute_new attributeName (upcar_type ucar) (upcar_contextValue ucar) True);
          md = MetadataVector_fill [] (upcar_metadataVector ucar);
          md1 = (if metaID \<noteq> [] \<and> MetadataVector_lookupByName md ''ID'' = None then md @ [Metadata_new ''ID'' [] metaID] else md)
      in \<lparr>upr_contextElementVector = upr_contextElementVector upcr @ [ContextElement_new
            \<lparr>ce_entityId := EntityId_new entityId entityType ''false'',
             ce_contextAttributeVector := [ca\<lparr>ca_metadataVector := md1\<rparr>]\<rparr>],
          upr_updateActionType = updateActionType\<rparr>)"

section \<open>Answers\<close>

definition StatusCode_of_update :: "UpdateContextResponse \<Rightarrow> StatusCode" where
  "StatusCode_of_update ucrs =
     (let ec = urs_errorCode ucrs
      in if sc_code ec \<noteq> SccOk \<and> sc_code ec \<noteq> SccNone then StatusCode_fill (sc_code ec) (sc_details ec)
         else case urs_contextElementResponseVector ucrs of
                cer # _ \<Rightarrow> StatusCode_fill (sc_code (cer_statusCode cer)) (sc_details (cer_statusCode cer))
              | [] \<Rightarrow> StatusCode_fill SccReceiverInternalError ''can't fill StatusCode from UpdateContextResponse'')"

record ContextAttributeResponse =
  car_contextAttributeVector :: "ContextAttribute list"
  car_statusCode :: StatusCode

definition ContextAttributeResponse_new :: ContextAttributeResponse where
  "ContextAttributeResponse_new = \<lparr>car_contextAttributeVector = [], car_statusCode = StatusCode_new\<rparr>"

definition ContextAttributeResponse_render :: "ContextAttributeResponse \<Rightarrow> ConnectionInfo \<Rightarrow> RequestType \<Rightarrow> string \<Rightarrow> string" where
  "ContextAttributeResponse_render car ci request indent =
     startTag1 indent ''contextAttributeResponse'' (ci_outFormat ci) False False @
     ContextAttributeVector_render (car_contextAttributeVector car) ci request (indent @ ''  '') True False False @
     fst (StatusCode_render ''statusCode'' (car_statusCode car) (ci_outFormat ci) (indent @ ''  '') False True) @
     endTag indent ''contextAttributeResponse'' (ci_outFormat ci) False False True False"

definition ContextAttributeResponseVector_render ::
  "ContextAttributeResponse list \<Rightarrow> ConnectionInfo \<Rightarrow> RequestType \<Rightarrow> string \<Rightarrow> string" where
  "ContextAttributeResponseVector_render vec ci request indent =
     (if vec = [] then
        (if request = IndividualContextEntityAttributes then indent @ ''<contextAttributeList></contextAttributeList>'' @ NL else [])
      else startTag2 indent ''contextResponseList'' ''contextResponses'' (ci_outFormat ci) True True False @
           concat (map (\<lambda>car. ContextAttributeResponse_render car ci request (indent @ ''  '')) vec) @
           endTag indent ''contextResponseList'' (ci_outFormat ci) False True True False)"

definition triplet_details :: "string \<Rightarrow> string \<Rightarrow> string \<Rightarrow> string" where
  "triplet_details entityId attributeName metaID =
     ''Entity-Attribute-MetaID triplet: /'' @ entityId @ ''-'' @ attributeName @ ''-'' @ metaID @ ''/''"

definition has_metaID :: "string \<Rightarrow> ContextAttribute \<Rightarrow> bool" where
  "has_metaID metaID ca =
     (case MetadataVector_lookupByName (ca_metadataVector ca) ''ID'' of None \<Rightarrow> False | Some md \<Rightarrow> md_value md = metaID)"

text \<open>The answer to a query of one attribute; the status given is the one the response has before.\<close>

definition ContextAttributeResponse_fill ::
  "ContextAttributeResponse \<Rightarrow> QueryContextResponse \<Rightarrow> string \<Rightarrow> string \<Rightarrow> string \<Rightarrow> ContextAttributeResponse" where
  "ContextAttributeResponse_fill car qcr entityId attributeName metaID =
     (let ec = qrs_errorCode qcr
      in case qrs_contextElementResponseVector qcr of
           [] \<Rightarrow>
             let sc0 = StatusCode_fill (sc_code ec) (sc_details ec);
                 sc = (if sc_code sc0 = SccOk \<or> sc_code sc0 = SccNone then StatusCode_fill SccContextElementNotFound [] else sc0);
                 sc1 = (if sc_code sc \<noteq> SccOk \<and> sc_details sc = []
                        then sc\<lparr>sc_details := (if metaID = []
                               then ''Entity-Attribute pair: /'' @ entityId @ ''-'' @ attributeName @ ''/''
                               else triplet_details entityId attributeName metaID)\<rparr>
                        else sc)
             in car\<lparr>car_statusCode := sc1\<rparr>
         | cer # _ \<Rightarrow>
             let car1 = (if metaID \<noteq> [] then
                           (let caV = car_contextAttributeVector car @ map ContextAttribute_copy (filter (has_metaID metaID) (attrs_of cer))
                            in if caV = [] then car\<lparr>car_statusCode := StatusCode_fill SccContextElementNotFound (triplet_details entityId attributeName metaID)\<rparr>
                               else car\<lparr>car_contextAttributeVector := caV\<rparr>)
                         else car\<lparr>car_contextAttributeVector := ContextAttributeVector_fill (car_contextAttributeVector car) (attrs_of cer)\<rparr>)
             in if sc_code (car_statusCode car1) = SccNone \<or> sc_code (car_statusCode car1) = SccOk
                then car1\<lparr>car_statusCode := StatusCode_fill (if sc_code ec = SccNone then SccOk else sc_code ec) (sc_details ec)\<rparr>
                else car1)"

definition ContextElementResponse_fill_query ::
  "ContextElementResponse \<Rightarrow> QueryContextResponse \<Rightarrow> string \<Rightarrow> string \<Rightarrow> ContextElementResponse" where
  "ContextElementResponse_fill_query cer qcr entityId entityType =
     (let ec = qrs_errorCode qcr; sc = StatusCode_fill (sc_code ec) (sc_details ec)
      in case qrs_contextElementResponseVector qcr of
           [] \<Rightarrow> cer\<lparr>cer_statusCode := (if sc_code sc \<noteq> SccOk \<and> sc_details sc = []
                        then sc\<lparr>sc_details := ''Entity id: /'' @ entityId @ ''/''\<rparr> else sc),
                     cer_contextElement := (cer_contextElement cer)\<lparr>ce_entityId := (ce_entityId (cer_contextElement cer))
                       \<lparr>en_id := entityId, en_type := entityType, en_isPattern := ''false''\<rparr>\<rparr>\<rparr>
         | c # _ \<Rightarrow> cer\<lparr>cer_contextElement := ContextElement_copy (cer_contextElement c),
                        cer_statusCode := (if sc_code ec \<noteq> SccNone then sc else cer_statusCode cer)\<rparr>)"

text \<open>The error code of the answer to an update or append of one entity.\<close>

definition element_errorCode :: "StatusCode \<Rightarrow> ContextAttributeResponse list \<Rightarrow> ContextElementResponse list \<Rightarrow> StatusCode" where
  "element_errorCode ec carV cerV =
     (let first = (case carV of [car] \<Rightarrow> Some (car_statusCode car) | _ \<Rightarrow> None);
          ec1 = (if sc_code ec \<noteq> SccContextElementNotFound \<and> (case first of None \<Rightarrow> False | Some sc \<Rightarrow> sc_code sc = SccContextElementNotFound)
                 then StatusCode_fill SccContextElementNotFound []
                 else if sc_code ec \<noteq> SccContextElementNotFound \<and> carV = [] then StatusCode_fill SccContextElementNotFound []
                 else case first of
                        None \<Rightarrow> ec
                      | Some sc \<Rightarrow> if (sc_code ec = SccNone \<or> sc_code ec = SccOk) \<and> sc_code sc \<noteq> SccNone \<and> sc_code sc \<noteq> SccOk
                                   then StatusCode_fill (sc_code sc) (sc_details sc) else ec)
      in if sc_code ec1 = SccContextElementNotFound \<and> sc_details ec1 = [] then
           (case cerV of [cer] \<Rightarrow> ec1\<lparr>sc_details := en_id (entity_of cer)\<rparr> | _ \<Rightarrow> ec1)
         else ec1)"

record UpdateContextElementResponse =
  uer_contextAttributeResponseVector :: "ContextAttributeResponse list"
  uer_errorCode :: StatusCode

text \<open>Only the first response of the update is looked at; its values are removed.\<close>

definition UpdateContextElementResponse_fill :: "UpdateContextResponse \<Rightarrow> UpdateContextElementResponse" where
  "UpdateContextElementResponse_fill ucrs =
     (let cerV = urs_contextElementResponseVector ucrs; ec0 = urs_errorCode ucrs;
          ec = StatusCode_fill (if sc_code ec0 = SccNone then SccOk else sc_code ec0) (sc_details ec0);
          carV = (case cerV of [] \<Rightarrow> []
                  | cer # _ \<Rightarrow> [\<lparr>car_contextAttributeVector =
                                  ContextAttributeVector_fill [] (map (\<lambda>ca. ca\<lparr>ca_value := []\<rparr>) (attrs_of cer)),
                                car_statusCode = StatusCode_fill (sc_code (cer_statusCode cer)) (sc_details (cer_statusCode cer))\<rparr>])
      in \<lparr>uer_contextAttributeResponseVector = carV, uer_errorCode = element_errorCode ec carV cerV\<rparr>)"

definition UpdateContextElementResponse_render :: "UpdateContextElementResponse \<Rightarrow> ConnectionInfo \<Rightarrow> RequestType \<Rightarrow> string \<Rightarrow> string" where
  "UpdateContextElementResponse_render uer ci requestType indent =
     (let ec = uer_errorCode uer
      in startTag1 indent ''updateContextElementResponse'' (ci_outFormat ci) False False @
         (if sc_code ec \<noteq> SccNone \<and> sc_code ec \<noteq> SccOk
          then fst (StatusCode_render ''errorCode'' ec (ci_outFormat ci) (indent @ ''  '') False True)
          else ContextAttributeResponseVector_render (uer_contextAttributeResponseVector uer) ci requestType (indent @ ''  '')) @
         endTag indent ''updateContextElementResponse'' (ci_outFormat ci) False False True False)"

record AppendContextElementResponse =
  aer_entity :: EntityId
  aer_contextAttributeResponseVector :: "ContextAttributeResponse list"
  aer_errorCode :: StatusCode

definition AppendContextElementResponse_new :: AppendContextElementResponse where
  "AppendContextElementResponse_new =
     \<lparr>aer_entity = EntityId_new [] [] [], aer_contextAttributeResponseVector = [], aer_errorCode = StatusCode_new\<rparr>"

definition AppendContextElementResponse_fill :: "UpdateContextResponse \<Rightarrow> string \<Rightarrow> string \<Rightarrow> AppendContextElementResponse" where
  "AppendContextElementResponse_fill ucrs entityId entityType =
     (let cerV = urs_contextElementResponseVector ucrs; ec0 = urs_errorCode ucrs;
          ec = StatusCode_fill (sc_code ec0) (sc_details ec0);
          carV = (case cerV of [] \<Rightarrow> []
                  | cer # _ \<Rightarrow> [\<lparr>car_contextAttributeVector = ContextAttributeVector_fill [] (attrs_of cer),
                                car_statusCode = StatusCode_fill (sc_code (cer_statusCode cer)) (sc_details (cer_statusCode cer))\<rparr>])
      in \<lparr>aer_entity = (case cerV of [] \<Rightarrow> EntityId_new entityId entityType ''false'' | cer # _ \<Rightarrow> entity_of cer),
          aer_contextAttributeResponseVector = carV, aer_errorCode = element_errorCode ec carV cerV\<rparr>)"

definition AppendContextElementResponse_render :: "AppendContextElementResponse \<Rightarrow> ConnectionInfo \<Rightarrow> RequestType \<Rightarrow> string \<Rightarrow> string" where
  "AppendContextElementResponse_render aer ci requestType indent =
     (let ec = aer_errorCode aer
      in startTag1 indent ''appendContextElementResponse'' (ci_outFormat ci) False False @
         (if sc_code ec \<noteq> SccNone \<and> sc_code ec \<noteq> SccOk
          then fst (StatusCode_render ''errorCode'' ec (ci_outFormat ci) (indent @ ''  '') False True)
          else (if en_id (aer_entity aer) \<noteq> [] then EntityId_render ''entityId'' (aer_entity aer) (ci_outFormat ci) (indent @ ''  '') True False [] else []) @
               ContextAttributeResponseVector_render (aer_contextAttributeResponseVector aer) ci requestType (indent @ ''  '')) @
         endTag indent ''appendContextElementResponse'' (ci_outFormat ci) False False True False)"

section \<open>What is released\<close>

definition release_qcr :: "ParseData \<Rightarrow> ParseData" where
  "release_qcr pd = pd\<lparr>pd_qcr := (pd_qcr pd)\<lparr>qcr_entityIdVector := [], qcr_scopeVector := []\<rparr>\<rparr>"

definition release_qcrs :: "ParseData \<Rightarrow> ParseData" where
  "release_qcrs pd = pd\<lparr>pd_qcrs := QueryContextResponse_new\<rparr>"

definition release_upcr :: "ParseData \<Rightarrow> ParseData" where
  "release_upcr pd = pd\<lparr>pd_upcr := (pd_upcr pd)\<lparr>upr_contextElementVector := []\<rparr>\<rparr>"

definition release_upcrs :: "ParseData \<Rightarrow> ParseData" where
  "release_upcrs pd = pd\<lparr>pd_upcrs := UpdateContextResponse_new\<rparr>"

definition release_upcar :: "ParseData \<Rightarrow> ParseData" where
  "release_upcar pd = pd\<lparr>pd_upcar := (pd_upcar pd)\<lparr>upcar_metadataVector := [], upcar_compoundValue := None\<rparr>\<rparr>"

definition release_acer :: "ParseData \<Rightarrow> ParseData" where
  "release_acer pd = pd\<lparr>pd_acer := (pd_acer pd)\<lparr>acer_contextAttributeVector := [], acer_domainMetadataVector := []\<rparr>\<rparr>"

section \<open>The shared steps\<close>

text \<open>The request in its place, the standard routine, and what the routine makes of the result.\<close>

definition with_update ::
  "'w backend \<Rightarrow> (UpdateContextRequest \<Rightarrow> UpdateContextRequest) \<Rightarrow> (ConnectionInfo \<Rightarrow> ParseData \<Rightarrow> string \<times> ParseData) \<Rightarrow> 'w cb_state treat" where
  "with_update b fill answer ci components compV pd st =
     served_bind (postUpdateContext b ci components compV (pd\<lparr>pd_upcr := fill (pd_upcr pd)\<rparr>) st)
       (\<lambda>(_, ci1, pd1, st1). let (out, pd2) = answer ci1 pd1 in Some (Ret (out, ci1, pd2, st1)))"

definition with_query ::
  "'w backend \<Rightarrow> (QueryContextRequest \<Rightarrow> QueryContextRequest) \<Rightarrow> (ConnectionInfo \<Rightarrow> ParseData \<Rightarrow> string \<Rightarrow> string \<times> ParseData) \<Rightarrow> 'w cb_state treat" where
  "with_query b fill answer ci components compV pd st =
     served_bind (postQueryContext b ci components compV (pd\<lparr>pd_qcr := fill (pd_qcr pd)\<rparr>) st)
       (\<lambda>(out0, ci1, pd1, st1). let (out, pd2) = answer ci1 pd1 out0 in Some (Ret (out, ci1, pd2, st1)))"

definition render_status :: "ConnectionInfo \<Rightarrow> StatusCode \<Rightarrow> string" where
  "render_status ci sc = fst (StatusCode_render ''statusCode'' sc (ci_outFormat ci) [] False False)"

definition answer_status :: "(ParseData \<Rightarrow> ParseData) \<Rightarrow> ConnectionInfo \<Rightarrow> ParseData \<Rightarrow> string \<times> ParseData" where
  "answer_status release ci pd = (render_status ci (StatusCode_of_update (pd_upcrs pd)), release pd)"

definition refuse_status :: "(ParseData \<Rightarrow> ParseData) \<Rightarrow> string \<Rightarrow> 'w cb_state treat" where
  "refuse_status release details ci components compV pd st =
     Some (Ret (render_status ci (StatusCode_fill SccBadRequest details), ci, release pd, st))"

text \<open>The path /.../\{id\}/attributes/\{name\} and its typed form /.../type/\{type\}/id/\{id\}/attributes/\{name\}.\<close>

section \<open>Entities\<close>

definition answer_element :: "string \<Rightarrow> string \<Rightarrow> ConnectionInfo \<Rightarrow> ParseData \<Rightarrow> string \<Rightarrow> string \<times> ParseData" where
  "answer_element entityId entityType ci pd out =
     (let cer = ContextElementResponse_fill_query (ContextElementResponse_new\<lparr>cer_statusCode := StatusCode_fill SccOk []\<rparr>) (pd_qcrs pd) [] [];
          cer1 = (if sc_code (cer_statusCode cer) = SccContextElementNotFound
                  then cer\<lparr>cer_contextElement := (cer_contextElement cer)\<lparr>ce_entityId := (entity_of cer)
                             \<lparr>en_id := entityId, en_type := entityType, en_isPattern := ''false''\<rparr>\<rparr>,
                           cer_statusCode := (cer_statusCode cer)\<lparr>sc_details := ''Entity id: /'' @ entityId @ ''/''\<rparr>\<rparr>
                  else cer)
      in (ContextElementResponse_render cer1 ci IndividualContextEntity [] False False, release_qcr pd))"

definition getIndividualContextEntity :: "'w backend \<Rightarrow> 'w cb_state treat" where
  "getIndividualContextEntity b ci components compV pd st =
     comp compV 2 (\<lambda>entityId.
       let entityType = uriParam ci URI_PARAM_ENTITY_TYPE
       in with_query b (QueryContextRequest_fill_typed entityId entityType ''false'' (entityTypeInfo ci) [])
            (answer_element entityId entityType) ci components compV pd st)"

definition putIndividualContextEntity :: "'w backend \<Rightarrow> 'w cb_state treat" where
  "putIndividualContextEntity b ci components compV pd st =
     comp compV 2 (\<lambda>entityId.
       with_update b (UpdateContextRequest_fill_ucer (pd_ucer pd) entityId (uriParam ci URI_PARAM_ENTITY_TYPE))
         (\<lambda>ci1 pd1. (UpdateContextElementResponse_render (UpdateContextElementResponse_fill (pd_upcrs pd1)) ci1 IndividualContextEntity [],
                     release_upcr pd1)) ci components compV pd st)"

definition append_refused :: "EntityId \<Rightarrow> RequestType \<Rightarrow> string \<Rightarrow> ConnectionInfo \<Rightarrow> string" where
  "append_refused en requestType details ci =
     AppendContextElementResponse_render
       (AppendContextElementResponse_new\<lparr>aer_entity := en, aer_errorCode := StatusCode_fill SccBadRequest details\<rparr>) ci requestType []"

definition append_element :: "'w backend \<Rightarrow> string \<Rightarrow> string \<Rightarrow> string \<Rightarrow> string \<Rightarrow> 'w cb_state treat" where
  "append_element b entityId entityType fillId fillType ci components compV pd st =
     with_update b (UpdateContextRequest_fill_acer (pd_acer pd) entityId entityType)
       (\<lambda>ci1 pd1. (AppendContextElementResponse_render (AppendContextElementResponse_fill (pd_upcrs pd1) fillId fillType)
                     ci1 IndividualContextEntity [], release_upcr pd1)) ci components compV pd st"

text \<open>The parameters of \<open>fill\<close> that this routine leaves out are empty, which removes the entity from the response.\<close>

definition postIndividualContextEntity :: "'w backend \<Rightarrow> 'w cb_state treat" where
  "postIndividualContextEntity b ci components compV pd st =
     (let en = acer_entity (pd_acer pd);
          idFromURL = (if length compV = 3 \<or> length compV = 4 then compV ! 2 else []);
          typeFromURL = uriParam ci URI_PARAM_ENTITY_TYPE;
          refuse = (\<lambda>details. Some (Ret (append_refused (EntityId_new [] [] []) IndividualContextEntity details ci, ci, pd, st)));
          entityId = (if en_id en \<noteq> [] then en_id en else idFromURL);
          entityType = (if en_type en \<noteq> [] then en_type en else typeFromURL)
      in if en_id en \<noteq> [] \<and> idFromURL \<noteq> [] \<and> en_id en \<noteq> idFromURL then refuse ''entityId::id differs in URL and payload''
         else if en_type en \<noteq> [] \<and> typeFromURL \<noteq> [] \<and> en_type en \<noteq> typeFromURL then refuse ''entityId::type differs in URL and payload''
         else if en_isPattern en = ''true'' then refuse ''entityId::isPattern set to true in contextUpdate convenience operation''
         else if entityId = [] then refuse ''invalid request: mandatory entityId::id missing''
         else append_element b entityId entityType [] [] ci components compV pd st)"

definition deleteIndividualContextEntity :: "'w backend \<Rightarrow> 'w cb_state treat" where
  "deleteIndividualContextEntity b ci components compV pd st =
     comp compV 2 (\<lambda>entityId.
       with_update b (UpdateContextRequest_fill_names entityId (uriParam ci URI_PARAM_ENTITY_TYPE) ''false'' [] [] ''DELETE'')
         (\<lambda>ci1 pd1. let sc = StatusCode_of_update (pd_upcrs pd1);
                        sc1 = (if sc_code sc = SccContextElementNotFound \<and> sc_details sc = [] then sc\<lparr>sc_details := entityId\<rparr> else sc)
                    in (render_status ci1 sc1, release_upcr pd1)) ci components compV pd st)"

definition getAllContextEntities :: "'w backend \<Rightarrow> 'w cb_state treat" where
  "getAllContextEntities b ci components compV pd st =
     with_query b (QueryContextRequest_fill_typed ''.*'' (uriParam ci URI_PARAM_ENTITY_TYPE) ''true'' (entityTypeInfo ci) [])
       (\<lambda>ci1 pd1 out. (out, release_qcr pd1)) ci components compV pd st"

section \<open>Entities with type and id\<close>

text \<open>The default status of the response of the query is 200; a test of it for 404 comes before it is filled.\<close>

definition element_of_query :: "string \<Rightarrow> string \<Rightarrow> ConnectionInfo \<Rightarrow> ParseData \<Rightarrow> string \<times> ParseData" where
  "element_of_query entityId entityType ci pd =
     (ContextElementResponse_render
        (ContextElementResponse_fill_query (ContextElementResponse_new\<lparr>cer_statusCode := StatusCode_fill SccOk []\<rparr>)
           (pd_qcrs pd) entityId entityType) ci RtContextElementResponse [] False False, release_qcrs (release_qcr pd))"

definition getAllEntitiesWithTypeAndId :: "'w backend \<Rightarrow> 'w cb_state treat" where
  "getAllEntitiesWithTypeAndId b ci components compV pd st =
     comp compV 3 (\<lambda>entityType. comp compV 5 (\<lambda>entityId.
       case type_error ci entityType of
         Some details \<Rightarrow>
           let (out, pd1) = element_of_query entityId entityType ci
                 (pd\<lparr>pd_qcrs := (pd_qcrs pd)\<lparr>qrs_errorCode := StatusCode_fill SccBadRequest details\<rparr>\<rparr>)
           in Some (Ret (out, ci, pd1, st))
       | None \<Rightarrow>
           with_query b (QueryContextRequest_fill entityId entityType [])
             (\<lambda>ci1 pd1 out. element_of_query entityId entityType ci1 pd1) ci components compV pd st))"


definition postAllEntitiesWithTypeAndId :: "'w backend \<Rightarrow> 'w cb_state treat" where
  "postAllEntitiesWithTypeAndId b ci components compV pd st =
     comp compV 3 (\<lambda>entityType. comp compV 5 (\<lambda>entityId.
       let en = acer_entity (pd_acer pd)
       in if en_id en \<noteq> [] \<or> en_type en \<noteq> [] \<or> en_isPattern en \<noteq> []
          then Some (Ret (append_refused (EntityId_new [] [] []) IndividualContextEntity ''invalid payload: unknown fields'' ci, ci, pd, st))
          else case type_error ci entityType of
                 Some details \<Rightarrow>
                   Some (Ret (append_refused (EntityId_new entityId entityType ''false'') AllEntitiesWithTypeAndId details ci, ci, release_acer pd, st))
               | None \<Rightarrow> append_element b entityId entityType entityId entityType ci components compV pd st))"

definition deleteAllEntitiesWithTypeAndId :: "'w backend \<Rightarrow> 'w cb_state treat" where
  "deleteAllEntitiesWithTypeAndId b ci components compV pd st =
     comp compV 3 (\<lambda>entityType. comp compV 5 (\<lambda>entityId.
       case type_error ci entityType of
         Some details \<Rightarrow> refuse_status id details ci components compV pd st
       | None \<Rightarrow>
           with_update b (UpdateContextRequest_fill_names entityId entityType [] [] [] ''DELETE'')
             (answer_status release_upcr) ci components compV pd st))"

section \<open>Attributes\<close>

definition not_found_entity :: "string \<Rightarrow> ContextAttributeResponse \<Rightarrow> ContextAttributeResponse" where
  "not_found_entity entityId car =
     (if sc_code (car_statusCode car) = SccContextElementNotFound
      then car\<lparr>car_statusCode := (car_statusCode car)\<lparr>sc_details := ''Entity id: /'' @ entityId @ ''/''\<rparr>\<rparr> else car)"

definition getIndividualContextEntityAttribute :: "'w backend \<Rightarrow> 'w cb_state treat" where
  "getIndividualContextEntityAttribute b ci components compV pd st =
     comp compV 2 (\<lambda>entityId. comp compV 4 (\<lambda>attributeName.
       with_query b (QueryContextRequest_fill_typed entityId (uriParam ci URI_PARAM_ENTITY_TYPE) ''false'' (entityTypeInfo ci) attributeName)
         (\<lambda>ci1 pd1 out.
            let car = (case qrs_contextElementResponseVector (pd_qcrs pd1) of
                         cer # _ \<Rightarrow> \<lparr>car_contextAttributeVector = ContextAttributeVector_fill [] (attrs_of cer),
                                     car_statusCode = StatusCode_fill (sc_code (cer_statusCode cer)) (sc_details (cer_statusCode cer))\<rparr>
                       | [] \<Rightarrow> ContextAttributeResponse_new\<lparr>car_statusCode :=
                                 StatusCode_fill (sc_code (qrs_errorCode (pd_qcrs pd1))) (sc_details (qrs_errorCode (pd_qcrs pd1)))\<rparr>)
            in (ContextAttributeResponse_render (not_found_entity entityId car) ci1 IndividualContextEntityAttribute [], release_qcr pd1))
         ci components compV pd st))"

definition update_attribute :: "'w backend \<Rightarrow> string \<Rightarrow> (ParseData \<Rightarrow> ParseData) \<Rightarrow> string \<Rightarrow> string \<Rightarrow> string \<Rightarrow> string \<Rightarrow> 'w cb_state treat" where
  "update_attribute b action release entityId entityType attributeName metaID ci components compV pd st =
     with_update b (UpdateContextRequest_fill_upcar (pd_upcar pd) entityId entityType attributeName metaID action)
       (answer_status release) ci components compV pd st"



definition deleteIndividualContextEntityAttribute :: "'w backend \<Rightarrow> 'w cb_state treat" where
  "deleteIndividualContextEntityAttribute b ci components compV pd st =
     comp compV 2 (\<lambda>entityId. comp compV 4 (\<lambda>attributeName.
       with_update b (UpdateContextRequest_fill_names entityId (uriParam ci URI_PARAM_ENTITY_TYPE) ''false'' attributeName [] ''DELETE'')
         (answer_status release_upcr) ci components compV pd st))"

definition answer_attribute ::
  "ContextAttributeResponse \<Rightarrow> string \<Rightarrow> string \<Rightarrow> string \<Rightarrow> RequestType \<Rightarrow> ConnectionInfo \<Rightarrow> ParseData \<Rightarrow> string \<times> ParseData" where
  "answer_attribute car entityId attributeName metaID requestType ci pd =
     (ContextAttributeResponse_render (ContextAttributeResponse_fill car (pd_qcrs pd) entityId attributeName metaID) ci requestType [],
      release_qcrs (release_qcr pd))"

text \<open>The details set for an entity that is not found are those the response has when it is filled.\<close>

definition getIndividualContextEntityAttributeWithTypeAndId :: "'w backend \<Rightarrow> 'w cb_state treat" where
  "getIndividualContextEntityAttributeWithTypeAndId b ci components compV pd st =
     comp compV 3 (\<lambda>entityType. comp compV 5 (\<lambda>entityId. comp compV 7 (\<lambda>attributeName.
       case type_error ci entityType of
         Some details \<Rightarrow>
           let (out, pd1) = answer_attribute ContextAttributeResponse_new entityId attributeName [] RtContextAttributeResponse ci
                 (pd\<lparr>pd_qcrs := (pd_qcrs pd)\<lparr>qrs_errorCode := StatusCode_fill SccBadRequest details\<rparr>\<rparr>)
           in Some (Ret (out, ci, pd1, st))
       | None \<Rightarrow>
           with_query b (QueryContextRequest_fill entityId entityType attributeName)
             (\<lambda>ci1 pd1 out.
                let car = (if sc_code (qrs_errorCode (pd_qcrs pd1)) = SccContextElementNotFound
                           then ContextAttributeResponse_new\<lparr>car_statusCode :=
                                  StatusCode_new\<lparr>sc_details := ''entityId::type/attribute::name pair not found''\<rparr>\<rparr>
                           else ContextAttributeResponse_new)
                in answer_attribute car entityId attributeName [] RtContextAttributeResponse ci1 pd1) ci components compV pd st)))"



definition deleteIndividualContextEntityAttributeWithTypeAndId :: "'w backend \<Rightarrow> 'w cb_state treat" where
  "deleteIndividualContextEntityAttributeWithTypeAndId b ci components compV pd st =
     comp compV 3 (\<lambda>entityType. comp compV 5 (\<lambda>entityId. comp compV 7 (\<lambda>attributeName.
       case type_error ci entityType of
         Some details \<Rightarrow> refuse_status id details ci components compV pd st
       | None \<Rightarrow>
           with_update b (UpdateContextRequest_fill_names entityId entityType [] attributeName [] ''DELETE'')
             (answer_status release_upcr) ci components compV pd st)))"

section \<open>Instances of attributes: the metadata ID\<close>

text \<open>The details for a pair that is not found are replaced in the next step.\<close>

definition instance_response :: "QueryContextResponse \<Rightarrow> string \<Rightarrow> string \<Rightarrow> ContextAttributeResponse" where
  "instance_response qcr attributeName metaIdValue =
     (case qrs_contextElementResponseVector qcr of
        [] \<Rightarrow> ContextAttributeResponse_new\<lparr>car_statusCode := StatusCode_fill (sc_code (qrs_errorCode qcr)) (sc_details (qrs_errorCode qcr))\<rparr>
      | cer # _ \<Rightarrow>
          let caV = filter (\<lambda>ca. getId ca = metaIdValue) (attrs_of cer)
          in \<lparr>car_contextAttributeVector = caV,
              car_statusCode = (if attrs_of cer \<noteq> [] \<and> caV = []
                 then StatusCode_fill SccContextElementNotFound (''Attribute-ValueID pair: /'' @ attributeName @ ''-'' @ metaIdValue @ ''/'')
                 else StatusCode_fill (sc_code (cer_statusCode cer)) (sc_details (cer_statusCode cer)))\<rparr>)"

definition getAttributeValueInstance :: "'w backend \<Rightarrow> 'w cb_state treat" where
  "getAttributeValueInstance b ci components compV pd st =
     comp compV 2 (\<lambda>entityId. comp compV 4 (\<lambda>attributeName. comp compV 5 (\<lambda>metaIdValue.
       with_query b (QueryContextRequest_fill_typed entityId (uriParam ci URI_PARAM_ENTITY_TYPE) ''false'' (entityTypeInfo ci) attributeName)
         (\<lambda>ci1 pd1 out.
            (ContextAttributeResponse_render (not_found_entity entityId (instance_response (pd_qcrs pd1) attributeName metaIdValue))
               ci1 IndividualContextEntityAttribute [], release_qcr pd1)) ci components compV pd st)))"

definition id_mismatch :: "ParseData \<Rightarrow> string \<Rightarrow> string option" where
  "id_mismatch pd metaID =
     (case MetadataVector_lookupByName (upcar_metadataVector (pd_upcar pd)) ''ID'' of
        None \<Rightarrow> None
      | Some md \<Rightarrow> if md_value md \<noteq> metaID
                   then Some (''unmatching metadata ID value URI/payload: /'' @ metaID @ ''/ vs /'' @ md_value md @ ''/'') else None)"

definition update_instance :: "'w backend \<Rightarrow> string \<Rightarrow> string \<Rightarrow> string \<Rightarrow> string \<Rightarrow> string \<Rightarrow> 'w cb_state treat" where
  "update_instance b action entityId entityType attributeName metaID ci components compV pd st =
     (case id_mismatch pd metaID of
        Some details \<Rightarrow> refuse_status release_upcar details ci components compV pd st
      | None \<Rightarrow> update_attribute b action (release_upcrs \<circ> release_upcr \<circ> release_upcar) entityId entityType attributeName metaID
                  ci components compV pd st)"

definition putAttributeValueInstance :: "'w backend \<Rightarrow> 'w cb_state treat" where
  "putAttributeValueInstance b ci components compV pd st =
     comp compV 2 (\<lambda>entityId. comp compV 4 (\<lambda>attributeName. comp compV 5 (\<lambda>metaID.
       update_instance b ''UPDATE'' entityId (uriParam ci URI_PARAM_ENTITY_TYPE) attributeName metaID ci components compV pd st)))"


text \<open>The query is made with the type of the URI parameter, not with the one of the path.\<close>

definition getAttributeValueInstanceWithTypeAndId :: "'w backend \<Rightarrow> 'w cb_state treat" where
  "getAttributeValueInstanceWithTypeAndId b ci components compV pd st =
     comp compV 3 (\<lambda>typeFromPath. comp compV 5 (\<lambda>entityId. comp compV 7 (\<lambda>attributeName. comp compV 8 (\<lambda>metaID.
       case type_error ci typeFromPath of
         Some details \<Rightarrow>
           Some (Ret (ContextAttributeResponse_render (ContextAttributeResponse_new\<lparr>car_statusCode := StatusCode_fill SccBadRequest details\<rparr>)
                        ci AttributeValueInstance [], ci, release_qcrs (release_qcr pd), st))
       | None \<Rightarrow>
           with_query b (QueryContextRequest_fill_typed entityId (uriParam ci URI_PARAM_ENTITY_TYPE) ''false'' (entityTypeInfo ci) attributeName)
             (\<lambda>ci1 pd1 out. answer_attribute ContextAttributeResponse_new entityId attributeName metaID AttributeValueInstance ci1 pd1)
             ci components compV pd st))))"

definition typed_instance :: "'w backend \<Rightarrow> string \<Rightarrow> 'w cb_state treat" where
  "typed_instance b action ci components compV pd st =
     comp compV 3 (\<lambda>entityType. comp compV 5 (\<lambda>entityId. comp compV 7 (\<lambda>attributeName. comp compV 8 (\<lambda>metaID.
       case type_mismatch ci entityType of
         Some details \<Rightarrow> refuse_status release_upcar details ci components compV pd st
       | None \<Rightarrow> update_instance b action entityId entityType attributeName metaID ci components compV pd st))))"

definition putAttributeValueInstanceWithTypeAndId :: "'w backend \<Rightarrow> 'w cb_state treat" where
  "putAttributeValueInstanceWithTypeAndId b = typed_instance b ''UPDATE''"

definition postAttributeValueInstanceWithTypeAndId :: "'w backend \<Rightarrow> 'w cb_state treat" where
  "postAttributeValueInstanceWithTypeAndId b = typed_instance b ''APPEND''"


section \<open>Claims\<close>

text \<open>The standard routines do not look at the path.\<close>

lemma standard_routines_ignore_path:
  "postUpdateContext b ci n compV = postUpdateContext b ci 0 []"
  "postQueryContext b ci n compV = postQueryContext b ci 0 []"
  by (intro ext, simp add: postUpdateContext_def, intro ext, simp add: postQueryContext_def)

lemma with_update_path: "with_update b fill answer ci n compV = with_update b fill answer ci 0 []"
  unfolding with_update_def standard_routines_ignore_path(1) [of b ci n compV] by simp

lemma with_query_path: "with_query b fill answer ci n compV = with_query b fill answer ci 0 []"
  unfolding with_query_def standard_routines_ignore_path(2) [of b ci n compV] by simp

text \<open>What the client and the broker see of a routine: the answer, the connection and the state.\<close>

definition visible :: "(string \<times> ConnectionInfo \<times> ParseData \<times> 'w cb_state) cpp option \<Rightarrow> (string \<times> ConnectionInfo \<times> 'w cb_state) cpp option" where
  "visible r = map_option (map_cpp (\<lambda>(out, ci, pd, st). (out, ci, st))) r"

lemma served_bind_visible:
  "(\<And>x. visible (f x) = visible (g x)) \<Longrightarrow> visible (served_bind m f) = visible (served_bind m g)"
  by (cases m; cases "the m") auto


lemma vec_at_Cons: "vec_at (x # xs) 0 = Ret x" "vec_at (x # xs) (Suc k) = vec_at xs k"
  by (simp_all add: vec_at_def)


text \<open>The update request for one instance: one more element, for the entity, with one attribute of the name and
  the metadata ID given and with type and value of the payload.\<close>

definition names_instance ::
  "string \<Rightarrow> string \<Rightarrow> string \<Rightarrow> string \<Rightarrow> string \<Rightarrow> UpdateContextAttributeRequest \<Rightarrow> UpdateContextRequest \<Rightarrow> UpdateContextRequest \<Rightarrow> bool" where
  "names_instance action entityId entityType attributeName metaID upcar upcr upcr' \<longleftrightarrow>
     upr_updateActionType upcr' = action \<and>
     (\<exists>ce ca. upr_contextElementVector upcr' = upr_contextElementVector upcr @ [ce] \<and>
        ce_contextAttributeVector ce = [ca] \<and> ca_name ca = attributeName \<and> getId ca = metaID \<and>
        ca_type ca = upcar_type upcar \<and> (upcar_compoundValue upcar = None \<longrightarrow> ca_value ca = upcar_contextValue upcar) \<and>
        ce_entityId ce = EntityId_new entityId entityType ''false'')"

lemma fill_upcar_instance:
  assumes "id_mismatch pd metaID = None" and "metaID \<noteq> []"
  shows "names_instance action entityId entityType attributeName metaID (pd_upcar pd) upcr
    (UpdateContextRequest_fill_upcar (pd_upcar pd) entityId entityType attributeName metaID action upcr)"
proof -
  let ?md = "upcar_metadataVector (pd_upcar pd)"
  have copy: "MetadataVector_lookupByName (map Metadata_copy md) n = map_option Metadata_copy (MetadataVector_lookupByName md n)" for md n
    by (induction md) (simp_all add: Metadata_copy_def Metadata_new_def)
  have app: "MetadataVector_lookupByName (md @ [Metadata_new n [] v]) n =
      (case MetadataVector_lookupByName md n of None \<Rightarrow> Some (Metadata_new n [] v) | Some m \<Rightarrow> Some m)" for md n v
    by (induction md) (simp_all add: Metadata_new_def)
  have val: "md_value (Metadata_copy m) = md_value m" "md_value (Metadata_new n t v) = v" for m n t v by (simp_all add: Metadata_copy_def Metadata_new_def)
  show ?thesis
    using assms by (auto simp: names_instance_def UpdateContextRequest_fill_upcar_def Let_def id_mismatch_def MetadataVector_fill_def copy app val getId_def
        md_first_value_lookup ContextAttribute_new_def EntityId_new_def split: option.splits if_splits)
qed

text \<open>What a routine does with an update of an instance: a payload with another ID is refused and nothing changes; else the
  standard update is called with the request for the instance, and its result is the status answered.\<close>

definition instance_served ::
  "'w backend \<Rightarrow> string \<Rightarrow> string \<Rightarrow> string \<Rightarrow> string \<Rightarrow> string \<Rightarrow> ConnectionInfo \<Rightarrow> ParseData \<Rightarrow> 'w cb_state
   \<Rightarrow> (string \<times> ConnectionInfo \<times> ParseData \<times> 'w cb_state) cpp option \<Rightarrow> bool" where
  "instance_served b action entityId entityType attributeName metaID ci pd st r \<longleftrightarrow>
     (case id_mismatch pd metaID of
        Some details \<Rightarrow> visible r = Some (Ret (render_status ci (StatusCode_fill SccBadRequest details), ci, st))
      | None \<Rightarrow> \<exists>upcr'. names_instance action entityId entityType attributeName metaID (pd_upcar pd) (pd_upcr pd) upcr' \<and>
          visible r = visible (served_bind (postUpdateContext b ci 0 [] (pd\<lparr>pd_upcr := upcr'\<rparr>) st)
            (\<lambda>(_, ci1, pd1, st1). Some (Ret (render_status ci1 (StatusCode_of_update (pd_upcrs pd1)), ci1, pd1, st1)))))"

lemma update_instance_served:
  assumes "metaID \<noteq> []"
  shows "instance_served b action entityId entityType attributeName metaID ci pd st
    (update_instance b action entityId entityType attributeName metaID ci n compV pd st)"
proof (cases "id_mismatch pd metaID")
  case None
  have "visible (update_instance b action entityId entityType attributeName metaID ci n compV pd st) =
      visible (served_bind (postUpdateContext b ci 0 []
          (pd\<lparr>pd_upcr := UpdateContextRequest_fill_upcar (pd_upcar pd) entityId entityType attributeName metaID action (pd_upcr pd)\<rparr>) st)
        (\<lambda>(_, ci1, pd1, st1). Some (Ret (render_status ci1 (StatusCode_of_update (pd_upcrs pd1)), ci1, pd1, st1))))"
    unfolding update_instance_def None option.case update_attribute_def with_update_path [of b _ _ ci n compV] with_update_def
    by (rule served_bind_visible) (simp add: visible_def case_prod_beta Let_def answer_status_def)
  with fill_upcar_instance [OF None assms] show ?thesis unfolding instance_served_def None option.case by blast
next
  case (Some details)
  then show ?thesis by (simp add: instance_served_def update_instance_def refuse_status_def visible_def)
qed

text \<open>C20: the instance that an update or append of an attribute instance asks for is the one of the URL. For PUT
  /\{id\}/attributes/\{name\}/\{ID\}, and for PUT and POST of its form with /type/\{type\}/id/\{id\}, with a
  non-empty ID: a payload whose metadata ID is another one is refused with 400 and nothing changes; otherwise the
  standard update is called with one more element, for the entity of the URL (its type from the URI parameter or the
  path), with the one attribute of the URL's name and the URL's ID and with the type and value of the
  payload, the action being UPDATE for PUT and APPEND for POST, and the status of that update is the answer. In the typed
  form a URI parameter with another type is refused.\<close>

theorem instance_named_in_url:
  assumes "m \<noteq> []"
  shows "instance_served b ''UPDATE'' i (uriParam ci URI_PARAM_ENTITY_TYPE) a m ci pd st
      (putAttributeValueInstance b ci 6 [v, ce, i, attrs, a, m] pd st) \<and>
    (case type_mismatch ci t of
       None \<Rightarrow>
         instance_served b ''UPDATE'' i t a m ci pd st
           (putAttributeValueInstanceWithTypeAndId b ci 9 [v, ce, ty, t, d, i, attrs, a, m] pd st) \<and>
         instance_served b ''APPEND'' i t a m ci pd st
           (postAttributeValueInstanceWithTypeAndId b ci 9 [v, ce, ty, t, d, i, attrs, a, m] pd st)
     | Some details \<Rightarrow>
         visible (putAttributeValueInstanceWithTypeAndId b ci 9 [v, ce, ty, t, d, i, attrs, a, m] pd st) =
           Some (Ret (render_status ci (StatusCode_fill SccBadRequest details), ci, st)) \<and>
         visible (postAttributeValueInstanceWithTypeAndId b ci 9 [v, ce, ty, t, d, i, attrs, a, m] pd st) =
           Some (Ret (render_status ci (StatusCode_fill SccBadRequest details), ci, st)))"
  using update_instance_served [OF assms]
  by (auto simp: putAttributeValueInstance_def putAttributeValueInstanceWithTypeAndId_def postAttributeValueInstanceWithTypeAndId_def
      typed_instance_def refuse_status_def visible_def vec_at_Cons numeral_eq_Suc split: option.split)

text \<open>The query of an instance under /type/\{type\}/id/\{id\} does not depend on the type: without the URI parameter
  entity::type the answer and the new state are the same for every type in the path, so that the instance of an
  entity of another type is returned.\<close>

theorem typed_instance_ignores_type:
  assumes "uriParam ci URI_PARAM_ENTITY_TYPE = []"
  shows "getAttributeValueInstanceWithTypeAndId b ci n (compV[3 := t]) pd st = getAttributeValueInstanceWithTypeAndId b ci n compV pd st"
proof (cases "3 < length compV")
  case True
  have at: "vec_at (compV[3 := t]) k = (if k = 3 then Ret t else vec_at compV k)" for k
    using True by (simp add: vec_at_def)
  have "type_error ci t = type_error ci (compV ! 3)"
    using assms by (simp add: type_error_def type_mismatch_def)
  then show ?thesis
    unfolding getAttributeValueInstanceWithTypeAndId_def at with_query_path [of b _ _ ci n "compV[3 := t]"] with_query_path [of b _ _ ci n compV]
    using True by (simp add: vec_at_def)
next
  case False
  then show ?thesis by (simp add: list_update_beyond)
qed

text \<open>C21: Replacing the attributes of an entity reports the first response of the update only. When some attributes were found
  and others not, the answer is a success for those that were found, and says nothing of the
  others, which were not updated.\<close>

theorem missing_attributes_unreported:
  assumes "urs_contextElementResponseVector ucrs = cer # rest" and "sc_code (cer_statusCode cer) = SccOk"
    and "sc_code (urs_errorCode ucrs) = SccOk \<or> sc_code (urs_errorCode ucrs) = SccNone"
  shows "let r = UpdateContextElementResponse_fill ucrs
    in sc_code (uer_errorCode r) = SccOk \<and>
       map ca_name (concat (map car_contextAttributeVector (uer_contextAttributeResponseVector r))) = map ca_name (attrs_of cer) \<and>
       (\<forall>rest'. UpdateContextElementResponse_fill (ucrs\<lparr>urs_contextElementResponseVector := cer # rest'\<rparr>) = r)"
  using assms by (auto simp: UpdateContextElementResponse_fill_def Let_def element_errorCode_def StatusCode_fill_def
      ContextAttributeVector_fill_def ContextAttribute_copy_def comp_def)

section \<open>Examples\<close>

definition conv_ci :: ConnectionInfo where
  "conv_ci = json_ci\<lparr>ci_uriParam := [URI_PARAM_ENTITY_TYPE \<mapsto> ''T'']\<rparr>"

definition put_pd :: ParseData where
  "put_pd = ParseData_new\<lparr>pd_ucer := \<lparr>ucer_attributeDomainName = [],
     ucer_contextAttributeVector = [ContextAttribute_new ''A'' ''t'' ''2'' False, ContextAttribute_new ''C'' ''t'' ''2'' False],
     ucer_domainMetadataVector = []\<rparr>\<rparr>"

text \<open>The whole routine: of the two attributes one is updated, and the other, which the entity does not have, is not in the answer.\<close>

lemma put_half_done:
  "case putIndividualContextEntity backend0 json_ci 3 [''v1'', ''contextEntities'', ''E1''] put_pd cb_state0 of
     Some (Ret (answer, ci, pd, st)) \<Rightarrow> length (mw_updates (cb_world st)) = 1 \<and>
       map (\<lambda>cer. (map ca_name (attrs_of cer), sc_code (cer_statusCode cer))) (urs_contextElementResponseVector (pd_upcrs pd)) =
         [([''A''], SccOk), ([''C''], SccContextElementNotFound)]
   | _ \<Rightarrow> False"
  by code_simp

definition half_done :: UpdateContextResponse where
  "half_done = \<lparr>urs_contextElementResponseVector =
     [cer_of (EntityId_new ''E1'' ''T'' ''false'') [ContextAttribute_new ''A'' ''t'' [] True] (StatusCode_fill SccOk []),
      cer_of (EntityId_new ''E1'' ''T'' ''false'') [ContextAttribute_new ''C'' ''t'' [] False] (StatusCode_fill SccContextElementNotFound ''E1'')],
     urs_errorCode = StatusCode_fill SccOk []\<rparr>"

theorem missing_attributes_unreported_witness:
  "(case putIndividualContextEntity backend0 json_ci 3 [''v1'', ''contextEntities'', ''E1''] put_pd cb_state0 of
      Some (Ret (answer, ci, pd, st)) \<Rightarrow> length (mw_updates (cb_world st)) = 1 \<and>
        map (\<lambda>cer. (map ca_name (attrs_of cer), sc_code (cer_statusCode cer))) (urs_contextElementResponseVector (pd_upcrs pd)) =
          [([''A''], SccOk), ([''C''], SccContextElementNotFound)]
    | _ \<Rightarrow> False) \<and>
   sc_code (uer_errorCode (UpdateContextElementResponse_fill half_done)) = SccOk \<and>
   map ca_name (concat (map car_contextAttributeVector (uer_contextAttributeResponseVector (UpdateContextElementResponse_fill half_done)))) = [''A'']"
  using missing_attributes_unreported [of half_done "hd (urs_contextElementResponseVector half_done)" "tl (urs_contextElementResponseVector half_done)"]
    put_half_done
  by (simp add: half_done_def cer_of_def StatusCode_fill_def ContextAttribute_new_def Let_def)



theorem instance_named_in_url_witness:
  "\<exists>upcr' ce ca. upr_contextElementVector upcr' = [ce] \<and> ce_contextAttributeVector ce = [ca] \<and> ca_name ca = ''A'' \<and> getId ca = ''1'' \<and>
     visible (putAttributeValueInstance backend0 conv_ci 6 [''v1'', ''contextEntities'', ''E1'', ''attributes'', ''A'', ''1''] put_pd cb_state0) =
     visible (served_bind (postUpdateContext backend0 conv_ci 0 [] (put_pd\<lparr>pd_upcr := upcr'\<rparr>) cb_state0)
       (\<lambda>(_, ci1, pd1, st1). Some (Ret (render_status ci1 (StatusCode_of_update (pd_upcrs pd1)), ci1, pd1, st1))))"
proof -
  have "id_mismatch put_pd ''1'' = None" "upr_contextElementVector (pd_upcr put_pd) = []" by code_simp+
  then show ?thesis
    using instance_named_in_url [of "''1''" backend0 "''E1''" conv_ci "''A''" put_pd cb_state0 "''v1''" "''contextEntities''" "''attributes''" "''T''" "[]" "[]"]
    by (auto simp: instance_served_def names_instance_def)
qed

theorem typed_instance_ignores_type_witness:
  "getAttributeValueInstanceWithTypeAndId backend0 json_ci 9 [''v1'', ''contextEntities'', ''type'', ''Car'', ''id'', ''E1'', ''attributes'', ''A'', ''1''] put_pd cb_state0 =
   getAttributeValueInstanceWithTypeAndId backend0 json_ci 9 [''v1'', ''contextEntities'', ''type'', ''Room'', ''id'', ''E1'', ''attributes'', ''A'', ''1''] put_pd cb_state0"
proof -
  have "uriParam json_ci URI_PARAM_ENTITY_TYPE = []" by code_simp
  from typed_instance_ignores_type [OF this, of backend0 9 "[''v1'', ''contextEntities'', ''type'', ''Room'', ''id'', ''E1'', ''attributes'', ''A'', ''1'']" "''Car''"]
  show ?thesis by (simp add: numeral_eq_Suc)
qed

end
