(* ===== verification/Spec2Isabelle.thy ===== *)
theory Spec2Isabelle
  imports Conn_Pool Broker_Services Conv_Ops
begin

text \<open>
  \<^bold>\<open>The Orion Context Broker.\<close> The broker keeps context entities (an id, a type, a service path, attributes
  with values and metadata) in a MongoDB database, answers queries about them, changes them on
  request, notifies subscribers of changes and, for what it does not hold, looks up which other provider
  was registered for it. This library models the part of its C++ sources that carries that logic
  (\<^verbatim>\<open>src/src/lib\<close>, and the services of \<^verbatim>\<open>src/src/app/contextBroker\<close>) and proves what makes it
  correct, together with the places where it is not.

  \<^bold>\<open>How the parts interact.\<close> The HTTP library calls \<open>connectionTreat\<close> with the headers, the payload and a
  last time to serve the request; \<open>restService\<close> searches the vector of services for the first one that
  fits, has the payload parsed, checks the tenant and calls the routine of the service, whose answer is
  queued as the response. The convenience operations turn their payloads into updates and queries; the routines
  of these call the backend, send what other providers hold on to them with the HTTP client, and merge
  the answers. An update request goes, element by element, to
  \<open>processContextElement\<close>: it selects the entity documents of the service path, merges each attribute with
  what is stored, collects the changes as one database update, collects the subscriptions triggered,
  writes, and then notifies, reading the entity back with \<open>entitiesQuery\<close>: a thread of the notifier sends
  the notification with the HTTP client; attributes that are not stored
  are looked up among the registrations. Requests to the backend are serialised by a semaphore and
  take their database connections from a pool.

  \<^bold>\<open>Theories.\<close>
    \<^item> \<open>Orion_Prelude\<close>: the result type \<open>cpp\<close> (\<open>UB\<close> is undefined behaviour, or an exception nobody catches),
      C strings and character classes, C integers, \<open>atoi\<close>, and the two interfaces used throughout: the locale
      \<open>checked_vector\<close> (a vector whose check returns the first error of its items) and the locale
      \<open>codec\<close> (what is encoded is decoded again).
    \<^item> \<open>Common_String\<close>: \<^verbatim>\<open>common/string.cpp\<close>, \<^verbatim>\<open>common/wsStrip.cpp\<close>, \<^verbatim>\<open>parse/forbiddenChars.cpp\<close>:
      splitting, URLs, numbers and coordinates, versions, service path syntax.
    \<^item> \<open>Common_Globals\<close>: \<^verbatim>\<open>common/globals.cpp\<close>, \<^verbatim>\<open>ngsi/Duration.cpp\<close>, \<^verbatim>\<open>ngsi/Throttling.cpp\<close>: flags,
      ISO 8601 durations with the wrap-around of \<open>int\<close>, transaction ids.
    \<^item> \<open>Compound_Value\<close>: \<^verbatim>\<open>parse/CompoundValueNode.cpp\<close> and the translation of compound values to BSON
      and back; it interprets \<open>codec\<close> for stored values.
    \<^item> \<open>Ngsi_Types\<close>: the records of \<^verbatim>\<open>ngsi/\<close> with their checks, lookups and copies; it interprets
      \<open>checked_vector\<close> for each vector type and the locale \<open>unique_vector\<close> for \<open>push_back_if_absent\<close>.
    \<^item> \<open>Mongo_Names\<close>: attribute names in documents, collection names, expressions for service paths; it
      interprets \<open>codec\<close> for names with dots.
    \<^item> \<open>Mongo_Docs\<close>: documents as records (one field per field name of \<^verbatim>\<open>mongoBackend/MongoGlobal.h\<close>,
      optional fields as options, embedded documents with their field order as association lists), queries
      and updates as values, and the environment.
    \<^item> \<open>Mongo_Query\<close>: \<open>entitiesQuery\<close>, \<open>registrationsQuery\<close>, pruning, context providers and change
      conditions of \<^verbatim>\<open>mongoBackend/MongoGlobal.cpp\<close>.
    \<^item> \<open>Mongo_Attrs\<close> and \<open>Mongo_Update\<close>: \<^verbatim>\<open>mongoBackend/MongoCommonUpdate.cpp\<close>, first one attribute of an
      update, then subscriptions, the attribute loop, creation and removal of entities and
      \<open>processContextElement\<close>.
    \<^item> \<open>Clock_Sem\<close>: \<^verbatim>\<open>common/clockFunctions.cpp\<close>, \<^verbatim>\<open>common/sem.cpp\<close>: clock arithmetic, the request
      semaphore with its policies as a step relation over threads whose labels are the ways the code has to
      enter and to leave (waits that a signal interrupts, gives without a take and returns without a give
      included), and the table of curl contexts.
    \<^item> \<open>Conn_Pool\<close>: \<^verbatim>\<open>mongoBackend/mongoConnectionPool.cpp\<close>: connecting with retries and the pool of
      connections with its two semaphores, as a step relation over threads.
    \<^item> \<open>Mongo_Subs\<close>, \<open>Mongo_Register\<close>, \<open>Mongo_Entry\<close>: the handlers of the backend as a whole, with their use of
      the semaphore: context subscriptions; registrations, discovery and availability subscriptions;
      queries, updates, notifications, entity types and forwarded registrations.
    \<^item> \<open>Rest_Types\<close>: verbs, headers, the connection and its responses (\<^verbatim>\<open>rest/ConnectionInfo.h\<close>).
    \<^item> \<open>Common_Tag\<close>: \<^verbatim>\<open>common/tag.cpp\<close>, the escaping with its buffer, the tags of XML and JSON, and a recogniser of JSON
      documents with which the output is judged.
    \<^item> \<open>Ngsi_Render\<close> and \<open>Ngsi_Messages\<close>: \<open>render\<close> of each data type of \<^verbatim>\<open>ngsi/\<close>, and \<open>render\<close> and \<open>check\<close> of
      the messages of \<^verbatim>\<open>ngsi9/\<close> and \<^verbatim>\<open>ngsi10/\<close>, with the merging of the answers of providers.
    \<^item> \<open>Rest_Request\<close>: \<^verbatim>\<open>rest/rest.cpp\<close> and \<^verbatim>\<open>rest/restReply.cpp\<close>: headers, URI parameters, formats,
      service paths, the three calls of \<open>connectionTreat\<close>, and the replies.
    \<^item> \<open>Rest_Service\<close>: \<^verbatim>\<open>rest/RestService.cpp\<close> and the counters of \<^verbatim>\<open>common/statistics.cpp\<close>.
    \<^item> \<open>Broker_Services\<close>: the vectors of services of \<^verbatim>\<open>contextBroker.cpp\<close> and the routines for bad requests.
    \<^item> \<open>Http_Client\<close>: \<^verbatim>\<open>rest/httpRequestSend.cpp\<close> over the functions of libcurl: the headers and URL of a request,
      the relayer, the buffer that collects the answer, and the table of curl handles.
    \<^item> \<open>Ngsi_Notify\<close>: \<^verbatim>\<open>ngsiNotify/\<close>: the notifier, the threads that send a notification, and the
      threads of subscriptions with an interval, with the structures they read and delete, as a step relation.
    \<^item> \<open>Forward_Update\<close> and \<open>Forward_Query\<close>: \<^verbatim>\<open>serviceRoutines/postUpdateContext.cpp\<close>,
      \<^verbatim>\<open>serviceRoutines/postQueryContext.cpp\<close> and the vectors of \<^verbatim>\<open>orionTypes/\<close> they use: sorting what a
      request asks for by its providers, sending it on, and merging the answers.
    \<^item> \<open>Conv_Ops\<close>: the convenience operations of NGSI10 on entities, attributes and instances of attributes,
      with the types of \<^verbatim>\<open>convenience/\<close>.
    \<^item> This theory: the creation of an entity, across the request, the backend and the database.

  \<^bold>\<open>State and parameters.\<close> Code that mutates objects through pointers returns them; the state of the world
  (database, clock, notifications sent) is a type variable \<open>'w\<close> that is passed along. What the program only
  calls is a function of a record: \<open>env\<close> of \<open>Mongo_Docs\<close> (the MongoDB driver, which may throw, return a NULL
  cursor or return documents; the clock, the notifier, POSIX expressions, the contents of an
  uninitialised buffer, the rendering of queries in error texts), \<open>csub_ops\<close>, \<open>reg_ops\<close> and \<open>entry_ops\<close> (the
  collections of subscriptions and registrations, object ids, aggregation), \<open>driver\<close> (connecting to the
  database), \<open>rest_config\<close> (whether a response can be created), \<open>broker\<close> (the parsers of payloads and the service
  routines), \<open>backend\<close> of \<open>Forward_Update\<close> (all of these for a service routine, with the parsers of the answers of
  providers and the network behind libcurl). The state of a service routine is \<open>cb_state\<close>: the world, the
  request semaphore and the table of curl handles, which theorems about forwarding take to be at rest, as
  every call of \<open>httpRequestSend\<close> leaves it. The rounding of decimal numbers to doubles is the argument \<open>rnd\<close>; the expression engine of the
  database is the argument \<open>re\<close> of the theorems about queries, with its documented behaviour on anchored and
  unanchored literals as hypotheses (\<open>re_spec\<close>, \<open>re_search_spec\<close>), which \<open>lit_match\<close> and \<open>lit_find\<close> satisfy.
  \<open>mem_env\<close> is an environment in memory on which the hypotheses about the environment are shown to hold. A
  \<open>std::map\<close> is an association list walked in the order of its keys, or a map where the order plays no part; a
  \<open>std::set\<close> of field names is sorted. A handler that waits for a semaphore yields \<open>None\<close>. The loops of the
  sources run over finite data and are structural recursion or have a measure (the retries of
  \<open>connect_loop\<close>, the elements of an Accept header, slashes at the end of a path); no fuel is used anywhere.
  Allocation is assumed to succeed, except that of \<open>htmlEscape_buf\<close>, whose size may wrap. Texts that come from the
  database are taken to hold no zero byte.

  \<^bold>\<open>What the theorems show.\<close>
    \<^item> Storing: what is created is read back; merging is idempotent, keeps and replaces the right metadata,
      and loses nothing when it decides that nothing changed, unless metadata were stored with an empty type;
      subscriptions and compound values are read back as they were given.
    \<^item> Updating: which fields each action may touch, that coordinates stay on the globe, that a request without
      change is silent, that refused requests have no effect, that each entity gets one response.
    \<^item> Querying and registering: what the broker holds is never replaced by a provider, answers are
      well-formed, registrations returned match the request, what a registration stores and answers, and which
      associations a failed one leaves behind.
    \<^item> Threads: no connection of the pool is used twice, the pool implements an atomic set of resources and
      drains, connecting is tried 100 times, the requests that the policy serialises exclude each other unless a
      wait is interrupted or a discovery of associations gives back what it did not take.
    \<^item> Requests: outside the service routines no request is lost: a connection ends with a response, with
      the exit of the process or as the routine found for it does; which requests are routed where, which
      URLs, tenants, limits and service paths are accepted, when the treatment of a connection is undefined, when
      buffers suffice.
    \<^item> Other hosts: a request ends, is sent once and leaves the handles at rest; a notification goes to
      the host of its URL; forwarding asks, up to its limit, the providers of attributes and entities and no others,
      and merges the answers without loss; interval threads read live structures unless they are being ended.
    \<^item> Convenience operations: for five operations the two ways to name an entity do the same, an update of
      an instance of an attribute calls the standard update for the entity, name and instance of the URL.
    \<^item> Messages: escaping is injective and stays in its buffer while its size fits an \<open>int\<close>; the JSON that is
      written is a document if the texts need no escaping beyond that; merging the answers of providers conserves
      their attributes.
    \<^item> Defects: updates that may reach another service path, an unsubscription that blocks the broker, URLs
      and headers that make it read or write out of bounds, errors answered twice, malformed JSON and wrong
      \<open>Allow\<close> headers, failures and results that forwarding hides, attributes that are not updated and not
      reported, https requests that are sent in the clear, each stated for the code as it is.

  \<^bold>\<open>Not modelled.\<close> The XML and JSON parsers and the HTTP server (third-party libraries and callbacks for them),
  logging and the command line, the start-up of the broker, and the CoAP proxy (input and output).
  Left for a later extension, in this order: the routines of registrations and subscriptions, which pass their
  payload to the handlers of the backend modelled here, and the convenience operations of NGSI9; the
  second version of the interface (\<^verbatim>\<open>apiTypesV2\<close>); \<open>Scope::check\<close> with its conversions of coordinates.
\<close>

section \<open>Creating an entity, from the request to the database\<close>

text \<open>
  What is relied upon of the database and the notifier: \<open>rows\<close> are the entity documents stored; a
  successful insertion adds the document, a failed one does not, and nothing else used here touches them.
\<close>

definition store_laws :: "'w env \<Rightarrow> ('w \<Rightarrow> ent_doc list) \<Rightarrow> bool" where
  "store_laws e rows \<longleftrightarrow>
     (\<forall>col d w. rows (snd (env_insertEntity e col d w)) =
        (if fst (env_insertEntity e col d w) = None then rows w @ [d] else rows w)) \<and>
     (\<forall>n w. rows (env_sendNotify e n w) = rows w) \<and>
     (\<forall>col i t w. rows (snd (env_updateSub e col i t w)) = rows w) \<and>
     (\<forall>col w. rows (env_ensureIndex e col w) = rows w)"

lemma store_laws_mem_env: "store_laws mem_env mw_rows"
  by (simp add: store_laws_def mem_env_def)

lemma processSubscriptions_loop_rows:
  assumes "store_laws e rows"
  shows "processSubscriptions_loop e en tenant token sp subs ret err w = Ret (r, err', w') \<Longrightarrow> rows w' = rows w"
proof (induction subs arbitrary: ret err w)
  case (Cons s subs)
  obtain i t where s: "s = (i, t)" by fastforce
  let ?col = "getSubscribeContextCollectionName e tenant"
  show ?case
  proof (cases "throttled (env_now e w) t")
    case True
    then show ?thesis using Cons s by simp
  next
    case False
    then obtain sent w1 where o1: "processOnChangeCondition e [EntityId_new (en_id en) (en_type en) (en_isPattern en)] (ts_attrL t)
        None i (ts_reference t) (ts_format t) tenant token sp w = Ret (sent, w1)"
      using Cons.prems s by (auto simp: cpp_bind_Ret)
    have r1: "rows w1 = rows w"
      using processOnChangeCondition_sent [OF o1] assms by (cases sent) (auto simp: store_laws_def)
    obtain x w2 where u: "env_updateSub e ?col i (env_now e w1) w1 = (x, w2)" by fastforce
    have r2: "rows w2 = rows w1" using assms u unfolding store_laws_def by (metis snd_conv)
    show ?thesis
      using Cons.prems s False o1 u Cons.IH r1 r2 by (cases sent; cases x) auto
  qed
qed simp

lemma createEntity_rows:
  assumes "store_laws e rows" and "createEntity e en caV tenant sp w = (err, w')"
  shows "(case err of None \<Rightarrow> \<exists>now loc. processLocation (env_rnd e) caV = Inr loc \<and> rows w' = rows w @ [new_ent_doc now en caV sp loc]
    | Some _ \<Rightarrow> rows w' = rows w)"
proof -
  let ?w = "ensureLocationIndex e tenant w" and ?col = "getEntitiesCollectionName e tenant"
  have r0: "rows ?w = rows w" using assms(1) by (simp add: ensureLocationIndex_def store_laws_def)
  have ins: "rows w1 = (if x = None then rows w @ [d] else rows w)" if "env_insertEntity e ?col d ?w = (x, w1)" for d x w1
    using assms(1) r0 that unfolding store_laws_def by (metis fst_conv snd_conv)
  show ?thesis
  proof (cases "legalIdUsage_vector caV")
    case False
    with assms(2) r0 show ?thesis by (auto simp: createEntity_def Let_def)
  next
    case True
    show ?thesis
    proof (cases "processLocation (env_rnd e) caV")
      case (Inl msg)
      with True assms(2) r0 show ?thesis by (auto simp: createEntity_def Let_def)
    next
      case (Inr loc)
      obtain x w1 where x: "env_insertEntity e ?col (new_ent_doc (env_now e ?w) en caV sp loc) ?w = (x, w1)" by fastforce
      show ?thesis
        using True Inr assms(2) x ins [OF x] by (cases x) (auto simp: createEntity_def Let_def)
    qed
  qed
qed

text \<open>C1: appending an entity that is not stored. If the request is refused (attribute IDs, location or insertion), the
  stored entities are unchanged. Otherwise exactly one document is added, with the id, type and service
  path of the request, and reading that document gives back every attribute of the request.\<close>

theorem append_creates_entity:
  assumes "store_laws e rows" and "strcaseeq action ''append''"
    and "list_all (\<lambda>ca. storable ca \<and> ca_value ca \<noteq> []) (ce_contextAttributeVector ce)"
    and "distinct (map effectiveName (ce_contextAttributeVector ce))"
    and "processMissingEntity e ce action tenant sp token w = Ret (cer, w')"
  shows "if sc_code (cer_statusCode cer) = SccInvalidParameter then rows w' = rows w
    else \<exists>d. rows w' = rows w @ [d] \<and> ed_id d = en_id (ce_entityId ce) \<and> STR_FIELD (ed_type d) = en_type (ce_entityId ce) \<and>
      ed_servicePath d = (case sp of [] \<Rightarrow> None | p # _ \<Rightarrow> Some p) \<and>
      set (attrs_response [] inc (case ed_location d of None \<Rightarrow> [] | Some l \<Rightarrow> ld_attrName l) (the (ed_attrs d))) =
        read_back (case ed_location d of None \<Rightarrow> [] | Some l \<Rightarrow> ld_attrName l) ` set (ce_contextAttributeVector ce)"
proof -
  let ?caV = "ce_contextAttributeVector ce" and ?en = "ce_entityId ce"
  have act: "\<not> strcaseeq action ''update''" "\<not> strcaseeq action ''delete''" using action_cases(2) [OF assms(2)] by auto
  obtain err w1 where c: "createEntity e ?en ?caV tenant sp w = (err, w1)" by fastforce
  show ?thesis
  proof (cases err)
    case (Some msg)
    then show ?thesis
      using assms(5) act c createEntity_rows [OF assms(1) c]
      by (auto simp: processMissingEntity_def Let_def StatusCode_fill_def)
  next
    case None
    then obtain now loc where d: "rows w1 = rows w @ [new_ent_doc now ?en ?caV sp loc]"
      using createEntity_rows [OF assms(1) c] by auto
    let ?d = "new_ent_doc now ?en ?caV sp loc"
    have "rows w' = rows w1 \<and> sc_code (cer_statusCode cer) \<noteq> SccInvalidParameter"
      using assms(5) act c None processSubscriptions_loop_rows [OF assms(1)]
      by (auto simp: processMissingEntity_def Let_def StatusCode_fill_def cpp_bind_Ret processSubscriptions_def
          split: sum.splits)
    moreover have "ed_id ?d = en_id ?en" "STR_FIELD (ed_type ?d) = en_type ?en" "ed_servicePath ?d = (case sp of [] \<Rightarrow> None | p # _ \<Rightarrow> Some p)"
      by (auto simp: new_ent_doc_def STR_FIELD_def split: prod.splits)
    ultimately show ?thesis
      using d attrs_read_back [OF assms(3,4)] by auto
  qed
qed

theorem append_creates_entity_witness:
  "\<exists>cer w' d. processMissingEntity mem_env (ContextElement_new\<lparr>ce_entityId := EntityId_new ''E1'' [] [],
       ce_contextAttributeVector := [attr_with_md ''A'' ''t'' ''1'' []]\<rparr>) ''append'' [] [] [] mem_world0 = Ret (cer, w') \<and>
     mw_rows w' = mw_rows mem_world0 @ [d] \<and> ed_id d = ''E1''"
proof -
  let ?ce = "ContextElement_new\<lparr>ce_entityId := EntityId_new ''E1'' [] [], ce_contextAttributeVector := [attr_with_md ''A'' ''t'' ''1'' []]\<rparr>"
  have st: "list_all (\<lambda>ca. storable ca \<and> ca_value ca \<noteq> []) (ce_contextAttributeVector ?ce)"
    by (simp add: storable_def plain_name_def attr_with_md_def ContextAttribute_new_def)
  have di: "distinct (map effectiveName (ce_contextAttributeVector ?ce))" by simp
  obtain cer w' where c: "processMissingEntity mem_env ?ce ''append'' [] [] [] mem_world0 = Ret (cer, w')"
      and ok: "sc_code (cer_statusCode cer) = SccOk"
    using action_cases(2) [of "''append''"]
    by (simp add: processMissingEntity_def createEntity_def legalIdUsage_vector_def processLocation_def attr_with_md_def
        ContextAttribute_new_def mem_env_def mem_world0_def addTriggeredSubscriptions_def checked_cursor_def
        processSubscriptions_def ensureLocationIndex_def StatusCode_fill_def getId_def Let_def)
  from append_creates_entity [OF store_laws_mem_env _ st di c, of True] ok
  obtain d where "mw_rows w' = mw_rows mem_world0 @ [d]" "ed_id d = en_id (ce_entityId ?ce)" by auto
  moreover have "en_id (ce_entityId ?ce) = ''E1''" by (simp add: EntityId_new_def)
  ultimately show ?thesis using c by metis
qed

end
